(* ===== verification/Prelude.thy ===== *)
theory Prelude
  imports Main "HOL-Library.Word"
begin

text \<open>
  Shared vocabulary of the development.

  \<^item> Go results: an operation that returns \<open>(T, error)\<close> is a value of type
    \<open>go_error + 'a\<close>; \<open>bindE\<close> is the \<open>if err != nil { return err }\<close> pattern.
  \<^item> Go strings: \<open>string\<close> is a list of bytes. The functions of package \<open>strings\<close> the
    services use (\<open>TrimSpace\<close>, \<open>ToUpper\<close>, \<open>ToLower\<close>, \<open>EqualFold\<close>, \<open>HasPrefix\<close>,
    \<open>Contains\<close>, \<open>Split\<close>, \<open>ReplaceAll\<close>) are modelled on ASCII text: a byte above 127 is
    never white space and has no case. (Go also trims the Unicode spaces and folds
    Unicode case.)
  \<^item> \<open>math/big\<close>: \<open>SetString(s, 10)\<close> and \<open>String()\<close> on unbounded integers, with the
    round trip between them.
  \<^item> \<open>strconv.ParseUint(s, 10, 32)\<close>.
\<close>

named_theorems go_string "equations that evaluate the Go string functions"


section \<open>Results\<close>

text \<open>\<open>sql.ErrNoRows\<close> is compared by identity in the sources; every other error is its text.\<close>

datatype go_error = ErrNoRows | Errorf string

definition error_text :: "go_error \<Rightarrow> string" where
  "error_text e = (case e of ErrNoRows \<Rightarrow> ''sql: no rows in result set'' | Errorf s \<Rightarrow> s)"

type_synonym 'a result = "go_error + 'a"

definition bindE :: "'err + 'v \<Rightarrow> ('v \<Rightarrow> 'err + 'w) \<Rightarrow> 'err + 'w" where
  "bindE m f = (case m of Inl e \<Rightarrow> Inl e | Inr x \<Rightarrow> f x)"

lemma bindE_simps [simp]:
  "bindE (Inl e) f = Inl e"
  "bindE (Inr x) f = f x"
  by (simp_all add: bindE_def)

lemma bindE_eq_Inr [simp]: "bindE m f = Inr y \<longleftrightarrow> (\<exists>x. m = Inr x \<and> f x = Inr y)"
  by (cases m) simp_all

lemma bindE_eq_Inl: "bindE m f = Inl e \<longleftrightarrow> m = Inl e \<or> (\<exists>x. m = Inr x \<and> f x = Inl e)"
  by (cases m) simp_all

lemma bindE_cong [fundef_cong]:
  "m = m' \<Longrightarrow> (\<And>x. m' = Inr x \<Longrightarrow> f x = f' x) \<Longrightarrow> bindE m f = bindE m' f'"
  by (cases m') simp_all

text \<open>A loop that collects results and returns at the first error.\<close>

fun mapE :: "('v \<Rightarrow> 'err + 'w) \<Rightarrow> 'v list \<Rightarrow> 'err + 'w list" where
  "mapE f [] = Inr []"
| "mapE f (x # xs) = bindE (f x) (\<lambda>y. bindE (mapE f xs) (\<lambda>ys. Inr (y # ys)))"

lemma mapE_length: "mapE f xs = Inr ys \<Longrightarrow> length ys = length xs"
  by (induction xs arbitrary: ys) auto

definition is_ok :: "'e + 'a \<Rightarrow> bool" where
  "is_ok m = (case m of Inl _ \<Rightarrow> False | Inr _ \<Rightarrow> True)"

lemma is_ok_simps [simp]: "\<not> is_ok (Inl e)" "is_ok (Inr x)"
  by (simp_all add: is_ok_def)

lemma is_ok_iff: "is_ok m \<longleftrightarrow> (\<exists>x. m = Inr x)"
  by (cases m) simp_all

text \<open>\<open>fmt.Errorf("prefix: %w", err)\<close>.\<close>

definition wrapE :: "string \<Rightarrow> 'a result \<Rightarrow> 'a result" where
  "wrapE pre m = (case m of Inl e \<Rightarrow> Inl (Errorf (pre @ error_text e)) | Inr x \<Rightarrow> Inr x)"

lemma wrapE_simps [simp]:
  "wrapE pre (Inl e) = Inl (Errorf (pre @ error_text e))" "wrapE pre (Inr x) = Inr x"
  "wrapE pre m = Inr x \<longleftrightarrow> m = Inr x" "is_ok (wrapE pre m) \<longleftrightarrow> is_ok m"
  by (cases m; simp add: wrapE_def is_ok_def)+


section \<open>Strings\<close>

definition is_space :: "char \<Rightarrow> bool" where
  "is_space c \<longleftrightarrow> (let n = of_char c :: nat in (9 \<le> n \<and> n \<le> 13) \<or> n = 32)"

definition trim_left :: "string \<Rightarrow> string" where
  "trim_left s = dropWhile is_space s"

definition trim_space :: "string \<Rightarrow> string" where
  "trim_space s = rev (trim_left (rev (trim_left s)))"

definition upper_char :: "char \<Rightarrow> char" where
  "upper_char c = (let n = of_char c :: nat in if 97 \<le> n \<and> n \<le> 122 then char_of (n - 32) else c)"

definition lower_char :: "char \<Rightarrow> char" where
  "lower_char c = (let n = of_char c :: nat in if 65 \<le> n \<and> n \<le> 90 then char_of (n + 32) else c)"

definition to_upper :: "string \<Rightarrow> string" where
  "to_upper s = map upper_char s"

definition to_lower :: "string \<Rightarrow> string" where
  "to_lower s = map lower_char s"

definition equal_fold :: "string \<Rightarrow> string \<Rightarrow> bool" where
  "equal_fold a b \<longleftrightarrow> to_lower a = to_lower b"

definition has_prefix :: "string \<Rightarrow> string \<Rightarrow> bool" where
  "has_prefix s p \<longleftrightarrow> take (length p) s = p"

definition trim_prefix :: "string \<Rightarrow> string \<Rightarrow> string" where
  "trim_prefix s p = (if has_prefix s p then drop (length p) s else s)"

fun contains :: "string \<Rightarrow> string \<Rightarrow> bool" where
  "contains [] p = (p = [])"
| "contains (c # s) p = (has_prefix (c # s) p \<or> contains s p)"

text \<open>\<open>strings.Split(s, sep)\<close> for a separator of one byte: never the empty list.\<close>

fun split_on :: "char \<Rightarrow> string \<Rightarrow> string list" where
  "split_on c [] = [[]]"
| "split_on c (x # xs) =
     (if x = c then [] # split_on c xs
      else (case split_on c xs of [] \<Rightarrow> [[x]] | y # ys \<Rightarrow> (x # y) # ys))"

fun join_with :: "char \<Rightarrow> string list \<Rightarrow> string" where
  "join_with c [] = []"
| "join_with c [p] = p"
| "join_with c (p # q # ps) = p @ [c] @ join_with c (q # ps)"

definition replace_char :: "char \<Rightarrow> char \<Rightarrow> string \<Rightarrow> string" where
  "replace_char a b s = map (\<lambda>c. if c = a then b else c) s"

lemmas string_fun_defs [go_string] =
  is_space_def trim_left_def trim_space_def upper_char_def lower_char_def
  to_upper_def to_lower_def equal_fold_def has_prefix_def replace_char_def Let_def

lemma trim_left_id: "(s = [] \<or> \<not> is_space (hd s)) \<Longrightarrow> trim_left s = s"
  by (cases s) (auto simp: trim_left_def)

lemma trim_space_id:
  assumes "s = [] \<or> (\<not> is_space (hd s) \<and> \<not> is_space (last s))"
  shows "trim_space s = s"
proof -
  have "trim_left s = s" using assms by (auto intro: trim_left_id)
  moreover have "trim_left (rev s) = rev s"
    using assms by (auto intro: trim_left_id simp: hd_rev)
  ultimately show ?thesis by (simp add: trim_space_def)
qed

lemma trim_space_no_space: "\<forall>c\<in>set s. \<not> is_space c \<Longrightarrow> trim_space s = s"
  by (cases "s = []") (auto intro!: trim_space_id)

lemma trim_space_Nil [simp]: "trim_space [] = []"
  by (simp add: trim_space_def trim_left_def)

lemma trim_left_idem [simp]: "trim_left (trim_left s) = trim_left s"
  by (simp add: trim_left_def dropWhile_idem)

lemma trim_left_hd: "trim_left s \<noteq> [] \<Longrightarrow> \<not> is_space (hd (trim_left s))"
  unfolding trim_left_def by (rule hd_dropWhile)

lemma trim_left_suffix: "\<exists>p. s = p @ trim_left s \<and> (\<forall>c\<in>set p. is_space c)"
  unfolding trim_left_def
  by (metis set_takeWhileD takeWhile_dropWhile_id)

lemma trim_space_idem [simp]: "trim_space (trim_space s) = trim_space s"
proof (rule trim_space_id)
  let ?t = "trim_space s" and ?u = "trim_left s"
  show "?t = [] \<or> (\<not> is_space (hd ?t) \<and> \<not> is_space (last ?t))"
  proof (cases "?t = []")
    case False
    have "\<not> is_space (last ?t)"
      using False trim_left_hd [of "rev ?u"] by (simp add: trim_space_def last_rev)
    moreover obtain p where p: "rev ?u = p @ trim_left (rev ?u)"
      using trim_left_suffix [of "rev ?u"] by blast
    have u: "?u = ?t @ rev p"
      by (subst rev_rev_ident [symmetric, of ?u], subst p) (simp add: trim_space_def)
    have "hd ?u = hd ?t" using False by (subst u) simp
    moreover have "?u \<noteq> []" using False u by auto
    ultimately show ?thesis using trim_left_hd [of s] by simp
  qed simp
qed

lemma lower_char_idem [simp]: "lower_char (lower_char c) = lower_char c"
proof (cases "65 \<le> (of_char c :: nat) \<and> (of_char c :: nat) \<le> 90")
  case True
  then have "of_char (char_of ((of_char c :: nat) + 32) :: char) = (of_char c :: nat) + 32"
    by simp
  then show ?thesis using True by (simp add: lower_char_def Let_def)
next
  case False
  then show ?thesis by (auto simp: lower_char_def Let_def)
qed

lemma to_lower_idem [simp]: "to_lower (to_lower s) = to_lower s"
  by (simp add: to_lower_def)

lemma is_space_lower [simp]: "is_space (lower_char c) = is_space c"
proof (cases "65 \<le> (of_char c :: nat) \<and> (of_char c :: nat) \<le> 90")
  case True
  then have "of_char (char_of ((of_char c :: nat) + 32) :: char) = (of_char c :: nat) + 32"
    by simp
  then show ?thesis using True by (simp add: lower_char_def is_space_def Let_def)
next
  case False
  then have "lower_char c = c" by (auto simp: lower_char_def Let_def)
  then show ?thesis by simp
qed

lemma trim_left_to_lower: "trim_left (to_lower s) = to_lower (trim_left s)"
  by (induction s) (simp_all add: trim_left_def to_lower_def)

lemma trim_space_to_lower: "trim_space (to_lower s) = to_lower (trim_space s)"
proof -
  have "rev (to_lower x) = to_lower (rev x)" for x by (simp add: to_lower_def rev_map)
  then show ?thesis by (simp add: trim_space_def trim_left_to_lower)
qed

lemma split_on_not_Nil [simp]: "split_on c s \<noteq> []"
  by (induction s) (auto split: list.splits)

lemma split_on_no_sep: "c \<notin> set s \<Longrightarrow> split_on c s = [s]"
  by (induction s) auto

lemma split_on_append_sep: "c \<notin> set p \<Longrightarrow> split_on c (p @ c # s) = p # split_on c s"
  by (induction p) auto

lemma split_on_join:
  "ps \<noteq> [] \<Longrightarrow> \<forall>p\<in>set ps. c \<notin> set p \<Longrightarrow> split_on c (join_with c ps) = ps"
  by (induction c ps rule: join_with.induct) (auto simp: split_on_no_sep split_on_append_sep)


section \<open>Decimal integers\<close>

definition digit_val :: "char \<Rightarrow> nat option" where
  "digit_val c = (let n = of_char c :: nat in if 48 \<le> n \<and> n \<le> 57 then Some (n - 48) else None)"

definition digit_char :: "nat \<Rightarrow> char" where
  "digit_char d = char_of (d + 48)"

text \<open>The digit loop of \<open>nat.scan\<close> in base 10: all bytes must be digits.\<close>

fun scan_digits :: "nat \<Rightarrow> string \<Rightarrow> nat option" where
  "scan_digits acc [] = Some acc"
| "scan_digits acc (c # s) =
     (case digit_val c of None \<Rightarrow> None | Some d \<Rightarrow> scan_digits (10 * acc + d) s)"

definition scan_nat :: "string \<Rightarrow> nat option" where
  "scan_nat s = (if s = [] then None else scan_digits 0 s)"

text \<open>\<open>new(big.Int).SetString(s, 10)\<close>: an optional sign, at least one digit, nothing else.\<close>

definition big_SetString :: "string \<Rightarrow> int option" where
  "big_SetString s =
     (case s of
        [] \<Rightarrow> None
      | c # r \<Rightarrow>
          if c = CHR ''-'' then map_option (\<lambda>n. - int n) (scan_nat r)
          else if c = CHR ''+'' then map_option int (scan_nat r)
          else map_option int (scan_nat s))"

fun nat_to_string :: "nat \<Rightarrow> string" where
  "nat_to_string n =
     (if n < 10 then [digit_char n] else nat_to_string (n div 10) @ [digit_char (n mod 10)])"

declare nat_to_string.simps [simp del]

definition int_to_string :: "int \<Rightarrow> string" where
  "int_to_string i = (if i < 0 then CHR ''-'' # nat_to_string (nat (- i)) else nat_to_string (nat i))"

lemma of_char_digit_char: "d < 10 \<Longrightarrow> (of_char (digit_char d) :: nat) = d + 48"
  by (simp add: digit_char_def)

lemma digit_val_digit_char [simp]: "d < 10 \<Longrightarrow> digit_val (digit_char d) = Some d"
  by (simp add: digit_val_def of_char_digit_char)

lemma digit_char_not_space: "d < 10 \<Longrightarrow> \<not> is_space (digit_char d)"
  by (simp add: is_space_def of_char_digit_char)

lemma digit_char_neq:
  assumes "d < 10" and "(of_char c :: nat) < 48 \<or> 57 < (of_char c :: nat)"
  shows "digit_char d \<noteq> c"
  using of_char_digit_char [OF assms(1)] assms by force

lemma scan_digits_append:
  "scan_digits acc (s @ t) = Option.bind (scan_digits acc s) (\<lambda>a. scan_digits a t)"
  by (induction acc s rule: scan_digits.induct) (auto split: option.splits)

lemma scan_digits_all: "scan_digits acc s = Some n \<Longrightarrow> c \<in> set s \<Longrightarrow> digit_val c \<noteq> None"
  by (induction acc s rule: scan_digits.induct) (auto split: option.splits)

lemma scan_nat_digits: "scan_nat s = Some n \<Longrightarrow> c \<in> set s \<Longrightarrow> digit_val c \<noteq> None"
  by (auto simp: scan_nat_def split: if_splits dest: scan_digits_all)

lemma scan_digits_zeros: "scan_digits acc (replicate k (CHR ''0'')) = Some (acc * 10 ^ k)"
  by (induction k arbitrary: acc) (auto simp: digit_val_def algebra_simps)

lemma big_SetString_digits: "scan_nat s = Some n \<Longrightarrow> big_SetString s = Some (int n)"
  using scan_nat_digits [of s n "hd s"]
  by (cases s) (auto simp: big_SetString_def scan_nat_def digit_val_def)

lemma nat_to_string_digits: "c \<in> set (nat_to_string n) \<Longrightarrow> \<exists>d<10. c = digit_char d"
proof (induction n rule: nat_to_string.induct)
  case (1 n)
  show ?case
  proof (cases "n < 10")
    case True
    with "1.prems" show ?thesis by (auto simp: nat_to_string.simps [of n])
  next
    case False
    with "1.prems" have "c \<in> set (nat_to_string (n div 10)) \<or> c = digit_char (n mod 10)"
      by (auto simp: nat_to_string.simps [of n])
    moreover have "n mod 10 < 10" by simp
    ultimately show ?thesis using "1.IH" [OF False] by blast
  qed
qed

lemma nat_to_string_not_Nil [simp]: "nat_to_string n \<noteq> []"
  by (subst nat_to_string.simps) simp

lemma scan_digits_nat_to_string: "scan_digits 0 (nat_to_string n) = Some n"
proof (induction n rule: nat_to_string.induct)
  case (1 n)
  show ?case
  proof (cases "n < 10")
    case True
    then show ?thesis by (simp add: nat_to_string.simps [of n])
  next
    case False
    then have "scan_digits 0 (nat_to_string (n div 10)) = Some (n div 10)"
      using "1.IH" by simp
    with False show ?thesis
      by (simp add: nat_to_string.simps [of n] scan_digits_append)
  qed
qed

lemma scan_nat_nat_to_string [simp]: "scan_nat (nat_to_string n) = Some n"
  by (simp add: scan_nat_def scan_digits_nat_to_string)

lemma nat_to_string_char_notin:
  assumes "(of_char c :: nat) < 48 \<or> 57 < (of_char c :: nat)"
  shows "c \<notin> set (nat_to_string n)"
  using assms digit_char_neq nat_to_string_digits by blast

lemma nat_to_string_inj: "nat_to_string m = nat_to_string n \<Longrightarrow> m = n"
  by (metis option.inject scan_digits_nat_to_string)

lemma hd_nat_to_string_neq:
  assumes "(of_char c :: nat) < 48 \<or> 57 < (of_char c :: nat)"
  shows "hd (nat_to_string n) \<noteq> c"
  using nat_to_string_char_notin [OF assms, of n] hd_in_set [of "nat_to_string n"] by auto

lemma big_SetString_nat_to_string [simp]: "big_SetString (nat_to_string n) = Some (int n)"
proof -
  obtain c r where cr: "nat_to_string n = c # r"
    by (cases "nat_to_string n") simp_all
  have "c \<noteq> CHR ''-''" "c \<noteq> CHR ''+''"
    using hd_nat_to_string_neq [of "CHR ''-''" n] hd_nat_to_string_neq [of "CHR ''+''" n]
    by (auto simp: cr)
  then show ?thesis
    using scan_nat_nat_to_string [of n] by (simp add: big_SetString_def cr)
qed

lemma big_SetString_int_to_string [simp]: "big_SetString (int_to_string i) = Some i"
proof (cases "i < 0")
  case True
  then show ?thesis by (simp add: int_to_string_def big_SetString_def)
next
  case False
  then show ?thesis by (simp add: int_to_string_def)
qed

lemma nat_to_string_no_space: "c \<in> set (nat_to_string n) \<Longrightarrow> \<not> is_space c"
  using nat_to_string_digits digit_char_not_space by blast

lemma int_to_string_no_space: "c \<in> set (int_to_string i) \<Longrightarrow> \<not> is_space c"
  by (auto simp: int_to_string_def is_space_def Let_def dest: nat_to_string_no_space split: if_splits)

lemma trim_space_int_to_string [simp]: "trim_space (int_to_string i) = int_to_string i"
  by (rule trim_space_no_space) (auto dest: int_to_string_no_space)

lemma trim_space_nat_to_string [simp]: "trim_space (nat_to_string n) = nat_to_string n"
  by (rule trim_space_no_space) (auto dest: nat_to_string_no_space)

lemma int_to_string_inj: "int_to_string i = int_to_string j \<Longrightarrow> i = j"
  by (metis big_SetString_int_to_string option.inject)

text \<open>
  \<open>strconv.ParseUint(s, 10, 32)\<close>: digits only (no sign), the value below \<open>2^32\<close>.
\<close>

definition parse_uint32 :: "string \<Rightarrow> (32 word) option" where
  "parse_uint32 s =
     (case scan_nat s of
        None \<Rightarrow> None
      | Some n \<Rightarrow> if n < 2 ^ 32 then Some (of_nat n) else None)"

lemma parse_uint32_unat [simp]: "parse_uint32 (nat_to_string (unat w)) = Some w"
proof -
  have "unat w < 2 ^ LENGTH(32)" by (rule unsigned_less)
  then show ?thesis by (simp add: parse_uint32_def)
qed


section \<open>Bytes\<close>

text \<open>
  \<open>encoding/hex\<close>: \<open>DecodeString\<close> reads pairs of hex digits of either case; an odd length or
  another character is an error. \<open>EncodeToString\<close> writes lower case. A \<open>[]byte\<close> is a \<open>string\<close>.
\<close>

definition hex_val :: "char \<Rightarrow> nat option" where
  "hex_val c = (let n = of_char c :: nat in
     if 48 \<le> n \<and> n \<le> 57 then Some (n - 48)
     else if 97 \<le> n \<and> n \<le> 102 then Some (n - 87)
     else if 65 \<le> n \<and> n \<le> 70 then Some (n - 55) else None)"

fun hex_decode :: "string \<Rightarrow> string option" where
  "hex_decode [] = Some []"
| "hex_decode [c] = None"
| "hex_decode (a # b # s) =
     (case (hex_val a, hex_val b, hex_decode s) of
        (Some x, Some y, Some r) \<Rightarrow> Some (char_of (16 * x + y) # r)
      | _ \<Rightarrow> None)"

definition hex_digit :: "nat \<Rightarrow> char" where
  "hex_digit n = (if n < 10 then char_of (48 + n) else char_of (87 + n))"

definition hex_encode :: "string \<Rightarrow> string" where
  "hex_encode bs = concat (map (\<lambda>b. let n = of_char b :: nat in [hex_digit (n div 16), hex_digit (n mod 16)]) bs)"

lemma of_char_hex_digit: "n < 16 \<Longrightarrow> (of_char (hex_digit n) :: nat) = (if n < 10 then 48 + n else 87 + n)"
  by (auto simp: hex_digit_def)

lemma hex_val_digit: "n < 16 \<Longrightarrow> hex_val (hex_digit n) = Some n"
  by (auto simp: hex_val_def of_char_hex_digit Let_def)

lemma of_char_bound: "(of_char c :: nat) < 256"
  by (metis char_of_mod_256 mod_less_divisor of_char_of zero_less_numeral of_char_mod_256)

lemma hex_decode_encode [simp]: "hex_decode (hex_encode bs) = Some bs"
proof (induction bs)
  case (Cons b bs)
  have "(of_char b :: nat) div 16 < 16" "(of_char b :: nat) mod 16 < 16"
    using of_char_bound [of b] by (simp_all add: less_mult_imp_div_less)
  moreover have "char_of (16 * ((of_char b :: nat) div 16) + of_char b mod 16) = b" by simp
  ultimately show ?case using Cons by (simp add: hex_encode_def Let_def hex_val_digit)
qed (simp add: hex_encode_def)

lemma hex_encode_inj [simp]: "hex_encode a = hex_encode b \<longleftrightarrow> a = b"
  by (metis hex_decode_encode option.inject)

text \<open>\<open>big.Int\<close> of big-endian bytes and back (without leading zeros); \<open>leftPad\<close>.\<close>

definition bytes_nat :: "string \<Rightarrow> nat" where
  "bytes_nat bs = foldl (\<lambda>n b. 256 * n + of_char b) 0 bs"

fun nat_bytes :: "nat \<Rightarrow> string" where
  "nat_bytes n = (if n = 0 then [] else nat_bytes (n div 256) @ [char_of (n mod 256)])"

declare nat_bytes.simps [simp del]

lemma bytes_nat_snoc [simp]: "bytes_nat (bs @ [b]) = 256 * bytes_nat bs + of_char b"
  by (simp add: bytes_nat_def)

lemma bytes_nat_Nil [simp]: "bytes_nat [] = 0"
  by (simp add: bytes_nat_def)

lemma bytes_nat_nat_bytes [simp]: "bytes_nat (nat_bytes n) = n"
proof (induction n rule: nat_bytes.induct)
  case (1 n)
  then show ?case by (cases "n = 0") (simp_all add: nat_bytes.simps [of n] nat_bytes.simps [of 0])
qed

lemma length_nat_bytes: "n < 256 ^ k \<Longrightarrow> length (nat_bytes n) \<le> k"
proof (induction n arbitrary: k rule: nat_bytes.induct)
  case (1 n)
  show ?case
  proof (cases "n = 0")
    case False
    then obtain j where k: "k = Suc j" using 1(2) by (cases k) auto
    then have "n div 256 < 256 ^ j" using 1(2) by (simp add: less_mult_imp_div_less mult.commute)
    then show ?thesis using 1(1) [OF False] k False by (simp add: nat_bytes.simps [of n])
  qed (simp add: nat_bytes.simps)
qed

lemma bytes_nat_zeros [simp]: "bytes_nat (replicate k (CHR 0x00) @ bs) = bytes_nat bs"
proof (induction bs rule: rev_induct)
  case Nil
  have "bytes_nat (replicate k (CHR 0x00)) = 0"
    by (induction k) (simp_all add: bytes_nat_def)
  then show ?case by simp
qed (simp flip: append_assoc)

end
