(* ===== verification/Sql_Tables.thy ===== *)
theory Sql_Tables
  imports Prelude
begin

text \<open>
  The Postgres tables the services keep their state in, and the statements they run on
  them. A table is the list of its rows in insertion order. A statement's \<open>WHERE\<close> clause
  is a predicate on rows.

  The services address a row by the columns of a \<open>UNIQUE\<close> constraint. The locale
  \<open>unique_table\<close> states that contract between a \<open>WHERE\<close> clause and the key of a table and
  derives what lookups, updates, conflict clauses and column sums do under it; each table
  of the ledger, the registry and the gateway interprets it.
\<close>

type_synonym 'r table = "'r list"

text \<open>\<open>SELECT ... WHERE p\<close> read with \<open>QueryRow\<close>: the first row, \<open>None\<close> for \<open>sql.ErrNoRows\<close>.\<close>

definition select_row :: "('r \<Rightarrow> bool) \<Rightarrow> 'r table \<Rightarrow> 'r option" where
  "select_row p t = List.find p t"

text \<open>\<open>UPDATE ... SET f WHERE p\<close>.\<close>

definition update_where :: "('r \<Rightarrow> bool) \<Rightarrow> ('r \<Rightarrow> 'r) \<Rightarrow> 'r table \<Rightarrow> 'r table" where
  "update_where p f t = map (\<lambda>r. if p r then f r else r) t"

text \<open>\<open>RowsAffected\<close> of such an update.\<close>

definition rows_affected :: "('r \<Rightarrow> bool) \<Rightarrow> 'r table \<Rightarrow> nat" where
  "rows_affected p t = length (filter p t)"

text \<open>\<open>INSERT ... ON CONFLICT (key) DO NOTHING\<close>; \<open>p\<close> selects the conflicting row.\<close>

definition insert_ignore :: "('r \<Rightarrow> bool) \<Rightarrow> 'r \<Rightarrow> 'r table \<Rightarrow> 'r table" where
  "insert_ignore p r t = (case select_row p t of None \<Rightarrow> t @ [r] | Some _ \<Rightarrow> t)"

text \<open>\<open>INSERT ... ON CONFLICT (key) DO UPDATE SET f\<close>.\<close>

definition insert_or_update :: "('r \<Rightarrow> bool) \<Rightarrow> 'r \<Rightarrow> ('r \<Rightarrow> 'r) \<Rightarrow> 'r table \<Rightarrow> 'r table" where
  "insert_or_update p r f t =
     (case select_row p t of None \<Rightarrow> t @ [r] | Some _ \<Rightarrow> update_where p f t)"

text \<open>\<open>SELECT ... WHERE p ORDER BY k LIMIT 1\<close>.\<close>

definition select_first :: "('r \<Rightarrow> 'k::linorder) \<Rightarrow> ('r \<Rightarrow> bool) \<Rightarrow> 'r table \<Rightarrow> 'r option" where
  "select_first k p t = (case sort_key k (filter p t) of [] \<Rightarrow> None | r # _ \<Rightarrow> Some r)"

text \<open>The sum of a column expression over a table.\<close>

definition total :: "('r \<Rightarrow> int) \<Rightarrow> 'r table \<Rightarrow> int" where
  "total w t = sum_list (map w t)"

lemma select_row_Nil [simp]: "select_row p [] = None"
  by (simp add: select_row_def)

lemma select_row_Cons [simp]: "select_row p (r # t) = (if p r then Some r else select_row p t)"
  by (simp add: select_row_def)

lemma select_row_append:
  "select_row p (t @ u) = (case select_row p t of None \<Rightarrow> select_row p u | Some r \<Rightarrow> Some r)"
  by (induction t) auto

lemma select_row_SomeD: "select_row p t = Some r \<Longrightarrow> r \<in> set t \<and> p r"
  by (induction t) (auto split: if_splits)

lemma select_row_None_iff: "select_row p t = None \<longleftrightarrow> (\<forall>r\<in>set t. \<not> p r)"
  by (induction t) auto

lemma update_where_Nil [simp]: "update_where p f [] = []"
  by (simp add: update_where_def)

lemma update_where_Cons [simp]:
  "update_where p f (r # t) = (if p r then f r else r) # update_where p f t"
  by (simp add: update_where_def)

lemma update_where_append [simp]:
  "update_where p f (t @ u) = update_where p f t @ update_where p f u"
  by (simp add: update_where_def)

lemma length_update_where [simp]: "length (update_where p f t) = length t"
  by (simp add: update_where_def)

lemma in_update_where:
  "r \<in> set (update_where p f t) \<longleftrightarrow> (\<exists>s\<in>set t. r = (if p s then f s else s))"
  by (auto simp: update_where_def)

lemma update_where_none: "select_row p t = None \<Longrightarrow> update_where p f t = t"
  by (induction t) (auto split: if_splits)

lemma rows_affected_0 [simp]: "rows_affected p t = 0 \<longleftrightarrow> select_row p t = None"
  by (auto simp: rows_affected_def select_row_None_iff filter_empty_conv)

lemma rows_affected_pos: "0 < rows_affected p t \<longleftrightarrow> select_row p t \<noteq> None"
  using rows_affected_0 [of p t] by linarith

lemma select_first_SomeD:
  assumes "select_first k p t = Some r"
  shows "r \<in> set t" "p r" "s \<in> set t \<Longrightarrow> p s \<Longrightarrow> k r \<le> k s"
proof -
  obtain rs where rs: "sort_key k (filter p t) = r # rs" using assms by (auto simp: select_first_def split: list.splits)
  then have "r \<in> set (sort_key k (filter p t))" by (simp del: set_sort)
  then show "r \<in> set t" "p r" by simp_all
  show "k r \<le> k s" if "s \<in> set t" "p s"
  proof -
    have "s \<in> set (r # rs)" unfolding rs [symmetric] using that by simp
    then show ?thesis using sorted_sort_key [of k "filter p t"] unfolding rs by auto
  qed
qed

lemma select_first_None_iff: "select_first k p t = None \<longleftrightarrow> (\<forall>r\<in>set t. \<not> p r)"
proof -
  have "select_first k p t = None \<longleftrightarrow> sort_key k (filter p t) = []" by (auto simp: select_first_def split: list.splits)
  also have "\<dots> \<longleftrightarrow> filter p t = []" by (metis length_0_conv length_sort)
  finally show ?thesis by (auto simp: filter_empty_conv)
qed

lemma total_simps [simp]:
  "total w [] = 0"
  "total w (r # t) = w r + total w t"
  "total w (t @ u) = total w t + total w u"
  by (simp_all add: total_def)

lemma total_nonneg: "(\<And>r. r \<in> set t \<Longrightarrow> 0 \<le> w r) \<Longrightarrow> 0 \<le> total w t"
  by (induction t) force+

lemma total_member: "(\<And>r. 0 \<le> w r) \<Longrightarrow> r \<in> set t \<Longrightarrow> w r \<le> total w t"
proof (induction t)
  case (Cons s t)
  have "0 \<le> w s" "0 \<le> total w t" using Cons.prems(1) by (simp_all add: total_nonneg)
  then show ?case using Cons.IH [OF Cons.prems(1)] Cons.prems(2) by auto
qed simp

lemma total_update_same:
  "(\<And>r. r \<in> set t \<Longrightarrow> p r \<Longrightarrow> w (f r) = w r) \<Longrightarrow> total w (update_where p f t) = total w t"
  by (induction t) auto

lemma select_update_unselected:
  "(\<And>r. p r \<Longrightarrow> \<not> q r) \<Longrightarrow> (\<And>r. p r \<Longrightarrow> \<not> q (f r)) \<Longrightarrow>
   select_row q (update_where p f t) = select_row q t"
  by (induction t) auto

lemma select_update_same:
  "(\<And>r. p r \<Longrightarrow> p (f r)) \<Longrightarrow> select_row p (update_where p f t) = map_option f (select_row p t)"
  by (induction t) auto

lemma insert_ignore_cases:
  "insert_ignore p r t = (if select_row p t = None then t @ [r] else t)"
  by (simp add: insert_ignore_def split: option.splits)

lemma insert_or_update_cases:
  "insert_or_update p r f t = (if select_row p t = None then t @ [r] else update_where p f t)"
  by (simp add: insert_or_update_def split: option.splits)


section \<open>Tables with a unique key\<close>

locale unique_table =
  fixes key :: "'r \<Rightarrow> 'k"
    and at :: "'k \<Rightarrow> 'r \<Rightarrow> bool"
  assumes at_key: "at k r \<longleftrightarrow> key r = k"
begin

text \<open>The \<open>UNIQUE\<close> constraint.\<close>

definition uniq :: "'r table \<Rightarrow> bool" where
  "uniq t \<longleftrightarrow> distinct (map key t)"

lemma uniq_Nil [simp]: "uniq []"
  by (simp add: uniq_def)

lemma uniq_ConsD: "uniq (r # t) \<Longrightarrow> uniq t"
  by (simp add: uniq_def)

lemma selected_key: "select_row (at k) t = Some r \<Longrightarrow> r \<in> set t \<and> key r = k"
  using select_row_SomeD by (fastforce simp: at_key)

lemma select_None_key: "select_row (at k) t = None \<longleftrightarrow> k \<notin> key ` set t"
  by (auto simp: select_row_None_iff at_key)

lemma select_unique: "uniq t \<Longrightarrow> r \<in> set t \<Longrightarrow> select_row (at (key r)) t = Some r"
  by (induction t) (auto simp: uniq_def at_key)

lemma uniq_update:
  assumes "\<And>r. key (f r) = key r" and "uniq t"
  shows "uniq (update_where p f t)"
proof -
  have "map key (update_where p f t) = map key t"
    using assms(1) by (simp add: update_where_def)
  then show ?thesis using assms(2) by (simp add: uniq_def)
qed

lemma uniq_append: "uniq t \<Longrightarrow> select_row (at (key r)) t = None \<Longrightarrow> uniq (t @ [r])"
  by (auto simp: uniq_def select_None_key)

lemma uniq_insert_ignore: "uniq t \<Longrightarrow> key r = k \<Longrightarrow> uniq (insert_ignore (at k) r t)"
  by (auto simp: insert_ignore_cases intro: uniq_append)

lemma uniq_insert_or_update:
  "(\<And>r. key (f r) = key r) \<Longrightarrow> uniq t \<Longrightarrow> key r = k \<Longrightarrow> uniq (insert_or_update (at k) r f t)"
  by (auto simp: insert_or_update_cases intro: uniq_append uniq_update)

lemma select_update_at:
  assumes "\<And>r. key (f r) = key r"
  shows "select_row (at k) (update_where (at j) f t) =
     (if k = j then map_option f (select_row (at k) t) else select_row (at k) t)"
  using assms by (auto simp: at_key intro!: select_update_same select_update_unselected)

lemma in_update_key:
  assumes "uniq t" and "select_row (at k) t = Some r" and "s \<in> set (update_where (at k) f t)"
  shows "s = f r \<or> s \<in> set t"
  using assms select_unique [OF assms(1)] by (fastforce simp: in_update_where at_key split: if_splits)

lemma select_append_at:
  "select_row (at k) (t @ [r]) =
     (case select_row (at k) t of Some s \<Rightarrow> Some s | None \<Rightarrow> if key r = k then Some r else None)"
  by (auto simp: select_row_append at_key split: option.splits)

lemma select_insert_or_update_at:
  assumes "\<And>r. key (f r) = key r" and "key r = j"
  shows "select_row (at k) (insert_or_update (at j) r f t) =
     (if k = j then Some (case select_row (at j) t of None \<Rightarrow> r | Some s \<Rightarrow> f s)
      else select_row (at k) t)"
  using assms
  by (auto simp: insert_or_update_cases select_append_at select_update_at split: option.splits)

text \<open>
  The accounting law: an update by key moves the column sum by the change in the one row
  it hits, because the key is unique.
\<close>

lemma total_update_key:
  assumes "uniq t" and "select_row (at k) t = Some r"
  shows "total w (update_where (at k) f t) = total w t - w r + w (f r)"
  using assms
proof (induction t)
  case (Cons s t)
  show ?case
  proof (cases "key s = k")
    case True
    then have "select_row (at k) t = None"
      using Cons.prems(1) by (auto simp: uniq_def select_None_key)
    moreover have "at k s" using True by (simp add: at_key)
    ultimately show ?thesis
      using Cons.prems by (simp add: update_where_none)
  next
    case False
    then have "\<not> at k s" by (simp add: at_key)
    then show ?thesis
      using Cons.IH [OF uniq_ConsD [OF Cons.prems(1)]] Cons.prems(2) by simp
  qed
qed simp

end

lemma uniq_code [code]: "unique_table.uniq key t = distinct (map key t)"
proof -
  have "unique_table key (\<lambda>k r. key r = k)" by unfold_locales simp
  then show ?thesis by (rule unique_table.uniq_def)
qed

end
