(* ===== verification/Ports.thy ===== *)
theory Ports
  imports Sql_Tables
begin

text \<open>
  The data that crosses the ports of wallet-core
  (\<open>src/services/wallet-core/internal/ports/ports.go\<close>): one record per Go struct, its
  fields prefixed by the struct's initials. \<open>int64\<close> confirmation counts, thresholds and
  counters, which the services only compare and store, are \<open>int\<close>; \<open>uint32\<close> and the
  transaction amounts keep their width. Times and durations are \<open>int\<close> milliseconds.
\<close>

record signer_ref =
  sr_KeyID :: string
  sr_PublicKey :: string

record tx_vin =
  vin_Hash :: string
  vin_Index :: "32 word"
  vin_Amount :: "64 word"
  vin_Address :: string

record tx_vout =
  vout_Address :: string
  vout_Amount :: "64 word"
  vout_Index :: "32 word"

record build_unsigned_params =
  bp_Chain :: string
  bp_Network :: string
  bp_Coin :: string
  bp_From :: string
  bp_To :: string
  bp_Amount :: string
  bp_Base64Tx :: string
  bp_ContractAddress :: string
  bp_AmountUnit :: string
  bp_TokenDecimals :: "32 word"
  bp_Fee :: string
  bp_Vin :: "tx_vin list"
  bp_Vout :: "tx_vout list"

record build_unsigned_result =
  br_UnsignedTx :: string
  br_SignHashes :: "string list"

record withdraw_queue_input =
  wq_TenantID :: string
  wq_AccountID :: string
  wq_OrderID :: string
  wq_RequiredConfs :: int
  wq_Signers :: "signer_ref list"
  wq_SignType :: string
  wq_Tx :: build_unsigned_params

record withdraw_job =
  job_ID :: int
  job_TenantID :: string
  job_AccountID :: string
  job_OrderID :: string
  job_TxHash :: string
  job_RequiredConfs :: int
  job_AttemptCount :: int
  job_ReplaceCount :: int
  job_Signers :: "signer_ref list"
  job_SignType :: string
  job_Tx :: build_unsigned_params

record chain_balance =
  cb_Balance :: string
  cb_Network :: string
  cb_Sequence :: string

record ledger_status =
  ls_Status :: string
  ls_TxHash :: string
  ls_Reason :: string
  ls_Amount :: string
  ls_QueueStatus :: string
  ls_AttemptCount :: int
  ls_LastError :: string

record balance_snapshot =
  bs_Available :: string
  bs_Frozen :: string
  bs_WithdrawLocked :: string
  bs_Withdrawable :: string

record account_asset =
  aa_Asset :: string
  aa_Available :: string
  aa_Frozen :: string
  aa_WithdrawLocked :: string
  aa_Withdrawable :: string
  aa_VaultAvailable :: string

record deposit_credit_input =
  di_TenantID :: string
  di_AccountID :: string
  di_OrderID :: string
  di_Chain :: string
  di_Network :: string
  di_Coin :: string
  di_Amount :: string
  di_TxHash :: string
  di_FromAddress :: string
  di_ToAddress :: string
  di_Confirmations :: int
  di_RequiredConfs :: int
  di_UnlockConfs :: int
  di_ScanStatus :: string
  di_Status :: string

record sweep_collect_input =
  sc_TenantID :: string
  sc_FromAccountID :: string
  sc_TreasuryAccountID :: string
  sc_SweepOrderID :: string
  sc_Chain :: string
  sc_Network :: string
  sc_Asset :: string
  sc_Amount :: string
  sc_TxHash :: string
  sc_RequiredConfs :: int

record sweep_reserve_input =
  si_TenantID :: string
  si_FromAccountID :: string
  si_TreasuryAccountID :: string
  si_SweepOrderID :: string
  si_Chain :: string
  si_Network :: string
  si_Asset :: string
  si_Amount :: string
  si_RequiredConfs :: int

record sweep_confirm_input =
  sf_TenantID :: string
  sf_SweepOrderID :: string
  sf_TxHash :: string
  sf_Confirmations :: int
  sf_RequiredConfs :: int

record treasury_transfer_reserve_input =
  ti_TenantID :: string
  ti_TransferOrderID :: string
  ti_FromAccountID :: string
  ti_ToAccountID :: string
  ti_Chain :: string
  ti_Network :: string
  ti_Asset :: string
  ti_Amount :: string
  ti_RequiredConfirmations :: int
  ti_SourceTier :: string
  ti_DestinationTier :: string

record treasury_transfer_confirm_input =
  tc_TenantID :: string
  tc_TransferOrderID :: string
  tc_TxHash :: string
  tc_Confirmations :: int
  tc_RequiredConfs :: int

record treasury_transfer_status =
  ts_Status :: string
  ts_TxHash :: string
  ts_Reason :: string
  ts_Amount :: string
  ts_FromAccountID :: string
  ts_ToAccountID :: string
  ts_SourceTier :: string
  ts_DestinationTier :: string
  ts_Confirmations :: int
  ts_RequiredConfs :: int

record broadcast_params =
  bc_Chain :: string
  bc_Network :: string
  bc_Coin :: string
  bc_RawTx :: string
  bc_UnsignedTx :: string
  bc_Signatures :: "string list"
  bc_PublicKeys :: "string list"

end
