(* ===== verification/Ledger_Amounts.thy ===== *)
theory Ledger_Amounts
  imports Ports
begin

text \<open>
  The pure part of the ledger
  (\<open>src/services/wallet-core/internal/adapters/ledger/postgres.go\<close>, from line 1943):
  decimal-string arithmetic on amounts and the life cycle of a deposit.

  Amounts are text columns. \<open>parseIntString\<close> reads them, \<open>amt\<close> is the number they denote;
  the lemmas show the string operations are exactly integer addition and guarded
  subtraction. The four deposit stages form a chain, and
  \<open>resolveEffectiveDepositStatus\<close> is its maximum.
\<close>

section \<open>Decimal amounts\<close>

definition parseIntString :: "string \<Rightarrow> int result" where
  "parseIntString v =
     (case big_SetString (trim_space v) of
        None \<Rightarrow> Inl (Errorf (''invalid integer amount: '' @ v))
      | Some n \<Rightarrow>
          if n < 0 then Inl (Errorf (''negative amount not allowed: '' @ v))
          else Inr n)"

definition addDecimalString :: "string \<Rightarrow> string \<Rightarrow> string result" where
  "addDecimalString a b =
     bindE (parseIntString a) (\<lambda>aa.
     bindE (parseIntString b) (\<lambda>bb.
     Inr (int_to_string (aa + bb))))"

definition subDecimalString :: "string \<Rightarrow> string \<Rightarrow> string result" where
  "subDecimalString a b =
     bindE (parseIntString a) (\<lambda>aa.
     bindE (parseIntString b) (\<lambda>bb.
     if aa < bb then Inl (Errorf ''insufficient balance'')
     else Inr (int_to_string (aa - bb))))"

definition computeWithdrawable :: "string \<Rightarrow> string \<Rightarrow> string result" where
  "computeWithdrawable available withdrawLocked = subDecimalString available withdrawLocked"

definition maxInt64 :: "int \<Rightarrow> int \<Rightarrow> int" where
  "maxInt64 a b = (if a > b then a else b)"

lemma maxInt64_max [simp]: "maxInt64 a b = max a b"
  by (simp add: maxInt64_def max_def)

text \<open>The number an amount column denotes, and whether it denotes one.\<close>

definition valid_amt :: "string \<Rightarrow> bool" where
  "valid_amt s \<longleftrightarrow> is_ok (parseIntString s)"

definition amt :: "string \<Rightarrow> int" where
  "amt s = (case parseIntString s of Inl _ \<Rightarrow> 0 | Inr n \<Rightarrow> n)"

lemma parseIntString_valid: "valid_amt s \<Longrightarrow> parseIntString s = Inr (amt s)"
  by (auto simp: valid_amt_def amt_def is_ok_iff)

lemma parseIntString_Inr: "parseIntString s = Inr n \<longleftrightarrow> valid_amt s \<and> n = amt s"
  by (auto simp: valid_amt_def amt_def is_ok_iff)

lemma amt_nonneg [simp]: "0 \<le> amt s"
  by (auto simp: amt_def parseIntString_def split: option.splits sum.splits if_splits)

lemma parseIntString_int_to_string [simp]:
  "0 \<le> n \<Longrightarrow> parseIntString (int_to_string n) = Inr n"
  by (simp add: parseIntString_def)

lemma valid_amt_int_to_string [simp]: "0 \<le> n \<Longrightarrow> valid_amt (int_to_string n)"
  by (simp add: valid_amt_def)

lemma amt_int_to_string [simp]: "0 \<le> n \<Longrightarrow> amt (int_to_string n) = n"
  by (simp add: amt_def)

lemma valid_amt_zero [simp]: "valid_amt ''0''" and amt_zero [simp]: "amt ''0'' = 0"
proof -
  have z: "''0'' = int_to_string 0"
    by code_simp
  show "valid_amt ''0''" by (simp only: z) simp
  show "amt ''0'' = 0" by (simp only: z) simp
qed

lemma addDecimalString_Inr:
  "addDecimalString a b = Inr c \<longleftrightarrow> valid_amt a \<and> valid_amt b \<and> c = int_to_string (amt a + amt b)"
  by (auto simp: addDecimalString_def parseIntString_Inr)

lemma subDecimalString_Inr:
  "subDecimalString a b = Inr c \<longleftrightarrow>
     valid_amt a \<and> valid_amt b \<and> amt b \<le> amt a \<and> c = int_to_string (amt a - amt b)"
  by (auto simp: subDecimalString_def parseIntString_Inr)

lemma computeWithdrawable_Inr:
  "computeWithdrawable a b = Inr c \<longleftrightarrow>
     valid_amt a \<and> valid_amt b \<and> amt b \<le> amt a \<and> c = int_to_string (amt a - amt b)"
  by (simp add: computeWithdrawable_def subDecimalString_Inr)

lemmas decimal_Inr = addDecimalString_Inr subDecimalString_Inr computeWithdrawable_Inr


section \<open>Deposit life cycle\<close>

definition normalizeStoredDepositStatus :: "string \<Rightarrow> string" where
  "normalizeStoredDepositStatus v =
     (let u = to_upper (trim_space v) in
      if u \<in> {''REVERTED'', ''REORGED'', ''FAILED''} then ''REVERTED''
      else if u = ''FINALIZED'' then ''FINALIZED''
      else if u = ''CONFIRMED'' then ''CONFIRMED''
      else ''PENDING'')"

text \<open>
  The loop over \<open>[]string{scanStatus, fallbackStatus}\<close>: the first candidate that names a
  stage decides; \<open>None\<close> when neither does.
\<close>

fun lifecycle_candidates :: "string list \<Rightarrow> int \<Rightarrow> int \<Rightarrow> string option" where
  "lifecycle_candidates [] confirmations unlockConfs = None"
| "lifecycle_candidates (candidate # rest) confirmations unlockConfs =
     (let u = to_upper (trim_space candidate) in
      if u \<in> {''REVERTED'', ''REORGED'', ''FAILED''} then Some ''REVERTED''
      else if u = ''FINALIZED'' then Some ''FINALIZED''
      else if u = ''CONFIRMED'' then
        (if unlockConfs > 0 \<and> confirmations \<ge> unlockConfs then Some ''FINALIZED''
         else Some ''CONFIRMED'')
      else lifecycle_candidates rest confirmations unlockConfs)"

definition normalizeDepositLifecycleStatus ::
  "string \<Rightarrow> string \<Rightarrow> int \<Rightarrow> int \<Rightarrow> int \<Rightarrow> string" where
  "normalizeDepositLifecycleStatus scanStatus fallbackStatus confirmations requiredConfs unlockConfs =
     (case lifecycle_candidates [scanStatus, fallbackStatus] confirmations unlockConfs of
        Some st \<Rightarrow> st
      | None \<Rightarrow>
          let requiredConfs' = (if requiredConfs \<le> 0 then 1 else requiredConfs);
              unlockConfs' = (if unlockConfs > 0 \<and> unlockConfs < requiredConfs'
                              then requiredConfs' else unlockConfs)
          in if unlockConfs' > 0 \<and> confirmations \<ge> unlockConfs' then ''FINALIZED''
             else if confirmations \<ge> requiredConfs' then ''CONFIRMED''
             else ''PENDING'')"

definition resolveEffectiveDepositStatus :: "string \<Rightarrow> string \<Rightarrow> string" where
  "resolveEffectiveDepositStatus oldStatus targetStatus =
     (let old = normalizeStoredDepositStatus oldStatus;
          target = normalizeStoredDepositStatus targetStatus
      in if target = ''REVERTED'' then ''REVERTED''
         else if old = ''REVERTED'' then ''REVERTED''
         else if old = ''FINALIZED'' then ''FINALIZED''
         else if old = ''CONFIRMED'' then
           (if target = ''FINALIZED'' then ''FINALIZED'' else ''CONFIRMED'')
         else target)"

definition depositStatusCredits :: "string \<Rightarrow> bool" where
  "depositStatusCredits status \<longleftrightarrow>
     normalizeStoredDepositStatus status \<in> {''CONFIRMED'', ''FINALIZED''}"

text \<open>The stages as an ordered type: the abstract life cycle the strings encode.\<close>

datatype deposit_stage = Pending | Confirmed | Finalized | Reverted

fun stage_rank :: "deposit_stage \<Rightarrow> nat" where
  "stage_rank Pending = 0"
| "stage_rank Confirmed = 1"
| "stage_rank Finalized = 2"
| "stage_rank Reverted = 3"

lemma stage_rank_inj: "stage_rank a = stage_rank b \<Longrightarrow> a = b"
  by (cases a; cases b) simp_all

instantiation deposit_stage :: linorder
begin

definition less_eq_deposit_stage :: "deposit_stage \<Rightarrow> deposit_stage \<Rightarrow> bool" where
  "less_eq_deposit_stage a b \<longleftrightarrow> stage_rank a \<le> stage_rank b"

definition less_deposit_stage :: "deposit_stage \<Rightarrow> deposit_stage \<Rightarrow> bool" where
  "less_deposit_stage a b \<longleftrightarrow> stage_rank a < stage_rank b"

instance
  by standard (auto simp: less_eq_deposit_stage_def less_deposit_stage_def intro: stage_rank_inj)

end

definition stage_of :: "string \<Rightarrow> deposit_stage" where
  "stage_of v =
     (let n = normalizeStoredDepositStatus v in
      if n = ''REVERTED'' then Reverted
      else if n = ''FINALIZED'' then Finalized
      else if n = ''CONFIRMED'' then Confirmed
      else Pending)"

definition stage_name :: "deposit_stage \<Rightarrow> string" where
  "stage_name s =
     (case s of Pending \<Rightarrow> ''PENDING'' | Confirmed \<Rightarrow> ''CONFIRMED''
      | Finalized \<Rightarrow> ''FINALIZED'' | Reverted \<Rightarrow> ''REVERTED'')"

lemma normalize_stage: "normalizeStoredDepositStatus v = stage_name (stage_of v)"
  by (simp add: normalizeStoredDepositStatus_def stage_of_def stage_name_def Let_def)

lemma normalize_stage_name [simp]: "normalizeStoredDepositStatus (stage_name s) = stage_name s"
  by (cases s) (simp_all add: normalizeStoredDepositStatus_def stage_name_def go_string)

lemma stage_name_inj [simp]: "stage_name a = stage_name b \<longleftrightarrow> a = b"
  by (cases a; cases b) (simp_all add: stage_name_def)

lemma stage_of_stage_name [simp]: "stage_of (stage_name s) = s"
  by (metis normalize_stage normalize_stage_name stage_name_inj)

lemma resolve_is_max:
  "resolveEffectiveDepositStatus old target = stage_name (max (stage_of old) (stage_of target))"
  unfolding resolveEffectiveDepositStatus_def normalize_stage Let_def
  by (cases "stage_of old"; cases "stage_of target")
     (simp_all add: stage_name_def max_def less_eq_deposit_stage_def)

lemma credits_stage: "depositStatusCredits v \<longleftrightarrow> stage_of v \<in> {Confirmed, Finalized}"
  unfolding depositStatusCredits_def normalize_stage
  by (cases "stage_of v") (simp_all add: stage_name_def)

lemma stage_of_Nil [simp]: "stage_of [] = Pending"
  by (simp add: stage_of_def normalizeStoredDepositStatus_def to_upper_def Let_def)

lemma max_Pending [simp]: "max Pending s = s" "max s Pending = s"
  by (cases s; simp add: max_def less_eq_deposit_stage_def)+

end
