(* ===== verification/Ledger_State.thy ===== *)
theory Ledger_State
  imports Ledger_Amounts
begin

text \<open>
  The tables of the ledger
  (\<open>src/services/wallet-core/internal/adapters/ledger/postgres.go\<close>, \<open>ensureSchema\<close>), the
  balance rows and the statements several operations share.

  \<^item> one record per table, one field per column; the \<open>BIGSERIAL\<close> id is kept for
    \<open>withdraw_jobs\<close> only, the one table whose id a query reads;
  \<^item> JSON columns hold the decoded values;
  \<^item> \<open>NOW()\<close> is the transaction's start time, an argument of every operation (milliseconds);
  \<^item> an operation maps a database to \<open>Inl err\<close> (the deferred rollback: nothing changes) or
    to \<open>Inr\<close> of the committed database. The \<open>FOR UPDATE\<close> row locks make operations on
    one row sequential; failures of the connection are not modelled.

  \<open>view\<close> reads the balances of one account and asset as integers; the lemmas relate
  \<open>getBalanceTx\<close> and \<open>upsertBalanceTx\<close> to it.
\<close>

named_theorems ledger_stmt "definitions of the shared SQL statements"

section \<open>Tables\<close>

record freeze_row =
  lf_tenant :: string
  lf_account :: string
  lf_order :: string
  lf_chain :: string
  lf_network :: string
  lf_asset :: string
  lf_amount :: string
  lf_status :: string
  lf_tx_hash :: string
  lf_reason :: string
  lf_confirmations :: int
  lf_required :: int
  lf_created_at :: int
  lf_updated_at :: int

record entry_row =
  le_tenant :: string
  le_account :: string
  le_order :: string
  le_asset :: string
  le_type :: string
  le_amount :: string
  le_status :: string
  le_created_at :: int
  le_updated_at :: int

record balance_row =
  lb_tenant :: string
  lb_account :: string
  lb_asset :: string
  lb_available :: string
  lb_frozen :: string
  lb_locked :: string
  lb_updated_at :: int

record journal_row =
  lj_tenant :: string
  lj_biz_type :: string
  lj_biz_id :: string
  lj_account :: string
  lj_asset :: string
  lj_side :: string
  lj_amount :: string
  lj_balance_after :: string
  lj_created_at :: int

record job_row =
  wj_id :: int
  wj_tenant :: string
  wj_account :: string
  wj_order :: string
  wj_tx :: build_unsigned_params
  wj_signers :: "signer_ref list"
  wj_sign_type :: string
  wj_required :: int
  wj_status :: string
  wj_tx_hash :: string
  wj_last_error :: string
  wj_attempts :: int
  wj_replacements :: int
  wj_next_retry_at :: int
  wj_started_at :: "int option"
  wj_created_at :: int
  wj_updated_at :: int

record attempt_row =
  wa_tenant :: string
  wa_order :: string
  wa_tx_hash :: string
  wa_unsigned_tx :: string
  wa_status :: string
  wa_created_at :: int
  wa_updated_at :: int

record deposit_row =
  de_tenant :: string
  de_account :: string
  de_order :: string
  de_chain :: string
  de_network :: string
  de_coin :: string
  de_amount :: string
  de_tx_hash :: string
  de_from :: string
  de_to :: string
  de_confirmations :: int
  de_required :: int
  de_unlock :: int
  de_status :: string
  de_credited :: bool
  de_unlocked :: bool
  de_created_at :: int
  de_updated_at :: int

record audit_row =
  ae_tenant :: string
  ae_account :: string
  ae_order :: string
  ae_chain :: string
  ae_network :: string
  ae_asset :: string
  ae_amount :: string
  ae_type :: string
  ae_detail :: string
  ae_created_at :: int
  ae_updated_at :: int

record sweep_row =
  so_tenant :: string
  so_order :: string
  so_from :: string
  so_treasury :: string
  so_chain :: string
  so_network :: string
  so_asset :: string
  so_amount :: string
  so_tx_hash :: string
  so_reason :: string
  so_confirmations :: int
  so_required :: int
  so_status :: string
  so_created_at :: int
  so_updated_at :: int

record transfer_row =
  tt_tenant :: string
  tt_order :: string
  tt_from :: string
  tt_to :: string
  tt_chain :: string
  tt_network :: string
  tt_asset :: string
  tt_amount :: string
  tt_tx_hash :: string
  tt_reason :: string
  tt_confirmations :: int
  tt_required :: int
  tt_source_tier :: string
  tt_dest_tier :: string
  tt_status :: string
  tt_created_at :: int
  tt_updated_at :: int

record vault_row =
  vb_tenant :: string
  vb_account :: string
  vb_asset :: string
  vb_available :: string
  vb_updated_at :: int

record vault_journal_row =
  vj_tenant :: string
  vj_biz_type :: string
  vj_biz_id :: string
  vj_account :: string
  vj_asset :: string
  vj_side :: string
  vj_amount :: string
  vj_balance_after :: string
  vj_created_at :: int

text \<open>\<open>job_seq\<close> is the sequence behind \<open>withdraw_jobs.id\<close>; an insert draws from it even when it conflicts.\<close>

record ledger_db =
  ledger_freezes :: "freeze_row table"
  ledger_entries :: "entry_row table"
  ledger_balances :: "balance_row table"
  ledger_journals :: "journal_row table"
  withdraw_jobs :: "job_row table"
  withdraw_tx_attempts :: "attempt_row table"
  deposit_events :: "deposit_row table"
  ledger_audit_events :: "audit_row table"
  sweep_orders :: "sweep_row table"
  treasury_transfer_orders :: "transfer_row table"
  vault_balances :: "vault_row table"
  vault_journals :: "vault_journal_row table"
  job_seq :: int

definition empty_db :: ledger_db where
  "empty_db = \<lparr>ledger_freezes = [], ledger_entries = [], ledger_balances = [], ledger_journals = [],
     withdraw_jobs = [], withdraw_tx_attempts = [], deposit_events = [], ledger_audit_events = [],
     sweep_orders = [], treasury_transfer_orders = [], vault_balances = [], vault_journals = [],
     job_seq = 0\<rparr>"


section \<open>Row addresses\<close>

type_synonym order_key = "string \<times> string"
type_synonym account_key = "string \<times> string \<times> string"

definition lf_key :: "freeze_row \<Rightarrow> order_key" where "lf_key r = (lf_tenant r, lf_order r)"
definition lf_at :: "order_key \<Rightarrow> freeze_row \<Rightarrow> bool" where
  "lf_at k r \<longleftrightarrow> lf_tenant r = fst k \<and> lf_order r = snd k"

definition lb_key :: "balance_row \<Rightarrow> account_key" where
  "lb_key r = (lb_tenant r, lb_account r, lb_asset r)"
definition lb_at :: "account_key \<Rightarrow> balance_row \<Rightarrow> bool" where
  "lb_at k r \<longleftrightarrow> lb_tenant r = fst k \<and> lb_account r = fst (snd k) \<and> lb_asset r = snd (snd k)"

definition wj_key :: "job_row \<Rightarrow> order_key" where "wj_key r = (wj_tenant r, wj_order r)"
definition wj_at :: "order_key \<Rightarrow> job_row \<Rightarrow> bool" where
  "wj_at k r \<longleftrightarrow> wj_tenant r = fst k \<and> wj_order r = snd k"

definition de_key :: "deposit_row \<Rightarrow> order_key" where "de_key r = (de_tenant r, de_order r)"
definition de_at :: "order_key \<Rightarrow> deposit_row \<Rightarrow> bool" where
  "de_at k r \<longleftrightarrow> de_tenant r = fst k \<and> de_order r = snd k"

definition so_key :: "sweep_row \<Rightarrow> order_key" where "so_key r = (so_tenant r, so_order r)"
definition so_at :: "order_key \<Rightarrow> sweep_row \<Rightarrow> bool" where
  "so_at k r \<longleftrightarrow> so_tenant r = fst k \<and> so_order r = snd k"

definition tt_key :: "transfer_row \<Rightarrow> order_key" where "tt_key r = (tt_tenant r, tt_order r)"
definition tt_at :: "order_key \<Rightarrow> transfer_row \<Rightarrow> bool" where
  "tt_at k r \<longleftrightarrow> tt_tenant r = fst k \<and> tt_order r = snd k"

definition vb_key :: "vault_row \<Rightarrow> account_key" where
  "vb_key r = (vb_tenant r, vb_account r, vb_asset r)"
definition vb_at :: "account_key \<Rightarrow> vault_row \<Rightarrow> bool" where
  "vb_at k r \<longleftrightarrow> vb_tenant r = fst k \<and> vb_account r = fst (snd k) \<and> vb_asset r = snd (snd k)"

interpretation freezes: unique_table lf_key lf_at
  by unfold_locales (auto simp: lf_key_def lf_at_def)

interpretation balances: unique_table lb_key lb_at
  by unfold_locales (auto simp: lb_key_def lb_at_def)

interpretation jobs: unique_table wj_key wj_at
  by unfold_locales (auto simp: wj_key_def wj_at_def)

interpretation deposits: unique_table de_key de_at
  by unfold_locales (auto simp: de_key_def de_at_def)

interpretation sweeps: unique_table so_key so_at
  by unfold_locales (auto simp: so_key_def so_at_def)

interpretation transfers: unique_table tt_key tt_at
  by unfold_locales (auto simp: tt_key_def tt_at_def)

interpretation vaults: unique_table vb_key vb_at
  by unfold_locales (auto simp: vb_key_def vb_at_def)


section \<open>Shared statements\<close>

definition getBalanceTx :: "string \<Rightarrow> string \<Rightarrow> string \<Rightarrow> ledger_db \<Rightarrow> balance_snapshot result" where
  "getBalanceTx tenantID accountID asset db =
     (case select_row (lb_at (tenantID, accountID, asset)) (ledger_balances db) of
        None \<Rightarrow> Inr \<lparr>bs_Available = ''0'', bs_Frozen = ''0'', bs_WithdrawLocked = ''0'', bs_Withdrawable = ''0''\<rparr>
      | Some r \<Rightarrow>
          bindE (computeWithdrawable (lb_available r) (lb_locked r)) (\<lambda>w.
          Inr \<lparr>bs_Available = lb_available r, bs_Frozen = lb_frozen r,
               bs_WithdrawLocked = lb_locked r, bs_Withdrawable = w\<rparr>))"

definition upsertBalanceTx ::
  "int \<Rightarrow> string \<Rightarrow> string \<Rightarrow> string \<Rightarrow> string \<Rightarrow> string \<Rightarrow> string \<Rightarrow> ledger_db \<Rightarrow> ledger_db" where
  "upsertBalanceTx now tenantID accountID asset available frozen withdrawLocked db =
     db\<lparr>ledger_balances :=
       insert_or_update (lb_at (tenantID, accountID, asset))
         \<lparr>lb_tenant = tenantID, lb_account = accountID, lb_asset = asset, lb_available = available,
          lb_frozen = frozen, lb_locked = withdrawLocked, lb_updated_at = now\<rparr>
         (\<lambda>r. r\<lparr>lb_available := available, lb_frozen := frozen, lb_locked := withdrawLocked,
                lb_updated_at := now\<rparr>)
         (ledger_balances db)\<rparr>"

definition getVaultBalanceTx :: "string \<Rightarrow> string \<Rightarrow> string \<Rightarrow> ledger_db \<Rightarrow> balance_snapshot result" where
  "getVaultBalanceTx tenantID treasuryAccountID asset db =
     (case select_row (vb_at (tenantID, treasuryAccountID, asset)) (vault_balances db) of
        None \<Rightarrow> Inr \<lparr>bs_Available = ''0'', bs_Frozen = ''0'', bs_WithdrawLocked = [], bs_Withdrawable = []\<rparr>
      | Some r \<Rightarrow> Inr \<lparr>bs_Available = vb_available r, bs_Frozen = ''0'',
                        bs_WithdrawLocked = [], bs_Withdrawable = []\<rparr>)"

definition upsertVaultBalanceTx ::
  "int \<Rightarrow> string \<Rightarrow> string \<Rightarrow> string \<Rightarrow> string \<Rightarrow> ledger_db \<Rightarrow> ledger_db" where
  "upsertVaultBalanceTx now tenantID treasuryAccountID asset available db =
     db\<lparr>vault_balances :=
       insert_or_update (vb_at (tenantID, treasuryAccountID, asset))
         \<lparr>vb_tenant = tenantID, vb_account = treasuryAccountID, vb_asset = asset,
          vb_available = available, vb_updated_at = now\<rparr>
         (\<lambda>r. r\<lparr>vb_available := available, vb_updated_at := now\<rparr>)
         (vault_balances db)\<rparr>"

text \<open>\<open>INSERT INTO ledger_entries ... ON CONFLICT (tenant_id, order_id, entry_type) DO NOTHING\<close>.\<close>

definition insert_entry ::
  "int \<Rightarrow> string \<Rightarrow> string \<Rightarrow> string \<Rightarrow> string \<Rightarrow> string \<Rightarrow> string \<Rightarrow> string \<Rightarrow> ledger_db \<Rightarrow> ledger_db" where
  "insert_entry now tenantID accountID orderID asset entryType amount status db =
     db\<lparr>ledger_entries :=
       insert_ignore (\<lambda>r. le_tenant r = tenantID \<and> le_order r = orderID \<and> le_type r = entryType)
         \<lparr>le_tenant = tenantID, le_account = accountID, le_order = orderID, le_asset = asset,
          le_type = entryType, le_amount = amount, le_status = status,
          le_created_at = now, le_updated_at = now\<rparr>
         (ledger_entries db)\<rparr>"

text \<open>\<open>UPDATE ledger_entries SET status=... WHERE tenant_id AND order_id AND entry_type\<close>.\<close>

definition set_entry_status ::
  "int \<Rightarrow> string \<Rightarrow> string \<Rightarrow> string \<Rightarrow> string \<Rightarrow> ledger_db \<Rightarrow> ledger_db" where
  "set_entry_status now tenantID orderID entryType status db =
     db\<lparr>ledger_entries :=
       update_where (\<lambda>r. le_tenant r = tenantID \<and> le_order r = orderID \<and> le_type r = entryType)
         (\<lambda>r. r\<lparr>le_status := status, le_updated_at := now\<rparr>) (ledger_entries db)\<rparr>"

text \<open>\<open>INSERT INTO ledger_journals ... ON CONFLICT (tenant, biz_type, biz_id, account, side) DO NOTHING\<close>.\<close>

definition insert_journal ::
  "int \<Rightarrow> string \<Rightarrow> string \<Rightarrow> string \<Rightarrow> string \<Rightarrow> string \<Rightarrow> string \<Rightarrow> string \<Rightarrow> string \<Rightarrow> ledger_db \<Rightarrow> ledger_db" where
  "insert_journal now tenantID bizType bizID accountID asset side amount balanceAfter db =
     db\<lparr>ledger_journals :=
       insert_ignore (\<lambda>r. lj_tenant r = tenantID \<and> lj_biz_type r = bizType \<and> lj_biz_id r = bizID \<and>
                          lj_account r = accountID \<and> lj_side r = side)
         \<lparr>lj_tenant = tenantID, lj_biz_type = bizType, lj_biz_id = bizID, lj_account = accountID,
          lj_asset = asset, lj_side = side, lj_amount = amount, lj_balance_after = balanceAfter,
          lj_created_at = now\<rparr>
         (ledger_journals db)\<rparr>"

text \<open>\<open>INSERT INTO vault_journals ... ON CONFLICT (...) DO NOTHING\<close>.\<close>

definition insert_vault_journal ::
  "int \<Rightarrow> string \<Rightarrow> string \<Rightarrow> string \<Rightarrow> string \<Rightarrow> string \<Rightarrow> string \<Rightarrow> string \<Rightarrow> string \<Rightarrow> ledger_db \<Rightarrow> ledger_db" where
  "insert_vault_journal now tenantID bizType bizID accountID asset side amount balanceAfter db =
     db\<lparr>vault_journals :=
       insert_ignore (\<lambda>r. vj_tenant r = tenantID \<and> vj_biz_type r = bizType \<and> vj_biz_id r = bizID \<and>
                          vj_account r = accountID \<and> vj_side r = side)
         \<lparr>vj_tenant = tenantID, vj_biz_type = bizType, vj_biz_id = bizID, vj_account = accountID,
          vj_asset = asset, vj_side = side, vj_amount = amount, vj_balance_after = balanceAfter,
          vj_created_at = now\<rparr>
         (vault_journals db)\<rparr>"

text \<open>\<open>UPDATE withdraw_jobs SET f, updated_at=NOW() WHERE tenant_id AND order_id\<close>.\<close>

definition update_job ::
  "int \<Rightarrow> string \<Rightarrow> string \<Rightarrow> (job_row \<Rightarrow> job_row) \<Rightarrow> ledger_db \<Rightarrow> ledger_db" where
  "update_job now tenantID orderID f db =
     db\<lparr>withdraw_jobs :=
       update_where (wj_at (tenantID, orderID)) (\<lambda>r. (f r)\<lparr>wj_updated_at := now\<rparr>) (withdraw_jobs db)\<rparr>"

text \<open>\<open>UPDATE ledger_freezes SET f, updated_at=NOW() WHERE tenant_id AND order_id\<close>.\<close>

definition update_freeze ::
  "int \<Rightarrow> string \<Rightarrow> string \<Rightarrow> (freeze_row \<Rightarrow> freeze_row) \<Rightarrow> ledger_db \<Rightarrow> ledger_db" where
  "update_freeze now tenantID orderID f db =
     db\<lparr>ledger_freezes :=
       update_where (lf_at (tenantID, orderID)) (\<lambda>r. (f r)\<lparr>lf_updated_at := now\<rparr>) (ledger_freezes db)\<rparr>"

text \<open>\<open>UPDATE withdraw_tx_attempts SET status=... WHERE tenant_id AND order_id AND tx_hash\<close>.\<close>

definition set_attempt_status ::
  "int \<Rightarrow> string \<Rightarrow> string \<Rightarrow> string \<Rightarrow> string \<Rightarrow> ledger_db \<Rightarrow> ledger_db" where
  "set_attempt_status now tenantID orderID txHash status db =
     db\<lparr>withdraw_tx_attempts :=
       update_where (\<lambda>r. wa_tenant r = tenantID \<and> wa_order r = orderID \<and> wa_tx_hash r = txHash)
         (\<lambda>r. r\<lparr>wa_status := status, wa_updated_at := now\<rparr>) (withdraw_tx_attempts db)\<rparr>"

text \<open>\<open>INSERT INTO withdraw_tx_attempts ... ON CONFLICT (tenant_id, tx_hash) DO UPDATE\<close>.\<close>

definition upsert_attempt ::
  "int \<Rightarrow> string \<Rightarrow> string \<Rightarrow> string \<Rightarrow> string \<Rightarrow> ledger_db \<Rightarrow> ledger_db" where
  "upsert_attempt now tenantID orderID txHash unsignedTx db =
     db\<lparr>withdraw_tx_attempts :=
       insert_or_update (\<lambda>r. wa_tenant r = tenantID \<and> wa_tx_hash r = txHash)
         \<lparr>wa_tenant = tenantID, wa_order = orderID, wa_tx_hash = txHash, wa_unsigned_tx = unsignedTx,
          wa_status = ''BROADCASTED'', wa_created_at = now, wa_updated_at = now\<rparr>
         (\<lambda>r. r\<lparr>wa_unsigned_tx := unsignedTx, wa_status := ''BROADCASTED'', wa_updated_at := now\<rparr>)
         (withdraw_tx_attempts db)\<rparr>"

lemmas shared_stmt_defs [ledger_stmt] =
  insert_entry_def set_entry_status_def insert_journal_def insert_vault_journal_def
  update_job_def update_freeze_def set_attempt_status_def upsert_attempt_def

end
