(* ===== verification/Ledger_Accounts.thy ===== *)
theory Ledger_Accounts
  imports Ledger_State "HOL-Library.List_Lexorder" "HOL-Library.Char_ord"
begin

text \<open>
  The balance tables as the operations of the ledger use them: an account store that maps
  an account key to integers. The locale \<open>account_store\<close> is the contract (what a read
  returns after a write, what a write keeps of well-formedness); \<open>ledger_balances\<close> and
  \<open>vault_balances\<close> interpret it. \<open>GetBalance\<close>, \<open>ListAccountAssets\<close> and
  \<open>GetTreasuryTransferStatus\<close> are the read operations of the ledger.
\<close>

section \<open>The account store contract\<close>

locale account_store =
  fixes view :: "'t \<Rightarrow> 'k \<Rightarrow> 'v"
    and put :: "'k \<Rightarrow> 'w \<Rightarrow> 't \<Rightarrow> 't"
    and denote :: "'w \<Rightarrow> 'v"
    and valid :: "'w \<Rightarrow> bool"
    and wf :: "'t \<Rightarrow> bool"
  assumes view_put: "wf t \<Longrightarrow> valid w \<Longrightarrow> view (put k w t) = (view t)(k := denote w)"
    and wf_put: "wf t \<Longrightarrow> valid w \<Longrightarrow> wf (put k w t)"
begin

text \<open>A sequence of writes: what an account reads afterwards is the last write to it.\<close>

primrec put_all :: "('k \<times> 'w) list \<Rightarrow> 't \<Rightarrow> 't" where
  "put_all [] t = t"
| "put_all (x # xs) t = put_all xs (put (fst x) (snd x) t)"

lemma wf_put_all: "wf t \<Longrightarrow> \<forall>x\<in>set xs. valid (snd x) \<Longrightarrow> wf (put_all xs t)"
  by (induction xs arbitrary: t) (auto intro: wf_put)

lemma put_all_frame:
  "wf t \<Longrightarrow> \<forall>x\<in>set xs. valid (snd x) \<Longrightarrow> k \<notin> fst ` set xs \<Longrightarrow> view (put_all xs t) k = view t k"
  by (induction xs arbitrary: t) (auto simp: view_put wf_put)

lemma put_all_last:
  "wf t \<Longrightarrow> \<forall>x\<in>set xs. valid (snd x) \<Longrightarrow> valid w \<Longrightarrow> view (put_all (xs @ [(k, w)]) t) k = denote w"
  by (induction xs arbitrary: t) (auto simp: view_put wf_put)

lemma put_overwrite:
  "wf t \<Longrightarrow> valid w \<Longrightarrow> valid w' \<Longrightarrow> view (put k w' (put k w t)) = view (put k w' t)"
  by (simp add: view_put wf_put)

end


section \<open>Customer balances\<close>

record account_view =
  av_available :: int
  av_frozen :: int
  av_locked :: int

definition row_view :: "balance_row \<Rightarrow> account_view" where
  "row_view r = \<lparr>av_available = amt (lb_available r), av_frozen = amt (lb_frozen r),
                 av_locked = amt (lb_locked r)\<rparr>"

definition zero_view :: account_view where
  "zero_view = \<lparr>av_available = 0, av_frozen = 0, av_locked = 0\<rparr>"

definition balance_view :: "balance_row table \<Rightarrow> account_key \<Rightarrow> account_view" where
  "balance_view t k = (case select_row (lb_at k) t of None \<Rightarrow> zero_view | Some r \<Rightarrow> row_view r)"

abbreviation view :: "ledger_db \<Rightarrow> account_key \<Rightarrow> account_view" where
  "view db \<equiv> balance_view (ledger_balances db)"

definition wf_balances :: "balance_row table \<Rightarrow> bool" where
  "wf_balances t \<longleftrightarrow> balances.uniq t \<and>
     (\<forall>r\<in>set t. valid_amt (lb_available r) \<and> valid_amt (lb_frozen r) \<and> valid_amt (lb_locked r))"

type_synonym balance_cells = "string \<times> string \<times> string \<times> int"

definition put_balance :: "account_key \<Rightarrow> balance_cells \<Rightarrow> balance_row table \<Rightarrow> balance_row table" where
  "put_balance k w t =
     (case w of (available, frozen, locked, now) \<Rightarrow>
        insert_or_update (lb_at k)
          \<lparr>lb_tenant = fst k, lb_account = fst (snd k), lb_asset = snd (snd k),
           lb_available = available, lb_frozen = frozen, lb_locked = locked, lb_updated_at = now\<rparr>
          (\<lambda>r. r\<lparr>lb_available := available, lb_frozen := frozen, lb_locked := locked,
                 lb_updated_at := now\<rparr>) t)"

definition cells_view :: "balance_cells \<Rightarrow> account_view" where
  "cells_view w = (case w of (available, frozen, locked, now) \<Rightarrow>
     \<lparr>av_available = amt available, av_frozen = amt frozen, av_locked = amt locked\<rparr>)"

definition valid_cells :: "balance_cells \<Rightarrow> bool" where
  "valid_cells w = (case w of (available, frozen, locked, now) \<Rightarrow>
     valid_amt available \<and> valid_amt frozen \<and> valid_amt locked)"

lemma view_put_balance: "balance_view (put_balance k w t) = (balance_view t)(k := cells_view w)"
proof (rule ext)
  fix j
  obtain x y z n where w: "w = (x, y, z, n)" by (cases w) auto
  show "balance_view (put_balance k w t) j = ((balance_view t)(k := cells_view w)) j"
    unfolding balance_view_def put_balance_def w prod.case
    by (subst balances.select_insert_or_update_at)
       (auto simp: lb_key_def row_view_def cells_view_def split: option.splits)
qed

lemma wf_put_balance: "wf_balances t \<Longrightarrow> valid_cells w \<Longrightarrow> wf_balances (put_balance k w t)"
  unfolding wf_balances_def put_balance_def valid_cells_def
  by (cases w)
     (auto simp: lb_key_def insert_or_update_cases in_update_where
       intro!: balances.uniq_append balances.uniq_update split: if_splits)

interpretation customer: account_store balance_view put_balance cells_view valid_cells wf_balances
  by unfold_locales (simp_all add: view_put_balance wf_put_balance)

lemma upsertBalanceTx_put:
  "upsertBalanceTx now t a s x y z db =
     db\<lparr>ledger_balances := put_balance (t, a, s) (x, y, z, now) (ledger_balances db)\<rparr>"
  by (simp add: upsertBalanceTx_def put_balance_def)

lemma getBalanceTx_Inr:
  assumes "wf_balances (ledger_balances db)" and "getBalanceTx t a s db = Inr b"
  shows "valid_amt (bs_Available b)" "valid_amt (bs_Frozen b)" "valid_amt (bs_WithdrawLocked b)"
    "view db (t, a, s) = \<lparr>av_available = amt (bs_Available b), av_frozen = amt (bs_Frozen b),
                          av_locked = amt (bs_WithdrawLocked b)\<rparr>"
    "amt (bs_WithdrawLocked b) \<le> amt (bs_Available b)"
  using assms
  by (auto simp: getBalanceTx_def balance_view_def wf_balances_def zero_view_def row_view_def
        decimal_Inr split: option.splits dest!: select_row_SomeD)

lemma getBalanceTx_ok:
  assumes "wf_balances (ledger_balances db)"
  shows "is_ok (getBalanceTx t a s db) \<longleftrightarrow>
     av_locked (view db (t, a, s)) \<le> av_available (view db (t, a, s))"
  using assms
  by (auto simp: getBalanceTx_def balance_view_def wf_balances_def zero_view_def row_view_def
        is_ok_iff decimal_Inr split: option.splits dest!: select_row_SomeD)


lemma getBalanceTx_overlocked:
  assumes "wf_balances (ledger_balances db)"
    and "av_available (view db (t, a, s)) < av_locked (view db (t, a, s))"
  shows "getBalanceTx t a s db = Inl (Errorf ''insufficient balance'')"
  using assms
  by (auto simp: getBalanceTx_def balance_view_def wf_balances_def zero_view_def row_view_def
        computeWithdrawable_def subDecimalString_def parseIntString_valid
      split: option.splits dest!: select_row_SomeD)


section \<open>Vault balances\<close>

definition vault_view :: "vault_row table \<Rightarrow> account_key \<Rightarrow> int" where
  "vault_view t k = (case select_row (vb_at k) t of None \<Rightarrow> 0 | Some r \<Rightarrow> amt (vb_available r))"

abbreviation vault :: "ledger_db \<Rightarrow> account_key \<Rightarrow> int" where
  "vault db \<equiv> vault_view (vault_balances db)"

definition wf_vaults :: "vault_row table \<Rightarrow> bool" where
  "wf_vaults t \<longleftrightarrow> vaults.uniq t \<and> (\<forall>r\<in>set t. valid_amt (vb_available r))"

type_synonym vault_cells = "string \<times> int"

definition put_vault :: "account_key \<Rightarrow> vault_cells \<Rightarrow> vault_row table \<Rightarrow> vault_row table" where
  "put_vault k w t =
     (case w of (available, now) \<Rightarrow>
        insert_or_update (vb_at k)
          \<lparr>vb_tenant = fst k, vb_account = fst (snd k), vb_asset = snd (snd k),
           vb_available = available, vb_updated_at = now\<rparr>
          (\<lambda>r. r\<lparr>vb_available := available, vb_updated_at := now\<rparr>) t)"

definition vault_cells_view :: "vault_cells \<Rightarrow> int" where
  "vault_cells_view w = amt (fst w)"

definition valid_vault_cells :: "vault_cells \<Rightarrow> bool" where
  "valid_vault_cells w \<longleftrightarrow> valid_amt (fst w)"

lemma view_put_vault: "vault_view (put_vault k w t) = (vault_view t)(k := vault_cells_view w)"
proof (rule ext)
  fix j
  obtain x n where w: "w = (x, n)" by (cases w) auto
  show "vault_view (put_vault k w t) j = ((vault_view t)(k := vault_cells_view w)) j"
    unfolding vault_view_def put_vault_def w prod.case
    by (subst vaults.select_insert_or_update_at)
       (auto simp: vb_key_def vault_cells_view_def split: option.splits)
qed

lemma wf_put_vault: "wf_vaults t \<Longrightarrow> valid_vault_cells w \<Longrightarrow> wf_vaults (put_vault k w t)"
  unfolding wf_vaults_def put_vault_def valid_vault_cells_def
  by (cases w)
     (auto simp: vb_key_def insert_or_update_cases in_update_where
       intro!: vaults.uniq_append vaults.uniq_update split: if_splits)

interpretation treasury: account_store vault_view put_vault vault_cells_view valid_vault_cells wf_vaults
  by unfold_locales (simp_all add: view_put_vault wf_put_vault)

lemma upsertVaultBalanceTx_put:
  "upsertVaultBalanceTx now t a s x db =
     db\<lparr>vault_balances := put_vault (t, a, s) (x, now) (vault_balances db)\<rparr>"
  by (simp add: upsertVaultBalanceTx_def put_vault_def)

lemma getVaultBalanceTx_Inr:
  assumes "wf_vaults (vault_balances db)"
  shows "\<exists>b. getVaultBalanceTx t a s db = Inr b \<and> valid_amt (bs_Available b) \<and>
             amt (bs_Available b) = vault db (t, a, s)"
  using assms
  by (auto simp: getVaultBalanceTx_def vault_view_def wf_vaults_def split: option.splits
        dest!: select_row_SomeD)

lemma getVaultBalanceTx_amt:
  assumes "wf_vaults (vault_balances db)" and "getVaultBalanceTx t a s db = Inr b"
  shows "valid_amt (bs_Available b)" "amt (bs_Available b) = vault db (t, a, s)"
  using getVaultBalanceTx_Inr [OF assms(1), of t a s] assms(2) by auto


section \<open>Read operations\<close>

definition GetBalance :: "string \<Rightarrow> string \<Rightarrow> string \<Rightarrow> ledger_db \<Rightarrow> balance_snapshot result" where
  "GetBalance tenantID accountID asset db =
     (case select_row (lb_at (tenantID, accountID, asset)) (ledger_balances db) of
        None \<Rightarrow> Inr \<lparr>bs_Available = ''0'', bs_Frozen = ''0'', bs_WithdrawLocked = ''0'', bs_Withdrawable = ''0''\<rparr>
      | Some r \<Rightarrow>
          bindE (computeWithdrawable (lb_available r) (lb_locked r)) (\<lambda>w.
          Inr \<lparr>bs_Available = lb_available r, bs_Frozen = lb_frozen r,
               bs_WithdrawLocked = lb_locked r, bs_Withdrawable = w\<rparr>))"

definition GetTreasuryTransferStatus :: "string \<Rightarrow> string \<Rightarrow> ledger_db \<Rightarrow> treasury_transfer_status result" where
  "GetTreasuryTransferStatus tenantID transferOrderID db =
     (case select_row (tt_at (tenantID, transferOrderID)) (treasury_transfer_orders db) of
        None \<Rightarrow> Inl ErrNoRows
      | Some r \<Rightarrow>
          Inr \<lparr>ts_Status = tt_status r, ts_TxHash = tt_tx_hash r, ts_Reason = tt_reason r,
               ts_Amount = tt_amount r, ts_FromAccountID = tt_from r, ts_ToAccountID = tt_to r,
               ts_SourceTier = tt_source_tier r, ts_DestinationTier = tt_dest_tier r,
               ts_Confirmations = tt_confirmations r, ts_RequiredConfs = tt_required r\<rparr>)"

text \<open>
  \<open>ListAccountAssets\<close>: the full outer join of the customer and the vault balances of an
  account, ordered by asset (byte order).
\<close>

definition account_assets :: "string \<Rightarrow> string \<Rightarrow> ledger_db \<Rightarrow> string list" where
  "account_assets tenantID accountID db =
     sort (remdups
       (map lb_asset (filter (\<lambda>r. lb_tenant r = tenantID \<and> lb_account r = accountID) (ledger_balances db)) @
        map vb_asset (filter (\<lambda>r. vb_tenant r = tenantID \<and> vb_account r = accountID) (vault_balances db))))"

definition ListAccountAssets :: "string \<Rightarrow> string \<Rightarrow> ledger_db \<Rightarrow> account_asset list result" where
  "ListAccountAssets tenantID accountID db =
     mapE (\<lambda>asset.
       let lb = select_row (lb_at (tenantID, accountID, asset)) (ledger_balances db);
           vb = select_row (vb_at (tenantID, accountID, asset)) (vault_balances db);
           available = (case lb of None \<Rightarrow> ''0'' | Some r \<Rightarrow> lb_available r);
           frozen = (case lb of None \<Rightarrow> ''0'' | Some r \<Rightarrow> lb_frozen r);
           locked = (case lb of None \<Rightarrow> ''0'' | Some r \<Rightarrow> lb_locked r);
           vaultAvailable = (case vb of None \<Rightarrow> ''0'' | Some r \<Rightarrow> vb_available r)
       in bindE (computeWithdrawable available locked) (\<lambda>w.
          Inr \<lparr>aa_Asset = asset, aa_Available = available, aa_Frozen = frozen,
               aa_WithdrawLocked = locked, aa_Withdrawable = w, aa_VaultAvailable = vaultAvailable\<rparr>))
       (account_assets tenantID accountID db)"

lemma account_assets_set:
  "x \<in> set (account_assets t a db) \<longleftrightarrow>
     select_row (lb_at (t, a, x)) (ledger_balances db) \<noteq> None \<or>
     select_row (vb_at (t, a, x)) (vault_balances db) \<noteq> None"
  by (auto simp: account_assets_def balances.select_None_key vaults.select_None_key lb_key_def vb_key_def)

end
