(* ===== verification/Ledger_Withdraw.thy ===== *)
theory Ledger_Withdraw
  imports Ledger_Accounts
begin

text \<open>
  Withdrawals in the ledger (\<open>postgres.go\<close>): \<open>FreezeWithdraw\<close>, \<open>QueueWithdraw\<close>,
  \<open>ConfirmWithdraw\<close> (the transaction was broadcast), \<open>ConfirmWithdrawOnChain\<close>,
  \<open>FailWithdrawOnChain\<close>, \<open>ReleaseWithdraw\<close> and \<open>GetWithdrawStatus\<close>. Each operation is
  one transaction. The lemmas named \<open>..._effect\<close> say what a committed operation did to the
  accounting tables; the rest of the development argues from them.
\<close>

section \<open>Operations\<close>

definition freezeWithdrawTx ::
  "int \<Rightarrow> string \<Rightarrow> string \<Rightarrow> string \<Rightarrow> string \<Rightarrow> string \<Rightarrow> string \<Rightarrow> string \<Rightarrow> int \<Rightarrow> ledger_db \<Rightarrow> ledger_db result" where
  "freezeWithdrawTx now tenantID accountID orderID chain network asset amount requiredConfs db =
     (if asset = [] \<or> chain = [] \<or> network = [] then Inl (Errorf ''chain/network/asset are required'')
      else
        let requiredConfs' = (if requiredConfs \<le> 0 then 1 else requiredConfs) in
        case select_row (lf_at (tenantID, orderID)) (ledger_freezes db) of
          Some row \<Rightarrow>
            if lf_status row = ''FROZEN'' \<or> lf_status row = ''BROADCASTED'' \<or> lf_status row = ''CONFIRMED''
            then Inr db
            else Inl (Errorf (''withdraw order already exists with status='' @ lf_status row))
        | None \<Rightarrow>
            bindE (getBalanceTx tenantID accountID asset db) (\<lambda>current.
            bindE (computeWithdrawable (bs_Available current) (bs_WithdrawLocked current)) (\<lambda>withdrawable.
            bindE (subDecimalString withdrawable amount) (\<lambda>_.
            bindE (subDecimalString (bs_Available current) amount) (\<lambda>avail.
            bindE (addDecimalString (bs_Frozen current) amount) (\<lambda>frozen.
            let db1 = upsertBalanceTx now tenantID accountID asset avail frozen (bs_WithdrawLocked current) db;
                db2 = db1\<lparr>ledger_freezes :=
                  insert_ignore (lf_at (tenantID, orderID))
                    \<lparr>lf_tenant = tenantID, lf_account = accountID, lf_order = orderID, lf_chain = chain,
                     lf_network = network, lf_asset = asset, lf_amount = amount, lf_status = ''FROZEN'',
                     lf_tx_hash = [], lf_reason = [], lf_confirmations = 0, lf_required = requiredConfs',
                     lf_created_at = now, lf_updated_at = now\<rparr>
                    (ledger_freezes db1)\<rparr>;
                db3 = insert_entry now tenantID accountID orderID asset ''WITHDRAW_FREEZE'' amount ''PENDING'' db2;
                db4 = insert_journal now tenantID ''WITHDRAW'' orderID accountID asset ''FREEZE'' amount avail db3
            in Inr db4))))))"

definition FreezeWithdraw ::
  "int \<Rightarrow> string \<Rightarrow> string \<Rightarrow> string \<Rightarrow> string \<Rightarrow> string \<Rightarrow> string \<Rightarrow> string \<Rightarrow> int \<Rightarrow> ledger_db \<Rightarrow> ledger_db result" where
  "FreezeWithdraw now tenantID accountID orderID chain network asset amount requiredConfs db =
     freezeWithdrawTx now tenantID accountID orderID chain network asset amount requiredConfs db"

definition QueueWithdraw :: "int \<Rightarrow> withdraw_queue_input \<Rightarrow> ledger_db \<Rightarrow> ledger_db result" where
  "QueueWithdraw now inp db =
     (let tx = wq_Tx inp in
      bindE (freezeWithdrawTx now (wq_TenantID inp) (wq_AccountID inp) (wq_OrderID inp)
               (bp_Chain tx) (bp_Network tx) (bp_Coin tx) (bp_Amount tx) (wq_RequiredConfs inp) db) (\<lambda>db1.
      Inr (db1\<lparr>withdraw_jobs :=
             insert_or_update (wj_at (wq_TenantID inp, wq_OrderID inp))
               \<lparr>wj_id = job_seq db1 + 1, wj_tenant = wq_TenantID inp, wj_account = wq_AccountID inp,
                wj_order = wq_OrderID inp, wj_tx = tx, wj_signers = wq_Signers inp,
                wj_sign_type = wq_SignType inp, wj_required = maxInt64 (wq_RequiredConfs inp) 1,
                wj_status = ''QUEUED'', wj_tx_hash = [], wj_last_error = [], wj_attempts = 0,
                wj_replacements = 0, wj_next_retry_at = now, wj_started_at = None,
                wj_created_at = now, wj_updated_at = now\<rparr>
               (\<lambda>r. r\<lparr>wj_account := wq_AccountID inp, wj_tx := tx, wj_signers := wq_Signers inp,
                      wj_sign_type := wq_SignType inp, wj_required := maxInt64 (wq_RequiredConfs inp) 1,
                      wj_status := (if wj_status r \<in> {''QUEUED'', ''PROCESSING'', ''BROADCASTED'', ''DONE''}
                                    then wj_status r else ''QUEUED''),
                      wj_next_retry_at := now, wj_started_at := None, wj_last_error := [],
                      wj_replacements := (if wj_status r \<in> {''BROADCASTED'', ''DONE''}
                                          then wj_replacements r else 0),
                      wj_updated_at := now\<rparr>)
               (withdraw_jobs db1),
             job_seq := job_seq db1 + 1\<rparr>)))"

definition ConfirmWithdraw ::
  "int \<Rightarrow> string \<Rightarrow> string \<Rightarrow> string \<Rightarrow> string \<Rightarrow> ledger_db \<Rightarrow> ledger_db result" where
  "ConfirmWithdraw now tenantID accountID orderID txHash db =
     (case select_row (lf_at (tenantID, orderID)) (ledger_freezes db) of
        None \<Rightarrow> Inl ErrNoRows
      | Some row \<Rightarrow>
          if lf_status row = ''BROADCASTED'' \<or> lf_status row = ''CONFIRMED'' then Inr db
          else if lf_status row \<noteq> ''FROZEN'' then
            Inl (Errorf (''withdraw status invalid for confirm: '' @ lf_status row))
          else
            let db1 = update_freeze now tenantID orderID
                        (\<lambda>r. r\<lparr>lf_status := ''BROADCASTED'', lf_tx_hash := txHash\<rparr>) db;
                db2 = update_job now tenantID orderID
                        (\<lambda>r. r\<lparr>wj_status := ''BROADCASTED'', wj_tx_hash := txHash, wj_last_error := [],
                               wj_started_at := None\<rparr>) db1
            in Inr db2)"

definition ConfirmWithdrawOnChain ::
  "int \<Rightarrow> string \<Rightarrow> string \<Rightarrow> string \<Rightarrow> int \<Rightarrow> int \<Rightarrow> ledger_db \<Rightarrow> ledger_db result" where
  "ConfirmWithdrawOnChain now tenantID orderID txHash confirmations requiredConfs db =
     (case select_row (lf_at (tenantID, orderID)) (ledger_freezes db) of
        None \<Rightarrow> Inl ErrNoRows
      | Some row \<Rightarrow>
          let req1 = (if requiredConfs \<le> 0 then lf_required row else requiredConfs);
              req = (if req1 \<le> 0 then 1 else req1);
              confs = (if confirmations < lf_confirmations row then lf_confirmations row else confirmations)
          in
          if lf_status row = ''CONFIRMED'' then
            let db1 = update_freeze now tenantID orderID
                        (\<lambda>r. r\<lparr>lf_confirmations := max (lf_confirmations r) confs, lf_required := req\<rparr>) db;
                db2 = set_attempt_status now tenantID orderID txHash ''CONFIRMED'' db1
            in Inr db2
          else if lf_status row \<noteq> ''BROADCASTED'' \<and> lf_status row \<noteq> ''FROZEN'' then
            Inl (Errorf (''withdraw status invalid for onchain confirm: '' @ lf_status row))
          else if confs < req then
            let db1 = update_freeze now tenantID orderID
                        (\<lambda>r. r\<lparr>lf_status := ''BROADCASTED'', lf_tx_hash := txHash,
                               lf_confirmations := max (lf_confirmations r) confs, lf_required := req\<rparr>) db;
                db2 = update_job now tenantID orderID
                        (\<lambda>r. r\<lparr>wj_status := ''BROADCASTED'', wj_tx_hash := txHash, wj_last_error := [],
                               wj_started_at := None\<rparr>) db1;
                db3 = set_attempt_status now tenantID orderID txHash ''BROADCASTED'' db2
            in Inr db3
          else
            bindE (getBalanceTx tenantID (lf_account row) (lf_asset row) db) (\<lambda>current.
            bindE (subDecimalString (bs_Frozen current) (lf_amount row)) (\<lambda>frozen.
            let db1 = upsertBalanceTx now tenantID (lf_account row) (lf_asset row)
                        (bs_Available current) frozen (bs_WithdrawLocked current) db;
                db2 = update_freeze now tenantID orderID
                        (\<lambda>r. r\<lparr>lf_status := ''CONFIRMED'', lf_tx_hash := txHash,
                               lf_confirmations := max (lf_confirmations r) confs, lf_required := req\<rparr>) db1;
                db3 = set_entry_status now tenantID orderID ''WITHDRAW_FREEZE'' ''DONE'' db2;
                db4 = insert_entry now tenantID (lf_account row) orderID (lf_asset row)
                        ''WITHDRAW_CONFIRM'' (lf_amount row) ''DONE'' db3;
                db5 = insert_journal now tenantID ''WITHDRAW'' orderID (lf_account row) (lf_asset row)
                        ''DEBIT'' (lf_amount row) (bs_Available current) db4;
                db6 = update_job now tenantID orderID
                        (\<lambda>r. r\<lparr>wj_status := ''DONE'', wj_tx_hash := txHash, wj_last_error := [],
                               wj_started_at := None\<rparr>) db5;
                db7 = set_attempt_status now tenantID orderID txHash ''CONFIRMED'' db6
            in Inr db7)))"

definition FailWithdrawOnChain ::
  "int \<Rightarrow> string \<Rightarrow> string \<Rightarrow> string \<Rightarrow> string \<Rightarrow> int \<Rightarrow> ledger_db \<Rightarrow> ledger_db result" where
  "FailWithdrawOnChain now tenantID orderID txHash reason confirmations db =
     (case select_row (lf_at (tenantID, orderID)) (ledger_freezes db) of
        None \<Rightarrow> Inl ErrNoRows
      | Some row \<Rightarrow>
          if lf_status row = ''RELEASED'' then
            Inr (set_attempt_status now tenantID orderID txHash ''FAILED'' db)
          else if lf_status row = ''CONFIRMED'' then
            Inr (set_attempt_status now tenantID orderID txHash ''FAILED'' db)
          else if trim_space txHash \<noteq> [] \<and> trim_space (lf_tx_hash row) \<noteq> [] \<and>
                  \<not> equal_fold (trim_space (lf_tx_hash row)) (trim_space txHash) then
            Inr (set_attempt_status now tenantID orderID txHash ''FAILED'' db)
          else
            bindE (getBalanceTx tenantID (lf_account row) (lf_asset row) db) (\<lambda>current.
            bindE (addDecimalString (bs_Available current) (lf_amount row)) (\<lambda>avail.
            bindE (subDecimalString (bs_Frozen current) (lf_amount row)) (\<lambda>frozen.
            let db1 = upsertBalanceTx now tenantID (lf_account row) (lf_asset row)
                        avail frozen (bs_WithdrawLocked current) db;
                db2 = update_freeze now tenantID orderID
                        (\<lambda>r. r\<lparr>lf_status := ''RELEASED'', lf_reason := reason,
                               lf_confirmations := max (lf_confirmations r) confirmations\<rparr>) db1;
                db3 = set_entry_status now tenantID orderID ''WITHDRAW_FREEZE'' ''CANCELLED'' db2;
                db4 = insert_entry now tenantID (lf_account row) orderID (lf_asset row)
                        ''WITHDRAW_RELEASE'' (lf_amount row) ''DONE'' db3;
                db5 = insert_journal now tenantID ''WITHDRAW'' orderID (lf_account row) (lf_asset row)
                        ''UNFREEZE'' (lf_amount row) avail db4;
                db6 = update_job now tenantID orderID
                        (\<lambda>r. r\<lparr>wj_status := ''FAILED'', wj_last_error := reason,
                               wj_started_at := None\<rparr>) db5;
                db7 = set_attempt_status now tenantID orderID txHash ''FAILED'' db6
            in Inr db7))))"

definition ReleaseWithdraw ::
  "int \<Rightarrow> string \<Rightarrow> string \<Rightarrow> string \<Rightarrow> string \<Rightarrow> ledger_db \<Rightarrow> ledger_db result" where
  "ReleaseWithdraw now tenantID accountID orderID reason db =
     (case select_row (lf_at (tenantID, orderID)) (ledger_freezes db) of
        None \<Rightarrow> Inl ErrNoRows
      | Some row \<Rightarrow>
          if lf_status row = ''RELEASED'' then Inr db
          else if lf_status row \<noteq> ''FROZEN'' \<and> lf_status row \<noteq> ''BROADCASTED'' then
            Inl (Errorf (''withdraw status invalid for release: '' @ lf_status row))
          else
            let db1 = update_freeze now tenantID orderID
                        (\<lambda>r. r\<lparr>lf_status := ''RELEASED'', lf_reason := reason\<rparr>) db;
                db2 = set_entry_status now tenantID orderID ''WITHDRAW_FREEZE'' ''CANCELLED'' db1;
                db3 = insert_entry now tenantID accountID orderID (lf_asset row)
                        ''WITHDRAW_RELEASE'' (lf_amount row) ''DONE'' db2
            in
            bindE (getBalanceTx tenantID accountID (lf_asset row) db3) (\<lambda>current.
            bindE (addDecimalString (bs_Available current) (lf_amount row)) (\<lambda>avail.
            bindE (subDecimalString (bs_Frozen current) (lf_amount row)) (\<lambda>frozen.
            let db4 = upsertBalanceTx now tenantID accountID (lf_asset row)
                        avail frozen (bs_WithdrawLocked current) db3;
                db5 = insert_journal now tenantID ''WITHDRAW'' orderID accountID (lf_asset row)
                        ''UNFREEZE'' (lf_amount row) avail db4;
                db6 = update_job now tenantID orderID
                        (\<lambda>r. r\<lparr>wj_status := ''RELEASED'', wj_last_error := reason,
                               wj_started_at := None\<rparr>) db5
            in Inr db6))))"

definition GetWithdrawStatus :: "string \<Rightarrow> string \<Rightarrow> ledger_db \<Rightarrow> ledger_status result" where
  "GetWithdrawStatus tenantID orderID db =
     (case select_row (lf_at (tenantID, orderID)) (ledger_freezes db) of
        None \<Rightarrow> Inl ErrNoRows
      | Some lf \<Rightarrow>
          let wj = select_row (wj_at (tenantID, orderID)) (withdraw_jobs db);
              queue = (case wj of None \<Rightarrow> [] | Some r \<Rightarrow> wj_status r);
              attempts = (case wj of None \<Rightarrow> 0 | Some r \<Rightarrow> wj_attempts r);
              lastError = (case wj of None \<Rightarrow> [] | Some r \<Rightarrow> wj_last_error r);
              q = to_upper (trim_space queue);
              status = (if lf_status lf = ''FROZEN'' \<and> (q = ''QUEUED'' \<or> q = ''PROCESSING'')
                        then q else lf_status lf)
          in Inr \<lparr>ls_Status = status, ls_TxHash = lf_tx_hash lf, ls_Reason = lf_reason lf,
                  ls_Amount = lf_amount lf, ls_QueueStatus = queue, ls_AttemptCount = attempts,
                  ls_LastError = lastError\<rparr>)"

end
