(* ===== verification/Ledger_Spec.thy ===== *)
theory Ledger_Spec
  imports Ledger_Accounts
begin

text \<open>
  The abstract ledger: what the operations promise about one account, as functions on its
  three integers, and the accounting equations that tie the balances of every account to
  the order tables. The concrete operations are shown to refine these functions
  (\<open>Ledger_Withdraw_Effects\<close>, \<open>Ledger_Deposit\<close>), and the equations to be invariant
  (\<open>Ledger_Machine\<close>).
\<close>

section \<open>Account transitions\<close>

definition spec_freeze :: "int \<Rightarrow> account_view \<Rightarrow> account_view" where
  "spec_freeze n v = v\<lparr>av_available := av_available v - n, av_frozen := av_frozen v + n\<rparr>"

definition spec_settle :: "int \<Rightarrow> account_view \<Rightarrow> account_view" where
  "spec_settle n v = v\<lparr>av_frozen := av_frozen v - n\<rparr>"

definition spec_release :: "int \<Rightarrow> account_view \<Rightarrow> account_view" where
  "spec_release n v = v\<lparr>av_available := av_available v + n, av_frozen := av_frozen v - n\<rparr>"

definition spec_credit :: "int \<Rightarrow> account_view \<Rightarrow> account_view" where
  "spec_credit n v = v\<lparr>av_available := av_available v + n, av_locked := av_locked v + n\<rparr>"

definition spec_unlock :: "int \<Rightarrow> account_view \<Rightarrow> account_view" where
  "spec_unlock n v = v\<lparr>av_locked := av_locked v - n\<rparr>"

definition spec_revert :: "bool \<Rightarrow> int \<Rightarrow> account_view \<Rightarrow> account_view" where
  "spec_revert unlocked n v =
     v\<lparr>av_available := av_available v - n,
       av_locked := (if unlocked then av_locked v else av_locked v - n)\<rparr>"

lemmas spec_defs =
  spec_freeze_def spec_settle_def spec_release_def spec_credit_def spec_unlock_def spec_revert_def

text \<open>A freeze that is released leaves no trace; one that is settled takes the amount out.\<close>

lemma spec_release_freeze [simp]: "spec_release n (spec_freeze n v) = v"
  by (simp add: spec_defs)

lemma spec_settle_freeze:
  "spec_settle n (spec_freeze n v) = v\<lparr>av_available := av_available v - n\<rparr>"
  by (simp add: spec_defs)

lemma spec_revert_credit [simp]: "spec_revert False n (spec_credit n v) = v"
  by (simp add: spec_defs)

lemma spec_revert_unlocked [simp]: "spec_revert True n (spec_unlock n (spec_credit n v)) = v"
  by (simp add: spec_defs)


section \<open>What the order tables say an account should hold\<close>

definition lf_account_key :: "freeze_row \<Rightarrow> account_key" where
  "lf_account_key r = (lf_tenant r, lf_account r, lf_asset r)"

definition de_account_key :: "deposit_row \<Rightarrow> account_key" where
  "de_account_key r = (de_tenant r, de_account r, de_coin r)"

definition open_status :: "string \<Rightarrow> bool" where
  "open_status s \<longleftrightarrow> s = ''FROZEN'' \<or> s = ''BROADCASTED''"

definition open_amount :: "account_key \<Rightarrow> freeze_row \<Rightarrow> int" where
  "open_amount k r = (if lf_account_key r = k \<and> open_status (lf_status r) then amt (lf_amount r) else 0)"

definition spent_amount :: "account_key \<Rightarrow> freeze_row \<Rightarrow> int" where
  "spent_amount k r = (if lf_account_key r = k \<and> lf_status r = ''CONFIRMED'' then amt (lf_amount r) else 0)"

definition credited_amount :: "account_key \<Rightarrow> deposit_row \<Rightarrow> int" where
  "credited_amount k r = (if de_account_key r = k \<and> de_credited r then amt (de_amount r) else 0)"

definition locked_amount :: "account_key \<Rightarrow> deposit_row \<Rightarrow> int" where
  "locked_amount k r =
     (if de_account_key r = k \<and> de_credited r \<and> \<not> de_unlocked r then amt (de_amount r) else 0)"

text \<open>
  The accounting equations of an account: the frozen balance is the sum of its open
  withdrawals, the locked balance the sum of its credited but not finalised deposits, and
  the available balance what was credited less what is being or has been withdrawn.
\<close>

definition expected_view :: "freeze_row table \<Rightarrow> deposit_row table \<Rightarrow> account_key \<Rightarrow> account_view" where
  "expected_view fs ds k =
     \<lparr>av_available = total (credited_amount k) ds - total (open_amount k) fs - total (spent_amount k) fs,
      av_frozen = total (open_amount k) fs,
      av_locked = total (locked_amount k) ds\<rparr>"

definition balanced :: "ledger_db \<Rightarrow> bool" where
  "balanced db \<longleftrightarrow> view db = expected_view (ledger_freezes db) (deposit_events db)"

definition wf_freezes :: "freeze_row table \<Rightarrow> bool" where
  "wf_freezes t \<longleftrightarrow> freezes.uniq t \<and>
     (\<forall>r\<in>set t. valid_amt (lf_amount r) \<and>
        lf_status r \<in> {''FROZEN'', ''BROADCASTED'', ''CONFIRMED'', ''RELEASED''})"

definition wf_deposits :: "deposit_row table \<Rightarrow> bool" where
  "wf_deposits t \<longleftrightarrow> deposits.uniq t \<and>
     (\<forall>r\<in>set t. (de_credited r \<longrightarrow> valid_amt (de_amount r)) \<and> (de_unlocked r \<longrightarrow> de_credited r))"

definition wf_ledger :: "ledger_db \<Rightarrow> bool" where
  "wf_ledger db \<longleftrightarrow>
     wf_balances (ledger_balances db) \<and> wf_freezes (ledger_freezes db) \<and> wf_deposits (deposit_events db)"

text \<open>The vault side: settled sweeps and transfers in, live or settled transfers out.\<close>

definition so_account_key :: "sweep_row \<Rightarrow> account_key" where
  "so_account_key r = (so_tenant r, so_treasury r, so_asset r)"

definition swept_amount :: "account_key \<Rightarrow> sweep_row \<Rightarrow> int" where
  "swept_amount k r = (if so_account_key r = k \<and> so_status r = ''DONE'' then amt (so_amount r) else 0)"

definition transfer_in :: "account_key \<Rightarrow> transfer_row \<Rightarrow> int" where
  "transfer_in k r =
     (if (tt_tenant r, tt_to r, tt_asset r) = k \<and> tt_status r = ''DONE'' then amt (tt_amount r) else 0)"

definition transfer_out :: "account_key \<Rightarrow> transfer_row \<Rightarrow> int" where
  "transfer_out k r =
     (if (tt_tenant r, tt_from r, tt_asset r) = k \<and>
         (tt_status r = ''RESERVED'' \<or> tt_status r = ''BROADCASTED'' \<or> tt_status r = ''DONE'')
      then amt (tt_amount r) else 0)"

definition expected_vault :: "sweep_row table \<Rightarrow> transfer_row table \<Rightarrow> account_key \<Rightarrow> int" where
  "expected_vault ss ts k =
     total (swept_amount k) ss + total (transfer_in k) ts - total (transfer_out k) ts"

definition vault_balanced :: "ledger_db \<Rightarrow> bool" where
  "vault_balanced db \<longleftrightarrow> vault db = expected_vault (sweep_orders db) (treasury_transfer_orders db)"

definition wf_sweeps :: "sweep_row table \<Rightarrow> bool" where
  "wf_sweeps t \<longleftrightarrow> sweeps.uniq t \<and> (\<forall>r\<in>set t. so_status r = ''DONE'' \<longrightarrow> valid_amt (so_amount r))"

definition wf_transfers :: "transfer_row table \<Rightarrow> bool" where
  "wf_transfers t \<longleftrightarrow> transfers.uniq t \<and>
     (\<forall>r\<in>set t. valid_amt (tt_amount r) \<and>
        tt_status r \<in> {''RESERVED'', ''BROADCASTED'', ''DONE'', ''FAILED''})"

definition wf_vault_side :: "ledger_db \<Rightarrow> bool" where
  "wf_vault_side db \<longleftrightarrow>
     wf_vaults (vault_balances db) \<and> wf_sweeps (sweep_orders db) \<and> wf_transfers (treasury_transfer_orders db)"

lemma empty_db_balanced [simp]: "balanced empty_db" "wf_ledger empty_db"
  by (auto simp: balanced_def empty_db_def balance_view_def expected_view_def zero_view_def
        wf_ledger_def wf_balances_def wf_freezes_def wf_deposits_def)

lemma empty_db_vault_balanced [simp]: "vault_balanced empty_db" "wf_vault_side empty_db"
  by (auto simp: vault_balanced_def empty_db_def vault_view_def expected_vault_def
        wf_vault_side_def wf_vaults_def wf_sweeps_def wf_transfers_def)

text \<open>The parts of the state an operation leaves alone.\<close>

definition same_withdraw_side :: "ledger_db \<Rightarrow> ledger_db \<Rightarrow> bool" where
  "same_withdraw_side db db' \<longleftrightarrow>
     ledger_freezes db' = ledger_freezes db \<and> ledger_balances db' = ledger_balances db \<and>
     deposit_events db' = deposit_events db"

definition same_vault_side :: "ledger_db \<Rightarrow> ledger_db \<Rightarrow> bool" where
  "same_vault_side db db' \<longleftrightarrow>
     sweep_orders db' = sweep_orders db \<and>
     treasury_transfer_orders db' = treasury_transfer_orders db \<and>
     vault_balances db' = vault_balances db"

lemma same_withdraw_sideD:
  "same_withdraw_side db db' \<Longrightarrow> balanced db' = balanced db"
  "same_withdraw_side db db' \<Longrightarrow> wf_ledger db' = wf_ledger db"
  "same_withdraw_side db db' \<Longrightarrow> view db' = view db"
  by (simp_all add: same_withdraw_side_def balanced_def wf_ledger_def)

lemma same_vault_sideD:
  "same_vault_side db db' \<Longrightarrow> vault_balanced db' = vault_balanced db"
  "same_vault_side db db' \<Longrightarrow> wf_vault_side db' = wf_vault_side db"
  by (simp_all add: same_vault_side_def vault_balanced_def wf_vault_side_def)

end
