(* ===== verification/Ledger_Withdraw_Effects.thy ===== *)
theory Ledger_Withdraw_Effects
  imports Ledger_Withdraw Ledger_Spec
begin

text \<open>
  What the withdrawal operations do to the accounting tables: each committed operation
  either leaves them alone or moves one freeze row to a new status and applies one
  abstract account transition of \<open>Ledger_Spec\<close>.
\<close>

section \<open>A freeze row moves\<close>

text \<open>
  \<open>freeze_moved db db' t ord row row'\<close>: the row of the order was \<open>row\<close> and is now \<open>row'\<close>;
  account, asset and amount are kept and no other row changed.
\<close>

definition keeps_freeze :: "(freeze_row \<Rightarrow> freeze_row) \<Rightarrow> bool" where
  "keeps_freeze F \<longleftrightarrow>
     (\<forall>r. lf_key (F r) = lf_key r \<and> lf_account_key (F r) = lf_account_key r \<and> lf_amount (F r) = lf_amount r)"

definition freeze_moved ::
  "ledger_db \<Rightarrow> ledger_db \<Rightarrow> order_key \<Rightarrow> freeze_row \<Rightarrow> freeze_row \<Rightarrow> bool" where
  "freeze_moved db db' k row row' \<longleftrightarrow>
     select_row (lf_at k) (ledger_freezes db) = Some row \<and>
     (\<exists>F. keeps_freeze F \<and> row' = F row \<and>
          ledger_freezes db' = update_where (lf_at k) F (ledger_freezes db))"

lemma freeze_movedI:
  assumes "select_row (lf_at k) (ledger_freezes db) = Some row"
    and "keeps_freeze F" and "row' = F row"
    and "ledger_freezes db' = update_where (lf_at k) F (ledger_freezes db)"
  shows "freeze_moved db db' k row row'"
  using assms by (auto simp: freeze_moved_def)

lemma freeze_moved_row:
  assumes "freeze_moved db db' k row row'"
  shows "lf_key row = k" "lf_key row' = k" "row \<in> set (ledger_freezes db)"
    "lf_account_key row' = lf_account_key row" "lf_amount row' = lf_amount row"
    "select_row (lf_at k) (ledger_freezes db) = Some row"
    "select_row (lf_at k) (ledger_freezes db') = Some row'"
  using assms
  by (auto simp: freeze_moved_def keeps_freeze_def freezes.select_update_at dest: freezes.selected_key)

lemma freeze_moved_other:
  "freeze_moved db db' k row row' \<Longrightarrow> j \<noteq> k \<Longrightarrow>
   select_row (lf_at j) (ledger_freezes db') = select_row (lf_at j) (ledger_freezes db)"
  by (auto simp: freeze_moved_def keeps_freeze_def freezes.select_update_at)

lemma freeze_moved_total:
  assumes "freeze_moved db db' k row row'" and "wf_freezes (ledger_freezes db)"
  shows "total w (ledger_freezes db') = total w (ledger_freezes db) - w row + w row'"
  using assms by (auto simp: freeze_moved_def wf_freezes_def freezes.total_update_key)

lemma freeze_moved_wf:
  assumes moved: "freeze_moved db db' k row row'" and wf: "wf_freezes (ledger_freezes db)"
    and st: "lf_status row' \<in> {''FROZEN'', ''BROADCASTED'', ''CONFIRMED'', ''RELEASED''}"
  shows "wf_freezes (ledger_freezes db')"
proof -
  from moved obtain F where F: "keeps_freeze F" "row' = F row"
      "ledger_freezes db' = update_where (lf_at k) F (ledger_freezes db)"
      "select_row (lf_at k) (ledger_freezes db) = Some row"
    by (auto simp: freeze_moved_def)
  have only: "s = row" if "s \<in> set (ledger_freezes db)" "lf_at k s" for s
  proof -
    have "select_row (lf_at (lf_key s)) (ledger_freezes db) = Some s"
      using wf that(1) by (simp add: wf_freezes_def freezes.select_unique)
    then show "s = row" using that(2) F(4) by (simp add: freezes.at_key)
  qed
  show ?thesis
    using wf F st unfolding wf_freezes_def
    by (auto simp: in_update_where keeps_freeze_def intro!: freezes.uniq_update dest: only split: if_splits)
qed


section \<open>Effects\<close>

lemmas withdraw_unfold = Let_def shared_stmt_defs upsertBalanceTx_put same_vault_side_def

lemma freezeWithdrawTx_effect:
  assumes wf: "wf_balances (ledger_balances db)"
    and run: "freezeWithdrawTx now t a ord chain net asset amount req db = Inr db'"
  obtains
    (existing) row where "select_row (lf_at (t, ord)) (ledger_freezes db) = Some row"
      "lf_status row \<in> {''FROZEN'', ''BROADCASTED'', ''CONFIRMED''}" "db' = db"
  | (fresh) row where "select_row (lf_at (t, ord)) (ledger_freezes db) = None"
      "ledger_freezes db' = ledger_freezes db @ [row]"
      "lf_key row = (t, ord)" "lf_account_key row = (t, a, asset)" "lf_amount row = amount"
      "lf_status row = ''FROZEN''" "valid_amt amount"
      "amt amount \<le> av_available (view db (t, a, asset)) - av_locked (view db (t, a, asset))"
      "view db' = (view db)((t, a, asset) := spec_freeze (amt amount) (view db (t, a, asset)))"
      "wf_balances (ledger_balances db')" "deposit_events db' = deposit_events db"
      "same_vault_side db db'" "withdraw_jobs db' = withdraw_jobs db"
proof (cases "select_row (lf_at (t, ord)) (ledger_freezes db)")
  case (Some row)
  then show ?thesis
    using run existing by (auto simp: freezeWithdrawTx_def Let_def split: if_splits)
next
  case None
  then obtain b where b: "getBalanceTx t a asset db = Inr b"
    using run by (auto simp: freezeWithdrawTx_def Let_def split: if_splits)
  note bal = getBalanceTx_Inr [OF wf b]
  let ?row = "\<lparr>lf_tenant = t, lf_account = a, lf_order = ord, lf_chain = chain, lf_network = net,
     lf_asset = asset, lf_amount = amount, lf_status = ''FROZEN'', lf_tx_hash = [], lf_reason = [],
     lf_confirmations = 0, lf_required = (if req \<le> 0 then 1 else req),
     lf_created_at = now, lf_updated_at = now\<rparr>"
  have amts: "valid_amt amount" "amt amount \<le> amt (bs_Available b) - amt (bs_WithdrawLocked b)"
    using run None b bal
    by (auto simp: freezeWithdrawTx_def Let_def decimal_Inr split: if_splits)
  have frz: "ledger_freezes db' = ledger_freezes db @ [?row]"
    and bals: "ledger_balances db' = put_balance (t, a, asset)
        (int_to_string (amt (bs_Available b) - amt amount),
         int_to_string (amt (bs_Frozen b) + amt amount), bs_WithdrawLocked b, now) (ledger_balances db)"
    and rest: "deposit_events db' = deposit_events db" "same_vault_side db db'"
        "withdraw_jobs db' = withdraw_jobs db"
    using run None b
    by (auto simp: freezeWithdrawTx_def withdraw_unfold decimal_Inr insert_ignore_cases split: if_splits)
  have "amt amount \<le> amt (bs_Available b)"
    using amts(2) amt_nonneg [of "bs_WithdrawLocked b"] by linarith
  then have cells: "valid_cells (int_to_string (amt (bs_Available b) - amt amount),
         int_to_string (amt (bs_Frozen b) + amt amount), bs_WithdrawLocked b, now)"
    and cv: "cells_view (int_to_string (amt (bs_Available b) - amt amount),
         int_to_string (amt (bs_Frozen b) + amt amount), bs_WithdrawLocked b, now)
         = spec_freeze (amt amount) (view db (t, a, asset))"
    using bal by (simp_all add: valid_cells_def cells_view_def spec_freeze_def)
  show ?thesis
    by (rule fresh [OF None frz])
       (use amts bal rest wf_put_balance [OF wf cells] in
         \<open>simp_all add: lf_key_def lf_account_key_def bals view_put_balance cv\<close>)
qed

lemma keeps_freeze_intro [simp]:
  "keeps_freeze (\<lambda>r. r\<lparr>lf_status := st r, lf_tx_hash := h r, lf_updated_at := u\<rparr>)"
  "keeps_freeze (\<lambda>r. r\<lparr>lf_confirmations := c r, lf_required := q, lf_updated_at := u\<rparr>)"
  "keeps_freeze (\<lambda>r. r\<lparr>lf_status := st r, lf_tx_hash := h r, lf_confirmations := c r,
                       lf_required := q, lf_updated_at := u\<rparr>)"
  "keeps_freeze (\<lambda>r. r\<lparr>lf_status := st r, lf_reason := e, lf_confirmations := c r, lf_updated_at := u\<rparr>)"
  "keeps_freeze (\<lambda>r. r\<lparr>lf_status := st r, lf_reason := e, lf_updated_at := u\<rparr>)"
  "keeps_freeze (\<lambda>r. r\<lparr>lf_tx_hash := h r, lf_updated_at := u\<rparr>)"
  by (simp_all add: keeps_freeze_def lf_key_def lf_account_key_def)

lemma QueueWithdraw_effect:
  assumes "QueueWithdraw now inp db = Inr db'"
  obtains db1 where
    "freezeWithdrawTx now (wq_TenantID inp) (wq_AccountID inp) (wq_OrderID inp)
       (bp_Chain (wq_Tx inp)) (bp_Network (wq_Tx inp)) (bp_Coin (wq_Tx inp)) (bp_Amount (wq_Tx inp))
       (wq_RequiredConfs inp) db = Inr db1"
    "same_withdraw_side db1 db'" "same_vault_side db1 db'"
  using assms
  by (auto simp: QueueWithdraw_def Let_def same_withdraw_side_def same_vault_side_def)

lemma ConfirmWithdraw_effect:
  assumes "ConfirmWithdraw now t a ord h db = Inr db'"
  obtains
    (same) row where "select_row (lf_at (t, ord)) (ledger_freezes db) = Some row"
      "lf_status row = ''BROADCASTED'' \<or> lf_status row = ''CONFIRMED''" "db' = db"
  | (broadcast) row row' where "freeze_moved db db' (t, ord) row row'"
      "lf_status row = ''FROZEN''" "lf_status row' = ''BROADCASTED''" "lf_tx_hash row' = h"
      "ledger_balances db' = ledger_balances db" "deposit_events db' = deposit_events db"
      "same_vault_side db db'"
proof (cases "select_row (lf_at (t, ord)) (ledger_freezes db)")
  case None
  then show ?thesis using assms by (simp add: ConfirmWithdraw_def)
next
  case (Some row)
  show ?thesis
  proof (cases "lf_status row = ''FROZEN''")
    case False
    then show ?thesis using assms Some same by (auto simp: ConfirmWithdraw_def Let_def split: if_splits)
  next
    case True
    let ?F = "\<lambda>r. r\<lparr>lf_status := ''BROADCASTED'', lf_tx_hash := h, lf_updated_at := now\<rparr>"
    have "freeze_moved db db' (t, ord) row (?F row)"
      using assms Some True by (auto simp: ConfirmWithdraw_def withdraw_unfold intro!: freeze_movedI)
    then show ?thesis
      by (rule broadcast) (use assms Some True in \<open>auto simp: ConfirmWithdraw_def withdraw_unfold\<close>)
  qed
qed

lemma ConfirmWithdrawOnChain_effect:
  assumes wf: "wf_balances (ledger_balances db)"
    and run: "ConfirmWithdrawOnChain now t ord h confs req db = Inr db'"
  obtains
    (tracked) row row' where "freeze_moved db db' (t, ord) row row'"
      "lf_status row = ''CONFIRMED'' \<and> lf_status row' = ''CONFIRMED'' \<or>
       open_status (lf_status row) \<and> lf_status row' = ''BROADCASTED''"
      "ledger_balances db' = ledger_balances db" "deposit_events db' = deposit_events db"
      "same_vault_side db db'"
  | (settled) row row' where "freeze_moved db db' (t, ord) row row'"
      "open_status (lf_status row)" "lf_status row' = ''CONFIRMED''"
      "view db' = (view db)((t, lf_account row, lf_asset row) :=
          spec_settle (amt (lf_amount row)) (view db (t, lf_account row, lf_asset row)))"
      "wf_balances (ledger_balances db')" "deposit_events db' = deposit_events db"
      "same_vault_side db db'"
proof (cases "select_row (lf_at (t, ord)) (ledger_freezes db)")
  case None
  then show ?thesis using run by (simp add: ConfirmWithdrawOnChain_def)
next
  case (Some row)
  define q where "q = (let q1 = (if req \<le> 0 then lf_required row else req) in if q1 \<le> 0 then 1 else q1)"
  define c where "c = (if confs < lf_confirmations row then lf_confirmations row else confs)"
  note unf = ConfirmWithdrawOnChain_def withdraw_unfold q_def c_def
  consider (conf) "lf_status row = ''CONFIRMED''"
    | (low) "lf_status row \<noteq> ''CONFIRMED''" "open_status (lf_status row)" "c < q"
    | (high) "lf_status row \<noteq> ''CONFIRMED''" "open_status (lf_status row)" "\<not> c < q"
    using run Some by (auto simp: ConfirmWithdrawOnChain_def Let_def open_status_def split: if_splits)
  then show ?thesis
  proof cases
    case conf
    let ?F = "\<lambda>r. r\<lparr>lf_confirmations := max (lf_confirmations r) c, lf_required := q, lf_updated_at := now\<rparr>"
    have m: "freeze_moved db db' (t, ord) row (?F row)"
      by (rule freeze_movedI [OF Some, where F = ?F]) (use run Some conf in \<open>auto simp: unf\<close>)
    show ?thesis
      by (rule tracked [OF m]) (use run Some conf in \<open>auto simp: unf\<close>)
  next
    case low
    let ?F = "\<lambda>r. r\<lparr>lf_status := ''BROADCASTED'', lf_tx_hash := h,
        lf_confirmations := max (lf_confirmations r) c, lf_required := q, lf_updated_at := now\<rparr>"
    have m: "freeze_moved db db' (t, ord) row (?F row)"
      by (rule freeze_movedI [OF Some, where F = ?F])
         (use run Some low in \<open>auto simp: unf open_status_def split: if_splits\<close>)
    show ?thesis
      by (rule tracked [OF m]) (use run Some low in \<open>auto simp: unf open_status_def split: if_splits\<close>)
  next
    case high
    let ?F = "\<lambda>r. r\<lparr>lf_status := ''CONFIRMED'', lf_tx_hash := h,
        lf_confirmations := max (lf_confirmations r) c, lf_required := q, lf_updated_at := now\<rparr>"
    let ?k = "(t, lf_account row, lf_asset row)"
    obtain b where b: "getBalanceTx t (lf_account row) (lf_asset row) db = Inr b"
      and sub: "valid_amt (lf_amount row)" "amt (lf_amount row) \<le> amt (bs_Frozen b)"
      and bals: "ledger_balances db' = put_balance ?k
          (bs_Available b, int_to_string (amt (bs_Frozen b) - amt (lf_amount row)), bs_WithdrawLocked b, now)
          (ledger_balances db)"
      using run Some high
      by (auto simp: unf open_status_def decimal_Inr split: if_splits)
    note bal = getBalanceTx_Inr [OF wf b]
    have m: "freeze_moved db db' (t, ord) row (?F row)"
      by (rule freeze_movedI [OF Some, where F = ?F])
         (use run Some high in \<open>auto simp: unf open_status_def split: if_splits\<close>)
    let ?w = "(bs_Available b, int_to_string (amt (bs_Frozen b) - amt (lf_amount row)), bs_WithdrawLocked b, now)"
    have v: "valid_cells ?w" and cv: "cells_view ?w = spec_settle (amt (lf_amount row)) (view db ?k)"
      using bal sub by (simp_all add: valid_cells_def cells_view_def spec_settle_def)
    show ?thesis
    proof (rule settled [OF m])
      show "view db' = (view db)(?k := spec_settle (amt (lf_amount row)) (view db ?k))"
        by (simp add: bals view_put_balance cv)
      show "wf_balances (ledger_balances db')" using wf_put_balance [OF wf v] by (simp add: bals)
    qed (use run Some high in \<open>auto simp: unf open_status_def split: if_splits\<close>)
  qed
qed

lemma released_cells:
  assumes wf: "wf_balances (ledger_balances db)" and b: "getBalanceTx t a s db = Inr b"
    and n: "0 \<le> n" "n \<le> amt (bs_Frozen b)"
  shows "valid_cells (int_to_string (amt (bs_Available b) + n), int_to_string (amt (bs_Frozen b) - n),
            bs_WithdrawLocked b, now)"
    and "cells_view (int_to_string (amt (bs_Available b) + n), int_to_string (amt (bs_Frozen b) - n),
            bs_WithdrawLocked b, now) = spec_release n (view db (t, a, s))"
  using getBalanceTx_Inr [OF wf b] n by (simp_all add: valid_cells_def cells_view_def spec_release_def)

lemma FailWithdrawOnChain_effect:
  assumes wf: "wf_balances (ledger_balances db)"
    and run: "FailWithdrawOnChain now t ord h reason confs db = Inr db'"
  obtains
    (same) "same_withdraw_side db db'" "same_vault_side db db'"
  | (released) row row' where "freeze_moved db db' (t, ord) row row'"
      "lf_status row \<noteq> ''CONFIRMED''" "lf_status row \<noteq> ''RELEASED''" "lf_status row' = ''RELEASED''"
      "view db' = (view db)((t, lf_account row, lf_asset row) :=
          spec_release (amt (lf_amount row)) (view db (t, lf_account row, lf_asset row)))"
      "wf_balances (ledger_balances db')" "deposit_events db' = deposit_events db"
      "same_vault_side db db'"
proof (cases "select_row (lf_at (t, ord)) (ledger_freezes db)")
  case None
  then show ?thesis using run by (simp add: FailWithdrawOnChain_def)
next
  case (Some row)
  define stale where "stale \<longleftrightarrow> trim_space h \<noteq> [] \<and> trim_space (lf_tx_hash row) \<noteq> [] \<and>
    \<not> equal_fold (trim_space (lf_tx_hash row)) (trim_space h)"
  note unf = FailWithdrawOnChain_def withdraw_unfold
  show ?thesis
  proof (cases "lf_status row = ''RELEASED'' \<or> lf_status row = ''CONFIRMED'' \<or> stale")
    case True
    then have "db' = set_attempt_status now t ord h ''FAILED'' db"
      using run Some by (auto simp: FailWithdrawOnChain_def stale_def split: if_splits)
    then show ?thesis
      by (intro same) (simp_all add: set_attempt_status_def same_withdraw_side_def same_vault_side_def)
  next
    case False
    let ?F = "\<lambda>r. r\<lparr>lf_status := ''RELEASED'', lf_reason := reason,
        lf_confirmations := max (lf_confirmations r) confs, lf_updated_at := now\<rparr>"
    let ?k = "(t, lf_account row, lf_asset row)" and ?n = "amt (lf_amount row)"
    from False have nst: "\<not> (trim_space h \<noteq> [] \<and> trim_space (lf_tx_hash row) \<noteq> [] \<and>
        \<not> equal_fold (trim_space (lf_tx_hash row)) (trim_space h))" by (simp add: stale_def)
    obtain b where b: "getBalanceTx t (lf_account row) (lf_asset row) db = Inr b"
      and sub: "?n \<le> amt (bs_Frozen b)"
      and bals: "ledger_balances db' = put_balance ?k
          (int_to_string (amt (bs_Available b) + ?n), int_to_string (amt (bs_Frozen b) - ?n),
           bs_WithdrawLocked b, now) (ledger_balances db)"
      using run Some False nst by (auto simp: unf decimal_Inr simp del: not_not)
    have m: "freeze_moved db db' (t, ord) row (?F row)"
      by (rule freeze_movedI [OF Some, where F = ?F]) (use run Some False nst in \<open>auto simp: unf\<close>)
    note rc = released_cells [OF wf b amt_nonneg sub, of now]
    show ?thesis
    proof (rule released [OF m])
      show "view db' = (view db)(?k := spec_release ?n (view db ?k))"
        by (simp add: bals view_put_balance rc)
      show "wf_balances (ledger_balances db')" using wf_put_balance [OF wf rc(1)] by (simp add: bals)
    qed (use run Some False nst in \<open>auto simp: unf\<close>)
  qed
qed

lemma ReleaseWithdraw_effect:
  assumes wf: "wf_balances (ledger_balances db)"
    and run: "ReleaseWithdraw now t a ord reason db = Inr db'"
  obtains
    (same) row where "select_row (lf_at (t, ord)) (ledger_freezes db) = Some row"
      "lf_status row = ''RELEASED''" "db' = db"
  | (released) row row' where "freeze_moved db db' (t, ord) row row'"
      "open_status (lf_status row)" "lf_status row' = ''RELEASED''"
      "view db' = (view db)((t, a, lf_asset row) :=
          spec_release (amt (lf_amount row)) (view db (t, a, lf_asset row)))"
      "wf_balances (ledger_balances db')" "deposit_events db' = deposit_events db"
      "same_vault_side db db'"
proof (cases "select_row (lf_at (t, ord)) (ledger_freezes db)")
  case None
  then show ?thesis using run by (simp add: ReleaseWithdraw_def)
next
  case (Some row)
  show ?thesis
  proof (cases "lf_status row = ''RELEASED''")
    case True
    then have "db' = db" using run Some by (simp add: ReleaseWithdraw_def)
    with Some True show ?thesis by (rule same)
  next
    case False
    then have op: "open_status (lf_status row)"
      using run Some by (auto simp: ReleaseWithdraw_def Let_def open_status_def split: if_splits)
    let ?F = "\<lambda>r. r\<lparr>lf_status := ''RELEASED'', lf_reason := reason, lf_updated_at := now\<rparr>"
    let ?k = "(t, a, lf_asset row)" and ?n = "amt (lf_amount row)"
    define db3 where "db3 =
      insert_entry now t a ord (lf_asset row) ''WITHDRAW_RELEASE'' (lf_amount row) ''DONE''
        (set_entry_status now t ord ''WITHDRAW_FREEZE'' ''CANCELLED''
          (update_freeze now t ord (\<lambda>r. r\<lparr>lf_status := ''RELEASED'', lf_reason := reason\<rparr>) db))"
    have db3: "ledger_balances db3 = ledger_balances db" "deposit_events db3 = deposit_events db"
        "ledger_freezes db3 = update_where (lf_at (t, ord)) ?F (ledger_freezes db)" "same_vault_side db db3"
      by (simp_all add: db3_def ledger_stmt same_vault_side_def)
    have get: "getBalanceTx t a (lf_asset row) db3 = getBalanceTx t a (lf_asset row) db"
      by (simp add: getBalanceTx_def db3)
    obtain b avail frozen where b: "getBalanceTx t a (lf_asset row) db3 = Inr b"
      and av: "addDecimalString (bs_Available b) (lf_amount row) = Inr avail"
      and fz: "subDecimalString (bs_Frozen b) (lf_amount row) = Inr frozen"
      and db': "db' = update_job now t ord
            (\<lambda>r. r\<lparr>wj_status := ''RELEASED'', wj_last_error := reason, wj_started_at := None\<rparr>)
          (insert_journal now t ''WITHDRAW'' ord a (lf_asset row) ''UNFREEZE'' (lf_amount row) avail
          (upsertBalanceTx now t a (lf_asset row) avail frozen (bs_WithdrawLocked b) db3))"
      using run Some op by (auto simp: ReleaseWithdraw_def open_status_def Let_def db3_def [symmetric])
    note b = b [unfolded get]
    have sub: "?n \<le> amt (bs_Frozen b)" using fz by (simp add: decimal_Inr)
    have bals: "ledger_balances db' = put_balance ?k
          (int_to_string (amt (bs_Available b) + ?n), int_to_string (amt (bs_Frozen b) - ?n),
           bs_WithdrawLocked b, now) (ledger_balances db)"
      using av fz by (simp add: db' ledger_stmt upsertBalanceTx_put decimal_Inr db3)
    have frz: "ledger_freezes db' = update_where (lf_at (t, ord)) ?F (ledger_freezes db)"
      by (simp add: db' ledger_stmt upsertBalanceTx_put db3)
    have rest: "deposit_events db' = deposit_events db" "same_vault_side db db'"
      using db3(4) by (simp_all add: db' ledger_stmt upsertBalanceTx_put db3 same_vault_side_def)
    have m: "freeze_moved db db' (t, ord) row (?F row)"
      by (rule freeze_movedI [OF Some, where F = ?F]) (simp_all add: frz)
    note rc = released_cells [OF wf b amt_nonneg sub, of now]
    show ?thesis
    proof (rule released [OF m op])
      show "view db' = (view db)(?k := spec_release ?n (view db ?k))"
        by (simp add: bals view_put_balance rc)
      show "wf_balances (ledger_balances db')" using wf_put_balance [OF wf rc(1)] by (simp add: bals)
    qed (simp_all add: rest)
  qed
qed

end
