(* ===== verification/Ledger_Deposit.thy ===== *)
theory Ledger_Deposit
  imports Ledger_Spec
begin

text \<open>
  Deposits in the ledger: \<open>CreditDeposit\<close> and \<open>recordReorgAuditEvent\<close> (\<open>postgres.go\<close>).
  The three blocks of \<open>CreditDeposit\<close> that touch the balance (credit, unlock, revert) are
  definitions of their own, run in the order of the code. \<open>spec_deposit\<close> is the abstract
  transition, and \<open>CreditDeposit_effect\<close> the refinement.
\<close>

section \<open>Operations\<close>

definition recordReorgAuditEvent :: "int \<Rightarrow> deposit_credit_input \<Rightarrow> ledger_db \<Rightarrow> ledger_db" where
  "recordReorgAuditEvent now inp db =
     db\<lparr>ledger_audit_events :=
       insert_or_update
         (\<lambda>r. ae_tenant r = di_TenantID inp \<and> ae_order r = di_OrderID inp \<and> ae_type r = ''DEPOSIT_REORG_REVERTED'')
         \<lparr>ae_tenant = di_TenantID inp, ae_account = di_AccountID inp, ae_order = di_OrderID inp,
          ae_chain = di_Chain inp, ae_network = di_Network inp, ae_asset = di_Coin inp,
          ae_amount = di_Amount inp, ae_type = ''DEPOSIT_REORG_REVERTED'',
          ae_detail = trim_space (di_TxHash inp), ae_created_at = now, ae_updated_at = now\<rparr>
         (\<lambda>r. r\<lparr>ae_account := di_AccountID inp, ae_chain := di_Chain inp, ae_network := di_Network inp,
                ae_asset := di_Coin inp, ae_amount := di_Amount inp,
                ae_detail := trim_space (di_TxHash inp), ae_updated_at := now\<rparr>)
         (ledger_audit_events db)\<rparr>"

text \<open>\<open>if !oldCredit && depositStatusCredits(effectiveStatus)\<close>: returns the new \<open>credited\<close> flag.\<close>

definition credit_block ::
  "int \<Rightarrow> deposit_credit_input \<Rightarrow> string \<Rightarrow> bool \<Rightarrow> ledger_db \<Rightarrow> (ledger_db \<times> bool) result" where
  "credit_block now inp effectiveStatus oldCredit db =
     (if \<not> oldCredit \<and> depositStatusCredits effectiveStatus then
        bindE (getBalanceTx (di_TenantID inp) (di_AccountID inp) (di_Coin inp) db) (\<lambda>bal.
        bindE (addDecimalString (bs_Available bal) (di_Amount inp)) (\<lambda>avail.
        bindE (addDecimalString (bs_WithdrawLocked bal) (di_Amount inp)) (\<lambda>locked.
        Inr (insert_journal now (di_TenantID inp) ''DEPOSIT'' (di_OrderID inp) (di_AccountID inp)
               (di_Coin inp) ''CREDIT'' (di_Amount inp) avail
               (upsertBalanceTx now (di_TenantID inp) (di_AccountID inp) (di_Coin inp)
                  avail (bs_Frozen bal) locked db), True))))
      else Inr (db, oldCredit))"

text \<open>\<open>if newCredited && !oldUnlock && effectiveStatus == "FINALIZED"\<close>.\<close>

definition unlock_block ::
  "int \<Rightarrow> deposit_credit_input \<Rightarrow> string \<Rightarrow> bool \<Rightarrow> bool \<Rightarrow> ledger_db \<Rightarrow> (ledger_db \<times> bool) result" where
  "unlock_block now inp effectiveStatus newCredited oldUnlock db =
     (if newCredited \<and> \<not> oldUnlock \<and> effectiveStatus = ''FINALIZED'' then
        bindE (getBalanceTx (di_TenantID inp) (di_AccountID inp) (di_Coin inp) db) (\<lambda>bal.
        bindE (subDecimalString (bs_WithdrawLocked bal) (di_Amount inp)) (\<lambda>locked.
        let db1 = upsertBalanceTx now (di_TenantID inp) (di_AccountID inp) (di_Coin inp)
                    (bs_Available bal) (bs_Frozen bal) locked db in
        bindE (computeWithdrawable (bs_Available bal) locked) (\<lambda>withdrawable.
        Inr (insert_journal now (di_TenantID inp) ''DEPOSIT'' (di_OrderID inp) (di_AccountID inp)
               (di_Coin inp) ''UNLOCK'' (di_Amount inp) withdrawable db1, True))))
      else Inr (db, oldUnlock))"

text \<open>\<open>if oldCredit && effectiveStatus == "REVERTED"\<close>.\<close>

definition revert_block ::
  "int \<Rightarrow> deposit_credit_input \<Rightarrow> string \<Rightarrow> bool \<Rightarrow> bool \<Rightarrow> bool \<Rightarrow> bool \<Rightarrow> ledger_db
     \<Rightarrow> (ledger_db \<times> bool \<times> bool) result" where
  "revert_block now inp effectiveStatus oldCredit oldUnlock newCredited newUnlocked db =
     (if oldCredit \<and> effectiveStatus = ''REVERTED'' then
        bindE (getBalanceTx (di_TenantID inp) (di_AccountID inp) (di_Coin inp) db) (\<lambda>bal.
        bindE (subDecimalString (bs_Available bal) (di_Amount inp)) (\<lambda>avail.
        bindE (if \<not> oldUnlock then subDecimalString (bs_WithdrawLocked bal) (di_Amount inp)
               else Inr (bs_WithdrawLocked bal)) (\<lambda>locked.
        let db1 = upsertBalanceTx now (di_TenantID inp) (di_AccountID inp) (di_Coin inp)
                    avail (bs_Frozen bal) locked db;
            db2 = insert_journal now (di_TenantID inp) ''DEPOSIT_REVERT'' (di_OrderID inp) (di_AccountID inp)
                    (di_Coin inp) ''DEBIT'' (di_Amount inp) avail db1
        in Inr (recordReorgAuditEvent now inp db2, False, False))))
      else Inr (db, newCredited, newUnlocked))"

definition deposit_target :: "deposit_credit_input \<Rightarrow> int \<times> int \<times> string" where
  "deposit_target inp =
     (let requiredConfs = (if di_RequiredConfs inp \<le> 0 then 1 else di_RequiredConfs inp);
          unlockConfs = (if di_UnlockConfs inp > 0 \<and> di_UnlockConfs inp < requiredConfs
                         then requiredConfs else di_UnlockConfs inp)
      in (requiredConfs, unlockConfs,
          normalizeDepositLifecycleStatus (di_ScanStatus inp) (di_Status inp) (di_Confirmations inp)
            requiredConfs unlockConfs))"

text \<open>\<open>SELECT status, credited, unlocked\<close>, or the values set after the insert of a new row.\<close>

definition old_deposit :: "deposit_row option \<Rightarrow> string \<times> bool \<times> bool" where
  "old_deposit old = (case old of None \<Rightarrow> ([], False, False) | Some d \<Rightarrow> (de_status d, de_credited d, de_unlocked d))"

definition insert_deposit_event :: "int \<Rightarrow> deposit_credit_input \<Rightarrow> ledger_db \<Rightarrow> ledger_db" where
  "insert_deposit_event now inp db =
     (case deposit_target inp of (requiredConfs, unlockConfs, targetStatus) \<Rightarrow>
        db\<lparr>deposit_events := deposit_events db @
          [\<lparr>de_tenant = di_TenantID inp, de_account = di_AccountID inp, de_order = di_OrderID inp,
            de_chain = di_Chain inp, de_network = di_Network inp, de_coin = di_Coin inp,
            de_amount = di_Amount inp, de_tx_hash = di_TxHash inp, de_from = di_FromAddress inp,
            de_to = di_ToAddress inp, de_confirmations = di_Confirmations inp,
            de_required = requiredConfs, de_unlock = maxInt64 unlockConfs requiredConfs,
            de_status = targetStatus, de_credited = False, de_unlocked = False,
            de_created_at = now, de_updated_at = now\<rparr>]\<rparr>)"

definition update_deposit_event ::
  "int \<Rightarrow> deposit_credit_input \<Rightarrow> string \<Rightarrow> bool \<Rightarrow> bool \<Rightarrow> deposit_row \<Rightarrow> deposit_row" where
  "update_deposit_event now inp effectiveStatus newCredited newUnlocked r =
     (case deposit_target inp of (requiredConfs, unlockConfs, targetStatus) \<Rightarrow>
        r\<lparr>de_account := di_AccountID inp, de_chain := di_Chain inp, de_network := di_Network inp,
          de_coin := di_Coin inp, de_amount := di_Amount inp, de_tx_hash := di_TxHash inp,
          de_from := di_FromAddress inp, de_to := di_ToAddress inp,
          de_confirmations := max (de_confirmations r) (di_Confirmations inp),
          de_required := requiredConfs, de_unlock := maxInt64 unlockConfs requiredConfs,
          de_status := effectiveStatus, de_credited := newCredited, de_unlocked := newUnlocked,
          de_updated_at := now\<rparr>)"

definition CreditDeposit :: "int \<Rightarrow> deposit_credit_input \<Rightarrow> ledger_db \<Rightarrow> ledger_db result" where
  "CreditDeposit now inp db =
     (let old = select_row (de_at (di_TenantID inp, di_OrderID inp)) (deposit_events db);
          db0 = (case old of None \<Rightarrow> insert_deposit_event now inp db | Some _ \<Rightarrow> db);
          (oldStatus, oldCredit, oldUnlock) = old_deposit old;
          (requiredConfs, unlockConfs, targetStatus) = deposit_target inp;
          effectiveStatus = resolveEffectiveDepositStatus oldStatus targetStatus
      in
      bindE (credit_block now inp effectiveStatus oldCredit db0) (\<lambda>(db1, newCredited).
      bindE (unlock_block now inp effectiveStatus newCredited oldUnlock db1) (\<lambda>(db2, newUnlocked).
      bindE (revert_block now inp effectiveStatus oldCredit oldUnlock newCredited newUnlocked db2)
        (\<lambda>(db3, newCredited', newUnlocked').
      Inr (db3\<lparr>deposit_events :=
             update_where (de_at (di_TenantID inp, di_OrderID inp))
               (update_deposit_event now inp effectiveStatus newCredited' newUnlocked')
               (deposit_events db3)\<rparr>)))))"


section \<open>The abstract transition\<close>

definition spec_deposit ::
  "bool \<Rightarrow> bool \<Rightarrow> deposit_stage \<Rightarrow> int \<Rightarrow> account_view \<Rightarrow> account_view \<times> bool \<times> bool" where
  "spec_deposit credited unlocked stage n v =
     (case stage of
        Pending \<Rightarrow> (v, credited, unlocked)
      | Confirmed \<Rightarrow> (if credited then v else spec_credit n v, True, unlocked)
      | Finalized \<Rightarrow>
          (if unlocked then (if credited then v else spec_credit n v)
           else spec_unlock n (if credited then v else spec_credit n v), True, True)
      | Reverted \<Rightarrow> if credited then (spec_revert unlocked n v, False, False) else (v, credited, unlocked))"

definition deposit_consistent :: "deposit_credit_input \<Rightarrow> ledger_db \<Rightarrow> bool" where
  "deposit_consistent inp db \<longleftrightarrow>
     (case select_row (de_at (di_TenantID inp, di_OrderID inp)) (deposit_events db) of
        None \<Rightarrow> True
      | Some d \<Rightarrow> de_credited d \<longrightarrow>
          de_account d = di_AccountID inp \<and> de_coin d = di_Coin inp \<and>
          valid_amt (di_Amount inp) \<and> amt (de_amount d) = amt (di_Amount inp))"

definition deposit_account :: "deposit_credit_input \<Rightarrow> account_key" where
  "deposit_account inp = (di_TenantID inp, di_AccountID inp, di_Coin inp)"

text \<open>The stage a notification drives a deposit to.\<close>

definition deposit_stage_after :: "deposit_credit_input \<Rightarrow> deposit_row option \<Rightarrow> deposit_stage" where
  "deposit_stage_after inp old =
     max (stage_of (fst (old_deposit old))) (stage_of (snd (snd (deposit_target inp))))"

text \<open>
  What each block does to the rest of the state: nothing outside the balances and the
  journals.
\<close>

definition balance_only :: "ledger_db \<Rightarrow> ledger_db \<Rightarrow> bool" where
  "balance_only db db' \<longleftrightarrow>
     ledger_freezes db' = ledger_freezes db \<and> deposit_events db' = deposit_events db \<and>
     withdraw_jobs db' = withdraw_jobs db \<and> same_vault_side db db' \<and> wf_balances (ledger_balances db')"

definition balance_step :: "ledger_db \<Rightarrow> ledger_db \<Rightarrow> account_key \<Rightarrow> account_view \<Rightarrow> bool" where
  "balance_step db db' k v \<longleftrightarrow> balance_only db db' \<and> view db' = (view db)(k := v)"

lemma balance_step_refl: "wf_balances (ledger_balances db) \<Longrightarrow> balance_step db db k (view db k)"
  by (simp add: balance_step_def balance_only_def same_vault_side_def)

lemma balance_step_trans: "balance_step a b k v \<Longrightarrow> balance_step b c k w \<Longrightarrow> balance_step a c k w"
  by (simp add: balance_step_def balance_only_def same_vault_side_def)

lemma balance_stepD:
  assumes "balance_step db db' k v"
  shows "view db' k = v" "wf_balances (ledger_balances db')"
  using assms by (simp_all add: balance_step_def balance_only_def)

lemma balance_step_put:
  assumes "wf_balances (ledger_balances db)" and "valid_cells w"
    and "ledger_balances db' = put_balance k w (ledger_balances db)"
    and "ledger_freezes db' = ledger_freezes db" "deposit_events db' = deposit_events db"
      "withdraw_jobs db' = withdraw_jobs db" "same_vault_side db db'"
  shows "balance_step db db' k (cells_view w)"
  using assms wf_put_balance [OF assms(1,2), of k]
  by (simp add: balance_step_def balance_only_def view_put_balance)

lemma stage_eq_name [simp]:
  "stage_name s = ''PENDING'' \<longleftrightarrow> s = Pending" "stage_name s = ''CONFIRMED'' \<longleftrightarrow> s = Confirmed"
  "stage_name s = ''FINALIZED'' \<longleftrightarrow> s = Finalized" "stage_name s = ''REVERTED'' \<longleftrightarrow> s = Reverted"
  by (cases s; simp add: stage_name_def)+

lemma credit_block_effect:
  assumes wf: "wf_balances (ledger_balances db)"
    and run: "credit_block now inp (stage_name s) c db = Inr (db', c')"
    and k: "k = deposit_account inp"
  shows "c' = (c \<or> s \<in> {Confirmed, Finalized}) \<and> (\<not> c \<longrightarrow> c' \<longrightarrow> valid_amt (di_Amount inp)) \<and>
     balance_step db db' k
       (if c' \<and> \<not> c then spec_credit (amt (di_Amount inp)) (view db k) else view db k)"
proof (cases "\<not> c \<and> s \<in> {Confirmed, Finalized}")
  case False
  then have "db' = db \<and> c' = c" using run by (auto simp: credit_block_def credits_stage)
  then show ?thesis using False balance_step_refl [OF wf] by auto
next
  case True
  then obtain b avail locked where
    b: "getBalanceTx (di_TenantID inp) (di_AccountID inp) (di_Coin inp) db = Inr b"
    and d: "addDecimalString (bs_Available b) (di_Amount inp) = Inr avail"
      "addDecimalString (bs_WithdrawLocked b) (di_Amount inp) = Inr locked"
    and db': "db' = insert_journal now (di_TenantID inp) ''DEPOSIT'' (di_OrderID inp) (di_AccountID inp)
             (di_Coin inp) ''CREDIT'' (di_Amount inp) avail
             (upsertBalanceTx now (di_TenantID inp) (di_AccountID inp) (di_Coin inp)
                avail (bs_Frozen b) locked db)" and c': "c'"
    using run by (auto simp: credit_block_def credits_stage)
  note bal = getBalanceTx_Inr [OF wf b]
  let ?w = "(avail, bs_Frozen b, locked, now)"
  have v: "valid_cells ?w" and cv: "cells_view ?w = spec_credit (amt (di_Amount inp)) (view db k)"
    and n: "valid_amt (di_Amount inp)"
    using bal d by (simp_all add: valid_cells_def cells_view_def spec_credit_def decimal_Inr k deposit_account_def)
  have "balance_step db db' k (cells_view ?w)"
    by (rule balance_step_put [OF wf v])
       (simp_all add: db' ledger_stmt upsertBalanceTx_put k deposit_account_def same_vault_side_def)
  then show ?thesis using True c' n by (simp add: cv)
qed

lemma unlock_block_effect:
  assumes wf: "wf_balances (ledger_balances db)"
    and run: "unlock_block now inp (stage_name s) c u db = Inr (db', u')"
    and k: "k = deposit_account inp"
  shows "u' = (u \<or> c \<and> s = Finalized) \<and> (\<not> u \<longrightarrow> u' \<longrightarrow> valid_amt (di_Amount inp)) \<and>
     balance_step db db' k
       (if u' \<and> \<not> u then spec_unlock (amt (di_Amount inp)) (view db k) else view db k)"
proof (cases "c \<and> \<not> u \<and> s = Finalized")
  case False
  then have "db' = db \<and> u' = u" using run by (auto simp: unlock_block_def)
  then show ?thesis using False balance_step_refl [OF wf] by auto
next
  case True
  then obtain b locked w where
    b: "getBalanceTx (di_TenantID inp) (di_AccountID inp) (di_Coin inp) db = Inr b"
    and d: "subDecimalString (bs_WithdrawLocked b) (di_Amount inp) = Inr locked"
    and db': "db' = insert_journal now (di_TenantID inp) ''DEPOSIT'' (di_OrderID inp) (di_AccountID inp)
             (di_Coin inp) ''UNLOCK'' (di_Amount inp) w
             (upsertBalanceTx now (di_TenantID inp) (di_AccountID inp) (di_Coin inp)
                (bs_Available b) (bs_Frozen b) locked db)" and u': "u'"
    using run by (auto simp: unlock_block_def Let_def)
  note bal = getBalanceTx_Inr [OF wf b]
  let ?w = "(bs_Available b, bs_Frozen b, locked, now)"
  have v: "valid_cells ?w" and cv: "cells_view ?w = spec_unlock (amt (di_Amount inp)) (view db k)"
    and n: "valid_amt (di_Amount inp)"
    using bal d by (simp_all add: valid_cells_def cells_view_def spec_unlock_def decimal_Inr k deposit_account_def)
  have "balance_step db db' k (cells_view ?w)"
    by (rule balance_step_put [OF wf v])
       (simp_all add: db' ledger_stmt upsertBalanceTx_put k deposit_account_def same_vault_side_def)
  then show ?thesis using True u' n by (simp add: cv)
qed

lemma revert_block_effect:
  assumes wf: "wf_balances (ledger_balances db)"
    and run: "revert_block now inp (stage_name s) c u c1 u1 db = Inr (db', c', u')"
    and k: "k = deposit_account inp"
  shows "(if c \<and> s = Reverted
          then \<not> c' \<and> \<not> u' \<and> balance_step db db' k (spec_revert u (amt (di_Amount inp)) (view db k))
          else c' = c1 \<and> u' = u1 \<and> balance_step db db' k (view db k))"
proof (cases "c \<and> s = Reverted")
  case False
  then have "db' = db \<and> c' = c1 \<and> u' = u1" using run by (auto simp: revert_block_def)
  then show ?thesis using False balance_step_refl [OF wf] by auto
next
  case True
  then obtain b avail locked where
    b: "getBalanceTx (di_TenantID inp) (di_AccountID inp) (di_Coin inp) db = Inr b"
    and d: "subDecimalString (bs_Available b) (di_Amount inp) = Inr avail"
      "(if \<not> u then subDecimalString (bs_WithdrawLocked b) (di_Amount inp)
        else Inr (bs_WithdrawLocked b)) = Inr locked"
    and db': "db' = recordReorgAuditEvent now inp
           (insert_journal now (di_TenantID inp) ''DEPOSIT_REVERT'' (di_OrderID inp) (di_AccountID inp)
             (di_Coin inp) ''DEBIT'' (di_Amount inp) avail
             (upsertBalanceTx now (di_TenantID inp) (di_AccountID inp) (di_Coin inp)
                avail (bs_Frozen b) locked db))" and cu: "\<not> c'" "\<not> u'"
    using run by (auto simp: revert_block_def Let_def)
  note bal = getBalanceTx_Inr [OF wf b]
  let ?w = "(avail, bs_Frozen b, locked, now)"
  have v: "valid_cells ?w" and cv: "cells_view ?w = spec_revert u (amt (di_Amount inp)) (view db k)"
    using bal d
    by (simp_all add: valid_cells_def cells_view_def spec_revert_def decimal_Inr k deposit_account_def split: if_splits)
  have "balance_step db db' k (cells_view ?w)"
    by (rule balance_step_put [OF wf v])
       (simp_all add: db' recordReorgAuditEvent_def ledger_stmt upsertBalanceTx_put k deposit_account_def
         same_vault_side_def)
  then show ?thesis using True cu by (simp add: cv)
qed

text \<open>The row of the order after the insert of a new one.\<close>

definition deposit_row0 :: "int \<Rightarrow> deposit_credit_input \<Rightarrow> deposit_row option \<Rightarrow> deposit_row" where
  "deposit_row0 now inp old =
     (case old of Some d \<Rightarrow> d
      | None \<Rightarrow> last (deposit_events (insert_deposit_event now inp empty_db)))"

lemma deposit_row0_key:
  "old = select_row (de_at (di_TenantID inp, di_OrderID inp)) (deposit_events db) \<Longrightarrow>
   de_key (deposit_row0 now inp old) = (di_TenantID inp, di_OrderID inp)"
  by (auto simp: deposit_row0_def insert_deposit_event_def empty_db_def de_key_def
       split: option.splits prod.splits dest: deposits.selected_key)

lemma insert_deposit_event_row:
  "insert_deposit_event now inp db =
     db\<lparr>deposit_events := deposit_events db @ [deposit_row0 now inp None]\<rparr>"
  by (simp add: insert_deposit_event_def deposit_row0_def empty_db_def split: prod.splits)

lemma update_deposit_event_simps [simp]:
  "de_key (update_deposit_event now inp st c u r) = de_key r"
  "de_status (update_deposit_event now inp st c u r) = st"
  "de_credited (update_deposit_event now inp st c u r) = c"
  "de_unlocked (update_deposit_event now inp st c u r) = u"
  "de_amount (update_deposit_event now inp st c u r) = di_Amount inp"
  "de_account_key (update_deposit_event now inp st c u r) = (de_tenant r, di_AccountID inp, di_Coin inp)"
  by (simp_all add: update_deposit_event_def de_key_def de_account_key_def split: prod.splits)

lemma deposit_blocks_effect:
  assumes wf: "wf_balances (ledger_balances db)" and k: "k = deposit_account inp"
    and c: "credit_block now inp (stage_name s) oc db = Inr (db1, c1)"
    and u: "unlock_block now inp (stage_name s) c1 ou db1 = Inr (db2, u1)"
    and r: "revert_block now inp (stage_name s) oc ou c1 u1 db2 = Inr (db3, c2, u2)"
  shows "balance_step db db3 k (fst (spec_deposit oc ou s (amt (di_Amount inp)) (view db k)))"
    and "(c2, u2) = snd (spec_deposit oc ou s (amt (di_Amount inp)) (view db k))"
    and "\<not> oc \<Longrightarrow> c2 \<Longrightarrow> valid_amt (di_Amount inp)"
proof -
  note C = credit_block_effect [OF wf c k]
  then have wf1: "wf_balances (ledger_balances db1)" using balance_stepD by blast
  note U = unlock_block_effect [OF wf1 u k]
  then have wf2: "wf_balances (ledger_balances db2)" using balance_stepD by blast
  note R = revert_block_effect [OF wf2 r k]
  from C have v1: "view db1 k = (if c1 \<and> \<not> oc then spec_credit (amt (di_Amount inp)) (view db k) else view db k)"
    using balance_stepD by blast
  from U have v2: "view db2 k = (if u1 \<and> \<not> ou then spec_unlock (amt (di_Amount inp)) (view db1 k) else view db1 k)"
    using balance_stepD by blast
  have s12: "balance_step db db2 k (view db2 k)"
    using C U unfolding v2 by (elim conjE) (rule balance_step_trans)
  have "balance_step db2 db3 k (fst (spec_deposit oc ou s (amt (di_Amount inp)) (view db k)))"
    using R v1 v2 C U by (cases s) (auto simp: spec_deposit_def split: if_splits)
  with s12 show "balance_step db db3 k (fst (spec_deposit oc ou s (amt (di_Amount inp)) (view db k)))"
    by (rule balance_step_trans)
  show "(c2, u2) = snd (spec_deposit oc ou s (amt (di_Amount inp)) (view db k))"
    using R C U by (cases s) (auto simp: spec_deposit_def split: if_splits)
  show "valid_amt (di_Amount inp)" if "\<not> oc" "c2"
    using R C U that by (auto split: if_splits)
qed

lemma CreditDeposit_effect:
  assumes wf: "wf_balances (ledger_balances db)"
    and run: "CreditDeposit now inp db = Inr db'"
    and old: "old = select_row (de_at (di_TenantID inp, di_OrderID inp)) (deposit_events db)"
    and oc: "old_deposit old = (ost, oc, ou)" and k: "k = deposit_account inp"
  obtains r where
    "r = update_deposit_event now inp (stage_name (deposit_stage_after inp old)) (de_credited r) (de_unlocked r)
           (deposit_row0 now inp old)"
    "(de_credited r, de_unlocked r) =
       snd (spec_deposit oc ou (deposit_stage_after inp old) (amt (di_Amount inp)) (view db k))"
    "\<not> oc \<Longrightarrow> de_credited r \<Longrightarrow> valid_amt (di_Amount inp)"
    "deposit_events db' =
       (case old of None \<Rightarrow> deposit_events db @ [r]
        | Some _ \<Rightarrow> update_where (de_at (di_TenantID inp, di_OrderID inp))
             (update_deposit_event now inp (stage_name (deposit_stage_after inp old)) (de_credited r) (de_unlocked r))
             (deposit_events db))"
    "view db' = (view db)(k := fst (spec_deposit oc ou (deposit_stage_after inp old) (amt (di_Amount inp)) (view db k)))"
    "wf_balances (ledger_balances db')" "ledger_freezes db' = ledger_freezes db" "same_vault_side db db'"
proof -
  let ?at = "de_at (di_TenantID inp, di_OrderID inp)" and ?s = "deposit_stage_after inp old"
  define db0 where "db0 = (case old of None \<Rightarrow> insert_deposit_event now inp db | Some _ \<Rightarrow> db)"
  have same0: "ledger_balances db0 = ledger_balances db" "ledger_freezes db0 = ledger_freezes db"
      "same_vault_side db db0"
    by (auto simp: db0_def insert_deposit_event_row same_vault_side_def split: option.splits)
  have wf0: "wf_balances (ledger_balances db0)" using wf by (simp add: same0)
  have eff: "resolveEffectiveDepositStatus ost (snd (snd (deposit_target inp))) = stage_name ?s"
    by (simp add: resolve_is_max deposit_stage_after_def oc)
  obtain db1 c1 db2 u1 db3 c2 u2 where
    c: "credit_block now inp (stage_name ?s) oc db0 = Inr (db1, c1)"
    and u: "unlock_block now inp (stage_name ?s) c1 ou db1 = Inr (db2, u1)"
    and r: "revert_block now inp (stage_name ?s) oc ou c1 u1 db2 = Inr (db3, c2, u2)"
    and db': "db' = db3\<lparr>deposit_events := update_where ?at
                 (update_deposit_event now inp (stage_name ?s) c2 u2) (deposit_events db3)\<rparr>"
    using run by (auto simp: CreditDeposit_def Let_def old [symmetric] db0_def [symmetric] oc eff [symmetric]
        split: prod.splits)
  note B = deposit_blocks_effect [OF wf0 k c u r, unfolded same0]
  let ?f = "update_deposit_event now inp (stage_name ?s) c2 u2"
  have ev3: "deposit_events db3 = deposit_events db0"
    and rest: "ledger_freezes db3 = ledger_freezes db" "same_vault_side db db3"
      "wf_balances (ledger_balances db3)" "view db3 = (view db0)(k := view db3 k)"
    using B(1) same0 by (auto simp: balance_step_def balance_only_def same_vault_side_def)
  have final: "ledger_balances db' = ledger_balances db3" "ledger_freezes db' = ledger_freezes db3"
      "same_vault_side db db'"
    using rest by (simp_all add: db' same_vault_side_def)
  have ev: "deposit_events db' = (case old of None \<Rightarrow> deposit_events db @ [?f (deposit_row0 now inp old)]
        | Some _ \<Rightarrow> update_where ?at ?f (deposit_events db))"
    using old deposit_row0_key [OF old, of now]
    by (auto simp: db' ev3 db0_def insert_deposit_event_row update_where_none deposits.at_key split: option.splits)
  show ?thesis
    by (rule that [of "?f (deposit_row0 now inp old)"])
       (use B rest same0 final in \<open>auto simp: ev balance_step_def split: option.splits\<close>)
qed


lemma credit_deposit_row:
  assumes old: "old = select_row (de_at (di_TenantID inp, di_OrderID inp)) (deposit_events db)"
    and r: "r = update_deposit_event now inp st c u (deposit_row0 now inp old)"
    and ev: "deposit_events db' = (case old of None \<Rightarrow> deposit_events db @ [r]
        | Some _ \<Rightarrow> update_where (de_at (di_TenantID inp, di_OrderID inp))
            (update_deposit_event now inp st c u) (deposit_events db))"
  shows "select_row (de_at (di_TenantID inp, di_OrderID inp)) (deposit_events db') = Some r"
proof (cases old)
  case None
  have "de_key r = (di_TenantID inp, di_OrderID inp)"
    using arg_cong [OF r, of de_key] deposit_row0_key [OF old, of now] by simp
  then show ?thesis using None old by (simp add: ev deposits.select_append_at)
next
  case (Some d)
  then have "r = update_deposit_event now inp st c u d" using r by (simp add: deposit_row0_def)
  with Some show ?thesis using old by (simp add: ev deposits.select_update_at)
qed


section \<open>Sequences of notifications\<close>

text \<open>
  A deposit is reported many times: on every scan, by retries, and after a reorganisation.
  \<open>deposit_effect\<close> is what a deposit at a given stage contributes to its account, whatever
  the way it got there.
\<close>

definition deposit_effect :: "deposit_stage \<Rightarrow> int \<Rightarrow> account_view \<Rightarrow> account_view" where
  "deposit_effect s n v =
     (case s of Pending \<Rightarrow> v | Confirmed \<Rightarrow> spec_credit n v
      | Finalized \<Rightarrow> spec_unlock n (spec_credit n v) | Reverted \<Rightarrow> v)"

definition target_stage :: "deposit_credit_input \<Rightarrow> deposit_stage" where
  "target_stage inp = stage_of (snd (snd (deposit_target inp)))"

text \<open>Two notifications of one deposit.\<close>

definition same_deposit :: "deposit_credit_input \<Rightarrow> deposit_credit_input \<Rightarrow> bool" where
  "same_deposit a b \<longleftrightarrow> di_TenantID a = di_TenantID b \<and> di_OrderID a = di_OrderID b \<and>
     di_AccountID a = di_AccountID b \<and> di_Coin a = di_Coin b \<and> di_Amount a = di_Amount b"

fun notify_all :: "(int \<times> deposit_credit_input) list \<Rightarrow> ledger_db \<Rightarrow> ledger_db result" where
  "notify_all [] db = Inr db"
| "notify_all ((now, inp) # xs) db = bindE (CreditDeposit now inp db) (notify_all xs)"

definition deposit_at_stage ::
  "ledger_db \<Rightarrow> deposit_credit_input \<Rightarrow> deposit_stage \<Rightarrow> ledger_db \<Rightarrow> bool" where
  "deposit_at_stage db0 inp s db \<longleftrightarrow>
     wf_balances (ledger_balances db) \<and>
     view db = (view db0)(deposit_account inp :=
       deposit_effect s (amt (di_Amount inp)) (view db0 (deposit_account inp))) \<and>
     (case select_row (de_at (di_TenantID inp, di_OrderID inp)) (deposit_events db) of
        None \<Rightarrow> s = Pending
      | Some d \<Rightarrow> stage_of (de_status d) = s \<and> de_credited d = (s \<in> {Confirmed, Finalized}) \<and>
                  de_unlocked d = (s = Finalized))"

text \<open>What the table says of a deposit.\<close>

definition deposit_flags :: "deposit_credit_input \<Rightarrow> ledger_db \<Rightarrow> deposit_stage \<times> bool \<times> bool" where
  "deposit_flags inp db =
     (case select_row (de_at (di_TenantID inp, di_OrderID inp)) (deposit_events db) of
        None \<Rightarrow> (Pending, False, False)
      | Some d \<Rightarrow> (stage_of (de_status d), de_credited d, de_unlocked d))"

lemma spec_deposit_effect:
  "spec_deposit (s \<in> {Confirmed, Finalized}) (s = Finalized) (max s s') n (deposit_effect s n v) =
     (deposit_effect (max s s') n v, max s s' \<in> {Confirmed, Finalized}, max s s' = Finalized)"
  by (cases s; cases s')
     (simp_all add: spec_deposit_def deposit_effect_def max_def less_eq_deposit_stage_def)

lemma deposit_at_stage_step:
  assumes inv: "deposit_at_stage db0 inp s db" and same: "same_deposit x inp"
    and run: "CreditDeposit now x db = Inr db'"
  shows "deposit_at_stage db0 inp (max s (target_stage x)) db'"
proof -
  let ?k = "(di_TenantID inp, di_OrderID inp)" and ?a = "deposit_account inp" and ?n = "amt (di_Amount inp)"
  let ?m = "max s (target_stage x)"
  have id: "(di_TenantID x, di_OrderID x) = ?k" "deposit_account x = ?a" "di_Amount x = di_Amount inp"
    using same by (simp_all add: same_deposit_def deposit_account_def)
  define old where "old = select_row (de_at ?k) (deposit_events db)"
  have wf: "wf_balances (ledger_balances db)"
    and v0: "view db = (view db0)(?a := deposit_effect s ?n (view db0 ?a))"
    using inv by (simp_all add: deposit_at_stage_def)
  obtain ost where od: "old_deposit old = (ost, s \<in> {Confirmed, Finalized}, s = Finalized)" "stage_of ost = s"
    using inv by (cases old) (auto simp: deposit_at_stage_def old_def [symmetric] old_deposit_def
        stage_of_def normalizeStoredDepositStatus_def to_upper_def Let_def)
  have st: "deposit_stage_after x old = ?m"
    using od by (simp add: deposit_stage_after_def target_stage_def)
  let ?f = "\<lambda>r. update_deposit_event now x (stage_name ?m) (de_credited r) (de_unlocked r)"
  obtain r where r: "r = ?f r (deposit_row0 now x old)"
    and fl: "(de_credited r, de_unlocked r) = snd (spec_deposit (s \<in> {Confirmed, Finalized}) (s = Finalized) ?m ?n (view db ?a))"
    and ev: "deposit_events db' = (case old of None \<Rightarrow> deposit_events db @ [r]
        | Some _ \<Rightarrow> update_where (de_at ?k) (?f r) (deposit_events db))"
    and v: "view db' = (view db)(?a := fst (spec_deposit (s \<in> {Confirmed, Finalized}) (s = Finalized) ?m ?n (view db ?a)))"
    and wf': "wf_balances (ledger_balances db')"
    using CreditDeposit_effect [OF wf run, of old, unfolded id, OF old_def od(1) refl, unfolded st] by metis
  have va: "view db ?a = deposit_effect s ?n (view db0 ?a)" using v0 by simp
  have "select_row (de_at ?k) (deposit_events db') = Some r"
    using credit_deposit_row [of old x db r now, unfolded id, OF old_def r ev] .
  moreover have "stage_of (de_status r) = ?m" using arg_cong [OF r, of de_status] by simp
  moreover have "view db' = (view db0)(?a := deposit_effect ?m ?n (view db0 ?a))"
    by (simp only: v va spec_deposit_effect fst_conv) (simp add: v0)
  ultimately show ?thesis
    using fl [unfolded va spec_deposit_effect] wf' by (simp add: deposit_at_stage_def)
qed

lemma notify_all_stage:
  assumes "deposit_at_stage db0 inp s db" and "\<forall>x\<in>set xs. same_deposit (snd x) inp"
    and "notify_all xs db = Inr db'"
  shows "deposit_at_stage db0 inp (fold max (map (target_stage \<circ> snd) xs) s) db'"
  using assms
proof (induction xs arbitrary: s db)
  case (Cons x xs)
  then obtain db1 where "CreditDeposit (fst x) (snd x) db = Inr db1" "notify_all xs db1 = Inr db'"
    by (cases x) auto
  then show ?case
    using Cons.IH [OF deposit_at_stage_step [OF Cons.prems(1)]] Cons.prems(2) by (simp add: max.commute)
qed simp

end
