(* ===== verification/Ledger_Treasury.thy ===== *)
theory Ledger_Treasury
  imports Ledger_Spec
begin

text \<open>
  Sweeps and treasury transfers (\<open>postgres.go\<close>, \<open>ReserveSweep\<close> to
  \<open>FailTreasuryTransferOnChain\<close>). Customer deposits are swept into vault accounts; vault
  accounts transfer between each other. \<open>vault_ok\<close> is the accounting equation of the vault
  side: every vault balance is what was swept and transferred in less what left or is
  reserved to leave. Each operation keeps it, \<open>StartSweep\<close> under the condition that the
  order is not already settled.
\<close>

section \<open>Sweeps\<close>

definition ReserveSweep :: "int \<Rightarrow> sweep_reserve_input \<Rightarrow> ledger_db \<Rightarrow> ledger_db result" where
  "ReserveSweep now inp db =
     (let requiredConfs = (if si_RequiredConfs inp \<le> 0 then 1 else si_RequiredConfs inp);
          k = (si_TenantID inp, si_SweepOrderID inp)
      in case select_row (so_at k) (sweep_orders db) of
           None \<Rightarrow>
             Inr (db\<lparr>sweep_orders := sweep_orders db @
               [\<lparr>so_tenant = si_TenantID inp, so_order = si_SweepOrderID inp, so_from = si_FromAccountID inp,
                 so_treasury = si_TreasuryAccountID inp, so_chain = si_Chain inp, so_network = si_Network inp,
                 so_asset = si_Asset inp, so_amount = si_Amount inp, so_tx_hash = [], so_reason = [],
                 so_confirmations = 0, so_required = requiredConfs, so_status = ''RESERVED'',
                 so_created_at = now, so_updated_at = now\<rparr>]\<rparr>)
         | Some row \<Rightarrow>
             if to_upper (trim_space (so_status row)) \<in> {''RESERVED'', ''BROADCASTED'', ''DONE''}
             then Inr db
             else Inl (Errorf (''sweep order already exists with status='' @ so_status row)))"

definition StartSweep :: "int \<Rightarrow> sweep_collect_input \<Rightarrow> ledger_db \<Rightarrow> ledger_db result" where
  "StartSweep now inp db =
     (let requiredConfs = (if sc_RequiredConfs inp \<le> 0 then 1 else sc_RequiredConfs inp);
          k = (sc_TenantID inp, sc_SweepOrderID inp);
          live = (\<lambda>r. so_at k r \<and> so_status r \<in> {''RESERVED'', ''BROADCASTED''});
          set_broadcasted = (\<lambda>r. r\<lparr>so_tx_hash := sc_TxHash inp, so_chain := sc_Chain inp,
             so_network := sc_Network inp, so_required := requiredConfs,
             so_status := ''BROADCASTED'', so_updated_at := now\<rparr>);
          orders1 = update_where live set_broadcasted (sweep_orders db)
      in if rows_affected live (sweep_orders db) = 0 then
           Inr (db\<lparr>sweep_orders :=
             insert_or_update (so_at k)
               \<lparr>so_tenant = sc_TenantID inp, so_order = sc_SweepOrderID inp, so_from = sc_FromAccountID inp,
                so_treasury = sc_TreasuryAccountID inp, so_chain = sc_Chain inp, so_network = sc_Network inp,
                so_asset = sc_Asset inp, so_amount = sc_Amount inp, so_tx_hash = sc_TxHash inp, so_reason = [],
                so_confirmations = 0, so_required = requiredConfs, so_status = ''BROADCASTED'',
                so_created_at = now, so_updated_at = now\<rparr>
               set_broadcasted orders1\<rparr>)
         else Inr (db\<lparr>sweep_orders := orders1\<rparr>))"

definition ConfirmSweepOnChain :: "int \<Rightarrow> sweep_confirm_input \<Rightarrow> ledger_db \<Rightarrow> ledger_db result" where
  "ConfirmSweepOnChain now inp db =
     (let k = (sf_TenantID inp, sf_SweepOrderID inp) in
      case select_row (so_at k) (sweep_orders db) of
        None \<Rightarrow> Inl ErrNoRows
      | Some row \<Rightarrow>
          let req1 = (if sf_RequiredConfs inp \<le> 0 then so_required row else sf_RequiredConfs inp);
              req = (if req1 \<le> 0 then 1 else req1);
              confs = (if sf_Confirmations inp < so_confirmations row then so_confirmations row
                       else sf_Confirmations inp)
          in
          if so_status row = ''DONE'' then
            Inr (db\<lparr>sweep_orders := update_where (so_at k)
                   (\<lambda>r. r\<lparr>so_confirmations := max (so_confirmations r) confs, so_required := req,
                          so_updated_at := now\<rparr>) (sweep_orders db)\<rparr>)
          else if confs < req then
            Inr (db\<lparr>sweep_orders := update_where (so_at k)
                   (\<lambda>r. r\<lparr>so_status := ''BROADCASTED'', so_tx_hash := sf_TxHash inp,
                          so_confirmations := max (so_confirmations r) confs, so_required := req,
                          so_updated_at := now\<rparr>) (sweep_orders db)\<rparr>)
          else
            bindE (getVaultBalanceTx (sf_TenantID inp) (so_treasury row) (so_asset row) db) (\<lambda>treasuryBal.
            bindE (addDecimalString (bs_Available treasuryBal) (so_amount row)) (\<lambda>treasuryAvail.
            let db1 = upsertVaultBalanceTx now (sf_TenantID inp) (so_treasury row) (so_asset row) treasuryAvail db;
                db2 = db1\<lparr>sweep_orders := update_where (so_at k)
                        (\<lambda>r. r\<lparr>so_status := ''DONE'', so_tx_hash := sf_TxHash inp,
                               so_confirmations := max (so_confirmations r) confs, so_required := req,
                               so_updated_at := now\<rparr>) (sweep_orders db1)\<rparr>;
                db3 = insert_vault_journal now (sf_TenantID inp) ''SWEEP'' (sf_SweepOrderID inp)
                        (so_treasury row) (so_asset row) ''CREDIT'' (so_amount row) treasuryAvail db2
            in Inr db3)))"

definition FailSweepOnChain :: "int \<Rightarrow> string \<Rightarrow> string \<Rightarrow> string \<Rightarrow> int \<Rightarrow> ledger_db \<Rightarrow> ledger_db result" where
  "FailSweepOnChain now tenantID sweepOrderID reason confirmations db =
     Inr (db\<lparr>sweep_orders := update_where
            (\<lambda>r. so_at (tenantID, sweepOrderID) r \<and> so_status r \<noteq> ''DONE'')
            (\<lambda>r. r\<lparr>so_status := ''FAILED'', so_reason := reason,
                   so_confirmations := max (so_confirmations r) confirmations, so_updated_at := now\<rparr>)
            (sweep_orders db)\<rparr>)"


section \<open>Treasury transfers\<close>

definition ReserveTreasuryTransfer ::
  "int \<Rightarrow> treasury_transfer_reserve_input \<Rightarrow> ledger_db \<Rightarrow> ledger_db result" where
  "ReserveTreasuryTransfer now inp db =
     (let requiredConfs = (if ti_RequiredConfirmations inp \<le> 0 then 1 else ti_RequiredConfirmations inp);
          k = (ti_TenantID inp, ti_TransferOrderID inp)
      in case select_row (tt_at k) (treasury_transfer_orders db) of
           Some row \<Rightarrow>
             if to_upper (trim_space (tt_status row)) \<in> {''RESERVED'', ''BROADCASTED'', ''DONE''}
             then Inr db
             else Inl (Errorf (''treasury transfer already exists with status='' @ tt_status row))
         | None \<Rightarrow>
             let db1 = db\<lparr>treasury_transfer_orders := treasury_transfer_orders db @
                   [\<lparr>tt_tenant = ti_TenantID inp, tt_order = ti_TransferOrderID inp,
                     tt_from = ti_FromAccountID inp, tt_to = ti_ToAccountID inp,
                     tt_chain = ti_Chain inp, tt_network = ti_Network inp, tt_asset = ti_Asset inp,
                     tt_amount = ti_Amount inp, tt_tx_hash = [], tt_reason = [], tt_confirmations = 0,
                     tt_required = requiredConfs, tt_source_tier = trim_space (ti_SourceTier inp),
                     tt_dest_tier = trim_space (ti_DestinationTier inp), tt_status = ''RESERVED'',
                     tt_created_at = now, tt_updated_at = now\<rparr>]\<rparr> in
             bindE (getVaultBalanceTx (ti_TenantID inp) (ti_FromAccountID inp) (ti_Asset inp) db1) (\<lambda>sourceBal.
             bindE (subDecimalString (bs_Available sourceBal) (ti_Amount inp)) (\<lambda>nextSourceAvail.
             let db2 = upsertVaultBalanceTx now (ti_TenantID inp) (ti_FromAccountID inp) (ti_Asset inp)
                         nextSourceAvail db1;
                 db3 = insert_vault_journal now (ti_TenantID inp) ''TREASURY_TRANSFER'' (ti_TransferOrderID inp)
                         (ti_FromAccountID inp) (ti_Asset inp) ''DEBIT_PENDING'' (ti_Amount inp)
                         nextSourceAvail db2
             in Inr db3)))"

definition MarkTreasuryTransferBroadcasted ::
  "int \<Rightarrow> string \<Rightarrow> string \<Rightarrow> string \<Rightarrow> int \<Rightarrow> ledger_db \<Rightarrow> ledger_db result" where
  "MarkTreasuryTransferBroadcasted now tenantID transferOrderID txHash requiredConfs db =
     (let requiredConfs' = (if requiredConfs \<le> 0 then 1 else requiredConfs);
          live = (\<lambda>r. tt_at (tenantID, transferOrderID) r \<and> tt_status r \<in> {''RESERVED'', ''BROADCASTED''})
      in if rows_affected live (treasury_transfer_orders db) = 0
         then Inl (Errorf ''treasury transfer not reserved'')
         else Inr (db\<lparr>treasury_transfer_orders := update_where live
                (\<lambda>r. r\<lparr>tt_status := ''BROADCASTED'', tt_tx_hash := txHash, tt_required := requiredConfs',
                       tt_reason := [], tt_updated_at := now\<rparr>) (treasury_transfer_orders db)\<rparr>))"

definition ConfirmTreasuryTransferOnChain ::
  "int \<Rightarrow> treasury_transfer_confirm_input \<Rightarrow> ledger_db \<Rightarrow> ledger_db result" where
  "ConfirmTreasuryTransferOnChain now inp db =
     (let k = (tc_TenantID inp, tc_TransferOrderID inp) in
      case select_row (tt_at k) (treasury_transfer_orders db) of
        None \<Rightarrow> Inl ErrNoRows
      | Some row \<Rightarrow>
          let req1 = (if tc_RequiredConfs inp \<le> 0 then tt_required row else tc_RequiredConfs inp);
              req = (if req1 \<le> 0 then 1 else req1);
              confs = (if tc_Confirmations inp < tt_confirmations row then tt_confirmations row
                       else tc_Confirmations inp)
          in
          if tt_status row = ''DONE'' then
            Inr (db\<lparr>treasury_transfer_orders := update_where (tt_at k)
                   (\<lambda>r. r\<lparr>tt_confirmations := max (tt_confirmations r) confs, tt_required := req,
                          tt_updated_at := now\<rparr>) (treasury_transfer_orders db)\<rparr>)
          else if tt_status row \<noteq> ''BROADCASTED'' \<and> tt_status row \<noteq> ''RESERVED'' then
            Inl (Errorf (''treasury transfer status invalid for onchain confirm: '' @ tt_status row))
          else if confs < req then
            Inr (db\<lparr>treasury_transfer_orders := update_where (tt_at k)
                   (\<lambda>r. r\<lparr>tt_status := ''BROADCASTED'', tt_tx_hash := tc_TxHash inp,
                          tt_confirmations := max (tt_confirmations r) confs, tt_required := req,
                          tt_updated_at := now\<rparr>) (treasury_transfer_orders db)\<rparr>)
          else
            bindE (getVaultBalanceTx (tc_TenantID inp) (tt_to row) (tt_asset row) db) (\<lambda>destinationBal.
            bindE (getVaultBalanceTx (tc_TenantID inp) (tt_from row) (tt_asset row) db) (\<lambda>sourceBal.
            bindE (addDecimalString (bs_Available destinationBal) (tt_amount row)) (\<lambda>nextDestinationAvail.
            let db1 = upsertVaultBalanceTx now (tc_TenantID inp) (tt_to row) (tt_asset row)
                        nextDestinationAvail db;
                db2 = db1\<lparr>treasury_transfer_orders := update_where (tt_at k)
                        (\<lambda>r. r\<lparr>tt_status := ''DONE'', tt_tx_hash := tc_TxHash inp,
                               tt_confirmations := max (tt_confirmations r) confs, tt_required := req,
                               tt_updated_at := now\<rparr>) (treasury_transfer_orders db1)\<rparr>;
                db3 = insert_vault_journal now (tc_TenantID inp) ''TREASURY_TRANSFER'' (tc_TransferOrderID inp)
                        (tt_from row) (tt_asset row) ''DEBIT'' (tt_amount row) (bs_Available sourceBal) db2;
                db4 = insert_vault_journal now (tc_TenantID inp) ''TREASURY_TRANSFER'' (tc_TransferOrderID inp)
                        (tt_to row) (tt_asset row) ''CREDIT'' (tt_amount row) nextDestinationAvail db3
            in Inr db4))))"

definition FailTreasuryTransferOnChain ::
  "int \<Rightarrow> string \<Rightarrow> string \<Rightarrow> string \<Rightarrow> int \<Rightarrow> ledger_db \<Rightarrow> ledger_db result" where
  "FailTreasuryTransferOnChain now tenantID transferOrderID reason confirmations db =
     (let k = (tenantID, transferOrderID) in
      case select_row (tt_at k) (treasury_transfer_orders db) of
        None \<Rightarrow> Inl ErrNoRows
      | Some row \<Rightarrow>
          if tt_status row = ''FAILED'' then Inr db
          else if tt_status row = ''DONE'' then Inr db
          else if tt_status row \<noteq> ''RESERVED'' \<and> tt_status row \<noteq> ''BROADCASTED'' then
            Inl (Errorf (''treasury transfer status invalid for fail: '' @ tt_status row))
          else
            bindE (getVaultBalanceTx tenantID (tt_from row) (tt_asset row) db) (\<lambda>sourceBal.
            bindE (addDecimalString (bs_Available sourceBal) (tt_amount row)) (\<lambda>nextSourceAvail.
            let db1 = upsertVaultBalanceTx now tenantID (tt_from row) (tt_asset row) nextSourceAvail db;
                db2 = db1\<lparr>treasury_transfer_orders := update_where (tt_at k)
                        (\<lambda>r. r\<lparr>tt_status := ''FAILED'', tt_reason := reason,
                               tt_confirmations := max (tt_confirmations r) confirmations,
                               tt_updated_at := now\<rparr>) (treasury_transfer_orders db1)\<rparr>;
                db3 = insert_vault_journal now tenantID ''TREASURY_TRANSFER'' transferOrderID
                        (tt_from row) (tt_asset row) ''ROLLBACK'' (tt_amount row) nextSourceAvail db2
            in Inr db3)))"


section \<open>The vault accounting equation\<close>

definition vault_ok :: "ledger_db \<Rightarrow> bool" where
  "vault_ok db \<longleftrightarrow> wf_vault_side db \<and> vault_balanced db"

lemma update_where_conj:
  "update_where (\<lambda>r. p r \<and> q r) f t = update_where p (\<lambda>r. if q r then f r else r) t"
  by (auto simp: update_where_def)

text \<open>A sweep row is updated and the vaults move by the change in what it counts.\<close>

lemma vault_ok_sweep_update:
  assumes ok: "vault_ok db"
    and row: "select_row (so_at k) (sweep_orders db) = Some row"
    and F: "\<And>r. so_key (F r) = so_key r"
    and upd: "sweep_orders db' = update_where (so_at k) F (sweep_orders db)"
    and frame: "treasury_transfer_orders db' = treasury_transfer_orders db"
    and v: "wf_vaults (vault_balances db')" "\<And>j. vault db' j = vault db j - swept_amount j row + swept_amount j (F row)"
    and amt: "so_status (F row) = ''DONE'' \<Longrightarrow> valid_amt (so_amount (F row))"
  shows "vault_ok db'"
proof -
  have u: "sweeps.uniq (sweep_orders db)" using ok by (simp add: vault_ok_def wf_vault_side_def wf_sweeps_def)
  have "wf_sweeps (sweep_orders db')"
    using ok amt sweeps.in_update_key [OF u row, of _ F] sweeps.uniq_update [OF F u]
    by (fastforce simp: wf_sweeps_def vault_ok_def wf_vault_side_def upd)
  moreover have "vault db' = expected_vault (sweep_orders db') (treasury_transfer_orders db')"
  proof (rule ext)
    fix j
    have "vault db j = expected_vault (sweep_orders db) (treasury_transfer_orders db) j"
      using ok by (simp add: vault_ok_def vault_balanced_def)
    then show "vault db' j = expected_vault (sweep_orders db') (treasury_transfer_orders db') j"
      by (simp add: v(2) upd frame expected_vault_def sweeps.total_update_key [OF u row])
  qed
  ultimately show ?thesis
    using ok v(1) by (simp add: vault_ok_def wf_vault_side_def vault_balanced_def frame)
qed

lemma vault_ok_transfer_update:
  assumes ok: "vault_ok db"
    and row: "select_row (tt_at k) (treasury_transfer_orders db) = Some row"
    and F: "\<And>r. tt_key (F r) = tt_key r"
    and upd: "treasury_transfer_orders db' = update_where (tt_at k) F (treasury_transfer_orders db)"
    and frame: "sweep_orders db' = sweep_orders db"
    and v: "wf_vaults (vault_balances db')"
      "\<And>j. vault db' j = vault db j - transfer_in j row + transfer_in j (F row) + transfer_out j row - transfer_out j (F row)"
    and new: "valid_amt (tt_amount (F row))" "tt_status (F row) \<in> {''RESERVED'', ''BROADCASTED'', ''DONE'', ''FAILED''}"
  shows "vault_ok db'"
proof -
  have u: "transfers.uniq (treasury_transfer_orders db)"
    using ok by (simp add: vault_ok_def wf_vault_side_def wf_transfers_def)
  have "wf_transfers (treasury_transfer_orders db')"
    using ok new transfers.in_update_key [OF u row, of _ F] transfers.uniq_update [OF F u]
    by (fastforce simp: wf_transfers_def vault_ok_def wf_vault_side_def upd)
  moreover have "vault db' = expected_vault (sweep_orders db') (treasury_transfer_orders db')"
  proof (rule ext)
    fix j
    have "vault db j = expected_vault (sweep_orders db) (treasury_transfer_orders db) j"
      using ok by (simp add: vault_ok_def vault_balanced_def)
    then show "vault db' j = expected_vault (sweep_orders db') (treasury_transfer_orders db') j"
      by (simp add: v(2) upd frame expected_vault_def transfers.total_update_key [OF u row])
  qed
  ultimately show ?thesis
    using ok v(1) by (simp add: vault_ok_def wf_vault_side_def vault_balanced_def frame)
qed

lemma vault_ok_sweep_append:
  assumes ok: "vault_ok db" and none: "select_row (so_at (so_key row)) (sweep_orders db) = None"
    and st: "so_status row \<noteq> ''DONE''"
  shows "vault_ok (db\<lparr>sweep_orders := sweep_orders db @ [row]\<rparr>)"
  using ok st sweeps.uniq_append [OF _ none]
  by (auto simp: vault_ok_def wf_vault_side_def wf_sweeps_def vault_balanced_def expected_vault_def swept_amount_def)

lemma vault_ok_transfer_append:
  assumes ok: "vault_ok db" and none: "select_row (tt_at (tt_key row)) (treasury_transfer_orders db) = None"
    and upd: "treasury_transfer_orders db' = treasury_transfer_orders db @ [row]"
    and frame: "sweep_orders db' = sweep_orders db"
    and v: "wf_vaults (vault_balances db')" "\<And>j. vault db' j = vault db j - transfer_out j row"
    and new: "valid_amt (tt_amount row)" "tt_status row = ''RESERVED''"
  shows "vault_ok db'"
  using ok v new transfers.uniq_append [OF _ none]
  by (auto simp: vault_ok_def wf_vault_side_def wf_transfers_def vault_balanced_def expected_vault_def
      upd frame transfer_in_def)

lemma vault_nonneg [simp]: "0 \<le> vault_view t k"
  by (simp add: vault_view_def split: option.splits)

lemma vault_add:
  assumes "wf_vaults (vault_balances db)" and "getVaultBalanceTx t a s db = Inr b"
    and "addDecimalString (bs_Available b) n = Inr x"
    and "vault_balances db' = put_vault (t, a, s) (x, now) (vault_balances db)"
  shows "wf_vaults (vault_balances db')" "vault db' j = vault db j + (if j = (t, a, s) then amt n else 0)"
    "valid_amt n"
  using assms(3) getVaultBalanceTx_amt [OF assms(1,2)] wf_put_vault [OF assms(1)]
  by (auto simp: assms(4) decimal_Inr valid_vault_cells_def view_put_vault vault_cells_view_def)

lemma vault_sub:
  assumes "wf_vaults (vault_balances db)" and "getVaultBalanceTx t a s db = Inr b"
    and "subDecimalString (bs_Available b) n = Inr x"
    and "vault_balances db' = put_vault (t, a, s) (x, now) (vault_balances db)"
  shows "wf_vaults (vault_balances db')" "vault db' j = vault db j - (if j = (t, a, s) then amt n else 0)"
    "valid_amt n" "amt n \<le> vault db (t, a, s)"
  using assms(3) getVaultBalanceTx_amt [OF assms(1,2)] wf_put_vault [OF assms(1)]
  by (auto simp: assms(4) decimal_Inr valid_vault_cells_def view_put_vault vault_cells_view_def)

lemma vault_okD:
  assumes "vault_ok db"
  shows "wf_vaults (vault_balances db)"
    "select_row p (treasury_transfer_orders db) = Some row \<Longrightarrow> valid_amt (tt_amount row)"
    "select_row q (sweep_orders db) = Some srow \<Longrightarrow> so_status srow = ''DONE'' \<Longrightarrow> valid_amt (so_amount srow)"
  using assms select_row_SomeD
  by (fastforce simp: vault_ok_def wf_vault_side_def wf_transfers_def wf_sweeps_def)+

lemmas vault_unfold = insert_vault_journal_def upsertVaultBalanceTx_put

lemma ReserveSweep_ok:
  assumes "vault_ok db" and "ReserveSweep now inp db = Inr db'"
  shows "vault_ok db'"
  using assms vault_ok_sweep_append [OF assms(1)]
  by (auto simp: ReserveSweep_def Let_def so_key_def split: option.splits if_splits)

definition sweep_settled :: "string \<Rightarrow> string \<Rightarrow> ledger_db \<Rightarrow> bool" where
  "sweep_settled tenantID sweepOrderID db \<longleftrightarrow>
     (case select_row (so_at (tenantID, sweepOrderID)) (sweep_orders db) of
        None \<Rightarrow> False | Some row \<Rightarrow> so_status row = ''DONE'')"

text \<open>\<open>StartSweep\<close> in one case distinction: a new order, or the order's row set to broadcasted.\<close>

lemma StartSweep_effect [consumes 2, case_names fresh again]:
  assumes ok: "vault_ok db" and run: "StartSweep now inp db = Inr db'"
  obtains
    (fresh) row where "select_row (so_at (sc_TenantID inp, sc_SweepOrderID inp)) (sweep_orders db) = None"
      "so_key row = (sc_TenantID inp, sc_SweepOrderID inp)" "so_status row = ''BROADCASTED''"
      "so_amount row = sc_Amount inp" "db' = db\<lparr>sweep_orders := sweep_orders db @ [row]\<rparr>"
  | (again) row F where "select_row (so_at (sc_TenantID inp, sc_SweepOrderID inp)) (sweep_orders db) = Some row"
      "\<And>r. so_key (F r) = so_key r" "so_status (F row) = ''BROADCASTED''"
      "so_account_key (F row) = so_account_key row" "so_amount (F row) = so_amount row"
      "db' = db\<lparr>sweep_orders := update_where (so_at (sc_TenantID inp, sc_SweepOrderID inp)) F (sweep_orders db)\<rparr>"
proof -
  let ?k = "(sc_TenantID inp, sc_SweepOrderID inp)"
  let ?live = "\<lambda>r. so_at ?k r \<and> so_status r \<in> {''RESERVED'', ''BROADCASTED''}"
  define F :: "sweep_row \<Rightarrow> sweep_row" where "F = (\<lambda>r. r\<lparr>so_tx_hash := sc_TxHash inp, so_chain := sc_Chain inp,
     so_network := sc_Network inp, so_required := (if sc_RequiredConfs inp \<le> 0 then 1 else sc_RequiredConfs inp),
     so_status := ''BROADCASTED'', so_updated_at := now\<rparr>)"
  have F: "so_key (F r) = so_key r" "so_status (F r) = ''BROADCASTED''"
    "so_account_key (F r) = so_account_key r" "so_amount (F r) = so_amount r" for r
    by (simp_all add: F_def so_key_def so_account_key_def)
  have u: "sweeps.uniq (sweep_orders db)" using ok by (simp add: vault_ok_def wf_vault_side_def wf_sweeps_def)
  show thesis
  proof (cases "select_row (so_at ?k) (sweep_orders db)")
    case None
    then have "select_row ?live (sweep_orders db) = None" by (auto simp: select_row_None_iff)
    then show thesis
      using run None
      by (intro fresh) (auto simp: StartSweep_def Let_def insert_or_update_cases update_where_none so_key_def)
  next
    case (Some row)
    show thesis
    proof (cases "select_row ?live (sweep_orders db) = None")
      case True
      then have "db' = db\<lparr>sweep_orders := update_where (so_at ?k) F (sweep_orders db)\<rparr>"
        using run Some by (simp add: StartSweep_def Let_def insert_or_update_cases update_where_none F_def)
      then show thesis by (intro again [OF Some, of F]) (simp_all add: F)
    next
      case False
      then obtain r where r: "r \<in> set (sweep_orders db)" "?live r"
        by (auto simp: select_row_None_iff)
      then have "r = row" using sweeps.select_unique [OF u r(1)] Some by (simp add: sweeps.at_key)
      have "db' = db\<lparr>sweep_orders := update_where ?live F (sweep_orders db)\<rparr>"
        using run False unfolding StartSweep_def Let_def F_def rows_affected_0 by (simp only: if_False sum.inject)
      then show thesis
        using r \<open>r = row\<close> F
        by (intro again [OF Some, of "\<lambda>r. if so_status r \<in> {''RESERVED'', ''BROADCASTED''} then F r else r"])
           (auto simp: update_where_conj)
    qed
  qed
qed

lemma StartSweep_ok:
  assumes ok: "vault_ok db" and run: "StartSweep now inp db = Inr db'"
    and unsettled: "\<not> sweep_settled (sc_TenantID inp) (sc_SweepOrderID inp) db"
  shows "vault_ok db'"
  using ok run
proof (cases rule: StartSweep_effect)
  case (fresh row)
  then show ?thesis using vault_ok_sweep_append [OF ok, of row] by simp
next
  case (again row F)
  then have "so_status row \<noteq> ''DONE''" using unsettled by (simp add: sweep_settled_def)
  then show ?thesis
    using again vault_okD(1) [OF ok] by (intro vault_ok_sweep_update [OF ok, of _ row F]) (auto simp: swept_amount_def)
qed

lemma ConfirmSweepOnChain_ok:
  assumes ok: "vault_ok db" and run: "ConfirmSweepOnChain now inp db = Inr db'"
  shows "vault_ok db'"
proof -
  let ?k = "(sf_TenantID inp, sf_SweepOrderID inp)"
  obtain row where row: "select_row (so_at ?k) (sweep_orders db) = Some row"
    using run by (auto simp: ConfirmSweepOnChain_def Let_def split: option.splits)
  have t: "so_tenant row = sf_TenantID inp" using sweeps.selected_key [OF row] by (simp add: so_key_def)
  define q where "q = (let q1 = (if sf_RequiredConfs inp \<le> 0 then so_required row else sf_RequiredConfs inp) in
    if q1 \<le> 0 then 1 else q1)"
  define c where "c = (if sf_Confirmations inp < so_confirmations row then so_confirmations row else sf_Confirmations inp)"
  define F :: "string \<Rightarrow> sweep_row \<Rightarrow> sweep_row" where
    "F st r = r\<lparr>so_status := st, so_tx_hash := sf_TxHash inp, so_confirmations := max (so_confirmations r) c,
                so_required := q, so_updated_at := now\<rparr>" for st r
  have F: "so_key (F st r) = so_key r" "so_tenant (F st r) = so_tenant r"
    "so_treasury (F st r) = so_treasury r" "so_asset (F st r) = so_asset r"
    "so_amount (F st r) = so_amount r" "so_status (F st r) = st" for st r
    by (simp_all add: F_def so_key_def)
  note unf = ConfirmSweepOnChain_def Let_def row q_def c_def
  note wfv = vault_okD(1) [OF ok]
  consider (kept) "so_status row = ''DONE''" | (low) "so_status row \<noteq> ''DONE''" "c < q"
    | (high) "so_status row \<noteq> ''DONE''" "\<not> c < q" by blast
  then show ?thesis
  proof cases
    case kept
    let ?G = "\<lambda>r. r\<lparr>so_confirmations := max (so_confirmations r) c, so_required := q, so_updated_at := now\<rparr>"
    have "db' = db\<lparr>sweep_orders := update_where (so_at ?k) ?G (sweep_orders db)\<rparr>"
      using run kept by (simp add: unf)
    then show ?thesis
      by (intro vault_ok_sweep_update [OF ok row, of ?G])
         (use kept wfv vault_okD(3) [OF ok row] in \<open>auto simp: so_key_def swept_amount_def so_account_key_def\<close>)
  next
    case low
    have "db' = db\<lparr>sweep_orders := update_where (so_at ?k) (F ''BROADCASTED'') (sweep_orders db)\<rparr>"
      using run low by (simp add: unf F_def [abs_def])
    then show ?thesis
      by (intro vault_ok_sweep_update [OF ok row F(1)]) (use low wfv in \<open>auto simp: F swept_amount_def so_account_key_def\<close>)
  next
    case high
    obtain b x where b: "getVaultBalanceTx (sf_TenantID inp) (so_treasury row) (so_asset row) db = Inr b"
      and x: "addDecimalString (bs_Available b) (so_amount row) = Inr x"
      and db': "vault_balances db' = put_vault (sf_TenantID inp, so_treasury row, so_asset row) (x, now) (vault_balances db)"
        "sweep_orders db' = update_where (so_at ?k) (F ''DONE'') (sweep_orders db)"
        "treasury_transfer_orders db' = treasury_transfer_orders db"
      using run high by (auto simp: unf F_def [abs_def] vault_unfold)
    show ?thesis
      by (rule vault_ok_sweep_update [OF ok row F(1) db'(2,3)])
         (use high vault_add [OF wfv b x db'(1)] t in \<open>auto simp: F swept_amount_def so_account_key_def\<close>)
  qed
qed

text \<open>A report with enough confirmations on an order that is not settled credits its vault.\<close>

lemma ConfirmSweepOnChain_credits:
  assumes wf: "wf_vaults (vault_balances db)" and run: "ConfirmSweepOnChain now inp db = Inr db'"
    and row: "select_row (so_at (sf_TenantID inp, sf_SweepOrderID inp)) (sweep_orders db) = Some row"
    and st: "so_status row \<noteq> ''DONE''" "0 < sf_RequiredConfs inp" "sf_RequiredConfs inp \<le> sf_Confirmations inp"
  shows "vault db' j = vault db j + (if j = so_account_key row then amt (so_amount row) else 0)"
proof -
  have t: "so_account_key row = (sf_TenantID inp, so_treasury row, so_asset row)"
    using sweeps.selected_key [OF row] by (simp add: so_key_def so_account_key_def)
  obtain b x where "getVaultBalanceTx (sf_TenantID inp) (so_treasury row) (so_asset row) db = Inr b"
    "addDecimalString (bs_Available b) (so_amount row) = Inr x"
    "vault_balances db' = put_vault (sf_TenantID inp, so_treasury row, so_asset row) (x, now) (vault_balances db)"
    using run st row by (auto simp: ConfirmSweepOnChain_def Let_def vault_unfold split: if_splits)
  from vault_add(2) [OF wf this] show ?thesis by (simp add: t)
qed

lemma FailSweepOnChain_ok:
  assumes ok: "vault_ok db" and run: "FailSweepOnChain now t ord reason c db = Inr db'"
  shows "vault_ok db'"
proof (cases "select_row (so_at (t, ord)) (sweep_orders db)")
  case None
  then have "db' = db" using run by (simp add: FailSweepOnChain_def update_where_conj update_where_none)
  then show ?thesis using ok by simp
next
  case (Some row)
  let ?G = "\<lambda>r. if so_status r \<noteq> ''DONE'' then r\<lparr>so_status := ''FAILED'', so_reason := reason,
     so_confirmations := max (so_confirmations r) c, so_updated_at := now\<rparr> else r"
  have "db' = db\<lparr>sweep_orders := update_where (so_at (t, ord)) ?G (sweep_orders db)\<rparr>"
    using run by (simp add: FailSweepOnChain_def update_where_conj)
  then show ?thesis
    by (intro vault_ok_sweep_update [OF ok Some, of ?G])
       (use vault_okD(1) [OF ok] vault_okD(3) [OF ok Some] in \<open>auto simp: so_key_def swept_amount_def\<close>)
qed

lemma ReserveTreasuryTransfer_ok:
  assumes ok: "vault_ok db" and run: "ReserveTreasuryTransfer now inp db = Inr db'"
  shows "vault_ok db'"
proof (cases "select_row (tt_at (ti_TenantID inp, ti_TransferOrderID inp)) (treasury_transfer_orders db)")
  case (Some row)
  then have "db' = db" using run by (simp add: ReserveTreasuryTransfer_def Let_def split: if_splits)
  then show ?thesis using ok by simp
next
  case None
  define row where "row = \<lparr>tt_tenant = ti_TenantID inp, tt_order = ti_TransferOrderID inp,
     tt_from = ti_FromAccountID inp, tt_to = ti_ToAccountID inp,
     tt_chain = ti_Chain inp, tt_network = ti_Network inp, tt_asset = ti_Asset inp,
     tt_amount = ti_Amount inp, tt_tx_hash = [], tt_reason = [], tt_confirmations = 0,
     tt_required = (if ti_RequiredConfirmations inp \<le> 0 then 1 else ti_RequiredConfirmations inp),
     tt_source_tier = trim_space (ti_SourceTier inp), tt_dest_tier = trim_space (ti_DestinationTier inp),
     tt_status = ''RESERVED'', tt_created_at = now, tt_updated_at = now\<rparr>"
  have row: "tt_key row = (ti_TenantID inp, ti_TransferOrderID inp)" "tt_amount row = ti_Amount inp"
    "tt_status row = ''RESERVED''" "(tt_tenant row, tt_from row, tt_asset row) = (ti_TenantID inp, ti_FromAccountID inp, ti_Asset inp)"
    by (simp_all add: row_def tt_key_def)
  obtain b x where
    b: "getVaultBalanceTx (ti_TenantID inp) (ti_FromAccountID inp) (ti_Asset inp) db = Inr b"
    and x: "subDecimalString (bs_Available b) (ti_Amount inp) = Inr x"
    and db': "vault_balances db' = put_vault (ti_TenantID inp, ti_FromAccountID inp, ti_Asset inp) (x, now) (vault_balances db)"
      "treasury_transfer_orders db' = treasury_transfer_orders db @ [row]" "sweep_orders db' = sweep_orders db"
    using run None
    by (auto simp: ReserveTreasuryTransfer_def Let_def vault_unfold row_def getVaultBalanceTx_def)
  have none: "select_row (tt_at (tt_key row)) (treasury_transfer_orders db) = None" using None row by simp
  show ?thesis
    by (rule vault_ok_transfer_append [OF ok none db'(2,3)])
       (use vault_sub [OF vault_okD(1) [OF ok] b x db'(1)] row in \<open>auto simp: transfer_out_def\<close>)
qed

lemma MarkTreasuryTransferBroadcasted_ok:
  assumes ok: "vault_ok db" and run: "MarkTreasuryTransferBroadcasted now t ord h req db = Inr db'"
  shows "vault_ok db'"
proof -
  let ?G = "\<lambda>r. if tt_status r \<in> {''RESERVED'', ''BROADCASTED''} then
     r\<lparr>tt_status := ''BROADCASTED'', tt_tx_hash := h, tt_required := (if req \<le> 0 then 1 else req),
       tt_reason := [], tt_updated_at := now\<rparr> else r"
  have db': "db' = db\<lparr>treasury_transfer_orders := update_where (tt_at (t, ord)) ?G (treasury_transfer_orders db)\<rparr>"
    using run unfolding MarkTreasuryTransferBroadcasted_def Let_def update_where_conj by (simp split: if_splits)
  show ?thesis
  proof (cases "select_row (tt_at (t, ord)) (treasury_transfer_orders db)")
    case None
    then show ?thesis using ok db' by (simp add: update_where_none)
  next
    case (Some row)
    have st: "tt_status row \<in> {''RESERVED'', ''BROADCASTED'', ''DONE'', ''FAILED''}"
      using ok Some by (auto simp: vault_ok_def wf_vault_side_def wf_transfers_def dest!: select_row_SomeD)
    show ?thesis
      by (rule vault_ok_transfer_update [OF ok Some, of ?G])
         (use db' st vault_okD(1) [OF ok] vault_okD(2) [OF ok Some] in
           \<open>auto simp: tt_key_def transfer_in_def transfer_out_def\<close>)
  qed
qed

lemma ConfirmTreasuryTransferOnChain_ok:
  assumes ok: "vault_ok db" and run: "ConfirmTreasuryTransferOnChain now inp db = Inr db'"
  shows "vault_ok db'"
proof -
  let ?k = "(tc_TenantID inp, tc_TransferOrderID inp)"
  obtain row where row: "select_row (tt_at ?k) (treasury_transfer_orders db) = Some row"
    using run by (auto simp: ConfirmTreasuryTransferOnChain_def Let_def split: option.splits)
  have t: "tt_tenant row = tc_TenantID inp" using transfers.selected_key [OF row] by (simp add: tt_key_def)
  define q where "q = (let q1 = (if tc_RequiredConfs inp \<le> 0 then tt_required row else tc_RequiredConfs inp) in
    if q1 \<le> 0 then 1 else q1)"
  define c where "c = (if tc_Confirmations inp < tt_confirmations row then tt_confirmations row else tc_Confirmations inp)"
  define F :: "string \<Rightarrow> transfer_row \<Rightarrow> transfer_row" where
    "F st r = r\<lparr>tt_status := st, tt_tx_hash := tc_TxHash inp, tt_confirmations := max (tt_confirmations r) c,
                tt_required := q, tt_updated_at := now\<rparr>" for st r
  have F: "tt_key (F st r) = tt_key r" "tt_tenant (F st r) = tt_tenant r" "tt_from (F st r) = tt_from r"
    "tt_to (F st r) = tt_to r" "tt_asset (F st r) = tt_asset r"
    "tt_amount (F st r) = tt_amount r" "tt_status (F st r) = st" for st r
    by (simp_all add: F_def tt_key_def)
  note unf = ConfirmTreasuryTransferOnChain_def Let_def row q_def c_def
  note wfv = vault_okD(1) [OF ok] and va = vault_okD(2) [OF ok row]
  consider (kept) "tt_status row = ''DONE''"
    | (low) "tt_status row \<in> {''RESERVED'', ''BROADCASTED''}" "c < q"
    | (high) "tt_status row \<in> {''RESERVED'', ''BROADCASTED''}" "\<not> c < q"
    using run by (auto simp: unf split: if_splits)
  then show ?thesis
  proof cases
    case kept
    let ?G = "\<lambda>r. r\<lparr>tt_confirmations := max (tt_confirmations r) c, tt_required := q, tt_updated_at := now\<rparr>"
    have "db' = db\<lparr>treasury_transfer_orders := update_where (tt_at ?k) ?G (treasury_transfer_orders db)\<rparr>"
      using run kept by (simp add: unf)
    then show ?thesis
      by (intro vault_ok_transfer_update [OF ok row, of ?G])
         (use kept wfv va in \<open>auto simp: tt_key_def transfer_in_def transfer_out_def\<close>)
  next
    case low
    have "db' = db\<lparr>treasury_transfer_orders := update_where (tt_at ?k) (F ''BROADCASTED'') (treasury_transfer_orders db)\<rparr>"
      using run low by (auto simp: unf F_def [abs_def])
    then show ?thesis
      by (intro vault_ok_transfer_update [OF ok row F(1)])
         (use low wfv va in \<open>auto simp: F transfer_in_def transfer_out_def\<close>)
  next
    case high
    obtain b x where b: "getVaultBalanceTx (tc_TenantID inp) (tt_to row) (tt_asset row) db = Inr b"
      and x: "addDecimalString (bs_Available b) (tt_amount row) = Inr x"
      and db': "vault_balances db' = put_vault (tc_TenantID inp, tt_to row, tt_asset row) (x, now) (vault_balances db)"
        "treasury_transfer_orders db' = update_where (tt_at ?k) (F ''DONE'') (treasury_transfer_orders db)"
        "sweep_orders db' = sweep_orders db"
      using run high by (auto simp: unf F_def [abs_def] vault_unfold)
    show ?thesis
      by (rule vault_ok_transfer_update [OF ok row F(1) db'(2,3)])
         (use high va vault_add [OF wfv b x db'(1)] t in \<open>auto simp: F transfer_in_def transfer_out_def\<close>)
  qed
qed

lemma FailTreasuryTransferOnChain_ok:
  assumes ok: "vault_ok db" and run: "FailTreasuryTransferOnChain now t ord reason c db = Inr db'"
  shows "vault_ok db'"
proof -
  let ?k = "(t, ord)"
  obtain row where row: "select_row (tt_at ?k) (treasury_transfer_orders db) = Some row"
    using run by (auto simp: FailTreasuryTransferOnChain_def Let_def split: option.splits)
  have t: "tt_tenant row = t" using transfers.selected_key [OF row] by (simp add: tt_key_def)
  show ?thesis
  proof (cases "tt_status row \<in> {''RESERVED'', ''BROADCASTED''}")
    case False
    then have "db' = db" using run row by (auto simp: FailTreasuryTransferOnChain_def Let_def split: if_splits)
    then show ?thesis using ok by simp
  next
    case True
    define F :: "transfer_row \<Rightarrow> transfer_row" where
      "F r = r\<lparr>tt_status := ''FAILED'', tt_reason := reason, tt_confirmations := max (tt_confirmations r) c,
               tt_updated_at := now\<rparr>" for r
    have F: "tt_key (F r) = tt_key r" "tt_tenant (F r) = tt_tenant r" "tt_from (F r) = tt_from r"
      "tt_to (F r) = tt_to r" "tt_asset (F r) = tt_asset r"
      "tt_amount (F r) = tt_amount r" "tt_status (F r) = ''FAILED''" for r
      by (simp_all add: F_def tt_key_def)
    obtain b x where b: "getVaultBalanceTx t (tt_from row) (tt_asset row) db = Inr b"
      and x: "addDecimalString (bs_Available b) (tt_amount row) = Inr x"
      and db': "vault_balances db' = put_vault (t, tt_from row, tt_asset row) (x, now) (vault_balances db)"
        "treasury_transfer_orders db' = update_where (tt_at ?k) F (treasury_transfer_orders db)"
        "sweep_orders db' = sweep_orders db"
      using run True row
      by (auto simp: FailTreasuryTransferOnChain_def Let_def F_def [abs_def] vault_unfold)
    show ?thesis
      by (rule vault_ok_transfer_update [OF ok row F(1) db'(2,3)])
         (use True vault_okD(2) [OF ok row] vault_add [OF vault_okD(1) [OF ok] b x db'(1)] t in
           \<open>auto simp: F transfer_in_def transfer_out_def\<close>)
  qed
qed

text \<open>No operation of the vault side touches the customers' side.\<close>

lemma vault_ops_frame:
  "ReserveSweep now si db = Inr db' \<Longrightarrow> same_withdraw_side db db'"
  "StartSweep now sc db = Inr db' \<Longrightarrow> same_withdraw_side db db'"
  "ConfirmSweepOnChain now sf db = Inr db' \<Longrightarrow> same_withdraw_side db db'"
  "FailSweepOnChain now t ord reason c db = Inr db' \<Longrightarrow> same_withdraw_side db db'"
  "ReserveTreasuryTransfer now ti db = Inr db' \<Longrightarrow> same_withdraw_side db db'"
  "MarkTreasuryTransferBroadcasted now t ord h req db = Inr db' \<Longrightarrow> same_withdraw_side db db'"
  "ConfirmTreasuryTransferOnChain now tc db = Inr db' \<Longrightarrow> same_withdraw_side db db'"
  "FailTreasuryTransferOnChain now t ord reason c db = Inr db' \<Longrightarrow> same_withdraw_side db db'"
  by (auto simp: ReserveSweep_def StartSweep_def ConfirmSweepOnChain_def FailSweepOnChain_def
        ReserveTreasuryTransfer_def MarkTreasuryTransferBroadcasted_def ConfirmTreasuryTransferOnChain_def
        FailTreasuryTransferOnChain_def Let_def same_withdraw_side_def vault_unfold
      split: option.splits if_splits)

end
