(* ===== verification/Ledger_Queue.thy ===== *)
theory Ledger_Queue
  imports Ledger_Accounts "HOL-Library.Product_Lexorder"
begin

text \<open>
  The withdraw queue of the ledger (\<open>postgres.go\<close>, \<open>ClaimQueuedWithdraws\<close> to
  \<open>ResetBroadcastedWithdraw\<close>): a dispatcher claims jobs under a lease and reports their
  outcome. The two claims share their shape: the eligible jobs, a \<open>ROW_NUMBER()\<close> per
  sender, a \<open>LIMIT\<close> and \<open>FOR UPDATE SKIP LOCKED\<close>.

  \<open>locked\<close> tells which job ids other transactions hold at that moment; rows are locked
  before the limit is applied. \<open>RETURNING\<close> promises no order; the model returns the rows in
  table order. The JSON columns are kept decoded, so the \<open>Unmarshal\<close> errors do not arise.
\<close>

section \<open>Senders and ranks\<close>

type_synonym sender_key = "string \<times> string \<times> string \<times> string"

definition sender :: "job_row \<Rightarrow> sender_key" where
  "sender r = (wj_tenant r, to_lower (bp_Chain (wj_tx r)), to_lower (bp_Network (wj_tx r)),
               to_lower (bp_From (wj_tx r)))"

text \<open>The \<open>NOT EXISTS\<close> clause: no other order of the sender is in one of the given statuses.\<close>

definition sender_idle :: "string list \<Rightarrow> job_row table \<Rightarrow> job_row \<Rightarrow> bool" where
  "sender_idle busy t r \<longleftrightarrow>
     \<not> list_ex (\<lambda>a. sender a = sender r \<and> wj_order a \<noteq> wj_order r \<and> wj_status a \<in> set busy) t"

definition sender_rank :: "(job_row \<Rightarrow> int \<times> int) \<Rightarrow> job_row list \<Rightarrow> job_row \<Rightarrow> nat" where
  "sender_rank ord eligible r =
     Suc (length (filter (\<lambda>s. sender s = sender r \<and> ord s < ord r) eligible))"

definition picked_rows ::
  "(job_row \<Rightarrow> int \<times> int) \<Rightarrow> (int \<Rightarrow> bool) \<Rightarrow> nat \<Rightarrow> job_row list \<Rightarrow> job_row list" where
  "picked_rows ord locked limit eligible =
     take limit (sort_key ord
       (filter (\<lambda>r. sender_rank ord eligible r = 1 \<and> \<not> locked (wj_id r)) eligible))"

definition picked_ids ::
  "(job_row \<Rightarrow> int \<times> int) \<Rightarrow> (int \<Rightarrow> bool) \<Rightarrow> nat \<Rightarrow> job_row list \<Rightarrow> int list" where
  "picked_ids ord locked limit eligible = map wj_id (picked_rows ord locked limit eligible)"

text \<open>The \<open>Scan\<close> of a returned row into a \<open>ports.WithdrawJob\<close>.\<close>

definition job_of_row :: "job_row \<Rightarrow> withdraw_job" where
  "job_of_row r =
     \<lparr>job_ID = wj_id r, job_TenantID = wj_tenant r, job_AccountID = wj_account r,
      job_OrderID = wj_order r, job_TxHash = wj_tx_hash r, job_RequiredConfs = wj_required r,
      job_AttemptCount = wj_attempts r, job_ReplaceCount = wj_replacements r,
      job_Signers = wj_signers r, job_SignType = wj_sign_type r, job_Tx = wj_tx r\<rparr>"


section \<open>Claiming queued withdrawals\<close>

definition withdrawJobLease :: int where "withdrawJobLease = 30000"

definition created_order :: "job_row \<Rightarrow> int \<times> int" where
  "created_order r = (wj_created_at r, wj_id r)"

definition queue_eligible :: "int \<Rightarrow> ledger_db \<Rightarrow> job_row \<Rightarrow> bool" where
  "queue_eligible now db r \<longleftrightarrow>
     (case select_row (lf_at (wj_tenant r, wj_order r)) (ledger_freezes db) of
        None \<Rightarrow> False | Some f \<Rightarrow> lf_status f = ''FROZEN'') \<and>
     (wj_status r = ''QUEUED'' \<and> wj_next_retry_at r \<le> now \<or>
      wj_status r = ''PROCESSING'' \<and>
        (case wj_started_at r of None \<Rightarrow> False | Some s \<Rightarrow> s \<le> now - withdrawJobLease)) \<and>
     sender_idle [''PROCESSING''] (withdraw_jobs db) r"

definition queue_pick :: "int \<Rightarrow> (int \<Rightarrow> bool) \<Rightarrow> int \<Rightarrow> ledger_db \<Rightarrow> int list" where
  "queue_pick now locked limit db =
     picked_ids created_order locked (nat (if limit \<le> 0 then 10 else limit))
       (filter (queue_eligible now db) (withdraw_jobs db))"

definition start_processing :: "int \<Rightarrow> job_row \<Rightarrow> job_row" where
  "start_processing now r =
     r\<lparr>wj_status := ''PROCESSING'', wj_attempts := wj_attempts r + 1, wj_started_at := Some now,
       wj_next_retry_at := now, wj_updated_at := now\<rparr>"

definition claim_ids :: "int list \<Rightarrow> (job_row \<Rightarrow> job_row) \<Rightarrow> ledger_db \<Rightarrow> ledger_db \<times> withdraw_job list" where
  "claim_ids ids f db =
     (db\<lparr>withdraw_jobs := update_where (\<lambda>r. wj_id r \<in> set ids) f (withdraw_jobs db)\<rparr>,
      map (\<lambda>r. job_of_row (f r)) (filter (\<lambda>r. wj_id r \<in> set ids) (withdraw_jobs db)))"

definition ClaimQueuedWithdraws ::
  "int \<Rightarrow> (int \<Rightarrow> bool) \<Rightarrow> int \<Rightarrow> ledger_db \<Rightarrow> ledger_db \<times> withdraw_job list" where
  "ClaimQueuedWithdraws now locked limit db =
     claim_ids (queue_pick now locked limit db) (start_processing now) db"


section \<open>Claiming stale broadcasts\<close>

definition updated_order :: "job_row \<Rightarrow> int \<times> int" where
  "updated_order r = (wj_updated_at r, wj_id r)"

definition accelerable_chains :: "string list" where
  "accelerable_chains = [''ethereum'', ''binance'', ''polygon'', ''arbitrum'', ''optimism'', ''linea'',
     ''scroll'', ''mantle'', ''zksync'']"

definition stale_eligible :: "int \<Rightarrow> int \<Rightarrow> int \<Rightarrow> ledger_db \<Rightarrow> job_row \<Rightarrow> bool" where
  "stale_eligible now minAge maxReplacements db r \<longleftrightarrow>
     (case select_row (lf_at (wj_tenant r, wj_order r)) (ledger_freezes db) of
        None \<Rightarrow> False | Some f \<Rightarrow> lf_status f = ''BROADCASTED'' \<and> lf_confirmations f = 0) \<and>
     to_lower (bp_Chain (wj_tx r)) \<in> set accelerable_chains \<and>
     bp_Base64Tx (wj_tx r) \<noteq> [] \<and> wj_replacements r < maxReplacements \<and>
     (wj_status r = ''BROADCASTED'' \<and> wj_updated_at r \<le> now - minAge \<or>
      wj_status r = ''ACCELERATING'' \<and>
        (case wj_started_at r of None \<Rightarrow> False | Some s \<Rightarrow> s \<le> now - withdrawJobLease)) \<and>
     sender_idle [''PROCESSING'', ''ACCELERATING''] (withdraw_jobs db) r"

definition stale_pick :: "int \<Rightarrow> (int \<Rightarrow> bool) \<Rightarrow> int \<Rightarrow> int \<Rightarrow> int \<Rightarrow> ledger_db \<Rightarrow> int list" where
  "stale_pick now locked limit minAge maxReplacements db =
     picked_ids updated_order locked (nat (if limit \<le> 0 then 10 else limit))
       (filter (stale_eligible now (if minAge \<le> 0 then 60000 else minAge)
                 (if maxReplacements \<le> 0 then 3 else maxReplacements) db) (withdraw_jobs db))"

definition start_accelerating :: "int \<Rightarrow> job_row \<Rightarrow> job_row" where
  "start_accelerating now r =
     r\<lparr>wj_status := ''ACCELERATING'', wj_started_at := Some now, wj_updated_at := now\<rparr>"

definition ClaimStaleBroadcastedWithdraws ::
  "int \<Rightarrow> (int \<Rightarrow> bool) \<Rightarrow> int \<Rightarrow> int \<Rightarrow> int \<Rightarrow> ledger_db \<Rightarrow> ledger_db \<times> withdraw_job list" where
  "ClaimStaleBroadcastedWithdraws now locked limit minAge maxReplacements db =
     claim_ids (stale_pick now locked limit minAge maxReplacements db) (start_accelerating now) db"


section \<open>Reporting an outcome\<close>

definition MarkQueuedWithdrawDone ::
  "int \<Rightarrow> string \<Rightarrow> string \<Rightarrow> string \<Rightarrow> string \<Rightarrow> ledger_db \<Rightarrow> ledger_db result" where
  "MarkQueuedWithdrawDone now tenantID orderID txHash unsignedTx db =
     (let db1 = update_job now tenantID orderID
            (\<lambda>r. r\<lparr>wj_status := ''BROADCASTED'', wj_tx_hash := txHash,
                   wj_tx := (wj_tx r)\<lparr>bp_Base64Tx := trim_space unsignedTx\<rparr>,
                   wj_last_error := [], wj_started_at := None\<rparr>) db
      in Inr (upsert_attempt now tenantID orderID txHash (trim_space unsignedTx) db1))"

definition RescheduleQueuedWithdraw ::
  "int \<Rightarrow> string \<Rightarrow> string \<Rightarrow> string \<Rightarrow> int \<Rightarrow> ledger_db \<Rightarrow> ledger_db result" where
  "RescheduleQueuedWithdraw now tenantID orderID reason delay db =
     (let delay' = (if delay < 0 then 0 else delay) in
      Inr (update_job now tenantID orderID
             (\<lambda>r. r\<lparr>wj_status := ''QUEUED'', wj_last_error := reason, wj_next_retry_at := now + delay',
                    wj_started_at := None\<rparr>) db))"

definition MarkQueuedWithdrawFailed ::
  "int \<Rightarrow> string \<Rightarrow> string \<Rightarrow> string \<Rightarrow> ledger_db \<Rightarrow> ledger_db result" where
  "MarkQueuedWithdrawFailed now tenantID orderID reason db =
     Inr (update_job now tenantID orderID
            (\<lambda>r. r\<lparr>wj_status := ''FAILED'', wj_last_error := reason, wj_started_at := None\<rparr>) db)"

definition ReplaceBroadcastedWithdraw ::
  "int \<Rightarrow> string \<Rightarrow> string \<Rightarrow> string \<Rightarrow> string \<Rightarrow> string \<Rightarrow> ledger_db \<Rightarrow> ledger_db result" where
  "ReplaceBroadcastedWithdraw now tenantID orderID oldTxHash newTxHash unsignedTx db =
     (let db1 = db\<lparr>ledger_freezes := update_where
            (\<lambda>r. lf_at (tenantID, orderID) r \<and> lf_status r = ''BROADCASTED'')
            (\<lambda>r. r\<lparr>lf_tx_hash := newTxHash, lf_updated_at := now\<rparr>) (ledger_freezes db)\<rparr>;
          db2 = update_job now tenantID orderID
            (\<lambda>r. r\<lparr>wj_status := ''BROADCASTED'', wj_tx_hash := newTxHash,
                   wj_tx := (wj_tx r)\<lparr>bp_Base64Tx := trim_space unsignedTx\<rparr>,
                   wj_replacements := wj_replacements r + 1, wj_last_error := [],
                   wj_started_at := None\<rparr>) db1;
          db3 = (if trim_space oldTxHash \<noteq> [] then
                   db2\<lparr>withdraw_tx_attempts := update_where
                     (\<lambda>r. wa_tenant r = tenantID \<and> wa_order r = orderID \<and> wa_tx_hash r = oldTxHash \<and>
                          wa_status r = ''BROADCASTED'')
                     (\<lambda>r. r\<lparr>wa_status := ''REPLACED'', wa_updated_at := now\<rparr>) (withdraw_tx_attempts db2)\<rparr>
                 else db2)
      in Inr (upsert_attempt now tenantID orderID newTxHash (trim_space unsignedTx) db3))"

definition ResetBroadcastedWithdraw ::
  "int \<Rightarrow> string \<Rightarrow> string \<Rightarrow> string \<Rightarrow> ledger_db \<Rightarrow> ledger_db result" where
  "ResetBroadcastedWithdraw now tenantID orderID reason db =
     Inr (update_job now tenantID orderID
            (\<lambda>r. r\<lparr>wj_status := ''BROADCASTED'', wj_last_error := reason, wj_started_at := None\<rparr>) db)"


section \<open>What a claim picks\<close>

definition wf_jobs :: "job_row table \<Rightarrow> bool" where
  "wf_jobs t \<longleftrightarrow> jobs.uniq t \<and> distinct (map wj_id t)"

text \<open>At most one job of a sender is being processed.\<close>

definition one_in_flight :: "job_row table \<Rightarrow> bool" where
  "one_in_flight t \<longleftrightarrow>
     (\<forall>a\<in>set t. \<forall>b\<in>set t. wj_status a = ''PROCESSING'' \<longrightarrow> wj_status b = ''PROCESSING'' \<longrightarrow>
        sender a = sender b \<longrightarrow> wj_key a = wj_key b)"

lemma one_in_flightD:
  "one_in_flight t \<Longrightarrow> a \<in> set t \<Longrightarrow> b \<in> set t \<Longrightarrow> wj_status a = ''PROCESSING'' \<Longrightarrow>
   wj_status b = ''PROCESSING'' \<Longrightarrow> sender a = sender b \<Longrightarrow> wj_key a = wj_key b"
  unfolding one_in_flight_def by blast

lemma picked_rows_in:
  assumes "r \<in> set (picked_rows ord locked n el)"
  shows "r \<in> set el" "sender_rank ord el r = 1" "\<not> locked (wj_id r)"
  using assms by (auto simp: picked_rows_def dest: in_set_takeD)

text \<open>With a key that separates rows, only one row of a sender has rank 1.\<close>

lemma rank_one_unique:
  assumes "r \<in> set el" "s \<in> set el" "sender r = sender s"
    and "sender_rank ord el r = 1" "sender_rank ord el s = 1"
  shows "ord r = ord s"
  using assms by (force simp: sender_rank_def filter_empty_conv)

lemma length_picked: "length (picked_ids ord locked n el) \<le> n"
  by (simp add: picked_ids_def picked_rows_def)

lemma picked_ids_in:
  assumes "distinct (map wj_id t)" and "r \<in> set t" and "wj_id r \<in> set (picked_ids ord locked n (filter p t))"
  shows "p r" "sender_rank ord (filter p t) r = 1" "\<not> locked (wj_id r)"
proof -
  obtain s where s: "s \<in> set (picked_rows ord locked n (filter p t))" "wj_id s = wj_id r"
    using assms(3) by (auto simp: picked_ids_def)
  then have "s \<in> set t" using picked_rows_in(1) [OF s(1)] by simp
  then have "s = r" using assms(1,2) s(2) by (metis distinct_map inj_onD)
  then show "p r" "sender_rank ord (filter p t) r = 1" "\<not> locked (wj_id r)"
    using picked_rows_in [OF s(1)] by auto
qed

lemma start_processing_simps [simp]:
  "wj_status (start_processing now r) = ''PROCESSING''" "sender (start_processing now r) = sender r"
  "wj_key (start_processing now r) = wj_key r" "wj_id (start_processing now r) = wj_id r"
  "wj_attempts (start_processing now r) = wj_attempts r + 1" "wj_order (start_processing now r) = wj_order r"
  "wj_tenant (start_processing now r) = wj_tenant r" "wj_tx (start_processing now r) = wj_tx r"
  by (simp_all add: start_processing_def sender_def wj_key_def)

lemma sender_idleD:
  "sender_idle busy t r \<Longrightarrow> a \<in> set t \<Longrightarrow> sender a = sender r \<Longrightarrow> wj_status a \<in> set busy \<Longrightarrow> wj_key a = wj_key r"
  by (auto simp: sender_idle_def list_ex_iff sender_def wj_key_def)

lemma sender_tenant: "sender a = sender b \<Longrightarrow> wj_tenant a = wj_tenant b"
  by (simp add: sender_def)

lemma ClaimQueuedWithdraws_one_in_flight:
  assumes wf: "wf_jobs (withdraw_jobs db)" and one: "one_in_flight (withdraw_jobs db)"
    and claim: "ClaimQueuedWithdraws now locked limit db = (db', out)"
  shows "one_in_flight (withdraw_jobs db')"
  unfolding one_in_flight_def
proof (intro ballI impI)
  let ?t = "withdraw_jobs db" and ?ids = "queue_pick now locked limit db"
  fix a b
  assume ab: "a \<in> set (withdraw_jobs db')" "b \<in> set (withdraw_jobs db')"
    and st: "wj_status a = ''PROCESSING''" "wj_status b = ''PROCESSING''" and same: "sender a = sender b"
  have t': "withdraw_jobs db' = update_where (\<lambda>r. wj_id r \<in> set ?ids) (start_processing now) ?t"
    using claim by (auto simp: ClaimQueuedWithdraws_def claim_ids_def)
  from ab obtain ra rb where
    ra: "ra \<in> set ?t" "a = (if wj_id ra \<in> set ?ids then start_processing now ra else ra)"
    and rb: "rb \<in> set ?t" "b = (if wj_id rb \<in> set ?ids then start_processing now rb else rb)"
    unfolding t' in_update_where by blast
  have dist: "distinct (map wj_id ?t)" using wf by (simp add: wf_jobs_def)
  have pick: "queue_eligible now db r \<and> sender_rank created_order (filter (queue_eligible now db) ?t) r = 1"
    if "r \<in> set ?t" "wj_id r \<in> set ?ids" for r
    using picked_ids_in [OF dist that(1) that(2) [unfolded queue_pick_def]] by auto
  have idle: "wj_key c = wj_key r"
    if "r \<in> set ?t" "wj_id r \<in> set ?ids" "c \<in> set ?t" "wj_status c = ''PROCESSING''" "sender c = sender r" for r c
    using pick [OF that(1,2)] that(3-5) by (auto simp: queue_eligible_def intro: sender_idleD)
  show "wj_key a = wj_key b"
  proof (cases "wj_id ra \<in> set ?ids"; cases "wj_id rb \<in> set ?ids")
    assume m: "wj_id ra \<in> set ?ids" "wj_id rb \<in> set ?ids"
    have "created_order ra = created_order rb"
      using pick [OF ra(1) m(1)] pick [OF rb(1) m(2)] ra rb same m
      by (intro rank_one_unique [where el = "filter (queue_eligible now db) ?t"]) auto
    then have "ra = rb" using dist ra(1) rb(1) by (auto simp: created_order_def distinct_map inj_on_def)
    then show ?thesis using ra rb by simp
  next
    assume "wj_id ra \<in> set ?ids" "\<not> wj_id rb \<in> set ?ids"
    then show ?thesis using idle [OF ra(1), of rb] ra rb st same by simp
  next
    assume "\<not> wj_id ra \<in> set ?ids" "wj_id rb \<in> set ?ids"
    then show ?thesis using idle [OF rb(1), of ra] ra rb st same by simp
  next
    assume "\<not> wj_id ra \<in> set ?ids" "\<not> wj_id rb \<in> set ?ids"
    then have "a = ra" "b = rb" using ra rb by simp_all
    then show ?thesis using one_in_flightD [OF one ra(1) rb(1)] st same by simp
  qed
qed

text \<open>
  Two claims that read the same snapshot at the same time: the second skips the rows the
  first has locked and takes none of its senders.
\<close>

lemma overlapping_claims_disjoint:
  assumes wf: "wf_jobs (withdraw_jobs db)"
    and locked: "\<And>i. i \<in> set (queue_pick now l1 n1 db) \<Longrightarrow> l2 i"
    and r: "r \<in> set (withdraw_jobs db)" "wj_id r \<in> set (queue_pick now l1 n1 db)"
    and s: "s \<in> set (withdraw_jobs db)" "wj_id s \<in> set (queue_pick now l2 n2 db)"
  shows "sender r \<noteq> sender s"
proof
  assume same: "sender r = sender s"
  have dist: "distinct (map wj_id (withdraw_jobs db))" using wf by (simp add: wf_jobs_def)
  note R = picked_ids_in [OF dist r(1) r(2) [unfolded queue_pick_def]]
  note S = picked_ids_in [OF dist s(1) s(2) [unfolded queue_pick_def]]
  have "created_order r = created_order s"
    using R S r s same by (intro rank_one_unique [OF _ _ same]) auto
  then have "wj_id r = wj_id s" by (simp add: created_order_def)
  then show False using locked [OF r(2)] S(3) by simp
qed

lemma claimed_jobs:
  assumes wf: "wf_jobs (withdraw_jobs db)"
    and claim: "ClaimQueuedWithdraws now locked limit db = (db', out)" and j: "j \<in> set out"
  obtains r where "r \<in> set (withdraw_jobs db)" "queue_eligible now db r" "\<not> locked (wj_id r)"
    "j = job_of_row (start_processing now r)" "start_processing now r \<in> set (withdraw_jobs db')"
proof -
  let ?ids = "queue_pick now locked limit db"
  obtain r where r: "r \<in> set (withdraw_jobs db)" "wj_id r \<in> set ?ids" "j = job_of_row (start_processing now r)"
    using claim j by (auto simp: ClaimQueuedWithdraws_def claim_ids_def)
  have dist: "distinct (map wj_id (withdraw_jobs db))" using wf by (simp add: wf_jobs_def)
  have "queue_eligible now db r" "\<not> locked (wj_id r)"
    using picked_ids_in [OF dist r(1) r(2) [unfolded queue_pick_def]] by auto
  moreover have "start_processing now r \<in> set (withdraw_jobs db')"
    using claim r(1,2) by (auto simp: ClaimQueuedWithdraws_def claim_ids_def in_update_where)
  ultimately show thesis using that r by blast
qed

end
