(* ===== verification/Ledger_Machine.thy ===== *)
theory Ledger_Machine
  imports Ledger_Withdraw_Effects Ledger_Deposit Ledger_Treasury Ledger_Queue
begin

text \<open>
  The ledger as a state machine: one rule per operation that commits. \<open>reachable\<close> is what
  any sequence of operations can produce from the empty database. The rules carry the
  three obligations the operations leave to their callers:

  \<^item> \<open>ReleaseWithdraw\<close> is called with the account that owns the freeze (the operation
    takes the account from its caller and not from the row);
  \<^item> a deposit is always reported with the same account, asset and amount once it is
    credited (\<open>deposit_consistent\<close>);
  \<^item> \<open>StartSweep\<close> is not called for a sweep that is already settled.

  The invariant: the tables are well-formed and every balance equals what the order tables
  say it should be.
\<close>

section \<open>Preservation of the accounting equations\<close>

lemma wf_ledgerD:
  "wf_ledger db \<Longrightarrow> wf_balances (ledger_balances db)" "wf_ledger db \<Longrightarrow> wf_freezes (ledger_freezes db)"
  "wf_ledger db \<Longrightarrow> wf_deposits (deposit_events db)"
  by (simp_all add: wf_ledger_def)

lemma balanced_change:
  assumes "balanced db"
    and "\<And>j. total (open_amount j) (ledger_freezes db') = total (open_amount j) (ledger_freezes db) + op j"
    and "\<And>j. total (spent_amount j) (ledger_freezes db') = total (spent_amount j) (ledger_freezes db) + sp j"
    and "\<And>j. total (credited_amount j) (deposit_events db') = total (credited_amount j) (deposit_events db) + cr j"
    and "\<And>j. total (locked_amount j) (deposit_events db') = total (locked_amount j) (deposit_events db) + lo j"
    and "\<And>j. view db' j = \<lparr>av_available = av_available (view db j) + cr j - op j - sp j,
                 av_frozen = av_frozen (view db j) + op j, av_locked = av_locked (view db j) + lo j\<rparr>"
  shows "balanced db'"
  using assms by (auto simp: balanced_def expected_view_def)

lemma balanced_moved:
  assumes bal: "balanced db" and wf: "wf_ledger db" and m: "freeze_moved db db' k row row'"
    and dep: "deposit_events db' = deposit_events db"
    and v: "\<And>j. view db' j = \<lparr>av_available = av_available (view db j)
                 - (open_amount j row' - open_amount j row) - (spent_amount j row' - spent_amount j row),
               av_frozen = av_frozen (view db j) + (open_amount j row' - open_amount j row),
               av_locked = av_locked (view db j)\<rparr>"
  shows "balanced db'"
  by (rule balanced_change [OF bal, where op = "\<lambda>j. open_amount j row' - open_amount j row"
        and sp = "\<lambda>j. spent_amount j row' - spent_amount j row" and cr = "\<lambda>_. 0" and lo = "\<lambda>_. 0"])
     (use freeze_moved_total [OF m wf_ledgerD(2) [OF wf]] in \<open>simp_all add: dep v\<close>)

lemma wf_moved:
  assumes "wf_ledger db" and "freeze_moved db db' k row row'"
    and "lf_status row' \<in> {''FROZEN'', ''BROADCASTED'', ''CONFIRMED'', ''RELEASED''}"
    and "wf_balances (ledger_balances db')" and "deposit_events db' = deposit_events db"
  shows "wf_ledger db'"
  using assms freeze_moved_wf [OF assms(2) wf_ledgerD(2) [OF assms(1)] assms(3)] by (simp add: wf_ledger_def)

lemma account_view_eqI:
  "av_available v = a \<Longrightarrow> av_frozen v = f \<Longrightarrow> av_locked v = l \<Longrightarrow>
   v = \<lparr>av_available = a, av_frozen = f, av_locked = l\<rparr>"
  by (cases v) simp

definition ledger_ok :: "ledger_db \<Rightarrow> bool" where
  "ledger_ok db \<longleftrightarrow> wf_ledger db \<and> balanced db"

lemma freezeWithdrawTx_ok:
  assumes ok: "ledger_ok db"
    and run: "freezeWithdrawTx now t a ord chain net asset amount req db = Inr db'"
  shows "ledger_ok db' \<and> same_vault_side db db'"
proof -
  have wf: "wf_ledger db" and bal: "balanced db" using ok by (simp_all add: ledger_ok_def)
  show ?thesis
  proof (rule freezeWithdrawTx_effect [OF wf_ledgerD(1) [OF wf] run])
    show ?thesis if "db' = db"
      using ok that by (simp add: same_vault_side_def)
  next
    fix row
    let ?k = "(t, a, asset)"
    assume none: "select_row (lf_at (t, ord)) (ledger_freezes db) = None"
      and frz: "ledger_freezes db' = ledger_freezes db @ [row]"
      and row: "lf_key row = (t, ord)" "lf_account_key row = ?k" "lf_amount row = amount" "lf_status row = ''FROZEN''"
      and n: "valid_amt amount" and wfb: "wf_balances (ledger_balances db')"
      and v: "view db' = (view db)(?k := spec_freeze (amt amount) (view db ?k))"
      and rest: "deposit_events db' = deposit_events db" "same_vault_side db db'"
    have "freezes.uniq (ledger_freezes db')"
      using wf none row freezes.uniq_append [of "ledger_freezes db" row]
      by (simp add: frz wf_ledger_def wf_freezes_def)
    then have "wf_ledger db'"
      using wf wfb row n by (auto simp: wf_ledger_def wf_freezes_def frz rest)
    moreover have "balanced db'"
      by (rule balanced_change [OF bal, where op = "\<lambda>j. open_amount j row" and sp = "\<lambda>j. 0"
            and cr = "\<lambda>_. 0" and lo = "\<lambda>_. 0"])
         (use row in \<open>auto simp: frz rest v open_amount_def spent_amount_def open_status_def spec_freeze_def
            intro!: account_view_eqI\<close>)
    ultimately show ?thesis using rest by (simp add: ledger_ok_def)
  qed
qed

lemma QueueWithdraw_ok:
  assumes "ledger_ok db" and "QueueWithdraw now inp db = Inr db'"
  shows "ledger_ok db' \<and> same_vault_side db db'"
proof -
  obtain db1 where 1: "freezeWithdrawTx now (wq_TenantID inp) (wq_AccountID inp) (wq_OrderID inp)
       (bp_Chain (wq_Tx inp)) (bp_Network (wq_Tx inp)) (bp_Coin (wq_Tx inp)) (bp_Amount (wq_Tx inp))
       (wq_RequiredConfs inp) db = Inr db1" "same_withdraw_side db1 db'" "same_vault_side db1 db'"
    using QueueWithdraw_effect [OF assms(2)] by blast
  show ?thesis
    using freezeWithdrawTx_ok [OF assms(1) 1(1)] same_withdraw_sideD [OF 1(2)] 1(3)
    by (simp add: ledger_ok_def same_vault_side_def)
qed

lemma moved_same_view_ok:
  assumes ok: "ledger_ok db" and m: "freeze_moved db db' k row row'"
    and st: "lf_status row' \<in> {''FROZEN'', ''BROADCASTED'', ''CONFIRMED'', ''RELEASED''}"
      "open_status (lf_status row') = open_status (lf_status row)"
      "lf_status row' = ''CONFIRMED'' \<longleftrightarrow> lf_status row = ''CONFIRMED''"
    and same: "ledger_balances db' = ledger_balances db" "deposit_events db' = deposit_events db"
  shows "ledger_ok db'"
proof -
  have "wf_ledger db'" using ok same wf_moved [OF _ m st(1)] by (simp add: ledger_ok_def wf_ledger_def)
  moreover have "balanced db'"
    using ok same st freeze_moved_row(4,5) [OF m]
    by (intro balanced_moved [OF _ _ m]) (auto simp: ledger_ok_def open_amount_def spent_amount_def)
  ultimately show ?thesis by (simp add: ledger_ok_def)
qed

lemma ConfirmWithdraw_ok:
  assumes ok: "ledger_ok db" and run: "ConfirmWithdraw now t a ord h db = Inr db'"
  shows "ledger_ok db' \<and> same_vault_side db db'"
proof (rule ConfirmWithdraw_effect [OF run])
  show ?thesis if "db' = db" using ok that by (simp add: same_vault_side_def)
next
  fix row row'
  assume "freeze_moved db db' (t, ord) row row'" "lf_status row = ''FROZEN''" "lf_status row' = ''BROADCASTED''"
    "ledger_balances db' = ledger_balances db" "deposit_events db' = deposit_events db" "same_vault_side db db'"
  then show ?thesis using moved_same_view_ok [OF ok] by (auto simp: open_status_def)
qed

text \<open>An open freeze is closed: settled when \<open>CONFIRMED\<close>, released when \<open>RELEASED\<close>.\<close>

lemma closed_ok:
  assumes ok: "ledger_ok db" and m: "freeze_moved db db' (t, ord) row row'"
    and op: "open_status (lf_status row)"
    and st: "lf_status row' = ''CONFIRMED'' \<and> f = spec_settle \<or> lf_status row' = ''RELEASED'' \<and> f = spec_release"
    and v: "view db' = (view db)((t, lf_account row, lf_asset row) :=
          f (amt (lf_amount row)) (view db (t, lf_account row, lf_asset row)))"
    and wfb: "wf_balances (ledger_balances db')" and dep: "deposit_events db' = deposit_events db"
  shows "ledger_ok db'"
proof -
  have k: "(t, lf_account row, lf_asset row) = lf_account_key row"
    using freeze_moved_row(1) [OF m] by (simp add: lf_key_def lf_account_key_def)
  have "wf_ledger db'" using ok st wfb dep by (intro wf_moved [OF _ m]) (auto simp: ledger_ok_def)
  moreover have "balanced db'"
    using ok st op freeze_moved_row(4,5) [OF m]
    by (intro balanced_moved [OF _ _ m dep])
       (auto simp: ledger_ok_def v k open_amount_def spent_amount_def open_status_def
          spec_settle_def spec_release_def intro!: account_view_eqI)
  ultimately show ?thesis by (simp add: ledger_ok_def)
qed

lemma ConfirmWithdrawOnChain_ok:
  assumes ok: "ledger_ok db" and run: "ConfirmWithdrawOnChain now t ord h confs req db = Inr db'"
  shows "ledger_ok db' \<and> same_vault_side db db'"
proof -
  have wfb: "wf_balances (ledger_balances db)" using ok by (simp add: ledger_ok_def wf_ledger_def)
  show ?thesis
  proof (rule ConfirmWithdrawOnChain_effect [OF wfb run])
    fix row row'
    assume "freeze_moved db db' (t, ord) row row'"
      "lf_status row = ''CONFIRMED'' \<and> lf_status row' = ''CONFIRMED'' \<or>
       open_status (lf_status row) \<and> lf_status row' = ''BROADCASTED''"
      "ledger_balances db' = ledger_balances db" "deposit_events db' = deposit_events db" "same_vault_side db db'"
    then show ?thesis using moved_same_view_ok [OF ok] by (auto simp: open_status_def)
  qed (use closed_ok [OF ok] in blast)
qed

lemma FailWithdrawOnChain_ok:
  assumes ok: "ledger_ok db" and run: "FailWithdrawOnChain now t ord h reason confs db = Inr db'"
  shows "ledger_ok db' \<and> same_vault_side db db'"
proof -
  have wfb: "wf_balances (ledger_balances db)" and wff: "wf_freezes (ledger_freezes db)"
    using ok by (simp_all add: ledger_ok_def wf_ledger_def)
  show ?thesis
  proof (rule FailWithdrawOnChain_effect [OF wfb run])
    assume "same_withdraw_side db db'" "same_vault_side db db'"
    then show ?thesis using ok same_withdraw_sideD by (simp add: ledger_ok_def)
  next
    fix row row'
    assume m: "freeze_moved db db' (t, ord) row row'"
      and st: "lf_status row \<noteq> ''CONFIRMED''" "lf_status row \<noteq> ''RELEASED''" "lf_status row' = ''RELEASED''"
      and rest: "view db' = (view db)((t, lf_account row, lf_asset row) :=
          spec_release (amt (lf_amount row)) (view db (t, lf_account row, lf_asset row)))"
      "wf_balances (ledger_balances db')" "deposit_events db' = deposit_events db" "same_vault_side db db'"
    have "open_status (lf_status row)"
      using st freeze_moved_row(3) [OF m] wff by (auto simp: wf_freezes_def open_status_def)
    then show ?thesis using closed_ok [where f = spec_release, OF ok m _ _ rest(1-3)] st rest by simp
  qed
qed

text \<open>The account a release is called with owns the freeze.\<close>

definition owns_freeze :: "string \<Rightarrow> string \<Rightarrow> string \<Rightarrow> ledger_db \<Rightarrow> bool" where
  "owns_freeze tenantID accountID orderID db \<longleftrightarrow>
     (case select_row (lf_at (tenantID, orderID)) (ledger_freezes db) of
        None \<Rightarrow> True | Some row \<Rightarrow> lf_account row = accountID)"

lemma ReleaseWithdraw_ok:
  assumes ok: "ledger_ok db" and own: "owns_freeze t a ord db"
    and run: "ReleaseWithdraw now t a ord reason db = Inr db'"
  shows "ledger_ok db' \<and> same_vault_side db db'"
proof -
  have wfb: "wf_balances (ledger_balances db)" using ok by (simp add: ledger_ok_def wf_ledger_def)
  show ?thesis
  proof (rule ReleaseWithdraw_effect [OF wfb run])
    show ?thesis if "db' = db" using ok that by (simp add: same_vault_side_def)
  next
    fix row row'
    assume m: "freeze_moved db db' (t, ord) row row'"
      and st: "open_status (lf_status row)" "lf_status row' = ''RELEASED''"
      and v: "view db' = (view db)((t, a, lf_asset row) :=
          spec_release (amt (lf_amount row)) (view db (t, a, lf_asset row)))"
      and rest: "wf_balances (ledger_balances db')" "deposit_events db' = deposit_events db" "same_vault_side db db'"
    have "a = lf_account row" using own freeze_moved_row(6) [OF m] by (simp add: owns_freeze_def)
    then show ?thesis using closed_ok [where f = spec_release, OF ok m st(1) _ v [unfolded \<open>a = _\<close>]] st rest by simp
  qed
qed

text \<open>Deposits: the flags of the order's row move exactly as the balances do.\<close>

lemma spec_deposit_flags:
  assumes "(c', u') = snd (spec_deposit c u s n v)" and "u \<longrightarrow> c"
  shows "u' \<longrightarrow> c'"
    and "fst (spec_deposit c u s n v) =
      \<lparr>av_available = av_available v + (of_bool c' - of_bool c) * n, av_frozen = av_frozen v,
       av_locked = av_locked v + (of_bool (c' \<and> \<not> u') - of_bool (c \<and> \<not> u)) * n\<rparr>"
  using assms
  by (cases s; cases c; cases u; simp add: spec_deposit_def spec_defs)+

lemma deposit_total:
  assumes u: "deposits.uniq (deposit_events db)"
    and old: "old = select_row (de_at k) (deposit_events db)"
    and ev: "deposit_events db' = (case old of None \<Rightarrow> deposit_events db @ [r]
              | Some _ \<Rightarrow> update_where (de_at k) f (deposit_events db))"
    and r: "\<And>d. old = Some d \<Longrightarrow> r = f d"
  shows "total w (deposit_events db') = total w (deposit_events db) + w r - (case old of None \<Rightarrow> 0 | Some d \<Rightarrow> w d)"
proof (cases old)
  case None
  then show ?thesis by (simp add: ev)
next
  case (Some d)
  then show ?thesis using deposits.total_update_key [OF u, of k d w f] old r by (simp add: ev)
qed

lemma CreditDeposit_ok:
  assumes ok: "ledger_ok db" and cons: "deposit_consistent inp db"
    and run: "CreditDeposit now inp db = Inr db'"
  shows "ledger_ok db' \<and> same_vault_side db db'"
proof -
  let ?k = "(di_TenantID inp, di_OrderID inp)" and ?n = "amt (di_Amount inp)"
  define old where "old = select_row (de_at ?k) (deposit_events db)"
  define k where "k = deposit_account inp"
  obtain ost oc ou where oc: "old_deposit old = (ost, oc, ou)" by (metis prod_cases3)
  have wf: "wf_ledger db" and bal: "balanced db" using ok by (simp_all add: ledger_ok_def)
  have u: "deposits.uniq (deposit_events db)" using wf by (simp add: wf_ledger_def wf_deposits_def)
  let ?s = "deposit_stage_after inp old"
  let ?f = "\<lambda>r. update_deposit_event now inp (stage_name ?s) (de_credited r) (de_unlocked r)"
  obtain r where r: "r = ?f r (deposit_row0 now inp old)"
    and fl: "(de_credited r, de_unlocked r) = snd (spec_deposit oc ou ?s ?n (view db k))"
    and val: "\<not> oc \<Longrightarrow> de_credited r \<Longrightarrow> valid_amt (di_Amount inp)"
    and ev: "deposit_events db' = (case old of None \<Rightarrow> deposit_events db @ [r]
        | Some _ \<Rightarrow> update_where (de_at ?k) (?f r) (deposit_events db))"
    and v: "view db' = (view db)(k := fst (spec_deposit oc ou ?s ?n (view db k)))"
    and rest: "wf_balances (ledger_balances db')" "ledger_freezes db' = ledger_freezes db" "same_vault_side db db'"
    using CreditDeposit_effect [OF wf_ledgerD(1) [OF wf] run old_def oc k_def] by metis
  have od: "old = Some d \<Longrightarrow> d \<in> set (deposit_events db) \<and> de_key d = ?k" for d
    using deposits.selected_key [of ?k] by (auto simp: old_def)
  have flags: "ou \<longrightarrow> oc" "old = Some d \<Longrightarrow> oc = de_credited d \<and> ou = de_unlocked d" for d
    using oc od wf by (auto simp: old_deposit_def wf_ledger_def wf_deposits_def split: option.splits)
  note sf = spec_deposit_flags [OF fl flags(1)]
  have rk: "de_account_key r = k" "de_amount r = di_Amount inp" "de_key r = ?k"
    using deposit_row0_key [OF old_def, of now] arg_cong [OF deposit_row0_key [OF old_def, of now], of fst]
      arg_cong [OF r, of de_account_key] arg_cong [OF r, of de_amount] arg_cong [OF r, of de_key]
    by (simp_all add: k_def deposit_account_def de_key_def [of "deposit_row0 now inp old"])
  have vr: "valid_amt (di_Amount inp)" if "de_credited r"
    using that val cons oc
    by (cases oc) (auto simp: deposit_consistent_def old_def [symmetric] old_deposit_def split: option.splits)
  have tot: "total w (deposit_events db') = total w (deposit_events db) + w r - (case old of None \<Rightarrow> 0 | Some d \<Rightarrow> w d)" for w
    by (rule deposit_total [OF u old_def ev]) (use r in \<open>simp add: deposit_row0_def\<close>)
  have od_amt: "(case old of None \<Rightarrow> 0 | Some d \<Rightarrow> credited_amount j d) = (if j = k then of_bool oc * ?n else 0)"
    "(case old of None \<Rightarrow> 0 | Some d \<Rightarrow> locked_amount j d) = (if j = k then of_bool (oc \<and> \<not> ou) * ?n else 0)" for j
    using cons od flags oc
    by (auto simp: credited_amount_def locked_amount_def deposit_consistent_def old_def [symmetric] k_def
        deposit_account_def de_account_key_def de_key_def old_deposit_def split: option.splits)
  have "wf_deposits (deposit_events db')"
  proof -
    have un: "deposits.uniq (deposit_events db')"
      using u old_def rk by (auto simp: ev intro!: deposits.uniq_update deposits.uniq_append split: option.splits)
    have el: "d = r \<or> d \<in> set (deposit_events db)" if "d \<in> set (deposit_events db')" for d
    proof (cases old)
      case None
      then show ?thesis using that by (auto simp: ev)
    next
      case (Some d0)
      then have "d \<in> set (update_where (de_at ?k) (?f r) (deposit_events db))" using that by (simp add: ev)
      then have "d = ?f r d0 \<or> d \<in> set (deposit_events db)"
        using deposits.in_update_key [OF u] Some old_def by metis
      moreover have "r = ?f r d0" using r Some by (simp add: deposit_row0_def)
      ultimately show ?thesis by simp
    qed
    show ?thesis
      using wf un el vr rk sf(1) unfolding wf_ledger_def wf_deposits_def by metis
  qed
  then have "wf_ledger db'" using wf rest by (simp add: wf_ledger_def)
  moreover have "balanced db'"
    by (rule balanced_change [OF bal, where op = "\<lambda>_. 0" and sp = "\<lambda>_. 0"
          and cr = "\<lambda>j. if j = k then (of_bool (de_credited r) - of_bool oc) * ?n else 0"
          and lo = "\<lambda>j. if j = k then (of_bool (de_credited r \<and> \<not> de_unlocked r) - of_bool (oc \<and> \<not> ou)) * ?n else 0"])
       (use rk in \<open>simp_all add: rest tot od_amt v sf credited_amount_def locked_amount_def algebra_simps\<close>)
  ultimately show ?thesis using rest by (simp add: ledger_ok_def)
qed

text \<open>The queue operations leave the accounting tables alone, or only change a hash.\<close>

lemma queue_ops_frame:
  "ClaimQueuedWithdraws now locked limit db = (db', out) \<Longrightarrow> same_withdraw_side db db' \<and> same_vault_side db db'"
  "ClaimStaleBroadcastedWithdraws now locked limit age reps db = (db', out) \<Longrightarrow> same_withdraw_side db db' \<and> same_vault_side db db'"
  "MarkQueuedWithdrawDone now t ord h u db = Inr db' \<Longrightarrow> same_withdraw_side db db' \<and> same_vault_side db db'"
  "RescheduleQueuedWithdraw now t ord reason delay db = Inr db' \<Longrightarrow> same_withdraw_side db db' \<and> same_vault_side db db'"
  "MarkQueuedWithdrawFailed now t ord reason db = Inr db' \<Longrightarrow> same_withdraw_side db db' \<and> same_vault_side db db'"
  "ResetBroadcastedWithdraw now t ord reason db = Inr db' \<Longrightarrow> same_withdraw_side db db' \<and> same_vault_side db db'"
  by (auto simp: ClaimQueuedWithdraws_def ClaimStaleBroadcastedWithdraws_def claim_ids_def
        MarkQueuedWithdrawDone_def RescheduleQueuedWithdraw_def MarkQueuedWithdrawFailed_def
        ResetBroadcastedWithdraw_def Let_def ledger_stmt same_withdraw_side_def same_vault_side_def)

lemma ReplaceBroadcastedWithdraw_ok:
  assumes ok: "ledger_ok db" and run: "ReplaceBroadcastedWithdraw now t ord h h' u db = Inr db'"
  shows "ledger_ok db' \<and> same_vault_side db db'"
proof -
  let ?F = "\<lambda>r. if lf_status r = ''BROADCASTED'' then r\<lparr>lf_tx_hash := h', lf_updated_at := now\<rparr> else r"
  have frame: "ledger_balances db' = ledger_balances db" "deposit_events db' = deposit_events db"
      "same_vault_side db db'"
    and frz: "ledger_freezes db' = update_where (lf_at (t, ord)) ?F (ledger_freezes db)"
    using run
    by (auto simp: ReplaceBroadcastedWithdraw_def Let_def ledger_stmt same_vault_side_def update_where_conj
        split: if_splits)
  show ?thesis
  proof (cases "select_row (lf_at (t, ord)) (ledger_freezes db)")
    case None
    then have "same_withdraw_side db db'" using frame frz by (simp add: same_withdraw_side_def update_where_none)
    then show ?thesis using ok frame same_withdraw_sideD by (simp add: ledger_ok_def)
  next
    case (Some row)
    have st: "lf_status row \<in> {''FROZEN'', ''BROADCASTED'', ''CONFIRMED'', ''RELEASED''}"
      using ok Some by (auto simp: ledger_ok_def wf_ledger_def wf_freezes_def dest!: select_row_SomeD)
    have "keeps_freeze ?F" by (simp add: keeps_freeze_def lf_key_def lf_account_key_def)
    then have m: "freeze_moved db db' (t, ord) row (?F row)"
      using frz by (intro freeze_movedI [OF Some, of ?F]) auto
    show ?thesis using moved_same_view_ok [OF ok m _ _ _ frame(1,2)] frame st by auto
  qed
qed


section \<open>When closing a withdrawal commits\<close>

lemma ReleaseWithdraw_commits:
  assumes wf: "wf_balances (ledger_balances db)"
    and sel: "select_row (lf_at (t, ord)) (ledger_freezes db) = Some row"
    and op: "open_status (lf_status row)" and n: "valid_amt (lf_amount row)"
    and le: "av_locked (view db (t, a, lf_asset row)) \<le> av_available (view db (t, a, lf_asset row))"
    and fz: "amt (lf_amount row) \<le> av_frozen (view db (t, a, lf_asset row))"
  shows "is_ok (ReleaseWithdraw now t a ord reason db)"
proof -
  obtain b where b: "getBalanceTx t a (lf_asset row) db = Inr b"
    using getBalanceTx_ok [OF wf, of t a "lf_asset row"] le by (auto simp: is_ok_iff)
  define db3 where "db3 =
      insert_entry now t a ord (lf_asset row) ''WITHDRAW_RELEASE'' (lf_amount row) ''DONE''
        (set_entry_status now t ord ''WITHDRAW_FREEZE'' ''CANCELLED''
          (update_freeze now t ord (\<lambda>r. r\<lparr>lf_status := ''RELEASED'', lf_reason := reason\<rparr>) db))"
  have "getBalanceTx t a (lf_asset row) db3 = Inr b"
    using b by (simp add: getBalanceTx_def db3_def ledger_stmt)
  then show ?thesis
    using getBalanceTx_Inr [OF wf b] sel op n fz
    by (auto simp: ReleaseWithdraw_def open_status_def Let_def db3_def [symmetric] is_ok_iff decimal_Inr)
qed

lemma ConfirmWithdrawOnChain_commits:
  assumes wf: "wf_balances (ledger_balances db)"
    and sel: "select_row (lf_at (t, ord)) (ledger_freezes db) = Some row"
    and op: "open_status (lf_status row)" and n: "valid_amt (lf_amount row)"
    and le: "av_locked (view db (t, lf_account row, lf_asset row)) \<le> av_available (view db (t, lf_account row, lf_asset row))"
    and fz: "amt (lf_amount row) \<le> av_frozen (view db (t, lf_account row, lf_asset row))"
  shows "is_ok (ConfirmWithdrawOnChain now t ord h confs req db)"
proof -
  obtain b where b: "getBalanceTx t (lf_account row) (lf_asset row) db = Inr b"
    using getBalanceTx_ok [OF wf, of t "lf_account row" "lf_asset row"] le by (auto simp: is_ok_iff)
  obtain x where "subDecimalString (bs_Frozen b) (lf_amount row) = Inr x"
    using getBalanceTx_Inr [OF wf b] n fz by (auto simp: decimal_Inr)
  then show ?thesis
    using sel op b by (auto simp: ConfirmWithdrawOnChain_def open_status_def Let_def)
qed

text \<open>The frozen balance covers every open withdrawal of the account.\<close>

lemma open_freeze_covered:
  assumes ok: "ledger_ok db" and sel: "select_row p (ledger_freezes db) = Some row" and op: "open_status (lf_status row)"
  shows "valid_amt (lf_amount row)" "amt (lf_amount row) \<le> av_frozen (view db (lf_account_key row))"
proof -
  have m: "row \<in> set (ledger_freezes db)" using select_row_SomeD [OF sel] by simp
  then show "valid_amt (lf_amount row)" using ok by (simp add: ledger_ok_def wf_ledger_def wf_freezes_def)
  have "view db = expected_view (ledger_freezes db) (deposit_events db)"
    using ok by (simp add: ledger_ok_def balanced_def)
  then have "av_frozen (view db (lf_account_key row)) = total (open_amount (lf_account_key row)) (ledger_freezes db)"
    by (simp add: expected_view_def)
  moreover have "open_amount (lf_account_key row) row \<le> total (open_amount (lf_account_key row)) (ledger_freezes db)"
    by (rule total_member [OF _ m]) (simp add: open_amount_def)
  ultimately show "amt (lf_amount row) \<le> av_frozen (view db (lf_account_key row))"
    using op by (simp add: open_amount_def)
qed


lemma freeze_then_release:
  assumes ok: "ledger_ok db" and new: "select_row (lf_at (t, ord)) (ledger_freezes db) = None"
    and run: "FreezeWithdraw now t a ord chain net asset amount req db = Inr db1"
  shows "\<exists>db2 row. ReleaseWithdraw now' t a ord reason db1 = Inr db2 \<and> view db2 = view db \<and>
           select_row (lf_at (t, ord)) (ledger_freezes db2) = Some row \<and> lf_status row = ''RELEASED''"
proof -
  let ?k = "(t, a, asset)" and ?n = "amt amount"
  have wfb: "wf_balances (ledger_balances db)" using ok by (simp add: ledger_ok_def wf_ledger_def)
  obtain row where frz: "ledger_freezes db1 = ledger_freezes db @ [row]"
    and row: "lf_key row = (t, ord)" "lf_account_key row = ?k" "lf_amount row = amount" "lf_status row = ''FROZEN''"
    and n: "valid_amt amount" "?n \<le> av_available (view db ?k) - av_locked (view db ?k)"
    and v: "view db1 = (view db)(?k := spec_freeze ?n (view db ?k))" and wf1: "wf_balances (ledger_balances db1)"
    using freezeWithdrawTx_effect [OF wfb run [unfolded FreezeWithdraw_def]] new by (metis option.distinct(1))
  have sel: "select_row (lf_at (t, ord)) (ledger_freezes db1) = Some row"
    using new row(1) by (simp add: frz freezes.select_append_at)
  have asset: "lf_asset row = asset" using row(2) by (simp add: lf_account_key_def)
  have "0 \<le> av_frozen (view db ?k)"
    by (simp add: balance_view_def zero_view_def row_view_def split: option.splits)
  then obtain db2 where rel: "ReleaseWithdraw now' t a ord reason db1 = Inr db2"
    using ReleaseWithdraw_commits [OF wf1 sel, of a now' reason] row n
    by (auto simp: v asset open_status_def spec_freeze_def is_ok_iff)
  show ?thesis
  proof (rule ReleaseWithdraw_effect [OF wf1 rel])
    fix r r'
    assume m: "freeze_moved db1 db2 (t, ord) r r'" and st: "lf_status r' = ''RELEASED''"
      and v2: "view db2 = (view db1)((t, a, lf_asset r) := spec_release (amt (lf_amount r)) (view db1 (t, a, lf_asset r)))"
    have "r = row" using freeze_moved_row(6) [OF m] sel by simp
    then have "view db2 = view db" using v2 row asset by (simp add: v fun_upd_idem)
    then show ?thesis using rel freeze_moved_row(7) [OF m] st by blast
  next
    fix r assume "select_row (lf_at (t, ord)) (ledger_freezes db1) = Some r" "lf_status r = ''RELEASED''"
    then show ?thesis using sel row by simp
  qed
qed

lemma freeze_then_confirm:
  assumes ok: "ledger_ok db" and new: "select_row (lf_at (t, ord)) (ledger_freezes db) = None"
    and run: "FreezeWithdraw now t a ord chain net asset amount req db = Inr db1"
  shows "\<exists>db2 row. ConfirmWithdraw now' t a ord h db1 = Inr db2 \<and>
           view db2 = (view db)((t, a, asset) := spec_freeze (amt amount) (view db (t, a, asset))) \<and>
           select_row (lf_at (t, ord)) (ledger_freezes db2) = Some row \<and>
           lf_status row = ''BROADCASTED'' \<and> lf_tx_hash row = h"
proof -
  have wfb: "wf_balances (ledger_balances db)" using ok by (simp add: ledger_ok_def wf_ledger_def)
  obtain row where frz: "ledger_freezes db1 = ledger_freezes db @ [row]"
    and row: "lf_key row = (t, ord)" "lf_status row = ''FROZEN''"
    and v: "view db1 = (view db)((t, a, asset) := spec_freeze (amt amount) (view db (t, a, asset)))"
    using freezeWithdrawTx_effect [OF wfb run [unfolded FreezeWithdraw_def]] new by (metis option.distinct(1))
  have sel: "select_row (lf_at (t, ord)) (ledger_freezes db1) = Some row"
    using new row(1) by (simp add: frz freezes.select_append_at)
  then obtain db2 where cf: "ConfirmWithdraw now' t a ord h db1 = Inr db2"
    using row by (simp add: ConfirmWithdraw_def Let_def)
  show ?thesis
  proof (rule ConfirmWithdraw_effect [OF cf])
    fix r assume "select_row (lf_at (t, ord)) (ledger_freezes db1) = Some r"
      "lf_status r = ''BROADCASTED'' \<or> lf_status r = ''CONFIRMED''"
    then show ?thesis using sel row by simp
  next
    fix r r'
    assume "freeze_moved db1 db2 (t, ord) r r'" "lf_status r' = ''BROADCASTED''" "lf_tx_hash r' = h"
      "ledger_balances db2 = ledger_balances db1"
    then show ?thesis using cf v freeze_moved_row(7) by auto
  qed
qed


section \<open>Steps and reachable states\<close>

inductive ledger_step :: "ledger_db \<Rightarrow> ledger_db \<Rightarrow> bool" where
  FreezeWithdraw: "FreezeWithdraw now t a ord chain net asset amount req db = Inr db' \<Longrightarrow> ledger_step db db'"
| QueueWithdraw: "QueueWithdraw now inp db = Inr db' \<Longrightarrow> ledger_step db db'"
| ClaimQueued: "ClaimQueuedWithdraws now locked limit db = (db', out) \<Longrightarrow> ledger_step db db'"
| MarkDone: "MarkQueuedWithdrawDone now t ord h u db = Inr db' \<Longrightarrow> ledger_step db db'"
| Reschedule: "RescheduleQueuedWithdraw now t ord reason delay db = Inr db' \<Longrightarrow> ledger_step db db'"
| MarkFailed: "MarkQueuedWithdrawFailed now t ord reason db = Inr db' \<Longrightarrow> ledger_step db db'"
| ClaimStale: "ClaimStaleBroadcastedWithdraws now locked limit age reps db = (db', out) \<Longrightarrow> ledger_step db db'"
| Replace: "ReplaceBroadcastedWithdraw now t ord h h' u db = Inr db' \<Longrightarrow> ledger_step db db'"
| Reset: "ResetBroadcastedWithdraw now t ord reason db = Inr db' \<Longrightarrow> ledger_step db db'"
| ConfirmWithdraw: "ConfirmWithdraw now t a ord h db = Inr db' \<Longrightarrow> ledger_step db db'"
| ConfirmOnChain: "ConfirmWithdrawOnChain now t ord h confs req db = Inr db' \<Longrightarrow> ledger_step db db'"
| FailOnChain: "FailWithdrawOnChain now t ord h reason confs db = Inr db' \<Longrightarrow> ledger_step db db'"
| Release: "owns_freeze t a ord db \<Longrightarrow> ReleaseWithdraw now t a ord reason db = Inr db' \<Longrightarrow> ledger_step db db'"
| CreditDeposit: "deposit_consistent di db \<Longrightarrow> CreditDeposit now di db = Inr db' \<Longrightarrow> ledger_step db db'"
| ReserveSweep: "ReserveSweep now si db = Inr db' \<Longrightarrow> ledger_step db db'"
| StartSweep: "\<not> sweep_settled (sc_TenantID sc) (sc_SweepOrderID sc) db \<Longrightarrow> StartSweep now sc db = Inr db' \<Longrightarrow>
    ledger_step db db'"
| ConfirmSweep: "ConfirmSweepOnChain now sf db = Inr db' \<Longrightarrow> ledger_step db db'"
| FailSweep: "FailSweepOnChain now t ord reason confs db = Inr db' \<Longrightarrow> ledger_step db db'"
| ReserveTransfer: "ReserveTreasuryTransfer now ti db = Inr db' \<Longrightarrow> ledger_step db db'"
| BroadcastTransfer: "MarkTreasuryTransferBroadcasted now t ord h req db = Inr db' \<Longrightarrow> ledger_step db db'"
| ConfirmTransfer: "ConfirmTreasuryTransferOnChain now tc db = Inr db' \<Longrightarrow> ledger_step db db'"
| FailTransfer: "FailTreasuryTransferOnChain now t ord reason confs db = Inr db' \<Longrightarrow> ledger_step db db'"

inductive reachable :: "ledger_db \<Rightarrow> bool" where
  init: "reachable empty_db"
| step: "reachable db \<Longrightarrow> ledger_step db db' \<Longrightarrow> reachable db'"

lemma frame_ok:
  assumes "same_withdraw_side db db' \<and> same_vault_side db db'" and "ledger_ok db" "vault_ok db"
  shows "ledger_ok db' \<and> vault_ok db'"
  using assms same_withdraw_sideD same_vault_sideD unfolding ledger_ok_def vault_ok_def by blast

lemma withdraw_side_ok:
  assumes "ledger_ok db' \<and> same_vault_side db db'" and "vault_ok db"
  shows "ledger_ok db' \<and> vault_ok db'"
  using assms same_vault_sideD unfolding vault_ok_def by blast

lemma vault_side_ok:
  assumes "same_withdraw_side db db'" and "vault_ok db'" and "ledger_ok db"
  shows "ledger_ok db' \<and> vault_ok db'"
  using assms same_withdraw_sideD unfolding ledger_ok_def by blast

lemma ledger_step_ok:
  assumes "ledger_step db db'" and "ledger_ok db" and "vault_ok db"
  shows "ledger_ok db' \<and> vault_ok db'"
  using assms
proof (cases rule: ledger_step.cases)
  case FreezeWithdraw
  then show ?thesis using freezeWithdrawTx_ok [OF assms(2)] withdraw_side_ok assms(3)
    by (metis FreezeWithdraw_def)
next
  case QueueWithdraw then show ?thesis using QueueWithdraw_ok withdraw_side_ok assms by blast
next
  case ClaimQueued then show ?thesis using queue_ops_frame(1) frame_ok assms by blast
next
  case MarkDone then show ?thesis using queue_ops_frame(3) frame_ok assms by blast
next
  case Reschedule then show ?thesis using queue_ops_frame(4) frame_ok assms by blast
next
  case MarkFailed then show ?thesis using queue_ops_frame(5) frame_ok assms by blast
next
  case ClaimStale then show ?thesis using queue_ops_frame(2) frame_ok assms by blast
next
  case Replace then show ?thesis using ReplaceBroadcastedWithdraw_ok withdraw_side_ok assms by blast
next
  case Reset then show ?thesis using queue_ops_frame(6) frame_ok assms by blast
next
  case ConfirmWithdraw then show ?thesis using ConfirmWithdraw_ok withdraw_side_ok assms by blast
next
  case ConfirmOnChain then show ?thesis using ConfirmWithdrawOnChain_ok withdraw_side_ok assms by blast
next
  case FailOnChain then show ?thesis using FailWithdrawOnChain_ok withdraw_side_ok assms by blast
next
  case Release then show ?thesis using ReleaseWithdraw_ok withdraw_side_ok assms by blast
next
  case CreditDeposit then show ?thesis using CreditDeposit_ok withdraw_side_ok assms by blast
next
  case ReserveSweep then show ?thesis using ReserveSweep_ok vault_ops_frame(1) vault_side_ok assms by blast
next
  case StartSweep then show ?thesis using StartSweep_ok vault_ops_frame(2) vault_side_ok assms by blast
next
  case ConfirmSweep then show ?thesis using ConfirmSweepOnChain_ok vault_ops_frame(3) vault_side_ok assms by blast
next
  case FailSweep then show ?thesis using FailSweepOnChain_ok vault_ops_frame(4) vault_side_ok assms by blast
next
  case ReserveTransfer then show ?thesis using ReserveTreasuryTransfer_ok vault_ops_frame(5) vault_side_ok assms by blast
next
  case BroadcastTransfer
  then show ?thesis using MarkTreasuryTransferBroadcasted_ok vault_ops_frame(6) vault_side_ok assms by blast
next
  case ConfirmTransfer
  then show ?thesis using ConfirmTreasuryTransferOnChain_ok vault_ops_frame(7) vault_side_ok assms by blast
next
  case FailTransfer
  then show ?thesis using FailTreasuryTransferOnChain_ok vault_ops_frame(8) vault_side_ok assms by blast
qed

lemma reachable_ok: "reachable db \<Longrightarrow> ledger_ok db \<and> vault_ok db"
  by (induction rule: reachable.induct)
     (auto simp: ledger_ok_def vault_ok_def dest!: ledger_step_ok)


section \<open>The life cycle of a withdrawal\<close>

definition withdraw_next :: "string \<Rightarrow> string \<Rightarrow> bool" where
  "withdraw_next s s' \<longleftrightarrow> s' = s \<or>
     s = ''FROZEN'' \<and> s' \<in> {''BROADCASTED'', ''CONFIRMED'', ''RELEASED''} \<or>
     s = ''BROADCASTED'' \<and> s' \<in> {''CONFIRMED'', ''RELEASED''}"

definition freezes_progress :: "ledger_db \<Rightarrow> ledger_db \<Rightarrow> bool" where
  "freezes_progress db db' \<longleftrightarrow>
     (\<forall>k row. select_row (lf_at k) (ledger_freezes db) = Some row \<longrightarrow>
        (\<exists>row'. select_row (lf_at k) (ledger_freezes db') = Some row' \<and>
           lf_account_key row' = lf_account_key row \<and> lf_amount row' = lf_amount row \<and>
           withdraw_next (lf_status row) (lf_status row')))"

lemma progress_same: "ledger_freezes db' = ledger_freezes db \<Longrightarrow> freezes_progress db db'"
  by (simp add: freezes_progress_def withdraw_next_def)

lemma progress_append: "ledger_freezes db' = ledger_freezes db @ [row] \<Longrightarrow> freezes_progress db db'"
  by (simp add: freezes_progress_def withdraw_next_def select_row_append)

lemma progress_moved:
  assumes m: "freeze_moved db db' k row row'" and st: "withdraw_next (lf_status row) (lf_status row')"
  shows "freezes_progress db db'"
  unfolding freezes_progress_def
proof (intro allI impI)
  fix j r
  assume "select_row (lf_at j) (ledger_freezes db) = Some r"
  then show "\<exists>r'. select_row (lf_at j) (ledger_freezes db') = Some r' \<and>
           lf_account_key r' = lf_account_key r \<and> lf_amount r' = lf_amount r \<and>
           withdraw_next (lf_status r) (lf_status r')"
    using freeze_moved_row [OF m] freeze_moved_other [OF m, of j] st
    by (cases "j = k") (auto simp: withdraw_next_def)
qed

lemma freezeWithdrawTx_progress:
  assumes "wf_balances (ledger_balances db)"
    and "freezeWithdrawTx now t a ord chain net asset amount req db = Inr db'"
  shows "freezes_progress db db'"
  by (rule freezeWithdrawTx_effect [OF assms]) (auto intro: progress_same progress_append)

lemma open_next: "open_status s \<Longrightarrow> s' \<in> {''BROADCASTED'', ''CONFIRMED'', ''RELEASED''} \<Longrightarrow> withdraw_next s s'"
  by (auto simp: open_status_def withdraw_next_def)

lemma ledger_step_progress:
  assumes st: "ledger_step db db'" and ok: "ledger_ok db"
  shows "freezes_progress db db'"
proof -
  have wfb: "wf_balances (ledger_balances db)" and wff: "wf_freezes (ledger_freezes db)"
    using ok by (simp_all add: ledger_ok_def wf_ledger_def)
  have frame: "same_withdraw_side db db' \<Longrightarrow> freezes_progress db db'"
    by (rule progress_same) (simp add: same_withdraw_side_def)
  from st show ?thesis
  proof (cases rule: ledger_step.cases)
    case FreezeWithdraw
    then show ?thesis using freezeWithdrawTx_progress [OF wfb] by (metis FreezeWithdraw_def)
  next
    case (QueueWithdraw now inp)
    then obtain db1 where 1: "freezeWithdrawTx now (wq_TenantID inp) (wq_AccountID inp) (wq_OrderID inp)
       (bp_Chain (wq_Tx inp)) (bp_Network (wq_Tx inp)) (bp_Coin (wq_Tx inp)) (bp_Amount (wq_Tx inp))
       (wq_RequiredConfs inp) db = Inr db1" "same_withdraw_side db1 db'"
      using QueueWithdraw_effect by metis
    from freezeWithdrawTx_progress [OF wfb 1(1)] 1(2) show ?thesis
      by (simp add: freezes_progress_def same_withdraw_side_def)
  next
    case (Replace now t ord h h' u)
    let ?F = "\<lambda>r. if lf_status r = ''BROADCASTED'' then r\<lparr>lf_tx_hash := h', lf_updated_at := now\<rparr> else r"
    have frz: "ledger_freezes db' = update_where (lf_at (t, ord)) ?F (ledger_freezes db)"
      using Replace
      by (auto simp: ReplaceBroadcastedWithdraw_def Let_def ledger_stmt update_where_conj split: if_splits)
    show ?thesis
    proof (cases "select_row (lf_at (t, ord)) (ledger_freezes db)")
      case None
      then show ?thesis using frz by (simp add: progress_same update_where_none)
    next
      case (Some row)
      have "keeps_freeze ?F" by (simp add: keeps_freeze_def lf_key_def lf_account_key_def)
      then have m: "freeze_moved db db' (t, ord) row (?F row)"
        using frz by (intro freeze_movedI [OF Some, of ?F]) auto
      then show ?thesis by (rule progress_moved) (simp add: withdraw_next_def)
    qed
  next
    case ConfirmWithdraw
    then show ?thesis
      by (elim ConfirmWithdraw_effect) (auto intro: progress_same progress_moved simp: withdraw_next_def)
  next
    case ConfirmOnChain
    then show ?thesis
      by (elim ConfirmWithdrawOnChain_effect [OF wfb])
         (auto intro!: progress_moved simp: open_next withdraw_next_def [of "''CONFIRMED''"])
  next
    case (FailOnChain now t ord h reason confs)
    show ?thesis
    proof (rule FailWithdrawOnChain_effect [OF wfb FailOnChain])
      fix row row'
      assume m: "freeze_moved db db' (t, ord) row row'"
        and s: "lf_status row \<noteq> ''CONFIRMED''" "lf_status row \<noteq> ''RELEASED''" "lf_status row' = ''RELEASED''"
      have "open_status (lf_status row)"
        using s freeze_moved_row(3) [OF m] wff by (auto simp: wf_freezes_def open_status_def)
      then show ?thesis using progress_moved [OF m] open_next s by simp
    qed (rule frame)
  next
    case Release
    show ?thesis
      by (rule ReleaseWithdraw_effect [OF wfb Release(2)]) (auto intro: progress_same progress_moved simp: open_next)
  next
    case (CreditDeposit di now)
    obtain ost oc ou where "old_deposit (select_row (de_at (di_TenantID di, di_OrderID di)) (deposit_events db)) = (ost, oc, ou)"
      by (metis prod_cases3)
    from CreditDeposit_effect [OF wfb CreditDeposit(2) refl this refl]
    have "ledger_freezes db' = ledger_freezes db" by metis
    then show ?thesis by (rule progress_same)
  qed (auto intro!: frame dest: queue_ops_frame vault_ops_frame)
qed

end
