(* ===== verification/Ledger_Theorems.thy ===== *)
theory Ledger_Theorems
  imports Ledger_Machine
begin

text \<open>
  The properties of the ledger: conservation of balances over every reachable state, no
  overdraft, the life cycle of a withdrawal, settlement, deposits under repeated and
  reordered notifications, the queue's mutual exclusion, and the places where the code
  leaves an obligation to its caller or can block an account.
\<close>

section \<open>Sample data\<close>

definition sample_deposit :: "string \<Rightarrow> string \<Rightarrow> string \<Rightarrow> deposit_credit_input" where
  "sample_deposit order amount status =
     \<lparr>di_TenantID = ''t'', di_AccountID = ''alice'', di_OrderID = order, di_Chain = ''ethereum'',
      di_Network = ''mainnet'', di_Coin = ''ETH'', di_Amount = amount, di_TxHash = ''0x1'',
      di_FromAddress = ''x'', di_ToAddress = ''y'', di_Confirmations = 0, di_RequiredConfs = 1,
      di_UnlockConfs = 0, di_ScanStatus = status, di_Status = []\<rparr>"

definition sample_key :: account_key where "sample_key = (''t'', ''alice'', ''ETH'')"


definition get_ok :: "ledger_db result \<Rightarrow> ledger_db" where
  "get_ok r = (case r of Inr db \<Rightarrow> db | Inl _ \<Rightarrow> empty_db)"

lemma get_ok_eq: "is_ok r \<Longrightarrow> r = Inr (get_ok r)"
  by (cases r) (simp_all add: get_ok_def)

lemma evaluated:
  assumes "case r of Inl _ \<Rightarrow> False | Inr db \<Rightarrow> P db"
  shows "r = Inr (get_ok r)" "P (get_ok r)"
  using assms by (simp_all add: get_ok_def split: sum.splits)

definition sample_db1 :: ledger_db where
  "sample_db1 = get_ok (CreditDeposit 5 (sample_deposit ''d1'' ''100'' ''FINALIZED'') empty_db)"

definition sample_db2 :: ledger_db where
  "sample_db2 = get_ok (FreezeWithdraw 6 ''t'' ''alice'' ''w1'' ''ethereum'' ''mainnet'' ''ETH'' ''30'' 2 sample_db1)"

lemma sample_db1_step: "CreditDeposit 5 (sample_deposit ''d1'' ''100'' ''FINALIZED'') empty_db = Inr sample_db1"
  unfolding sample_db1_def by (rule get_ok_eq) code_simp

lemma sample_db2_step:
  "FreezeWithdraw 6 ''t'' ''alice'' ''w1'' ''ethereum'' ''mainnet'' ''ETH'' ''30'' 2 sample_db1 = Inr sample_db2"
  unfolding sample_db2_def by (rule get_ok_eq) code_simp

lemma sample_reachable: "reachable sample_db1" "reachable sample_db2"
proof -
  have "deposit_consistent (sample_deposit ''d1'' ''100'' ''FINALIZED'') empty_db" by code_simp
  then show 1: "reachable sample_db1"
    using reachable.step [OF reachable.init ledger_step.CreditDeposit] sample_db1_step by blast
  show "reachable sample_db2"
    using reachable.step [OF 1 ledger_step.FreezeWithdraw] sample_db2_step by blast
qed


section \<open>Conservation\<close>










section \<open>Freezing\<close>

text \<open>
  C3: No overdraft, in both directions. For an order that does not exist yet, a freeze
  commits exactly when the amount parses and is at most the withdrawable balance (available
  less locked, an account whose locked exceeds its available has none); it then moves the
  amount from available to frozen on that account and no other balance changes.
\<close>

theorem freeze_no_overdraft:
  assumes wf: "wf_ledger db" and new: "select_row (lf_at (t, ord)) (ledger_freezes db) = None"
    and args: "chain \<noteq> []" "net \<noteq> []" "asset \<noteq> []"
  shows "(is_ok (FreezeWithdraw now t a ord chain net asset amount req db) \<longleftrightarrow>
           valid_amt amount \<and>
           av_locked (view db (t, a, asset)) \<le> av_available (view db (t, a, asset)) \<and>
           amt amount \<le> av_available (view db (t, a, asset)) - av_locked (view db (t, a, asset))) \<and>
         (\<forall>db'. FreezeWithdraw now t a ord chain net asset amount req db = Inr db' \<longrightarrow>
           view db' = (view db)((t, a, asset) := spec_freeze (amt amount) (view db (t, a, asset))))"
    (is "(?ok \<longleftrightarrow> ?cond) \<and> ?eff")
proof (intro conjI allI impI)
  note wfb = wf_ledgerD(1) [OF wf]
  fix db' assume run: "FreezeWithdraw now t a ord chain net asset amount req db = Inr db'"
  show "view db' = (view db)((t, a, asset) := spec_freeze (amt amount) (view db (t, a, asset)))"
    by (rule freezeWithdrawTx_effect [OF wfb run [unfolded FreezeWithdraw_def]]) (use new in simp_all)
next
  note wfb = wf_ledgerD(1) [OF wf]
  have run: "?ok \<longleftrightarrow> is_ok (freezeWithdrawTx now t a ord chain net asset amount req db)"
    by (simp add: FreezeWithdraw_def)
  show "?ok \<longleftrightarrow> ?cond"
  proof (cases "getBalanceTx t a asset db")
    case (Inl e)
    then have "\<not> av_locked (view db (t, a, asset)) \<le> av_available (view db (t, a, asset))"
      using getBalanceTx_ok [OF wfb, of t a asset] by simp
    then show ?thesis using Inl args new by (simp add: run freezeWithdrawTx_def Let_def)
  next
    case (Inr b)
    note bal = getBalanceTx_Inr [OF wfb Inr]
    have le: "amt amount \<le> amt (bs_Available b) - amt (bs_WithdrawLocked b) \<Longrightarrow> amt amount \<le> amt (bs_Available b)"
      using amt_nonneg [of "bs_WithdrawLocked b"] by linarith
    show ?thesis
      using Inr args new bal le
      by (auto simp: FreezeWithdraw_def freezeWithdrawTx_def Let_def is_ok_iff decimal_Inr)
  qed
qed

theorem freeze_no_overdraft_witness:
  "wf_ledger sample_db1 \<and>
   \<not> is_ok (FreezeWithdraw 6 ''t'' ''alice'' ''w1'' ''ethereum'' ''mainnet'' ''ETH'' ''101'' 2 sample_db1) \<and>
   is_ok (FreezeWithdraw 6 ''t'' ''alice'' ''w1'' ''ethereum'' ''mainnet'' ''ETH'' ''100'' 2 sample_db1)"
proof -
  have wf: "wf_ledger sample_db1" using reachable_ok [OF sample_reachable(1)] by (simp add: ledger_ok_def)
  have new: "select_row (lf_at (''t'', ''w1'')) (ledger_freezes sample_db1) = None" by code_simp
  note F = freeze_no_overdraft [OF wf new, of "''ethereum''" "''mainnet''" "''ETH''" 6 "''alice''" _ 2]
  have "av_locked (view sample_db1 (''t'', ''alice'', ''ETH'')) = 0"
    "av_available (view sample_db1 (''t'', ''alice'', ''ETH'')) = 100" "valid_amt ''100''"
    "amt ''100'' = 100" "amt ''101'' = 101" by code_simp+
  then show ?thesis using F [of "''101''"] F [of "''100''"] wf by simp
qed

text \<open>
  \<open>QueueWithdraw\<close> is idempotent on the money: retrying a committed request commits
  again, and changes neither a balance nor a freeze.
\<close>

theorem queue_withdraw_idempotent:
  assumes wf: "wf_ledger db" and run: "QueueWithdraw now inp db = Inr db1"
  shows "\<exists>db2. QueueWithdraw now' inp db1 = Inr db2 \<and>
           ledger_balances db2 = ledger_balances db1 \<and> ledger_freezes db2 = ledger_freezes db1"
proof -
  let ?F = "\<lambda>now. freezeWithdrawTx now (wq_TenantID inp) (wq_AccountID inp) (wq_OrderID inp)
       (bp_Chain (wq_Tx inp)) (bp_Network (wq_Tx inp)) (bp_Coin (wq_Tx inp)) (bp_Amount (wq_Tx inp))
       (wq_RequiredConfs inp)"
  obtain db0 where 0: "?F now db = Inr db0" "same_withdraw_side db0 db1"
    using QueueWithdraw_effect [OF run] by metis
  have args: "bp_Coin (wq_Tx inp) \<noteq> []" "bp_Chain (wq_Tx inp) \<noteq> []" "bp_Network (wq_Tx inp) \<noteq> []"
    using 0(1) by (auto simp: freezeWithdrawTx_def split: if_splits)
  obtain row where row: "select_row (lf_at (wq_TenantID inp, wq_OrderID inp)) (ledger_freezes db1) = Some row"
      "lf_status row \<in> {''FROZEN'', ''BROADCASTED'', ''CONFIRMED''}"
  proof (rule freezeWithdrawTx_effect [OF wf_ledgerD(1) [OF wf] 0(1)])
    fix row
    assume "select_row (lf_at (wq_TenantID inp, wq_OrderID inp)) (ledger_freezes db) = None"
      "ledger_freezes db0 = ledger_freezes db @ [row]" "lf_key row = (wq_TenantID inp, wq_OrderID inp)"
      "lf_status row = ''FROZEN''"
    then show thesis
      using 0(2) that by (simp add: same_withdraw_side_def freezes.select_append_at)
  qed (use 0(2) that in \<open>simp add: same_withdraw_side_def\<close>)
  have "?F now' db1 = Inr db1" using row args by (auto simp: freezeWithdrawTx_def Let_def)
  then show ?thesis by (auto simp: QueueWithdraw_def Let_def)
qed

definition sample_queue :: withdraw_queue_input where
  "sample_queue = \<lparr>wq_TenantID = ''t'', wq_AccountID = ''alice'', wq_OrderID = ''w1'', wq_RequiredConfs = 2,
     wq_Signers = [\<lparr>sr_KeyID = ''k'', sr_PublicKey = ''p''\<rparr>], wq_SignType = ''ecdsa'',
     wq_Tx = \<lparr>bp_Chain = ''ethereum'', bp_Network = ''mainnet'', bp_Coin = ''ETH'', bp_From = ''0xA'',
       bp_To = ''0xB'', bp_Amount = ''30'', bp_Base64Tx = [], bp_ContractAddress = [], bp_AmountUnit = [],
       bp_TokenDecimals = 18, bp_Fee = [], bp_Vin = [], bp_Vout = []\<rparr>\<rparr>"

definition sample_queue_db :: ledger_db where
  "sample_queue_db = get_ok (QueueWithdraw 6 sample_queue sample_db1)"

lemma sample_queue_step: "QueueWithdraw 6 sample_queue sample_db1 = Inr sample_queue_db"
  unfolding sample_queue_db_def by (rule get_ok_eq) code_simp

text \<open>
  C4: Freezing and then releasing a fresh order by its own account is a round trip: every
  balance is as before, the release always commits, and the order is closed.
\<close>

theorem freeze_release_roundtrip:
  assumes "ledger_ok db" and "select_row (lf_at (t, ord)) (ledger_freezes db) = None"
    and "FreezeWithdraw now t a ord chain net asset amount req db = Inr db1"
  shows "\<exists>db2 row. ReleaseWithdraw now' t a ord reason db1 = Inr db2 \<and> view db2 = view db \<and>
           select_row (lf_at (t, ord)) (ledger_freezes db2) = Some row \<and> lf_status row = ''RELEASED''"
  by (rule freeze_then_release [OF assms])

theorem freeze_release_roundtrip_witness:
  "ledger_ok sample_db1 \<and> (\<exists>db2. ReleaseWithdraw 9 ''t'' ''alice'' ''w1'' ''rejected'' sample_db2 = Inr db2 \<and>
     view db2 = view sample_db1)"
proof -
  have ok: "ledger_ok sample_db1" using reachable_ok [OF sample_reachable(1)] by blast
  have new: "select_row (lf_at (''t'', ''w1'')) (ledger_freezes sample_db1) = None" by code_simp
  show ?thesis
    using freeze_release_roundtrip [OF ok new sample_db2_step, of 9 "''rejected''"] ok by blast
qed


section \<open>Settlement\<close>

lemma open_withdrawal_settles:
  assumes r: "reachable db" and sel: "select_row (lf_at (t, ord)) (ledger_freezes db) = Some row"
    and op: "open_status (lf_status row)" and confs: "0 < req" "req \<le> confs"
    and le: "av_locked (view db (lf_account_key row)) \<le> av_available (view db (lf_account_key row))"
  shows "\<exists>db' row'. ConfirmWithdrawOnChain now t ord h confs req db = Inr db' \<and>
           select_row (lf_at (t, ord)) (ledger_freezes db') = Some row' \<and> lf_status row' = ''CONFIRMED'' \<and>
           view db' = (view db)(lf_account_key row :=
             spec_settle (amt (lf_amount row)) (view db (lf_account_key row)))"
proof -
  have ok: "ledger_ok db" using reachable_ok [OF r] by blast
  then have wfb: "wf_balances (ledger_balances db)" by (simp add: ledger_ok_def wf_ledger_def)
  have k: "lf_account_key row = (t, lf_account row, lf_asset row)"
    using freezes.selected_key [OF sel] by (simp add: lf_account_key_def lf_key_def)
  obtain db' where run: "ConfirmWithdrawOnChain now t ord h confs req db = Inr db'"
    using ConfirmWithdrawOnChain_commits [OF wfb sel op, of now h confs req] open_freeze_covered [OF ok sel op] le k
    by (auto simp: is_ok_iff)
  have settled: "select_row (lf_at (t, ord)) (ledger_freezes db') = Some row' \<Longrightarrow> lf_status row' \<noteq> ''BROADCASTED''" for row'
    using run sel op confs
    by (auto simp: ConfirmWithdrawOnChain_def withdraw_unfold open_status_def freezes.select_update_at lf_key_def
        split: if_splits)
  show ?thesis
  proof (rule ConfirmWithdrawOnChain_effect [OF wfb run])
    fix r r'
    assume m: "freeze_moved db db' (t, ord) r r'"
      and "lf_status r = ''CONFIRMED'' \<and> lf_status r' = ''CONFIRMED'' \<or> open_status (lf_status r) \<and> lf_status r' = ''BROADCASTED''"
    then show ?thesis using settled [OF freeze_moved_row(7) [OF m]] freeze_moved_row(6) [OF m] sel op
      by (auto simp: open_status_def)
  next
    fix r r'
    assume m: "freeze_moved db db' (t, ord) r r'" and st: "lf_status r' = ''CONFIRMED''"
      and v: "view db' = (view db)((t, lf_account r, lf_asset r) := spec_settle (amt (lf_amount r)) (view db (t, lf_account r, lf_asset r)))"
    have "r = row" using freeze_moved_row(6) [OF m] sel by simp
    then show ?thesis using run freeze_moved_row(7) [OF m] st v k by auto
  qed
qed

text \<open>
  Settlement goes through. In every reachable state, for an open withdrawal of an
  account whose locked balance does not exceed its available balance, a report with enough
  confirmations commits, marks the order \<open>CONFIRMED\<close> and takes the amount out of the frozen
  balance, and nothing else.
\<close>

theorem confirm_on_chain_settles:
  assumes r: "reachable db" and sel: "select_row (lf_at (t, ord)) (ledger_freezes db) = Some row"
    and op: "open_status (lf_status row)" and confs: "0 < req" "req \<le> confs"
    and le: "av_locked (view db (lf_account_key row)) \<le> av_available (view db (lf_account_key row))"
  shows "\<exists>db' row'. ConfirmWithdrawOnChain now t ord h confs req db = Inr db' \<and>
           select_row (lf_at (t, ord)) (ledger_freezes db') = Some row' \<and> lf_status row' = ''CONFIRMED'' \<and>
           view db' = (view db)(lf_account_key row :=
             spec_settle (amt (lf_amount row)) (view db (lf_account_key row)))"
  by (rule open_withdrawal_settles [OF assms])

text \<open>
  C5: The life cycle of a withdrawal. Along any sequence of operations from a reachable
  state, an order never disappears, its account, asset and amount never change, and its
  status only moves forward: \<open>FROZEN\<close> to \<open>BROADCASTED\<close>, \<open>CONFIRMED\<close> or \<open>RELEASED\<close>,
  \<open>BROADCASTED\<close> to \<open>CONFIRMED\<close> or \<open>RELEASED\<close>. A confirmed order is never released and a
  released one never confirmed.
\<close>

theorem withdraw_lifecycle:
  assumes r: "reachable db" and steps: "ledger_step\<^sup>*\<^sup>* db db'"
    and sel: "select_row (lf_at k) (ledger_freezes db) = Some row"
  shows "\<exists>row'. select_row (lf_at k) (ledger_freezes db') = Some row' \<and>
           lf_account_key row' = lf_account_key row \<and> lf_amount row' = lf_amount row \<and>
           withdraw_next (lf_status row) (lf_status row')"
  using steps
proof (induction rule: rtranclp_induct)
  case base
  show ?case using sel by (simp add: withdraw_next_def)
next
  case (step y z)
  have "reachable y" using step(1) by (induction rule: rtranclp_induct) (auto intro: r reachable.step)
  then have "freezes_progress y z" using ledger_step_progress [OF step(2)] reachable_ok by blast
  moreover obtain row1 where 1: "select_row (lf_at k) (ledger_freezes y) = Some row1"
      "lf_account_key row1 = lf_account_key row" "lf_amount row1 = lf_amount row"
      "withdraw_next (lf_status row) (lf_status row1)"
    using step.IH by blast
  ultimately obtain row2 where 2: "select_row (lf_at k) (ledger_freezes z) = Some row2"
      "lf_account_key row2 = lf_account_key row1"
      "lf_amount row2 = lf_amount row1" "withdraw_next (lf_status row1) (lf_status row2)"
    unfolding freezes_progress_def by blast
  have "withdraw_next (lf_status row) (lf_status row2)" using 1(4) 2(4) by (auto simp: withdraw_next_def)
  with 1 2 show ?case by auto
qed

theorem withdraw_lifecycle_witness:
  "\<exists>row row'. select_row (lf_at (''t'', ''w1'')) (ledger_freezes sample_db2) = Some row \<and>
     select_row (lf_at (''t'', ''w1'')) (ledger_freezes (get_ok (ConfirmWithdraw 7 ''t'' ''alice'' ''w1'' ''0x3'' sample_db2))) = Some row' \<and>
     lf_status row = ''FROZEN'' \<and> lf_status row' = ''BROADCASTED'' \<and> withdraw_next (lf_status row) (lf_status row')"
proof -
  let ?db = "get_ok (ConfirmWithdraw 7 ''t'' ''alice'' ''w1'' ''0x3'' sample_db2)"
  have "case ConfirmWithdraw 7 ''t'' ''alice'' ''w1'' ''0x3'' sample_db2 of Inl _ \<Rightarrow> False
     | Inr db \<Rightarrow> map_option lf_status (select_row (lf_at (''t'', ''w1'')) (ledger_freezes db)) = Some ''BROADCASTED''"
    by code_simp
  note e = evaluated [OF this]
  have st: "ledger_step\<^sup>*\<^sup>* sample_db2 ?db" using e(1) by (intro r_into_rtranclp ledger_step.ConfirmWithdraw)
  have "map_option lf_status (select_row (lf_at (''t'', ''w1'')) (ledger_freezes sample_db2)) = Some ''FROZEN''" by code_simp
  then obtain row where sel: "select_row (lf_at (''t'', ''w1'')) (ledger_freezes sample_db2) = Some row"
    "lf_status row = ''FROZEN''" by blast
  note e(2)
  moreover obtain row' where "select_row (lf_at (''t'', ''w1'')) (ledger_freezes ?db) = Some row'"
      "withdraw_next (lf_status row) (lf_status row')"
    using withdraw_lifecycle [OF sample_reachable(2) st sel(1)] by blast
  ultimately show ?thesis using sel by (intro exI [of _ row] exI [of _ row']) simp
qed


section \<open>Deposits\<close>

text \<open>
  C6: \<open>CreditDeposit\<close> refines the abstract deposit transition. A committed notification
  drives the order to the maximum of its stored stage and the notified stage in the chain
  pending, confirmed, finalised, reverted; the account moves by \<open>spec_deposit\<close> (credit once,
  unlock once, take back on a reversal), and no other account, freeze or vault changes.
\<close>

theorem credit_deposit_refines:
  assumes wf: "wf_ledger db" and run: "CreditDeposit now inp db = Inr db'"
    and old: "old_deposit (select_row (de_at (di_TenantID inp, di_OrderID inp)) (deposit_events db)) = (ost, oc, ou)"
  shows "\<exists>d. select_row (de_at (di_TenantID inp, di_OrderID inp)) (deposit_events db') = Some d \<and>
           de_status d = stage_name (max (stage_of ost) (target_stage inp)) \<and>
           (view db' (deposit_account inp), de_credited d, de_unlocked d) =
             spec_deposit oc ou (max (stage_of ost) (target_stage inp)) (amt (di_Amount inp)) (view db (deposit_account inp)) \<and>
           (\<forall>k. k \<noteq> deposit_account inp \<longrightarrow> view db' k = view db k) \<and>
           ledger_freezes db' = ledger_freezes db \<and> same_vault_side db db'"
proof -
  let ?k = "(di_TenantID inp, di_OrderID inp)" and ?a = "deposit_account inp" and ?n = "amt (di_Amount inp)"
  define o0 where "o0 = select_row (de_at ?k) (deposit_events db)"
  let ?m = "deposit_stage_after inp o0"
  have m: "?m = max (stage_of ost) (target_stage inp)"
    using old by (simp add: deposit_stage_after_def target_stage_def o0_def)
  let ?f = "\<lambda>r. update_deposit_event now inp (stage_name ?m) (de_credited r) (de_unlocked r)"
  obtain r where r: "r = ?f r (deposit_row0 now inp o0)"
    and fl: "(de_credited r, de_unlocked r) = snd (spec_deposit oc ou ?m ?n (view db ?a))"
    and ev: "deposit_events db' = (case o0 of None \<Rightarrow> deposit_events db @ [r]
        | Some _ \<Rightarrow> update_where (de_at ?k) (?f r) (deposit_events db))"
    and v: "view db' = (view db)(?a := fst (spec_deposit oc ou ?m ?n (view db ?a)))"
    and rest: "ledger_freezes db' = ledger_freezes db" "same_vault_side db db'"
    using CreditDeposit_effect [OF wf_ledgerD(1) [OF wf] run o0_def old [folded o0_def] refl] by metis
  have sel: "select_row (de_at ?k) (deposit_events db') = Some r"
    by (rule credit_deposit_row [OF o0_def r ev])
  have "de_status r = stage_name ?m" using arg_cong [OF r, of de_status] by simp
  then show ?thesis
    using sel fl v rest by (intro exI [of _ r]) (simp add: m prod_eq_iff)
qed

theorem credit_deposit_refines_witness:
  "wf_ledger empty_db \<and> view sample_db1 sample_key = \<lparr>av_available = 100, av_frozen = 0, av_locked = 0\<rparr> \<and>
   (\<exists>d. select_row (de_at (''t'', ''d1'')) (deposit_events sample_db1) = Some d \<and> de_status d = ''FINALIZED'' \<and> de_credited d)"
proof -
  let ?x = "sample_deposit ''d1'' ''100'' ''FINALIZED''"
  have old: "old_deposit (select_row (de_at (di_TenantID ?x, di_OrderID ?x)) (deposit_events empty_db)) = ([], False, False)"
    by code_simp
  have c: "(di_TenantID ?x, di_OrderID ?x) = (''t'', ''d1'')" "deposit_account ?x = sample_key"
    "stage_name (max (stage_of []) (target_stage ?x)) = ''FINALIZED''"
    "spec_deposit False False (max (stage_of []) (target_stage ?x)) (amt (di_Amount ?x)) (view empty_db sample_key) =
       (\<lparr>av_available = 100, av_frozen = 0, av_locked = 0\<rparr>, True, True)"
    by code_simp+
  show ?thesis
    using credit_deposit_refines [OF empty_db_balanced(2) sample_db1_step old, unfolded c]
    by (auto simp: prod_eq_iff)
qed

text \<open>
  C7: The order and the number of notifications of a deposit do not matter. Two sequences
  of notifications of one new deposit that drive it to the same set of stages (in
  particular a permutation, with repetitions) and both commit leave the same balances, and
  the same stage and flags of the order. The contribution to the account is
  \<open>deposit_effect\<close> of the highest stage notified.
\<close>

theorem deposit_order_irrelevant:
  assumes wf: "wf_ledger db" and new: "select_row (de_at (di_TenantID inp, di_OrderID inp)) (deposit_events db) = None"
    and xs: "\<forall>x\<in>set xs. same_deposit (snd x) inp" and ys: "\<forall>y\<in>set ys. same_deposit (snd y) inp"
    and stages: "(target_stage \<circ> snd) ` set xs = (target_stage \<circ> snd) ` set ys"
    and run: "notify_all xs db = Inr db1" "notify_all ys db = Inr db2"
  shows "view db1 = view db2 \<and> deposit_flags inp db1 = deposit_flags inp db2 \<and>
         view db1 (deposit_account inp) =
           deposit_effect (fold max (map (target_stage \<circ> snd) xs) Pending) (amt (di_Amount inp)) (view db (deposit_account inp))"
proof -
  let ?L = "\<lambda>zs. fold max (map (target_stage \<circ> snd) zs) Pending"
  have "deposit_at_stage db inp Pending db"
    using wf new by (simp add: deposit_at_stage_def wf_ledger_def deposit_effect_def)
  then have 1: "deposit_at_stage db inp (?L xs) db1" and 2: "deposit_at_stage db inp (?L ys) db2"
    using notify_all_stage xs ys run by blast+
  have "?L xs = Max (set (Pending # map (target_stage \<circ> snd) xs))" for xs :: "(int \<times> deposit_credit_input) list"
    by (rule Max.set_eq_fold [symmetric])
  then have L: "?L xs = ?L ys" using stages by simp
  have fl: "deposit_flags inp dbz = (s, s \<in> {Confirmed, Finalized}, s = Finalized)"
    if "deposit_at_stage db inp s dbz" for s dbz
    using that by (auto simp: deposit_at_stage_def deposit_flags_def split: option.splits)
  show ?thesis using 1 2 fl [OF 1] fl [OF 2] unfolding L by (simp add: deposit_at_stage_def)
qed

text \<open>Confirmed, then finalised; and finalised, then a late repeat of confirmed.\<close>

theorem deposit_order_irrelevant_witness:
  "\<exists>db1 db2. notify_all [(1, sample_deposit ''d1'' ''100'' ''CONFIRMED''), (2, sample_deposit ''d1'' ''100'' ''FINALIZED'')] empty_db = Inr db1 \<and>
     notify_all [(1, sample_deposit ''d1'' ''100'' ''FINALIZED''), (2, sample_deposit ''d1'' ''100'' ''CONFIRMED''),
       (3, sample_deposit ''d1'' ''100'' ''FINALIZED'')] empty_db = Inr db2 \<and>
     view db1 = view db2"
proof -
  let ?c = "sample_deposit ''d1'' ''100'' ''CONFIRMED''" and ?f = "sample_deposit ''d1'' ''100'' ''FINALIZED''"
  let ?xs = "[(1, ?c), (2, ?f)] :: (int \<times> deposit_credit_input) list"
  let ?ys = "[(1, ?f), (2, ?c), (3, ?f)] :: (int \<times> deposit_credit_input) list"
  have 1: "notify_all ?xs empty_db = Inr (get_ok (notify_all ?xs empty_db))"
    by (rule get_ok_eq) code_simp
  have 2: "notify_all ?ys empty_db = Inr (get_ok (notify_all ?ys empty_db))"
    by (rule get_ok_eq) code_simp
  have new: "select_row (de_at (di_TenantID ?f, di_OrderID ?f)) (deposit_events empty_db) = None" by code_simp
  have same: "same_deposit ?c ?f" "same_deposit ?f ?f" by code_simp+
  show ?thesis
    using deposit_order_irrelevant [OF empty_db_balanced(2) new _ _ _ 1 2] same 1 2 by auto
qed


section \<open>Accounts that stop working\<close>






section \<open>Obligations left to the callers\<close>

text \<open>
  \<open>ReleaseWithdraw\<close> trusts the account id of its caller. Called with an account that
  does not own the order and has enough frozen, it closes the order, gives the amount to the
  caller's account, leaves the owner's amount frozen for good, and breaks the accounting
  equation of both.
\<close>

theorem release_trusts_caller_account:
  assumes ok: "ledger_ok db" and sel: "select_row (lf_at (t, ord)) (ledger_freezes db) = Some row"
    and op: "open_status (lf_status row)" and other: "lf_account row \<noteq> a" and pos: "0 < amt (lf_amount row)"
    and run: "ReleaseWithdraw now t a ord reason db = Inr db'"
  shows "view db' (lf_account_key row) = view db (lf_account_key row) \<and>
         av_available (view db' (t, a, lf_asset row)) = av_available (view db (t, a, lf_asset row)) + amt (lf_amount row) \<and>
         \<not> balanced db'"
proof -
  have wfb: "wf_balances (ledger_balances db)" and wff: "wf_freezes (ledger_freezes db)"
    using ok by (simp_all add: ledger_ok_def wf_ledger_def)
  have k: "lf_account_key row = (t, lf_account row, lf_asset row)"
    using freezes.selected_key [OF sel] by (simp add: lf_account_key_def lf_key_def)
  show ?thesis
  proof (rule ReleaseWithdraw_effect [OF wfb run])
    fix r assume "select_row (lf_at (t, ord)) (ledger_freezes db) = Some r" "lf_status r = ''RELEASED''"
    then show ?thesis using sel op by (simp add: open_status_def)
  next
    fix r r'
    assume m: "freeze_moved db db' (t, ord) r r'" and st: "lf_status r' = ''RELEASED''"
      and v: "view db' = (view db)((t, a, lf_asset r) := spec_release (amt (lf_amount r)) (view db (t, a, lf_asset r)))"
    have r: "r = row" using freeze_moved_row(6) [OF m] sel by simp
    have same: "view db' (lf_account_key row) = view db (lf_account_key row)" using v r k other by simp
    have "av_frozen (view db (lf_account_key row)) = total (open_amount (lf_account_key row)) (ledger_freezes db)"
      using ok by (simp add: ledger_ok_def balanced_def expected_view_def)
    moreover have "total (open_amount (lf_account_key row)) (ledger_freezes db') =
        total (open_amount (lf_account_key row)) (ledger_freezes db) - amt (lf_amount row)"
      using freeze_moved_total [OF m wff] op st r by (simp add: open_amount_def open_status_def [of "''RELEASED''"])
    ultimately have "av_frozen (view db' (lf_account_key row)) \<noteq>
        av_frozen (expected_view (ledger_freezes db') (deposit_events db') (lf_account_key row))"
      using same pos by (simp add: expected_view_def)
    then have "\<not> balanced db'" by (auto simp: balanced_def)
    then show ?thesis using same v r by (simp add: spec_release_def)
  qed
qed

text \<open>
  \<open>StartSweep\<close> reopens a settled sweep: its upsert has no guard on \<open>DONE\<close>. A second
  \<open>StartSweep\<close> of a settled order commits, and the next confirmation credits the vault with
  the order's amount again.
\<close>

theorem restarted_sweep_credits_twice:
  assumes ok: "vault_ok db"
    and row: "select_row (so_at (sc_TenantID inp, sc_SweepOrderID inp)) (sweep_orders db) = Some row"
    and st: "so_status row = ''DONE''"
    and start: "StartSweep now inp db = Inr db1"
    and conf: "sf_TenantID cf = sc_TenantID inp" "sf_SweepOrderID cf = sc_SweepOrderID inp"
      "0 < sf_RequiredConfs cf" "sf_RequiredConfs cf \<le> sf_Confirmations cf"
    and run: "ConfirmSweepOnChain now' cf db1 = Inr db2"
  shows "vault db2 (so_account_key row) = vault db (so_account_key row) + amt (so_amount row)"
  using ok start
proof (cases rule: StartSweep_effect)
  case (fresh r)
  then show ?thesis using row by simp
next
  case (again r F)
  then have r: "r = row" using row by simp
  have v1: "vault_balances db1 = vault_balances db" using again by simp
  have "select_row (so_at (sf_TenantID cf, sf_SweepOrderID cf)) (sweep_orders db1) = Some (F row)"
    using again row conf by (simp add: sweeps.select_update_at)
  from ConfirmSweepOnChain_credits [OF _ run this, of "so_account_key row"] again r conf v1 vault_okD(1) [OF ok]
  show ?thesis by simp
qed

end
