(* ===== verification/Queue_Theorems.thy ===== *)
theory Queue_Theorems
  imports Ledger_Theorems
begin

text \<open>
  Properties of the withdraw queue: a claim takes at most one job per sender and at most as
  many as asked, overlapping claims at one moment are disjoint, and two gaps: claims at
  different moments can overlap on a sender, and a repeated request overwrites the payment
  of a job without touching what was frozen for it.
\<close>

text \<open>
  C9: \<open>ClaimQueuedWithdraws\<close> keeps at most one job per sender in processing, whatever
  other transactions hold. It returns at most \<open>limit\<close> jobs (10 when the limit is not
  positive), each of them of an order that is still frozen, queued and due or with an expired
  lease, and not locked by someone else.
\<close>

theorem claim_one_per_sender:
  assumes wf: "wf_jobs (withdraw_jobs db)" and one: "one_in_flight (withdraw_jobs db)"
    and claim: "ClaimQueuedWithdraws now locked limit db = (db', out)"
  shows "one_in_flight (withdraw_jobs db') \<and>
         length out \<le> nat (if limit \<le> 0 then 10 else limit) \<and>
         (\<forall>j\<in>set out. \<not> locked (job_ID j) \<and>
            (\<exists>r f. r \<in> set (withdraw_jobs db) \<and> j = job_of_row (start_processing now r) \<and>
               select_row (lf_at (wj_key r)) (ledger_freezes db) = Some f \<and> lf_status f = ''FROZEN'' \<and>
               (wj_status r = ''QUEUED'' \<and> wj_next_retry_at r \<le> now \<or>
                wj_status r = ''PROCESSING'' \<and> (\<exists>s. wj_started_at r = Some s \<and> s \<le> now - 30000))))"
proof (intro conjI ballI)
  show "one_in_flight (withdraw_jobs db')"
    by (rule ClaimQueuedWithdraws_one_in_flight [OF wf one claim])
  have dist: "distinct (map wj_id (withdraw_jobs db))" using wf by (simp add: wf_jobs_def)
  let ?ids = "queue_pick now locked limit db"
  have out: "out = map (\<lambda>r. job_of_row (start_processing now r)) (filter (\<lambda>r. wj_id r \<in> set ?ids) (withdraw_jobs db))"
    using claim by (auto simp: ClaimQueuedWithdraws_def claim_ids_def)
  have "length out = card (wj_id ` set (filter (\<lambda>r. wj_id r \<in> set ?ids) (withdraw_jobs db)))"
    using dist distinct_card [of "map wj_id (filter (\<lambda>r. wj_id r \<in> set ?ids) (withdraw_jobs db))"]
    by (simp add: out distinct_map_filter)
  also have "\<dots> \<le> card (set ?ids)" by (rule card_mono) auto
  also have "\<dots> \<le> nat (if limit \<le> 0 then 10 else limit)"
    using card_length [of ?ids] length_picked le_trans unfolding queue_pick_def by blast
  finally show "length out \<le> nat (if limit \<le> 0 then 10 else limit)" .
next
  fix j assume j: "j \<in> set out"
  obtain r where r: "r \<in> set (withdraw_jobs db)" "queue_eligible now db r" "\<not> locked (wj_id r)"
      "j = job_of_row (start_processing now r)"
    by (rule claimed_jobs [OF wf claim j])
  show "\<not> locked (job_ID j)" using r by (simp add: job_of_row_def)
  show "\<exists>r f. r \<in> set (withdraw_jobs db) \<and> j = job_of_row (start_processing now r) \<and>
          select_row (lf_at (wj_key r)) (ledger_freezes db) = Some f \<and> lf_status f = ''FROZEN'' \<and>
          (wj_status r = ''QUEUED'' \<and> wj_next_retry_at r \<le> now \<or>
           wj_status r = ''PROCESSING'' \<and> (\<exists>s. wj_started_at r = Some s \<and> s \<le> now - 30000))"
    using r by (intro exI [of _ r])
      (auto simp: queue_eligible_def withdrawJobLease_def wj_key_def split: option.splits)
qed

text \<open>Two queued orders of one sender.\<close>

definition sample_queue2 :: withdraw_queue_input where
  "sample_queue2 = sample_queue\<lparr>wq_OrderID := ''w2''\<rparr>"

definition sample_queue_db2 :: ledger_db where
  "sample_queue_db2 = get_ok (QueueWithdraw 7 sample_queue2 sample_queue_db)"

theorem claim_one_per_sender_witness:
  "one_in_flight (withdraw_jobs (fst (ClaimQueuedWithdraws 8 (\<lambda>_. False) 5 sample_queue_db2))) \<and>
   map job_OrderID (snd (ClaimQueuedWithdraws 8 (\<lambda>_. False) 5 sample_queue_db2)) = [''w1'']"
proof -
  let ?r = "ClaimQueuedWithdraws 8 (\<lambda>_. False) 5 sample_queue_db2"
  have "wf_jobs (withdraw_jobs sample_queue_db2)" "one_in_flight (withdraw_jobs sample_queue_db2)"
    by code_simp+
  from claim_one_per_sender [OF this, of 8 "\<lambda>_. False" 5 "fst ?r" "snd ?r"]
  have "one_in_flight (withdraw_jobs (fst ?r))" by simp
  moreover have "map job_OrderID (snd ?r) = [''w1'']" by code_simp
  ultimately show ?thesis by simp
qed

text \<open>
  Two claims that overlap (the second reads the same committed state while the first
  still holds its row locks) at the same instant take jobs of different senders.
\<close>

theorem overlapping_claims_take_different_senders:
  assumes wf: "wf_jobs (withdraw_jobs db)"
    and held: "\<And>i. i \<in> set (queue_pick now l1 n1 db) \<Longrightarrow> l2 i"
    and r: "r \<in> set (withdraw_jobs db)" "wj_id r \<in> set (queue_pick now l1 n1 db)"
    and s: "s \<in> set (withdraw_jobs db)" "wj_id s \<in> set (queue_pick now l2 n2 db)"
  shows "sender r \<noteq> sender s"
  by (rule overlapping_claims_disjoint [OF wf held r s])

text \<open>Order \<open>w1\<close> waits until 1007; \<open>w2\<close> of the same sender is due.\<close>

definition race_db :: ledger_db where
  "race_db = get_ok (RescheduleQueuedWithdraw 7 ''t'' ''w1'' ''timeout'' 1000 sample_queue_db2)"

lemma race_db_reachable: "reachable race_db"
proof -
  have "reachable sample_queue_db"
    using reachable.step [OF sample_reachable(1) ledger_step.QueueWithdraw] sample_queue_step by blast
  moreover have "QueueWithdraw 7 sample_queue2 sample_queue_db = Inr sample_queue_db2"
    unfolding sample_queue_db2_def by (rule get_ok_eq) code_simp
  ultimately have "reachable sample_queue_db2"
    using reachable.step ledger_step.QueueWithdraw by blast
  moreover have "RescheduleQueuedWithdraw 7 ''t'' ''w1'' ''timeout'' 1000 sample_queue_db2 = Inr race_db"
    unfolding race_db_def by (rule get_ok_eq) code_simp
  ultimately show ?thesis using reachable.step ledger_step.Reschedule by blast
qed

text \<open>
  At two different instants overlapping claims can take two jobs of one sender. An older
  job waits for its retry time when the first claim reads the queue; the second claim
  starts after that time, ranks the older job first and finds it unlocked, while the first
  has not committed. Both jobs end up in processing.
\<close>

theorem overlapping_claims_race:
  "\<exists>db now1 now2 locked. reachable db \<and> wf_jobs (withdraw_jobs db) \<and> one_in_flight (withdraw_jobs db) \<and> now1 < now2 \<and>
     list_all locked (queue_pick now1 (\<lambda>_. False) 1 db) \<and>
     \<not> one_in_flight (withdraw_jobs (fst (claim_ids (queue_pick now2 locked 1 db) (start_processing now2)
          (fst (ClaimQueuedWithdraws now1 (\<lambda>_. False) 1 db)))))"
proof -
  let ?l = "\<lambda>i. i = (2::int)"
  let ?db' = "fst (claim_ids (queue_pick 1100 ?l 1 race_db) (start_processing 1100)
          (fst (ClaimQueuedWithdraws 500 (\<lambda>_. False) 1 race_db)))"
  have "case RescheduleQueuedWithdraw 7 ''t'' ''w1'' ''timeout'' 1000 sample_queue_db2 of Inl _ \<Rightarrow> False
     | Inr db \<Rightarrow> queue_pick 500 (\<lambda>_. False) 1 db = [2] \<and> wf_jobs (withdraw_jobs db) \<and> one_in_flight (withdraw_jobs db) \<and>
         \<not> one_in_flight (withdraw_jobs (fst (claim_ids (queue_pick 1100 ?l 1 db) (start_processing 1100)
             (fst (ClaimQueuedWithdraws 500 (\<lambda>_. False) 1 db)))))"
    by code_simp
  note e = evaluated(2) [OF this, folded race_db_def]
  have "queue_pick 500 (\<lambda>_. False) 1 race_db = [2]" "wf_jobs (withdraw_jobs race_db)"
    "one_in_flight (withdraw_jobs race_db)" "\<not> one_in_flight (withdraw_jobs ?db')"
    using e by blast+
  then show ?thesis
    using race_db_reachable by (intro exI [of _ race_db] exI [of _ "500::int"] exI [of _ "1100::int"] exI [of _ ?l]) simp
qed

text \<open>
  A repeated \<open>QueueWithdraw\<close> for an existing order replaces the payment of the queued
  job (amount, sender, recipient) with that of the new request, while the freeze keeps the
  amount of the first: the job's amount is then not what was frozen for it.
\<close>

theorem requeue_overwrites_payment:
  assumes sel: "select_row (lf_at (wq_TenantID inp, wq_OrderID inp)) (ledger_freezes db) = Some row"
    and run: "QueueWithdraw now inp db = Inr db'"
  shows "\<exists>job. select_row (wj_at (wq_TenantID inp, wq_OrderID inp)) (withdraw_jobs db') = Some job \<and>
           wj_tx job = wq_Tx inp \<and> ledger_freezes db' = ledger_freezes db \<and> ledger_balances db' = ledger_balances db"
proof -
  let ?k = "(wq_TenantID inp, wq_OrderID inp)"
  obtain db1 where 1: "freezeWithdrawTx now (wq_TenantID inp) (wq_AccountID inp) (wq_OrderID inp)
       (bp_Chain (wq_Tx inp)) (bp_Network (wq_Tx inp)) (bp_Coin (wq_Tx inp)) (bp_Amount (wq_Tx inp))
       (wq_RequiredConfs inp) db = Inr db1" "same_withdraw_side db1 db'"
    using QueueWithdraw_effect [OF run] by metis
  have db1: "db1 = db" using 1(1) sel by (auto simp: freezeWithdrawTx_def Let_def split: if_splits)
  have "map_option wj_tx (select_row (wj_at ?k) (withdraw_jobs db')) = Some (wq_Tx inp)"
    using run 1(1) db1
    by (auto simp: QueueWithdraw_def Let_def jobs.select_insert_or_update_at wj_key_def split: option.splits)
  then show ?thesis using 1(2) by (auto simp: same_withdraw_side_def db1)
qed

end
