(* ===== verification/Orchestrator.thy ===== *)
theory Orchestrator
  imports Ledger_Machine
begin

text \<open>
  The withdraw orchestrator (\<open>src/services/wallet-core/internal/orchestrator\<close>): the chain
  funds check, building, signing and broadcasting a transaction, and the ledger calls
  around it.

  The chain gateway, the sign service, the Solana address library, base58 and the clock are
  outside the program: they are the fields of \<open>port\<close>, functions of an external state \<open>'x\<close>
  they may change. An orchestrator call runs on a \<open>world\<close>: the ledger's database, the
  external state, and the broadcasts the chain accepted so far. \<open>bindP\<close> is the
  \<open>if err != nil { return err }\<close> pattern on such calls: what was done before the error stays.
\<close>

section \<open>Calls with effects\<close>

record 'x port =
  pt_Now :: "'x \<Rightarrow> int"
  pt_BuildUnsignedTx :: "build_unsigned_params \<Rightarrow> 'x \<Rightarrow> build_unsigned_result result \<times> 'x"
  pt_Broadcast :: "broadcast_params \<Rightarrow> 'x \<Rightarrow> string result \<times> 'x"
  pt_GetBalance :: "string \<Rightarrow> string \<Rightarrow> string \<Rightarrow> string \<Rightarrow> string \<Rightarrow> 'x \<Rightarrow> chain_balance result \<times> 'x"
  pt_SignMessage :: "string \<Rightarrow> string \<Rightarrow> string \<Rightarrow> string \<Rightarrow> 'x \<Rightarrow> string result \<times> 'x"
  pt_PublicKeyFromBase58 :: "string \<Rightarrow> string result"
  pt_FindAssociatedTokenAddress :: "string \<Rightarrow> string \<Rightarrow> string result"
  pt_Base58Encode :: "string \<Rightarrow> string"

record 'x world =
  w_db :: ledger_db
  w_ext :: 'x
  w_sent :: "(broadcast_params \<times> string) list"

type_synonym ('x, 'a) proc = "'x world \<Rightarrow> 'a result \<times> 'x world"

definition returnP :: "'a \<Rightarrow> ('x, 'a) proc" where
  "returnP x w = (Inr x, w)"

definition failP :: "go_error \<Rightarrow> ('x, 'a) proc" where
  "failP e w = (Inl e, w)"

definition liftP :: "'a result \<Rightarrow> ('x, 'a) proc" where
  "liftP m w = (m, w)"

definition bindP :: "('x, 'a) proc \<Rightarrow> ('a \<Rightarrow> ('x, 'b) proc) \<Rightarrow> ('x, 'b) proc" where
  "bindP m f w = (case m w of (Inl e, w') \<Rightarrow> (Inl e, w') | (Inr x, w') \<Rightarrow> f x w')"

text \<open>The result of a call as a value: \<open>x, err := m()\<close> without the early return.\<close>

definition tryP :: "('x, 'a) proc \<Rightarrow> ('x, 'a result) proc" where
  "tryP m w = (case m w of (r, w') \<Rightarrow> (Inr r, w'))"

definition wrapP :: "string \<Rightarrow> ('x, 'a) proc \<Rightarrow> ('x, 'a) proc" where
  "wrapP pre m w = (case m w of (r, w') \<Rightarrow> (wrapE pre r, w'))"

definition externP :: "('x \<Rightarrow> 'a result \<times> 'x) \<Rightarrow> ('x, 'a) proc" where
  "externP f w = (case f (w_ext w) of (r, x) \<Rightarrow> (r, w\<lparr>w_ext := x\<rparr>))"

text \<open>A ledger transaction: committed or rolled back.\<close>

definition ledgerP :: "'x port \<Rightarrow> (int \<Rightarrow> ledger_db \<Rightarrow> ledger_db result) \<Rightarrow> ('x, unit) proc" where
  "ledgerP P op w =
     (case op (pt_Now P (w_ext w)) (w_db w) of Inl e \<Rightarrow> (Inl e, w) | Inr db \<Rightarrow> (Inr (), w\<lparr>w_db := db\<rparr>))"

lemmas proc_defs = returnP_def failP_def liftP_def tryP_def wrapP_def

lemma bindP_eq:
  "bindP m f w = (r, w2) \<longleftrightarrow>
     (\<exists>e. m w = (Inl e, w2) \<and> r = Inl e) \<or> (\<exists>x w1. m w = (Inr x, w1) \<and> f x w1 = (r, w2))"
  by (auto simp: bindP_def split: prod.splits sum.splits)


section \<open>Requests\<close>

record withdraw_request =
  wr_TenantID :: string
  wr_AccountID :: string
  wr_OrderID :: string
  wr_RequiredConfs :: int
  wr_Signers :: "signer_ref list"
  wr_SignType :: string
  wr_Tx :: build_unsigned_params

record broadcast_result =
  bres_TxHash :: string
  bres_UnsignedTx :: string


section \<open>Chain funds\<close>

definition solanaTokenFeeReserveLamports :: "64 word" where "solanaTokenFeeReserveLamports = 1000000"
definition solanaAssociatedTokenRentLamports :: "64 word" where "solanaAssociatedTokenRentLamports = 2039280"

definition isSolanaTokenWithdraw :: "build_unsigned_params \<Rightarrow> bool" where
  "isSolanaTokenWithdraw tx \<longleftrightarrow>
     equal_fold (trim_space (bp_Chain tx)) ''solana'' \<and> trim_space (bp_ContractAddress tx) \<noteq> []"

definition solanaAssociatedTokenAddress :: "'x port \<Rightarrow> string \<Rightarrow> string \<Rightarrow> string result" where
  "solanaAssociatedTokenAddress P ownerAddress mintAddress =
     bindE (pt_PublicKeyFromBase58 P (trim_space ownerAddress)) (\<lambda>owner.
     bindE (pt_PublicKeyFromBase58 P (trim_space mintAddress)) (\<lambda>mint.
     pt_FindAssociatedTokenAddress P owner mint))"

definition isZeroBalance :: "string \<Rightarrow> bool" where
  "isZeroBalance v = (case big_SetString (trim_space v) of None \<Rightarrow> True | Some n \<Rightarrow> n \<le> 0)"

definition gteAmount :: "string \<Rightarrow> string \<Rightarrow> bool result" where
  "gteAmount actual expected =
     (case big_SetString (trim_space actual) of
        None \<Rightarrow> Inl (Errorf (''invalid integer amount: '' @ actual))
      | Some a \<Rightarrow>
          (case big_SetString (trim_space expected) of
             None \<Rightarrow> Inl (Errorf (''invalid integer amount: '' @ expected))
           | Some e \<Rightarrow> Inr (a \<ge> e)))"

definition normalizeDisplayAmount :: "string \<Rightarrow> 32 word \<Rightarrow> string result" where
  "normalizeDisplayAmount val tokenDecimals =
     (let d = unat tokenDecimals in
      if has_prefix val ''-'' then Inl (Errorf ''token amount must be non-negative'')
      else
        let parts = split_on (CHR ''.'') val in
        if length parts > 2 then Inl (Errorf (''invalid display token amount: '' @ val))
        else
          let intPart = (if hd parts = [] then ''0'' else hd parts);
              fracPart = (if length parts = 2 then parts ! 1 else [])
          in
          if length fracPart > d then
            Inl (Errorf (''display token amount exceeds supported precision: decimals='' @ nat_to_string d))
          else
            let fracPart' = fracPart @ replicate (d - length fracPart) (CHR ''0'') in
            case big_SetString intPart of
              None \<Rightarrow> Inl (Errorf (''invalid integer token amount: '' @ val))
            | Some intValue \<Rightarrow>
                if fracPart' \<noteq> [] then
                  (case big_SetString fracPart' of
                     None \<Rightarrow> Inl (Errorf (''invalid fractional token amount: '' @ val))
                   | Some fracValue \<Rightarrow> Inr (int_to_string (intValue * 10 ^ d + fracValue)))
                else Inr (int_to_string (intValue * 10 ^ d)))"

definition normalizeSolanaTokenAmount :: "string \<Rightarrow> string \<Rightarrow> 32 word \<Rightarrow> string result" where
  "normalizeSolanaTokenAmount val amountUnit tokenDecimals =
     (let normalizedValue = trim_space val;
          unit = to_lower (trim_space amountUnit)
      in
      if normalizedValue = [] then Inl (Errorf ''token amount is required'')
      else if unit \<in> {[], ''raw'', ''base'', ''base_unit'', ''base_units'', ''smallest''} then
        (if trim_space amountUnit = [] \<and> contains normalizedValue ''.'' then
           (if tokenDecimals = 0 then
              Inl (Errorf ''token_decimals is required when token amount uses display notation'')
            else normalizeDisplayAmount normalizedValue tokenDecimals)
         else
           (case big_SetString normalizedValue of
              None \<Rightarrow> Inl (Errorf (''invalid integer amount: '' @ normalizedValue))
            | Some _ \<Rightarrow> Inr normalizedValue))
      else if unit \<in> {''display'', ''ui'', ''human''} then
        (if tokenDecimals = 0 then Inl (Errorf ''token_decimals is required when amount_unit=display'')
         else normalizeDisplayAmount normalizedValue tokenDecimals)
      else Inl (Errorf (''unsupported token amount unit: '' @ amountUnit)))"

definition ensureChainFunds :: "'x port \<Rightarrow> withdraw_request \<Rightarrow> ('x, unit) proc" where
  "ensureChainFunds P req =
     (let tx = wr_Tx req in
      if \<not> isSolanaTokenWithdraw tx then returnP ()
      else if trim_space (bp_From tx) = [] \<or> trim_space (bp_To tx) = [] then
        failP (Errorf ''solana token withdraw requires from/to address'')
      else
        bindP (liftP (normalizeSolanaTokenAmount (bp_Amount tx) (bp_AmountUnit tx) (bp_TokenDecimals tx)))
          (\<lambda>requiredTokenAmount.
        bindP (wrapP ''query source token balance: ''
                (externP (pt_GetBalance P (bp_Chain tx) (bp_Coin tx) (bp_Network tx) (bp_From tx) (bp_ContractAddress tx))))
          (\<lambda>tokenBalance.
        bindP (liftP (gteAmount (cb_Balance tokenBalance) requiredTokenAmount)) (\<lambda>ok.
        if \<not> ok then
          failP (Errorf (''insufficient source token balance on chain: need at least '' @ requiredTokenAmount @
                         '', got '' @ cb_Balance tokenBalance))
        else
        bindP (wrapP ''query source native balance: ''
                (externP (pt_GetBalance P (bp_Chain tx) ''SOL'' (bp_Network tx) (bp_From tx) [])))
          (\<lambda>nativeBalance.
        bindP (case solanaAssociatedTokenAddress P (bp_To tx) (bp_ContractAddress tx) of
                 Inl _ \<Rightarrow> returnP (solanaTokenFeeReserveLamports + solanaAssociatedTokenRentLamports)
               | Inr ataAddress \<Rightarrow>
                   bindP (tryP (externP (pt_GetBalance P (bp_Chain tx) ''SOL'' (bp_Network tx) ataAddress [])))
                     (\<lambda>ata. returnP
                       (case ata of
                          Inl _ \<Rightarrow> solanaTokenFeeReserveLamports + solanaAssociatedTokenRentLamports
                        | Inr b \<Rightarrow>
                            if isZeroBalance (cb_Balance b)
                            then solanaTokenFeeReserveLamports + solanaAssociatedTokenRentLamports
                            else solanaTokenFeeReserveLamports)))
          (\<lambda>requiredLamports.
        let requiredBalance = nat_to_string (unat requiredLamports) in
        bindP (liftP (gteAmount (cb_Balance nativeBalance) requiredBalance)) (\<lambda>ok.
        if \<not> ok then
          failP (Errorf (''insufficient source SOL for fee/rent: need at least '' @ requiredBalance @
                         '' lamports, got '' @ cb_Balance nativeBalance))
        else returnP ())))))))"


section \<open>Signing\<close>

definition resolveSigners :: "withdraw_request \<Rightarrow> signer_ref list result" where
  "resolveSigners req = (if wr_Signers req = [] then Inl (Errorf ''missing key id'') else Inr (wr_Signers req))"

definition chainUsesEdDSA :: "string \<Rightarrow> bool" where
  "chainUsesEdDSA chain \<longleftrightarrow>
     to_lower (trim_space chain) \<in> {''sol'', ''solana'', ''apt'', ''aptos'', ''sui'', ''ton'', ''xlm'', ''stellar''}"

definition resolveSignType :: "string \<Rightarrow> string \<Rightarrow> string list \<Rightarrow> string" where
  "resolveSignType signType chain signHashes =
     (if signType \<noteq> [] then signType
      else if chainUsesEdDSA chain then ''eddsa''
      else if signHashes \<noteq> [] then ''ecdsa''
      else ''eddsa'')"

definition isSolanaChain :: "string \<Rightarrow> bool" where
  "isSolanaChain chain \<longleftrightarrow> to_lower (trim_space chain) \<in> {''sol'', ''solana''}"

definition normalizeBroadcastPublicKey :: "'x port \<Rightarrow> string \<Rightarrow> string \<Rightarrow> string" where
  "normalizeBroadcastPublicKey P chain key =
     (if \<not> isSolanaChain chain then key
      else
        let h = trim_prefix (to_lower (trim_space key)) ''0x'' in
        if length h \<noteq> 64 then key
        else case hex_decode h of
               None \<Rightarrow> key
             | Some raw \<Rightarrow>
                 if length raw \<noteq> 32 then key
                 else let out = pt_Base58Encode P raw in if trim_space out \<noteq> [] then out else key)"

text \<open>The loop over \<open>signHashes\<close>, from index \<open>i\<close>.\<close>

fun sign_loop ::
  "'x port \<Rightarrow> string \<Rightarrow> string \<Rightarrow> string \<Rightarrow> signer_ref list \<Rightarrow> nat \<Rightarrow> string list \<Rightarrow>
     ('x, string list \<times> string list) proc" where
  "sign_loop P tenantID signType chain signers i [] = returnP ([], [])"
| "sign_loop P tenantID signType chain signers i (signHash # rest) =
     (let keyIdx = (if i \<ge> length signers then length signers - 1 else i);
          signer = signers ! keyIdx
      in
      bindP (externP (pt_SignMessage P tenantID signType (sr_KeyID signer) signHash)) (\<lambda>sig.
      bindP (sign_loop P tenantID signType chain signers (Suc i) rest) (\<lambda>(signatures, publicKeys).
      returnP (sig # signatures, normalizeBroadcastPublicKey P chain (sr_PublicKey signer) # publicKeys))))"

definition buildSignatures ::
  "'x port \<Rightarrow> string \<Rightarrow> string \<Rightarrow> string \<Rightarrow> signer_ref list \<Rightarrow> string list \<Rightarrow>
     ('x, string list \<times> string list) proc" where
  "buildSignatures P tenantID signType chain signers signHashes =
     (if signers = [] then failP (Errorf ''no signers provided'')
      else if length signHashes > length signers \<and> length signers > 1 then
        failP (Errorf (''signHashes count ('' @ nat_to_string (length signHashes) @
                       '') exceeds signers count ('' @ nat_to_string (length signers) @ '') with ambiguous mapping''))
      else sign_loop P tenantID signType chain signers 0 signHashes)"


section \<open>Broadcasting\<close>

text \<open>\<open>Chain.Broadcast\<close>; the world records the broadcasts the chain accepted.\<close>

definition broadcastP :: "'x port \<Rightarrow> broadcast_params \<Rightarrow> ('x, string) proc" where
  "broadcastP P bc w =
     (case pt_Broadcast P bc (w_ext w) of
        (Inl e, x) \<Rightarrow> (Inl e, w\<lparr>w_ext := x\<rparr>)
      | (Inr h, x) \<Rightarrow> (Inr h, w\<lparr>w_ext := x, w_sent := w_sent w @ [(bc, h)]\<rparr>))"

definition broadcastRawTx :: "'x port \<Rightarrow> withdraw_request \<Rightarrow> string \<Rightarrow> ('x, string) proc" where
  "broadcastRawTx P req rawTx =
     broadcastP P \<lparr>bc_Chain = bp_Chain (wr_Tx req), bc_Network = bp_Network (wr_Tx req),
       bc_Coin = bp_Coin (wr_Tx req), bc_RawTx = rawTx, bc_UnsignedTx = [], bc_Signatures = [], bc_PublicKeys = []\<rparr>"

definition broadcastUnsignedTx ::
  "'x port \<Rightarrow> withdraw_request \<Rightarrow> string \<Rightarrow> string list \<Rightarrow> string list \<Rightarrow> ('x, string) proc" where
  "broadcastUnsignedTx P req unsignedTx signatures publicKeys =
     broadcastP P \<lparr>bc_Chain = bp_Chain (wr_Tx req), bc_Network = bp_Network (wr_Tx req),
       bc_Coin = bp_Coin (wr_Tx req), bc_RawTx = [], bc_UnsignedTx = unsignedTx,
       bc_Signatures = signatures, bc_PublicKeys = publicKeys\<rparr>"

definition signAndBroadcastRaw ::
  "'x port \<Rightarrow> withdraw_request \<Rightarrow> string \<Rightarrow> signer_ref \<Rightarrow> build_unsigned_result \<Rightarrow> ('x, string) proc" where
  "signAndBroadcastRaw P req signType signer unsignedResult =
     bindP (externP (pt_SignMessage P (wr_TenantID req) signType (sr_KeyID signer) (br_UnsignedTx unsignedResult))) (\<lambda>sig.
     broadcastRawTx P req sig)"

definition buildSignAndBroadcast :: "'x port \<Rightarrow> withdraw_request \<Rightarrow> ('x, broadcast_result) proc" where
  "buildSignAndBroadcast P req =
     bindP (externP (pt_BuildUnsignedTx P (wr_Tx req))) (\<lambda>unsignedResult.
     bindP (liftP (resolveSigners req)) (\<lambda>signers.
     let signType = resolveSignType (wr_SignType req) (bp_Chain (wr_Tx req)) (br_SignHashes unsignedResult) in
     if br_SignHashes unsignedResult = [] then
       bindP (signAndBroadcastRaw P req signType (hd signers) unsignedResult) (\<lambda>txHash.
       returnP \<lparr>bres_TxHash = txHash, bres_UnsignedTx = br_UnsignedTx unsignedResult\<rparr>)
     else
       bindP (buildSignatures P (wr_TenantID req) signType (bp_Chain (wr_Tx req)) signers (br_SignHashes unsignedResult))
         (\<lambda>(signatures, publicKeys).
       bindP (broadcastUnsignedTx P req (br_UnsignedTx unsignedResult) signatures publicKeys) (\<lambda>txHash.
       returnP \<lparr>bres_TxHash = txHash, bres_UnsignedTx = br_UnsignedTx unsignedResult\<rparr>))))"


section \<open>Ledger calls\<close>

definition freezeWithdraw :: "'x port \<Rightarrow> withdraw_request \<Rightarrow> ('x, unit) proc" where
  "freezeWithdraw P req =
     (let requiredConfs = (if wr_RequiredConfs req \<le> 0 then 1 else wr_RequiredConfs req); tx = wr_Tx req in
      ledgerP P (\<lambda>now. FreezeWithdraw now (wr_TenantID req) (wr_AccountID req) (wr_OrderID req)
        (bp_Chain tx) (bp_Network tx) (bp_Coin tx) (bp_Amount tx) requiredConfs))"

definition releaseWithdraw :: "'x port \<Rightarrow> withdraw_request \<Rightarrow> string \<Rightarrow> ('x, unit) proc" where
  "releaseWithdraw P req reason =
     ledgerP P (\<lambda>now. ReleaseWithdraw now (wr_TenantID req) (wr_AccountID req) (wr_OrderID req) reason)"

definition confirmWithdraw :: "'x port \<Rightarrow> withdraw_request \<Rightarrow> string \<Rightarrow> ('x, unit) proc" where
  "confirmWithdraw P req txHash =
     ledgerP P (\<lambda>now. ConfirmWithdraw now (wr_TenantID req) (wr_AccountID req) (wr_OrderID req) txHash)"

definition ReleaseQueued :: "'x port \<Rightarrow> withdraw_request \<Rightarrow> string \<Rightarrow> ('x, unit) proc" where
  "ReleaseQueued P req reason = releaseWithdraw P req reason"


section \<open>The orchestrated operations\<close>

definition confirm_failed :: "string \<Rightarrow> string" where
  "confirm_failed txHash = ''withdraw broadcasted but ledger confirm failed, txHash='' @ txHash @ '': ''"

text \<open>
  The deferred function of \<open>CreateAndBroadcast\<close> runs after the body, with the error the body
  returns; it releases the freeze unless the body succeeded or the broadcast went out.
\<close>

definition CreateAndBroadcast :: "'x port \<Rightarrow> withdraw_request \<Rightarrow> ('x, string) proc" where
  "CreateAndBroadcast P req =
     bindP (ensureChainFunds P req) (\<lambda>_.
     bindP (freezeWithdraw P req) (\<lambda>_.
     bindP (tryP (buildSignAndBroadcast P req)) (\<lambda>broadcast.
     case broadcast of
       Inl err \<Rightarrow>
         bindP (tryP (releaseWithdraw P req (error_text err))) (\<lambda>released.
         case released of
           Inl releaseErr \<Rightarrow> failP (Errorf (error_text err @ ''; release failed: '' @ error_text releaseErr))
         | Inr _ \<Rightarrow> failP err)
     | Inr b \<Rightarrow>
         bindP (wrapP (confirm_failed (bres_TxHash b)) (confirmWithdraw P req (bres_TxHash b))) (\<lambda>_.
         returnP (bres_TxHash b)))))"

definition ExecuteQueued :: "'x port \<Rightarrow> withdraw_request \<Rightarrow> ('x, string) proc" where
  "ExecuteQueued P req =
     bindP (ensureChainFunds P req) (\<lambda>_.
     bindP (buildSignAndBroadcast P req) (\<lambda>b.
     bindP (wrapP (confirm_failed (bres_TxHash b)) (confirmWithdraw P req (bres_TxHash b))) (\<lambda>_.
     returnP (bres_TxHash b))))"

definition ExecuteQueuedWithUnsigned :: "'x port \<Rightarrow> withdraw_request \<Rightarrow> ('x, broadcast_result) proc" where
  "ExecuteQueuedWithUnsigned P req =
     bindP (ensureChainFunds P req) (\<lambda>_.
     bindP (buildSignAndBroadcast P req) (\<lambda>b.
     bindP (wrapP (confirm_failed (bres_TxHash b)) (confirmWithdraw P req (bres_TxHash b))) (\<lambda>_.
     returnP b)))"

definition SpeedUpBroadcasted :: "'x port \<Rightarrow> withdraw_request \<Rightarrow> ('x, broadcast_result) proc" where
  "SpeedUpBroadcasted P req = bindP (ensureChainFunds P req) (\<lambda>_. buildSignAndBroadcast P req)"

definition BroadcastOnly :: "'x port \<Rightarrow> withdraw_request \<Rightarrow> ('x, broadcast_result) proc" where
  "BroadcastOnly P req = bindP (ensureChainFunds P req) (\<lambda>_. buildSignAndBroadcast P req)"


section \<open>What a call leaves alone\<close>

text \<open>A quiet call changes neither the ledger nor what was broadcast.\<close>

definition quiet :: "('x, 'a) proc \<Rightarrow> bool" where
  "quiet m \<longleftrightarrow> (\<forall>w. w_db (snd (m w)) = w_db w \<and> w_sent (snd (m w)) = w_sent w)"

named_theorems quiet_intro "rules for quiet calls"

lemma quietD: "quiet m \<Longrightarrow> m w = (r, w') \<Longrightarrow> w_db w' = w_db w \<and> w_sent w' = w_sent w"
  unfolding quiet_def by (metis snd_conv)

lemma quiet_basic [quiet_intro]:
  "quiet (returnP x)" "quiet (failP e)" "quiet (liftP r)" "quiet (externP f)"
  by (auto simp: quiet_def proc_defs externP_def split: prod.splits)

lemma quiet_wrap [quiet_intro]: "quiet m \<Longrightarrow> quiet (wrapP pre m)" "quiet m \<Longrightarrow> quiet (tryP m)"
  by (auto simp: quiet_def wrapP_def tryP_def split: prod.splits) (metis snd_conv)+

lemma quiet_bind [quiet_intro]: "quiet m \<Longrightarrow> (\<And>x. quiet (f x)) \<Longrightarrow> quiet (bindP m f)"
  unfolding quiet_def bindP_def by (auto split: prod.splits sum.splits) (metis snd_conv)+

lemma quiet_ensureChainFunds [quiet_intro]: "quiet (ensureChainFunds P req)"
  unfolding ensureChainFunds_def Let_def
  by (auto intro!: quiet_intro split: if_splits sum.splits)

lemma quiet_sign_loop [quiet_intro]: "quiet (sign_loop P t st ch signers i hs)"
  by (induction P t st ch signers i hs rule: sign_loop.induct)
     (auto intro!: quiet_intro simp: Let_def split: prod.splits)

lemma quiet_buildSignatures [quiet_intro]: "quiet (buildSignatures P t st ch signers hs)"
  unfolding buildSignatures_def by (auto intro!: quiet_intro)

text \<open>A broadcast is recorded exactly when the call succeeds.\<close>

lemma broadcastP_eq:
  assumes "broadcastP P bc w = (r, w')"
  shows "w_db w' = w_db w" "r = Inl e \<Longrightarrow> w_sent w' = w_sent w" "r = Inr h \<Longrightarrow> w_sent w' = w_sent w @ [(bc, h)]"
  using assms by (auto simp: broadcastP_def split: prod.splits sum.splits)

lemma buildSignAndBroadcast_effect:
  assumes run: "buildSignAndBroadcast P req w = (r, w')"
  shows "w_db w' = w_db w"
    and "r = Inl e \<Longrightarrow> w_sent w' = w_sent w"
    and "r = Inr b \<Longrightarrow> \<exists>bc. w_sent w' = w_sent w @ [(bc, bres_TxHash b)] \<and>
           bc_Chain bc = bp_Chain (wr_Tx req) \<and> bc_Network bc = bp_Network (wr_Tx req) \<and> bc_Coin bc = bp_Coin (wr_Tx req)"
proof -
  have q1: "quiet (externP (pt_BuildUnsignedTx P (wr_Tx req)))"
    "quiet (externP (pt_SignMessage P t st k m))"
    "quiet (buildSignatures P t st ch sg hs)" "quiet (liftP m')" for t st k m ch sg hs and m' :: "signer_ref list result"
    by (intro quiet_intro)+
  show "w_db w' = w_db w"
    using run
    by (auto simp: buildSignAndBroadcast_def bindP_eq Let_def signAndBroadcastRaw_def broadcastRawTx_def
        broadcastUnsignedTx_def returnP_def split: if_splits prod.splits
        dest!: quietD [OF q1(1)] quietD [OF q1(2)] quietD [OF q1(3)] quietD [OF q1(4)] broadcastP_eq(1))
  show "w_sent w' = w_sent w" if "r = Inl e"
    using run that
    by (auto simp: buildSignAndBroadcast_def bindP_eq Let_def signAndBroadcastRaw_def broadcastRawTx_def
        broadcastUnsignedTx_def returnP_def split: if_splits prod.splits
        dest!: quietD [OF q1(1)] quietD [OF q1(2)] quietD [OF q1(3)] quietD [OF q1(4)] broadcastP_eq(2) [OF _ refl])
  show "\<exists>bc. w_sent w' = w_sent w @ [(bc, bres_TxHash b)] \<and>
           bc_Chain bc = bp_Chain (wr_Tx req) \<and> bc_Network bc = bp_Network (wr_Tx req) \<and> bc_Coin bc = bp_Coin (wr_Tx req)"
    if "r = Inr b"
    using run that
    by (auto simp: buildSignAndBroadcast_def bindP_eq Let_def signAndBroadcastRaw_def broadcastRawTx_def
        broadcastUnsignedTx_def returnP_def split: if_splits prod.splits
        dest!: quietD [OF q1(1)] quietD [OF q1(2)] quietD [OF q1(3)] quietD [OF q1(4)] broadcastP_eq(3) [OF _ refl])
qed


section \<open>Calls that do not read the ledger\<close>

definition blind :: "('x, 'a) proc \<Rightarrow> bool" where
  "blind m \<longleftrightarrow> (\<forall>w db. m (w\<lparr>w_db := db\<rparr>) = (fst (m w), (snd (m w))\<lparr>w_db := db\<rparr>))"

named_theorems blind_intro "rules for calls that do not read the ledger"

lemma blind_basic [blind_intro]:
  "blind (returnP x)" "blind (failP e)" "blind (liftP r)" "blind (externP f)" "blind (broadcastP P bc)"
  by (auto simp: blind_def proc_defs externP_def broadcastP_def split: prod.splits sum.splits)

lemma blind_wrap [blind_intro]: "blind m \<Longrightarrow> blind (wrapP pre m)" "blind m \<Longrightarrow> blind (tryP m)"
  by (simp_all add: blind_def wrapP_def tryP_def split: prod.splits)

lemma blind_bind [blind_intro]: "blind m \<Longrightarrow> (\<And>x. blind (f x)) \<Longrightarrow> blind (bindP m f)"
  by (simp add: blind_def bindP_def split: prod.splits sum.splits)

lemma blind_sign_loop [blind_intro]: "blind (sign_loop P t st ch signers i hs)"
  by (induction P t st ch signers i hs rule: sign_loop.induct)
     (auto intro!: blind_intro simp: Let_def split: prod.splits)

lemma blind_buildSignatures [blind_intro]: "blind (buildSignatures P t st ch signers hs)"
  unfolding buildSignatures_def by (auto intro!: blind_intro)

lemma blind_ensureChainFunds [blind_intro]: "blind (ensureChainFunds P req)"
  unfolding ensureChainFunds_def Let_def
  by (auto intro!: blind_intro split: if_splits sum.splits)

lemma blind_SpeedUp: "blind (SpeedUpBroadcasted P req)"
  unfolding SpeedUpBroadcasted_def buildSignAndBroadcast_def Let_def signAndBroadcastRaw_def broadcastRawTx_def
    broadcastUnsignedTx_def
  by (auto intro!: blind_intro split: prod.splits)


section \<open>The signing loop\<close>

lemma sign_loop_pairs:
  assumes "sign_loop P t st ch signers j hashes w = (Inr (sigs, keys), w')" and "i < length hashes"
  shows "length sigs = length hashes \<and> length keys = length hashes \<and>
         (let signer = signers ! (if j + i \<ge> length signers then length signers - 1 else j + i) in
            keys ! i = normalizeBroadcastPublicKey P ch (sr_PublicKey signer) \<and>
            (\<exists>x. fst (pt_SignMessage P t st (sr_KeyID signer) (hashes ! i) x) = Inr (sigs ! i)))"
  using assms
proof (induction P t st ch signers j hashes arbitrary: w w' sigs keys i rule: sign_loop.induct)
  case (2 P t st ch signers j h rest)
  let ?k = "if j \<ge> length signers then length signers - 1 else j"
  obtain sig w1 sigs' keys' w2 where s1: "externP (pt_SignMessage P t st (sr_KeyID (signers ! ?k)) h) w = (Inr sig, w1)"
    and s2: "sign_loop P t st ch signers (Suc j) rest w1 = (Inr (sigs', keys'), w2)"
    and out: "sigs = sig # sigs'" "keys = normalizeBroadcastPublicKey P ch (sr_PublicKey (signers ! ?k)) # keys'"
    using "2.prems"(1) by (auto simp: bindP_eq Let_def returnP_def split: prod.splits)
  have len: "length sigs' = length rest \<and> length keys' = length rest"
    using "2.IH" [OF refl refl s2, of 0] s2 by (cases rest) (auto simp: returnP_def)
  have x: "\<exists>x. fst (pt_SignMessage P t st (sr_KeyID (signers ! ?k)) h x) = Inr sig"
    using s1 by (intro exI [of _ "w_ext w"]) (auto simp: externP_def split: prod.splits)
  show ?case
  proof (cases i)
    case 0
    then show ?thesis using len out x by (cases "length signers \<le> j") (simp_all add: Let_def)
  next
    case (Suc i')
    then have "i' < length rest" using "2.prems"(2) by simp
    then show ?thesis
      using "2.IH" [OF refl refl s2, of i'] len out Suc
      by (cases "length signers \<le> Suc (j + i')") (simp_all add: Let_def)
  qed
qed simp

end
