(* ===== verification/Dispatcher.thy ===== *)
theory Dispatcher
  imports Orchestrator
begin

text \<open>
  The withdraw dispatcher (\<open>src/services/wallet-core/internal/dispatcher\<close>): it claims queued
  jobs and executes them, retries with a backoff, gives up and releases; and it claims stale
  broadcasts and replaces them with a higher fee.

  The jobs of one batch run in goroutines, at most \<open>parallelism\<close> at a time. The model runs
  them one after the other in the order of an arbitrary permutation given as an argument:
  each call a job makes is a transaction or a call to the outside, and jobs of one batch have
  different orders. \<open>Run\<close> repeats \<open>dispatchOnce\<close> and \<open>accelerateOnce\<close> on a ticker.
  Durations are nanoseconds in signed 64-bit arithmetic. Log lines are not modelled. The JSON
  and base64 codecs of the fee payload are arguments.
\<close>

section \<open>Configuration\<close>

record dispatcher =
  wd_Interval :: int
  wd_Batch :: int
  wd_AccelerateBatch :: int
  wd_Parallelism :: int
  wd_MaxAttempts :: int
  wd_BaseBackoff :: int
  wd_MaxBackoff :: int
  wd_AccelerateAfter :: int
  wd_AccelerateMaxAttempts :: int
  wd_AccelerateGasBumpBps :: int

text \<open>Signed 64-bit wrap-around.\<close>

definition wrap64 :: "int \<Rightarrow> int" where
  "wrap64 x = (x + 2 ^ 63) mod 2 ^ 64 - 2 ^ 63"

lemma wrap64_id: "- (2 ^ 63) \<le> x \<Longrightarrow> x < 2 ^ 63 \<Longrightarrow> wrap64 x = x"
  by (simp add: wrap64_def)

definition shouldRetry :: "dispatcher \<Rightarrow> int \<Rightarrow> bool" where
  "shouldRetry d attempt =
     (let maxAttempts = (if wd_MaxAttempts d \<le> 0 then 5 else wd_MaxAttempts d) in attempt < maxAttempts)"

definition minInt :: "int \<Rightarrow> int \<Rightarrow> int" where
  "minInt a b = (if a < b then a else b)"

definition retryDelay :: "dispatcher \<Rightarrow> int \<Rightarrow> int" where
  "retryDelay d attempt =
     (let base = (if wd_BaseBackoff d \<le> 0 then 1000000000 else wd_BaseBackoff d);
          maxDelay = (if wd_MaxBackoff d \<le> 0 then 30 * 1000000000 else wd_MaxBackoff d);
          attempt' = (if attempt < 1 then 1 else attempt);
          delay = wrap64 (base * 2 ^ nat (minInt (attempt' - 1) 6))
      in if delay > maxDelay then maxDelay else delay)"

definition parallelism :: "dispatcher \<Rightarrow> int \<Rightarrow> int" where
  "parallelism d jobCount =
     (let p = (if wd_Parallelism d \<le> 0 then 4 else wd_Parallelism d) in
      if jobCount > 0 \<and> p > jobCount then jobCount else p)"


section \<open>Executing queued withdrawals\<close>

definition request_of_job :: "withdraw_job \<Rightarrow> withdraw_request" where
  "request_of_job job =
     \<lparr>wr_TenantID = job_TenantID job, wr_AccountID = job_AccountID job, wr_OrderID = job_OrderID job,
      wr_RequiredConfs = job_RequiredConfs job, wr_Signers = job_Signers job,
      wr_SignType = job_SignType job, wr_Tx = job_Tx job\<rparr>"

definition handleJob :: "'x port \<Rightarrow> dispatcher \<Rightarrow> withdraw_job \<Rightarrow> ('x, unit) proc" where
  "handleJob P d job =
     (let req = request_of_job job; t = job_TenantID job; ord = job_OrderID job in
      bindP (tryP (ExecuteQueuedWithUnsigned P req)) (\<lambda>res.
      case res of
        Inl err \<Rightarrow>
          if shouldRetry d (job_AttemptCount job) then
            bindP (tryP (ledgerP P (\<lambda>now. RescheduleQueuedWithdraw now t ord (error_text err)
                                     (retryDelay d (job_AttemptCount job) div 1000000)))) (\<lambda>_. returnP ())
          else
            bindP (tryP (ReleaseQueued P req (error_text err))) (\<lambda>released.
            let reason = (case released of
                            Inl releaseErr \<Rightarrow> error_text err @ ''; release failed: '' @ error_text releaseErr
                          | Inr _ \<Rightarrow> error_text err) in
            bindP (tryP (ledgerP P (\<lambda>now. MarkQueuedWithdrawFailed now t ord reason))) (\<lambda>_. returnP ()))
      | Inr broadcast \<Rightarrow>
          bindP (tryP (ledgerP P (\<lambda>now. MarkQueuedWithdrawDone now t ord
                                   (bres_TxHash broadcast) (bres_UnsignedTx broadcast)))) (\<lambda>_. returnP ())))"

fun run_jobs :: "('j \<Rightarrow> ('x, unit) proc) \<Rightarrow> 'j list \<Rightarrow> ('x, unit) proc" where
  "run_jobs h [] = returnP ()"
| "run_jobs h (j # js) = bindP (h j) (\<lambda>_. run_jobs h js)"

definition dispatchOnce ::
  "'x port \<Rightarrow> dispatcher \<Rightarrow> (int \<Rightarrow> bool) \<Rightarrow> (withdraw_job list \<Rightarrow> withdraw_job list) \<Rightarrow> ('x, unit) proc" where
  "dispatchOnce P d locked schedule w =
     (let batch = (if wd_Batch d \<le> 0 then 8 else wd_Batch d);
          (db, jobs) = ClaimQueuedWithdraws (pt_Now P (w_ext w)) locked batch (w_db w)
      in run_jobs (handleJob P d) (schedule jobs) (w\<lparr>w_db := db\<rparr>))"


section \<open>Replacing stale broadcasts\<close>

record evm_payload =
  evm_ChainID :: string
  evm_NonceMode :: string
  evm_FromAddress :: string
  evm_Nonce :: "64 word"
  evm_MaxPriorityFeePerGas :: string
  evm_MaxFeePerGas :: string
  evm_GasLimit :: "64 word"
  evm_ToAddress :: string
  evm_Amount :: string
  evm_ContractAddress :: string

definition accelerateAfter :: "dispatcher \<Rightarrow> int" where
  "accelerateAfter d = (if wd_AccelerateAfter d \<le> 0 then 60 * 1000000000 else wd_AccelerateAfter d)"

definition accelerateMaxAttempts :: "dispatcher \<Rightarrow> int" where
  "accelerateMaxAttempts d = (if wd_AccelerateMaxAttempts d \<le> 0 then 3 else wd_AccelerateMaxAttempts d)"

definition accelerateGasBumpBps :: "dispatcher \<Rightarrow> int" where
  "accelerateGasBumpBps d = (if wd_AccelerateGasBumpBps d \<le> 0 then 2000 else wd_AccelerateGasBumpBps d)"

definition bumpDecimalString :: "string \<Rightarrow> int \<Rightarrow> string result" where
  "bumpDecimalString v bumpBps =
     (case big_SetString v of
        None \<Rightarrow> Inl (Errorf (''invalid integer amount: '' @ v))
      | Some n \<Rightarrow>
          if n < 0 then Inl (Errorf (''invalid negative integer amount: '' @ v))
          else if n = 0 then Inr ''1''
          else
            let out = (n * wrap64 (10000 + bumpBps)) div 10000 in
            Inr (int_to_string (if out \<le> n then n + 1 else out)))"

definition compareDecimalString :: "string \<Rightarrow> string \<Rightarrow> int" where
  "compareDecimalString a b =
     (case big_SetString a of
        None \<Rightarrow> 0
      | Some aa \<Rightarrow> (case big_SetString b of
          None \<Rightarrow> 0 | Some bb \<Rightarrow> if aa < bb then - 1 else if aa > bb then 1 else 0))"

text \<open>
  \<open>decode\<close> is base64 decoding followed by \<open>json.Unmarshal\<close>, with the code's error prefixes;
  \<open>encode\<close> is \<open>json.Marshal\<close> followed by base64.
\<close>

definition bumpEVMReplacementPayload ::
  "(string \<Rightarrow> evm_payload result) \<Rightarrow> (evm_payload \<Rightarrow> string result) \<Rightarrow> string \<Rightarrow> int \<Rightarrow> string result" where
  "bumpEVMReplacementPayload decode encode base64Tx bumpBps =
     bindE (decode base64Tx) (\<lambda>payload.
     let bps = (if bumpBps \<le> 0 then 2000 else bumpBps) in
     bindE (wrapE ''bump priority fee: '' (bumpDecimalString (evm_MaxPriorityFeePerGas payload) bps)) (\<lambda>priority.
     bindE (wrapE ''bump max fee: '' (bumpDecimalString (evm_MaxFeePerGas payload) bps)) (\<lambda>maxFee.
     let maxFee' = (if compareDecimalString maxFee priority < 0 then priority else maxFee) in
     encode (payload\<lparr>evm_NonceMode := ''fixed'', evm_MaxPriorityFeePerGas := priority,
                     evm_MaxFeePerGas := maxFee'\<rparr>))))"

definition handleAcceleration ::
  "'x port \<Rightarrow> (string \<Rightarrow> evm_payload result) \<Rightarrow> (evm_payload \<Rightarrow> string result) \<Rightarrow> dispatcher \<Rightarrow> withdraw_job
     \<Rightarrow> ('x, unit) proc" where
  "handleAcceleration P decode encode d job =
     (let t = job_TenantID job; ord = job_OrderID job in
      case bumpEVMReplacementPayload decode encode (bp_Base64Tx (job_Tx job)) (accelerateGasBumpBps d) of
        Inl err \<Rightarrow>
          bindP (tryP (ledgerP P (\<lambda>now. ResetBroadcastedWithdraw now t ord (error_text err)))) (\<lambda>_. returnP ())
      | Inr replacementPayload \<Rightarrow>
          let req = (request_of_job job)\<lparr>wr_Tx := (job_Tx job)\<lparr>bp_Base64Tx := replacementPayload\<rparr>\<rparr> in
          bindP (tryP (SpeedUpBroadcasted P req)) (\<lambda>res.
          case res of
            Inl err \<Rightarrow>
              bindP (tryP (ledgerP P (\<lambda>now. ResetBroadcastedWithdraw now t ord (error_text err)))) (\<lambda>_. returnP ())
          | Inr broadcast \<Rightarrow>
              bindP (tryP (ledgerP P (\<lambda>now. ReplaceBroadcastedWithdraw now t ord (job_TxHash job)
                       (bres_TxHash broadcast) (bres_UnsignedTx broadcast)))) (\<lambda>_. returnP ())))"

definition accelerateOnce ::
  "'x port \<Rightarrow> (string \<Rightarrow> evm_payload result) \<Rightarrow> (evm_payload \<Rightarrow> string result) \<Rightarrow> dispatcher \<Rightarrow> (int \<Rightarrow> bool) \<Rightarrow>
     (withdraw_job list \<Rightarrow> withdraw_job list) \<Rightarrow> ('x, unit) proc" where
  "accelerateOnce P decode encode d locked schedule w =
     (let batch = (if wd_AccelerateBatch d \<le> 0 then 8 else wd_AccelerateBatch d);
          (db, jobs) = ClaimStaleBroadcastedWithdraws (pt_Now P (w_ext w)) locked batch
             (accelerateAfter d div 1000000) (accelerateMaxAttempts d) (w_db w)
      in run_jobs (handleAcceleration P decode encode d) (schedule jobs) (w\<lparr>w_db := db\<rparr>))"


section \<open>Effects of executing a job\<close>

lemma ConfirmWithdraw_frozen:
  assumes sel: "select_row (lf_at (t, ord)) (ledger_freezes db) = Some row" and st: "lf_status row = ''FROZEN''"
  shows "\<exists>db' row'. ConfirmWithdraw now t a ord h db = Inr db' \<and> ledger_balances db' = ledger_balances db \<and>
           select_row (lf_at (t, ord)) (ledger_freezes db') = Some row' \<and>
           lf_status row' = ''BROADCASTED'' \<and> lf_tx_hash row' = h"
proof -
  obtain db' where cf: "ConfirmWithdraw now t a ord h db = Inr db'"
    using sel st by (simp add: ConfirmWithdraw_def Let_def)
  show ?thesis
    by (rule ConfirmWithdraw_effect [OF cf]) (use sel st cf in \<open>auto dest: freeze_moved_row(7)\<close>)
qed

lemma execute_frozen:
  assumes sel: "select_row (lf_at (wr_TenantID req, wr_OrderID req)) (ledger_freezes (w_db w)) = Some row"
    and st: "lf_status row = ''FROZEN''" and run: "ExecuteQueuedWithUnsigned P req w = (r, w')"
  shows "r = Inl e \<Longrightarrow> w_db w' = w_db w \<and> w_sent w' = w_sent w"
    and "r = Inr b \<Longrightarrow> \<exists>bc now. w_sent w' = w_sent w @ [(bc, bres_TxHash b)] \<and>
           ConfirmWithdraw now (wr_TenantID req) (wr_AccountID req) (wr_OrderID req) (bres_TxHash b) (w_db w) = Inr (w_db w')"
proof -
  obtain r1 w1 where 1: "ensureChainFunds P req w = (r1, w1)" by fastforce
  have w1: "w_db w1 = w_db w" "w_sent w1 = w_sent w" using quietD [OF quiet_ensureChainFunds 1] by auto
  obtain r2 w2 where 2: "buildSignAndBroadcast P req w1 = (r2, w2)" by fastforce
  have w2: "w_db w2 = w_db w" using buildSignAndBroadcast_effect(1) [OF 2] w1 by simp
  have cf: "ConfirmWithdraw now (wr_TenantID req) (wr_AccountID req) (wr_OrderID req) h (w_db w2) \<noteq> Inl e" for now h e
    using ConfirmWithdraw_frozen [OF sel st, of now "wr_AccountID req" h] w2 by auto
  have body: "(\<exists>e. r1 = Inl e \<and> r = Inl e \<and> w' = w1) \<or> (\<exists>e. r2 = Inl e \<and> r = Inl e \<and> w' = w2) \<or>
      (\<exists>b db'. r2 = Inr b \<and> r = Inr b \<and> w' = w2\<lparr>w_db := db'\<rparr> \<and>
        ConfirmWithdraw (pt_Now P (w_ext w2)) (wr_TenantID req) (wr_AccountID req) (wr_OrderID req) (bres_TxHash b) (w_db w2) = Inr db')"
    using run 1 2 cf
    by (auto simp: ExecuteQueuedWithUnsigned_def bindP_def wrapP_def confirmWithdraw_def ledgerP_def returnP_def
        split: sum.splits)
  show "w_db w' = w_db w \<and> w_sent w' = w_sent w" if "r = Inl e"
    using body that w1 w2 buildSignAndBroadcast_effect(2) [OF 2] by auto
  show "\<exists>bc now. w_sent w' = w_sent w @ [(bc, bres_TxHash b)] \<and>
           ConfirmWithdraw now (wr_TenantID req) (wr_AccountID req) (wr_OrderID req) (bres_TxHash b) (w_db w) = Inr (w_db w')"
    if "r = Inr b"
    using body that w1 w2 buildSignAndBroadcast_effect(3) [OF 2] by fastforce
qed

text \<open>Handling a job, as one case distinction on the execution's result.\<close>

lemma handleJob_cases:
  assumes run: "handleJob P d job w = (r, w')" and ex: "ExecuteQueuedWithUnsigned P (request_of_job job) w = (r1, w1)"
  obtains
    (sent) b where "r1 = Inr b" "w_sent w' = w_sent w1" "same_withdraw_side (w_db w1) (w_db w')"
  | (retry) e where "r1 = Inl e" "shouldRetry d (job_AttemptCount job)" "w_sent w' = w_sent w1"
      "same_withdraw_side (w_db w1) (w_db w')"
  | (giveup) e db2 where "r1 = Inl e" "\<not> shouldRetry d (job_AttemptCount job)" "w_sent w' = w_sent w1"
      "(case ReleaseWithdraw (pt_Now P (w_ext w1)) (job_TenantID job) (job_AccountID job) (job_OrderID job) (error_text e) (w_db w1)
         of Inl _ \<Rightarrow> w_db w1 | Inr db \<Rightarrow> db) = db2"
      "same_withdraw_side db2 (w_db w')"
proof (cases r1)
  case (Inl e)
  show thesis
  proof (cases "shouldRetry d (job_AttemptCount job)")
    case True
    have "w_sent w' = w_sent w1" "same_withdraw_side (w_db w1) (w_db w')"
      using run ex Inl True
      by (auto simp: handleJob_def Let_def bindP_def tryP_def ledgerP_def returnP_def
          RescheduleQueuedWithdraw_def update_job_def same_withdraw_side_def)
    then show thesis using retry Inl True by blast
  next
    case False
    show thesis
      by (rule giveup [OF Inl False _ refl])
         (use run ex Inl False in \<open>auto simp: handleJob_def Let_def bindP_def tryP_def ledgerP_def returnP_def
          ReleaseQueued_def releaseWithdraw_def request_of_job_def
          MarkQueuedWithdrawFailed_def update_job_def same_withdraw_side_def split: sum.splits\<close>)
  qed
next
  case (Inr b)
  have "w_sent w' = w_sent w1" "same_withdraw_side (w_db w1) (w_db w')"
    using run ex Inr
    by (auto simp: handleJob_def Let_def bindP_def tryP_def ledgerP_def returnP_def
        MarkQueuedWithdrawDone_def update_job_def upsert_attempt_def same_withdraw_side_def)
  then show thesis using sent Inr by blast
qed

text \<open>What a job sends is decided before the ledger is asked.\<close>

lemma ledgerP_outside [simp]: "w_ext (snd (ledgerP P op w)) = w_ext w" "w_sent (snd (ledgerP P op w)) = w_sent w"
  by (simp_all add: ledgerP_def split: sum.splits)

lemma execute_outside:
  "w_ext (snd (ExecuteQueuedWithUnsigned P req w)) = w_ext (snd (SpeedUpBroadcasted P req w)) \<and>
   w_sent (snd (ExecuteQueuedWithUnsigned P req w)) = w_sent (snd (SpeedUpBroadcasted P req w))"
  by (auto simp: ExecuteQueuedWithUnsigned_def SpeedUpBroadcasted_def bindP_def wrapP_def confirmWithdraw_def
      ledgerP_def returnP_def split: prod.splits sum.splits)

lemma handleJob_outside:
  "w_ext (snd (handleJob P d job w)) = w_ext (snd (SpeedUpBroadcasted P (request_of_job job) w)) \<and>
   w_sent (snd (handleJob P d job w)) = w_sent (snd (SpeedUpBroadcasted P (request_of_job job) w))"
proof -
  obtain r1 w1 where 1: "ExecuteQueuedWithUnsigned P (request_of_job job) w = (r1, w1)" by fastforce
  have "w_ext (snd (handleJob P d job w)) = w_ext w1 \<and> w_sent (snd (handleJob P d job w)) = w_sent w1"
    using 1
    by (auto simp: handleJob_def Let_def bindP_def tryP_def ledgerP_def returnP_def ReleaseQueued_def
        releaseWithdraw_def split: prod.splits sum.splits if_splits)
  then show ?thesis using execute_outside [of P "request_of_job job" w] 1 by simp
qed

text \<open>The backoff, with the product within 64 bits.\<close>

definition backoff_exp :: "int \<Rightarrow> nat" where
  "backoff_exp a = nat (minInt ((if a < 1 then 1 else a) - 1) 6)"

lemma backoff_exp_bounds: "backoff_exp a \<le> 6" "a \<le> b \<Longrightarrow> backoff_exp a \<le> backoff_exp b"
  by (auto simp: backoff_exp_def minInt_def)

lemma retryDelay_min:
  assumes "wd_BaseBackoff d \<le> 2 ^ 56"
  shows "retryDelay d a =
     min ((if wd_BaseBackoff d \<le> 0 then 1000000000 else wd_BaseBackoff d) * 2 ^ backoff_exp a)
         (if wd_MaxBackoff d \<le> 0 then 30 * 1000000000 else wd_MaxBackoff d)"
proof -
  define base where "base = (if wd_BaseBackoff d \<le> 0 then 1000000000 else wd_BaseBackoff d)"
  have b: "0 < base" "base \<le> 2 ^ 56" using assms by (auto simp: base_def)
  have "(2::int) ^ backoff_exp a \<le> 2 ^ 6" using backoff_exp_bounds(1) by (intro power_increasing) auto
  then have "base * 2 ^ backoff_exp a \<le> 2 ^ 56 * 2 ^ 6"
    using b by (intro mult_mono) auto
  moreover have "0 < base * 2 ^ backoff_exp a" using b by simp
  ultimately have "wrap64 (base * 2 ^ backoff_exp a) = base * 2 ^ backoff_exp a"
    by (intro wrap64_id) auto
  moreover define mx where "mx = (if wd_MaxBackoff d \<le> 0 then 30 * 1000000000 else wd_MaxBackoff d)"
  moreover have "retryDelay d a = (let delay = wrap64 (base * 2 ^ backoff_exp a) in if delay > mx then mx else delay)"
    unfolding retryDelay_def Let_def base_def backoff_exp_def mx_def by (rule refl)
  ultimately show ?thesis unfolding base_def [symmetric] mx_def [symmetric] by (simp add: Let_def min_def)
qed

lemma bumpDecimalString_Inr:
  assumes run: "bumpDecimalString v bps = Inr out" and bps: "0 < bps" "bps < 2 ^ 62"
  obtains n m where "big_SetString v = Some n" "0 \<le> n" "out = int_to_string m" "n < m" "n * (10000 + bps) div 10000 \<le> m"
proof -
  have w: "wrap64 (10000 + bps) = 10000 + bps" using bps by (intro wrap64_id) auto
  obtain n where n: "big_SetString v = Some n" using run by (auto simp: bumpDecimalString_def split: option.splits)
  have pos: "0 \<le> n" using run n by (auto simp: bumpDecimalString_def split: if_splits)
  show thesis
  proof (cases "n = 0")
    case True
    have one: "''1'' = int_to_string 1" by code_simp
    show thesis using run n True by (intro that [OF n, of 1]) (auto simp: bumpDecimalString_def one)
  next
    case False
    let ?o = "n * (10000 + bps) div 10000"
    have "out = int_to_string (if ?o \<le> n then n + 1 else ?o)"
      using run n pos False by (simp add: bumpDecimalString_def Let_def w)
    then show thesis using pos by (intro that [OF n]) auto
  qed
qed

end
