(* ===== verification/Withdraw_Theorems.thy ===== *)
theory Withdraw_Theorems
  imports Dispatcher Ledger_Theorems
begin

text \<open>
  Properties of the orchestrator and the dispatcher: one broadcast or none and no money
  moved, what handling a job does on every path, that a broadcast is not guarded by the
  ledger's status, backoff and fee bounds, and the conversion of display amounts.
\<close>

section \<open>Broadcast or nothing\<close>



definition sample_port :: "nat port" where
  "sample_port =
     \<lparr>pt_Now = (\<lambda>x. 10), pt_BuildUnsignedTx = (\<lambda>p x. (Inr \<lparr>br_UnsignedTx = ''utx'', br_SignHashes = [''h'']\<rparr>, x + 1)),
      pt_Broadcast = (\<lambda>bc x. (Inr ''0xabc'', x + 1)),
      pt_GetBalance = (\<lambda>ch c n a k x. (Inl (Errorf ''down''), x)),
      pt_SignMessage = (\<lambda>t st k m x. (Inr (k @ m), x)),
      pt_PublicKeyFromBase58 = (\<lambda>s. Inr s), pt_FindAssociatedTokenAddress = (\<lambda>a b. Inr (a @ b)),
      pt_Base58Encode = (\<lambda>s. s)\<rparr>"



definition sample_world :: "ledger_db \<Rightarrow> nat world" where
  "sample_world db = \<lparr>w_db = db, w_ext = 0, w_sent = []\<rparr>"



section \<open>Handling a job\<close>



definition sample_dispatcher :: dispatcher where
  "sample_dispatcher = \<lparr>wd_Interval = 0, wd_Batch = 0, wd_AccelerateBatch = 0, wd_Parallelism = 0, wd_MaxAttempts = 0,
     wd_BaseBackoff = 0, wd_MaxBackoff = 0, wd_AccelerateAfter = 0, wd_AccelerateMaxAttempts = 0, wd_AccelerateGasBumpBps = 0\<rparr>"


text \<open>
  What handling a job sends does not depend on the ledger: neither the calls to the
  outside nor the accepted broadcasts of \<open>handleJob\<close> depend on the database. In particular
  a job that is executed again (a second claim after the 30 s lease while the first
  execution is still running, or after its order was released) is broadcast again.
\<close>

theorem handle_job_sends_regardless:
  "w_sent (snd (handleJob P d job (w\<lparr>w_db := db\<rparr>))) = w_sent (snd (handleJob P d job w)) \<and>
   w_ext (snd (handleJob P d job (w\<lparr>w_db := db\<rparr>))) = w_ext (snd (handleJob P d job w))"
proof -
  let ?m = "SpeedUpBroadcasted P (request_of_job job)"
  have "?m (w\<lparr>w_db := db\<rparr>) = (fst (?m w), (snd (?m w))\<lparr>w_db := db\<rparr>)"
    using blind_SpeedUp [of P "request_of_job job"] unfolding blind_def by blast
  then show ?thesis using handleJob_outside [of P d job] by simp
qed


section \<open>Backoff and attempts\<close>

text \<open>
  The retry delay is positive, at most the configured maximum (30 s by default), never
  shrinks as attempts grow, and doubles from the base until the cap of \<open>2^6\<close>, for a base of
  at most \<open>2^56\<close> ns, which keeps the product in 64 bits.
\<close>

theorem retry_delay_bounds:
  assumes "wd_BaseBackoff d \<le> 2 ^ 56" and "a \<le> b"
  shows "0 < retryDelay d a \<and>
         retryDelay d a \<le> (if wd_MaxBackoff d \<le> 0 then 30 * 1000000000 else wd_MaxBackoff d) \<and>
         retryDelay d a \<le> retryDelay d b \<and>
         (1 \<le> a \<and> a \<le> 7 \<longrightarrow>
            retryDelay d a = min ((if wd_BaseBackoff d \<le> 0 then 1000000000 else wd_BaseBackoff d) * 2 ^ nat (a - 1))
                                 (if wd_MaxBackoff d \<le> 0 then 30 * 1000000000 else wd_MaxBackoff d))"
proof -
  let ?B = "if wd_BaseBackoff d \<le> 0 then 1000000000 else wd_BaseBackoff d"
  let ?M = "if wd_MaxBackoff d \<le> 0 then 30 * 1000000000 else wd_MaxBackoff d"
  note E = retryDelay_min [OF assms(1)]
  have pos: "0 < ?B" "0 < ?M" by auto
  have "(2::int) ^ backoff_exp a \<le> 2 ^ backoff_exp b"
    using backoff_exp_bounds(2) [OF assms(2)] by (intro power_increasing) auto
  then have "?B * 2 ^ backoff_exp a \<le> ?B * 2 ^ backoff_exp b" using pos by (intro mult_left_mono) auto
  then have "retryDelay d a \<le> retryDelay d b" unfolding E by (rule min.mono) simp
  moreover have "0 < retryDelay d a" using pos unfolding E by (simp split del: if_split)
  moreover have "backoff_exp a = nat (a - 1)" if "1 \<le> a \<and> a \<le> 7"
    using that by (auto simp: backoff_exp_def minInt_def)
  ultimately show ?thesis unfolding E by (simp split del: if_split)
qed

theorem retry_delay_bounds_witness:
  "retryDelay sample_dispatcher 3 = 4000000000 \<and> retryDelay sample_dispatcher 9 = 30000000000 \<and>
   retryDelay sample_dispatcher 3 \<le> retryDelay sample_dispatcher 9"
proof -
  have "retryDelay sample_dispatcher 3 = 4000000000" "retryDelay sample_dispatcher 9 = 30000000000"
    "wd_BaseBackoff sample_dispatcher \<le> 2 ^ 56" by code_simp+
  then show ?thesis using retry_delay_bounds [of sample_dispatcher 3 9] by simp
qed


section \<open>Replacement fees\<close>

text \<open>
  A replacement payload raises both fees strictly, by at least the configured basis
  points (rounded down), keeps the maximum fee at or above the priority fee, fixes the nonce
  and changes nothing else: the replacement pays the same recipient the same amount with
  the same nonce.
\<close>

theorem replacement_raises_fees:
  assumes run: "bumpEVMReplacementPayload decode encode s bps = Inr s'" and bps: "bps < 2 ^ 62"
  shows "\<exists>p p' pr mx pr' mx'. decode s = Inr p \<and> encode p' = Inr s' \<and>
           big_SetString (evm_MaxPriorityFeePerGas p) = Some pr \<and> big_SetString (evm_MaxFeePerGas p) = Some mx \<and>
           evm_MaxPriorityFeePerGas p' = int_to_string pr' \<and> evm_MaxFeePerGas p' = int_to_string mx' \<and>
           pr < pr' \<and> mx < mx' \<and> pr' \<le> mx' \<and>
           pr * (10000 + (if bps \<le> 0 then 2000 else bps)) div 10000 \<le> pr' \<and>
           mx * (10000 + (if bps \<le> 0 then 2000 else bps)) div 10000 \<le> mx' \<and>
           p' = p\<lparr>evm_NonceMode := ''fixed'', evm_MaxPriorityFeePerGas := int_to_string pr',
                  evm_MaxFeePerGas := int_to_string mx'\<rparr>"
proof -
  define b where "b = (if bps \<le> 0 then 2000 else bps)"
  have b: "0 < b" "b < 2 ^ 62" using bps by (auto simp: b_def)
  obtain p priority maxFee where p: "decode s = Inr p"
    and pr: "bumpDecimalString (evm_MaxPriorityFeePerGas p) b = Inr priority"
    and mx: "bumpDecimalString (evm_MaxFeePerGas p) b = Inr maxFee"
    and enc: "encode (p\<lparr>evm_NonceMode := ''fixed'', evm_MaxPriorityFeePerGas := priority,
       evm_MaxFeePerGas := (if compareDecimalString maxFee priority < 0 then priority else maxFee)\<rparr>) = Inr s'"
    using run by (auto simp: bumpEVMReplacementPayload_def Let_def b_def)
  obtain n1 m1 where 1: "big_SetString (evm_MaxPriorityFeePerGas p) = Some n1" "priority = int_to_string m1"
      "n1 < m1" "n1 * (10000 + b) div 10000 \<le> m1"
    using bumpDecimalString_Inr [OF pr b] by metis
  obtain n2 m2 where 2: "big_SetString (evm_MaxFeePerGas p) = Some n2" "maxFee = int_to_string m2"
      "n2 < m2" "n2 * (10000 + b) div 10000 \<le> m2"
    using bumpDecimalString_Inr [OF mx b] by metis
  have c: "(if compareDecimalString maxFee priority < 0 then priority else maxFee) = int_to_string (max m1 m2)"
    by (auto simp: compareDecimalString_def 1(2) 2(2))
  show ?thesis
    unfolding b_def [symmetric]
    by (rule exI [of _ p], rule exI [of _ "p\<lparr>evm_NonceMode := ''fixed'', evm_MaxPriorityFeePerGas := int_to_string m1,
          evm_MaxFeePerGas := int_to_string (max m1 m2)\<rparr>"], rule exI [of _ n1], rule exI [of _ n2],
        rule exI [of _ m1], rule exI [of _ "max m1 m2"])
       (use p enc 1 2 c in auto)
qed

definition sample_payload :: evm_payload where
  "sample_payload = \<lparr>evm_ChainID = ''1'', evm_NonceMode = [], evm_FromAddress = ''0xA'', evm_Nonce = 7,
     evm_MaxPriorityFeePerGas = ''3'', evm_MaxFeePerGas = ''100'', evm_GasLimit = 21000, evm_ToAddress = ''0xB'',
     evm_Amount = ''30'', evm_ContractAddress = []\<rparr>"

text \<open>A codec that knows one payload: the fees 3 and 100 become 4 and 120.\<close>

theorem replacement_raises_fees_witness:
  "bumpEVMReplacementPayload (\<lambda>_. Inr sample_payload) (\<lambda>p. Inr (evm_MaxPriorityFeePerGas p @ ''/'' @ evm_MaxFeePerGas p))
     ''x'' 2000 = Inr ''4/120'' \<and>
   (\<exists>(p'::evm_payload) pr' mx'. evm_MaxPriorityFeePerGas p' = int_to_string pr' \<and> evm_MaxFeePerGas p' = int_to_string mx' \<and>
      evm_MaxPriorityFeePerGas p' @ ''/'' @ evm_MaxFeePerGas p' = ''4/120'' \<and> 3 < pr' \<and> 100 < mx' \<and>
      evm_Nonce p' = evm_Nonce sample_payload)"
proof -
  let ?e = "\<lambda>p. Inr (evm_MaxPriorityFeePerGas p @ ''/'' @ evm_MaxFeePerGas p) :: string result"
  have run: "bumpEVMReplacementPayload (\<lambda>_. Inr sample_payload) ?e ''x'' 2000 = Inr ''4/120''" by code_simp
  have v: "big_SetString (evm_MaxPriorityFeePerGas sample_payload) = Some 3"
    "big_SetString (evm_MaxFeePerGas sample_payload) = Some 100" by code_simp+
  obtain p p' pr mx pr' mx' where "Inr sample_payload = (Inr p :: evm_payload result)" "?e p' = Inr ''4/120''"
      "big_SetString (evm_MaxPriorityFeePerGas p) = Some pr" "big_SetString (evm_MaxFeePerGas p) = Some mx"
      "evm_MaxPriorityFeePerGas p' = int_to_string pr'" "evm_MaxFeePerGas p' = int_to_string mx'"
      "pr < pr'" "mx < mx'" and p': "p' = p\<lparr>evm_NonceMode := ''fixed'', evm_MaxPriorityFeePerGas := int_to_string pr',
                  evm_MaxFeePerGas := int_to_string mx'\<rparr>"
    using replacement_raises_fees [OF run] by auto
  then show ?thesis
    using v by (intro conjI [OF run]) (rule exI [of _ p'], rule exI [of _ pr'], rule exI [of _ mx'], auto)
qed



section \<open>Signatures\<close>

text \<open>
  The signatures of a broadcast pair up. When \<open>buildSignatures\<close> succeeds it returns one
  signature and one public key per hash; the \<open>i\<close>-th of both belong to the \<open>i\<close>-th signer, or
  to the single signer when there is only one, and the signature is what the sign service
  returned for that signer's key and that hash.
\<close>

theorem signatures_match_signers:
  assumes run: "buildSignatures P t st ch signers hashes w = (Inr (sigs, keys), w')" and i: "i < length hashes"
  shows "length sigs = length hashes \<and> length keys = length hashes \<and>
         (let signer = signers ! min i (length signers - 1) in
            keys ! i = normalizeBroadcastPublicKey P ch (sr_PublicKey signer) \<and>
            (\<exists>x. fst (pt_SignMessage P t st (sr_KeyID signer) (hashes ! i) x) = Inr (sigs ! i))) \<and>
         (length signers = 1 \<or> length hashes \<le> length signers)"
proof -
  have "signers \<noteq> []" and n: "length signers = 1 \<or> length hashes \<le> length signers"
    and loop: "sign_loop P t st ch signers 0 hashes w = (Inr (sigs, keys), w')"
    using run by (auto simp: buildSignatures_def failP_def split: if_splits)
      (metis One_nat_def Suc_lessI length_greater_0_conv not_less)
  have "(if 0 + i \<ge> length signers then length signers - 1 else 0 + i) = min i (length signers - 1)"
    using \<open>signers \<noteq> []\<close> by (cases signers) auto
  then show ?thesis using sign_loop_pairs [OF loop i] n by simp
qed

theorem signatures_match_signers_witness:
  "\<exists>w'. buildSignatures sample_port ''t'' ''ecdsa'' ''ethereum'' [\<lparr>sr_KeyID = ''k'', sr_PublicKey = ''p''\<rparr>] [''h1'', ''h2'']
      (sample_world empty_db) = (Inr ([''kh1'', ''kh2''], [''p'', ''p'']), w') \<and>
    length [''kh1'', ''kh2''] = length [''h1'', ''h2'']"
proof -
  let ?r = "buildSignatures sample_port ''t'' ''ecdsa'' ''ethereum'' [\<lparr>sr_KeyID = ''k'', sr_PublicKey = ''p''\<rparr>]
    [''h1'', ''h2''] (sample_world empty_db)"
  have "fst ?r = Inr ([''kh1'', ''kh2''], [''p'', ''p''])" by code_simp
  then have run: "?r = (Inr ([''kh1'', ''kh2''], [''p'', ''p'']), snd ?r)" by (simp add: prod_eq_iff)
  show ?thesis using signatures_match_signers [OF run, of 0] run by auto
qed


section \<open>Display amounts\<close>

text \<open>
  A display amount is converted exactly: for digits \<open>i\<close> before and \<open>f\<close> after the point,
  with no more fraction digits than the token has decimals \<open>d\<close>, the result is
  \<open>i * 10^d + f * 10^(d - |f|)\<close>, written in decimal.
\<close>

theorem display_amount_exact:
  assumes i: "scan_nat i = Some a" and f: "scan_nat f = Some b" and d: "length f \<le> unat d"
  shows "normalizeDisplayAmount (i @ ''.'' @ f) d =
           Inr (int_to_string (int a * 10 ^ unat d + int b * 10 ^ (unat d - length f)))"
proof -
  have di: "\<forall>c\<in>set i. digit_val c \<noteq> None" and df: "\<forall>c\<in>set f. digit_val c \<noteq> None" and ne: "i \<noteq> []" "f \<noteq> []"
    using scan_nat_digits i f by (auto simp: scan_nat_def split: if_splits)
  have dot: "CHR ''.'' \<notin> set i" "CHR ''.'' \<notin> set f"
    using di df by (auto simp: digit_val_def)
  have parts: "split_on (CHR ''.'') (i @ ''.'' @ f) = [i, f]"
    using dot by (simp add: split_on_append_sep split_on_no_sep)
  have pre: "\<not> has_prefix (i @ ''.'' @ f) ''-''"
    using di ne by (cases i) (auto simp: has_prefix_def digit_val_def)
  have bi: "big_SetString i = Some (int a)" using big_SetString_digits [OF i] .
  have "scan_nat (f @ replicate (unat d - length f) (CHR ''0'')) = Some (b * 10 ^ (unat d - length f))"
    using f by (simp add: scan_nat_def scan_digits_append scan_digits_zeros split: if_splits)
  from big_SetString_digits [OF this]
  have bf: "big_SetString (f @ replicate (unat d - length f) (CHR ''0'')) = Some (int b * 10 ^ (unat d - length f))"
    by simp
  show ?thesis
    using ne d by (simp add: normalizeDisplayAmount_def Let_def parts [simplified] pre [simplified] bi bf)
qed

theorem display_amount_exact_witness:
  "scan_nat ''1'' = Some 1 \<and> scan_nat ''5'' = Some 5 \<and> normalizeDisplayAmount ''1.5'' 2 = Inr ''150''"
proof -
  have 1: "scan_nat ''1'' = Some 1" "scan_nat ''5'' = Some 5" "length ''5'' \<le> unat (2 :: 32 word)" by code_simp+
  have "int_to_string (int 1 * 10 ^ unat (2 :: 32 word) + int 5 * 10 ^ (unat (2 :: 32 word) - length ''5'')) = ''150''"
    by code_simp
  then show ?thesis using display_amount_exact [OF 1] 1 by simp
qed

text \<open>
  The fraction of a display amount is parsed as a signed integer: \<open>1.-5\<close> with two
  decimals is accepted as 95 base units, less than one token, although a leading minus is refused.
\<close>

theorem signed_fraction_accepted:
  "normalizeDisplayAmount ''1.-5'' 2 = Inr ''95'' \<and>
   normalizeDisplayAmount ''-1.5'' 2 = Inl (Errorf ''token amount must be non-negative'')"
  by (intro conjI; code_simp)

end
