(* ===== verification/Sign_Keys.thy ===== *)
theory Sign_Keys
  imports Prelude
begin

text \<open>
  Key references of the sign service (\<open>src/services/sign-service/internal/hd/keyref.go\<close>): a
  key id names a sign type, a chain and the account, change and address index of a BIP-44
  path. Indexes are \<open>uint32\<close>; adding the hardened offset wraps.
\<close>

section \<open>Key ids\<close>

record key_ref =
  kr_SignType :: string
  kr_Chain :: string
  kr_Account :: "32 word"
  kr_Change :: "32 word"
  kr_Index :: "32 word"

definition keyIDPrefix :: string where "keyIDPrefix = ''hd''"

definition hardenedOffset :: "32 word" where "hardenedOffset = 0x80000000"

definition uint_str :: "32 word \<Rightarrow> string" where
  "uint_str w = nat_to_string (unat w)"

definition normalizeSignType :: "string \<Rightarrow> string" where
  "normalizeSignType raw =
     (let v = to_lower (trim_space raw) in
      if v = ''ecdsa'' then ''ecdsa''
      else if v = ''eddsa'' \<or> v = ''ed25519'' then ''eddsa''
      else [])"

definition normalizeChain :: "string \<Rightarrow> string" where
  "normalizeChain raw =
     (let v = to_lower (trim_space raw) in
      if v = ''eth'' then ''ethereum''
      else if v = ''bsc'' then ''binance''
      else if v = ''sol'' then ''solana''
      else if v = ''btc'' then ''bitcoin''
      else if v = ''ltc'' then ''litecoin''
      else if v = ''bch'' then ''bitcoincash''
      else if v = ''doge'' then ''dogecoin''
      else if v = ''xlm'' then ''stellar''
      else if v = [] then []
      else v)"

definition BuildKeyID :: "string \<Rightarrow> string \<Rightarrow> 32 word \<Rightarrow> 32 word \<Rightarrow> 32 word \<Rightarrow> string" where
  "BuildKeyID signType chain account change index =
     join_with (CHR '':'') [keyIDPrefix, normalizeSignType signType, normalizeChain chain,
       uint_str account, uint_str change, uint_str index]"

text \<open>
  Which error \<open>strconv.ParseUint\<close> returns: it reads digit by digit and stops at the first
  character that is no digit or takes the value past \<open>2^32 - 1\<close>. (It quotes the input with Go
  escapes; the model quotes it as it is.)
\<close>

fun uint32_overflows :: "nat \<Rightarrow> string \<Rightarrow> bool" where
  "uint32_overflows acc [] = False"
| "uint32_overflows acc (c # s) =
     (case digit_val c of
        None \<Rightarrow> False
      | Some d \<Rightarrow> if 10 * acc + d \<ge> 2 ^ 32 then True else uint32_overflows (10 * acc + d) s)"

definition parseUint32 :: "string \<Rightarrow> (32 word) result" where
  "parseUint32 raw =
     (let s = trim_space raw in
      case parse_uint32 s of
        None \<Rightarrow> Inl (Errorf (''strconv.ParseUint: parsing '' @ [CHR 0x22] @ s @ [CHR 0x22] @ '': '' @
                  (if uint32_overflows 0 s then ''value out of range'' else ''invalid syntax'')))
      | Some v \<Rightarrow> Inr v)"

definition ParseKeyID :: "string \<Rightarrow> key_ref result" where
  "ParseKeyID raw =
     (let parts = split_on (CHR '':'') (trim_space raw) in
      if length parts \<noteq> 6 then Inl (Errorf ''invalid hd key id'')
      else if to_lower (trim_space (parts ! 0)) \<noteq> keyIDPrefix then Inl (Errorf ''unsupported key id prefix'')
      else
        let signType = normalizeSignType (parts ! 1); chain = normalizeChain (parts ! 2) in
        if signType = [] \<or> chain = [] then Inl (Errorf ''invalid hd key id'')
        else
          bindE (wrapE ''invalid account index: '' (parseUint32 (parts ! 3))) (\<lambda>account.
          bindE (wrapE ''invalid change index: '' (parseUint32 (parts ! 4))) (\<lambda>change.
          bindE (wrapE ''invalid address index: '' (parseUint32 (parts ! 5))) (\<lambda>index.
          Inr \<lparr>kr_SignType = signType, kr_Chain = chain, kr_Account = account, kr_Change = change,
               kr_Index = index\<rparr>))))"

definition ID :: "key_ref \<Rightarrow> string" where
  "ID r = BuildKeyID (kr_SignType r) (kr_Chain r) (kr_Account r) (kr_Change r) (kr_Index r)"


section \<open>Derivation paths\<close>

definition coinTypeForChain :: "string \<Rightarrow> (32 word) result" where
  "coinTypeForChain chain =
     (let c = normalizeChain chain in
      if c \<in> {''ethereum'', ''binance'', ''polygon'', ''arbitrum'', ''optimism'', ''linea'', ''scroll'',
              ''mantle'', ''zksync''} then Inr 60
      else if c = ''tron'' then Inr 195
      else if c = ''cosmos'' then Inr 118
      else if c = ''btt'' then Inr 199
      else if c = ''solana'' then Inr 501
      else if c = ''aptos'' then Inr 637
      else if c = ''sui'' then Inr 784
      else if c = ''ton'' then Inr 607
      else if c = ''stellar'' then Inr 148
      else if c = ''bitcoin'' then Inr 0
      else if c = ''litecoin'' then Inr 2
      else if c = ''dogecoin'' then Inr 3
      else if c = ''dash'' then Inr 5
      else if c = ''zen'' then Inr 121
      else if c = ''bitcoincash'' then Inr 145
      else Inl (Errorf (''unsupported chain for hd key: '' @ chain)))"

definition hardened_str :: "32 word \<Rightarrow> string" where "hardened_str w = uint_str w @ [CHR 0x27]"

definition path_str :: "string list \<Rightarrow> string" where
  "path_str parts = join_with (CHR ''/'') (''m'' # parts)"

definition unsupported_sign_type :: "string \<Rightarrow> go_error" where
  "unsupported_sign_type st = Errorf (''unsupported sign type: '' @ st)"

definition DerivationPath :: "key_ref \<Rightarrow> string result" where
  "DerivationPath r =
     bindE (coinTypeForChain (kr_Chain r)) (\<lambda>coinType.
     if kr_SignType r = ''ecdsa'' then
       Inr (path_str [hardened_str 44, hardened_str coinType, hardened_str (kr_Account r),
                      uint_str (kr_Change r), uint_str (kr_Index r)])
     else if kr_SignType r = ''eddsa'' then
       Inr (path_str [hardened_str 44, hardened_str coinType, hardened_str (kr_Account r),
                      hardened_str (kr_Change r), hardened_str (kr_Index r)])
     else Inl (unsupported_sign_type (kr_SignType r)))"

definition AccountDerivationPath :: "key_ref \<Rightarrow> string result" where
  "AccountDerivationPath r =
     bindE (coinTypeForChain (kr_Chain r)) (\<lambda>coinType.
     if kr_SignType r = ''ecdsa'' \<or> kr_SignType r = ''eddsa'' then
       Inr (path_str [hardened_str 44, hardened_str coinType, hardened_str (kr_Account r)])
     else Inl (unsupported_sign_type (kr_SignType r)))"

definition pathIndexes :: "key_ref \<Rightarrow> (32 word) list result" where
  "pathIndexes r =
     bindE (coinTypeForChain (kr_Chain r)) (\<lambda>coinType.
     if kr_SignType r = ''ecdsa'' then
       Inr [44 + hardenedOffset, coinType + hardenedOffset, kr_Account r + hardenedOffset,
            kr_Change r, kr_Index r]
     else if kr_SignType r = ''eddsa'' then
       Inr [44 + hardenedOffset, coinType + hardenedOffset, kr_Account r + hardenedOffset,
            kr_Change r + hardenedOffset, kr_Index r + hardenedOffset]
     else Inl (unsupported_sign_type (kr_SignType r)))"

definition accountPathIndexes :: "key_ref \<Rightarrow> (32 word) list result" where
  "accountPathIndexes r =
     bindE (coinTypeForChain (kr_Chain r)) (\<lambda>coinType.
     Inr [44 + hardenedOffset, coinType + hardenedOffset, kr_Account r + hardenedOffset])"


section \<open>Lemmas\<close>

text \<open>How BIP-32 writes an index: the hardened half with an apostrophe.\<close>

definition index_str :: "32 word \<Rightarrow> string" where
  "index_str w = (if unat w \<ge> 2 ^ 31 then nat_to_string (unat w - 2 ^ 31) @ [CHR 0x27] else uint_str w)"

lemma index_str_plain: "unat w < 2 ^ 31 \<Longrightarrow> index_str w = uint_str w"
  by (simp add: index_str_def)

lemma unat_hardened:
  assumes "unat w < 2 ^ 31"
  shows "unat (w + hardenedOffset) = unat w + 2 ^ 31"
proof -
  have "unat hardenedOffset = 2 ^ 31" by (simp add: hardenedOffset_def)
  moreover have "unat w + unat hardenedOffset < 2 ^ LENGTH(32)" using assms by (simp add: hardenedOffset_def)
  ultimately show ?thesis by (simp add: unat_add_lem [THEN iffD1])
qed

lemma index_str_hardened: "unat w < 2 ^ 31 \<Longrightarrow> index_str (w + hardenedOffset) = hardened_str w"
  by (simp add: index_str_def unat_hardened hardened_str_def uint_str_def)

lemma coinType_small: "coinTypeForChain c = Inr t \<Longrightarrow> unat t < 2 ^ 31"
  by (auto simp: coinTypeForChain_def Let_def split: if_splits)

lemma normalizeSignType_cases: "normalizeSignType s = [] \<or> normalizeSignType s = ''ecdsa'' \<or> normalizeSignType s = ''eddsa''"
  by (simp add: normalizeSignType_def Let_def)

lemma normalizeSignType_idem [simp]: "normalizeSignType (normalizeSignType s) = normalizeSignType s"
  using normalizeSignType_cases [of s]
  by (elim disjE) (simp_all add: normalizeSignType_def go_string)

lemma normalizeChain_fixed:
  "c \<in> {''ethereum'', ''binance'', ''solana'', ''bitcoin'', ''litecoin'', ''bitcoincash'', ''dogecoin'', ''stellar''}
    \<Longrightarrow> normalizeChain c = c"
  by (elim insertE; (hypsubst, code_simp)?) simp

lemma normalizeChain_idem [simp]: "normalizeChain (normalizeChain s) = normalizeChain s"
proof -
  define v where "v = to_lower (trim_space s)"
  have v: "to_lower (trim_space v) = v" by (simp add: v_def trim_space_to_lower)
  have n: "normalizeChain s = (if v = ''eth'' then ''ethereum'' else if v = ''bsc'' then ''binance''
      else if v = ''sol'' then ''solana'' else if v = ''btc'' then ''bitcoin'' else if v = ''ltc'' then ''litecoin''
      else if v = ''bch'' then ''bitcoincash'' else if v = ''doge'' then ''dogecoin''
      else if v = ''xlm'' then ''stellar'' else v)"
    by (simp only: normalizeChain_def Let_def v_def if_cancel) simp
  show ?thesis
  proof (cases "v \<in> {''eth'', ''bsc'', ''sol'', ''btc'', ''ltc'', ''bch'', ''doge'', ''xlm''}")
    case True
    have "normalizeChain s \<in> {''ethereum'', ''binance'', ''solana'', ''bitcoin'', ''litecoin'', ''bitcoincash'',
        ''dogecoin'', ''stellar''}"
      using True unfolding n by (elim insertE) simp_all
    then show ?thesis by (rule normalizeChain_fixed)
  next
    case False
    then have "normalizeChain s = v" unfolding n by simp
    moreover have "normalizeChain v = v" using False unfolding normalizeChain_def Let_def v by simp
    ultimately show ?thesis by simp
  qed
qed

lemma uint_str_chars: "c \<in> set (uint_str w) \<Longrightarrow> \<not> is_space c \<and> c \<noteq> CHR '':''"
  using nat_to_string_no_space nat_to_string_char_notin [of "CHR '':''"] by (auto simp: uint_str_def)

lemma parseUint32_uint_str [simp]: "parseUint32 (uint_str w) = Inr w"
  by (simp add: parseUint32_def uint_str_def)

lemma join_with_last: "ps \<noteq> [] \<Longrightarrow> last ps \<noteq> [] \<Longrightarrow> join_with c ps \<noteq> [] \<and> last (join_with c ps) = last (last ps)"
  by (induction c ps rule: join_with.induct) auto

text \<open>Any spelling of the sign type and the chain without a separator is read back.\<close>

definition key_id_of :: "string \<Rightarrow> string \<Rightarrow> 32 word \<Rightarrow> 32 word \<Rightarrow> 32 word \<Rightarrow> string" where
  "key_id_of st ch a c i = join_with (CHR '':'') [keyIDPrefix, st, ch, uint_str a, uint_str c, uint_str i]"

lemma BuildKeyID_key_id_of: "BuildKeyID st ch a c i = key_id_of (normalizeSignType st) (normalizeChain ch) a c i"
  by (simp add: BuildKeyID_def key_id_of_def)

lemma trim_key_id_of: "trim_space (key_id_of st ch a c i) = key_id_of st ch a c i"
proof (rule trim_space_id, rule disjI2, intro conjI)
  show "\<not> is_space (hd (key_id_of st ch a c i))"
    by (simp add: key_id_of_def keyIDPrefix_def is_space_def)
  have ne: "uint_str i \<noteq> []" by (simp add: uint_str_def)
  have "last (key_id_of st ch a c i) = last (uint_str i)"
    unfolding key_id_of_def using join_with_last [of "[keyIDPrefix, st, ch, uint_str a, uint_str c, uint_str i]" "CHR '':''"] ne
    by simp
  then show "\<not> is_space (last (key_id_of st ch a c i))"
    using uint_str_chars [of "last (uint_str i)" i] ne by simp
qed

lemma split_key_id_of:
  assumes "CHR '':'' \<notin> set st" "CHR '':'' \<notin> set ch"
  shows "split_on (CHR '':'') (key_id_of st ch a c i) = [keyIDPrefix, st, ch, uint_str a, uint_str c, uint_str i]"
  unfolding key_id_of_def
  by (rule split_on_join) (use assms in \<open>auto simp: keyIDPrefix_def dest: uint_str_chars\<close>)

lemma ParseKeyID_key_id_of:
  assumes "CHR '':'' \<notin> set st" "CHR '':'' \<notin> set ch" "normalizeSignType st \<noteq> []" "normalizeChain ch \<noteq> []"
  shows "ParseKeyID (key_id_of st ch a c i) =
     Inr \<lparr>kr_SignType = normalizeSignType st, kr_Chain = normalizeChain ch, kr_Account = a, kr_Change = c, kr_Index = i\<rparr>"
proof -
  have "to_lower (trim_space keyIDPrefix) = keyIDPrefix" by (simp add: keyIDPrefix_def go_string)
  then show ?thesis
    using assms by (simp add: ParseKeyID_def Let_def trim_key_id_of split_key_id_of)
qed

lemma ParseKeyID_Build:
  assumes "normalizeSignType st \<noteq> []" "normalizeChain ch \<noteq> []" "CHR '':'' \<notin> set (normalizeChain ch)"
  shows "ParseKeyID (BuildKeyID st ch a c i) =
     Inr \<lparr>kr_SignType = normalizeSignType st, kr_Chain = normalizeChain ch, kr_Account = a, kr_Change = c, kr_Index = i\<rparr>"
  unfolding BuildKeyID_key_id_of
  by (subst ParseKeyID_key_id_of) (use assms normalizeSignType_cases [of st] in auto)

lemma split_on_parts: "p \<in> set (split_on c s) \<Longrightarrow> c \<notin> set p"
  by (induction s arbitrary: p) (auto split: if_splits list.splits)

lemma trim_space_set: "c \<in> set (trim_space s) \<Longrightarrow> c \<in> set s"
  by (auto simp: trim_space_def trim_left_def dest!: set_dropWhileD)

lemma lower_char_colon: "lower_char c = CHR '':'' \<Longrightarrow> c = CHR '':''"
proof (rule ccontr)
  assume l: "lower_char c = CHR '':''" and n: "c \<noteq> CHR '':''"
  then have b: "65 \<le> (of_char c :: nat)" "(of_char c :: nat) \<le> 90" "char_of ((of_char c :: nat) + 32) = CHR '':''"
    by (auto simp: lower_char_def Let_def split: if_splits)
  have "(of_char (char_of ((of_char c :: nat) + 32) :: char) :: nat) = of_char c + 32" using b(1,2) by simp
  moreover have "(of_char (CHR '':'') :: nat) = 58" by simp
  ultimately have "(of_char c :: nat) + 32 = 58" unfolding b(3) by simp
  then show False using b(1) by linarith
qed

lemma ParseKeyID_Inr:
  assumes "ParseKeyID raw = Inr r"
  shows "normalizeSignType (kr_SignType r) = kr_SignType r" "kr_SignType r \<noteq> []"
    "normalizeChain (kr_Chain r) = kr_Chain r" "kr_Chain r \<noteq> []" "CHR '':'' \<notin> set (kr_Chain r)"
proof -
  let ?p = "split_on (CHR '':'') (trim_space raw)"
  have r: "length ?p = 6" "kr_SignType r = normalizeSignType (?p ! 1)" "kr_Chain r = normalizeChain (?p ! 2)"
      "normalizeSignType (?p ! 1) \<noteq> []" "normalizeChain (?p ! 2) \<noteq> []"
    using assms by (auto simp: ParseKeyID_def Let_def split: if_splits)
  then show "normalizeSignType (kr_SignType r) = kr_SignType r" "kr_SignType r \<noteq> []"
    "normalizeChain (kr_Chain r) = kr_Chain r" "kr_Chain r \<noteq> []" by simp_all
  have "CHR '':'' \<notin> set (?p ! 2)" using r(1) split_on_parts [of "?p ! 2" "CHR '':''" "trim_space raw"] by simp
  then have "CHR '':'' \<notin> set (to_lower (trim_space (?p ! 2)))"
    using trim_space_set lower_char_colon by (fastforce simp: to_lower_def)
  then show "CHR '':'' \<notin> set (kr_Chain r)" unfolding r(3) normalizeChain_def Let_def by auto
qed

end
