(* ===== verification/Sign_Policy.thy ===== *)
theory Sign_Policy
  imports Sign_Keys "HOL-Library.AList"
begin

text \<open>
  The policy engine of the sign service (\<open>src/services/sign-service/internal/policy/engine.go\<close>):
  the token, tenant and key checks of a request, and a rate limit with one bucket per token,
  tenant and operation.

  The map of buckets is an association list with distinct keys. Instants and durations are
  integers in nanoseconds; the instants \<open>time.Now()\<close> returns are arguments. The incoming
  gRPC metadata is \<open>None\<close> or a list of keys, in lower case as gRPC keeps them, with their
  values. The audit log is the list of events written; their JSON text is not modelled.
\<close>

section \<open>Data\<close>

datatype rpc_code = PermissionDenied | InvalidArgument | ResourceExhausted

text \<open>\<open>status.Error(code, message)\<close>, or an error of another function returned as it is.\<close>

datatype rpc_error = Status rpc_code string | Plain go_error

definition rpc_text :: "rpc_error \<Rightarrow> string" where
  "rpc_text e = (case e of
      Status c m \<Rightarrow> ''rpc error: code = '' @
        (case c of PermissionDenied \<Rightarrow> ''PermissionDenied'' | InvalidArgument \<Rightarrow> ''InvalidArgument''
         | ResourceExhausted \<Rightarrow> ''ResourceExhausted'') @ '' desc = '' @ m
    | Plain g \<Rightarrow> error_text g)"

type_synonym metadata = "(string \<times> string list) list option"

record policy_config =
  cfg_AuthToken :: string
  cfg_RateLimitWindow :: int
  cfg_RateLimitMaxRequests :: int
  cfg_AllowedTenants :: "string list"

record decision =
  dc_TokenLabel :: string
  dc_TenantID :: string
  dc_KeyID :: string
  dc_SignType :: string
  dc_Operation :: string

record bucket =
  bk_start :: int
  bk_count :: int

record audit_event =
  ev_At :: int
  ev_Allowed :: bool
  ev_Operation :: string
  ev_TenantID :: string
  ev_SignType :: string
  ev_KeyID :: string
  ev_Token :: string
  ev_Reason :: string

record engine =
  en_authToken :: string
  en_window :: int
  en_maxRequests :: int
  en_allowedTenants :: "string list"
  en_buckets :: "(string \<times> bucket) list"
  en_audit :: "audit_event list"


section \<open>Construction\<close>

text \<open>The allowed tenants as the list of the keys of the map, \<open>nil\<close> as the empty list.\<close>

definition makeAllowedTenants :: "string list \<Rightarrow> string list" where
  "makeAllowedTenants items = remdups (filter (\<lambda>v. v \<noteq> []) (map trim_space items))"

definition New :: "policy_config \<Rightarrow> engine" where
  "New cfg =
     \<lparr>en_authToken = trim_space (cfg_AuthToken cfg),
      en_window = (if cfg_RateLimitWindow cfg \<le> 0 then 60000000000 else cfg_RateLimitWindow cfg),
      en_maxRequests = (if cfg_RateLimitMaxRequests cfg \<le> 0 then 300 else cfg_RateLimitMaxRequests cfg),
      en_allowedTenants = makeAllowedTenants (cfg_AllowedTenants cfg),
      en_buckets = [], en_audit = []\<rparr>"


section \<open>Request metadata\<close>

fun metadata_value :: "(string \<times> string list) list \<Rightarrow> string list \<Rightarrow> string" where
  "metadata_value md [] = []"
| "metadata_value md (key # keys) =
     (case map_of md (to_lower key) of
        Some (v # vs) \<Rightarrow>
          (let t0 = trim_space v;
               token = (if has_prefix (to_lower t0) ''bearer '' then trim_space (drop 7 t0) else t0)
           in if token \<noteq> [] then token else metadata_value md keys)
      | _ \<Rightarrow> metadata_value md keys)"

definition metadataValueFromContext :: "metadata \<Rightarrow> string list \<Rightarrow> string" where
  "metadataValueFromContext ctx keys = (case ctx of None \<Rightarrow> [] | Some md \<Rightarrow> metadata_value md keys)"

definition tokenFromContext :: "metadata \<Rightarrow> string" where
  "tokenFromContext ctx = metadataValueFromContext ctx [''authorization'', ''x-sign-token'']"

definition tenantFromContext :: "metadata \<Rightarrow> string" where
  "tenantFromContext ctx = trim_space (metadataValueFromContext ctx [''x-tenant-id'', ''tenant-id'', ''x-tenant''])"

definition maskToken :: "string \<Rightarrow> string" where
  "maskToken token =
     (let t = trim_space token in
      if t = [] then ''anonymous''
      else if length t \<le> 6 then t
      else take 3 t @ ''***'' @ drop (length t - 3) t)"


section \<open>Rate limit\<close>

definition bucketKey :: "string \<Rightarrow> string \<Rightarrow> string \<Rightarrow> string" where
  "bucketKey token tenantID operation =
     trim_space token @ ''|'' @ trim_space tenantID @ ''|'' @ trim_space operation"

definition expired :: "engine \<Rightarrow> int \<Rightarrow> bucket \<Rightarrow> bool" where
  "expired e now b \<longleftrightarrow> now - bk_start b \<ge> en_window e"

definition allow :: "int \<Rightarrow> string \<Rightarrow> string \<Rightarrow> string \<Rightarrow> engine \<Rightarrow> rpc_error option \<times> engine" where
  "allow now token tenantID operation e =
     (let key = bucketKey token tenantID operation;
          bs = (if length (en_buckets e) > 10000
                then filter (\<lambda>(k, b). \<not> expired e now b) (en_buckets e) else en_buckets e);
          put = (\<lambda>b. e\<lparr>en_buckets := AList.update key b bs\<rparr>)
      in
      case map_of bs key of
        None \<Rightarrow> (None, put \<lparr>bk_start = now, bk_count = 1\<rparr>)
      | Some b \<Rightarrow>
          if expired e now b then (None, put \<lparr>bk_start = now, bk_count = 1\<rparr>)
          else if bk_count b \<ge> en_maxRequests e then
            (Some (Status ResourceExhausted ''sign service rate limit exceeded''), e\<lparr>en_buckets := bs\<rparr>)
          else (None, put (b\<lparr>bk_count := bk_count b + 1\<rparr>)))"


section \<open>Authorisation\<close>

definition audit :: "int \<Rightarrow> decision \<Rightarrow> rpc_error option \<Rightarrow> engine \<Rightarrow> engine" where
  "audit at d err e =
     e\<lparr>en_audit := en_audit e @
       [\<lparr>ev_At = at, ev_Allowed = (err = None), ev_Operation = dc_Operation d, ev_TenantID = dc_TenantID d,
         ev_SignType = dc_SignType d, ev_KeyID = dc_KeyID d, ev_Token = dc_TokenLabel d,
         ev_Reason = (case err of None \<Rightarrow> [] | Some x \<Rightarrow> rpc_text x)\<rparr>]\<rparr>"

text \<open>The checks of a \<open>derive\<close> or \<open>sign\<close> request; they return the sign type of the key.\<close>

definition check_key :: "engine \<Rightarrow> decision \<Rightarrow> rpc_error + string" where
  "check_key e d =
     (if dc_TenantID d = [] then Inl (Status InvalidArgument ''tenant id is required'')
      else if en_allowedTenants e \<noteq> [] \<and> dc_TenantID d \<notin> set (en_allowedTenants e) then
        Inl (Status PermissionDenied ''tenant is not allowed by signer policy'')
      else if dc_KeyID d = [] then Inl (Status InvalidArgument ''key_id is required'')
      else if \<not> has_prefix (to_lower (dc_KeyID d)) ''hd:'' then
        Inl (Status PermissionDenied ''legacy key material is disabled'')
      else
        case ParseKeyID (dc_KeyID d) of
          Inl parseErr \<Rightarrow> Inl (Status InvalidArgument (error_text parseErr))
        | Inr ref \<Rightarrow>
            if dc_SignType d \<noteq> [] \<and> dc_SignType d \<noteq> kr_SignType ref then
              Inl (Status InvalidArgument ''sign type mismatch'')
            else Inr (kr_SignType ref))"

definition authorize_body ::
  "int \<Rightarrow> metadata \<Rightarrow> string \<Rightarrow> string \<Rightarrow> string \<Rightarrow> engine \<Rightarrow> (decision \<times> rpc_error option) \<times> engine" where
  "authorize_body now ctx operation signType keyID e =
     (let token = tokenFromContext ctx;
          d = \<lparr>dc_TokenLabel = maskToken token, dc_TenantID = tenantFromContext ctx, dc_KeyID = trim_space keyID,
               dc_SignType = normalizeSignType signType, dc_Operation = trim_space operation\<rparr>
      in
      if token = [] \<or> token \<noteq> en_authToken e then
        ((d, Some (Status PermissionDenied ''sign service auth failed'')), e)
      else if dc_Operation d = [] then ((d, Some (Status InvalidArgument ''operation is required'')), e)
      else
        case (if dc_Operation d = ''derive'' \<or> dc_Operation d = ''sign'' then check_key e d else Inr (dc_SignType d)) of
          Inl err \<Rightarrow> ((d, Some err), e)
        | Inr st \<Rightarrow>
            let d' = d\<lparr>dc_SignType := st\<rparr>; (rateErr, e') = allow now token (dc_TenantID d') (dc_Operation d') e
            in ((d', rateErr), e'))"

definition Authorize ::
  "int \<Rightarrow> int \<Rightarrow> metadata \<Rightarrow> string \<Rightarrow> string \<Rightarrow> string \<Rightarrow> engine \<Rightarrow> (decision \<times> rpc_error option) \<times> engine" where
  "Authorize now at ctx operation signType keyID e =
     (case authorize_body now ctx operation signType keyID e of
        ((d, err), e') \<Rightarrow> ((d, err), audit at d err e'))"


section \<open>Buckets\<close>

text \<open>The map has one bucket per key, and every bucket has let through between 1 and the limit.\<close>

definition good_engine :: "engine \<Rightarrow> bool" where
  "good_engine e \<longleftrightarrow> 0 < en_window e \<and> 1 \<le> en_maxRequests e \<and> distinct (map fst (en_buckets e)) \<and>
     (\<forall>(k, b)\<in>set (en_buckets e). 1 \<le> bk_count b \<and> bk_count b \<le> en_maxRequests e)"

definition live_buckets :: "int \<Rightarrow> engine \<Rightarrow> (string \<times> bucket) list" where
  "live_buckets now e =
     (if length (en_buckets e) > 10000 then filter (\<lambda>(k, b). \<not> expired e now b) (en_buckets e) else en_buckets e)"

text \<open>How many requests of a key can still be let through before \<open>t + window\<close>, from \<open>t\<close> on.\<close>

definition rem_of :: "int \<Rightarrow> int \<Rightarrow> bucket option \<Rightarrow> int" where
  "rem_of t m bo =
     (case bo of None \<Rightarrow> m | Some b \<Rightarrow> if t \<le> bk_start b then m - bk_count b else 2 * m - bk_count b)"

definition remaining :: "int \<Rightarrow> string \<Rightarrow> engine \<Rightarrow> int" where
  "remaining t key e = rem_of t (en_maxRequests e) (map_of (en_buckets e) key)"

lemma rem_of_simps [simp]:
  "rem_of t m None = m"
  "rem_of t m (Some b) = (if t \<le> bk_start b then m - bk_count b else 2 * m - bk_count b)"
  by (simp_all add: rem_of_def)

lemma New_good: "good_engine (New cfg)"
  by (simp add: good_engine_def New_def)

lemma allow_live:
  "allow now token tenantID operation e =
     (let key = bucketKey token tenantID operation; bs = live_buckets now e in
      case map_of bs key of
        None \<Rightarrow> (None, e\<lparr>en_buckets := AList.update key \<lparr>bk_start = now, bk_count = 1\<rparr> bs\<rparr>)
      | Some b \<Rightarrow>
          if expired e now b then (None, e\<lparr>en_buckets := AList.update key \<lparr>bk_start = now, bk_count = 1\<rparr> bs\<rparr>)
          else if bk_count b \<ge> en_maxRequests e then
            (Some (Status ResourceExhausted ''sign service rate limit exceeded''), e\<lparr>en_buckets := bs\<rparr>)
          else (None, e\<lparr>en_buckets := AList.update key (b\<lparr>bk_count := bk_count b + 1\<rparr>) bs\<rparr>))"
  unfolding allow_def live_buckets_def Let_def by simp

lemma live_buckets_good:
  assumes "good_engine e"
  shows "distinct (map fst (live_buckets now e))"
    and "(k, b) \<in> set (live_buckets now e) \<Longrightarrow> 1 \<le> bk_count b \<and> bk_count b \<le> en_maxRequests e"
  using assms by (auto simp: good_engine_def live_buckets_def distinct_map inj_on_def split: if_splits)

lemma map_of_filter_distinct:
  assumes "distinct (map fst xs)"
  shows "map_of (filter P xs) key = Option.bind (map_of xs key) (\<lambda>b. if P (key, b) then Some b else None)"
  using assms
  by (induction xs) (auto split: bind_splits dest: map_of_SomeD weak_map_of_SomeI, (force dest: map_of_SomeD)+)

lemma map_of_live:
  assumes "good_engine e"
  shows "map_of (live_buckets now e) k = map_of (en_buckets e) k \<or>
         (map_of (live_buckets now e) k = None \<and> (\<exists>b. map_of (en_buckets e) k = Some b \<and> expired e now b))"
  using assms unfolding live_buckets_def good_engine_def
  by (auto simp: map_of_filter_distinct split: bind_splits)

lemma update_good:
  assumes "good_engine e" "1 \<le> bk_count b" "bk_count b \<le> en_maxRequests e"
  shows "good_engine (e\<lparr>en_buckets := AList.update key b (live_buckets now e)\<rparr>)"
proof -
  have "distinct (map fst (AList.update key b (live_buckets now e)))"
    using live_buckets_good(1) [OF assms(1)] by (rule distinct_update)
  moreover have "1 \<le> bk_count b' \<and> bk_count b' \<le> en_maxRequests e"
    if "(k, b') \<in> set (AList.update key b (live_buckets now e))" for k b'
    using that live_buckets_good(2) [OF assms(1), of k b' now] assms(2,3)
    by (metis (no_types, lifting) calculation map_of_is_SomeI map_of_SomeD update_conv' fun_upd_apply option.inject)
  ultimately show ?thesis using assms(1) by (auto simp: good_engine_def)
qed

lemma allow_good:
  assumes "good_engine e"
  shows "good_engine (snd (allow now token tenantID operation e))"
proof -
  have new: "good_engine (e\<lparr>en_buckets := AList.update k \<lparr>bk_start = now, bk_count = 1\<rparr> (live_buckets now e)\<rparr>)" for k
    by (rule update_good) (use assms in \<open>auto simp: good_engine_def\<close>)
  have same: "good_engine (e\<lparr>en_buckets := live_buckets now e\<rparr>)"
    using assms live_buckets_good [OF assms] by (auto simp: good_engine_def)
  show ?thesis
  proof (cases "map_of (live_buckets now e) (bucketKey token tenantID operation)")
    case None then show ?thesis using new by (simp add: allow_live Let_def)
  next
    case (Some b)
    then have "1 \<le> bk_count b" using live_buckets_good(2) [OF assms] by (metis map_of_SomeD)
    then have "bk_count b < en_maxRequests e \<Longrightarrow>
        good_engine (e\<lparr>en_buckets := AList.update k (b\<lparr>bk_count := bk_count b + 1\<rparr>) (live_buckets now e)\<rparr>)" for k
      by (intro update_good) (use assms in auto)
    then show ?thesis using Some new same by (auto simp: allow_live Let_def)
  qed
qed

lemma allow_fields:
  "en_window (snd (allow now token tenantID operation e)) = en_window e"
  "en_maxRequests (snd (allow now token tenantID operation e)) = en_maxRequests e"
  "en_authToken (snd (allow now token tenantID operation e)) = en_authToken e"
  "en_allowedTenants (snd (allow now token tenantID operation e)) = en_allowedTenants e"
  by (auto simp: allow_live Let_def split: option.splits)

text \<open>
  Inside the interval \<open>[t, t + window)\<close> a request let through costs at least one of what
  remains of its key, and no request gives anything back.
\<close>

lemma remaining_nonneg: "good_engine e \<Longrightarrow> 0 \<le> remaining t key e"
  by (cases "map_of (en_buckets e) key") (auto simp: remaining_def good_engine_def dest!: map_of_SomeD)

lemma remaining_bound: "good_engine e \<Longrightarrow> remaining t key e \<le> 2 * en_maxRequests e - 1"
  by (cases "map_of (en_buckets e) key") (auto simp: remaining_def good_engine_def dest!: map_of_SomeD)

lemma allow_remaining:
  assumes good: "good_engine e" and t: "t \<le> now" "now < t + en_window e"
    and run: "allow now token tenantID operation e = (r, e')"
  shows "remaining t key e' + (if r = None \<and> key = bucketKey token tenantID operation then 1 else 0)
           \<le> remaining t key e"
proof -
  let ?key = "bucketKey token tenantID operation" and ?bs = "live_buckets now e" and ?m = "en_maxRequests e"
  have m: "1 \<le> ?m" and cnt: "map_of (en_buckets e) k = Some b \<Longrightarrow> 1 \<le> bk_count b \<and> bk_count b \<le> ?m" for k b
    using good by (auto simp: good_engine_def dest: map_of_SomeD)
  have gone: "remaining t k (e\<lparr>en_buckets := ?bs\<rparr>) \<le> remaining t k e" for k
    using map_of_live [OF good, of now k] cnt [of k] t
    by (auto simp: remaining_def expired_def split: option.splits)
  have other: "remaining t k (e\<lparr>en_buckets := AList.update ?key b ?bs\<rparr>) \<le> remaining t k e" if "k \<noteq> ?key" for k b
    using gone [of k] that by (simp add: remaining_def update_conv')
  have new: "remaining t ?key (e\<lparr>en_buckets := AList.update ?key \<lparr>bk_start = now, bk_count = 1\<rparr> ?bs\<rparr>) + 1 \<le> remaining t ?key e"
    if "map_of ?bs ?key = None \<or> (\<exists>b. map_of ?bs ?key = Some b \<and> expired e now b)"
    using that map_of_live [OF good, of now ?key] cnt [of ?key] t m
    by (auto simp: remaining_def update_conv' expired_def split: option.splits)
  have step: "remaining t ?key (e\<lparr>en_buckets := AList.update ?key (b\<lparr>bk_count := bk_count b + 1\<rparr>) ?bs\<rparr>) + 1 \<le> remaining t ?key e"
    if "map_of ?bs ?key = Some b" for b
  proof -
    have "map_of (en_buckets e) ?key = Some b" using that map_of_live [OF good, of now ?key] by auto
    then show ?thesis by (simp add: remaining_def update_conv')
  qed
  show ?thesis
    using run gone [of key] other [of key] new step
    by (auto simp: allow_live Let_def split: option.splits if_splits)
qed


section \<open>What an authorised request has passed\<close>

lemma check_key_Inr:
  "check_key e d = Inr st \<longleftrightarrow>
     dc_TenantID d \<noteq> [] \<and> (en_allowedTenants e = [] \<or> dc_TenantID d \<in> set (en_allowedTenants e)) \<and>
     dc_KeyID d \<noteq> [] \<and> has_prefix (to_lower (dc_KeyID d)) ''hd:'' \<and>
     (\<exists>ref. ParseKeyID (dc_KeyID d) = Inr ref \<and> st = kr_SignType ref \<and> (dc_SignType d = [] \<or> dc_SignType d = st))"
  by (auto simp: check_key_def split: sum.splits)

lemma ParseKeyID_trim [simp]: "ParseKeyID (trim_space raw) = ParseKeyID raw"
  by (simp add: ParseKeyID_def)

lemma authorize_body_allowed:
  assumes "authorize_body now ctx operation signType keyID e = ((d, None), e')"
  shows "tokenFromContext ctx \<noteq> []" "tokenFromContext ctx = en_authToken e"
    "dc_TenantID d = tenantFromContext ctx" "dc_Operation d = trim_space operation"
    "trim_space operation \<in> {''derive'', ''sign''} \<Longrightarrow>
       tenantFromContext ctx \<noteq> [] \<and>
       (en_allowedTenants e = [] \<or> tenantFromContext ctx \<in> set (en_allowedTenants e)) \<and>
       (\<exists>ref. ParseKeyID keyID = Inr ref \<and> dc_SignType d = kr_SignType ref \<and>
          (normalizeSignType signType = [] \<or> normalizeSignType signType = kr_SignType ref))"
    "allow now (tokenFromContext ctx) (tenantFromContext ctx) (trim_space operation) e = (None, e')"
  using assms
  by (auto simp: authorize_body_def Let_def check_key_Inr split: if_splits sum.splits prod.splits)

lemma authorize_body_state:
  assumes "authorize_body now ctx operation signType keyID e = ((d, r), e')"
  shows "(e' = e \<and> r \<noteq> None) \<or>
         allow now (tokenFromContext ctx) (tenantFromContext ctx) (trim_space operation) e = (r, e')"
  using assms by (auto simp: authorize_body_def Let_def split: if_splits sum.splits prod.splits)

end
