(* ===== verification/Sign_Derive.thy ===== *)
theory Sign_Derive
  imports Sign_Keys
begin

text \<open>
  Hierarchical key derivation (\<open>src/services/sign-service/internal/hd/derive.go\<close>) and the two
  signature functions (\<open>internal/crypto\<close>). Bytes are strings; \<open>big.Int\<close> is \<open>nat\<close> on the
  big-endian bytes.

  The cryptographic primitives are third-party code and are arguments: HMAC-SHA512, the
  secp256k1 functions of go-ethereum and \<open>crypto/ed25519\<close>. \<open>secp_laws\<close> names what the
  derivation relies on: the curve's group law, that a compressed point is read back, and the
  sizes.
\<close>

section \<open>Primitives\<close>

record ('k, 'p) primitives =
  pr_HMAC :: "string \<Rightarrow> string \<Rightarrow> string"
  pr_N :: nat
  pr_ToECDSA :: "string \<Rightarrow> 'k result"
  pr_FromECDSA :: "'k \<Rightarrow> string"
  pr_PublicKey :: "'k \<Rightarrow> 'p"
  pr_ScalarBaseMult :: "string \<Rightarrow> 'p"
  pr_Add :: "'p \<Rightarrow> 'p \<Rightarrow> 'p option"
  pr_CompressPubkey :: "'p \<Rightarrow> string"
  pr_FromECDSAPub :: "'p \<Rightarrow> string"
  pr_DecompressPubkey :: "string \<Rightarrow> 'p result"
  pr_UnmarshalPubkey :: "string \<Rightarrow> 'p result"
  pr_SignECDSA :: "string \<Rightarrow> 'k \<Rightarrow> string result"
  pr_HexToHash :: "string \<Rightarrow> string"
  pr_EdKeyFromSeed :: "string \<Rightarrow> string"
  pr_EdPublic :: "string \<Rightarrow> string"
  pr_EdSign :: "string \<Rightarrow> string \<Rightarrow> string"

definition hmacSHA512 :: "('k, 'p) primitives \<Rightarrow> string \<Rightarrow> string \<Rightarrow> string" where
  "hmacSHA512 C key msg = pr_HMAC C key msg"

definition appendUint32 :: "string \<Rightarrow> 32 word \<Rightarrow> string" where
  "appendUint32 dst v =
     dst @ [char_of (unat (drop_bit 24 v)), char_of (unat (drop_bit 16 v)), char_of (unat (drop_bit 8 v)), char_of (unat v)]"

definition leftPad :: "string \<Rightarrow> nat \<Rightarrow> string" where
  "leftPad src n =
     (if length src \<ge> n then drop (length src - n) src
      else replicate (n - length src) (CHR 0x00) @ src)"

definition stringsTrimHex :: "string \<Rightarrow> string" where
  "stringsTrimHex raw = trim_prefix (trim_prefix (trim_space raw) ''0x'') ''0X''"

text \<open>\<open>hex.DecodeString\<close> with an error.\<close>

definition hex_DecodeString :: "string \<Rightarrow> string result" where
  "hex_DecodeString s = (case hex_decode s of None \<Rightarrow> Inl (Errorf ''encoding/hex: invalid input'') | Some b \<Rightarrow> Inr b)"


section \<open>secp256k1\<close>

definition validateSecpKey :: "('k, 'p) primitives \<Rightarrow> string \<Rightarrow> unit result" where
  "validateSecpKey C key =
     (if length key \<noteq> 32 then Inl (Errorf ''invalid secp256k1 key length'')
      else if bytes_nat key = 0 \<or> bytes_nat key \<ge> pr_N C then Inl (Errorf ''invalid secp256k1 private key'')
      else Inr ())"

definition secpMaster :: "('k, 'p) primitives \<Rightarrow> string \<Rightarrow> (string \<times> string) result" where
  "secpMaster C seed =
     (let s = hmacSHA512 C ''Bitcoin seed'' seed; key = take 32 s; chainCode = drop 32 s in
      bindE (validateSecpKey C key) (\<lambda>_. Inr (key, chainCode)))"

definition secpChild :: "('k, 'p) primitives \<Rightarrow> string \<Rightarrow> string \<Rightarrow> 32 word \<Rightarrow> (string \<times> string) result" where
  "secpChild C parentKey parentChainCode index =
     (if length parentKey \<noteq> 32 \<or> length parentChainCode \<noteq> 32 then Inl (Errorf ''invalid parent key state'')
      else
        bindE (if index \<ge> hardenedOffset then Inr (CHR 0x00 # parentKey)
               else bindE (pr_ToECDSA C parentKey) (\<lambda>privKey. Inr (pr_CompressPubkey C (pr_PublicKey C privKey))))
          (\<lambda>msg.
        let s = hmacSHA512 C parentChainCode (appendUint32 msg index);
            parsed = bytes_nat (take 32 s)
        in
        if parsed = 0 \<or> parsed \<ge> pr_N C then Inl (Errorf ''derived invalid secp256k1 child key'')
        else
          let child = (parsed + bytes_nat parentKey) mod pr_N C in
          if child = 0 then Inl (Errorf ''derived zero secp256k1 child key'')
          else Inr (leftPad (nat_bytes child) 32, drop 32 s)))"

definition parseSecpPublicKey :: "('k, 'p) primitives \<Rightarrow> string \<Rightarrow> 'p result" where
  "parseSecpPublicKey C pub =
     (case pr_DecompressPubkey C pub of Inr p \<Rightarrow> Inr p | Inl _ \<Rightarrow> pr_UnmarshalPubkey C pub)"

definition secpChildPublic :: "('k, 'p) primitives \<Rightarrow> string \<Rightarrow> string \<Rightarrow> 32 word \<Rightarrow> (string \<times> string) result" where
  "secpChildPublic C parentCompressed parentChainCode index =
     (if parentCompressed = [] \<or> length parentChainCode \<noteq> 32 then Inl (Errorf ''invalid parent public key state'')
      else if index \<ge> hardenedOffset then
        Inl (Errorf ''public derivation does not support hardened child index'')
      else
        let s = hmacSHA512 C parentChainCode (appendUint32 parentCompressed index);
            il = bytes_nat (take 32 s)
        in
        if il = 0 \<or> il \<ge> pr_N C then Inl (Errorf ''derived invalid secp256k1 child public key'')
        else
          bindE (parseSecpPublicKey C parentCompressed) (\<lambda>parentPub.
          case pr_Add C (pr_ScalarBaseMult C (take 32 s)) parentPub of
            None \<Rightarrow> Inl (Errorf ''derived invalid secp256k1 child public key'')
          | Some p \<Rightarrow> Inr (pr_CompressPubkey C p, drop 32 s)))"

fun derive_path :: "('k, 'p) primitives \<Rightarrow> string \<times> string \<Rightarrow> (32 word) list \<Rightarrow> (string \<times> string) result" where
  "derive_path C st [] = Inr st"
| "derive_path C (key, chainCode) (index # path) =
     bindE (secpChild C key chainCode index) (\<lambda>st. derive_path C st path)"

definition deriveECDSAKeyState :: "('k, 'p) primitives \<Rightarrow> string \<Rightarrow> (32 word) list \<Rightarrow> (string \<times> string) result" where
  "deriveECDSAKeyState C masterSeed path =
     bindE (secpMaster C masterSeed) (\<lambda>st. derive_path C st path)"

definition deriveECDSAPrivate :: "('k, 'p) primitives \<Rightarrow> string \<Rightarrow> (32 word) list \<Rightarrow> string result" where
  "deriveECDSAPrivate C masterSeed path =
     bindE (deriveECDSAKeyState C masterSeed path) (\<lambda>(key, _).
     bindE (pr_ToECDSA C key) (\<lambda>privKey. Inr (hex_encode (pr_FromECDSA C privKey))))"

definition deriveECDSAChildFromAccount ::
  "('k, 'p) primitives \<Rightarrow> string \<Rightarrow> string \<Rightarrow> 32 word \<Rightarrow> 32 word \<Rightarrow> (string \<times> string) result" where
  "deriveECDSAChildFromAccount C accountCompressed accountChainCode changeIndex addressIndex =
     bindE (secpChildPublic C accountCompressed accountChainCode changeIndex) (\<lambda>(changePub, changeChainCode).
     bindE (secpChildPublic C changePub changeChainCode addressIndex) (\<lambda>(childPub, _).
     bindE (parseSecpPublicKey C childPub) (\<lambda>pub.
     Inr (hex_encode (pr_CompressPubkey C pub), hex_encode (pr_FromECDSAPub C pub)))))"

definition DeriveECDSAChildPublic ::
  "('k, 'p) primitives \<Rightarrow> string \<Rightarrow> string \<Rightarrow> 32 word \<Rightarrow> 32 word \<Rightarrow> (string \<times> string) result" where
  "DeriveECDSAChildPublic C accountCompressedHex accountChainCodeHex changeIndex addressIndex =
     bindE (wrapE ''decode account public key: '' (hex_DecodeString (stringsTrimHex accountCompressedHex))) (\<lambda>accountCompressed.
     bindE (wrapE ''decode account chain code: '' (hex_DecodeString (stringsTrimHex accountChainCodeHex))) (\<lambda>accountChainCode.
     bindE (secpChildPublic C accountCompressed accountChainCode changeIndex) (\<lambda>(changePub, changeChainCode).
     bindE (secpChildPublic C changePub changeChainCode addressIndex) (\<lambda>(childPub, _).
     bindE (parseSecpPublicKey C childPub) (\<lambda>pub.
     Inr (hex_encode (pr_CompressPubkey C pub), hex_encode (pr_FromECDSAPub C pub)))))))"


section \<open>ed25519\<close>

definition edMaster :: "('k, 'p) primitives \<Rightarrow> string \<Rightarrow> string \<times> string" where
  "edMaster C seed = (let s = hmacSHA512 C ''ed25519 seed'' seed in (take 32 s, drop 32 s))"

definition edChild :: "('k, 'p) primitives \<Rightarrow> string \<Rightarrow> string \<Rightarrow> 32 word \<Rightarrow> string \<times> string" where
  "edChild C parentSeed parentChainCode index =
     (let s = hmacSHA512 C parentChainCode (appendUint32 (CHR 0x00 # parentSeed) index) in (take 32 s, drop 32 s))"

text \<open>The loop both ed25519 functions run over the path.\<close>

fun ed_path :: "('k, 'p) primitives \<Rightarrow> string \<times> string \<Rightarrow> (32 word) list \<Rightarrow> (string \<times> string) result" where
  "ed_path C st [] = Inr st"
| "ed_path C (seed, chainCode) (index # path) =
     (if index < hardenedOffset then Inl (Errorf ''ed25519 derivation only supports hardened children'')
      else ed_path C (edChild C seed chainCode index) path)"

definition deriveEdDSAPrivate :: "('k, 'p) primitives \<Rightarrow> string \<Rightarrow> (32 word) list \<Rightarrow> string result" where
  "deriveEdDSAPrivate C masterSeed path =
     bindE (ed_path C (edMaster C masterSeed) path) (\<lambda>(seed, _). Inr (hex_encode (pr_EdKeyFromSeed C seed)))"

definition deriveEdDSAPublic :: "('k, 'p) primitives \<Rightarrow> string \<Rightarrow> key_ref \<Rightarrow> string result" where
  "deriveEdDSAPublic C masterSeed ref =
     bindE (pathIndexes ref) (\<lambda>path.
     bindE (ed_path C (edMaster C masterSeed) path) (\<lambda>(seed, _).
     Inr (hex_encode (pr_EdPublic C (pr_EdKeyFromSeed C seed)))))"


section \<open>Derived keys\<close>

record derived_key =
  dk_KeyID :: string
  dk_DerivationPath :: string
  dk_PublicKeyHex :: string
  dk_AlternatePublicKey :: string
  dk_PublicDerivationSupported :: bool
  dk_AccountPublicKeyHex :: string
  dk_AccountAlternatePublicKey :: string
  dk_AccountChainCodeHex :: string
  dk_AccountDerivationPath :: string

record signing_key =
  sk_KeyID :: string
  sk_DerivationPath :: string
  sk_PrivateKeyHex :: string

definition deriveECDSAPublic :: "('k, 'p) primitives \<Rightarrow> string \<Rightarrow> key_ref \<Rightarrow> string \<Rightarrow> derived_key result" where
  "deriveECDSAPublic C masterSeed ref derivationPath =
     bindE (accountPathIndexes ref) (\<lambda>accountPath.
     bindE (AccountDerivationPath ref) (\<lambda>accountDerivationPath.
     bindE (deriveECDSAKeyState C masterSeed accountPath) (\<lambda>(accountKey, accountChainCode).
     bindE (pr_ToECDSA C accountKey) (\<lambda>accountPriv.
     let accountCompressed = pr_CompressPubkey C (pr_PublicKey C accountPriv);
         accountUncompressed = pr_FromECDSAPub C (pr_PublicKey C accountPriv)
     in
     bindE (deriveECDSAChildFromAccount C accountCompressed accountChainCode (kr_Change ref) (kr_Index ref))
       (\<lambda>(childCompressed, childUncompressed).
     Inr \<lparr>dk_KeyID = ID ref, dk_DerivationPath = derivationPath, dk_PublicKeyHex = childCompressed,
          dk_AlternatePublicKey = childUncompressed, dk_PublicDerivationSupported = True,
          dk_AccountPublicKeyHex = hex_encode accountCompressed,
          dk_AccountAlternatePublicKey = hex_encode accountUncompressed,
          dk_AccountChainCodeHex = hex_encode accountChainCode,
          dk_AccountDerivationPath = accountDerivationPath\<rparr>)))))"

definition DerivePublicKey :: "('k, 'p) primitives \<Rightarrow> string \<Rightarrow> key_ref \<Rightarrow> derived_key result" where
  "DerivePublicKey C masterSeed ref =
     bindE (DerivationPath ref) (\<lambda>derivationPath.
     if kr_SignType ref = ''ecdsa'' then deriveECDSAPublic C masterSeed ref derivationPath
     else if kr_SignType ref = ''eddsa'' then
       bindE (deriveEdDSAPublic C masterSeed ref) (\<lambda>pub.
       Inr \<lparr>dk_KeyID = ID ref, dk_DerivationPath = derivationPath, dk_PublicKeyHex = pub,
            dk_AlternatePublicKey = pub, dk_PublicDerivationSupported = False, dk_AccountPublicKeyHex = [],
            dk_AccountAlternatePublicKey = [], dk_AccountChainCodeHex = [], dk_AccountDerivationPath = []\<rparr>)
     else Inl (unsupported_sign_type (kr_SignType ref)))"

definition DeriveSigningKey :: "('k, 'p) primitives \<Rightarrow> string \<Rightarrow> key_ref \<Rightarrow> signing_key result" where
  "DeriveSigningKey C masterSeed ref =
     bindE (pathIndexes ref) (\<lambda>path.
     bindE (DerivationPath ref) (\<lambda>derivationPath.
     if kr_SignType ref = ''ecdsa'' then
       bindE (deriveECDSAPrivate C masterSeed path) (\<lambda>priv.
       Inr \<lparr>sk_KeyID = ID ref, sk_DerivationPath = derivationPath, sk_PrivateKeyHex = priv\<rparr>)
     else if kr_SignType ref = ''eddsa'' then
       bindE (deriveEdDSAPrivate C masterSeed path) (\<lambda>priv.
       Inr \<lparr>sk_KeyID = ID ref, sk_DerivationPath = derivationPath, sk_PrivateKeyHex = priv\<rparr>)
     else Inl (unsupported_sign_type (kr_SignType ref))))"


section \<open>Signatures\<close>

definition SignECDSAMessage :: "('k, 'p) primitives \<Rightarrow> string \<Rightarrow> string \<Rightarrow> string result" where
  "SignECDSAMessage C privKeyHex messageHashHex =
     (let hash = pr_HexToHash C messageHashHex in
      bindE (hex_DecodeString privKeyHex) (\<lambda>privByte.
      bindE (pr_ToECDSA C privByte) (\<lambda>privKey.
      bindE (pr_SignECDSA C hash privKey) (\<lambda>signature. Inr (hex_encode signature)))))"

definition SignEdDSAMessage :: "('k, 'p) primitives \<Rightarrow> string \<Rightarrow> string \<Rightarrow> string result" where
  "SignEdDSAMessage C privateKeyHex messageHashHex =
     bindE (hex_DecodeString privateKeyHex) (\<lambda>privateKey.
     bindE (hex_DecodeString messageHashHex) (\<lambda>message.
     Inr (hex_encode (pr_EdSign C privateKey message))))"


section \<open>What the primitives promise\<close>

text \<open>
  \<open>secp_laws\<close>: a 32-byte key with a value in \<open>[1, N)\<close> is accepted, its public key is the
  base point times the key and its bytes are the key; adding the multiples of two keys gives
  the multiple of their sum modulo the order \<open>N < 2^256\<close>; a compressed public key is not empty and
  is read back; HMAC-SHA512 returns 64 bytes.
\<close>

definition secret :: "('k, 'p) primitives \<Rightarrow> string \<Rightarrow> bool" where
  "secret C k \<longleftrightarrow> length k = 32 \<and> 0 < bytes_nat k \<and> bytes_nat k < pr_N C"

definition secp_laws :: "('k, 'p) primitives \<Rightarrow> bool" where
  "secp_laws C \<longleftrightarrow>
     pr_N C \<le> 256 ^ 32 \<and>
     (\<forall>key msg. length (pr_HMAC C key msg) = 64) \<and>
     (\<forall>k. secret C k \<longrightarrow> (\<exists>priv. pr_ToECDSA C k = Inr priv \<and> pr_FromECDSA C priv = k \<and>
            pr_PublicKey C priv = pr_ScalarBaseMult C k)) \<and>
     (\<forall>a b c. secret C a \<longrightarrow> secret C b \<longrightarrow> secret C c \<longrightarrow>
        bytes_nat c = (bytes_nat a + bytes_nat b) mod pr_N C \<longrightarrow>
        pr_Add C (pr_ScalarBaseMult C a) (pr_ScalarBaseMult C b) = Some (pr_ScalarBaseMult C c)) \<and>
     (\<forall>k. secret C k \<longrightarrow> pr_CompressPubkey C (pr_ScalarBaseMult C k) \<noteq> [] \<and>
        pr_DecompressPubkey C (pr_CompressPubkey C (pr_ScalarBaseMult C k)) = Inr (pr_ScalarBaseMult C k))"

lemma secp_lawsD:
  assumes "secp_laws C"
  shows "pr_N C \<le> 256 ^ 32" "length (pr_HMAC C key msg) = 64"
    "secret C k \<Longrightarrow> \<exists>priv. pr_ToECDSA C k = Inr priv \<and> pr_FromECDSA C priv = k \<and> pr_PublicKey C priv = pr_ScalarBaseMult C k"
    "secret C a \<Longrightarrow> secret C b \<Longrightarrow> secret C c \<Longrightarrow> bytes_nat c = (bytes_nat a + bytes_nat b) mod pr_N C \<Longrightarrow>
       pr_Add C (pr_ScalarBaseMult C a) (pr_ScalarBaseMult C b) = Some (pr_ScalarBaseMult C c)"
    "secret C k \<Longrightarrow> pr_CompressPubkey C (pr_ScalarBaseMult C k) \<noteq> []"
    "secret C k \<Longrightarrow> pr_DecompressPubkey C (pr_CompressPubkey C (pr_ScalarBaseMult C k)) = Inr (pr_ScalarBaseMult C k)"
  using assms unfolding secp_laws_def by blast+

lemma leftPad_nat_bytes:
  assumes "n < 256 ^ 32"
  shows "length (leftPad (nat_bytes n) 32) = 32" "bytes_nat (leftPad (nat_bytes n) 32) = n"
  using length_nat_bytes [OF assms] by (auto simp: leftPad_def)

lemma secret_leftPad:
  assumes "secp_laws C" "0 < n" "n < pr_N C"
  shows "secret C (leftPad (nat_bytes n) 32)"
proof -
  have "n < 256 ^ 32" using assms secp_lawsD(1) [OF assms(1)] by linarith
  then show ?thesis using assms leftPad_nat_bytes [of n] by (simp add: secret_def)
qed

text \<open>A derived private key is again a key, and the chain code has its size.\<close>

lemma secpMaster_secret:
  assumes "secp_laws C" "secpMaster C seed = Inr (k, cc)"
  shows "secret C k \<and> length cc = 32"
  using assms secp_lawsD(2) [OF assms(1)]
  by (auto simp: secpMaster_def Let_def validateSecpKey_def secret_def hmacSHA512_def split: if_splits)

lemma secpChild_secret:
  assumes laws: "secp_laws C" and run: "secpChild C k cc i = Inr (k', cc')"
  shows "secret C k'" "length cc' = 32"
proof -
  have n: "0 < pr_N C" using run by (auto simp: secpChild_def Let_def split: if_splits)
  then have "secret C (leftPad (nat_bytes (m mod pr_N C)) 32)" if "m mod pr_N C \<noteq> 0" for m
    using secret_leftPad [OF laws] that by simp
  then show "secret C k'" using run by (auto simp: secpChild_def Let_def split: if_splits)
  show "length cc' = 32"
    using run secp_lawsD(2) [OF laws] by (auto simp: secpChild_def Let_def hmacSHA512_def split: if_splits)
qed

lemma derive_path_secret:
  assumes "secp_laws C" "secret C (fst st)" "length (snd st) = 32" "derive_path C st path = Inr (k, cc)"
  shows "secret C k \<and> length cc = 32"
  using assms(2-)
proof (induction path arbitrary: st)
  case (Cons i path)
  obtain k0 cc0 where st: "st = (k0, cc0)" by force
  then obtain st' where st': "secpChild C k0 cc0 i = Inr st'" "derive_path C st' path = Inr (k, cc)"
    using Cons.prems(3) by auto
  obtain k1 cc1 where "st' = (k1, cc1)" by force
  then show ?case using Cons.IH [of st'] secpChild_secret [OF assms(1)] st' by fastforce
qed simp

lemma deriveECDSAKeyState_secret:
  assumes "secp_laws C" "deriveECDSAKeyState C seed path = Inr (k, cc)"
  shows "secret C k \<and> length cc = 32"
  using assms secpMaster_secret [OF assms(1)] derive_path_secret [OF assms(1)]
  by (auto simp: deriveECDSAKeyState_def) (metis fst_conv snd_conv)+

lemma derive_path_append:
  "derive_path C st (p @ q) = bindE (derive_path C st p) (\<lambda>st'. derive_path C st' q)"
proof (induction p arbitrary: st)
  case (Cons i p)
  then show ?case by (cases st) (simp add: bindE_def split: sum.splits)
qed simp


section \<open>Public derivation follows private derivation\<close>

text \<open>The step: the child of the public key is the public key of the child.\<close>

lemma secpChild_public:
  assumes laws: "secp_laws C" and k: "secret C k" and i: "\<not> hardenedOffset \<le> i"
    and run: "secpChild C k cc i = Inr (k', cc')"
  shows "secpChildPublic C (pr_CompressPubkey C (pr_ScalarBaseMult C k)) cc i =
           Inr (pr_CompressPubkey C (pr_ScalarBaseMult C k'), cc')"
proof -
  let ?P = "pr_ScalarBaseMult C k"
  define s where "s = hmacSHA512 C cc (appendUint32 (pr_CompressPubkey C ?P) i)"
  obtain priv where priv: "pr_ToECDSA C k = Inr priv" "pr_PublicKey C priv = ?P" using secp_lawsD(3) [OF laws k] by blast
  have cc: "length cc = 32" using run by (auto simp: secpChild_def split: if_splits)
  have len: "length (take 32 s) = 32" using secp_lawsD(2) [OF laws] by (simp add: s_def hmacSHA512_def)
  have facts: "bytes_nat (take 32 s) \<noteq> 0" "bytes_nat (take 32 s) < pr_N C"
      "(bytes_nat (take 32 s) + bytes_nat k) mod pr_N C \<noteq> 0"
      "k' = leftPad (nat_bytes ((bytes_nat (take 32 s) + bytes_nat k) mod pr_N C)) 32" "cc' = drop 32 s"
    using run i priv k by (auto simp: secpChild_def s_def secret_def Let_def split: if_splits)
  have sec: "secret C (take 32 s)" using facts len by (simp add: secret_def)
  have lt: "(bytes_nat (take 32 s) + bytes_nat k) mod pr_N C < 256 ^ 32"
    by (rule order_less_le_trans [OF mod_less_divisor secp_lawsD(1) [OF laws]]) (use facts(2) in simp)
  have add: "pr_Add C (pr_ScalarBaseMult C (take 32 s)) ?P = Some (pr_ScalarBaseMult C k')"
    by (rule secp_lawsD(4) [OF laws sec k secpChild_secret(1) [OF laws run]])
       (simp add: facts(4) leftPad_nat_bytes(2) [OF lt])
  show ?thesis
    using i cc facts add secp_lawsD(5,6) [OF laws k]
    by (simp add: secpChildPublic_def parseSecpPublicKey_def s_def [symmetric] Let_def)
qed

lemma parse_public:
  assumes "secp_laws C" "secret C k"
  shows "parseSecpPublicKey C (pr_CompressPubkey C (pr_ScalarBaseMult C k)) = Inr (pr_ScalarBaseMult C k)"
  using secp_lawsD(6) [OF assms] by (simp add: parseSecpPublicKey_def)

text \<open>Two plain steps below an account key.\<close>

lemma account_child_public:
  assumes laws: "secp_laws C" and k: "secret C k" and c: "\<not> hardenedOffset \<le> c" and i: "\<not> hardenedOffset \<le> i"
    and run: "derive_path C (k, cc) [c, i] = Inr (k', cc')"
  shows "deriveECDSAChildFromAccount C (pr_CompressPubkey C (pr_ScalarBaseMult C k)) cc c i =
           Inr (hex_encode (pr_CompressPubkey C (pr_ScalarBaseMult C k')), hex_encode (pr_FromECDSAPub C (pr_ScalarBaseMult C k')))"
    and "secret C k'"
proof -
  obtain k1 cc1 where r: "secpChild C k cc c = Inr (k1, cc1)" "secpChild C k1 cc1 i = Inr (k', cc')"
    using run by (auto simp: bindE_def split: sum.splits prod.splits)
  note k1 = secpChild_secret(1) [OF laws r(1)]
  show k': "secret C k'" by (rule secpChild_secret(1) [OF laws r(2)])
  show "deriveECDSAChildFromAccount C (pr_CompressPubkey C (pr_ScalarBaseMult C k)) cc c i =
           Inr (hex_encode (pr_CompressPubkey C (pr_ScalarBaseMult C k')), hex_encode (pr_FromECDSAPub C (pr_ScalarBaseMult C k')))"
    using secpChild_public [OF laws k c r(1)] secpChild_public [OF laws k1 i r(2)] parse_public [OF laws k']
    by (simp add: deriveECDSAChildFromAccount_def)
qed


lemma hex_digit_neq: "n < 16 \<Longrightarrow> hex_digit n \<noteq> CHR ''x'' \<and> hex_digit n \<noteq> CHR ''X'' \<and> \<not> is_space (hex_digit n)"
  by (auto simp: is_space_def Let_def of_char_hex_digit split: if_splits dest!: arg_cong [where f = "of_char :: char \<Rightarrow> nat"])

lemma hex_encode_chars:
  assumes "c \<in> set (hex_encode bs)"
  shows "c \<noteq> CHR ''x'' \<and> c \<noteq> CHR ''X'' \<and> \<not> is_space c"
proof -
  have "(of_char b :: nat) div 16 < 16" for b using of_char_bound [of b] by (simp add: less_mult_imp_div_less)
  then show ?thesis using assms hex_digit_neq by (auto simp: hex_encode_def Let_def)
qed

lemma trim_prefix_id: "c \<notin> set s \<Longrightarrow> c \<in> set p \<Longrightarrow> trim_prefix s p = s"
  by (metis in_set_takeD has_prefix_def trim_prefix_def)

lemma stringsTrimHex_hex [simp]: "stringsTrimHex (hex_encode bs) = hex_encode bs"
proof -
  have "trim_space (hex_encode bs) = hex_encode bs"
    by (rule trim_space_no_space) (auto dest: hex_encode_chars)
  moreover have "CHR ''x'' \<notin> set (hex_encode bs)" "CHR ''X'' \<notin> set (hex_encode bs)" using hex_encode_chars by blast+
  ultimately show ?thesis by (simp add: stringsTrimHex_def trim_prefix_id [of "CHR ''x''"] trim_prefix_id [of "CHR ''X''"])
qed

lemma DeriveECDSAChildPublic_hex:
  "DeriveECDSAChildPublic C (hex_encode pub) (hex_encode cc) c i = deriveECDSAChildFromAccount C pub cc c i"
  by (simp add: DeriveECDSAChildPublic_def deriveECDSAChildFromAccount_def hex_DecodeString_def)

lemma ecdsa_path:
  assumes "kr_SignType r = ''ecdsa''"
  shows "pathIndexes r = bindE (accountPathIndexes r) (\<lambda>p. Inr (p @ [kr_Change r, kr_Index r]))"
  using assms by (simp add: pathIndexes_def accountPathIndexes_def bindE_def split: sum.splits)

lemma deriveECDSAKeyState_append:
  "deriveECDSAKeyState C seed (p @ q) = bindE (deriveECDSAKeyState C seed p) (\<lambda>st. derive_path C st q)"
  by (simp add: deriveECDSAKeyState_def derive_path_append bindE_def split: sum.splits)

lemma plain_index: "unat i < 2 ^ 31 \<Longrightarrow> \<not> hardenedOffset \<le> i"
  by (simp add: hardenedOffset_def word_le_nat_alt)

text \<open>An ecdsa key pair: the signing key is a secret, and the derived public key is its public key.\<close>

lemma ecdsa_key_pair:
  assumes laws: "secp_laws C" and st: "kr_SignType r = ''ecdsa''"
    and c: "unat (kr_Change r) < 2 ^ 31" and i: "unat (kr_Index r) < 2 ^ 31"
    and run: "DeriveSigningKey C seed r = Inr sk"
  shows "\<exists>dk k. DerivePublicKey C seed r = Inr dk \<and> secret C k \<and> sk_PrivateKeyHex sk = hex_encode k \<and>
           dk_PublicKeyHex dk = hex_encode (pr_CompressPubkey C (pr_ScalarBaseMult C k)) \<and>
           dk_AlternatePublicKey dk = hex_encode (pr_FromECDSAPub C (pr_ScalarBaseMult C k)) \<and>
           dk_KeyID dk = sk_KeyID sk \<and> dk_DerivationPath dk = sk_DerivationPath sk \<and>
           DeriveECDSAChildPublic C (dk_AccountPublicKeyHex dk) (dk_AccountChainCodeHex dk) (kr_Change r) (kr_Index r) =
             Inr (dk_PublicKeyHex dk, dk_AlternatePublicKey dk)"
proof -
  obtain p where p: "accountPathIndexes r = Inr p" "pathIndexes r = Inr (p @ [kr_Change r, kr_Index r])"
    using run st by (auto simp: DeriveSigningKey_def ecdsa_path)
  obtain dp where dp: "DerivationPath r = Inr dp" using run by (auto simp: DeriveSigningKey_def)
  obtain ap where ap: "AccountDerivationPath r = Inr ap"
    using p(1) st by (auto simp: accountPathIndexes_def AccountDerivationPath_def)
  obtain k cc where state: "deriveECDSAKeyState C seed (p @ [kr_Change r, kr_Index r]) = Inr (k, cc)"
    and sk: "sk = \<lparr>sk_KeyID = ID r, sk_DerivationPath = dp, sk_PrivateKeyHex = hex_encode k\<rparr>"
  proof -
    obtain k cc priv where "deriveECDSAKeyState C seed (p @ [kr_Change r, kr_Index r]) = Inr (k, cc)"
      "pr_ToECDSA C k = Inr priv" "sk = \<lparr>sk_KeyID = ID r, sk_DerivationPath = dp, sk_PrivateKeyHex = hex_encode (pr_FromECDSA C priv)\<rparr>"
      using run st p(2) dp by (auto simp: DeriveSigningKey_def deriveECDSAPrivate_def)
    moreover have "pr_FromECDSA C priv = k"
      using secp_lawsD(3) [OF laws, of k] deriveECDSAKeyState_secret [OF laws calculation(1)] calculation(2) by auto
    ultimately show ?thesis using that by blast
  qed
  obtain ak acc where acct: "deriveECDSAKeyState C seed p = Inr (ak, acc)"
    and child: "derive_path C (ak, acc) [kr_Change r, kr_Index r] = Inr (k, cc)"
    using state unfolding deriveECDSAKeyState_append by auto
  have ak: "secret C ak" using deriveECDSAKeyState_secret [OF laws acct] by simp
  obtain priv where priv: "pr_ToECDSA C ak = Inr priv" "pr_PublicKey C priv = pr_ScalarBaseMult C ak"
    using secp_lawsD(3) [OF laws ak] by blast
  note pub = account_child_public [OF laws ak plain_index [OF c] plain_index [OF i] child]
  show ?thesis
    using st dp p(1) ap acct priv pub sk
    by (auto simp: DerivePublicKey_def deriveECDSAPublic_def DeriveECDSAChildPublic_hex Let_def)
qed

text \<open>An ed25519 key pair needs no law.\<close>

lemma eddsa_key_pair:
  assumes st: "kr_SignType r = ''eddsa''" and run: "DeriveSigningKey C seed r = Inr sk"
  shows "\<exists>dk k. DerivePublicKey C seed r = Inr dk \<and> sk_PrivateKeyHex sk = hex_encode k \<and>
           dk_PublicKeyHex dk = hex_encode (pr_EdPublic C k) \<and>
           dk_KeyID dk = sk_KeyID sk \<and> dk_DerivationPath dk = sk_DerivationPath sk"
  using assms
  by (auto simp: DeriveSigningKey_def DerivePublicKey_def deriveEdDSAPrivate_def deriveEdDSAPublic_def)

end
