(* ===== verification/Sign_Vault.thy ===== *)
theory Sign_Vault
  imports Sign_Derive
begin

text \<open>
  The seed vault of the sign service (\<open>src/services/sign-service/internal/keystore\<close>), the
  software backend and the slot names of tenants (\<open>internal/hsm\<close>), and the custody provider
  on top of them (\<open>internal/custody/local_hsm.go\<close>).

  LevelDB and the ciphers are third-party code and are arguments; \<open>kv_laws\<close> and \<open>vault_laws\<close>
  name what the code relies on. Random bytes are arguments: a read either fails or fills the buffer. The
  mutex of the key store makes each operation atomic; \<open>LoadOrCreateSeed\<close> is two of them.
\<close>

section \<open>Store and ciphers\<close>

text \<open>\<open>Get\<close> returns an error, \<open>leveldb.ErrNotFound\<close> (\<open>None\<close>) or a value.\<close>

record 's kv_store =
  kv_Get :: "string \<Rightarrow> 's \<Rightarrow> string option result"
  kv_Put :: "string \<Rightarrow> string \<Rightarrow> 's \<Rightarrow> unit result \<times> 's"

record 'g vault_ciphers =
  vc_Sum256 :: "string \<Rightarrow> string"
  vc_Scrypt :: "string \<Rightarrow> string \<Rightarrow> string result"
  vc_NewGCM :: "string \<Rightarrow> 'g result"
  vc_Seal :: "'g \<Rightarrow> string \<Rightarrow> string \<Rightarrow> string \<Rightarrow> string"
  vc_Open :: "'g \<Rightarrow> string \<Rightarrow> string \<Rightarrow> string \<Rightarrow> string result"

definition vaultEnvelopePrefix :: string where "vaultEnvelopePrefix = ''sv1''"

definition deriveVaultKey :: "'g vault_ciphers \<Rightarrow> string \<Rightarrow> string \<Rightarrow> string \<Rightarrow> string result" where
  "deriveVaultKey V password storageKey salt = vc_Scrypt V password (salt @ vc_Sum256 V storageKey)"

definition encryptSeed ::
  "'g vault_ciphers \<Rightarrow> string result \<Rightarrow> string result \<Rightarrow> string \<Rightarrow> string \<Rightarrow> string \<Rightarrow> string result" where
  "encryptSeed V rndSalt rndNonce password storageKey seed =
     bindE rndSalt (\<lambda>salt.
     bindE (deriveVaultKey V password storageKey salt) (\<lambda>key.
     bindE (vc_NewGCM V key) (\<lambda>gcm.
     bindE rndNonce (\<lambda>nonce.
     Inr (vaultEnvelopePrefix @ salt @ nonce @ vc_Seal V gcm nonce seed storageKey)))))"

definition decryptSeed :: "'g vault_ciphers \<Rightarrow> string \<Rightarrow> string \<Rightarrow> string \<Rightarrow> string result" where
  "decryptSeed V password storageKey payload =
     (if length payload < length vaultEnvelopePrefix + 16 + 12 then Inl (Errorf ''invalid encrypted vault payload'')
      else if take (length vaultEnvelopePrefix) payload \<noteq> vaultEnvelopePrefix then
        Inl (Errorf ''unsupported vault payload version'')
      else
        let saltOffset = length vaultEnvelopePrefix; nonceOffset = saltOffset + 16; ciphertextOffset = nonceOffset + 12;
            salt = take 16 (drop saltOffset payload); nonce = take 12 (drop nonceOffset payload);
            ciphertext = drop ciphertextOffset payload
        in
        bindE (deriveVaultKey V password storageKey salt) (\<lambda>key.
        bindE (vc_NewGCM V key) (\<lambda>gcm.
        wrapE ''vault unlock failed: '' (vc_Open V gcm nonce ciphertext storageKey))))"


section \<open>Seeds\<close>

datatype seed_error = ErrSeedNotProvisioned | ErrSeedAlreadyExists | SeedErr go_error

record seed_keys =
  ks_namespace :: string
  ks_password :: string
  ks_autoCreate :: bool

definition masterSeedKeyPrefix :: string where "masterSeedKeyPrefix = ''__hsm_slot__:''"

definition lift_seed :: "'a result \<Rightarrow> seed_error + 'a" where
  "lift_seed m = (case m of Inl e \<Rightarrow> Inl (SeedErr e) | Inr x \<Rightarrow> Inr x)"

definition NewKeys :: "string \<Rightarrow> string \<Rightarrow> bool \<Rightarrow> seed_keys result" where
  "NewKeys namespace password autoCreate =
     (let ns = trim_space namespace; pw = trim_space password in
      if pw = [] then Inl (Errorf ''vault unlock password is required'')
      else Inr \<lparr>ks_namespace = (if ns = [] then ''software'' else ns), ks_password = pw, ks_autoCreate = autoCreate\<rparr>)"

definition storageKey :: "seed_keys \<Rightarrow> string \<Rightarrow> string" where
  "storageKey k slotID = trim_space (ks_namespace k) @ '':'' @ trim_space slotID"

definition slot_key :: "seed_keys \<Rightarrow> string \<Rightarrow> string" where
  "slot_key k slotID = masterSeedKeyPrefix @ storageKey k slotID"

definition LoadSeed ::
  "'s kv_store \<Rightarrow> 'g vault_ciphers \<Rightarrow> seed_keys \<Rightarrow> string \<Rightarrow> 's \<Rightarrow> seed_error + string" where
  "LoadSeed D V k slotID0 s =
     (let slotID = trim_space slotID0 in
      if slotID = [] then Inl (SeedErr (Errorf ''slot id is required''))
      else case kv_Get D (slot_key k slotID) s of
             Inl e \<Rightarrow> Inl (SeedErr e)
           | Inr None \<Rightarrow> Inl ErrSeedNotProvisioned
           | Inr (Some ciphertext) \<Rightarrow>
               if ciphertext = [] then Inl ErrSeedNotProvisioned
               else lift_seed (decryptSeed V (ks_password k) (storageKey k slotID) ciphertext))"

definition seal_and_put ::
  "'s kv_store \<Rightarrow> 'g vault_ciphers \<Rightarrow> string result \<Rightarrow> string result \<Rightarrow> seed_keys \<Rightarrow> string \<Rightarrow> string \<Rightarrow> 's
     \<Rightarrow> (seed_error + unit) \<times> 's" where
  "seal_and_put D V rndSalt rndNonce k slotID seed s =
     (case encryptSeed V rndSalt rndNonce (ks_password k) (storageKey k slotID) seed of
        Inl e \<Rightarrow> (Inl (SeedErr e), s)
      | Inr ciphertext \<Rightarrow> (case kv_Put D (slot_key k slotID) ciphertext s of (r, s') \<Rightarrow> (lift_seed r, s')))"

definition ProvisionSeed ::
  "'s kv_store \<Rightarrow> 'g vault_ciphers \<Rightarrow> string result \<Rightarrow> string result \<Rightarrow> seed_keys \<Rightarrow> string \<Rightarrow> string \<Rightarrow> 's
     \<Rightarrow> (seed_error + unit) \<times> 's" where
  "ProvisionSeed D V rndSalt rndNonce k slotID0 seed s =
     (let slotID = trim_space slotID0 in
      if slotID = [] then (Inl (SeedErr (Errorf ''slot id is required'')), s)
      else if seed = [] then (Inl (SeedErr (Errorf ''seed is required'')), s)
      else case kv_Get D (slot_key k slotID) s of
             Inl e \<Rightarrow> (Inl (SeedErr e), s)
           | Inr (Some (b # bs)) \<Rightarrow> (Inl ErrSeedAlreadyExists, s)
           | _ \<Rightarrow> seal_and_put D V rndSalt rndNonce k slotID seed s)"

definition ReplaceSeed ::
  "'s kv_store \<Rightarrow> 'g vault_ciphers \<Rightarrow> string result \<Rightarrow> string result \<Rightarrow> seed_keys \<Rightarrow> string \<Rightarrow> string \<Rightarrow> 's
     \<Rightarrow> (seed_error + unit) \<times> 's" where
  "ReplaceSeed D V rndSalt rndNonce k slotID0 seed s =
     (let slotID = trim_space slotID0 in
      if slotID = [] then (Inl (SeedErr (Errorf ''slot id is required'')), s)
      else if seed = [] then (Inl (SeedErr (Errorf ''seed is required'')), s)
      else seal_and_put D V rndSalt rndNonce k slotID seed s)"

definition LoadOrCreateSeed ::
  "'s kv_store \<Rightarrow> 'g vault_ciphers \<Rightarrow> string result \<Rightarrow> string result \<Rightarrow> string result \<Rightarrow> seed_keys \<Rightarrow> string \<Rightarrow> 's
     \<Rightarrow> (seed_error + string) \<times> 's" where
  "LoadOrCreateSeed D V rndSeed rndSalt rndNonce k slotID s =
     (case LoadSeed D V k slotID s of
        Inr seed \<Rightarrow> (Inr seed, s)
      | Inl e \<Rightarrow>
          if e \<noteq> ErrSeedNotProvisioned then (Inl e, s)
          else if \<not> ks_autoCreate k then (Inl ErrSeedNotProvisioned, s)
          else case rndSeed of
                 Inl e \<Rightarrow> (Inl (SeedErr e), s)
               | Inr seed \<Rightarrow>
                   (case ProvisionSeed D V rndSalt rndNonce k slotID seed s of
                      (Inl e, s') \<Rightarrow> (Inl e, s')
                    | (Inr _, s') \<Rightarrow> (Inr seed, s')))"


section \<open>Tenant slots\<close>

definition safe_char :: "char \<Rightarrow> bool" where
  "safe_char c \<longleftrightarrow> (let n = of_char c :: nat in
     (97 \<le> n \<and> n \<le> 122) \<or> (48 \<le> n \<and> n \<le> 57) \<or> c = CHR ''-'' \<or> c = CHR ''_'' \<or> c = CHR ''.'')"

definition isSafeSlotID :: "string \<Rightarrow> bool" where
  "isSafeSlotID v \<longleftrightarrow> v \<noteq> [] \<and> list_all safe_char v"

definition tenantSlotKey :: "(string \<Rightarrow> string) \<Rightarrow> string \<Rightarrow> string" where
  "tenantSlotKey sum256 tenantID =
     (if isSafeSlotID tenantID then tenantID else ''t_'' @ hex_encode (take 16 (sum256 tenantID)))"

definition BuildTenantSlotID :: "(string \<Rightarrow> string) \<Rightarrow> string \<Rightarrow> string \<Rightarrow> string \<Rightarrow> string" where
  "BuildTenantSlotID sum256 slotPrefix tenantID signType =
     (let p = trim_space slotPrefix; p' = (if p = [] then ''master'' else p);
          t = trim_space tenantID; t' = (if t = [] then ''default'' else t)
      in p' @ '':'' @ tenantSlotKey sum256 t' @ '':'' @ trim_space signType)"


section \<open>Custody\<close>

record custody_hsm =
  lh_scheme :: string
  lh_slotPrefix :: string

definition NewLocalHSM :: "string \<Rightarrow> string \<Rightarrow> custody_hsm" where
  "NewLocalHSM slotPrefix scheme =
     (let p = trim_space slotPrefix; c = trim_space scheme in
      \<lparr>lh_scheme = (if c = [] then ''local-hsm-slot'' else c), lh_slotPrefix = (if p = [] then ''master'' else p)\<rparr>)"

definition slotID :: "(string \<Rightarrow> string) \<Rightarrow> custody_hsm \<Rightarrow> string \<Rightarrow> string \<Rightarrow> string" where
  "slotID sum256 h tenantID signType = BuildTenantSlotID sum256 (lh_slotPrefix h) tenantID signType"

text \<open>The backend is a function from a slot and the vault state to a seed.\<close>

type_synonym 's backend = "string \<Rightarrow> 's \<Rightarrow> (seed_error + string) \<times> 's"

definition HSM_DeriveKey ::
  "('k, 'p) primitives \<Rightarrow> (string \<Rightarrow> string) \<Rightarrow> 's backend \<Rightarrow> custody_hsm \<Rightarrow> string \<Rightarrow> key_ref \<Rightarrow> 's
     \<Rightarrow> (seed_error + derived_key) \<times> 's" where
  "HSM_DeriveKey C sum256 load h tenantID ref s =
     (case load (slotID sum256 h tenantID (kr_SignType ref)) s of
        (Inl e, s') \<Rightarrow> (Inl e, s')
      | (Inr seed, s') \<Rightarrow> (lift_seed (DerivePublicKey C seed ref), s'))"

definition HSM_SignMessage ::
  "('k, 'p) primitives \<Rightarrow> (string \<Rightarrow> string) \<Rightarrow> 's backend \<Rightarrow> custody_hsm \<Rightarrow> string \<Rightarrow> key_ref \<Rightarrow> string \<Rightarrow> 's
     \<Rightarrow> (seed_error + string) \<times> 's" where
  "HSM_SignMessage C sum256 load h tenantID ref messageHash s =
     (case load (slotID sum256 h tenantID (kr_SignType ref)) s of
        (Inl e, s') \<Rightarrow> (Inl e, s')
      | (Inr seed, s') \<Rightarrow>
          (lift_seed
             (bindE (DeriveSigningKey C seed ref) (\<lambda>signingKey.
              if kr_SignType ref = ''ecdsa'' then SignECDSAMessage C (sk_PrivateKeyHex signingKey) messageHash
              else if kr_SignType ref = ''eddsa'' then SignEdDSAMessage C (sk_PrivateKeyHex signingKey) messageHash
              else Inl (unsupported_sign_type (kr_SignType ref)))), s'))"


section \<open>What the store and the ciphers promise\<close>

definition kv_laws :: "'s kv_store \<Rightarrow> bool" where
  "kv_laws D \<longleftrightarrow>
     (\<forall>k v s s'. kv_Put D k v s = (Inr (), s') \<longrightarrow>
        kv_Get D k s' = Inr (Some v) \<and> (\<forall>k'. k' \<noteq> k \<longrightarrow> kv_Get D k' s' = kv_Get D k' s))"

definition vault_laws :: "'g vault_ciphers \<Rightarrow> bool" where
  "vault_laws V \<longleftrightarrow> (\<forall>g nonce plain aad. vc_Open V g nonce (vc_Seal V g nonce plain aad) aad = Inr plain)"

text \<open>The envelope is read back: prefix, 16 bytes of salt, 12 bytes of nonce, ciphertext.\<close>

lemma decrypt_encrypt:
  assumes "vault_laws V" "length salt = 16" "length nonce = 12"
    and "encryptSeed V (Inr salt) (Inr nonce) pw sk seed = Inr c"
  shows "decryptSeed V pw sk c = Inr seed" "c \<noteq> []"
  using assms by (auto simp: encryptSeed_def decryptSeed_def vault_laws_def vaultEnvelopePrefix_def Let_def)


section \<open>Seeds are stable\<close>

lemma lift_seed_simps [simp]:
  "lift_seed (Inl e) = Inl (SeedErr e)" "lift_seed (Inr x) = Inr x"
  "lift_seed m = Inr x \<longleftrightarrow> m = Inr x" "lift_seed m \<noteq> Inl ErrSeedNotProvisioned"
  by (cases m; simp add: lift_seed_def)+

lemma storageKey_trim [simp]: "storageKey k (trim_space slot) = storageKey k slot" "slot_key k (trim_space slot) = slot_key k slot"
  by (simp_all add: storageKey_def slot_key_def)

text \<open>A slot holds a seed: its stored envelope opens to it.\<close>

definition holds :: "'s kv_store \<Rightarrow> 'g vault_ciphers \<Rightarrow> seed_keys \<Rightarrow> string \<Rightarrow> string \<Rightarrow> 's \<Rightarrow> bool" where
  "holds D V k slot seed s \<longleftrightarrow> trim_space slot \<noteq> [] \<and>
     (\<exists>c. kv_Get D (slot_key k slot) s = Inr (Some c) \<and> c \<noteq> [] \<and>
          decryptSeed V (ks_password k) (storageKey k slot) c = Inr seed)"

lemma LoadSeed_holds: "LoadSeed D V k slot s = Inr seed \<longleftrightarrow> holds D V k slot seed s"
  by (auto simp: LoadSeed_def holds_def Let_def split: sum.splits option.splits)

text \<open>Provisioning stores the seed in an empty slot and leaves every other slot alone.\<close>

lemma ProvisionSeed_Inr:
  assumes kv: "kv_laws D" and v: "vault_laws V" and len: "length salt = 16" "length nonce = 12"
    and run: "ProvisionSeed D V (Inr salt) (Inr nonce) k slot seed s = (Inr (), s')"
  shows "holds D V k slot seed s'"
proof -
  obtain c where c: "encryptSeed V (Inr salt) (Inr nonce) (ks_password k) (storageKey k slot) seed = Inr c"
    and put: "kv_Put D (slot_key k slot) c s = (Inr (), s')" and slot: "trim_space slot \<noteq> []"
    using run by (auto simp: ProvisionSeed_def seal_and_put_def Let_def split: if_splits sum.splits option.splits list.splits prod.splits)
  note d = decrypt_encrypt [OF v len c]
  have "kv_Get D (slot_key k slot) s' = Inr (Some c)" using kv put unfolding kv_laws_def by blast
  then show ?thesis using d slot by (auto simp: holds_def)
qed

lemma ProvisionSeed_keeps:
  assumes kv: "kv_laws D" and h: "holds D V k slot seed s"
    and run: "ProvisionSeed D V rs rn k slot' seed' s = (Inr (), s')"
  shows "holds D V k slot seed s'"
proof -
  obtain c where put: "kv_Put D (slot_key k slot') c s = (Inr (), s')"
    and free: "\<forall>b bs. kv_Get D (slot_key k slot') s \<noteq> Inr (Some (b # bs))"
    using run by (auto simp: ProvisionSeed_def seal_and_put_def Let_def split: if_splits sum.splits option.splits list.splits prod.splits)
  obtain d where d: "kv_Get D (slot_key k slot) s = Inr (Some d)" "d \<noteq> []" using h by (auto simp: holds_def)
  then have "slot_key k slot \<noteq> slot_key k slot'" using free by (metis neq_Nil_conv)
  then have "kv_Get D (slot_key k slot) s' = kv_Get D (slot_key k slot) s" using kv put unfolding kv_laws_def by metis
  then show ?thesis using h by (simp add: holds_def)
qed

text \<open>
  The steps of a running signer: it provisions a slot, or loads a seed and creates it when
  the slot is empty. A step that fails has left the store as it was.
\<close>

inductive vault_step :: "'s kv_store \<Rightarrow> 'g vault_ciphers \<Rightarrow> seed_keys \<Rightarrow> 's \<Rightarrow> 's \<Rightarrow> bool" for D V k where
  provision: "ProvisionSeed D V rs rn k slot seed s = (Inr (), s') \<Longrightarrow> vault_step D V k s s'"
| load: "LoadOrCreateSeed D V r rs rn k slot s = (Inr seed, s') \<Longrightarrow> vault_step D V k s s'"

lemma LoadOrCreateSeed_cases:
  assumes "LoadOrCreateSeed D V r rs rn k slot s = (Inr seed, s')"
  obtains "holds D V k slot seed s" "s' = s" | "ProvisionSeed D V rs rn k slot seed s = (Inr (), s')"
  using assms
  by (auto simp: LoadOrCreateSeed_def split: sum.splits if_splits prod.splits simp flip: LoadSeed_holds)

lemma holds_load: "holds D V k slot seed s \<Longrightarrow> LoadOrCreateSeed D V r rs rn k slot s = (Inr seed, s)"
  by (simp add: LoadOrCreateSeed_def flip: LoadSeed_holds)

lemma holds_provision:
  assumes "holds D V k slot seed s" "seed' \<noteq> []"
  shows "ProvisionSeed D V rs rn k slot seed' s = (Inl ErrSeedAlreadyExists, s)"
proof -
  obtain b bs where "kv_Get D (slot_key k slot) s = Inr (Some (b # bs))" "trim_space slot \<noteq> []"
    using assms(1) by (auto simp: holds_def neq_Nil_conv)
  then show ?thesis using assms(2) by (simp add: ProvisionSeed_def Let_def)
qed

lemma vault_step_holds:
  assumes "kv_laws D" "(vault_step D V k)\<^sup>*\<^sup>* s s'" "holds D V k slot seed s"
  shows "holds D V k slot seed s'"
  using assms(2,3)
proof (induction rule: rtranclp_induct)
  case (step s1 s2)
  from step(2) show ?case
  proof cases
    case provision then show ?thesis using step ProvisionSeed_keeps [OF assms(1)] by blast
  next
    case load then show ?thesis using step ProvisionSeed_keeps [OF assms(1)] by (auto elim!: LoadOrCreateSeed_cases)
  qed
qed


section \<open>Slots of tenants\<close>

lemma safe_hex_digit: "n < 16 \<Longrightarrow> safe_char (hex_digit n)"
  by (auto simp: safe_char_def Let_def of_char_hex_digit)

lemma safe_hex_encode: "list_all safe_char (hex_encode bs)"
proof -
  have "(of_char b :: nat) div 16 < 16" for b using of_char_bound [of b] by (simp add: less_mult_imp_div_less)
  then show ?thesis by (induction bs) (auto simp: hex_encode_def Let_def safe_hex_digit)
qed

lemma tenantSlotKey_safe: "isSafeSlotID (tenantSlotKey sum256 t)"
  using safe_hex_encode by (auto simp: tenantSlotKey_def isSafeSlotID_def safe_char_def)

lemma safe_char_facts: "safe_char c \<Longrightarrow> \<not> is_space c \<and> c \<noteq> CHR '':''"
  by (auto simp: safe_char_def is_space_def Let_def)

lemma safe_trim: "isSafeSlotID t \<Longrightarrow> trim_space t = t"
  by (rule trim_space_no_space) (auto simp: isSafeSlotID_def list_all_iff dest: safe_char_facts)

lemma sep_append_eq:
  "x \<notin> set a \<Longrightarrow> x \<notin> set b \<Longrightarrow> a @ x # c = b @ x # d \<longleftrightarrow> a = b \<and> c = d"
  by (induction a arbitrary: b) (auto simp: Cons_eq_append_conv, (case_tac b; auto)+)

end
