(* ===== verification/Sign_Server.thy ===== *)
theory Sign_Server
  imports Sign_Policy Sign_Vault
begin

text \<open>
  The gRPC handlers of the sign service
  (\<open>src/services/sign-service/internal/transport/grpc/server.go\<close>): the policy decides, then
  the custody provider derives or signs. The state is the policy engine and the vault.
\<close>

record 'v signer =
  sg_policy :: engine
  sg_vault :: 'v

text \<open>
  The custody provider, as the handlers call it: \<open>DeriveKey\<close>, \<open>SignMessage\<close> and
  \<open>CustodyScheme\<close>.
\<close>

record 'v custody =
  cu_DeriveKey :: "string \<Rightarrow> key_ref \<Rightarrow> 'v \<Rightarrow> (seed_error + derived_key) \<times> 'v"
  cu_SignMessage :: "string \<Rightarrow> key_ref \<Rightarrow> string \<Rightarrow> 'v \<Rightarrow> (seed_error + string) \<times> 'v"
  cu_Scheme :: string

record derive_response =
  dr_KeyId :: string
  dr_SignType :: string
  dr_DerivationPath :: string
  dr_PublicKey :: "string \<times> string"
  dr_PublicDerivationSupported :: bool
  dr_CustodyScheme :: string
  dr_AccountPublicKey :: "(string \<times> string) option"
  dr_AccountChainCode :: string
  dr_AccountDerivationPath :: string

datatype sign_error = Rpc rpc_error | Custody seed_error

definition GetSupportSignWay :: "string \<Rightarrow> bool \<times> string" where
  "GetSupportSignWay signType =
     (if normalizeSignType signType = ''ecdsa'' \<or> normalizeSignType signType = ''eddsa'' then (True, ''supported'')
      else (False, ''unsupported sign type''))"

definition derive_response_of :: "string \<Rightarrow> key_ref \<Rightarrow> derived_key \<Rightarrow> derive_response" where
  "derive_response_of scheme ref derived =
     (let account = (dk_AccountPublicKeyHex derived \<noteq> [] \<or> dk_AccountAlternatePublicKey derived \<noteq> []) in
      \<lparr>dr_KeyId = dk_KeyID derived, dr_SignType = kr_SignType ref, dr_DerivationPath = dk_DerivationPath derived,
       dr_PublicKey = (dk_PublicKeyHex derived, dk_AlternatePublicKey derived),
       dr_PublicDerivationSupported = dk_PublicDerivationSupported derived, dr_CustodyScheme = scheme,
       dr_AccountPublicKey = (if account then Some (dk_AccountPublicKeyHex derived, dk_AccountAlternatePublicKey derived) else None),
       dr_AccountChainCode = (if account then dk_AccountChainCodeHex derived else []),
       dr_AccountDerivationPath = (if account then dk_AccountDerivationPath derived else [])\<rparr>)"

definition DeriveKey ::
  "'v custody \<Rightarrow> int \<Rightarrow> int \<Rightarrow> metadata \<Rightarrow> string \<Rightarrow> string \<Rightarrow> 'v signer \<Rightarrow> (sign_error + derive_response) \<times> 'v signer" where
  "DeriveKey U now at ctx signType keyID s =
     (case Authorize now at ctx ''derive'' signType keyID (sg_policy s) of
        ((d, Some err), e) \<Rightarrow> (Inl (Rpc err), s\<lparr>sg_policy := e\<rparr>)
      | ((d, None), e) \<Rightarrow>
          let s1 = s\<lparr>sg_policy := e\<rparr> in
          case ParseKeyID keyID of
            Inl err \<Rightarrow> (Inl (Rpc (Plain err)), s1)
          | Inr ref \<Rightarrow>
              (case cu_DeriveKey U (dc_TenantID d) ref (sg_vault s1) of
                 (Inl err, v) \<Rightarrow> (Inl (Custody err), s1\<lparr>sg_vault := v\<rparr>)
               | (Inr derived, v) \<Rightarrow> (Inr (derive_response_of (cu_Scheme U) ref derived), s1\<lparr>sg_vault := v\<rparr>)))"

text \<open>The result is the signature, the message \<open>signed\<close> and the custody scheme.\<close>

definition SignMessage ::
  "'v custody \<Rightarrow> int \<Rightarrow> int \<Rightarrow> metadata \<Rightarrow> string \<Rightarrow> string \<Rightarrow> string \<Rightarrow> 'v signer
     \<Rightarrow> (sign_error + string \<times> string \<times> string) \<times> 'v signer" where
  "SignMessage U now at ctx signType keyID messageHash s =
     (case Authorize now at ctx ''sign'' signType keyID (sg_policy s) of
        ((d, Some err), e) \<Rightarrow> (Inl (Rpc err), s\<lparr>sg_policy := e\<rparr>)
      | ((d, None), e) \<Rightarrow>
          let s1 = s\<lparr>sg_policy := e\<rparr>; msgHash = trim_space messageHash in
          if msgHash = [] then (Inl (Rpc (Status InvalidArgument ''message_hash is required'')), s1)
          else
            let h = trim_prefix msgHash ''0x'' in
            if length h \<noteq> 64 then
              (Inl (Rpc (Status InvalidArgument (''message_hash must be 32 bytes hex (got '' @
                 nat_to_string (length h) @ '' hex chars)''))), s1)
            else
              case ParseKeyID keyID of
                Inl err \<Rightarrow> (Inl (Rpc (Plain err)), s1)
              | Inr ref \<Rightarrow>
                  (case cu_SignMessage U (dc_TenantID d) ref h (sg_vault s1) of
                     (Inl err, v) \<Rightarrow> (Inl (Custody err), s1\<lparr>sg_vault := v\<rparr>)
                   | (Inr signature, v) \<Rightarrow> (Inr (signature, ''signed'', cu_Scheme U), s1\<lparr>sg_vault := v\<rparr>)))"

text \<open>The custody provider of the service: \<open>LocalHSM\<close> over the software backend.\<close>

definition software_backend ::
  "'s kv_store \<Rightarrow> 'g vault_ciphers \<Rightarrow> string result \<Rightarrow> string result \<Rightarrow> string result \<Rightarrow> seed_keys \<Rightarrow> 's backend" where
  "software_backend D V rndSeed rndSalt rndNonce k = LoadOrCreateSeed D V rndSeed rndSalt rndNonce k"

definition local_custody ::
  "('k, 'p) primitives \<Rightarrow> (string \<Rightarrow> string) \<Rightarrow> 's backend \<Rightarrow> custody_hsm \<Rightarrow> 's custody" where
  "local_custody C sum256 load h =
     \<lparr>cu_DeriveKey = HSM_DeriveKey C sum256 load h, cu_SignMessage = HSM_SignMessage C sum256 load h, cu_Scheme = lh_scheme h\<rparr>"


section \<open>Lemmas\<close>

lemma Authorize_body:
  "Authorize now at ctx operation signType keyID e = ((d, r), e') \<longleftrightarrow>
     (\<exists>e1. authorize_body now ctx operation signType keyID e = ((d, r), e1) \<and> e' = audit at d r e1)"
  by (auto simp: Authorize_def split: prod.splits)

lemma audit_fields [simp]:
  "en_buckets (audit at d r e) = en_buckets e" "en_window (audit at d r e) = en_window e"
  "en_maxRequests (audit at d r e) = en_maxRequests e" "en_authToken (audit at d r e) = en_authToken e"
  "en_allowedTenants (audit at d r e) = en_allowedTenants e"
  "good_engine (audit at d r e) = good_engine e" "remaining t key (audit at d r e) = remaining t key e"
  by (simp_all add: audit_def good_engine_def remaining_def)

text \<open>A refused request does not reach the custody provider.\<close>

lemma refused_keeps_vault:
  "SignMessage U now at ctx st keyID h s = (Inl (Rpc err), s') \<Longrightarrow> sg_vault s' = sg_vault s"
  "DeriveKey U now at ctx st keyID s = (Inl (Rpc err), s') \<Longrightarrow> sg_vault s' = sg_vault s"
  by (auto simp: SignMessage_def DeriveKey_def Let_def split: prod.splits option.splits sum.splits if_splits)

lemma SignMessage_Inr:
  assumes "SignMessage U now at ctx st keyID h s = (Inr (sig, msg, scheme), s')"
  obtains d e ref where "authorize_body now ctx ''sign'' st keyID (sg_policy s) = ((d, None), e)"
    "ParseKeyID keyID = Inr ref" "length (trim_prefix (trim_space h) ''0x'') = 64"
    "cu_SignMessage U (dc_TenantID d) ref (trim_prefix (trim_space h) ''0x'') (sg_vault s) = (Inr sig, sg_vault s')"
    "sg_policy s' = audit at d None e"
  using assms
  by (auto simp: SignMessage_def Let_def Authorize_body split: prod.splits option.splits sum.splits if_splits)

lemma DeriveKey_Inr:
  assumes "DeriveKey U now at ctx st keyID s = (Inr resp, s')"
  obtains d e ref dk where "authorize_body now ctx ''derive'' st keyID (sg_policy s) = ((d, None), e)"
    "ParseKeyID keyID = Inr ref" "cu_DeriveKey U (dc_TenantID d) ref (sg_vault s) = (Inr dk, sg_vault s')"
    "resp = derive_response_of (cu_Scheme U) ref dk"
  using assms
  by (auto simp: DeriveKey_def Let_def Authorize_body split: prod.splits option.splits sum.splits if_splits)

end
