(* ===== verification/Sign_Theorems.thy ===== *)
theory Sign_Theorems
  imports Sign_Server
begin

text \<open>
  Properties of the sign service: key ids and derivation paths, the rate limit, what a
  signature takes, the derivation of public keys, the stability of seeds and the separation
  of tenants.
\<close>

lemma digit_chars:
  "digit_char 0 = CHR ''0''" "digit_char (Suc 0) = CHR ''1''" "digit_char 2 = CHR ''2''" "digit_char 3 = CHR ''3''"
  "digit_char 4 = CHR ''4''" "digit_char 5 = CHR ''5''" "digit_char 6 = CHR ''6''" "digit_char 7 = CHR ''7''"
  "digit_char 8 = CHR ''8''" "digit_char 9 = CHR ''9''"
  by code_simp+


section \<open>Key ids\<close>

text \<open>
  C30: Key ids are a round trip. An id built for a supported sign type and a chain name
  without a colon is parsed back to exactly the normalised sign type and chain and the three
  indexes, for every index of 32 bits; and what any accepted id is parsed to is parsed to the
  same reference again from its own printed id.
\<close>

theorem key_id_roundtrip:
  "(normalizeSignType st \<noteq> [] \<longrightarrow> normalizeChain ch \<noteq> [] \<longrightarrow> CHR '':'' \<notin> set (normalizeChain ch) \<longrightarrow>
      ParseKeyID (BuildKeyID st ch a c i) =
        Inr \<lparr>kr_SignType = normalizeSignType st, kr_Chain = normalizeChain ch,
             kr_Account = a, kr_Change = c, kr_Index = i\<rparr>) \<and>
   (ParseKeyID raw = Inr r \<longrightarrow> ParseKeyID (ID r) = Inr r)"
proof (intro conjI impI)
  assume "ParseKeyID raw = Inr r"
  note r = ParseKeyID_Inr [OF this]
  show "ParseKeyID (ID r) = Inr r"
    unfolding ID_def using ParseKeyID_Build [of "kr_SignType r" "kr_Chain r"] r by simp
qed (rule ParseKeyID_Build)

theorem key_id_roundtrip_witness:
  "ParseKeyID (BuildKeyID ''ECDSA'' '' eth '' 1 0 7) =
     Inr \<lparr>kr_SignType = ''ecdsa'', kr_Chain = ''ethereum'', kr_Account = 1, kr_Change = 0, kr_Index = 7\<rparr> \<and>
   ParseKeyID (ID \<lparr>kr_SignType = ''eddsa'', kr_Chain = ''solana'', kr_Account = 1, kr_Change = 0, kr_Index = 7\<rparr>) =
     Inr \<lparr>kr_SignType = ''eddsa'', kr_Chain = ''solana'', kr_Account = 1, kr_Change = 0, kr_Index = 7\<rparr>"
proof -
  let ?r = "\<lparr>kr_SignType = ''eddsa'', kr_Chain = ''solana'', kr_Account = 1, kr_Change = 0, kr_Index = 7\<rparr>"
  have n: "normalizeSignType ''ECDSA'' = ''ecdsa''" "normalizeChain '' eth '' = ''ethereum''"
    "normalizeSignType ''ed25519'' = ''eddsa''" "normalizeChain ''sol'' = ''solana''" by code_simp+
  have p: "ParseKeyID (BuildKeyID ''ed25519'' ''sol'' 1 0 7) = Inr ?r"
    by (subst ParseKeyID_Build) (simp_all add: n)
  show ?thesis
    using key_id_roundtrip [of "''ECDSA''" "'' eth ''" 1 0 7 "BuildKeyID ''ed25519'' ''sol'' 1 0 7" ?r] n(1,2) p by simp
qed


section \<open>Derivation paths\<close>

text \<open>
  The path shown for a key is the path its key is derived on: for indexes below
  \<open>2^31\<close> both functions accept the same references, and \<open>DerivationPath\<close> prints, index by
  index, the list \<open>pathIndexes\<close> returns, a hardened index with an apostrophe.
\<close>

theorem derivation_path_matches_indexes:
  assumes "unat (kr_Account r) < 2 ^ 31" "unat (kr_Change r) < 2 ^ 31" "unat (kr_Index r) < 2 ^ 31"
  shows "DerivationPath r = bindE (pathIndexes r) (\<lambda>is. Inr (path_str (map index_str is)))"
proof (cases "coinTypeForChain (kr_Chain r)")
  case (Inr t)
  have "index_str (44 + hardenedOffset) = hardened_str 44" by (rule index_str_hardened) simp
  then show ?thesis
    using assms Inr coinType_small [OF Inr]
    by (simp add: DerivationPath_def pathIndexes_def index_str_hardened index_str_plain)
qed (simp add: DerivationPath_def pathIndexes_def)

theorem derivation_path_matches_indexes_witness:
  "DerivationPath \<lparr>kr_SignType = ''ecdsa'', kr_Chain = ''tron'', kr_Account = 2, kr_Change = 0, kr_Index = 5\<rparr> =
     Inr (''m/44'' @ [CHR 0x27] @ ''/195'' @ [CHR 0x27] @ ''/2'' @ [CHR 0x27] @ ''/0/5'')"
proof -
  have "path_str (map index_str [0x8000002C, 0x800000C3, 0x80000002, 0, 5]) =
      ''m/44'' @ [CHR 0x27] @ ''/195'' @ [CHR 0x27] @ ''/2'' @ [CHR 0x27] @ ''/0/5''"
    by (simp add: path_str_def index_str_def uint_str_def nat_to_string.simps digit_chars)
  moreover have "pathIndexes \<lparr>kr_SignType = ''ecdsa'', kr_Chain = ''tron'', kr_Account = 2, kr_Change = 0, kr_Index = 5\<rparr>
      = Inr [0x8000002C, 0x800000C3, 0x80000002, 0, 5]"
    by code_simp
  ultimately show ?thesis
    using derivation_path_matches_indexes
      [of "\<lparr>kr_SignType = ''ecdsa'', kr_Chain = ''tron'', kr_Account = 2, kr_Change = 0, kr_Index = 5\<rparr>"] by simp
qed

text \<open>
  An account index of \<open>2^31\<close> or more loses its hardening: adding the hardened offset
  wraps, so the key is derived on the plain child \<open>account - 2^31\<close> while the printed path
  still marks the account as hardened. \<open>ParseKeyID\<close> accepts such an index.
\<close>

theorem high_account_not_hardened:
  assumes "2 ^ 31 \<le> unat (kr_Account r)" "pathIndexes r = Inr is"
  shows "unat (is ! 2) = unat (kr_Account r) - 2 ^ 31 \<and> unat (is ! 2) < 2 ^ 31"
proof -
  have w: "unat (w + hardenedOffset) = unat w - 2 ^ 31" if "2 ^ 31 \<le> unat w" for w
  proof -
    have lt: "unat w < 2 ^ 32" using unsigned_less [of w] by simp
    have "unat (w + hardenedOffset) = (unat w + 2 ^ 31) mod 2 ^ 32"
      by (simp add: unat_word_ariths hardenedOffset_def)
    also have "\<dots> = (unat w + 2 ^ 31 - 2 ^ 32) mod 2 ^ 32" using that by (simp add: le_mod_geq)
    also have "\<dots> = unat w - 2 ^ 31" using that lt by simp
    finally show ?thesis .
  qed
  have "is ! 2 = kr_Account r + hardenedOffset"
    using assms(2) by (auto simp: pathIndexes_def bindE_def split: sum.splits if_splits)
  moreover have "unat (kr_Account r) < 2 ^ 32" using unsigned_less [of "kr_Account r"] by simp
  ultimately show ?thesis using w [OF assms(1)] assms(1) by simp
qed

theorem high_account_not_hardened_witness:
  "pathIndexes \<lparr>kr_SignType = ''ecdsa'', kr_Chain = ''ethereum'', kr_Account = 0x80000001, kr_Change = 0, kr_Index = 0\<rparr>
     = Inr [0x8000002C, 0x8000003C, 1, 0, 0] \<and> unat ([0x8000002C, 0x8000003C, 1, 0, 0 :: 32 word] ! 2) < 2 ^ 31 \<and>
   is_ok (ParseKeyID ''hd:ecdsa:ethereum:2147483649:0:0'')"
proof -
  let ?r = "\<lparr>kr_SignType = ''ecdsa'', kr_Chain = ''ethereum'', kr_Account = 0x80000001 :: 32 word, kr_Change = 0, kr_Index = 0\<rparr>"
  have p: "pathIndexes ?r = Inr [0x8000002C, 0x8000003C, 1, 0, 0]" by code_simp
  have "unat ([0x8000002C, 0x8000003C, 1, 0, 0 :: 32 word] ! 2) < 2 ^ 31"
    using high_account_not_hardened [OF _ p] by simp
  moreover have "is_ok (ParseKeyID (BuildKeyID ''ecdsa'' ''ethereum'' 0x80000001 0 0))"
    using ParseKeyID_Build [of "''ecdsa''" "''ethereum''" "0x80000001" 0 0]
    by (simp add: normalizeChain_fixed normalizeSignType_def go_string is_ok_def)
  moreover have "BuildKeyID ''ecdsa'' ''ethereum'' 0x80000001 0 0 = ''hd:ecdsa:ethereum:2147483649:0:0''"
    by (simp add: BuildKeyID_def keyIDPrefix_def uint_str_def nat_to_string.simps digit_chars normalizeChain_fixed normalizeSignType_def go_string)
  ultimately show ?thesis using p by simp
qed



section \<open>Rate limit\<close>

text \<open>A request: the instants of the rate check and of the audit, metadata, operation, sign type, key id.\<close>

type_synonym policy_request = "int \<times> int \<times> metadata \<times> string \<times> string \<times> string"

fun authorize_all :: "policy_request list \<Rightarrow> engine \<Rightarrow> (decision \<times> rpc_error option) list \<times> engine" where
  "authorize_all [] e = ([], e)"
| "authorize_all ((now, at, ctx, op, st, key) # qs) e =
     (case Authorize now at ctx op st key e of (r, e1) \<Rightarrow>
        (case authorize_all qs e1 of (rs, e2) \<Rightarrow> (r # rs, e2)))"

definition let_through :: "string \<Rightarrow> string \<Rightarrow> decision \<times> rpc_error option \<Rightarrow> bool" where
  "let_through tenant op r \<longleftrightarrow> snd r = None \<and> dc_TenantID (fst r) = tenant \<and> dc_Operation (fst r) = op"

lemma Authorize_fields:
  assumes "Authorize now at ctx op st key e = (r, e')"
  shows "en_window e' = en_window e" "en_maxRequests e' = en_maxRequests e" "en_authToken e' = en_authToken e"
    "good_engine e \<Longrightarrow> good_engine e'"
proof -
  obtain d x e1 where "r = (d, x)" "authorize_body now ctx op st key e = ((d, x), e1)" "e' = audit at d x e1"
    using assms by (cases r) (auto simp: Authorize_body)
  then show "en_window e' = en_window e" "en_maxRequests e' = en_maxRequests e" "en_authToken e' = en_authToken e"
    "good_engine e \<Longrightarrow> good_engine e'"
    using authorize_body_state allow_fields allow_good by (auto, metis snd_conv)+
qed

lemma Authorize_remaining:
  assumes good: "good_engine e" and t: "t \<le> now" "now < t + en_window e"
    and run: "Authorize now at ctx op st key e = (r, e')"
  shows "remaining t (bucketKey (en_authToken e) tenant opn) e' + (if let_through tenant opn r then 1 else 0)
           \<le> remaining t (bucketKey (en_authToken e) tenant opn) e"
proof -
  obtain d x e1 where r: "r = (d, x)" "authorize_body now ctx op st key e = ((d, x), e1)" "e' = audit at d x e1"
    using run by (cases r) (auto simp: Authorize_body)
  show ?thesis
  proof (cases "x = None")
    case True
    note b = authorize_body_allowed [OF r(2) [unfolded True]]
    have "allow now (en_authToken e) (tenantFromContext ctx) (trim_space op) e = (None, e1)" using b(2,6) by simp
    note step = allow_remaining [OF good t this, of "bucketKey (en_authToken e) tenant opn"]
    have "let_through tenant opn r \<Longrightarrow> tenantFromContext ctx = tenant \<and> trim_space op = opn"
      using r(1) b(3,4) by (simp add: let_through_def)
    then show ?thesis using step r(3) by (cases "let_through tenant opn r") (simp_all split: if_splits)
  next
    case False
    then have l: "\<not> let_through tenant opn r" using r(1) by (simp add: let_through_def)
    from authorize_body_state [OF r(2)] show ?thesis
    proof
      assume "e1 = e \<and> x \<noteq> None" then show ?thesis using l r(3) by simp
    next
      assume "allow now (tokenFromContext ctx) (tenantFromContext ctx) (trim_space op) e = (x, e1)"
      from allow_remaining [OF good t this, of "bucketKey (en_authToken e) tenant opn"] show ?thesis
        using False l r(3) by simp
    qed
  qed
qed

lemma authorize_all_fields:
  assumes "authorize_all qs e = (rs, e')"
  shows "en_window e' = en_window e \<and> en_maxRequests e' = en_maxRequests e \<and> en_authToken e' = en_authToken e \<and>
         (good_engine e \<longrightarrow> good_engine e')"
  using assms
proof (induction qs e arbitrary: rs e' rule: authorize_all.induct)
  case (2 now at ctx op st key qs e)
  obtain r e1 where a: "Authorize now at ctx op st key e = (r, e1)" by (cases "Authorize now at ctx op st key e")
  obtain rs1 where "authorize_all qs e1 = (rs1, e')" using 2(2) a by (auto split: prod.splits)
  from 2(1) [OF a [symmetric] this] show ?case using a Authorize_fields [OF a] by auto
qed simp

lemma authorize_all_remaining:
  assumes "good_engine e" "\<forall>(now, _)\<in>set qs. t \<le> now \<and> now < t + en_window e" "authorize_all qs e = (rs, e')"
  shows "int (length (filter (let_through tenant op) rs)) \<le> remaining t (bucketKey (en_authToken e) tenant op) e"
  using assms
proof (induction qs arbitrary: e rs)
  case Nil
  then show ?case using remaining_nonneg by simp
next
  case (Cons q qs)
  obtain now at ctx op' st key where q: "q = (now, at, ctx, op', st, key)" by (metis prod_cases6)
  obtain r e1 where a: "Authorize now at ctx op' st key e = (r, e1)" by (cases "Authorize now at ctx op' st key e")
  obtain rs' where rs: "authorize_all qs e1 = (rs', e')" "rs = r # rs'"
    using Cons.prems(3) a by (auto simp: q split: prod.splits)
  note f = Authorize_fields [OF a]
  have "int (length (filter (let_through tenant op) rs')) \<le> remaining t (bucketKey (en_authToken e1) tenant op) e1"
    using Cons.IH [OF f(4) [OF Cons.prems(1)] _ rs(1)] Cons.prems(2) f(1) by simp
  moreover have "remaining t (bucketKey (en_authToken e) tenant op) e1 + (if let_through tenant op r then 1 else 0)
      \<le> remaining t (bucketKey (en_authToken e) tenant op) e"
    using Authorize_remaining [OF Cons.prems(1) _ _ a] Cons.prems(2) q by simp
  ultimately show ?case using rs(2) f(3) by (auto split: if_splits)
qed

text \<open>
  C31: The rate limit holds on every interval. After any history of requests, in any
  interval of one window, the engine lets through at most \<open>2 * max - 1\<close> requests of one
  tenant and operation (a bucket starts with its first request, so an interval can meet two
  buckets), whatever other requests are mixed in and whether or not expired buckets are
  collected in between.
\<close>

theorem rate_limit_window:
  assumes before: "authorize_all earlier (New cfg) = (rs0, e)"
    and inside: "\<forall>(now, _)\<in>set qs. t \<le> now \<and> now < t + en_window (New cfg)"
    and run: "authorize_all qs e = (rs, e')"
  shows "int (length (filter (let_through tenant op) rs)) \<le> 2 * en_maxRequests (New cfg) - 1"
proof -
  note f = authorize_all_fields [OF before]
  then have good: "good_engine e" using New_good by blast
  have "int (length (filter (let_through tenant op) rs)) \<le> remaining t (bucketKey (en_authToken e) tenant op) e"
    by (rule authorize_all_remaining [OF good _ run]) (use inside f in simp)
  then show ?thesis using remaining_bound [OF good, of t "bucketKey (en_authToken e) tenant op"] f by simp
qed


definition sample_policy :: policy_config where
  "sample_policy = \<lparr>cfg_AuthToken = ''key'', cfg_RateLimitWindow = 10, cfg_RateLimitMaxRequests = 1, cfg_AllowedTenants = []\<rparr>"

definition sample_call :: "int \<Rightarrow> policy_request" where
  "sample_call now = (now, now, Some [(''authorization'', [''Bearer key''])], ''health'', [], [])"

theorem rate_limit_window_witness:
  "map snd (fst (authorize_all [sample_call 5, sample_call 12, sample_call 13] (snd (authorize_all [sample_call 0] (New sample_policy))))) =
     [Some (Status ResourceExhausted ''sign service rate limit exceeded''), None,
      Some (Status ResourceExhausted ''sign service rate limit exceeded'')] \<and>
   int (length (filter (let_through [] ''health'')
     (fst (authorize_all [sample_call 5, sample_call 12, sample_call 13] (snd (authorize_all [sample_call 0] (New sample_policy))))))) \<le> 1"
proof
  show "map snd (fst (authorize_all [sample_call 5, sample_call 12, sample_call 13] (snd (authorize_all [sample_call 0] (New sample_policy))))) =
     [Some (Status ResourceExhausted ''sign service rate limit exceeded''), None,
      Some (Status ResourceExhausted ''sign service rate limit exceeded'')]" by code_simp
  show "int (length (filter (let_through [] ''health'')
     (fst (authorize_all [sample_call 5, sample_call 12, sample_call 13] (snd (authorize_all [sample_call 0] (New sample_policy))))))) \<le> 1"
    using rate_limit_window [of "[sample_call 0]" sample_policy _ _ "[sample_call 5, sample_call 12, sample_call 13]" 5,
        OF surjective_pairing _ surjective_pairing, of "[]" "''health''"]
    by (simp add: sample_call_def New_def sample_policy_def)
qed


section \<open>Signing\<close>





section \<open>Key pairs\<close>

text \<open>
  C33: Public derivation follows private derivation. For an ecdsa key with plain change and
  address indexes, whenever a signing key is derived, the public key handed out for the same
  reference is the public key of that signing key, under the same id and path; and deriving
  it once more from the account's public key and chain code alone gives the same two encodings.
\<close>

theorem public_key_matches_signing_key:
  assumes "secp_laws C" "kr_SignType r = ''ecdsa''" "unat (kr_Change r) < 2 ^ 31" "unat (kr_Index r) < 2 ^ 31"
    and "DeriveSigningKey C seed r = Inr sk"
  shows "\<exists>dk k. DerivePublicKey C seed r = Inr dk \<and> secret C k \<and> sk_PrivateKeyHex sk = hex_encode k \<and>
           dk_PublicKeyHex dk = hex_encode (pr_CompressPubkey C (pr_ScalarBaseMult C k)) \<and>
           dk_AlternatePublicKey dk = hex_encode (pr_FromECDSAPub C (pr_ScalarBaseMult C k)) \<and>
           dk_KeyID dk = sk_KeyID sk \<and> dk_DerivationPath dk = sk_DerivationPath sk \<and>
           DeriveECDSAChildPublic C (dk_AccountPublicKeyHex dk) (dk_AccountChainCodeHex dk) (kr_Change r) (kr_Index r) =
             Inr (dk_PublicKeyHex dk, dk_AlternatePublicKey dk)"
  using assms by (rule ecdsa_key_pair)

text \<open>Primitives over the residues modulo 7, with a constant HMAC.\<close>

definition toy_hmac :: string where "toy_hmac = replicate 31 (CHR 0x00) @ [CHR 0x01] @ replicate 32 (CHR 0x00)"

definition toy :: "(string, nat) primitives" where
  "toy = \<lparr>pr_HMAC = \<lambda>_ _. toy_hmac, pr_N = 7,
     pr_ToECDSA = \<lambda>k. if length k = 32 \<and> 0 < bytes_nat k \<and> bytes_nat k < 7 then Inr k else Inl (Errorf ''invalid''),
     pr_FromECDSA = \<lambda>k. k, pr_PublicKey = \<lambda>k. bytes_nat k mod 7, pr_ScalarBaseMult = \<lambda>b. bytes_nat b mod 7,
     pr_Add = \<lambda>a b. if (a + b) mod 7 = 0 then None else Some ((a + b) mod 7),
     pr_CompressPubkey = \<lambda>p. [char_of p], pr_FromECDSAPub = \<lambda>p. [char_of p, char_of p],
     pr_DecompressPubkey = \<lambda>b. if length b = 1 then Inr (of_char (hd b)) else Inl (Errorf ''invalid''),
     pr_UnmarshalPubkey = \<lambda>_. Inl (Errorf ''invalid''), pr_SignECDSA = \<lambda>h k. Inr (h @ k), pr_HexToHash = \<lambda>h. h,
     pr_EdKeyFromSeed = \<lambda>s. s, pr_EdPublic = \<lambda>s. s, pr_EdSign = \<lambda>k m. m @ k\<rparr>"

lemma toy_laws: "secp_laws toy"
proof -
  have "(of_char (char_of (n mod 7 :: nat) :: char) :: nat) = n mod 7" for n
    by simp
  then show ?thesis
    by (auto simp: secp_laws_def toy_def secret_def toy_hmac_def mod_add_eq)
qed

definition toy_ref :: key_ref where
  "toy_ref = \<lparr>kr_SignType = ''ecdsa'', kr_Chain = ''ethereum'', kr_Account = 1, kr_Change = 0, kr_Index = 5\<rparr>"

definition toy_scalar :: "nat \<Rightarrow> string" where "toy_scalar n = leftPad (nat_bytes n) 32"

lemma toy_scalar: "n < 7 \<Longrightarrow> length (toy_scalar n) = 32 \<and> bytes_nat (toy_scalar n) = n"
  unfolding toy_scalar_def using leftPad_nat_bytes [of n] by simp

lemma toy_hmac_parts: "take 32 toy_hmac = toy_scalar 1" "drop 32 toy_hmac = replicate 32 (CHR 0x00)"
    "bytes_nat (take 32 toy_hmac) = 1"
proof -
  have "char_of (Suc 0) = CHR 0x01" by code_simp
  then show t: "take 32 toy_hmac = toy_scalar 1"
    by (simp add: toy_hmac_def toy_scalar_def leftPad_def nat_bytes.simps)
  show "drop 32 toy_hmac = replicate 32 (CHR 0x00)" by (simp add: toy_hmac_def)
  show "bytes_nat (take 32 toy_hmac) = 1" unfolding t using toy_scalar [of 1] by simp
qed

lemma toy_master: "secpMaster toy seed = Inr (toy_scalar 1, replicate 32 (CHR 0x00))"
proof -
  have "pr_HMAC toy key msg = toy_hmac" "pr_N toy = 7" for key msg by (simp_all add: toy_def)
  then show ?thesis
    unfolding secpMaster_def hmacSHA512_def validateSecpKey_def Let_def
    using toy_scalar [of 1] by (simp del: One_nat_def add: toy_hmac_parts(1,2))
qed

lemma toy_child:
  assumes "0 < n" "n < 6"
  shows "secpChild toy (toy_scalar n) (replicate 32 (CHR 0x00)) i = Inr (toy_scalar (Suc n), replicate 32 (CHR 0x00))"
  using assms toy_scalar [of n] toy_hmac_parts
  by (simp add: secpChild_def hmacSHA512_def Let_def toy_def toy_scalar_def)

lemma toy_key: "\<exists>sk. DeriveSigningKey toy seed toy_ref = Inr sk \<and> sk_PrivateKeyHex sk = hex_encode (toy_scalar 6)"
proof -
  have n: "normalizeChain ''ethereum'' = ''ethereum''" by (rule normalizeChain_fixed) simp
  have k: "deriveECDSAKeyState toy seed [a, b, c, d, e] = Inr (toy_scalar 6, replicate 32 (CHR 0x00))" for a b c d e
    by (simp add: deriveECDSAKeyState_def toy_master toy_child flip: One_nat_def)
  have t: "pr_ToECDSA toy (toy_scalar 6) = Inr (toy_scalar 6)" "pr_FromECDSA toy (toy_scalar 6) = toy_scalar 6"
    using toy_scalar [of 6] by (simp_all add: toy_def)
  show ?thesis
    by (simp add: DeriveSigningKey_def toy_ref_def pathIndexes_def DerivationPath_def coinTypeForChain_def n
        deriveECDSAPrivate_def k t)
qed

theorem public_key_matches_signing_key_witness:
  "\<exists>dk. DerivePublicKey toy ''seed'' toy_ref = Inr dk \<and> dk_PublicKeyHex dk = ''06''"
proof -
  obtain sk where sk: "DeriveSigningKey toy ''seed'' toy_ref = Inr sk" "sk_PrivateKeyHex sk = hex_encode (toy_scalar 6)"
    using toy_key by blast
  obtain dk k where dk: "DerivePublicKey toy ''seed'' toy_ref = Inr dk" "hex_encode (toy_scalar 6) = hex_encode k"
    "dk_PublicKeyHex dk = hex_encode (pr_CompressPubkey toy (pr_ScalarBaseMult toy k))"
    using public_key_matches_signing_key [OF toy_laws _ _ _ sk(1)] unfolding sk(2) by (auto simp: toy_ref_def)
  then have "k = toy_scalar 6" by simp
  then have "pr_CompressPubkey toy (pr_ScalarBaseMult toy k) = [CHR 0x06]"
    using toy_scalar [of 6] by (simp add: toy_def) code_simp
  moreover have "hex_encode [CHR 0x06] = ''06''" by code_simp
  ultimately show ?thesis using dk by simp
qed



section \<open>Seeds and tenants\<close>

lemma load_holds:
  assumes "kv_laws D" "vault_laws V" "length salt = 16" "length nonce = 12"
    and "LoadOrCreateSeed D V r (Inr salt) (Inr nonce) k slot s = (Inr seed, s')"
  shows "holds D V k slot seed s'"
  using assms(5) ProvisionSeed_Inr [OF assms(1-4)] by (auto elim: LoadOrCreateSeed_cases)

text \<open>
  The seed of a slot is created once. When \<open>LoadOrCreateSeed\<close> has returned a seed for a
  slot, every later call for it returns the same seed and writes nothing, whatever slots were
  loaded, created or provisioned in between and whatever random bytes are offered; and provisioning the slot
  again is refused.
\<close>

theorem seed_created_once:
  assumes "kv_laws D" "vault_laws V" "length salt = 16" "length nonce = 12"
    and "LoadOrCreateSeed D V r (Inr salt) (Inr nonce) k slot s = (Inr seed, s1)"
    and "(vault_step D V k)\<^sup>*\<^sup>* s1 s2" and "seed' \<noteq> []"
  shows "LoadOrCreateSeed D V r' rs' rn' k slot s2 = (Inr seed, s2) \<and>
         ProvisionSeed D V rs' rn' k slot seed' s2 = (Inl ErrSeedAlreadyExists, s2)"
proof -
  have h: "holds D V k slot seed s2"
    by (rule vault_step_holds [OF assms(1,6) load_holds [OF assms(1-5)]])
  then show ?thesis using holds_load [OF h] holds_provision [OF h assms(7)] by simp
qed

definition toy_store :: "(string \<Rightarrow> string option) kv_store" where
  "toy_store = \<lparr>kv_Get = \<lambda>k s. Inr (s k), kv_Put = \<lambda>k v s. (Inr (), s(k := Some v))\<rparr>"

definition toy_ciphers :: "unit vault_ciphers" where
  "toy_ciphers = \<lparr>vc_Sum256 = \<lambda>s. s, vc_Scrypt = \<lambda>p s. Inr p, vc_NewGCM = \<lambda>k. Inr (),
     vc_Seal = \<lambda>g n p a. p, vc_Open = \<lambda>g n c a. Inr c\<rparr>"

definition toy_keys :: seed_keys where
  "toy_keys = \<lparr>ks_namespace = ''software'', ks_password = ''pw'', ks_autoCreate = True\<rparr>"

lemma toy_vault_laws: "kv_laws toy_store" "vault_laws toy_ciphers"
  by (auto simp: kv_laws_def vault_laws_def toy_store_def toy_ciphers_def)

definition toy_load :: "(string \<Rightarrow> string option) backend" where
  "toy_load = LoadOrCreateSeed toy_store toy_ciphers (Inr ''seed'')
     (Inr (replicate 16 (CHR 0x00))) (Inr (replicate 12 (CHR 0x00))) toy_keys"

lemma toy_load_fresh:
  assumes "trim_space slot \<noteq> []"
  shows "\<exists>s1. toy_load slot Map.empty = (Inr ''seed'', s1)"
  using assms
  by (simp add: toy_load_def LoadOrCreateSeed_def LoadSeed_def ProvisionSeed_def seal_and_put_def encryptSeed_def
      deriveVaultKey_def toy_store_def toy_ciphers_def toy_keys_def Let_def)

theorem seed_created_once_witness:
  "\<exists>s1. toy_load ''slot'' Map.empty = (Inr ''seed'', s1) \<and> toy_load ''slot'' s1 = (Inr ''seed'', s1) \<and>
     ProvisionSeed toy_store toy_ciphers (Inr []) (Inr []) toy_keys ''slot'' ''other'' s1 = (Inl ErrSeedAlreadyExists, s1)"
proof -
  have "trim_space ''slot'' \<noteq> []" by code_simp
  then obtain s1 where s1: "toy_load ''slot'' Map.empty = (Inr ''seed'', s1)" using toy_load_fresh by blast
  have len: "length (replicate 16 (CHR 0x00)) = 16" "length (replicate 12 (CHR 0x00)) = 12" by simp_all
  note use = seed_created_once [OF toy_vault_laws len s1 [unfolded toy_load_def] rtranclp.rtrancl_refl, of "''other''"]
  show ?thesis
    using s1 use [of "Inr ''seed''" "Inr (replicate 16 (CHR 0x00))" "Inr (replicate 12 (CHR 0x00))"]
      use [of undefined "Inr []" "Inr []"]
    by (intro exI [of _ s1]) (simp add: toy_load_def)
qed

text \<open>
  The signer signs with the key it has shown. After the custody provider derived the
  public key of a reference for a tenant, a signature of that tenant for that reference, at
  any later time, is made with the private key of the public key shown: on secp256k1 (with
  plain change and address indexes) and on ed25519.
\<close>

theorem custody_signs_with_shown_key:
  assumes laws: "secp_laws C" "kv_laws D" "vault_laws V" and len: "length salt = 16" "length nonce = 12"
    and derive: "HSM_DeriveKey C sum256 (LoadOrCreateSeed D V r (Inr salt) (Inr nonce) k) h tenant ref s = (Inr dk, s1)"
    and steps: "(vault_step D V k)\<^sup>*\<^sup>* s1 s2"
    and sign: "HSM_SignMessage C sum256 (LoadOrCreateSeed D V r' rs' rn' k) h tenant ref hash s2 = (Inr sig, s3)"
  shows "(kr_SignType ref = ''ecdsa'' \<longrightarrow> unat (kr_Change ref) < 2 ^ 31 \<longrightarrow> unat (kr_Index ref) < 2 ^ 31 \<longrightarrow>
            (\<exists>key. secret C key \<and> dk_PublicKeyHex dk = hex_encode (pr_CompressPubkey C (pr_ScalarBaseMult C key)) \<and>
               SignECDSAMessage C (hex_encode key) hash = Inr sig)) \<and>
         (kr_SignType ref = ''eddsa'' \<longrightarrow>
            (\<exists>key. dk_PublicKeyHex dk = hex_encode (pr_EdPublic C key) \<and> SignEdDSAMessage C (hex_encode key) hash = Inr sig))"
proof -
  let ?slot = "slotID sum256 h tenant (kr_SignType ref)"
  obtain seed where seed: "LoadOrCreateSeed D V r (Inr salt) (Inr nonce) k ?slot s = (Inr seed, s1)"
      "DerivePublicKey C seed ref = Inr dk"
    using derive by (auto simp: HSM_DeriveKey_def split: prod.splits sum.splits)
  have "LoadOrCreateSeed D V r' rs' rn' k ?slot s2 = (Inr seed, s2)"
    by (rule holds_load, rule vault_step_holds [OF laws(2) steps load_holds [OF laws(2,3) len seed(1)]])
  then obtain sk where sk: "DeriveSigningKey C seed ref = Inr sk"
      "kr_SignType ref = ''ecdsa'' \<Longrightarrow> SignECDSAMessage C (sk_PrivateKeyHex sk) hash = Inr sig"
      "kr_SignType ref = ''eddsa'' \<Longrightarrow> SignEdDSAMessage C (sk_PrivateKeyHex sk) hash = Inr sig"
    using sign by (auto simp: HSM_SignMessage_def split: if_splits)
  show ?thesis
  proof (intro conjI impI)
    assume "kr_SignType ref = ''ecdsa''" "unat (kr_Change ref) < 2 ^ 31" "unat (kr_Index ref) < 2 ^ 31"
    from ecdsa_key_pair [OF laws(1) this sk(1)] sk(2) [OF this(1)] seed(2)
    show "\<exists>key. secret C key \<and> dk_PublicKeyHex dk = hex_encode (pr_CompressPubkey C (pr_ScalarBaseMult C key)) \<and>
               SignECDSAMessage C (hex_encode key) hash = Inr sig" by auto
  next
    assume "kr_SignType ref = ''eddsa''"
    from eddsa_key_pair [OF this sk(1)] sk(3) [OF this] seed(2)
    show "\<exists>key. dk_PublicKeyHex dk = hex_encode (pr_EdPublic C key) \<and> SignEdDSAMessage C (hex_encode key) hash = Inr sig"
      by auto
  qed
qed

theorem custody_signs_with_shown_key_witness:
  "\<exists>dk s1 sig key. HSM_DeriveKey toy (\<lambda>s. s) toy_load (NewLocalHSM [] []) ''acme'' toy_ref Map.empty = (Inr dk, s1) \<and>
     HSM_SignMessage toy (\<lambda>s. s) toy_load (NewLocalHSM [] []) ''acme'' toy_ref ''00'' s1 = (Inr sig, s1) \<and>
     dk_PublicKeyHex dk = hex_encode (pr_CompressPubkey toy (pr_ScalarBaseMult toy key)) \<and>
     SignECDSAMessage toy (hex_encode key) ''00'' = Inr sig"
proof -
  let ?h = "NewLocalHSM [] []" and ?slot = "slotID (\<lambda>s. s) (NewLocalHSM [] []) ''acme'' ''ecdsa''"
  have st: "kr_SignType toy_ref = ''ecdsa''" "unat (kr_Change toy_ref) < 2 ^ 31" "unat (kr_Index toy_ref) < 2 ^ 31"
    by (simp_all add: toy_ref_def)
  have "trim_space ?slot \<noteq> []" by code_simp
  then obtain s1 where s1: "toy_load ?slot Map.empty = (Inr ''seed'', s1)" using toy_load_fresh by blast
  have len: "length (replicate 16 (CHR 0x00)) = 16" "length (replicate 12 (CHR 0x00)) = 12" by simp_all
  have again: "toy_load ?slot s1 = (Inr ''seed'', s1)"
    using holds_load [OF load_holds [OF toy_vault_laws len s1 [unfolded toy_load_def]]] by (simp add: toy_load_def)
  obtain sk where sk: "DeriveSigningKey toy ''seed'' toy_ref = Inr sk" "sk_PrivateKeyHex sk = hex_encode (toy_scalar 6)"
    using toy_key by blast
  obtain dk where dk: "DerivePublicKey toy ''seed'' toy_ref = Inr dk" using ecdsa_key_pair [OF toy_laws st sk(1)] by blast
  obtain sig where sig: "SignECDSAMessage toy (hex_encode (toy_scalar 6)) ''00'' = Inr sig"
    using toy_scalar [of 6] by (simp add: SignECDSAMessage_def hex_DecodeString_def toy_def)
  have d: "HSM_DeriveKey toy (\<lambda>s. s) toy_load ?h ''acme'' toy_ref Map.empty = (Inr dk, s1)"
    using s1 dk st(1) by (simp add: HSM_DeriveKey_def)
  have g: "HSM_SignMessage toy (\<lambda>s. s) toy_load ?h ''acme'' toy_ref ''00'' s1 = (Inr sig, s1)"
    using again sk sig st(1) by (simp add: HSM_SignMessage_def)
  show ?thesis
    using custody_signs_with_shown_key [OF toy_laws toy_vault_laws len d [unfolded toy_load_def] rtranclp.rtrancl_refl
        g [unfolded toy_load_def]] st d g by blast
qed

text \<open>
  Seeds are separated by tenant and sign type. For tenants whose ids use only the safe characters,
  equal slots mean the same tenant and sign type. But the slot of a tenant with other
  characters is also the slot of the tenant whose id is literally its hashed name \<open>t_...\<close>:
  the two tenants share their seed.
\<close>

theorem tenant_slots:
  "(isSafeSlotID a \<and> isSafeSlotID b \<and> slotID sum256 h a st = slotID sum256 h b st' \<longrightarrow> a = b \<and> trim_space st = trim_space st') \<and>
   (trim_space c \<noteq> [] \<longrightarrow> slotID sum256 h (tenantSlotKey sum256 (trim_space c)) st = slotID sum256 h c st)"
proof (intro conjI impI)
  assume "isSafeSlotID a \<and> isSafeSlotID b \<and> slotID sum256 h a st = slotID sum256 h b st'"
  then have safe: "isSafeSlotID a" "isSafeSlotID b" and eq: "slotID sum256 h a st = slotID sum256 h b st'" by auto
  have "a @ CHR '':'' # trim_space st = b @ CHR '':'' # trim_space st'"
    using eq safe safe_trim by (auto simp: slotID_def BuildTenantSlotID_def Let_def tenantSlotKey_def isSafeSlotID_def)
  moreover have "CHR '':'' \<notin> set a" "CHR '':'' \<notin> set b"
    using safe by (auto simp: isSafeSlotID_def list_all_iff dest: safe_char_facts)
  ultimately show "a = b" "trim_space st = trim_space st'" by (simp_all add: sep_append_eq)
next
  assume "trim_space c \<noteq> []"
  moreover have "tenantSlotKey sum256 (tenantSlotKey sum256 t) = tenantSlotKey sum256 t" for t
    using tenantSlotKey_safe [of sum256 t] by (simp add: tenantSlotKey_def [of _ "tenantSlotKey sum256 t"])
  moreover have "tenantSlotKey sum256 t \<noteq> []" for t using tenantSlotKey_safe [of sum256 t] by (simp add: isSafeSlotID_def)
  ultimately show "slotID sum256 h (tenantSlotKey sum256 (trim_space c)) st = slotID sum256 h c st"
    by (simp add: slotID_def BuildTenantSlotID_def Let_def safe_trim [OF tenantSlotKey_safe])
qed

theorem tenant_slots_witness:
  "slotID (\<lambda>s. s) (NewLocalHSM [] []) ''t_41'' ''ecdsa'' = slotID (\<lambda>s. s) (NewLocalHSM [] []) ''A'' ''ecdsa'' \<and>
   slotID (\<lambda>s. s) (NewLocalHSM [] []) ''acme'' ''ecdsa'' \<noteq> slotID (\<lambda>s. s) (NewLocalHSM [] []) ''other'' ''ecdsa''"
proof -
  have "tenantSlotKey (\<lambda>s. s) (trim_space ''A'') = ''t_41''" "trim_space ''A'' \<noteq> []"
    "isSafeSlotID ''acme''" "isSafeSlotID ''other''" by code_simp+
  then show ?thesis
    using tenant_slots [of "''acme''" "''other''" "\<lambda>s. s" "NewLocalHSM [] []" "''ecdsa''" "''ecdsa''" "''A''"] by auto
qed

end
