(* ===== verification/Idempotency.thy ===== *)
theory Idempotency
  imports Sql_Tables
begin

text \<open>
  The idempotency stores: the one of the API gateway
  (\<open>src/services/api-gateway/internal/security/postgres.go\<close>, \<open>Reserve\<close>, \<open>Commit\<close>,
  \<open>Reject\<close>) and the one of wallet-core
  (\<open>src/services/wallet-core/internal/adapters/idempotency/postgres.go\<close>). The locale
  \<open>idem_store\<close> is their contract; both are interpretations of it.
\<close>

section \<open>Rows\<close>

record idem_row =
  ir_tenant :: string
  ir_request :: string
  ir_operation :: string
  ir_hash :: string
  ir_status :: string
  ir_response :: string
  ir_created_at :: int
  ir_updated_at :: int

type_synonym idem_key = "string \<times> string \<times> string"

definition ir_key :: "idem_row \<Rightarrow> idem_key" where "ir_key r = (ir_tenant r, ir_request r, ir_operation r)"

definition ir_at :: "idem_key \<Rightarrow> idem_row \<Rightarrow> bool" where
  "ir_at k r \<longleftrightarrow> ir_tenant r = fst k \<and> ir_request r = fst (snd k) \<and> ir_operation r = snd (snd k)"

interpretation idems: unique_table ir_key ir_at
  by unfold_locales (auto simp: ir_key_def ir_at_def)

record idem_result =
  ires_State :: string
  ires_Response :: string
  ires_RequestID :: string

definition new_idem_row :: "int \<Rightarrow> idem_key \<Rightarrow> string \<Rightarrow> idem_row" where
  "new_idem_row now k hash =
     \<lparr>ir_tenant = fst k, ir_request = fst (snd k), ir_operation = snd (snd k), ir_hash = hash, ir_status = ''PENDING'',
      ir_response = [], ir_created_at = now, ir_updated_at = now\<rparr>"


section \<open>The gateway's store\<close>

text \<open>
  \<open>INSERT ... ON CONFLICT DO UPDATE SET updated_at RETURNING\<close>: the row is there after the
  statement; \<open>None\<close> of the lookup does not arise.
\<close>

definition Reserve :: "int \<Rightarrow> string \<Rightarrow> string \<Rightarrow> string \<Rightarrow> string \<Rightarrow> idem_row table \<Rightarrow> idem_result result \<times> idem_row table" where
  "Reserve now tenantID requestID operation requestHash t =
     (let k = (tenantID, requestID, operation);
          t' = insert_or_update (ir_at k) (new_idem_row now k requestHash) (\<lambda>r. r\<lparr>ir_updated_at := now\<rparr>) t
      in case select_row (ir_at k) t' of
           None \<Rightarrow> (Inl ErrNoRows, t')
         | Some r \<Rightarrow>
             if ir_hash r \<noteq> requestHash then (Inr \<lparr>ires_State = ''CONFLICT'', ires_Response = [], ires_RequestID = []\<rparr>, t')
             else if ir_status r = ''SUCCESS'' then
               (Inr \<lparr>ires_State = ''REPLAY'', ires_Response = ir_response r, ires_RequestID = []\<rparr>, t')
             else if ir_status r = ''FAILED'' then
               (Inr \<lparr>ires_State = ''REJECTED'', ires_Response = ir_response r, ires_RequestID = []\<rparr>, t')
             else (Inr \<lparr>ires_State = ''NEW'', ires_Response = [], ires_RequestID = []\<rparr>, t'))"

definition set_idem :: "int \<Rightarrow> idem_key \<Rightarrow> string \<Rightarrow> string \<Rightarrow> idem_row table \<Rightarrow> idem_row table" where
  "set_idem now k status response t =
     update_where (ir_at k) (\<lambda>r. r\<lparr>ir_status := status, ir_response := response, ir_updated_at := now\<rparr>) t"

definition Commit :: "int \<Rightarrow> string \<Rightarrow> string \<Rightarrow> string \<Rightarrow> string \<Rightarrow> idem_row table \<Rightarrow> idem_row table" where
  "Commit now tenantID requestID operation response t = set_idem now (tenantID, requestID, operation) ''SUCCESS'' response t"

definition Reject :: "int \<Rightarrow> string \<Rightarrow> string \<Rightarrow> string \<Rightarrow> string \<Rightarrow> idem_row table \<Rightarrow> idem_row table" where
  "Reject now tenantID requestID operation reason t = set_idem now (tenantID, requestID, operation) ''FAILED'' reason t"


section \<open>The store of wallet-core\<close>

text \<open>\<open>INSERT ... ON CONFLICT DO NOTHING\<close>, then a second statement reads the row.\<close>

definition core_Reserve ::
  "int \<Rightarrow> string \<Rightarrow> string \<Rightarrow> string \<Rightarrow> string \<Rightarrow> idem_row table \<Rightarrow> idem_result result \<times> idem_row table" where
  "core_Reserve now tenantID requestID operation requestHash t =
     (let k = (tenantID, requestID, operation);
          t' = insert_ignore (ir_at k) (new_idem_row now k requestHash) t
      in case select_row (ir_at k) t' of
           None \<Rightarrow> (Inl ErrNoRows, t')
         | Some r \<Rightarrow>
             if ir_hash r \<noteq> requestHash then
               (Inr \<lparr>ires_State = ''CONFLICT'', ires_Response = [], ires_RequestID = requestID\<rparr>, t')
             else if ir_status r = ''SUCCESS'' then
               (Inr \<lparr>ires_State = ''REPLAY'', ires_Response = ir_response r, ires_RequestID = requestID\<rparr>, t')
             else if ir_status r = ''FAILED'' then
               (Inr \<lparr>ires_State = ''REJECTED'', ires_Response = ir_response r, ires_RequestID = requestID\<rparr>, t')
             else (Inr \<lparr>ires_State = ''NEW'', ires_Response = [], ires_RequestID = requestID\<rparr>, t'))"

definition core_Commit :: "int \<Rightarrow> string \<Rightarrow> string \<Rightarrow> string \<Rightarrow> string \<Rightarrow> idem_row table \<Rightarrow> idem_row table" where
  "core_Commit now tenantID requestID operation response t = set_idem now (tenantID, requestID, operation) ''SUCCESS'' response t"

definition core_Reject :: "int \<Rightarrow> string \<Rightarrow> string \<Rightarrow> string \<Rightarrow> string \<Rightarrow> idem_row table \<Rightarrow> idem_row table" where
  "core_Reject now tenantID requestID operation reason t = set_idem now (tenantID, requestID, operation) ''FAILED'' reason t"


section \<open>The contract\<close>

text \<open>What a store keeps of a key: the hash of the first request, its status and its response.\<close>

definition idem_entry :: "idem_key \<Rightarrow> idem_row table \<Rightarrow> (string \<times> string \<times> string) option" where
  "idem_entry k t = map_option (\<lambda>r. (ir_hash r, ir_status r, ir_response r)) (select_row (ir_at k) t)"

text \<open>The state a reservation answers, from the entry it finds or makes.\<close>

definition idem_answer :: "string \<Rightarrow> string \<times> string \<times> string \<Rightarrow> string \<times> string" where
  "idem_answer h e = (case e of (h0, st, resp) \<Rightarrow>
     if h0 \<noteq> h then (''CONFLICT'', []) else if st = ''SUCCESS'' then (''REPLAY'', resp)
     else if st = ''FAILED'' then (''REJECTED'', resp) else (''NEW'', []))"

definition idem_view :: "idem_result \<Rightarrow> string \<times> string" where
  "idem_view r = (ires_State r, ires_Response r)"

locale idem_store =
  fixes reserve :: "int \<Rightarrow> idem_key \<Rightarrow> string \<Rightarrow> 's \<Rightarrow> idem_result result \<times> 's"
    and settle :: "int \<Rightarrow> idem_key \<Rightarrow> string \<Rightarrow> string \<Rightarrow> 's \<Rightarrow> 's"
    and entry :: "idem_key \<Rightarrow> 's \<Rightarrow> (string \<times> string \<times> string) option"
  assumes reserve_answer:
      "\<exists>r s' e. reserve now k h s = (Inr r, s') \<and> entry k s' = Some e \<and>
         e = (case entry k s of None \<Rightarrow> (h, ''PENDING'', []) | Some e0 \<Rightarrow> e0) \<and> idem_view r = idem_answer h e"
    and reserve_other: "k' \<noteq> k \<Longrightarrow> entry k' (snd (reserve now k h s)) = entry k' s"
    and settle_entry: "entry k (settle now k st resp s) = map_option (\<lambda>(h, _, _). (h, st, resp)) (entry k s)"
    and settle_other: "k' \<noteq> k \<Longrightarrow> entry k' (settle now k st resp s) = entry k' s"
begin

text \<open>Operations on a store, and the run of a list of them.\<close>

definition step :: "(int \<times> idem_key \<times> string) + (int \<times> idem_key \<times> string \<times> string) \<Rightarrow> 's \<Rightarrow> 's" where
  "step op s = (case op of Inl (now, k, h) \<Rightarrow> snd (reserve now k h s) | Inr (now, k, st, resp) \<Rightarrow> settle now k st resp s)"

definition settles :: "idem_key \<Rightarrow> (int \<times> idem_key \<times> string) + (int \<times> idem_key \<times> string \<times> string) \<Rightarrow> bool" where
  "settles k op = (case op of Inl _ \<Rightarrow> False | Inr (_, k', _, _) \<Rightarrow> k' = k)"

lemma step_keeps: "entry k s = Some e \<Longrightarrow> \<not> settles k op \<Longrightarrow> entry k (step op s) = Some e"
proof (cases op)
  case (Inl a)
  obtain now k' h where a: "a = (now, k', h)" by (cases a)
  assume e: "entry k s = Some e"
  show ?thesis
  proof (cases "k' = k")
    case True
    obtain r s' where "reserve now k h s = (Inr r, s')" "entry k s' = Some e"
      using reserve_answer [of now k h s] e by auto
    then show ?thesis using Inl a True by (simp add: step_def)
  next
    case False then show ?thesis using Inl a e reserve_other by (simp add: step_def)
  qed
next
  case (Inr b)
  assume "entry k s = Some e" "\<not> settles k op"
  then show ?thesis using Inr settle_other by (cases b) (auto simp: step_def settles_def)
qed

lemma steps_keep: "entry k s = Some e \<Longrightarrow> \<forall>op\<in>set ops. \<not> settles k op \<Longrightarrow> entry k (fold step ops s) = Some e"
  by (induction ops arbitrary: s) (auto simp: step_keeps)

text \<open>Only the first hash of a key is ever answered with anything but a conflict.\<close>

lemma answered_hash:
  assumes "entry k s = Some (h0, st, resp)" "reserve now k h s = (Inr r, s')" "ires_State r \<noteq> ''CONFLICT''"
  shows "h = h0"
proof (rule ccontr)
  assume "h \<noteq> h0"
  moreover have "idem_view r = idem_answer h (h0, st, resp)"
    using reserve_answer [of now k h s] assms(1,2) by auto
  ultimately show False using assms(3) by (auto simp: idem_view_def idem_answer_def)
qed

text \<open>After a commit every repetition is answered from the store.\<close>

lemma committed_replays:
  assumes new: "reserve now k h s = (Inr r, s1)" "ires_State r = ''NEW''"
    and others: "\<forall>op\<in>set ops. \<not> settles k op" "\<forall>op\<in>set ops'. \<not> settles k op"
  shows "\<exists>r' s'. reserve now'' k h' (fold step ops' (settle now' k ''SUCCESS'' resp (fold step ops s1))) = (Inr r', s') \<and>
           idem_view r' = (if h' = h then (''REPLAY'', resp) else (''CONFLICT'', []))"
proof -
  obtain e where e: "entry k s1 = Some e" "idem_view r = idem_answer h e" using reserve_answer [of now k h s] new(1) by auto
  then obtain st resp0 where h: "e = (h, st, resp0)"
    using new(2) by (cases e) (auto simp: idem_view_def idem_answer_def split: if_splits)
  have "entry k (settle now' k ''SUCCESS'' resp (fold step ops s1)) = Some (h, ''SUCCESS'', resp)"
    using steps_keep [OF e(1) others(1)] settle_entry h by simp
  from steps_keep [OF this others(2)]
  have "entry k (fold step ops' (settle now' k ''SUCCESS'' resp (fold step ops s1))) = Some (h, ''SUCCESS'', resp)" .
  then show ?thesis
    using reserve_answer [of now'' k h' "fold step ops' (settle now' k ''SUCCESS'' resp (fold step ops s1))"]
    by (auto simp: idem_answer_def)
qed

end


section \<open>Both stores keep it\<close>

lemma set_idem_entry:
  "idem_entry k (set_idem now j st resp t) =
     (if k = j then map_option (\<lambda>(h, _, _). (h, st, resp)) (idem_entry k t) else idem_entry k t)"
  by (simp add: idem_entry_def set_idem_def idems.select_update_at ir_key_def option.map_comp comp_def)

lemma insert_idem_entry:
  "idem_entry k (insert_ignore (ir_at j) (new_idem_row now j h) t) =
     (if k = j then Some (case idem_entry k t of None \<Rightarrow> (h, ''PENDING'', []) | Some e \<Rightarrow> e) else idem_entry k t)"
  "idem_entry k (insert_or_update (ir_at j) (new_idem_row now j h) (\<lambda>r. r\<lparr>ir_updated_at := now'\<rparr>) t) =
     (if k = j then Some (case idem_entry k t of None \<Rightarrow> (h, ''PENDING'', []) | Some e \<Rightarrow> e) else idem_entry k t)"
  by (auto simp: idem_entry_def insert_ignore_cases insert_or_update_cases idems.select_append_at
      idems.select_update_at new_idem_row_def ir_key_def split: option.splits)

lemma idem_reply:
  assumes "idem_entry k t = Some e"
  obtains r where "select_row (ir_at k) t = Some r" "e = (ir_hash r, ir_status r, ir_response r)"
  using assms by (auto simp: idem_entry_def)

lemmas idem_answer_defs = idem_answer_def idem_view_def

interpretation gateway_idem: idem_store
  "\<lambda>now k h. Reserve now (fst k) (fst (snd k)) (snd (snd k)) h" set_idem idem_entry
proof unfold_locales
  fix now k h and s :: "idem_row table"
  let ?t = "insert_or_update (ir_at k) (new_idem_row now k h) (\<lambda>r. r\<lparr>ir_updated_at := now\<rparr>) s"
  have e: "idem_entry k ?t = Some (case idem_entry k s of None \<Rightarrow> (h, ''PENDING'', []) | Some e \<Rightarrow> e)"
    by (simp add: insert_idem_entry)
  then obtain r where "select_row (ir_at k) ?t = Some r"
    "(case idem_entry k s of None \<Rightarrow> (h, ''PENDING'', []) | Some e \<Rightarrow> e) = (ir_hash r, ir_status r, ir_response r)"
    by (rule idem_reply)
  then show "\<exists>r s' e. Reserve now (fst k) (fst (snd k)) (snd (snd k)) h s = (Inr r, s') \<and> idem_entry k s' = Some e \<and>
         e = (case idem_entry k s of None \<Rightarrow> (h, ''PENDING'', []) | Some e0 \<Rightarrow> e0) \<and> idem_view r = idem_answer h e"
    using e by (auto simp: Reserve_def Let_def idem_answer_defs)
qed (auto simp: Reserve_def Let_def set_idem_entry insert_idem_entry split: option.splits)

interpretation core_idem: idem_store
  "\<lambda>now k h. core_Reserve now (fst k) (fst (snd k)) (snd (snd k)) h" set_idem idem_entry
proof unfold_locales
  fix now k h and s :: "idem_row table"
  let ?t = "insert_ignore (ir_at k) (new_idem_row now k h) s"
  have e: "idem_entry k ?t = Some (case idem_entry k s of None \<Rightarrow> (h, ''PENDING'', []) | Some e \<Rightarrow> e)"
    by (simp add: insert_idem_entry)
  then obtain r where "select_row (ir_at k) ?t = Some r"
    "(case idem_entry k s of None \<Rightarrow> (h, ''PENDING'', []) | Some e \<Rightarrow> e) = (ir_hash r, ir_status r, ir_response r)"
    by (rule idem_reply)
  then show "\<exists>r s' e. core_Reserve now (fst k) (fst (snd k)) (snd (snd k)) h s = (Inr r, s') \<and> idem_entry k s' = Some e \<and>
         e = (case idem_entry k s of None \<Rightarrow> (h, ''PENDING'', []) | Some e0 \<Rightarrow> e0) \<and> idem_view r = idem_answer h e"
    using e by (auto simp: core_Reserve_def Let_def idem_answer_defs)
qed (auto simp: core_Reserve_def Let_def set_idem_entry insert_idem_entry split: option.splits)

end
