(* ===== verification/Gateway_Security.thy ===== *)
theory Gateway_Security
  imports Idempotency "HOL-Library.Product_Lexorder"
begin

text \<open>
  Tokens, key grants, chain policies and the audit log: the security provider of the API
  gateway (\<open>src/services/api-gateway/internal/security/postgres.go\<close>) and the part of it
  wallet-core keeps (\<open>src/services/wallet-core/internal/adapters/auth/postgres.go\<close>) on the
  same tables.
\<close>

section \<open>Tables\<close>

record token_row =
  tk_token :: string
  tk_tenant :: string
  tk_can_withdraw :: bool
  tk_can_deposit :: bool
  tk_can_sweep :: bool
  tk_status :: string

record key_row =
  ky_tenant :: string
  ky_key :: string
  ky_status :: string
  ky_updated_at :: int

record audit_log_row =
  al_tenant :: string
  al_action :: string
  al_request :: string
  al_detail :: string
  al_created_at :: int

record policy_row =
  po_id :: int
  po_tenant :: string
  po_chain :: string
  po_network :: string
  po_allow_deposit :: bool
  po_allow_withdraw :: bool
  po_allow_sweep :: bool
  po_max_withdraw :: string
  po_priority :: int
  po_status :: string

record security_db =
  api_tokens :: "token_row table"
  tenant_keys :: "key_row table"
  audit_logs :: "audit_log_row table"
  tenant_chain_policies :: "policy_row table"
  idem_requests :: "idem_row table"

definition ky_at :: "string \<times> string \<Rightarrow> key_row \<Rightarrow> bool" where
  "ky_at k r \<longleftrightarrow> ky_tenant r = fst k \<and> ky_key r = snd k"

definition ky_id :: "key_row \<Rightarrow> string \<times> string" where "ky_id r = (ky_tenant r, ky_key r)"

interpretation grants: unique_table ky_id ky_at
  by unfold_locales (auto simp: ky_id_def ky_at_def)


section \<open>Tokens and keys\<close>

record scope =
  sp_TenantID :: string
  sp_CanWithdraw :: bool
  sp_CanDeposit :: bool
  sp_CanSweep :: bool

definition ValidateToken :: "string \<Rightarrow> security_db \<Rightarrow> scope result" where
  "ValidateToken token db =
     (case select_row (\<lambda>r. tk_token r = token \<and> tk_status r = ''ACTIVE'') (api_tokens db) of
        None \<Rightarrow> Inl ErrNoRows
      | Some r \<Rightarrow> Inr \<lparr>sp_TenantID = tk_tenant r, sp_CanWithdraw = tk_can_withdraw r,
                       sp_CanDeposit = tk_can_deposit r, sp_CanSweep = tk_can_sweep r\<rparr>)"

definition CheckSignPermission :: "string \<Rightarrow> string \<Rightarrow> security_db \<Rightarrow> bool result" where
  "CheckSignPermission tenantID keyID db =
     (case select_row (\<lambda>r. ky_at (tenantID, keyID) r \<and> ky_status r = ''ACTIVE'') (tenant_keys db) of
        None \<Rightarrow> Inr False
      | Some _ \<Rightarrow> Inr True)"

definition BindTenantKey :: "int \<Rightarrow> string \<Rightarrow> string \<Rightarrow> security_db \<Rightarrow> security_db" where
  "BindTenantKey now tenantID keyID db =
     db\<lparr>tenant_keys := insert_or_update (ky_at (tenantID, keyID))
       \<lparr>ky_tenant = tenantID, ky_key = keyID, ky_status = ''ACTIVE'', ky_updated_at = now\<rparr>
       (\<lambda>r. r\<lparr>ky_status := ''ACTIVE'', ky_updated_at := now\<rparr>) (tenant_keys db)\<rparr>"

definition Audit :: "int \<Rightarrow> string \<Rightarrow> string \<Rightarrow> string \<Rightarrow> string \<Rightarrow> security_db \<Rightarrow> security_db" where
  "Audit now tenantID action requestID detail db =
     db\<lparr>audit_logs := audit_logs db @
       [\<lparr>al_tenant = tenantID, al_action = action, al_request = requestID, al_detail = detail, al_created_at = now\<rparr>]\<rparr>"


section \<open>Chain policies\<close>

text \<open>\<open>ORDER BY\<close> tenant, chain and network given before \<open>*\<close>, then priority, then the newest.\<close>

definition policy_order :: "string \<Rightarrow> string \<Rightarrow> string \<Rightarrow> policy_row \<Rightarrow> int \<times> int \<times> int \<times> int \<times> int" where
  "policy_order tenantID chain network r =
     (- (if po_tenant r = tenantID then 1 else 0), - (if po_chain r = chain then 1 else 0),
      - (if po_network r = network then 1 else 0), - po_priority r, - po_id r)"

definition policy_applies :: "string \<Rightarrow> string \<Rightarrow> string \<Rightarrow> policy_row \<Rightarrow> bool" where
  "policy_applies tenantID chain network r \<longleftrightarrow>
     po_status r = ''ACTIVE'' \<and> po_tenant r \<in> {tenantID, ''*''} \<and> po_chain r \<in> {chain, ''*''} \<and>
     po_network r \<in> {network, ''*''}"

definition select_policy :: "string \<Rightarrow> string \<Rightarrow> string \<Rightarrow> policy_row table \<Rightarrow> policy_row option" where
  "select_policy tenantID chain network t =
     select_first (policy_order tenantID chain network) (policy_applies tenantID chain network) t"

definition check_max_withdraw :: "string \<Rightarrow> string \<Rightarrow> unit result" where
  "check_max_withdraw amount maxWithdraw =
     (if trim_space amount \<noteq> [] \<and> trim_space maxWithdraw \<noteq> [] \<and> trim_space maxWithdraw \<noteq> ''0'' then
        (case big_SetString (trim_space amount) of
           None \<Rightarrow> Inl (Errorf ''invalid withdraw amount'')
         | Some amt \<Rightarrow>
             (case big_SetString (trim_space maxWithdraw) of
                None \<Rightarrow> Inl (Errorf ''invalid policy max_withdraw_amount'')
              | Some maxAmt \<Rightarrow>
                  if amt > maxAmt then Inl (Errorf ''withdraw amount exceeds tenant chain policy'') else Inr ()))
      else Inr ())"

definition CheckTenantChainPolicy ::
  "string \<Rightarrow> string \<Rightarrow> string \<Rightarrow> string \<Rightarrow> string \<Rightarrow> security_db \<Rightarrow> unit result" where
  "CheckTenantChainPolicy tenantID0 chain0 network0 operation amount db =
     (let tenantID = trim_space tenantID0; chain = to_lower (trim_space chain0);
          network = to_lower (trim_space network0); op = to_lower (trim_space operation)
      in
      if tenantID = [] \<or> chain = [] \<or> network = [] then Inl (Errorf ''tenant_id/chain/network are required'')
      else if op = [] then Inl (Errorf ''operation is required'')
      else case select_policy tenantID chain network (tenant_chain_policies db) of
             None \<Rightarrow> Inl (Errorf ''tenant chain policy denied'')
           | Some p \<Rightarrow>
               if op = ''deposit'' then
                 (if \<not> po_allow_deposit p then Inl (Errorf ''deposit not allowed on chain/network'') else Inr ())
               else if op = ''withdraw'' then
                 (if \<not> po_allow_withdraw p then Inl (Errorf ''withdraw not allowed on chain/network'')
                  else check_max_withdraw amount (po_max_withdraw p))
               else if op = ''sweep'' then
                 (if \<not> po_allow_sweep p then Inl (Errorf ''sweep not allowed on chain/network'') else Inr ())
               else Inl (Errorf ''unsupported operation''))"


section \<open>Lemmas\<close>

lemma select_policy_applies: "select_policy t c n rows = Some p \<Longrightarrow> p \<in> set rows \<and> policy_applies t c n p"
  unfolding select_policy_def by (blast dest: select_first_SomeD)

text \<open>The chosen policy is the most specific one: no applicable row comes before it.\<close>

lemma select_policy_first:
  "select_policy t c n rows = Some p \<Longrightarrow> q \<in> set rows \<Longrightarrow> policy_applies t c n q \<Longrightarrow>
     policy_order t c n p \<le> policy_order t c n q"
  unfolding select_policy_def by (rule select_first_SomeD)

lemma select_policy_None: "select_policy t c n rows = None \<longleftrightarrow> \<not> (\<exists>q\<in>set rows. policy_applies t c n q)"
  by (auto simp: select_policy_def select_first_None_iff)

lemma bound_key_permitted: "CheckSignPermission t k (BindTenantKey now t k db) = Inr True"
proof -
  have "\<exists>r\<in>set (tenant_keys (BindTenantKey now t k db)). ky_at (t, k) r \<and> ky_status r = ''ACTIVE''"
  proof (cases "select_row (ky_at (t, k)) (tenant_keys db)")
    case (Some r)
    then have "r \<in> set (tenant_keys db)" "ky_at (t, k) r" using select_row_SomeD by metis+
    then show ?thesis using Some
      by (intro bexI [of _ "r\<lparr>ky_status := ''ACTIVE'', ky_updated_at := now\<rparr>"])
         (auto simp: BindTenantKey_def insert_or_update_def in_update_where ky_at_def)
  qed (simp add: BindTenantKey_def insert_or_update_def ky_at_def)
  then show ?thesis
    using select_row_None_iff [of "\<lambda>r. ky_at (t, k) r \<and> ky_status r = ''ACTIVE''"]
    by (auto simp: CheckSignPermission_def split: option.splits)
qed

lemma CheckSignPermission_iff:
  "CheckSignPermission t k db = Inr True \<longleftrightarrow> (\<exists>r\<in>set (tenant_keys db). ky_tenant r = t \<and> ky_key r = k \<and> ky_status r = ''ACTIVE'')"
  using select_row_None_iff [of "\<lambda>r. ky_at (t, k) r \<and> ky_status r = ''ACTIVE''" "tenant_keys db"]
  by (auto simp: CheckSignPermission_def ky_at_def split: option.splits dest: select_row_SomeD)

end
