(* ===== verification/Gateway_Proxy.thy ===== *)
theory Gateway_Proxy
  imports Gateway_Security
begin

text \<open>
  The proxy of the API gateway (\<open>src/services/api-gateway/internal/transport/http\<close>): each
  route has a specification, and one handler authenticates, authorises, checks policies,
  reserves the idempotency key, forwards to wallet-core and settles the key.

  JSON decoding, SHA-256 and the upstream service are arguments. A request carries the value
  of each query parameter. The world is the security database, the state of the upstream
  and the log of forwarded requests. Errors of the database connection are not modelled, so
  the two answers for them do not arise.
\<close>

section \<open>Requests and responses\<close>

record http_request =
  rq_Method :: string
  rq_Authorization :: string
  rq_RequestID :: string
  rq_RawQuery :: string
  rq_Query :: "(string \<times> string) list"
  rq_Body :: "string result"

record http_response =
  rp_Status :: int
  rp_Body :: string
  rp_RequestID :: string
  rp_ContentType :: string

definition http_Error :: "string \<Rightarrow> string \<Rightarrow> int \<Rightarrow> http_response" where
  "http_Error requestID msg code =
     \<lparr>rp_Status = code, rp_Body = msg @ [CHR 0x0A], rp_RequestID = requestID,
      rp_ContentType = ''text/plain; charset=utf-8''\<rparr>"

record route_spec =
  rs_Method :: string
  rs_Action :: string
  rs_Permission :: string
  rs_IdempotencyOp :: string
  rs_RequireTenant :: bool
  rs_RequireChainNetwork :: bool
  rs_CheckSignPermission :: bool

record request_context =
  rc_TenantID :: string
  rc_Chain :: string
  rc_Network :: string
  rc_Amount :: string

text \<open>What \<open>json.Unmarshal\<close> makes of a body, for the two structures the gateway reads.\<close>

record json_decoder =
  js_Context :: "string \<Rightarrow> request_context option"
  js_Keys :: "string \<Rightarrow> (string \<times> string list) option"

record forwarded =
  fw_Method :: string
  fw_URL :: string
  fw_Body :: string
  fw_Authorization :: string
  fw_RequestID :: string

record 'u gateway =
  gw_db :: security_db
  gw_upstream :: 'u
  gw_log :: "forwarded list"

record 'u proxy_env =
  pe_WalletCoreAddr :: string
  pe_Do :: "forwarded \<Rightarrow> 'u \<Rightarrow> (int \<times> string \<times> string) result \<times> 'u"
  pe_JSON :: json_decoder
  pe_Sum256 :: "string \<Rightarrow> string"


section \<open>Routes\<close>

definition ProxyWithdraw :: "string \<times> route_spec" where
  "ProxyWithdraw = (''/v1/withdraw'',
     \<lparr>rs_Method = ''POST'', rs_Action = ''withdraw'', rs_Permission = ''withdraw'',
      rs_IdempotencyOp = ''withdraw'', rs_RequireTenant = True, rs_RequireChainNetwork = True,
      rs_CheckSignPermission = True\<rparr>)"


definition ProxyDepositNotify :: "string \<times> route_spec" where
  "ProxyDepositNotify = (''/v1/deposit/notify'',
     \<lparr>rs_Method = ''POST'', rs_Action = ''deposit_notify'', rs_Permission = ''deposit'',
      rs_IdempotencyOp = ''deposit_notify'', rs_RequireTenant = True, rs_RequireChainNetwork = True,
      rs_CheckSignPermission = False\<rparr>)"


definition ProxyWithdrawOnchainNotify :: "string \<times> route_spec" where
  "ProxyWithdrawOnchainNotify = (''/v1/withdraw/onchain/notify'',
     \<lparr>rs_Method = ''POST'', rs_Action = ''withdraw_onchain_notify'', rs_Permission = ''withdraw'',
      rs_IdempotencyOp = [], rs_RequireTenant = True, rs_RequireChainNetwork = False,
      rs_CheckSignPermission = False\<rparr>)"


definition ProxySweepRun :: "string \<times> route_spec" where
  "ProxySweepRun = (''/v1/sweep/run'',
     \<lparr>rs_Method = ''POST'', rs_Action = ''sweep_run'', rs_Permission = ''sweep'',
      rs_IdempotencyOp = ''sweep_run'', rs_RequireTenant = True, rs_RequireChainNetwork = True,
      rs_CheckSignPermission = False\<rparr>)"


definition ProxySweepOnchainNotify :: "string \<times> route_spec" where
  "ProxySweepOnchainNotify = (''/v1/sweep/onchain/notify'',
     \<lparr>rs_Method = ''POST'', rs_Action = ''sweep_onchain_notify'', rs_Permission = ''sweep'',
      rs_IdempotencyOp = [], rs_RequireTenant = True, rs_RequireChainNetwork = False,
      rs_CheckSignPermission = False\<rparr>)"


definition ProxyTreasuryTransfer :: "string \<times> route_spec" where
  "ProxyTreasuryTransfer = (''/v1/treasury/transfer'',
     \<lparr>rs_Method = ''POST'', rs_Action = ''treasury_transfer'', rs_Permission = ''sweep'',
      rs_IdempotencyOp = ''treasury_transfer'', rs_RequireTenant = True, rs_RequireChainNetwork = True,
      rs_CheckSignPermission = False\<rparr>)"


definition ProxyTreasuryTransferOnchainNotify :: "string \<times> route_spec" where
  "ProxyTreasuryTransferOnchainNotify = (''/v1/treasury/onchain/notify'',
     \<lparr>rs_Method = ''POST'', rs_Action = ''treasury_transfer_onchain_notify'', rs_Permission = ''sweep'',
      rs_IdempotencyOp = [], rs_RequireTenant = True, rs_RequireChainNetwork = False,
      rs_CheckSignPermission = False\<rparr>)"


definition ProxyTreasuryTransferStatus :: "string \<times> route_spec" where
  "ProxyTreasuryTransferStatus = (''/v1/treasury/transfer/status'',
     \<lparr>rs_Method = ''GET'', rs_Action = ''treasury_transfer_status'', rs_Permission = ''read'',
      rs_IdempotencyOp = [], rs_RequireTenant = True, rs_RequireChainNetwork = False,
      rs_CheckSignPermission = False\<rparr>)"


definition ProxyTreasuryWaterline :: "string \<times> route_spec" where
  "ProxyTreasuryWaterline = (''/v1/treasury/waterline'',
     \<lparr>rs_Method = ''GET'', rs_Action = ''treasury_waterline'', rs_Permission = ''read'',
      rs_IdempotencyOp = [], rs_RequireTenant = True, rs_RequireChainNetwork = False,
      rs_CheckSignPermission = False\<rparr>)"


definition ProxyWithdrawStatus :: "string \<times> route_spec" where
  "ProxyWithdrawStatus = (''/v1/withdraw/status'',
     \<lparr>rs_Method = ''GET'', rs_Action = ''withdraw_status'', rs_Permission = ''read'',
      rs_IdempotencyOp = [], rs_RequireTenant = True, rs_RequireChainNetwork = False,
      rs_CheckSignPermission = False\<rparr>)"


definition ProxyBalance :: "string \<times> route_spec" where
  "ProxyBalance = (''/v1/balance'',
     \<lparr>rs_Method = ''GET'', rs_Action = ''balance'', rs_Permission = ''read'',
      rs_IdempotencyOp = [], rs_RequireTenant = True, rs_RequireChainNetwork = False,
      rs_CheckSignPermission = False\<rparr>)"


definition ProxyCreateAddress :: "string \<times> route_spec" where
  "ProxyCreateAddress = (''/v1/address/create'',
     \<lparr>rs_Method = ''POST'', rs_Action = ''address_create'', rs_Permission = ''deposit'',
      rs_IdempotencyOp = [], rs_RequireTenant = True, rs_RequireChainNetwork = True,
      rs_CheckSignPermission = False\<rparr>)"


definition ProxyAccountUpsert :: "string \<times> route_spec" where
  "ProxyAccountUpsert = (''/v1/account/upsert'',
     \<lparr>rs_Method = ''POST'', rs_Action = ''account_upsert'', rs_Permission = ''deposit'',
      rs_IdempotencyOp = [], rs_RequireTenant = True, rs_RequireChainNetwork = False,
      rs_CheckSignPermission = False\<rparr>)"


definition ProxyAccountGet :: "string \<times> route_spec" where
  "ProxyAccountGet = (''/v1/account/get'',
     \<lparr>rs_Method = ''GET'', rs_Action = ''account_get'', rs_Permission = ''read'',
      rs_IdempotencyOp = [], rs_RequireTenant = True, rs_RequireChainNetwork = False,
      rs_CheckSignPermission = False\<rparr>)"


definition ProxyAccountList :: "string \<times> route_spec" where
  "ProxyAccountList = (''/v1/account/list'',
     \<lparr>rs_Method = ''GET'', rs_Action = ''account_list'', rs_Permission = ''read'',
      rs_IdempotencyOp = [], rs_RequireTenant = True, rs_RequireChainNetwork = False,
      rs_CheckSignPermission = False\<rparr>)"


definition ProxyAccountAddresses :: "string \<times> route_spec" where
  "ProxyAccountAddresses = (''/v1/account/addresses'',
     \<lparr>rs_Method = ''GET'', rs_Action = ''account_addresses'', rs_Permission = ''read'',
      rs_IdempotencyOp = [], rs_RequireTenant = True, rs_RequireChainNetwork = False,
      rs_CheckSignPermission = False\<rparr>)"


definition ProxyAccountAssets :: "string \<times> route_spec" where
  "ProxyAccountAssets = (''/v1/account/assets'',
     \<lparr>rs_Method = ''GET'', rs_Action = ''account_assets'', rs_Permission = ''read'',
      rs_IdempotencyOp = [], rs_RequireTenant = True, rs_RequireChainNetwork = False,
      rs_CheckSignPermission = False\<rparr>)"

text \<open>The patterns of \<open>NewMux\<close>; \<open>/healthz\<close> answers \<open>ok\<close> and is left out.\<close>

definition NewMux :: "(string \<times> string \<times> route_spec) list" where
  "NewMux =
    [(''/v1/withdraw'', ProxyWithdraw),
     (''/v1/withdraw/status'', ProxyWithdrawStatus),
     (''/v1/withdraw/onchain/notify'', ProxyWithdrawOnchainNotify),
     (''/v1/deposit/notify'', ProxyDepositNotify),
     (''/v1/sweep/run'', ProxySweepRun),
     (''/v1/sweep/onchain/notify'', ProxySweepOnchainNotify),
     (''/v1/treasury/transfer'', ProxyTreasuryTransfer),
     (''/v1/treasury/transfer/status'', ProxyTreasuryTransferStatus),
     (''/v1/treasury/onchain/notify'', ProxyTreasuryTransferOnchainNotify),
     (''/v1/treasury/waterline'', ProxyTreasuryWaterline),
     (''/v1/balance'', ProxyBalance),
     (''/v1/address/create'', ProxyCreateAddress),
     (''/v1/account/upsert'', ProxyAccountUpsert),
     (''/v1/account/get'', ProxyAccountGet),
     (''/v1/account/list'', ProxyAccountList),
     (''/v1/account/addresses'', ProxyAccountAddresses),
     (''/v1/account/assets'', ProxyAccountAssets)]"

section \<open>Helpers\<close>

definition maxRequestBodyBytes :: int where "maxRequestBodyBytes = 1024 * 1024"

definition readBody :: "string result \<Rightarrow> string result" where
  "readBody b = (case b of
     Inl _ \<Rightarrow> Inl (Errorf ''failed to read request body'')
   | Inr body \<Rightarrow> if int (length body) > maxRequestBodyBytes then Inl (Errorf ''request body too large'') else Inr body)"

definition query_get :: "http_request \<Rightarrow> string \<Rightarrow> string" where
  "query_get r k = (case map_of (rq_Query r) k of None \<Rightarrow> [] | Some v \<Rightarrow> v)"

definition parseRequestContext :: "json_decoder \<Rightarrow> http_request \<Rightarrow> string \<Rightarrow> request_context option" where
  "parseRequestContext J r body =
     (if rq_Method r = ''GET'' then
        Some \<lparr>rc_TenantID = trim_space (query_get r ''tenant_id''), rc_Chain = to_lower (trim_space (query_get r ''chain'')),
              rc_Network = to_lower (trim_space (query_get r ''network'')), rc_Amount = trim_space (query_get r ''amount'')\<rparr>
      else if body = [] then Some \<lparr>rc_TenantID = [], rc_Chain = [], rc_Network = [], rc_Amount = []\<rparr>
      else case js_Context J body of
             None \<Rightarrow> None
           | Some p \<Rightarrow> Some \<lparr>rc_TenantID = trim_space (rc_TenantID p), rc_Chain = to_lower (trim_space (rc_Chain p)),
                             rc_Network = to_lower (trim_space (rc_Network p)), rc_Amount = trim_space (rc_Amount p)\<rparr>)"

definition hashRequest :: "'u proxy_env \<Rightarrow> string \<Rightarrow> string" where
  "hashRequest E body = hex_encode (pe_Sum256 E body)"

text \<open>\<open>strings.SplitN(v, " ", 2)\<close>.\<close>

definition split_first :: "char \<Rightarrow> string \<Rightarrow> string list" where
  "split_first c v = (if c \<in> set v then [takeWhile (\<lambda>x. x \<noteq> c) v, tl (dropWhile (\<lambda>x. x \<noteq> c) v)] else [v])"

definition bearerToken :: "string \<Rightarrow> string" where
  "bearerToken v0 =
     (let v = trim_space v0 in
      if v = [] then []
      else let parts = split_first (CHR '' '') v in
           if length parts = 2 \<and> equal_fold (parts ! 0) ''Bearer'' then trim_space (parts ! 1) else v)"

definition requestIDFrom :: "string \<Rightarrow> string" where "requestIDFrom headerValue = trim_space headerValue"

definition generateRequestID :: "int \<Rightarrow> string \<Rightarrow> string \<Rightarrow> string" where
  "generateRequestID nanos rnd prefix =
     (let p = trim_space prefix; p' = (if p = [] then ''req'' else p) in
      p' @ ''-'' @ int_to_string nanos @ ''-'' @ hex_encode rnd)"

text \<open>The status is 0 when the request is authorised.\<close>

definition authorize :: "http_request \<Rightarrow> string \<Rightarrow> string \<Rightarrow> security_db \<Rightarrow> int \<times> string" where
  "authorize r tenantID permission db =
     (let token = bearerToken (rq_Authorization r) in
      if trim_space token = [] then (401, ''missing token'')
      else case ValidateToken token db of
             Inl _ \<Rightarrow> (401, ''invalid token'')
           | Inr sc \<Rightarrow>
               if trim_space tenantID \<noteq> [] \<and> sp_TenantID sc \<noteq> ''*'' \<and> sp_TenantID sc \<noteq> tenantID then (403, ''tenant mismatch'')
               else if permission = ''withdraw'' then (if \<not> sp_CanWithdraw sc then (403, ''withdraw not allowed'') else (0, []))
               else if permission = ''deposit'' then (if \<not> sp_CanDeposit sc then (403, ''deposit not allowed'') else (0, []))
               else if permission = ''sweep'' then (if \<not> sp_CanSweep sc then (403, ''sweep not allowed'') else (0, []))
               else if permission = ''read'' then (0, [])
               else if permission = [] then (403, ''permission not specified'')
               else (0, []))"

fun check_keys :: "string \<Rightarrow> string list \<Rightarrow> string list \<Rightarrow> security_db \<Rightarrow> unit result" where
  "check_keys tenantID seen [] db = Inr ()"
| "check_keys tenantID seen (key # keys) db =
     (if key \<in> set seen then check_keys tenantID seen keys db
      else case CheckSignPermission tenantID key db of
             Inl _ \<Rightarrow> Inl (Errorf ''check sign permission failed'')
           | Inr allowed \<Rightarrow>
               if \<not> allowed then Inl (Errorf ''key permission denied'')
               else check_keys tenantID (key # seen) keys db)"

definition request_keys :: "string \<times> string list \<Rightarrow> string list" where
  "request_keys p = (case p of (keyID, keyIDs) \<Rightarrow>
     (if trim_space keyID \<noteq> [] then [trim_space keyID] else []) @ filter (\<lambda>k. k \<noteq> []) (map trim_space keyIDs))"

definition checkSignPermission :: "json_decoder \<Rightarrow> string \<Rightarrow> string \<Rightarrow> security_db \<Rightarrow> unit result" where
  "checkSignPermission J tenantID body db =
     (case js_Keys J body of
        None \<Rightarrow> Inl (Errorf ''invalid json'')
      | Some p \<Rightarrow> if request_keys p = [] then Inr () else check_keys tenantID [] (request_keys p) db)"

definition forward_request :: "'u proxy_env \<Rightarrow> http_request \<Rightarrow> string \<Rightarrow> string \<Rightarrow> string \<Rightarrow> forwarded" where
  "forward_request E r upstreamPath requestID body =
     \<lparr>fw_Method = rq_Method r,
      fw_URL = pe_WalletCoreAddr E @ upstreamPath @
        (if rq_Method r = ''GET'' \<and> rq_RawQuery r \<noteq> [] then ''?'' @ rq_RawQuery r else []),
      fw_Body = body, fw_Authorization = rq_Authorization r, fw_RequestID = requestID\<rparr>"

definition forward ::
  "'u proxy_env \<Rightarrow> http_request \<Rightarrow> string \<Rightarrow> string \<Rightarrow> string \<Rightarrow> 'u gateway \<Rightarrow> (int \<times> string \<times> string) result \<times> 'u gateway" where
  "forward E r upstreamPath requestID body w =
     (let q = forward_request E r upstreamPath requestID body in
      case pe_Do E q (gw_upstream w) of
        (resp, u) \<Rightarrow> (resp, w\<lparr>gw_upstream := u, gw_log := gw_log w @ [q]\<rparr>))"


section \<open>The handler\<close>

text \<open>The checks before the idempotency key is reserved: the body and the parsed context, or an answer.\<close>

definition admit ::
  "'u proxy_env \<Rightarrow> http_request \<Rightarrow> string \<Rightarrow> route_spec \<Rightarrow> security_db \<Rightarrow> http_response + string \<times> request_context" where
  "admit E r requestID spec db =
     bindE (if rs_Method spec = ''POST'' then
              (case readBody (rq_Body r) of Inl _ \<Rightarrow> Inl (http_Error requestID ''bad request'' 400) | Inr b \<Rightarrow> Inr b)
            else Inr []) (\<lambda>body.
     bindE (case parseRequestContext (pe_JSON E) r body of
              None \<Rightarrow> Inl (http_Error requestID ''invalid json'' 400) | Some p \<Rightarrow> Inr p) (\<lambda>parsed.
     if rs_RequireTenant spec \<and> trim_space (rc_TenantID parsed) = [] then
       Inl (http_Error requestID ''tenant_id is required'' 400)
     else
       let (statusCode, authMsg) = authorize r (rc_TenantID parsed) (rs_Permission spec) db in
       if statusCode \<noteq> 0 then Inl (http_Error requestID authMsg statusCode)
       else if rs_CheckSignPermission spec \<and> \<not> is_ok (checkSignPermission (pe_JSON E) (rc_TenantID parsed) body db) then
         Inl (http_Error requestID ''permission denied'' 403)
       else if rs_RequireChainNetwork spec \<and> (trim_space (rc_Chain parsed) = [] \<or> trim_space (rc_Network parsed) = []) then
         Inl (http_Error requestID ''chain and network are required'' 400)
       else if trim_space (rc_Chain parsed) \<noteq> [] \<and> trim_space (rc_Network parsed) \<noteq> [] \<and>
           \<not> is_ok (CheckTenantChainPolicy (rc_TenantID parsed) (rc_Chain parsed) (rc_Network parsed) (rs_Permission spec)
                     (rc_Amount parsed) db) then
         Inl (http_Error requestID ''chain policy denied'' 403)
       else Inr (body, parsed)))"

text \<open>The idempotency key is settled by the class of the upstream's status.\<close>

definition settle_idem :: "int \<Rightarrow> string \<Rightarrow> string \<Rightarrow> string \<Rightarrow> int \<Rightarrow> string \<Rightarrow> idem_row table \<Rightarrow> idem_row table" where
  "settle_idem now tenantID requestID op respStatus respBody t =
     (if 200 \<le> respStatus \<and> respStatus < 300 then Commit now tenantID requestID op respBody t
      else if 400 \<le> respStatus \<and> respStatus < 500 then
        Reject now tenantID requestID op (''upstream status='' @ int_to_string respStatus) t
      else t)"

text \<open>Forwarding, settling and auditing; \<open>idemState\<close> is the state of the reservation.\<close>

definition forward_and_settle ::
  "'u proxy_env \<Rightarrow> int \<Rightarrow> http_request \<Rightarrow> string \<Rightarrow> string \<Rightarrow> route_spec \<Rightarrow> string \<Rightarrow> request_context \<Rightarrow> string
     \<Rightarrow> 'u gateway \<Rightarrow> http_response \<times> 'u gateway" where
  "forward_and_settle E now r upstreamPath requestID spec body parsed idemState w =
     (case forward E r upstreamPath requestID body w of
        (Inl _, w1) \<Rightarrow> (http_Error requestID ''wallet-core unavailable'' 502, w1)
      | (Inr (respStatus, respBody, contentType), w1) \<Rightarrow>
          let db1 = gw_db w1;
              db2 = (if rs_IdempotencyOp spec \<noteq> [] \<and> idemState = ''NEW'' then
                       db1\<lparr>idem_requests := settle_idem now (rc_TenantID parsed) requestID (rs_IdempotencyOp spec)
                              respStatus respBody (idem_requests db1)\<rparr>
                     else db1);
              db3 = (if trim_space (rc_TenantID parsed) \<noteq> [] then
                       Audit now (rc_TenantID parsed) (rs_Action spec) requestID
                         (''path='' @ upstreamPath @ '' status='' @ int_to_string respStatus) db2
                     else db2)
          in (\<lparr>rp_Status = respStatus, rp_Body = respBody, rp_RequestID = requestID, rp_ContentType = contentType\<rparr>,
              w1\<lparr>gw_db := db3\<rparr>))"

definition proxy_requestID :: "int \<Rightarrow> string \<Rightarrow> http_request \<Rightarrow> route_spec \<Rightarrow> string" where
  "proxy_requestID now rnd r spec =
     (let requestID = requestIDFrom (rq_RequestID r) in
      if requestID = [] then generateRequestID now rnd (rs_Action spec) else requestID)"

definition proxy ::
  "'u proxy_env \<Rightarrow> int \<Rightarrow> string \<Rightarrow> http_request \<Rightarrow> string \<Rightarrow> route_spec \<Rightarrow> 'u gateway \<Rightarrow> http_response \<times> 'u gateway" where
  "proxy E now rnd r upstreamPath spec w =
     (if rq_Method r \<noteq> rs_Method spec then (http_Error [] ''method not allowed'' 405, w)
      else
        let requestID = proxy_requestID now rnd r spec in
        case admit E r requestID spec (gw_db w) of
          Inl resp \<Rightarrow> (resp, w)
        | Inr (body, parsed) \<Rightarrow>
            if rs_IdempotencyOp spec = [] then forward_and_settle E now r upstreamPath requestID spec body parsed ''NONE'' w
            else
              case Reserve now (rc_TenantID parsed) requestID (rs_IdempotencyOp spec) (hashRequest E body)
                     (idem_requests (gw_db w)) of
                (Inl _, t) \<Rightarrow>
                  (http_Error requestID ''idempotency unavailable'' 500, w\<lparr>gw_db := (gw_db w)\<lparr>idem_requests := t\<rparr>\<rparr>)
              | (Inr idem, t) \<Rightarrow>
                  let w1 = w\<lparr>gw_db := (gw_db w)\<lparr>idem_requests := t\<rparr>\<rparr> in
                  if ires_State idem = ''REPLAY'' then
                    (\<lparr>rp_Status = 200, rp_Body = ires_Response idem, rp_RequestID = requestID, rp_ContentType = []\<rparr>, w1)
                  else if ires_State idem = ''CONFLICT'' then (http_Error requestID ''idempotency conflict'' 409, w1)
                  else if ires_State idem = ''REJECTED'' then (http_Error requestID ''previous request failed'' 409, w1)
                  else forward_and_settle E now r upstreamPath requestID spec body parsed (ires_State idem) w1)"

end
