(* ===== verification/Gateway_Theorems.thy ===== *)
theory Gateway_Theorems
  imports Gateway_Proxy
begin

text \<open>
  Properties of the API gateway: what a forwarded request has passed, the withdraw limit of
  the most specific policy, and the idempotency of requests.
\<close>

section \<open>Admission\<close>

lemma ValidateToken_Inr:
  assumes "ValidateToken token db = Inr sc"
  obtains row where "row \<in> set (api_tokens db)" "tk_token row = token" "tk_status row = ''ACTIVE''"
    "sc = \<lparr>sp_TenantID = tk_tenant row, sp_CanWithdraw = tk_can_withdraw row, sp_CanDeposit = tk_can_deposit row,
          sp_CanSweep = tk_can_sweep row\<rparr>"
  using assms by (auto simp: ValidateToken_def split: option.splits dest!: select_row_SomeD)

lemma authorize_scope:
  assumes "authorize r tenantID permission db = (0, m)"
  obtains sc where "ValidateToken (bearerToken (rq_Authorization r)) db = Inr sc"
    "trim_space tenantID = [] \<or> sp_TenantID sc = ''*'' \<or> sp_TenantID sc = tenantID"
    "permission = ''withdraw'' \<longrightarrow> sp_CanWithdraw sc" "permission = ''deposit'' \<longrightarrow> sp_CanDeposit sc"
    "permission = ''sweep'' \<longrightarrow> sp_CanSweep sc"
  using assms by (auto simp: authorize_def Let_def split: if_splits sum.splits)

lemma authorize_ok:
  assumes "authorize r tenantID permission db = (0, m)"
  obtains row where "row \<in> set (api_tokens db)" "tk_token row = bearerToken (rq_Authorization r)" "tk_status row = ''ACTIVE''"
    "trim_space tenantID = [] \<or> tk_tenant row = ''*'' \<or> tk_tenant row = tenantID"
    "permission = ''withdraw'' \<longrightarrow> tk_can_withdraw row" "permission = ''deposit'' \<longrightarrow> tk_can_deposit row"
    "permission = ''sweep'' \<longrightarrow> tk_can_sweep row"
proof -
  from assms obtain sc where sc: "ValidateToken (bearerToken (rq_Authorization r)) db = Inr sc"
    "trim_space tenantID = [] \<or> sp_TenantID sc = ''*'' \<or> sp_TenantID sc = tenantID"
    "permission = ''withdraw'' \<longrightarrow> sp_CanWithdraw sc" "permission = ''deposit'' \<longrightarrow> sp_CanDeposit sc"
    "permission = ''sweep'' \<longrightarrow> sp_CanSweep sc" by (rule authorize_scope)
  from ValidateToken_Inr [OF sc(1)] obtain row where row: "row \<in> set (api_tokens db)"
    "tk_token row = bearerToken (rq_Authorization r)" "tk_status row = ''ACTIVE''"
    "sc = \<lparr>sp_TenantID = tk_tenant row, sp_CanWithdraw = tk_can_withdraw row, sp_CanDeposit = tk_can_deposit row,
          sp_CanSweep = tk_can_sweep row\<rparr>" by metis
  show ?thesis by (rule that [OF row(1-3)]) (use sc(2-) row(4) in simp_all)
qed

lemma check_keys_ok:
  assumes "check_keys t seen keys db = Inr ()" "\<forall>k\<in>set seen. CheckSignPermission t k db = Inr True"
  shows "\<forall>k\<in>set keys. CheckSignPermission t k db = Inr True"
  using assms
proof (induction keys arbitrary: seen)
  case (Cons k keys)
  show ?case
  proof (cases "k \<in> set seen")
    case True
    then have "check_keys t seen keys db = Inr ()" using Cons.prems(1) by simp
    from Cons.IH [OF this Cons.prems(2)] show ?thesis using Cons.prems(2) True by simp
  next
    case False
    then have k: "CheckSignPermission t k db = Inr True" "check_keys t (k # seen) keys db = Inr ()"
      using Cons.prems(1) by (simp_all split: sum.splits if_splits)
    have "\<forall>j\<in>set (k # seen). CheckSignPermission t j db = Inr True" using Cons.prems(2) k(1) by simp
    from Cons.IH [OF k(2) this] show ?thesis using k(1) by simp
  qed
qed simp

lemma checkSignPermission_ok:
  assumes "is_ok (checkSignPermission J t body db)"
  obtains p where "js_Keys J body = Some p" "\<forall>k\<in>set (request_keys p). CheckSignPermission t k db = Inr True"
proof -
  obtain p where p: "js_Keys J body = Some p" "request_keys p = [] \<or> check_keys t [] (request_keys p) db = Inr ()"
    using assms by (auto simp: checkSignPermission_def is_ok_iff split: option.splits if_splits)
  then have "\<forall>k\<in>set (request_keys p). CheckSignPermission t k db = Inr True" using check_keys_ok [of t "[]"] by fastforce
  then show ?thesis using that p(1) by blast
qed

lemma admit_Inr:
  assumes "admit E r requestID spec db = Inr (body, parsed)"
  shows "rs_Method spec = ''POST'' \<Longrightarrow> readBody (rq_Body r) = Inr body" "rs_Method spec \<noteq> ''POST'' \<Longrightarrow> body = []"
    "parseRequestContext (pe_JSON E) r body = Some parsed"
    "rs_RequireTenant spec \<Longrightarrow> trim_space (rc_TenantID parsed) \<noteq> []"
    "\<exists>m. authorize r (rc_TenantID parsed) (rs_Permission spec) db = (0, m)"
    "rs_CheckSignPermission spec \<Longrightarrow> is_ok (checkSignPermission (pe_JSON E) (rc_TenantID parsed) body db)"
    "rs_RequireChainNetwork spec \<Longrightarrow> trim_space (rc_Chain parsed) \<noteq> [] \<and> trim_space (rc_Network parsed) \<noteq> []"
    "trim_space (rc_Chain parsed) \<noteq> [] \<Longrightarrow> trim_space (rc_Network parsed) \<noteq> [] \<Longrightarrow>
       CheckTenantChainPolicy (rc_TenantID parsed) (rc_Chain parsed) (rc_Network parsed) (rs_Permission spec) (rc_Amount parsed) db = Inr ()"
  using assms
  by (auto simp: admit_def Let_def is_ok_iff split: if_splits sum.splits option.splits prod.splits)

lemma forward_and_settle_log:
  "gw_log (snd (forward_and_settle E now r path requestID spec body parsed st w)) =
     gw_log w @ [forward_request E r path requestID body]"
  by (auto simp: forward_and_settle_def forward_def Let_def split: prod.splits sum.splits)

text \<open>A request is forwarded at most once, and only when it was admitted.\<close>

lemma proxy_log:
  assumes run: "proxy E now rnd r path spec w = (resp, w')"
  obtains "gw_log w' = gw_log w"
  | body parsed requestID where "admit E r requestID spec (gw_db w) = Inr (body, parsed)"
      "gw_log w' = gw_log w @ [forward_request E r path requestID body]"
proof -
  have "gw_log w' = gw_log w \<or> (\<exists>body parsed requestID. admit E r requestID spec (gw_db w) = Inr (body, parsed) \<and>
      gw_log w' = gw_log w @ [forward_request E r path requestID body])"
  proof -
    define requestID where "requestID = proxy_requestID now rnd r spec"
    have w': "w' = snd (proxy E now rnd r path spec w)" using run by simp
    show ?thesis
    proof (cases "rq_Method r \<noteq> rs_Method spec")
      case True then show ?thesis using w' by (simp add: proxy_def)
    next
      case False
      show ?thesis
      proof (cases "admit E r requestID spec (gw_db w)")
        case (Inl x) then show ?thesis using w' False by (simp add: proxy_def Let_def flip: requestID_def)
      next
        case (Inr y)
        obtain body parsed where y: "y = (body, parsed)" by force
        have "gw_log w' = gw_log w \<or> gw_log w' = gw_log w @ [forward_request E r path requestID body]"
          using False Inr y unfolding w'
          by (auto simp: proxy_def Let_def forward_and_settle_log simp flip: requestID_def split: prod.splits sum.splits)
        then show ?thesis using Inr y by blast
      qed
    qed
  qed
  then show ?thesis using that by blast
qed

text \<open>
  C34: Nothing passes the gateway unauthorised. A request is forwarded at most once; if it
  is, then its token is an active one, of the tenant of the request or of every tenant, with
  the right of the route; a route that needs a tenant has one; where the route checks keys,
  every key of the request is granted to the tenant; and where the request names a chain
  and a network, the tenant's policy accepts the operation.
\<close>

theorem forwarded_only_if_authorised:
  assumes run: "proxy E now rnd r path spec w = (resp, w')" and sent: "gw_log w' \<noteq> gw_log w"
  shows "\<exists>q body parsed row. gw_log w' = gw_log w @ [q] \<and> fw_Body q = body \<and>
           parseRequestContext (pe_JSON E) r body = Some parsed \<and>
           row \<in> set (api_tokens (gw_db w)) \<and> tk_status row = ''ACTIVE'' \<and>
           tk_token row = bearerToken (rq_Authorization r) \<and>
           (trim_space (rc_TenantID parsed) = [] \<or> tk_tenant row = ''*'' \<or> tk_tenant row = rc_TenantID parsed) \<and>
           (rs_RequireTenant spec \<longrightarrow> trim_space (rc_TenantID parsed) \<noteq> []) \<and>
           (rs_Permission spec = ''withdraw'' \<longrightarrow> tk_can_withdraw row) \<and>
           (rs_Permission spec = ''deposit'' \<longrightarrow> tk_can_deposit row) \<and>
           (rs_Permission spec = ''sweep'' \<longrightarrow> tk_can_sweep row) \<and>
           (rs_CheckSignPermission spec \<longrightarrow>
              (\<exists>p. js_Keys (pe_JSON E) body = Some p \<and>
                (\<forall>k\<in>set (request_keys p). CheckSignPermission (rc_TenantID parsed) k (gw_db w) = Inr True))) \<and>
           (trim_space (rc_Chain parsed) \<noteq> [] \<and> trim_space (rc_Network parsed) \<noteq> [] \<longrightarrow>
              CheckTenantChainPolicy (rc_TenantID parsed) (rc_Chain parsed) (rc_Network parsed) (rs_Permission spec)
                (rc_Amount parsed) (gw_db w) = Inr ())"
proof -
  from run sent obtain body parsed requestID where a: "admit E r requestID spec (gw_db w) = Inr (body, parsed)"
    and log: "gw_log w' = gw_log w @ [forward_request E r path requestID body]" using proxy_log [OF run] by metis
  note ad = admit_Inr [OF a]
  from ad(5) obtain m where "authorize r (rc_TenantID parsed) (rs_Permission spec) (gw_db w) = (0, m)" by blast
  then obtain row where row: "row \<in> set (api_tokens (gw_db w))" "tk_token row = bearerToken (rq_Authorization r)" "tk_status row = ''ACTIVE''"
    "trim_space (rc_TenantID parsed) = [] \<or> tk_tenant row = ''*'' \<or> tk_tenant row = rc_TenantID parsed"
    "rs_Permission spec = ''withdraw'' \<longrightarrow> tk_can_withdraw row" "rs_Permission spec = ''deposit'' \<longrightarrow> tk_can_deposit row"
    "rs_Permission spec = ''sweep'' \<longrightarrow> tk_can_sweep row" by (rule authorize_ok)
  have keys: "rs_CheckSignPermission spec \<longrightarrow> (\<exists>p. js_Keys (pe_JSON E) body = Some p \<and>
                (\<forall>k\<in>set (request_keys p). CheckSignPermission (rc_TenantID parsed) k (gw_db w) = Inr True))"
    using ad(6) checkSignPermission_ok by blast
  have "fw_Body (forward_request E r path requestID body) = body" by (simp add: forward_request_def)
  then show ?thesis using log ad(3,4,8) row keys by blast
qed


text \<open>A gateway with one token, one key grant and one policy, in front of an upstream that answers 200.\<close>

definition sample_env :: "unit proxy_env" where
  "sample_env = \<lparr>pe_WalletCoreAddr = ''http://core'', pe_Do = \<lambda>q u. (Inr (200, ''done'', ''application/json''), u),
     pe_JSON = \<lparr>js_Context = \<lambda>b. Some \<lparr>rc_TenantID = ''t1'', rc_Chain = ''ethereum'', rc_Network = ''main'', rc_Amount = ''5''\<rparr>,
                js_Keys = \<lambda>b. Some (''k1'', [])\<rparr>,
     pe_Sum256 = \<lambda>b. b\<rparr>"

definition sample_gateway :: "unit gateway" where
  "sample_gateway = \<lparr>gw_db = \<lparr>
       api_tokens = [\<lparr>tk_token = ''tok'', tk_tenant = ''t1'', tk_can_withdraw = True, tk_can_deposit = False,
                      tk_can_sweep = False, tk_status = ''ACTIVE''\<rparr>],
       tenant_keys = [\<lparr>ky_tenant = ''t1'', ky_key = ''k1'', ky_status = ''ACTIVE'', ky_updated_at = 0\<rparr>],
       audit_logs = [],
       tenant_chain_policies = [\<lparr>po_id = 1, po_tenant = ''t1'', po_chain = ''*'', po_network = ''*'', po_allow_deposit = False,
          po_allow_withdraw = True, po_allow_sweep = False, po_max_withdraw = ''10'', po_priority = 0, po_status = ''ACTIVE''\<rparr>],
       idem_requests = []\<rparr>, gw_upstream = (), gw_log = []\<rparr>"

definition sample_post :: "string \<Rightarrow> http_request" where
  "sample_post body = \<lparr>rq_Method = ''POST'', rq_Authorization = ''Bearer tok'', rq_RequestID = ''r1'', rq_RawQuery = [], rq_Query = [],
     rq_Body = Inr body\<rparr>"

definition sample_run :: "string \<Rightarrow> unit gateway \<Rightarrow> http_response \<times> unit gateway" where
  "sample_run body = proxy sample_env 7 [] (sample_post body) (fst ProxyWithdraw) (snd ProxyWithdraw)"

lemma sample_run_log: "length (gw_log (snd (sample_run ''{}'' sample_gateway))) = 1" "gw_log sample_gateway = []"
  by code_simp+

theorem forwarded_only_if_authorised_witness:
  "\<exists>row\<in>set (api_tokens (gw_db sample_gateway)). tk_token row = bearerToken ''Bearer tok'' \<and> tk_can_withdraw row"
proof -
  have ne: "gw_log (snd (sample_run ''{}'' sample_gateway)) \<noteq> gw_log sample_gateway" using sample_run_log by auto
  have "rs_Permission (snd ProxyWithdraw) = ''withdraw''" "rq_Authorization (sample_post ''{}'') = ''Bearer tok''"
    by (simp_all add: ProxyWithdraw_def sample_post_def)
  then show ?thesis
    using forwarded_only_if_authorised [OF surjective_pairing ne [unfolded sample_run_def]] by auto
qed


section \<open>Limits\<close>

lemma policy_withdraw:
  assumes "CheckTenantChainPolicy t c n ''withdraw'' amount db = Inr ()"
  obtains p where "select_policy (trim_space t) (to_lower (trim_space c)) (to_lower (trim_space n)) (tenant_chain_policies db) = Some p"
    "po_allow_withdraw p" "check_max_withdraw amount (po_max_withdraw p) = Inr ()"
proof -
  have "to_lower (trim_space ''withdraw'') = ''withdraw''" by code_simp
  then show ?thesis using assms that by (auto simp: CheckTenantChainPolicy_def Let_def split: if_splits option.splits)
qed

lemma check_max_withdraw_ok:
  assumes "check_max_withdraw a m = Inr ()" "trim_space a \<noteq> []" "trim_space m \<noteq> []" "trim_space m \<noteq> ''0''"
  shows "\<exists>x y. big_SetString (trim_space a) = Some x \<and> big_SetString (trim_space m) = Some y \<and> x \<le> y"
  using assms by (auto simp: check_max_withdraw_def split: option.splits if_splits)

text \<open>
  C35: The withdraw limit. A forwarded withdraw on a named chain and network is allowed by
  the most specific active policy of the tenant (tenant before chain before network before
  priority before age), and when that policy has a limit and the request an amount, both are
  integers and the amount is within the limit.
\<close>

theorem forwarded_withdraw_within_limit:
  assumes run: "proxy E now rnd r path spec w = (resp, w')" and sent: "gw_log w' = gw_log w @ [q]"
    and perm: "rs_Permission spec = ''withdraw''" and parsed: "parseRequestContext (pe_JSON E) r (fw_Body q) = Some c"
    and named: "trim_space (rc_Chain c) \<noteq> []" "trim_space (rc_Network c) \<noteq> []"
  shows "\<exists>p\<in>set (tenant_chain_policies (gw_db w)).
           policy_applies (trim_space (rc_TenantID c)) (to_lower (trim_space (rc_Chain c))) (to_lower (trim_space (rc_Network c))) p \<and>
           (\<forall>p'\<in>set (tenant_chain_policies (gw_db w)).
              policy_applies (trim_space (rc_TenantID c)) (to_lower (trim_space (rc_Chain c))) (to_lower (trim_space (rc_Network c))) p' \<longrightarrow>
              policy_order (trim_space (rc_TenantID c)) (to_lower (trim_space (rc_Chain c))) (to_lower (trim_space (rc_Network c))) p \<le>
              policy_order (trim_space (rc_TenantID c)) (to_lower (trim_space (rc_Chain c))) (to_lower (trim_space (rc_Network c))) p') \<and>
           po_allow_withdraw p \<and>
           (trim_space (po_max_withdraw p) \<noteq> [] \<and> trim_space (po_max_withdraw p) \<noteq> ''0'' \<and> trim_space (rc_Amount c) \<noteq> [] \<longrightarrow>
              (\<exists>x y. big_SetString (trim_space (rc_Amount c)) = Some x \<and>
                 big_SetString (trim_space (po_max_withdraw p)) = Some y \<and> x \<le> y))"
proof -
  from run sent obtain body parsed requestID where a: "admit E r requestID spec (gw_db w) = Inr (body, parsed)"
    and log: "gw_log w' = gw_log w @ [forward_request E r path requestID body]"
    using proxy_log [OF run] by (metis append_self_conv list.discI)
  have "fw_Body q = body" using sent log by (auto simp: forward_request_def)
  then have c: "parsed = c" using admit_Inr(3) [OF a] parsed by simp
  have "CheckTenantChainPolicy (rc_TenantID c) (rc_Chain c) (rc_Network c) ''withdraw'' (rc_Amount c) (gw_db w) = Inr ()"
    using admit_Inr(8) [OF a] named perm c by simp
  then obtain p where p: "select_policy (trim_space (rc_TenantID c)) (to_lower (trim_space (rc_Chain c)))
      (to_lower (trim_space (rc_Network c))) (tenant_chain_policies (gw_db w)) = Some p"
    "po_allow_withdraw p" "check_max_withdraw (rc_Amount c) (po_max_withdraw p) = Inr ()" by (rule policy_withdraw)
  show ?thesis
    by (rule bexI [of _ p], intro conjI ballI impI)
       (use p select_policy_applies [OF p(1)] select_policy_first [OF p(1)] check_max_withdraw_ok [OF p(3)] in auto)
qed

theorem forwarded_withdraw_within_limit_witness:
  "\<exists>p\<in>set (tenant_chain_policies (gw_db sample_gateway)). po_allow_withdraw p"
proof -
  obtain q where q: "gw_log (snd (sample_run ''{}'' sample_gateway)) = gw_log sample_gateway @ [q]"
    using sample_run_log by (auto simp: length_Suc_conv)
  have ctx: "parseRequestContext (pe_JSON sample_env) (sample_post ''{}'') (fw_Body q) =
      Some \<lparr>rc_TenantID = ''t1'', rc_Chain = ''ethereum'', rc_Network = ''main'', rc_Amount = ''5''\<rparr>"
  proof -
    have "map fw_Body (gw_log (snd (sample_run ''{}'' sample_gateway))) = [''{}'']" by code_simp
    then have "fw_Body q = ''{}''" using q sample_run_log(2) by simp
    moreover have "parseRequestContext (pe_JSON sample_env) (sample_post ''{}'') ''{}'' =
      Some \<lparr>rc_TenantID = ''t1'', rc_Chain = ''ethereum'', rc_Network = ''main'', rc_Amount = ''5''\<rparr>" by code_simp
    ultimately show ?thesis by simp
  qed
  have t: "trim_space ''ethereum'' \<noteq> []" "trim_space ''main'' \<noteq> []" by code_simp+
  have perm: "rs_Permission (snd ProxyWithdraw) = ''withdraw''" by (simp add: ProxyWithdraw_def)
  show ?thesis
    using forwarded_withdraw_within_limit [OF surjective_pairing q [unfolded sample_run_def] perm ctx] t by auto
qed


section \<open>Idempotency\<close>


lemma proxy_requestID_not_Nil: "proxy_requestID now rnd r spec \<noteq> []"
  by (simp add: proxy_requestID_def generateRequestID_def Let_def)












end
