(* ===== verification/Registry.thy ===== *)
theory Registry
  imports Sign_Keys Ports Ledger_Amounts "HOL-Library.Product_Lexorder"
begin

text \<open>
  The address registry of wallet-core
  (\<open>src/services/wallet-core/internal/adapters/registry/postgres.go\<close> and \<open>hd.go\<close>): accounts
  with their HD account index, addresses with their key ids, the addresses the scanners
  watch, and the metadata and policy of each chain.

  A \<open>BIGSERIAL\<close> column draws from its sequence on every insert, also on one that ends in a
  conflict (the model gives back what a rolled-back transaction drew). Times are numbers (the queries format them with \<open>TO_CHAR\<close>). The columns are
  \<open>NOT NULL\<close> apart from \<open>hd_account_index\<close>, so \<open>COALESCE\<close> on the others is the identity.
\<close>

section \<open>Data\<close>

record wallet_account =
  wac_TenantID :: string
  wac_AccountID :: string
  wac_AccountTag :: string
  wac_Status :: string
  wac_Remark :: string
  wac_CreatedAt :: int
  wac_UpdatedAt :: int

record account_row = wallet_account +
  ac_id :: int
  ac_hd_account_index :: "int option"

record wallet_address =
  wad_TenantID :: string
  wad_AccountID :: string
  wad_Model :: string
  wad_Chain :: string
  wad_Coin :: string
  wad_Network :: string
  wad_Address :: string
  wad_KeyID :: string
  wad_PublicKey :: string
  wad_SignType :: string
  wad_AddressType :: string
  wad_DerivationPath :: string
  wad_ChangeIndex :: int
  wad_AddressIndex :: int
  wad_Status :: string
  wad_CreatedAt :: int
  wad_UpdatedAt :: int

record address_row = wallet_address +
  ad_id :: int

record watch_row =
  sw_tenant :: string
  sw_account :: string
  sw_model :: string
  sw_chain :: string
  sw_coin :: string
  sw_network :: string
  sw_address :: string
  sw_min_confirmations :: int
  sw_unlock_confirmations :: int
  sw_treasury :: string
  sw_cold :: string
  sw_auto_sweep :: bool
  sw_sweep_threshold :: string
  sw_hot_balance_cap :: string
  sw_active :: bool
  sw_created_at :: int
  sw_updated_at :: int

record chain_metadata =
  cm_Chain :: string
  cm_Network :: string
  cm_Model :: string
  cm_NativeAsset :: string
  cm_MinConfirmations :: int
  cm_Enabled :: bool

record chain_policy =
  cp_Chain :: string
  cp_Network :: string
  cp_RequiredConfirmations :: int
  cp_UnlockConfirmations :: int
  cp_SafeDepth :: int
  cp_ReorgWindow :: int
  cp_FeePolicy :: string
  cp_Enabled :: bool

text \<open>A row of \<open>chain_policies\<close>, which has no column for the unlock confirmations.\<close>

record chain_policy_row =
  cr_chain :: string
  cr_network :: string
  cr_required_confirmations :: int
  cr_safe_depth :: int
  cr_reorg_window :: int
  cr_fee_policy :: string
  cr_enabled :: bool

record registry_db =
  wallet_accounts :: "account_row table"
  wallet_addresses :: "address_row table"
  scan_watch_addresses :: "watch_row table"
  chain_metadata_rows :: "chain_metadata table"
  chain_policy_rows :: "chain_policy_row table"
  account_seq :: int
  address_seq :: int

record watch_address_input =
  wi_TenantID :: string
  wi_AccountID :: string
  wi_Model :: string
  wi_Chain :: string
  wi_Coin :: string
  wi_Network :: string
  wi_Address :: string
  wi_KeyID :: string
  wi_PublicKey :: string
  wi_SignType :: string
  wi_AddressType :: string
  wi_DerivationPath :: string
  wi_ChangeIndex :: int
  wi_AddressIndex :: int
  wi_MinConfirmations :: int
  wi_UnlockConfirmations :: int
  wi_TreasuryAccountID :: string
  wi_ColdAccountID :: string
  wi_AutoSweep :: bool
  wi_SweepThreshold :: string
  wi_HotBalanceCap :: string

record prepare_address_input =
  pi_TenantID :: string
  pi_AccountID :: string
  pi_Model :: string
  pi_Chain :: string
  pi_Network :: string
  pi_SignType :: string
  pi_AddressType :: string

record prepared_address =
  pa_Address :: wallet_address
  pa_Existing :: bool


section \<open>Normalisation and key ids\<close>

definition reg_normalizeChain :: "string \<Rightarrow> string" where
  "reg_normalizeChain v =
     (let x = to_lower (trim_space v) in
      if x = ''eth'' then ''ethereum''
      else if x = ''bsc'' \<or> x = ''bnb'' then ''binance''
      else if x = ''matic'' then ''polygon''
      else if x = ''arb'' then ''arbitrum''
      else if x = ''trx'' then ''tron''
      else if x = ''sol'' then ''solana''
      else if x = ''btc'' then ''bitcoin''
      else if x = ''bch'' then ''bitcoincash''
      else if x = ''ltc'' then ''litecoin''
      else if x = ''doge'' then ''dogecoin''
      else x)"

definition normalizeNetwork :: "string \<Rightarrow> string" where "normalizeNetwork v = to_lower (trim_space v)"

definition normalizeModel :: "string \<Rightarrow> string" where
  "normalizeModel v = (let x = to_lower (trim_space v) in if x = ''account'' \<or> x = ''utxo'' then x else [])"

definition normalizeCoin :: "string \<Rightarrow> string" where "normalizeCoin v = to_upper (trim_space v)"

definition normalizeChainSignType :: "string \<Rightarrow> string" where
  "normalizeChainSignType v =
     (let x = normalizeNetwork v in
      if x = ''ecdsa'' then ''ecdsa'' else if x = ''ed25519'' \<or> x = ''eddsa'' then ''eddsa'' else [])"

definition reg_normalizeSignType :: "string \<Rightarrow> string" where
  "reg_normalizeSignType v =
     (let x = normalizeChainSignType v in if x = ''ecdsa'' \<or> x = ''eddsa'' then x else [])"

definition buildHDKeyID :: "string \<Rightarrow> string \<Rightarrow> int \<Rightarrow> int \<Rightarrow> int \<Rightarrow> string" where
  "buildHDKeyID signType chain accountIndex changeIndex addressIndex =
     join_with (CHR '':'') [''hd'', reg_normalizeSignType signType, reg_normalizeChain chain,
       int_to_string accountIndex, int_to_string changeIndex, int_to_string addressIndex]"

definition hdCoinTypeForChain :: "string \<Rightarrow> int result" where
  "hdCoinTypeForChain chain =
     (let c = reg_normalizeChain chain in
      if c \<in> {''ethereum'', ''binance'', ''polygon'', ''arbitrum'', ''optimism'', ''linea'', ''scroll'', ''mantle'', ''zksync''} then Inr 60
      else if c = ''tron'' then Inr 195
      else if c = ''cosmos'' then Inr 118
      else if c = ''btt'' then Inr 199
      else if c = ''solana'' then Inr 501
      else if c = ''aptos'' then Inr 637
      else if c = ''sui'' then Inr 784
      else if c = ''ton'' then Inr 607
      else if c = ''xlm'' \<or> c = ''stellar'' then Inr 148
      else if c = ''bitcoin'' then Inr 0
      else if c = ''litecoin'' then Inr 2
      else if c = ''dogecoin'' then Inr 3
      else if c = ''dash'' then Inr 5
      else if c = ''zen'' then Inr 121
      else if c = ''bitcoincash'' then Inr 145
      else Inl (Errorf (''unsupported chain for hd path: '' @ chain)))"

definition buildHDDerivationPath :: "string \<Rightarrow> string \<Rightarrow> int \<Rightarrow> int \<Rightarrow> int \<Rightarrow> string result" where
  "buildHDDerivationPath signType chain accountIndex changeIndex addressIndex =
     bindE (hdCoinTypeForChain chain) (\<lambda>coinType.
     if reg_normalizeSignType signType = ''ecdsa'' then
       Inr (path_str [''44'' @ [CHR 0x27], int_to_string coinType @ [CHR 0x27], int_to_string accountIndex @ [CHR 0x27],
              int_to_string changeIndex, int_to_string addressIndex])
     else if reg_normalizeSignType signType = ''eddsa'' then
       Inr (path_str [''44'' @ [CHR 0x27], int_to_string coinType @ [CHR 0x27], int_to_string accountIndex @ [CHR 0x27],
              int_to_string changeIndex @ [CHR 0x27], int_to_string addressIndex @ [CHR 0x27]])
     else Inl (Errorf (''unsupported sign type: '' @ signType)))"


section \<open>Chains\<close>

text \<open>The exact network comes before the wildcard.\<close>

definition network_rank :: "string \<Rightarrow> string \<Rightarrow> int" where
  "network_rank network n = (if n = network then 0 else 1)"

definition GetChainMetadata :: "string \<Rightarrow> string \<Rightarrow> registry_db \<Rightarrow> chain_metadata result" where
  "GetChainMetadata chain0 network0 db =
     (let chain = reg_normalizeChain chain0; network = normalizeNetwork network0 in
      if chain = [] \<or> network = [] then Inl (Errorf ''chain and network are required'')
      else case select_first (network_rank network \<circ> cm_Network)
                  (\<lambda>r. cm_Chain r = chain \<and> cm_Network r \<in> {network, ''*''}) (chain_metadata_rows db) of
             None \<Rightarrow> Inl (Errorf (''unsupported chain/network chain='' @ chain @ '' network='' @ network))
           | Some r \<Rightarrow> Inr r)"

definition policy_of_metadata :: "chain_metadata \<Rightarrow> chain_policy" where
  "policy_of_metadata meta =
     \<lparr>cp_Chain = cm_Chain meta, cp_Network = cm_Network meta,
      cp_RequiredConfirmations = maxInt64 (cm_MinConfirmations meta) 1,
      cp_UnlockConfirmations = maxInt64 (cm_MinConfirmations meta) 1,
      cp_SafeDepth = maxInt64 (cm_MinConfirmations meta) 1,
      cp_ReorgWindow = maxInt64 (cm_MinConfirmations meta * 3) 6,
      cp_FeePolicy = ''{}'', cp_Enabled = cm_Enabled meta\<rparr>"

definition policy_of_row :: "chain_policy_row \<Rightarrow> chain_policy" where
  "policy_of_row r =
     (let required = (if cr_required_confirmations r \<le> 0 then 1 else cr_required_confirmations r);
          safeDepth = (if cr_safe_depth r \<le> 0 then required else cr_safe_depth r)
      in \<lparr>cp_Chain = cr_chain r, cp_Network = cr_network r, cp_RequiredConfirmations = required,
          cp_UnlockConfirmations = maxInt64 safeDepth required, cp_SafeDepth = safeDepth,
          cp_ReorgWindow = (if cr_reorg_window r \<le> 0 then maxInt64 (required * 3) 6 else cr_reorg_window r),
          cp_FeePolicy = cr_fee_policy r, cp_Enabled = cr_enabled r\<rparr>)"

definition GetChainPolicy :: "string \<Rightarrow> string \<Rightarrow> registry_db \<Rightarrow> chain_policy result" where
  "GetChainPolicy chain0 network0 db =
     (let chain = reg_normalizeChain chain0; network = normalizeNetwork network0 in
      if chain = [] \<or> network = [] then Inl (Errorf ''chain and network are required'')
      else case select_first (network_rank network \<circ> cr_network)
                  (\<lambda>r. cr_chain r = chain \<and> cr_network r \<in> {network, ''*''}) (chain_policy_rows db) of
             None \<Rightarrow> bindE (GetChainMetadata chain network db) (\<lambda>meta. Inr (policy_of_metadata meta))
           | Some r \<Rightarrow> Inr (policy_of_row r))"


section \<open>Accounts\<close>

definition account_at :: "string \<times> string \<Rightarrow> account_row \<Rightarrow> bool" where
  "account_at k r \<longleftrightarrow> wac_TenantID r = fst k \<and> wac_AccountID r = snd k"

definition account_key :: "account_row \<Rightarrow> string \<times> string" where
  "account_key r = (wac_TenantID r, wac_AccountID r)"

interpretation accounts: unique_table account_key account_at
  by unfold_locales (auto simp: account_key_def account_at_def)

text \<open>\<open>UPDATE ... SET hd_account_index = id WHERE ... AND (hd_account_index IS NULL OR hd_account_index < 0)\<close>.\<close>

definition lacks_index :: "account_row \<Rightarrow> bool" where
  "lacks_index r = (case ac_hd_account_index r of None \<Rightarrow> True | Some i \<Rightarrow> i < 0)"

definition assign_index :: "string \<times> string \<Rightarrow> account_row table \<Rightarrow> account_row table" where
  "assign_index k t =
     update_where (\<lambda>r. account_at k r \<and> lacks_index r) (\<lambda>r. r\<lparr>ac_hd_account_index := Some (ac_id r)\<rparr>) t"

definition new_account_row :: "int \<Rightarrow> int \<Rightarrow> string \<Rightarrow> string \<Rightarrow> string \<Rightarrow> string \<Rightarrow> string \<Rightarrow> account_row" where
  "new_account_row now i tenantID accountID tag status remark =
     \<lparr>wac_TenantID = tenantID, wac_AccountID = accountID, wac_AccountTag = tag, wac_Status = status, wac_Remark = remark,
      wac_CreatedAt = now, wac_UpdatedAt = now, ac_id = i, ac_hd_account_index = None\<rparr>"

definition upsertAccountTx :: "int \<Rightarrow> string \<Rightarrow> string \<Rightarrow> string \<Rightarrow> string \<Rightarrow> registry_db \<Rightarrow> registry_db" where
  "upsertAccountTx now tenantID accountID status remark db =
     (let k = (tenantID, accountID);
          rows = insert_ignore (account_at k) (new_account_row now (account_seq db + 1) tenantID accountID [] status remark)
                   (wallet_accounts db)
      in db\<lparr>wallet_accounts := assign_index k rows, account_seq := account_seq db + 1\<rparr>)"

definition GetAccount :: "string \<Rightarrow> string \<Rightarrow> registry_db \<Rightarrow> wallet_account result" where
  "GetAccount tenantID accountID db =
     (case select_row (account_at (tenantID, accountID)) (wallet_accounts db) of
        None \<Rightarrow> Inl ErrNoRows
      | Some r \<Rightarrow> Inr (wallet_account.truncate r))"

definition UpsertAccount :: "int \<Rightarrow> wallet_account \<Rightarrow> registry_db \<Rightarrow> (wallet_account \<times> registry_db) result" where
  "UpsertAccount now inp db =
     (if trim_space (wac_TenantID inp) = [] \<or> trim_space (wac_AccountID inp) = [] then
        Inl (Errorf ''tenant_id/account_id is required'')
      else
        let s = to_upper (trim_space (wac_Status inp)); status = (if s = [] then ''ACTIVE'' else s) in
        if status \<noteq> ''ACTIVE'' \<and> status \<noteq> ''DISABLED'' then Inl (Errorf ''invalid status'')
        else
          let k = (wac_TenantID inp, wac_AccountID inp);
              rows = insert_or_update (account_at k)
                       (new_account_row now (account_seq db + 1) (wac_TenantID inp) (wac_AccountID inp) (wac_AccountTag inp)
                          status (wac_Remark inp))
                       (\<lambda>r. r\<lparr>wac_AccountTag := wac_AccountTag inp, wac_Status := status, wac_Remark := wac_Remark inp,
                              wac_UpdatedAt := now\<rparr>)
                       (wallet_accounts db);
              db' = db\<lparr>wallet_accounts := assign_index k rows, account_seq := account_seq db + 1\<rparr>
          in bindE (GetAccount (wac_TenantID inp) (wac_AccountID inp) db') (\<lambda>acc. Inr (acc, db')))"

text \<open>\<open>LIMIT\<close> and \<open>OFFSET\<close> on the accounts of a tenant, newest first.\<close>

definition ListAccounts :: "string \<Rightarrow> int \<Rightarrow> int \<Rightarrow> registry_db \<Rightarrow> wallet_account list" where
  "ListAccounts tenantID limit0 offset0 db =
     (let limit = (if limit0 \<le> 0 \<or> limit0 > 200 then 50 else limit0); offset = (if offset0 < 0 then 0 else offset0) in
      map wallet_account.truncate (take (nat limit) (drop (nat offset)
        (sort_key (\<lambda>r. - ac_id r) (filter (\<lambda>r. wac_TenantID r = tenantID) (wallet_accounts db))))))"


section \<open>Addresses\<close>

definition address_order :: "address_row \<Rightarrow> int \<times> int" where "address_order r = (wad_AddressIndex r, ad_id r)"

definition ListAccountAddresses :: "string \<Rightarrow> string \<Rightarrow> registry_db \<Rightarrow> wallet_address list" where
  "ListAccountAddresses tenantID accountID db =
     map wallet_address.truncate
       (sort_key address_order (filter (\<lambda>r. wad_TenantID r = tenantID \<and> wad_AccountID r = accountID) (wallet_addresses db)))"

definition GetAccountAddressByKeyID :: "string \<Rightarrow> string \<Rightarrow> string \<Rightarrow> registry_db \<Rightarrow> wallet_address result" where
  "GetAccountAddressByKeyID tenantID accountID keyID db =
     (case select_first (\<lambda>r. - ad_id r)
             (\<lambda>r. wad_TenantID r = tenantID \<and> wad_AccountID r = accountID \<and> wad_KeyID r = keyID) (wallet_addresses db) of
        None \<Rightarrow> Inl ErrNoRows
      | Some r \<Rightarrow> Inr (wallet_address.truncate r))"

text \<open>The rows with a key of one account, chain and network.\<close>

definition keyed_at :: "string \<Rightarrow> string \<Rightarrow> string \<Rightarrow> string \<Rightarrow> address_row \<Rightarrow> bool" where
  "keyed_at tenantID accountID chain network r \<longleftrightarrow>
     wad_TenantID r = tenantID \<and> wad_AccountID r = accountID \<and> to_lower (wad_Chain r) = to_lower chain \<and>
     to_lower (wad_Network r) = to_lower network \<and> wad_KeyID r \<noteq> []"

text \<open>\<open>COALESCE(MAX(address_index), -1) + 1\<close>.\<close>

definition next_index :: "int list \<Rightarrow> int" where
  "next_index is = (case is of [] \<Rightarrow> - 1 | i # js \<Rightarrow> fold max js i) + 1"

definition PrepareAddress :: "prepare_address_input \<Rightarrow> registry_db \<Rightarrow> prepared_address result" where
  "PrepareAddress inp db =
     (let model = normalizeModel (pi_Model inp); chain = reg_normalizeChain (pi_Chain inp);
          network = normalizeNetwork (pi_Network inp); signType = reg_normalizeSignType (pi_SignType inp);
          tenantID = pi_TenantID inp; accountID = pi_AccountID inp
      in
      if model = [] \<or> chain = [] \<or> network = [] \<or> signType = [] then
        Inl (Errorf ''model/chain/network/sign_type are required'')
      else case select_first address_order
                  (\<lambda>r. keyed_at tenantID accountID chain network r \<and> to_upper (wad_Status r) = ''ACTIVE'') (wallet_addresses db) of
        Some r \<Rightarrow> Inr \<lparr>pa_Address = wallet_address.truncate r, pa_Existing = True\<rparr>
      | None \<Rightarrow>
          (case select_row (account_at (tenantID, accountID)) (wallet_accounts db) of
             None \<Rightarrow> Inl ErrNoRows
           | Some a \<Rightarrow>
               (case ac_hd_account_index a of
                  None \<Rightarrow> Inl (Errorf (''sql: Scan error on column index 0, name '' @ [CHR 0x22] @ ''hd_account_index'' @ [CHR 0x22] @
                             '': converting NULL to int64 is unsupported''))
                | Some accountIndex \<Rightarrow>
                    if accountIndex < 0 then Inl (Errorf ''invalid hd account index'')
                    else
                      let addressIndex = next_index (map wad_AddressIndex
                             (filter (keyed_at tenantID accountID chain network) (wallet_addresses db)));
                          keyID = buildHDKeyID signType chain accountIndex 0 addressIndex
                      in bindE (buildHDDerivationPath signType chain accountIndex 0 addressIndex) (\<lambda>derivationPath.
                         Inr \<lparr>pa_Address =
                           \<lparr>wad_TenantID = tenantID, wad_AccountID = accountID, wad_Model = model, wad_Chain = chain,
                            wad_Coin = [], wad_Network = network, wad_Address = [], wad_KeyID = keyID, wad_PublicKey = [],
                            wad_SignType = signType, wad_AddressType = pi_AddressType inp, wad_DerivationPath = derivationPath,
                            wad_ChangeIndex = 0, wad_AddressIndex = addressIndex, wad_Status = ''ACTIVE'',
                            wad_CreatedAt = 0, wad_UpdatedAt = 0\<rparr>,
                           pa_Existing = False\<rparr>))))"

text \<open>\<open>UNIQUE (tenant_id, account_id, chain, coin, network, address)\<close>: a statement that breaks it fails.\<close>

definition address_key :: "address_row \<Rightarrow> string \<times> string \<times> string \<times> string \<times> string \<times> string" where
  "address_key r = (wad_TenantID r, wad_AccountID r, wad_Chain r, wad_Coin r, wad_Network r, wad_Address r)"

definition check_unique :: "address_row table \<Rightarrow> (address_row table) result" where
  "check_unique t =
     (if distinct (map address_key t) then Inr t else Inl (Errorf ''pq: duplicate key value violates unique constraint''))"

text \<open>The columns both updates set, and the inserted row.\<close>

definition set_address :: "int \<Rightarrow> watch_address_input \<Rightarrow> address_row \<Rightarrow> address_row" where
  "set_address now inp r =
     r\<lparr>wad_Model := wi_Model inp, wad_Chain := wi_Chain inp, wad_Network := wi_Network inp, wad_Address := wi_Address inp,
       wad_PublicKey := wi_PublicKey inp, wad_SignType := wi_SignType inp, wad_AddressType := wi_AddressType inp,
       wad_DerivationPath := wi_DerivationPath inp, wad_ChangeIndex := wi_ChangeIndex inp,
       wad_AddressIndex := wi_AddressIndex inp, wad_Status := ''ACTIVE'', wad_UpdatedAt := now\<rparr>"

definition new_address_row :: "int \<Rightarrow> int \<Rightarrow> watch_address_input \<Rightarrow> address_row" where
  "new_address_row now i inp =
     \<lparr>wad_TenantID = wi_TenantID inp, wad_AccountID = wi_AccountID inp, wad_Model = wi_Model inp, wad_Chain = wi_Chain inp,
      wad_Coin = wi_Coin inp, wad_Network = wi_Network inp, wad_Address = wi_Address inp, wad_KeyID = wi_KeyID inp,
      wad_PublicKey = wi_PublicKey inp, wad_SignType = wi_SignType inp, wad_AddressType = wi_AddressType inp,
      wad_DerivationPath = wi_DerivationPath inp, wad_ChangeIndex = wi_ChangeIndex inp, wad_AddressIndex = wi_AddressIndex inp,
      wad_Status = ''ACTIVE'', wad_CreatedAt = now, wad_UpdatedAt = now, ad_id = i\<rparr>"

text \<open>The two updates: by key id, which also moves the row to the account, and by address.\<close>

definition has_key_id :: "watch_address_input \<Rightarrow> address_row \<Rightarrow> bool" where
  "has_key_id inp r \<longleftrightarrow> wad_TenantID r = wi_TenantID inp \<and> wad_KeyID r = wi_KeyID inp"

definition has_address :: "watch_address_input \<Rightarrow> address_row \<Rightarrow> bool" where
  "has_address inp r \<longleftrightarrow> wad_TenantID r = wi_TenantID inp \<and> wad_AccountID r = wi_AccountID inp \<and>
     to_lower (wad_Chain r) = to_lower (wi_Chain inp) \<and> to_lower (wad_Network r) = to_lower (wi_Network inp) \<and>
     to_lower (wad_Address r) = to_lower (wi_Address inp)"

definition update_by_key :: "int \<Rightarrow> watch_address_input \<Rightarrow> address_row \<Rightarrow> address_row" where
  "update_by_key now inp r = (set_address now inp r)\<lparr>wad_AccountID := wi_AccountID inp\<rparr>"

definition update_by_address :: "int \<Rightarrow> watch_address_input \<Rightarrow> address_row \<Rightarrow> address_row" where
  "update_by_address now inp r =
     (set_address now inp r)\<lparr>wad_KeyID := (if wad_KeyID r = [] then wi_KeyID inp else wad_KeyID r)\<rparr>"

definition upsertWalletAddressTx :: "int \<Rightarrow> watch_address_input \<Rightarrow> registry_db \<Rightarrow> registry_db result" where
  "upsertWalletAddressTx now inp db =
     (let rows = wallet_addresses db in
      if rows_affected (has_key_id inp) rows > 0 then
        bindE (check_unique (update_where (has_key_id inp) (update_by_key now inp) rows))
          (\<lambda>t. Inr (db\<lparr>wallet_addresses := t\<rparr>))
      else if rows_affected (has_address inp) rows > 0 then
        bindE (check_unique (update_where (has_address inp) (update_by_address now inp) rows))
          (\<lambda>t. Inr (db\<lparr>wallet_addresses := t\<rparr>))
      else
        bindE (check_unique (rows @ [new_address_row now (address_seq db + 1) inp]))
          (\<lambda>t. Inr (db\<lparr>wallet_addresses := t, address_seq := address_seq db + 1\<rparr>)))"

definition watch_at :: "watch_address_input \<Rightarrow> watch_row \<Rightarrow> bool" where
  "watch_at inp r \<longleftrightarrow> sw_model r = wi_Model inp \<and> sw_chain r = wi_Chain inp \<and> sw_coin r = wi_Coin inp \<and>
     sw_network r = wi_Network inp \<and> sw_address r = wi_Address inp \<and> sw_tenant r = wi_TenantID inp \<and>
     sw_account r = wi_AccountID inp"

definition upsert_watch :: "int \<Rightarrow> watch_address_input \<Rightarrow> watch_row table \<Rightarrow> watch_row table" where
  "upsert_watch now inp t =
     insert_or_update (watch_at inp)
       \<lparr>sw_tenant = wi_TenantID inp, sw_account = wi_AccountID inp, sw_model = wi_Model inp, sw_chain = wi_Chain inp,
        sw_coin = wi_Coin inp, sw_network = wi_Network inp, sw_address = wi_Address inp,
        sw_min_confirmations = wi_MinConfirmations inp, sw_unlock_confirmations = wi_UnlockConfirmations inp,
        sw_treasury = wi_TreasuryAccountID inp, sw_cold = wi_ColdAccountID inp, sw_auto_sweep = wi_AutoSweep inp,
        sw_sweep_threshold = wi_SweepThreshold inp, sw_hot_balance_cap = wi_HotBalanceCap inp, sw_active = True,
        sw_created_at = now, sw_updated_at = now\<rparr>
       (\<lambda>r. r\<lparr>sw_min_confirmations := wi_MinConfirmations inp, sw_unlock_confirmations := wi_UnlockConfirmations inp,
              sw_treasury := wi_TreasuryAccountID inp, sw_cold := wi_ColdAccountID inp, sw_auto_sweep := wi_AutoSweep inp,
              sw_sweep_threshold := wi_SweepThreshold inp, sw_hot_balance_cap := wi_HotBalanceCap inp, sw_active := True,
              sw_updated_at := now\<rparr>) t"

text \<open>The input as the function rewrites it before its checks, and with the policy after them.\<close>

definition normalize_watch :: "watch_address_input \<Rightarrow> watch_address_input" where
  "normalize_watch inp =
     (let signType = reg_normalizeSignType (wi_SignType inp) in
      inp\<lparr>wi_Model := normalizeModel (wi_Model inp), wi_Chain := reg_normalizeChain (wi_Chain inp),
          wi_Network := normalizeNetwork (wi_Network inp), wi_Coin := normalizeCoin (wi_Coin inp),
          wi_SignType := (if signType = [] then ''ecdsa'' else signType)\<rparr>)"

definition watch_input :: "chain_policy \<Rightarrow> watch_address_input \<Rightarrow> watch_address_input" where
  "watch_input policy inp =
     (let minConfs = (if cp_RequiredConfirmations policy \<le> 0 then 1 else cp_RequiredConfirmations policy) in
      inp\<lparr>wi_MinConfirmations := minConfs, wi_UnlockConfirmations := maxInt64 (cp_UnlockConfirmations policy) minConfs,
          wi_TreasuryAccountID := (if trim_space (wi_TreasuryAccountID inp) = [] then ''treasury-main'' else wi_TreasuryAccountID inp)\<rparr>)"

definition UpsertWatchAddress :: "int \<Rightarrow> watch_address_input \<Rightarrow> registry_db \<Rightarrow> registry_db result" where
  "UpsertWatchAddress now inp0 db =
     (let inp1 = normalize_watch inp0 in
      if wi_Model inp1 = [] \<or> wi_Chain inp1 = [] \<or> wi_Network inp1 = [] \<or> wi_Coin inp1 = [] \<or> trim_space (wi_KeyID inp1) = []
      then Inl (Errorf ''model/chain/network/coin/key_id are required'')
      else if trim_space (wi_Address inp1) = [] \<or> trim_space (wi_PublicKey inp1) = []
      then Inl (Errorf ''address/public_key are required'')
      else
        bindE (GetChainMetadata (wi_Chain inp1) (wi_Network inp1) db) (\<lambda>meta.
        if normalizeModel (cm_Model meta) \<noteq> wi_Model inp1 then
          Inl (Errorf (''chain model mismatch chain='' @ wi_Chain inp1 @ '' network='' @ wi_Network inp1 @ '' require='' @
                 wi_Model inp1 @ '' actual='' @ cm_Model meta))
        else if \<not> cm_Enabled meta then
          Inl (Errorf (''chain disabled chain='' @ wi_Chain inp1 @ '' network='' @ wi_Network inp1))
        else
          bindE (GetChainPolicy (wi_Chain inp1) (wi_Network inp1) db) (\<lambda>policy.
          if \<not> cp_Enabled policy then
            Inl (Errorf (''chain policy disabled chain='' @ wi_Chain inp1 @ '' network='' @ wi_Network inp1))
          else
            let inp = watch_input policy inp1;
                db1 = upsertAccountTx now (wi_TenantID inp) (wi_AccountID inp) ''ACTIVE'' [] db
            in bindE (upsertWalletAddressTx now inp db1) (\<lambda>db2.
               Inr (db2\<lparr>scan_watch_addresses := upsert_watch now inp (scan_watch_addresses db2)\<rparr>)))))"


section \<open>Key ids of the registry and of the sign service\<close>

lemma reg_normalizeSignType_eq: "reg_normalizeSignType = normalizeSignType"
  by (rule ext) (auto simp: reg_normalizeSignType_def normalizeChainSignType_def normalizeNetwork_def normalizeSignType_def Let_def)

lemma known_chain:
  assumes "hdCoinTypeForChain c = Inr t"
  shows "CHR '':'' \<notin> set (reg_normalizeChain c)" "normalizeChain (reg_normalizeChain c) \<noteq> []"
    "coinTypeForChain (normalizeChain (reg_normalizeChain c)) = Inr (word_of_int t)" "0 \<le> t" "t < 2 ^ 31"
proof -
  define d where "d = reg_normalizeChain c"
  have "(CHR '':'' \<notin> set d \<and> normalizeChain d \<noteq> []) \<and> coinTypeForChain (normalizeChain d) = Inr (word_of_int t) \<and> 0 \<le> t \<and> t < 2 ^ 31"
  proof -
    have "(d, t) \<in> {(''ethereum'', 60), (''binance'', 60), (''polygon'', 60), (''arbitrum'', 60), (''optimism'', 60), (''linea'', 60),
       (''scroll'', 60), (''mantle'', 60), (''zksync'', 60), (''tron'', 195), (''cosmos'', 118), (''btt'', 199), (''solana'', 501),
       (''aptos'', 637), (''sui'', 784), (''ton'', 607), (''xlm'', 148), (''stellar'', 148), (''bitcoin'', 0), (''litecoin'', 2),
       (''dogecoin'', 3), (''dash'', 5), (''zen'', 121), (''bitcoincash'', 145)}"
      using assms unfolding hdCoinTypeForChain_def Let_def d_def [symmetric] by (simp split: if_splits)
    then show ?thesis
      by (elim insertE emptyE Pair_inject; hypsubst) code_simp+
  qed
  then show "CHR '':'' \<notin> set (reg_normalizeChain c)" "normalizeChain (reg_normalizeChain c) \<noteq> []"
    "coinTypeForChain (normalizeChain (reg_normalizeChain c)) = Inr (word_of_int t)" "0 \<le> t" "t < 2 ^ 31" by (simp_all add: d_def)
qed

lemma int_to_string_word:
  assumes "0 \<le> i" "i < 2 ^ 32"
  shows "int_to_string i = uint_str (word_of_int i)"
proof -
  have "unat (word_of_int i :: 32 word) = nat i" using assms by (simp add: unat_eq_nat_uint uint_word_of_int_eq take_bit_int_eq_self)
  then show ?thesis using assms by (simp add: int_to_string_def uint_str_def)
qed

lemma buildHDKeyID_key_id_of:
  assumes "0 \<le> a" "a < 2 ^ 32" "0 \<le> c" "c < 2 ^ 32" "0 \<le> i" "i < 2 ^ 32"
  shows "buildHDKeyID st ch a c i =
     key_id_of (normalizeSignType st) (reg_normalizeChain ch) (word_of_int a) (word_of_int c) (word_of_int i)"
  using assms by (simp add: buildHDKeyID_def key_id_of_def keyIDPrefix_def reg_normalizeSignType_eq int_to_string_word)

end
