(* ===== verification/Core_Types.thy ===== *)
theory Core_Types
  imports Registry Orchestrator Gateway_Proxy Sign_Derive
begin

text \<open>
  Requests, responses and state of the HTTP interface of wallet-core
  (\<open>src/services/wallet-core/internal/transport/http/handler_types.go\<close>), its helpers
  (\<open>handler_auth.go\<close>, \<open>handler_retry.go\<close>) and public derivation from an account key
  (\<open>src/services/wallet-core/internal/hdpub/ecdsa.go\<close>).

  The handler is built with all its ports, as \<open>bootstrap.Run\<close> does, so its \<open>nil\<close> guards do
  not arise. A handler gets the method, the request as \<open>decodeJSONBody\<close> reads it (\<open>None\<close>: it
  answered \<open>invalid json\<close>) and the state; it returns the status, the body and the new state.
\<close>

section \<open>Requests\<close>

record create_withdraw_request =
  cw_TenantID :: string
  cw_AccountID :: string
  cw_OrderID :: string
  cw_KeyID :: string
  cw_KeyIDs :: "string list"
  cw_SignType :: string
  cw_Chain :: string
  cw_Network :: string
  cw_Coin :: string
  cw_From :: string
  cw_To :: string
  cw_Amount :: string
  cw_ContractAddress :: string
  cw_AmountUnit :: string
  cw_TokenDecimals :: "32 word"
  cw_Base64Tx :: string
  cw_Fee :: string
  cw_Vin :: "tx_vin list"
  cw_Vout :: "tx_vout list"

text \<open>\<open>DepositNotifyRequest\<close> has the fields of \<open>DepositCreditInput\<close>, which it becomes field by field.\<close>

type_synonym deposit_notify_request = deposit_credit_input

record sweep_run_request =
  sq_TenantID :: string
  sq_SweepOrderID :: string
  sq_FromAccountID :: string
  sq_TreasuryAccountID :: string
  sq_ColdAccountID :: string
  sq_HotBalanceCap :: string
  sq_Chain :: string
  sq_Network :: string
  sq_Asset :: string
  sq_Amount :: string

text \<open>
  The three notification requests (\<open>WithdrawOnchainNotifyRequest\<close>, \<open>SweepOnchainNotifyRequest\<close>,
  \<open>TreasuryTransferOnchainNotifyRequest\<close>) differ in the name of the order id only.
\<close>

record onchain_notify_request =
  on_TenantID :: string
  on_OrderID :: string
  on_TxHash :: string
  on_Status :: string
  on_Reason :: string
  on_Confirmations :: int
  on_RequiredConfs :: int

record treasury_transfer_request =
  tq_TenantID :: string
  tq_TransferOrderID :: string
  tq_FromAccountID :: string
  tq_ToAccountID :: string
  tq_Chain :: string
  tq_Network :: string
  tq_Asset :: string
  tq_Amount :: string
  tq_SourceTier :: string
  tq_DestinationTier :: string

record create_address_request =
  ca_TenantID :: string
  ca_AccountID :: string
  ca_Chain :: string
  ca_Coin :: string
  ca_Network :: string
  ca_AddressType :: string
  ca_SignType :: string
  ca_MinConfirmations :: int
  ca_TreasuryAccountID :: string
  ca_ColdAccountID :: string
  ca_AutoSweep :: "bool option"
  ca_SweepThreshold :: string
  ca_HotBalanceCap :: string
  ca_Model :: string

record account_upsert_request =
  au_TenantID :: string
  au_AccountID :: string
  au_AccountTag :: string
  au_Status :: string
  au_Remark :: string


section \<open>Responses\<close>

record create_withdraw_response =
  cwr_TxHash :: string
  cwr_Status :: string

record sweep_run_response =
  srr_Status :: string
  srr_TxHash :: string
  srr_DestinationAccountID :: string
  srr_DestinationTier :: string

record treasury_transfer_response =
  ttr_Status :: string
  ttr_TxHash :: string
  ttr_TransferOrderID :: string
  ttr_SourceTier :: string
  ttr_DestinationTier :: string

record treasury_waterline_response =
  twr_TenantID :: string
  twr_Asset :: string
  twr_HotAccountID :: string
  twr_ColdAccountID :: string
  twr_HotVaultAvailable :: string
  twr_ColdVaultAvailable :: string
  twr_HotBalanceCap :: string
  twr_HotBalanceFloor :: string
  twr_State :: string
  twr_RecommendedAction :: string
  twr_SuggestedTransferAmount :: string

record create_address_response =
  car_TenantID :: string
  car_AccountID :: string
  car_Chain :: string
  car_Coin :: string
  car_Network :: string
  car_Model :: string
  car_KeyID :: string
  car_PublicKey :: string
  car_Address :: string
  car_SignType :: string
  car_AddressType :: string
  car_DerivationPath :: string
  car_ChangeIndex :: int
  car_AddressIndex :: int
  car_CustodyScheme :: string

text \<open>
  The body of an answer: text, or one of the response structures, given by its contents
  (\<open>WithdrawStatusResponse\<close>, \<open>TreasuryTransferStatusResponse\<close> and \<open>BalanceResponse\<close> repeat the
  ids of the request; \<open>AccountResponse\<close> has the fields of \<open>WalletAccount\<close>).
\<close>

datatype response_body =
    Plain string
  | WithdrawCreated create_withdraw_response
  | WithdrawStatus string string ledger_status
  | SweepStarted sweep_run_response
  | TransferStarted treasury_transfer_response
  | TransferStatus string string treasury_transfer_status
  | Waterline treasury_waterline_response
  | BalanceOf string string string balance_snapshot
  | AddressCreated create_address_response
  | AccountOf wallet_account
  | AccountsOf "wallet_account list"
  | AddressesOf "wallet_address list"
  | AssetsOf "account_asset list"

type_synonym response = "int \<times> response_body"

definition fail_with :: "string \<Rightarrow> int \<Rightarrow> response" where
  "fail_with msg code = (code, Plain (msg @ [CHR 0x0A]))"

definition fail_err :: "go_error \<Rightarrow> int \<Rightarrow> response" where
  "fail_err e code = fail_with (error_text e) code"

definition ok_with :: "response_body \<Rightarrow> response" where
  "ok_with b = (200, b)"


section \<open>State and ports\<close>

text \<open>\<open>ports.DerivedKey\<close>, as the sign service's client returns it.\<close>

record port_derived_key =
  pk_KeyID :: string
  pk_PublicKey :: string
  pk_AlternatePublicKey :: string
  pk_DerivationPath :: string
  pk_PublicDerivationSupported :: bool
  pk_AccountPublicKey :: string
  pk_AccountAlternatePublicKey :: string
  pk_AccountChainCode :: string
  pk_AccountDerivationPath :: string
  pk_CustodyScheme :: string

record ('x, 'k, 'p) handler =
  h_Orchestrator :: "'x port"
  h_DeriveKey :: "string \<Rightarrow> string \<Rightarrow> string \<Rightarrow> 'x \<Rightarrow> port_derived_key result \<times> 'x"
  h_ConvertAddress :: "string \<Rightarrow> string \<Rightarrow> string \<Rightarrow> string \<Rightarrow> 'x \<Rightarrow> string result \<times> 'x"
  h_Curve :: "('k, 'p) primitives"

record 'x core =
  co_world :: "'x world"
  co_registry :: registry_db
  co_security :: security_db

abbreviation co_ledger :: "'x core \<Rightarrow> ledger_db" where
  "co_ledger co \<equiv> w_db (co_world co)"


section \<open>Helpers\<close>

definition ensureAccountActive :: "registry_db \<Rightarrow> string \<Rightarrow> string \<Rightarrow> string \<Rightarrow> response + unit" where
  "ensureAccountActive db tenantID accountID action =
     (case GetAccount tenantID accountID db of
        Inl ErrNoRows \<Rightarrow> Inl (fail_with ''account not found'' 404)
      | Inl e \<Rightarrow> Inl (fail_err e 500)
      | Inr acc \<Rightarrow>
          if to_upper (trim_space (wac_Status acc)) \<noteq> ''ACTIVE'' then
            Inl (fail_with (''account is not active for '' @ action) 403)
          else Inr ())"

definition core_requestIDFrom :: "int \<Rightarrow> string \<Rightarrow> string \<Rightarrow> string \<Rightarrow> string" where
  "core_requestIDFrom nanos rnd header fallback =
     (let v = trim_space header in
      if v \<noteq> [] then v
      else if trim_space fallback \<noteq> [] then generateRequestID nanos rnd fallback
      else fallback)"

text \<open>\<open>time.Sleep\<close> between two attempts changes nothing the handler sees.\<close>

fun retry_loop :: "nat \<Rightarrow> ('x, unit) proc \<Rightarrow> ('x, unit) proc" where
  "retry_loop 0 fn w = fn w"
| "retry_loop (Suc i) fn w =
     (case fn w of (Inr x, w') \<Rightarrow> (Inr x, w') | (Inl e, w') \<Rightarrow> retry_loop i fn w')"

definition retryLedgerMutation :: "int \<Rightarrow> ('x, unit) proc \<Rightarrow> ('x, unit) proc" where
  "retryLedgerMutation attempts0 fn =
     (let attempts = (if attempts0 \<le> 0 then 1 else attempts0) in retry_loop (nat (attempts - 1)) fn)"

text \<open>What both handlers and the checks of a chain ask: the confirmations the policy requires.\<close>

definition required_confirmations :: "registry_db \<Rightarrow> string \<Rightarrow> string \<Rightarrow> response + int" where
  "required_confirmations db chain network =
     (case GetChainPolicy chain network db of
        Inl e \<Rightarrow> Inl (fail_err e 400)
      | Inr policy \<Rightarrow>
          if \<not> cp_Enabled policy then Inl (fail_with ''chain/network policy disabled'' 400)
          else Inr (if cp_RequiredConfirmations policy > 0 then cp_RequiredConfirmations policy else 1))"

definition findAccountAddress :: "registry_db \<Rightarrow> string \<Rightarrow> string \<Rightarrow> string \<Rightarrow> string \<Rightarrow> string \<Rightarrow> wallet_address result" where
  "findAccountAddress db tenantID accountID chain0 network0 coin =
     (let chain = to_lower (trim_space chain0); network = to_lower (trim_space network0) in
      case List.find (\<lambda>it. to_upper (trim_space (wad_Status it)) = ''ACTIVE'' \<and>
               to_lower (trim_space (wad_Chain it)) = chain \<and> to_lower (trim_space (wad_Network it)) = network \<and>
               trim_space (wad_Address it) \<noteq> [] \<and> trim_space (wad_PublicKey it) \<noteq> [])
             (ListAccountAddresses tenantID accountID db) of
        Some it \<Rightarrow> Inr it
      | None \<Rightarrow> Inl (Errorf (''active address not found for account='' @ accountID @ '' chain='' @ chain @
                   '' network='' @ network @ '' coin='' @ coin)))"

definition findAccountAddressByKeyID :: "registry_db \<Rightarrow> string \<Rightarrow> string \<Rightarrow> string \<Rightarrow> wallet_address result" where
  "findAccountAddressByKeyID db tenantID accountID keyID0 =
     (let keyID = trim_space keyID0 in
      if keyID = [] then Inl (Errorf ''key_id is required'')
      else case GetAccountAddressByKeyID tenantID accountID keyID db of
        Inr item \<Rightarrow> Inr item
      | Inl e \<Rightarrow>
          (case List.find (\<lambda>it. trim_space (wad_KeyID it) = keyID \<and> to_upper (trim_space (wad_Status it)) = ''ACTIVE'')
                  (ListAccountAddresses tenantID accountID db) of
             Some it \<Rightarrow> Inr it
           | None \<Rightarrow> Inl e))"

definition defaultSignTypeForChain :: "string \<Rightarrow> string" where
  "defaultSignTypeForChain chain =
     (if to_lower (trim_space chain) \<in> {''sol'', ''solana'', ''apt'', ''aptos'', ''sui'', ''ton'', ''xlm'', ''stellar''}
      then ''eddsa'' else ''ecdsa'')"


section \<open>Integer amounts\<close>

definition addIntegerStrings :: "string \<Rightarrow> string \<Rightarrow> string result" where
  "addIntegerStrings a b =
     (case big_SetString (trim_space a) of
        None \<Rightarrow> Inl (Errorf (''invalid integer amount: '' @ a))
      | Some aa \<Rightarrow>
          (case big_SetString (trim_space b) of
             None \<Rightarrow> Inl (Errorf (''invalid integer amount: '' @ b))
           | Some bb \<Rightarrow>
               if aa < 0 \<or> bb < 0 then Inl (Errorf ''negative amount not allowed'') else Inr (int_to_string (aa + bb))))"

definition subIntegerStrings :: "string \<Rightarrow> string \<Rightarrow> string result" where
  "subIntegerStrings a b =
     (case big_SetString (trim_space a) of
        None \<Rightarrow> Inl (Errorf (''invalid integer amount: '' @ a))
      | Some aa \<Rightarrow>
          (case big_SetString (trim_space b) of
             None \<Rightarrow> Inl (Errorf (''invalid integer amount: '' @ b))
           | Some bb \<Rightarrow>
               if aa < 0 \<or> bb < 0 then Inl (Errorf ''negative amount not allowed'')
               else if aa < bb then Inl (Errorf ''insufficient balance'')
               else Inr (int_to_string (aa - bb))))"

definition compareIntegerStrings :: "string \<Rightarrow> string \<Rightarrow> int" where
  "compareIntegerStrings a b =
     (case big_SetString (trim_space a) of
        None \<Rightarrow> 0
      | Some aa \<Rightarrow> (case big_SetString (trim_space b) of None \<Rightarrow> 0 | Some bb \<Rightarrow> sgn (aa - bb)))"


section \<open>Public derivation from an account key\<close>

text \<open>
  The copy in \<open>hdpub\<close> of what the sign service does: \<open>parseSecpPublicKey\<close>, \<open>hmacSHA512\<close>,
  \<open>appendUint32\<close> and \<open>decodeHex\<close> are the same functions; \<open>secpChildPublic\<close> has no check
  for hardened indexes, and the indexes come as \<open>int64\<close> and are converted to \<open>uint32\<close>.
\<close>

definition hdpub_secpChildPublic :: "('k, 'p) primitives \<Rightarrow> string \<Rightarrow> string \<Rightarrow> 32 word \<Rightarrow> (string \<times> string) result" where
  "hdpub_secpChildPublic C parentCompressed parentChainCode index =
     (if parentCompressed = [] \<or> length parentChainCode \<noteq> 32 then Inl (Errorf ''invalid parent public key state'')
      else
        let s = hmacSHA512 C parentChainCode (appendUint32 parentCompressed index);
            il = bytes_nat (take 32 s)
        in
        if il = 0 \<or> il \<ge> pr_N C then Inl (Errorf ''derived invalid secp256k1 child public key'')
        else
          bindE (parseSecpPublicKey C parentCompressed) (\<lambda>parentPub.
          case pr_Add C (pr_ScalarBaseMult C (take 32 s)) parentPub of
            None \<Rightarrow> Inl (Errorf ''derived invalid secp256k1 child public key'')
          | Some p \<Rightarrow> Inr (pr_CompressPubkey C p, drop 32 s)))"

definition hdpub_DeriveECDSAChildPublic ::
  "('k, 'p) primitives \<Rightarrow> string \<Rightarrow> string \<Rightarrow> int \<Rightarrow> int \<Rightarrow> (string \<times> string) result" where
  "hdpub_DeriveECDSAChildPublic C accountCompressedHex accountChainCodeHex changeIndex addressIndex =
     (if changeIndex < 0 \<or> addressIndex < 0 then Inl (Errorf ''change/address index must be non-negative'')
      else
        bindE (wrapE ''decode account public key: '' (hex_DecodeString (stringsTrimHex accountCompressedHex))) (\<lambda>accountCompressed.
        bindE (wrapE ''decode account chain code: '' (hex_DecodeString (stringsTrimHex accountChainCodeHex))) (\<lambda>accountChainCode.
        bindE (hdpub_secpChildPublic C accountCompressed accountChainCode (word_of_int changeIndex)) (\<lambda>(changePub, changeChainCode).
        bindE (hdpub_secpChildPublic C changePub changeChainCode (word_of_int addressIndex)) (\<lambda>(childPub, _).
        bindE (parseSecpPublicKey C childPub) (\<lambda>pub.
        Inr (hex_encode (pr_CompressPubkey C pub), hex_encode (pr_FromECDSAPub C pub))))))))"

text \<open>For plain indexes the two copies agree.\<close>

lemma hdpub_child_eq: "i < hardenedOffset \<Longrightarrow> hdpub_secpChildPublic C p c i = secpChildPublic C p c i"
  by (simp add: hdpub_secpChildPublic_def secpChildPublic_def linorder_not_le [symmetric])

lemma plain_word: "0 \<le> i \<Longrightarrow> i < 2 ^ 31 \<Longrightarrow> (word_of_int i :: 32 word) < hardenedOffset"
  by (simp add: hardenedOffset_def word_less_alt uint_word_of_int_eq take_bit_int_eq_self)

lemma hdpub_eq:
  assumes "0 \<le> c" "c < 2 ^ 31" "0 \<le> i" "i < 2 ^ 31"
  shows "hdpub_DeriveECDSAChildPublic C acc cc c i = DeriveECDSAChildPublic C acc cc (word_of_int c) (word_of_int i)"
  using assms by (simp add: hdpub_DeriveECDSAChildPublic_def DeriveECDSAChildPublic_def hdpub_child_eq plain_word)

end
