(* ===== verification/Core_Http.thy ===== *)
theory Core_Http
  imports Core_Types
begin

text \<open>
  The HTTP handlers of wallet-core
  (\<open>src/services/wallet-core/internal/transport/http/handler_*.go\<close>). A handler with effects is
  split into its checks, which read the state and give an answer or the input of the first
  effect, and the effects.
\<close>

section \<open>Withdrawals\<close>

definition withdraw_key_ids :: "create_withdraw_request \<Rightarrow> string list" where
  "withdraw_key_ids req =
     (if trim_space (cw_KeyID req) \<noteq> [] then [trim_space (cw_KeyID req)] else []) @
     filter (\<lambda>k. k \<noteq> []) (map trim_space (cw_KeyIDs req))"

definition resolveWithdrawSigners :: "registry_db \<Rightarrow> create_withdraw_request \<Rightarrow> signer_ref list result" where
  "resolveWithdrawSigners db req =
     (if withdraw_key_ids req = [] then Inl (Errorf ''missing key id'')
      else mapE (\<lambda>keyID.
             bindE (findAccountAddressByKeyID db (cw_TenantID req) (cw_AccountID req) keyID) (\<lambda>addr.
             if trim_space (wad_PublicKey addr) = [] then Inl (Errorf (''public key not found for key_id='' @ keyID))
             else Inr \<lparr>sr_KeyID = keyID, sr_PublicKey = wad_PublicKey addr\<rparr>))
           (withdraw_key_ids req))"

definition withdraw_tx :: "create_withdraw_request \<Rightarrow> build_unsigned_params" where
  "withdraw_tx req =
     \<lparr>bp_Chain = cw_Chain req, bp_Network = cw_Network req, bp_Coin = cw_Coin req, bp_From = cw_From req, bp_To = cw_To req,
      bp_Amount = cw_Amount req, bp_Base64Tx = cw_Base64Tx req, bp_ContractAddress = cw_ContractAddress req,
      bp_AmountUnit = cw_AmountUnit req, bp_TokenDecimals = cw_TokenDecimals req, bp_Fee = cw_Fee req, bp_Vin = cw_Vin req,
      bp_Vout = cw_Vout req\<rparr>"

text \<open>The answer for an order the ledger knows.\<close>

definition existing_withdraw :: "ledger_status \<Rightarrow> response" where
  "existing_withdraw existing =
     (if ls_Status existing \<in> {''CONFIRMED'', ''BROADCASTED'', ''QUEUED'', ''PROCESSING'', ''FROZEN''} then
        ok_with (WithdrawCreated \<lparr>cwr_TxHash = ls_TxHash existing, cwr_Status = ls_Status existing\<rparr>)
      else fail_with (''withdraw order already exists with status='' @ ls_Status existing) 409)"

definition create_checks ::
  "string \<Rightarrow> create_withdraw_request option \<Rightarrow> registry_db \<Rightarrow> ledger_db \<Rightarrow> response + withdraw_queue_input" where
  "create_checks method body reg db =
     (if method \<noteq> ''POST'' then Inl (fail_with ''method not allowed'' 405)
      else case body of
        None \<Rightarrow> Inl (fail_with ''invalid json'' 400)
      | Some req \<Rightarrow>
          if cw_TenantID req = [] \<or> cw_AccountID req = [] \<or> cw_OrderID req = [] \<or> cw_Chain req = [] \<or> cw_Network req = [] \<or>
             cw_Coin req = [] \<or> cw_Amount req = [] then
            Inl (fail_with ''tenant_id/account_id/order_id/chain/network/coin/amount are required'' 400)
          else if trim_space (cw_KeyID req) = [] \<and> cw_KeyIDs req = [] then
            Inl (fail_with ''key_id or key_ids are required'' 400)
          else
            bindE (ensureAccountActive reg (cw_TenantID req) (cw_AccountID req) ''withdraw'') (\<lambda>_.
            bindE (required_confirmations reg (cw_Chain req) (cw_Network req)) (\<lambda>requiredConfs.
            case GetWithdrawStatus (cw_TenantID req) (cw_OrderID req) db of
              Inr existing \<Rightarrow> Inl (existing_withdraw existing)
            | Inl (Errorf e) \<Rightarrow> Inl (fail_with e 500)
            | Inl ErrNoRows \<Rightarrow>
                (case resolveWithdrawSigners reg req of
                   Inl e \<Rightarrow> Inl (fail_err e 400)
                 | Inr signers \<Rightarrow>
                     Inr \<lparr>wq_TenantID = cw_TenantID req, wq_AccountID = cw_AccountID req, wq_OrderID = cw_OrderID req,
                          wq_RequiredConfs = requiredConfs, wq_Signers = signers, wq_SignType = cw_SignType req,
                          wq_Tx = withdraw_tx req\<rparr>))))"

definition Create ::
  "('x, 'k, 'p) handler \<Rightarrow> string \<Rightarrow> create_withdraw_request option \<Rightarrow> 'x core \<Rightarrow> response \<times> 'x core" where
  "Create h method body co =
     (case create_checks method body (co_registry co) (co_ledger co) of
        Inl resp \<Rightarrow> (resp, co)
      | Inr inp \<Rightarrow>
          (case ledgerP (h_Orchestrator h) (\<lambda>now. QueueWithdraw now inp) (co_world co) of
             (Inl e, w) \<Rightarrow> (fail_err e 400, co\<lparr>co_world := w\<rparr>)
           | (Inr _, w) \<Rightarrow>
               (ok_with (WithdrawCreated \<lparr>cwr_TxHash = [], cwr_Status = ''QUEUED''\<rparr>), co\<lparr>co_world := w\<rparr>)))"

text \<open>
  The three notification handlers share their checks; \<open>confirm\<close> and \<open>failed\<close> are the ledger calls
  of each.
\<close>

definition notify_status :: "onchain_notify_request \<Rightarrow> string" where
  "notify_status req = (let s = to_upper (trim_space (on_Status req)) in if s = [] then ''CONFIRMED'' else s)"

definition notify_reason :: "onchain_notify_request \<Rightarrow> string" where
  "notify_reason req = (let s = trim_space (on_Reason req) in if s = [] then ''onchain failed'' else s)"

definition onchain_notify ::
  "('x, 'k, 'p) handler \<Rightarrow> string \<Rightarrow> (onchain_notify_request \<Rightarrow> int \<Rightarrow> ledger_db \<Rightarrow> ledger_db result) \<Rightarrow>
     (onchain_notify_request \<Rightarrow> int \<Rightarrow> ledger_db \<Rightarrow> ledger_db result) \<Rightarrow>
     string \<Rightarrow> onchain_notify_request option \<Rightarrow> 'x core \<Rightarrow> response \<times> 'x core" where
  "onchain_notify h missing confirm failed method body co =
     (if method \<noteq> ''POST'' then (fail_with ''method not allowed'' 405, co)
      else case body of
        None \<Rightarrow> (fail_with ''invalid json'' 400, co)
      | Some req \<Rightarrow>
          if on_TenantID req = [] \<or> on_OrderID req = [] \<or> on_TxHash req = [] then (fail_with missing 400, co)
          else if notify_status req \<notin> {''CONFIRMED'', ''FAILED'', ''REVERTED''} then (fail_with ''invalid status'' 400, co)
          else
            (case ledgerP (h_Orchestrator h) (if notify_status req = ''CONFIRMED'' then confirm req else failed req) (co_world co) of
               (Inl e, w) \<Rightarrow> (fail_err e 400, co\<lparr>co_world := w\<rparr>)
             | (Inr _, w) \<Rightarrow> (ok_with (Plain ''ok''), co\<lparr>co_world := w\<rparr>)))"

definition WithdrawOnchainNotify ::
  "('x, 'k, 'p) handler \<Rightarrow> string \<Rightarrow> onchain_notify_request option \<Rightarrow> 'x core \<Rightarrow> response \<times> 'x core" where
  "WithdrawOnchainNotify h =
     onchain_notify h ''tenant_id/order_id/tx_hash are required''
       (\<lambda>req now. ConfirmWithdrawOnChain now (on_TenantID req) (on_OrderID req) (on_TxHash req) (on_Confirmations req)
                    (on_RequiredConfs req))
       (\<lambda>req now. FailWithdrawOnChain now (on_TenantID req) (on_OrderID req) (on_TxHash req) (notify_reason req)
                    (on_Confirmations req))"

definition Status :: "string \<Rightarrow> string \<Rightarrow> string \<Rightarrow> 'x core \<Rightarrow> response" where
  "Status method tenantID orderID co =
     (if method \<noteq> ''GET'' then fail_with ''method not allowed'' 405
      else if tenantID = [] \<or> orderID = [] then fail_with ''tenant_id and order_id are required'' 400
      else case GetWithdrawStatus tenantID orderID (co_ledger co) of
             Inl ErrNoRows \<Rightarrow> fail_with ''withdraw order not found'' 404
           | Inl e \<Rightarrow> fail_err e 500
           | Inr st \<Rightarrow> ok_with (WithdrawStatus tenantID orderID st))"


section \<open>Deposits\<close>

definition DepositNotify ::
  "('x, 'k, 'p) handler \<Rightarrow> string \<Rightarrow> deposit_notify_request option \<Rightarrow> 'x core \<Rightarrow> response \<times> 'x core" where
  "DepositNotify h method body co =
     (if method \<noteq> ''POST'' then (fail_with ''method not allowed'' 405, co)
      else case body of
        None \<Rightarrow> (fail_with ''invalid json'' 400, co)
      | Some req \<Rightarrow>
          if di_TenantID req = [] \<or> di_AccountID req = [] \<or> di_OrderID req = [] \<or> di_Chain req = [] \<or> di_Network req = [] \<or>
             di_Coin req = [] \<or> di_Amount req = [] then
            (fail_with ''tenant_id/account_id/order_id/chain/network/coin/amount are required'' 400, co)
          else
            (case ensureAccountActive (co_registry co) (di_TenantID req) (di_AccountID req) ''deposit_notify'' of
               Inl resp \<Rightarrow> (resp, co)
             | Inr _ \<Rightarrow>
                 (case ledgerP (h_Orchestrator h) (\<lambda>now. CreditDeposit now req) (co_world co) of
                    (Inl e, w) \<Rightarrow> (fail_err e 400, co\<lparr>co_world := w\<rparr>)
                  | (Inr _, w) \<Rightarrow> (ok_with (Plain ''ok''), co\<lparr>co_world := w\<rparr>))))"


section \<open>Sweeps\<close>

definition getVaultAvailable :: "ledger_db \<Rightarrow> string \<Rightarrow> string \<Rightarrow> string \<Rightarrow> string result" where
  "getVaultAvailable db tenantID accountID asset =
     bindE (ListAccountAssets tenantID accountID db) (\<lambda>items.
     case List.find (\<lambda>item. equal_fold (trim_space (aa_Asset item)) (trim_space asset)) items of
       None \<Rightarrow> Inr ''0''
     | Some item \<Rightarrow>
         if trim_space (aa_VaultAvailable item) = [] then Inr ''0'' else Inr (trim_space (aa_VaultAvailable item)))"

definition resolveSweepDestinationAccount :: "ledger_db \<Rightarrow> sweep_run_request \<Rightarrow> (string \<times> string) result" where
  "resolveSweepDestinationAccount db req =
     (let hot0 = trim_space (sq_TreasuryAccountID req); hotAccountID = (if hot0 = [] then ''treasury-main'' else hot0);
          coldAccountID = trim_space (sq_ColdAccountID req); hotBalanceCap = trim_space (sq_HotBalanceCap req)
      in
      if coldAccountID = [] \<or> hotBalanceCap = [] \<or> hotBalanceCap = ''0'' then Inr (hotAccountID, ''HOT'')
      else
        bindE (getVaultAvailable db (sq_TenantID req) hotAccountID (sq_Asset req)) (\<lambda>currentHotVault.
        bindE (addIntegerStrings currentHotVault (sq_Amount req)) (\<lambda>projectedHotVault.
        if compareIntegerStrings projectedHotVault hotBalanceCap > 0 then Inr (coldAccountID, ''COLD'')
        else Inr (hotAccountID, ''HOT''))))"

record sweep_plan =
  sp_Request :: sweep_run_request
  sp_RequiredConfs :: int
  sp_From :: wallet_address
  sp_Destination :: string
  sp_Tier :: string
  sp_To :: wallet_address

definition answer400 :: "'a result \<Rightarrow> response + 'a" where
  "answer400 m = (case m of Inl e \<Rightarrow> Inl (fail_err e 400) | Inr x \<Rightarrow> Inr x)"

text \<open>\<open>requestID\<close> is what \<open>requestIDFrom(r, "sweep_run")\<close> returns.\<close>

definition sweep_checks ::
  "string \<Rightarrow> string \<Rightarrow> sweep_run_request option \<Rightarrow> registry_db \<Rightarrow> ledger_db \<Rightarrow> response + sweep_plan" where
  "sweep_checks requestID method body reg db =
     (if method \<noteq> ''POST'' then Inl (fail_with ''method not allowed'' 405)
      else case body of
        None \<Rightarrow> Inl (fail_with ''invalid json'' 400)
      | Some req0 \<Rightarrow>
          bindE (ensureAccountActive reg (sq_TenantID req0) (sq_FromAccountID req0) ''sweep_run'') (\<lambda>_.
          let req1 = (if sq_TreasuryAccountID req0 = [] then req0\<lparr>sq_TreasuryAccountID := ''treasury-main''\<rparr> else req0) in
          if sq_Chain req1 = [] \<or> sq_Network req1 = [] \<or> sq_Asset req1 = [] \<or> sq_Amount req1 = [] then
            Inl (fail_with ''chain/network/asset/amount are required'' 400)
          else
            bindE (if sq_TreasuryAccountID req1 \<noteq> sq_FromAccountID req1
                   then ensureAccountActive reg (sq_TenantID req1) (sq_TreasuryAccountID req1) ''sweep_run'' else Inr ()) (\<lambda>_.
            bindE (if trim_space (sq_ColdAccountID req1) \<noteq> [] \<and> sq_ColdAccountID req1 \<noteq> sq_FromAccountID req1 \<and>
                      sq_ColdAccountID req1 \<noteq> sq_TreasuryAccountID req1
                   then ensureAccountActive reg (sq_TenantID req1) (sq_ColdAccountID req1) ''sweep_run'' else Inr ()) (\<lambda>_.
            bindE (required_confirmations reg (sq_Chain req1) (sq_Network req1)) (\<lambda>requiredConfs.
            let req = (if sq_SweepOrderID req1 = [] then req1\<lparr>sq_SweepOrderID := requestID\<rparr> else req1) in
            bindE (answer400 (findAccountAddress reg (sq_TenantID req) (sq_FromAccountID req) (sq_Chain req) (sq_Network req)
                     (sq_Asset req))) (\<lambda>fromAddr.
            bindE (answer400 (resolveSweepDestinationAccount db req)) (\<lambda>(destinationAccountID, destinationTier).
            bindE (answer400 (findAccountAddress reg (sq_TenantID req) destinationAccountID (sq_Chain req) (sq_Network req)
                     (sq_Asset req))) (\<lambda>treasuryAddr.
            Inr \<lparr>sp_Request = req, sp_RequiredConfs = requiredConfs, sp_From = fromAddr, sp_Destination = destinationAccountID,
                 sp_Tier = destinationTier, sp_To = treasuryAddr\<rparr>))))))))"

text \<open>A transfer between two addresses of the tenant, signed by the key of the first.\<close>

definition transfer_request ::
  "string \<Rightarrow> string \<Rightarrow> string \<Rightarrow> int \<Rightarrow> wallet_address \<Rightarrow> wallet_address \<Rightarrow> string \<Rightarrow> string \<Rightarrow> string \<Rightarrow> string \<Rightarrow> withdraw_request"
where
  "transfer_request tenantID accountID orderID requiredConfs fromAddr toAddr chain network asset amount =
     \<lparr>wr_TenantID = tenantID, wr_AccountID = accountID, wr_OrderID = orderID, wr_RequiredConfs = requiredConfs,
      wr_Signers = [\<lparr>sr_KeyID = wad_KeyID fromAddr, sr_PublicKey = wad_PublicKey fromAddr\<rparr>],
      wr_SignType = wad_SignType fromAddr,
      wr_Tx = \<lparr>bp_Chain = chain, bp_Network = network, bp_Coin = asset, bp_From = wad_Address fromAddr,
        bp_To = wad_Address toAddr, bp_Amount = amount, bp_Base64Tx = [], bp_ContractAddress = [], bp_AmountUnit = [],
        bp_TokenDecimals = 0, bp_Fee = [], bp_Vin = [], bp_Vout = []\<rparr>\<rparr>"

definition sweep_effects :: "'x port \<Rightarrow> sweep_plan \<Rightarrow> 'x world \<Rightarrow> response \<times> 'x world" where
  "sweep_effects P p w0 =
     (let req = sp_Request p in
      case ledgerP P (\<lambda>now. ReserveSweep now
             \<lparr>si_TenantID = sq_TenantID req, si_FromAccountID = sq_FromAccountID req, si_TreasuryAccountID = sp_Destination p,
              si_SweepOrderID = sq_SweepOrderID req, si_Chain = sq_Chain req, si_Network = sq_Network req, si_Asset = sq_Asset req,
              si_Amount = sq_Amount req, si_RequiredConfs = sp_RequiredConfs p\<rparr>) w0 of
        (Inl e, w1) \<Rightarrow> (fail_err e 400, w1)
      | (Inr _, w1) \<Rightarrow>
          (case BroadcastOnly P (transfer_request (sq_TenantID req) (sq_FromAccountID req) (sq_SweepOrderID req) (sp_RequiredConfs p)
                  (sp_From p) (sp_To p) (sq_Chain req) (sq_Network req) (sq_Asset req) (sq_Amount req)) w1 of
             (Inl e, w2) \<Rightarrow>
               (fail_err e 400,
                snd (ledgerP P (\<lambda>now. FailSweepOnChain now (sq_TenantID req) (sq_SweepOrderID req) (error_text e) 0) w2))
           | (Inr broadcast, w2) \<Rightarrow>
               (case retryLedgerMutation 3 (ledgerP P (\<lambda>now. StartSweep now
                       \<lparr>sc_TenantID = sq_TenantID req, sc_FromAccountID = sq_FromAccountID req,
                        sc_TreasuryAccountID = sp_Destination p, sc_SweepOrderID = sq_SweepOrderID req, sc_Chain = sq_Chain req,
                        sc_Network = sq_Network req, sc_Asset = sq_Asset req, sc_Amount = sq_Amount req,
                        sc_TxHash = bres_TxHash broadcast, sc_RequiredConfs = sp_RequiredConfs p\<rparr>)) w2 of
                  (Inl e, w3) \<Rightarrow>
                    (fail_with (''sweep broadcasted but ledger mark failed, tx_hash='' @ bres_TxHash broadcast @ '': '' @
                       error_text e) 500, w3)
                | (Inr _, w3) \<Rightarrow>
                    (ok_with (SweepStarted \<lparr>srr_Status = ''BROADCASTED'', srr_TxHash = bres_TxHash broadcast,
                       srr_DestinationAccountID = sp_Destination p, srr_DestinationTier = sp_Tier p\<rparr>), w3))))"

definition SweepRun ::
  "('x, 'k, 'p) handler \<Rightarrow> string \<Rightarrow> string \<Rightarrow> sweep_run_request option \<Rightarrow> 'x core \<Rightarrow> response \<times> 'x core" where
  "SweepRun h requestID method body co =
     (case sweep_checks requestID method body (co_registry co) (co_ledger co) of
        Inl resp \<Rightarrow> (resp, co)
      | Inr p \<Rightarrow> (case sweep_effects (h_Orchestrator h) p (co_world co) of (resp, w) \<Rightarrow> (resp, co\<lparr>co_world := w\<rparr>)))"

definition SweepOnchainNotify ::
  "('x, 'k, 'p) handler \<Rightarrow> string \<Rightarrow> onchain_notify_request option \<Rightarrow> 'x core \<Rightarrow> response \<times> 'x core" where
  "SweepOnchainNotify h =
     onchain_notify h ''tenant_id/sweep_order_id/tx_hash are required''
       (\<lambda>req now. ConfirmSweepOnChain now
          \<lparr>sf_TenantID = on_TenantID req, sf_SweepOrderID = on_OrderID req, sf_TxHash = on_TxHash req,
           sf_Confirmations = on_Confirmations req, sf_RequiredConfs = on_RequiredConfs req\<rparr>)
       (\<lambda>req now. FailSweepOnChain now (on_TenantID req) (on_OrderID req) (notify_reason req) (on_Confirmations req))"


section \<open>Treasury\<close>

definition normalizeTreasuryTier :: "string \<Rightarrow> string \<Rightarrow> string \<Rightarrow> string" where
  "normalizeTreasuryTier requestTier accountID fallback =
     (let tier = to_upper (trim_space requestTier) in
      if tier = ''HOT'' \<or> tier = ''COLD'' then tier
      else
        let acc = to_lower (trim_space accountID) in
        if contains acc ''cold'' then ''COLD''
        else if contains acc ''hot'' then ''HOT''
        else to_upper (trim_space fallback))"

record transfer_plan =
  tp_Request :: treasury_transfer_request
  tp_RequiredConfs :: int
  tp_From :: wallet_address
  tp_To :: wallet_address

definition transfer_checks ::
  "string \<Rightarrow> string \<Rightarrow> treasury_transfer_request option \<Rightarrow> registry_db \<Rightarrow> ledger_db \<Rightarrow> response + transfer_plan" where
  "transfer_checks requestID method body reg db =
     (if method \<noteq> ''POST'' then Inl (fail_with ''method not allowed'' 405)
      else case body of
        None \<Rightarrow> Inl (fail_with ''invalid json'' 400)
      | Some req0 \<Rightarrow>
          if tq_TenantID req0 = [] \<or> tq_FromAccountID req0 = [] \<or> tq_ToAccountID req0 = [] \<or> tq_Chain req0 = [] \<or>
             tq_Network req0 = [] \<or> tq_Asset req0 = [] \<or> tq_Amount req0 = [] then
            Inl (fail_with ''tenant_id/from_account_id/to_account_id/chain/network/asset/amount are required'' 400)
          else if tq_FromAccountID req0 = tq_ToAccountID req0 then
            Inl (fail_with ''from_account_id and to_account_id must differ'' 400)
          else
            bindE (ensureAccountActive reg (tq_TenantID req0) (tq_FromAccountID req0) ''treasury_transfer'') (\<lambda>_.
            bindE (ensureAccountActive reg (tq_TenantID req0) (tq_ToAccountID req0) ''treasury_transfer'') (\<lambda>_.
            let req = (if trim_space (tq_TransferOrderID req0) = [] then req0\<lparr>tq_TransferOrderID := requestID\<rparr> else req0) in
            case GetTreasuryTransferStatus (tq_TenantID req) (tq_TransferOrderID req) db of
              Inr existing \<Rightarrow>
                Inl (ok_with (TransferStarted \<lparr>ttr_Status = ts_Status existing, ttr_TxHash = ts_TxHash existing,
                  ttr_TransferOrderID = tq_TransferOrderID req, ttr_SourceTier = ts_SourceTier existing,
                  ttr_DestinationTier = ts_DestinationTier existing\<rparr>))
            | Inl (Errorf e) \<Rightarrow> Inl (fail_with e 500)
            | Inl ErrNoRows \<Rightarrow>
                bindE (required_confirmations reg (tq_Chain req) (tq_Network req)) (\<lambda>requiredConfs.
                bindE (answer400 (findAccountAddress reg (tq_TenantID req) (tq_FromAccountID req) (tq_Chain req) (tq_Network req)
                         (tq_Asset req))) (\<lambda>fromAddr.
                bindE (answer400 (findAccountAddress reg (tq_TenantID req) (tq_ToAccountID req) (tq_Chain req) (tq_Network req)
                         (tq_Asset req))) (\<lambda>toAddr.
                Inr \<lparr>tp_Request = req, tp_RequiredConfs = requiredConfs, tp_From = fromAddr, tp_To = toAddr\<rparr>))))))"

definition source_tier :: "treasury_transfer_request \<Rightarrow> string" where
  "source_tier req = normalizeTreasuryTier (tq_SourceTier req) (tq_FromAccountID req) ''HOT''"

definition destination_tier :: "treasury_transfer_request \<Rightarrow> string" where
  "destination_tier req = normalizeTreasuryTier (tq_DestinationTier req) (tq_ToAccountID req) ''COLD''"

definition transfer_effects :: "'x port \<Rightarrow> transfer_plan \<Rightarrow> 'x world \<Rightarrow> response \<times> 'x world" where
  "transfer_effects P p w0 =
     (let req = tp_Request p in
      case ledgerP P (\<lambda>now. ReserveTreasuryTransfer now
             \<lparr>ti_TenantID = tq_TenantID req, ti_TransferOrderID = tq_TransferOrderID req, ti_FromAccountID = tq_FromAccountID req,
              ti_ToAccountID = tq_ToAccountID req, ti_Chain = tq_Chain req, ti_Network = tq_Network req, ti_Asset = tq_Asset req,
              ti_Amount = tq_Amount req, ti_RequiredConfirmations = tp_RequiredConfs p, ti_SourceTier = source_tier req,
              ti_DestinationTier = destination_tier req\<rparr>) w0 of
        (Inl e, w1) \<Rightarrow> (fail_err e 400, w1)
      | (Inr _, w1) \<Rightarrow>
          (case BroadcastOnly P (transfer_request (tq_TenantID req) (tq_FromAccountID req) (tq_TransferOrderID req) 0
                  (tp_From p) (tp_To p) (tq_Chain req) (tq_Network req) (tq_Asset req) (tq_Amount req)) w1 of
             (Inl e, w2) \<Rightarrow>
               (fail_err e 400,
                snd (ledgerP P (\<lambda>now. FailTreasuryTransferOnChain now (tq_TenantID req) (tq_TransferOrderID req) (error_text e) 0) w2))
           | (Inr broadcast, w2) \<Rightarrow>
               (case retryLedgerMutation 3 (ledgerP P (\<lambda>now. MarkTreasuryTransferBroadcasted now (tq_TenantID req)
                       (tq_TransferOrderID req) (bres_TxHash broadcast) (tp_RequiredConfs p))) w2 of
                  (Inl e, w3) \<Rightarrow>
                    (fail_with (''treasury transfer broadcasted but ledger mark failed, tx_hash='' @ bres_TxHash broadcast @ '': '' @
                       error_text e) 500, w3)
                | (Inr _, w3) \<Rightarrow>
                    (ok_with (TransferStarted \<lparr>ttr_Status = ''BROADCASTED'', ttr_TxHash = bres_TxHash broadcast,
                       ttr_TransferOrderID = tq_TransferOrderID req, ttr_SourceTier = source_tier req,
                       ttr_DestinationTier = destination_tier req\<rparr>), w3))))"

definition TreasuryTransfer ::
  "('x, 'k, 'p) handler \<Rightarrow> string \<Rightarrow> string \<Rightarrow> treasury_transfer_request option \<Rightarrow> 'x core \<Rightarrow> response \<times> 'x core" where
  "TreasuryTransfer h requestID method body co =
     (case transfer_checks requestID method body (co_registry co) (co_ledger co) of
        Inl resp \<Rightarrow> (resp, co)
      | Inr p \<Rightarrow> (case transfer_effects (h_Orchestrator h) p (co_world co) of (resp, w) \<Rightarrow> (resp, co\<lparr>co_world := w\<rparr>)))"

definition TreasuryTransferOnchainNotify ::
  "('x, 'k, 'p) handler \<Rightarrow> string \<Rightarrow> onchain_notify_request option \<Rightarrow> 'x core \<Rightarrow> response \<times> 'x core" where
  "TreasuryTransferOnchainNotify h =
     onchain_notify h ''tenant_id/transfer_order_id/tx_hash are required''
       (\<lambda>req now. ConfirmTreasuryTransferOnChain now
          \<lparr>tc_TenantID = on_TenantID req, tc_TransferOrderID = on_OrderID req, tc_TxHash = on_TxHash req,
           tc_Confirmations = on_Confirmations req, tc_RequiredConfs = on_RequiredConfs req\<rparr>)
       (\<lambda>req now. FailTreasuryTransferOnChain now (on_TenantID req) (on_OrderID req) (notify_reason req) (on_Confirmations req))"

definition TreasuryTransferStatus :: "string \<Rightarrow> string \<Rightarrow> string \<Rightarrow> 'x core \<Rightarrow> response" where
  "TreasuryTransferStatus method tenantID transferOrderID co =
     (if method \<noteq> ''GET'' then fail_with ''method not allowed'' 405
      else if tenantID = [] \<or> transferOrderID = [] then fail_with ''tenant_id and transfer_order_id are required'' 400
      else case GetTreasuryTransferStatus tenantID transferOrderID (co_ledger co) of
             Inl ErrNoRows \<Rightarrow> fail_with ''treasury transfer order not found'' 404
           | Inl e \<Rightarrow> fail_err e 500
           | Inr st \<Rightarrow> ok_with (TransferStatus tenantID transferOrderID st))"

text \<open>The state of the hot vault against its bounds, the action and the amount that would restore them.\<close>

definition waterline_advice :: "string \<Rightarrow> string \<Rightarrow> string \<Rightarrow> (string \<times> string \<times> string) result" where
  "waterline_advice hotVault hotBalanceFloor hotBalanceCap =
     (if compareIntegerStrings hotBalanceFloor ''0'' > 0 \<and> compareIntegerStrings hotVault hotBalanceFloor < 0 then
        bindE (subIntegerStrings hotBalanceFloor hotVault) (\<lambda>a. Inr (''LOW'', ''COLD_TO_HOT'', a))
      else if compareIntegerStrings hotBalanceCap ''0'' > 0 \<and> compareIntegerStrings hotVault hotBalanceCap > 0 then
        bindE (subIntegerStrings hotVault hotBalanceCap) (\<lambda>a. Inr (''HIGH'', ''HOT_TO_COLD'', a))
      else Inr (''NORMAL'', ''NONE'', ''0''))"

definition answer500 :: "'a result \<Rightarrow> response + 'a" where
  "answer500 m = (case m of Inl e \<Rightarrow> Inl (fail_err e 500) | Inr x \<Rightarrow> Inr x)"

definition respond :: "response + response \<Rightarrow> response" where
  "respond m = (case m of Inl r \<Rightarrow> r | Inr r \<Rightarrow> r)"

definition TreasuryWaterline :: "string \<Rightarrow> (string \<Rightarrow> string) \<Rightarrow> 'x core \<Rightarrow> response" where
  "TreasuryWaterline method query co =
     (if method \<noteq> ''GET'' then fail_with ''method not allowed'' 405
      else
        let tenantID = trim_space (query ''tenant_id''); hotAccountID = trim_space (query ''hot_account_id'');
            coldAccountID = trim_space (query ''cold_account_id''); asset = trim_space (query ''asset'');
            cap0 = trim_space (query ''hot_balance_cap''); floor0 = trim_space (query ''hot_balance_floor'')
        in
        if tenantID = [] \<or> hotAccountID = [] \<or> coldAccountID = [] \<or> asset = [] then
          fail_with ''tenant_id/hot_account_id/cold_account_id/asset are required'' 400
        else if cap0 = [] \<and> floor0 = [] then fail_with ''hot_balance_cap or hot_balance_floor is required'' 400
        else
          let hotBalanceCap = (if cap0 = [] then ''0'' else cap0); hotBalanceFloor = (if floor0 = [] then ''0'' else floor0) in
          if compareIntegerStrings hotBalanceCap ''0'' > 0 \<and> compareIntegerStrings hotBalanceFloor hotBalanceCap > 0 then
            fail_with ''hot_balance_floor cannot exceed hot_balance_cap'' 400
          else respond (
            bindE (answer500 (getVaultAvailable (co_ledger co) tenantID hotAccountID asset)) (\<lambda>hotVault.
            bindE (answer500 (getVaultAvailable (co_ledger co) tenantID coldAccountID asset)) (\<lambda>coldVault.
            bindE (answer500 (waterline_advice hotVault hotBalanceFloor hotBalanceCap)) (\<lambda>(state, action, amount).
            Inr (ok_with (Waterline \<lparr>twr_TenantID = tenantID, twr_Asset = asset, twr_HotAccountID = hotAccountID,
              twr_ColdAccountID = coldAccountID, twr_HotVaultAvailable = hotVault, twr_ColdVaultAvailable = coldVault,
              twr_HotBalanceCap = hotBalanceCap, twr_HotBalanceFloor = hotBalanceFloor, twr_State = state,
              twr_RecommendedAction = action, twr_SuggestedTransferAmount = amount\<rparr>)))))))"


section \<open>Accounts\<close>

definition Balance :: "string \<Rightarrow> string \<Rightarrow> string \<Rightarrow> string \<Rightarrow> 'x core \<Rightarrow> response" where
  "Balance method tenantID accountID asset co =
     (if method \<noteq> ''GET'' then fail_with ''method not allowed'' 405
      else if tenantID = [] \<or> accountID = [] \<or> asset = [] then fail_with ''tenant_id, account_id and asset are required'' 400
      else case GetBalance tenantID accountID asset (co_ledger co) of
             Inl e \<Rightarrow> fail_err e 500
           | Inr bal \<Rightarrow> ok_with (BalanceOf tenantID accountID asset bal))"

definition AccountUpsert ::
  "('x, 'k, 'p) handler \<Rightarrow> string \<Rightarrow> account_upsert_request option \<Rightarrow> 'x core \<Rightarrow> response \<times> 'x core" where
  "AccountUpsert h method body co =
     (if method \<noteq> ''POST'' then (fail_with ''method not allowed'' 405, co)
      else case body of
        None \<Rightarrow> (fail_with ''invalid json'' 400, co)
      | Some req \<Rightarrow>
          if au_TenantID req = [] \<or> au_AccountID req = [] then (fail_with ''tenant_id/account_id are required'' 400, co)
          else
            (case UpsertAccount (pt_Now (h_Orchestrator h) (w_ext (co_world co)))
                    \<lparr>wac_TenantID = au_TenantID req, wac_AccountID = au_AccountID req, wac_AccountTag = au_AccountTag req,
                     wac_Status = au_Status req, wac_Remark = au_Remark req, wac_CreatedAt = 0, wac_UpdatedAt = 0\<rparr>
                    (co_registry co) of
               Inl e \<Rightarrow> (fail_err e 400, co)
             | Inr (out, reg) \<Rightarrow> (ok_with (AccountOf out), co\<lparr>co_registry := reg\<rparr>)))"

definition AccountGet :: "string \<Rightarrow> string \<Rightarrow> string \<Rightarrow> 'x core \<Rightarrow> response" where
  "AccountGet method tenantID accountID co =
     (if method \<noteq> ''GET'' then fail_with ''method not allowed'' 405
      else if tenantID = [] \<or> accountID = [] then fail_with ''tenant_id/account_id are required'' 400
      else case GetAccount tenantID accountID (co_registry co) of
             Inl ErrNoRows \<Rightarrow> fail_with ''account not found'' 404
           | Inl e \<Rightarrow> fail_err e 500
           | Inr out \<Rightarrow> ok_with (AccountOf out))"

definition AccountList :: "string \<Rightarrow> string \<Rightarrow> 'x core \<Rightarrow> response" where
  "AccountList method tenantID co =
     (if method \<noteq> ''GET'' then fail_with ''method not allowed'' 405
      else if tenantID = [] then fail_with ''tenant_id is required'' 400
      else ok_with (AccountsOf (ListAccounts tenantID 100 0 (co_registry co))))"

definition AccountAddresses :: "string \<Rightarrow> string \<Rightarrow> string \<Rightarrow> 'x core \<Rightarrow> response" where
  "AccountAddresses method tenantID accountID co =
     (if method \<noteq> ''GET'' then fail_with ''method not allowed'' 405
      else if tenantID = [] \<or> accountID = [] then fail_with ''tenant_id/account_id are required'' 400
      else ok_with (AddressesOf (ListAccountAddresses tenantID accountID (co_registry co))))"

definition AccountAssets :: "string \<Rightarrow> string \<Rightarrow> string \<Rightarrow> 'x core \<Rightarrow> response" where
  "AccountAssets method tenantID accountID co =
     (if method \<noteq> ''GET'' then fail_with ''method not allowed'' 405
      else if tenantID = [] \<or> accountID = [] then fail_with ''tenant_id/account_id are required'' 400
      else case ListAccountAssets tenantID accountID (co_ledger co) of
             Inl e \<Rightarrow> fail_err e 500
           | Inr items \<Rightarrow> ok_with (AssetsOf items))"


section \<open>Addresses\<close>

record address_plan =
  ap_Request :: create_address_request
  ap_AutoSweep :: bool
  ap_Prepared :: prepared_address

definition address_checks ::
  "string \<Rightarrow> create_address_request option \<Rightarrow> registry_db \<Rightarrow> response + address_plan" where
  "address_checks method body reg =
     (if method \<noteq> ''POST'' then Inl (fail_with ''method not allowed'' 405)
      else case body of
        None \<Rightarrow> Inl (fail_with ''invalid json'' 400)
      | Some req0 \<Rightarrow>
          if ca_TenantID req0 = [] \<or> ca_AccountID req0 = [] \<or> ca_Chain req0 = [] \<or> ca_Coin req0 = [] then
            Inl (fail_with ''tenant_id/account_id/chain/coin are required'' 400)
          else
            bindE (ensureAccountActive reg (ca_TenantID req0) (ca_AccountID req0) ''address_create'') (\<lambda>_.
            if ca_Network req0 = [] then Inl (fail_with ''network is required'' 400)
            else
              bindE (answer400 (GetChainMetadata (ca_Chain req0) (ca_Network req0) reg)) (\<lambda>meta.
              if \<not> cm_Enabled meta then Inl (fail_with ''chain/network disabled'' 400)
              else
                let signType = (if ca_SignType req0 = [] then defaultSignTypeForChain (ca_Chain req0) else ca_SignType req0);
                    model = to_lower (trim_space (cm_Model meta))
                in
                if ca_Model req0 \<noteq> [] \<and> to_lower (trim_space (ca_Model req0)) \<noteq> model then
                  Inl (fail_with ''model mismatch for chain/network'' 400)
                else
                  let chain = to_lower (trim_space (cm_Chain meta)); network = to_lower (trim_space (ca_Network req0)) in
                  bindE (answer400 (GetChainPolicy chain network reg)) (\<lambda>policy.
                  if \<not> cp_Enabled policy then Inl (fail_with ''chain/network policy disabled'' 400)
                  else
                    let req = req0\<lparr>ca_SignType := signType, ca_Model := model, ca_Chain := chain, ca_Network := network,
                          ca_Coin := to_upper (trim_space (ca_Coin req0)),
                          ca_MinConfirmations := (if cp_RequiredConfirmations policy \<le> 0 then 1 else cp_RequiredConfirmations policy),
                          ca_TreasuryAccountID := (if ca_TreasuryAccountID req0 = [] then ''treasury-main''
                                                   else ca_TreasuryAccountID req0)\<rparr>
                    in bindE (answer500 (PrepareAddress
                           \<lparr>pi_TenantID = ca_TenantID req, pi_AccountID = ca_AccountID req, pi_Model = ca_Model req,
                            pi_Chain = ca_Chain req, pi_Network = ca_Network req, pi_SignType = ca_SignType req,
                            pi_AddressType = ca_AddressType req\<rparr> reg)) (\<lambda>prepared.
                       Inr \<lparr>ap_Request = req, ap_AutoSweep = (case ca_AutoSweep req of None \<Rightarrow> False | Some b \<Rightarrow> b),
                            ap_Prepared = prepared\<rparr>)))))"

text \<open>The public key, the address and the custody scheme: derived and converted for a new key, read for an old one.\<close>

definition address_material ::
  "('x, 'k, 'p) handler \<Rightarrow> address_plan \<Rightarrow> 'x \<Rightarrow> (response + string \<times> string \<times> string) \<times> 'x" where
  "address_material h p x =
     (let req = ap_Request p; prepared = pa_Address (ap_Prepared p) in
      case h_DeriveKey h (ca_TenantID req) (ca_SignType req) (wad_KeyID prepared) x of
        (Inl e, x1) \<Rightarrow>
          if pa_Existing (ap_Prepared p) then (Inr (wad_PublicKey prepared, wad_Address prepared, []), x1)
          else (Inl (fail_err e 502), x1)
      | (Inr derived, x1) \<Rightarrow>
          if pa_Existing (ap_Prepared p) then (Inr (wad_PublicKey prepared, wad_Address prepared, pk_CustodyScheme derived), x1)
          else
            (case (if pk_PublicDerivationSupported derived \<and> equal_fold (ca_SignType req) ''ecdsa''
                   then bindE (hdpub_DeriveECDSAChildPublic (h_Curve h) (pk_AccountPublicKey derived) (pk_AccountChainCode derived)
                                 (wad_ChangeIndex prepared) (wad_AddressIndex prepared)) (\<lambda>(compressed, _). Inr compressed)
                   else Inr (pk_PublicKey derived)) of
               Inl e \<Rightarrow> (Inl (fail_err e 502), x1)
             | Inr pubKey \<Rightarrow>
                 if trim_space pubKey = [] then (Inl (fail_with ''empty public key'' 502), x1)
                 else
                   (case h_ConvertAddress h (ca_Chain req) (ca_Network req) (ca_AddressType req) pubKey x1 of
                      (Inl e, x2) \<Rightarrow> (Inl (fail_err e 502), x2)
                    | (Inr address, x2) \<Rightarrow> (Inr (pubKey, address, pk_CustodyScheme derived), x2))))"

definition watch_of :: "address_plan \<Rightarrow> string \<Rightarrow> string \<Rightarrow> watch_address_input" where
  "watch_of p pubKey address =
     (let req = ap_Request p; prepared = pa_Address (ap_Prepared p) in
      \<lparr>wi_TenantID = ca_TenantID req, wi_AccountID = ca_AccountID req, wi_Model = ca_Model req, wi_Chain = ca_Chain req,
       wi_Coin = ca_Coin req, wi_Network = ca_Network req, wi_Address = address, wi_KeyID = wad_KeyID prepared,
       wi_PublicKey = pubKey, wi_SignType = ca_SignType req, wi_AddressType = ca_AddressType req,
       wi_DerivationPath = wad_DerivationPath prepared, wi_ChangeIndex = wad_ChangeIndex prepared,
       wi_AddressIndex = wad_AddressIndex prepared, wi_MinConfirmations = ca_MinConfirmations req, wi_UnlockConfirmations = 0,
       wi_TreasuryAccountID = ca_TreasuryAccountID req, wi_ColdAccountID = ca_ColdAccountID req, wi_AutoSweep = ap_AutoSweep p,
       wi_SweepThreshold = ca_SweepThreshold req, wi_HotBalanceCap = ca_HotBalanceCap req\<rparr>)"

definition CreateAddress ::
  "('x, 'k, 'p) handler \<Rightarrow> string \<Rightarrow> create_address_request option \<Rightarrow> 'x core \<Rightarrow> response \<times> 'x core" where
  "CreateAddress h method body co =
     (case address_checks method body (co_registry co) of
        Inl resp \<Rightarrow> (resp, co)
      | Inr p \<Rightarrow>
          (case address_material h p (w_ext (co_world co)) of
             (Inl resp, x) \<Rightarrow> (resp, co\<lparr>co_world := (co_world co)\<lparr>w_ext := x\<rparr>\<rparr>)
           | (Inr (pubKey, address, custodyScheme), x) \<Rightarrow>
               let req = ap_Request p; prepared = pa_Address (ap_Prepared p);
                   now = pt_Now (h_Orchestrator h) x;
                   co1 = co\<lparr>co_world := (co_world co)\<lparr>w_ext := x\<rparr>,
                            co_security := BindTenantKey now (ca_TenantID req) (wad_KeyID prepared) (co_security co)\<rparr>
               in case UpsertWatchAddress now (watch_of p pubKey address) (co_registry co) of
                    Inl e \<Rightarrow> (fail_err e 500, co1)
                  | Inr reg \<Rightarrow>
                      (ok_with (AddressCreated \<lparr>car_TenantID = ca_TenantID req, car_AccountID = ca_AccountID req,
                         car_Chain = ca_Chain req, car_Coin = ca_Coin req, car_Network = ca_Network req, car_Model = ca_Model req,
                         car_KeyID = wad_KeyID prepared, car_PublicKey = pubKey, car_Address = address,
                         car_SignType = ca_SignType req, car_AddressType = ca_AddressType req,
                         car_DerivationPath = wad_DerivationPath prepared, car_ChangeIndex = wad_ChangeIndex prepared,
                         car_AddressIndex = wad_AddressIndex prepared, car_CustodyScheme = custodyScheme\<rparr>),
                       co1\<lparr>co_registry := reg\<rparr>)))"

end
