(* ===== verification/Registry_Machine.thy ===== *)
theory Registry_Machine
  imports Registry
begin

text \<open>
  The registry as a state machine: accounts are created and changed, addresses are
  prepared and stored. The invariant ties the key id of every address to the HD index of the
  account that holds it; as indexes are unique, no account takes over a key of another.
\<close>

section \<open>The invariant\<close>

text \<open>A key id built from the HD index of the account.\<close>

definition owned_key :: "registry_db \<Rightarrow> string \<Rightarrow> string \<Rightarrow> string \<Rightarrow> bool" where
  "owned_key db tenantID accountID key \<longleftrightarrow>
     (\<exists>a st c t j. a \<in> set (wallet_accounts db) \<and> account_at (tenantID, accountID) a \<and> hdCoinTypeForChain c = Inr t \<and>
        key = buildHDKeyID st c (ac_id a) 0 j)"

definition accounts_ok :: "int \<Rightarrow> account_row table \<Rightarrow> bool" where
  "accounts_ok seq t \<longleftrightarrow> accounts.uniq t \<and> distinct (map ac_id t) \<and> 0 \<le> seq \<and>
     (\<forall>a\<in>set t. ac_hd_account_index a = Some (ac_id a) \<and> 1 \<le> ac_id a \<and> ac_id a \<le> seq)"

definition registry_inv :: "registry_db \<Rightarrow> bool" where
  "registry_inv db \<longleftrightarrow> accounts_ok (account_seq db) (wallet_accounts db) \<and>
     (\<forall>r\<in>set (wallet_addresses db). owned_key db (wad_TenantID r) (wad_AccountID r) (wad_KeyID r))"

text \<open>
  The steps: an account is upserted, or an address is stored under a key id of its account
  (\<open>prepared_key_owned\<close>: what \<open>PrepareAddress\<close> returned for the account, now or earlier).
\<close>

inductive registry_step :: "registry_db \<Rightarrow> registry_db \<Rightarrow> bool" where
  account: "UpsertAccount now inp db = Inr (acc, db') \<Longrightarrow> registry_step db db'"
| address: "owned_key db (wi_TenantID inp) (wi_AccountID inp) (wi_KeyID inp) \<Longrightarrow> UpsertWatchAddress now inp db = Inr db' \<Longrightarrow>
     registry_step db db'"

inductive_cases registry_stepE: "registry_step db db'"

definition empty_registry :: "chain_metadata table \<Rightarrow> chain_policy_row table \<Rightarrow> registry_db" where
  "empty_registry metas pols =
     \<lparr>wallet_accounts = [], wallet_addresses = [], scan_watch_addresses = [], chain_metadata_rows = metas,
      chain_policy_rows = pols, account_seq = 0, address_seq = 0\<rparr>"

definition registry_reachable :: "registry_db \<Rightarrow> bool" where
  "registry_reachable db \<longleftrightarrow> (\<exists>metas pols. registry_step\<^sup>*\<^sup>* (empty_registry metas pols) db)"

section \<open>Key ids name their account\<close>

lemma int_to_string_colon: "CHR '':'' \<notin> set (int_to_string i)"
  using nat_to_string_char_notin by (auto simp: int_to_string_def)

lemma buildHDKeyID_account:
  assumes "buildHDKeyID st c i x j = buildHDKeyID st' c' i' x' j'" "hdCoinTypeForChain c = Inr t" "hdCoinTypeForChain c' = Inr t'"
  shows "i = i'"
proof -
  have "split_on (CHR '':'') (buildHDKeyID st c i x j) =
      [''hd'', normalizeSignType st, reg_normalizeChain c, int_to_string i, int_to_string x, int_to_string j]"
    if "hdCoinTypeForChain c = Inr t" for st c i x j t
    unfolding buildHDKeyID_def reg_normalizeSignType_eq
    by (rule split_on_join) (use normalizeSignType_cases [of st] known_chain(1) [OF that] int_to_string_colon in auto)
  from this [OF assms(2), of st i x j] this [OF assms(3), of st' i' x' j'] have "int_to_string i = int_to_string i'"
    unfolding assms(1) by simp
  then show ?thesis by (simp add: int_to_string_inj)
qed

lemma owned_key_account:
  assumes inv: "registry_inv db" and "owned_key db t a k" "owned_key db t b k"
  shows "a = b"
proof -
  obtain ra st c s j where ra: "ra \<in> set (wallet_accounts db)" "account_at (t, a) ra" "hdCoinTypeForChain c = Inr s"
    "k = buildHDKeyID st c (ac_id ra) 0 j" using assms(2) unfolding owned_key_def by blast
  obtain rb st' c' s' j' where rb: "rb \<in> set (wallet_accounts db)" "account_at (t, b) rb" "hdCoinTypeForChain c' = Inr s'"
    "k = buildHDKeyID st' c' (ac_id rb) 0 j'" using assms(3) unfolding owned_key_def by blast
  have "ac_id ra = ac_id rb" using buildHDKeyID_account ra(3,4) rb(3,4) by metis
  then have "ra = rb" using inv ra(1) rb(1) unfolding registry_inv_def accounts_ok_def by (metis distinct_map inj_onD)
  then show ?thesis using ra(2) rb(2) by (simp add: account_at_def)
qed


section \<open>Steps keep the invariant\<close>

lemma assign_index_id: "\<forall>r\<in>set t. \<not> lacks_index r \<Longrightarrow> assign_index k t = t"
  unfolding assign_index_def update_where_def by (rule map_idI) simp

lemma accounts_ok_indexed: "accounts_ok seq t \<Longrightarrow> r \<in> set t \<Longrightarrow> \<not> lacks_index r"
  by (auto simp: accounts_ok_def lacks_index_def)

lemma accounts_ok_new:
  assumes ok: "accounts_ok seq t" and new: "select_row (account_at (tenant, account)) t = None"
  shows "accounts_ok (seq + 1) (assign_index (tenant, account) (t @ [new_account_row now (seq + 1) tenant account tag st rem]))"
    (is "accounts_ok _ (assign_index _ (t @ [?n]))")
proof -
  have "assign_index (tenant, account) t = t" using accounts_ok_indexed [OF ok] by (simp add: assign_index_id)
  then have eq: "assign_index (tenant, account) (t @ [?n]) = t @ [?n\<lparr>ac_hd_account_index := Some (seq + 1)\<rparr>]"
    by (simp add: assign_index_def account_at_def new_account_row_def lacks_index_def)
  have "accounts.uniq (t @ [?n\<lparr>ac_hd_account_index := Some (seq + 1)\<rparr>])"
    by (rule accounts.uniq_append) (use ok new in \<open>simp_all add: accounts_ok_def account_key_def new_account_row_def\<close>)
  moreover have "seq + 1 \<notin> ac_id ` set t" using ok unfolding accounts_ok_def by force
  ultimately show ?thesis using ok unfolding eq accounts_ok_def by (auto simp: new_account_row_def)
qed

lemma accounts_ok_update:
  assumes ok: "accounts_ok seq t"
    and f: "\<And>r. account_key (f r) = account_key r \<and> ac_id (f r) = ac_id r \<and> ac_hd_account_index (f r) = ac_hd_account_index r"
  shows "accounts_ok (seq + 1) (assign_index k (update_where p f t))"
proof -
  have "map ac_id (update_where p f t) = map ac_id t" using f by (simp add: update_where_def)
  moreover have "accounts.uniq (update_where p f t)" by (rule accounts.uniq_update) (use f ok in \<open>simp_all add: accounts_ok_def\<close>)
  ultimately have "accounts_ok (seq + 1) (update_where p f t)"
    using ok f unfolding accounts_ok_def by (fastforce simp: in_update_where)
  then show ?thesis using accounts_ok_indexed by (simp add: assign_index_id)
qed

text \<open>Accounts are kept, with their ids.\<close>

definition keeps_accounts :: "account_row table \<Rightarrow> account_row table \<Rightarrow> bool" where
  "keeps_accounts t t' \<longleftrightarrow> (\<forall>a\<in>set t. \<exists>a'\<in>set t'. account_key a' = account_key a \<and> ac_id a' = ac_id a)"

lemma keeps_accounts_update:
  assumes "\<And>r. account_key (f r) = account_key r \<and> ac_id (f r) = ac_id r"
  shows "keeps_accounts t (update_where p f t)"
  unfolding keeps_accounts_def
proof
  fix a assume "a \<in> set t"
  then have "(if p a then f a else a) \<in> set (update_where p f t)" by (simp add: update_where_def)
  then show "\<exists>a'\<in>set (update_where p f t). account_key a' = account_key a \<and> ac_id a' = ac_id a" using assms by (metis (full_types))
qed

lemma keeps_accounts_trans: "keeps_accounts t u \<Longrightarrow> keeps_accounts u v \<Longrightarrow> keeps_accounts t v"
  unfolding keeps_accounts_def by metis

lemma keeps_accounts_assign: "keeps_accounts t (assign_index k t)"
  unfolding assign_index_def by (rule keeps_accounts_update) (simp add: account_key_def)

lemma owned_key_mono:
  assumes "owned_key db t a k" "keeps_accounts (wallet_accounts db) (wallet_accounts db')"
  shows "owned_key db' t a k"
proof -
  obtain r st c s j where r: "r \<in> set (wallet_accounts db)" "account_at (t, a) r" "hdCoinTypeForChain c = Inr s"
    "k = buildHDKeyID st c (ac_id r) 0 j" using assms(1) unfolding owned_key_def by blast
  obtain r' where "r' \<in> set (wallet_accounts db')" "account_key r' = account_key r" "ac_id r' = ac_id r"
    using assms(2) r(1) unfolding keeps_accounts_def by blast
  then show ?thesis using r unfolding owned_key_def by (metis accounts.at_key)
qed

lemma upsertAccountTx_ok:
  assumes "accounts_ok (account_seq db) (wallet_accounts db)"
  shows "accounts_ok (account_seq (upsertAccountTx now t a st rem db)) (wallet_accounts (upsertAccountTx now t a st rem db))"
    "keeps_accounts (wallet_accounts db) (wallet_accounts (upsertAccountTx now t a st rem db))"
    "wallet_addresses (upsertAccountTx now t a st rem db) = wallet_addresses db"
proof -
  show "accounts_ok (account_seq (upsertAccountTx now t a st rem db)) (wallet_accounts (upsertAccountTx now t a st rem db))"
    using accounts_ok_new [OF assms] accounts_ok_update [OF assms, of "\<lambda>r. r" _ "\<lambda>_. False"]
    by (auto simp: upsertAccountTx_def Let_def insert_ignore_cases update_where_def)
  have "keeps_accounts (wallet_accounts db) (insert_ignore p n (wallet_accounts db))" for p n
    by (auto simp: keeps_accounts_def insert_ignore_cases)
  then show "keeps_accounts (wallet_accounts db) (wallet_accounts (upsertAccountTx now t a st rem db))"
    using keeps_accounts_trans keeps_accounts_assign by (simp add: upsertAccountTx_def Let_def) blast
qed (simp add: upsertAccountTx_def Let_def)

lemma UpsertAccount_ok:
  assumes "accounts_ok (account_seq db) (wallet_accounts db)" "UpsertAccount now inp db = Inr (acc, db')"
  shows "accounts_ok (account_seq db') (wallet_accounts db')" "keeps_accounts (wallet_accounts db) (wallet_accounts db')"
    "wallet_addresses db' = wallet_addresses db"
proof -
  obtain st where db': "db' = db\<lparr>wallet_accounts := assign_index (wac_TenantID inp, wac_AccountID inp)
      (insert_or_update (account_at (wac_TenantID inp, wac_AccountID inp))
         (new_account_row now (account_seq db + 1) (wac_TenantID inp) (wac_AccountID inp) (wac_AccountTag inp) st (wac_Remark inp))
         (\<lambda>r. r\<lparr>wac_AccountTag := wac_AccountTag inp, wac_Status := st, wac_Remark := wac_Remark inp, wac_UpdatedAt := now\<rparr>)
         (wallet_accounts db)), account_seq := account_seq db + 1\<rparr>"
    using assms(2) by (auto simp: UpsertAccount_def Let_def split: if_splits)
  let ?f = "\<lambda>r. r\<lparr>wac_AccountTag := wac_AccountTag inp, wac_Status := st, wac_Remark := wac_Remark inp, wac_UpdatedAt := now\<rparr>"
  have f: "account_key (?f r) = account_key r \<and> ac_id (?f r) = ac_id r \<and> ac_hd_account_index (?f r) = ac_hd_account_index r" for r
    by (simp add: account_key_def)
  show "accounts_ok (account_seq db') (wallet_accounts db')"
    unfolding db' using accounts_ok_new [OF assms(1)] accounts_ok_update [OF assms(1), of ?f, OF f]
    by (simp add: insert_or_update_cases)
  have "keeps_accounts (wallet_accounts db) (update_where p ?f (wallet_accounts db))" for p
    by (rule keeps_accounts_update) (use f in blast)
  then have "keeps_accounts (wallet_accounts db) (insert_or_update p n ?f (wallet_accounts db))" for p n
    by (auto simp: insert_or_update_cases keeps_accounts_def)
  then show "keeps_accounts (wallet_accounts db) (wallet_accounts db')"
    unfolding db' using keeps_accounts_trans keeps_accounts_assign by simp blast
qed (use assms(2) in \<open>auto simp: UpsertAccount_def Let_def split: if_splits\<close>)

text \<open>
  What \<open>upsertWalletAddressTx\<close> does to the rows: those with the key are taken to the account,
  or those with the address are refreshed, or a row is added; every other row stays.
\<close>

lemma upsertWalletAddressTx_cases:
  assumes "upsertWalletAddressTx now inp db = Inr db'"
  obtains (by_key) "select_row (has_key_id inp) (wallet_addresses db) \<noteq> None"
      "wallet_addresses db' = update_where (has_key_id inp) (update_by_key now inp) (wallet_addresses db)"
  | (by_address) "select_row (has_key_id inp) (wallet_addresses db) = None"
      "wallet_addresses db' = update_where (has_address inp) (update_by_address now inp) (wallet_addresses db)"
  | (added) "select_row (has_key_id inp) (wallet_addresses db) = None"
      "wallet_addresses db' = wallet_addresses db @ [new_address_row now (address_seq db + 1) inp]"
proof -
  have u: "t = u" if "check_unique u = Inr t" for t u using that by (simp add: check_unique_def split: if_splits)
  show ?thesis
  proof (cases "select_row (has_key_id inp) (wallet_addresses db) = None")
    case False
    then obtain t where "check_unique (update_where (has_key_id inp) (update_by_key now inp) (wallet_addresses db)) = Inr t"
      "db' = db\<lparr>wallet_addresses := t\<rparr>" using assms by (simp add: upsertWalletAddressTx_def Let_def rows_affected_pos) blast
    then show ?thesis using by_key u False by simp
  next
    case k: True
    show ?thesis
    proof (cases "select_row (has_address inp) (wallet_addresses db) = None")
      case False
      then obtain t where "check_unique (update_where (has_address inp) (update_by_address now inp) (wallet_addresses db)) = Inr t"
        "db' = db\<lparr>wallet_addresses := t\<rparr>" using assms k by (simp add: upsertWalletAddressTx_def Let_def rows_affected_pos) blast
      then show ?thesis using by_address u k by simp
    next
      case True
      then obtain t where "check_unique (wallet_addresses db @ [new_address_row now (address_seq db + 1) inp]) = Inr t"
        "db' = db\<lparr>wallet_addresses := t, address_seq := address_seq db + 1\<rparr>"
        using assms k by (simp add: upsertWalletAddressTx_def Let_def rows_affected_pos) blast
      then show ?thesis using added u k by simp
    qed
  qed
qed

lemma upsertWalletAddressTx_rows:
  assumes "upsertWalletAddressTx now inp db = Inr db'" "r' \<in> set (wallet_addresses db')"
  obtains (kept) "r' \<in> set (wallet_addresses db)"
  | (by_key) r where "r \<in> set (wallet_addresses db)" "has_key_id inp r" "r' = update_by_key now inp r"
  | (by_address) r where "r \<in> set (wallet_addresses db)" "has_address inp r" "r' = update_by_address now inp r"
  | (added) "r' = new_address_row now (address_seq db + 1) inp"
  using assms(1)
proof (cases rule: upsertWalletAddressTx_cases)
  case by_key
  then obtain r where "r \<in> set (wallet_addresses db)" "r' = (if has_key_id inp r then update_by_key now inp r else r)"
    using assms(2) in_update_where by metis
  then show ?thesis using that(1,2) by (cases "has_key_id inp r") simp_all
next
  case by_address
  then obtain r where "r \<in> set (wallet_addresses db)" "r' = (if has_address inp r then update_by_address now inp r else r)"
    using assms(2) in_update_where by metis
  then show ?thesis using that(1,3) by (cases "has_address inp r") simp_all
next
  case added then show ?thesis using assms(2) that(1,4) by auto
qed

lemma upsertWalletAddressTx_frame:
  assumes "upsertWalletAddressTx now inp db = Inr db'"
  shows "wallet_accounts db' = wallet_accounts db" "account_seq db' = account_seq db"
  using assms by (auto simp: upsertWalletAddressTx_def Let_def split: if_splits)

lemma watch_input_fields:
  "wi_TenantID (watch_input p (normalize_watch inp)) = wi_TenantID inp"
  "wi_AccountID (watch_input p (normalize_watch inp)) = wi_AccountID inp"
  "wi_KeyID (watch_input p (normalize_watch inp)) = wi_KeyID inp"
  "wi_Chain (watch_input p (normalize_watch inp)) = reg_normalizeChain (wi_Chain inp)"
  "wi_Network (watch_input p (normalize_watch inp)) = normalizeNetwork (wi_Network inp)"
  by (simp_all add: watch_input_def normalize_watch_def Let_def)

lemma UpsertWatchAddress_Inr:
  assumes "UpsertWatchAddress now inp0 db = Inr db'"
  obtains inp db2 where "wi_TenantID inp = wi_TenantID inp0" "wi_AccountID inp = wi_AccountID inp0" "wi_KeyID inp = wi_KeyID inp0"
    "wi_Chain inp = reg_normalizeChain (wi_Chain inp0)" "wi_Network inp = normalizeNetwork (wi_Network inp0)"
    "upsertWalletAddressTx now inp (upsertAccountTx now (wi_TenantID inp0) (wi_AccountID inp0) ''ACTIVE'' [] db) = Inr db2"
    "wallet_accounts db' = wallet_accounts db2" "wallet_addresses db' = wallet_addresses db2" "account_seq db' = account_seq db2"
proof -
  obtain policy db2 where p: "upsertWalletAddressTx now (watch_input policy (normalize_watch inp0))
      (upsertAccountTx now (wi_TenantID inp0) (wi_AccountID inp0) ''ACTIVE'' [] db) = Inr db2"
    "db' = db2\<lparr>scan_watch_addresses := upsert_watch now (watch_input policy (normalize_watch inp0)) (scan_watch_addresses db2)\<rparr>"
    using assms by (auto simp: UpsertWatchAddress_def Let_def watch_input_fields split: if_splits)
  show ?thesis by (rule that [OF _ _ _ _ _ p(1)]) (simp_all add: watch_input_fields p(2))
qed

lemma registry_step_inv:
  assumes "registry_step db db'" "registry_inv db"
  shows "registry_inv db'" "keeps_accounts (wallet_accounts db) (wallet_accounts db')"
proof -
  have ok: "accounts_ok (account_seq db) (wallet_accounts db)" using assms(2) by (simp add: registry_inv_def)
  have own: "owned_key db (wad_TenantID r) (wad_AccountID r) (wad_KeyID r)" if "r \<in> set (wallet_addresses db)" for r
    using assms(2) that by (simp add: registry_inv_def)
  have "registry_inv db' \<and> keeps_accounts (wallet_accounts db) (wallet_accounts db')"
    using assms(1)
  proof cases
    case (account now inp acc)
    note u = UpsertAccount_ok [OF ok account]
    then show ?thesis using owned_key_mono [OF own u(2)] by (simp add: registry_inv_def)
  next
    case (address inp now)
    obtain inp' db2 where i: "wi_TenantID inp' = wi_TenantID inp" "wi_AccountID inp' = wi_AccountID inp" "wi_KeyID inp' = wi_KeyID inp"
      "upsertWalletAddressTx now inp' (upsertAccountTx now (wi_TenantID inp) (wi_AccountID inp) ''ACTIVE'' [] db) = Inr db2"
      "wallet_accounts db' = wallet_accounts db2" "wallet_addresses db' = wallet_addresses db2" "account_seq db' = account_seq db2"
      using UpsertWatchAddress_Inr [OF address(2)] by metis
    let ?db1 = "upsertAccountTx now (wi_TenantID inp) (wi_AccountID inp) ''ACTIVE'' [] db"
    note u = upsertAccountTx_ok [OF ok, of now "wi_TenantID inp" "wi_AccountID inp" "''ACTIVE''" "[]"]
    note fr = upsertWalletAddressTx_frame [OF i(4)]
    have keep: "keeps_accounts (wallet_accounts db) (wallet_accounts db')" using u(2) fr(1) i(5) by simp
    have own': "owned_key db' (wad_TenantID r) (wad_AccountID r) (wad_KeyID r)" if "r \<in> set (wallet_addresses db)" for r
      using owned_key_mono [OF own [OF that] keep] .
    have new: "owned_key db' (wi_TenantID inp) (wi_AccountID inp) (wi_KeyID inp)" using owned_key_mono [OF address(1) keep] .
    have "owned_key db' (wad_TenantID r') (wad_AccountID r') (wad_KeyID r')" if "r' \<in> set (wallet_addresses db')" for r'
      using i(4) that [unfolded i(6)]
    proof (cases rule: upsertWalletAddressTx_rows)
      case kept then show ?thesis using own' u(3) by simp
    next
      case (by_key r) then show ?thesis using new i by (simp add: has_key_id_def update_by_key_def set_address_def)
    next
      case (by_address r) then show ?thesis using new own' [of r] i u(3) by (auto simp: has_address_def update_by_address_def set_address_def)
    next
      case added then show ?thesis using new i by (simp add: new_address_row_def)
    qed
    then show ?thesis using u(1) fr i(5,7) keep by (simp add: registry_inv_def)
  qed
  then show "registry_inv db'" "keeps_accounts (wallet_accounts db) (wallet_accounts db')" by simp_all
qed
lemma registry_steps_inv:
  assumes "registry_step\<^sup>*\<^sup>* db db'" "registry_inv db"
  shows "registry_inv db' \<and> keeps_accounts (wallet_accounts db) (wallet_accounts db')"
  using assms
proof (induction rule: rtranclp_induct)
  case base then show ?case by (auto simp: keeps_accounts_def)
next
  case (step y z)
  then show ?case using registry_step_inv [OF step.hyps(2)] keeps_accounts_trans by blast
qed

lemma empty_registry_inv: "registry_inv (empty_registry metas pols)"
  by (simp add: registry_inv_def empty_registry_def accounts_ok_def)

lemma registry_reachable_inv: "registry_reachable db \<Longrightarrow> registry_inv db"
  using registry_steps_inv empty_registry_inv unfolding registry_reachable_def by blast

lemma owned_key_steps: "registry_step\<^sup>*\<^sup>* db db' \<Longrightarrow> registry_inv db \<Longrightarrow> owned_key db t a k \<Longrightarrow> owned_key db' t a k"
  using registry_steps_inv owned_key_mono by blast

lemma PrepareAddress_cases:
  assumes "PrepareAddress inp db = Inr p"
  obtains (existing) r where "r \<in> set (wallet_addresses db)"
      "keyed_at (pi_TenantID inp) (pi_AccountID inp) (reg_normalizeChain (pi_Chain inp)) (normalizeNetwork (pi_Network inp)) r"
      "p = \<lparr>pa_Address = wallet_address.truncate r, pa_Existing = True\<rparr>"
  | (fresh) a i j path where "select_row (account_at (pi_TenantID inp, pi_AccountID inp)) (wallet_accounts db) = Some a"
      "ac_hd_account_index a = Some i" "0 \<le> i" "pa_Existing p = False"
      "buildHDDerivationPath (reg_normalizeSignType (pi_SignType inp)) (reg_normalizeChain (pi_Chain inp)) i 0 j = Inr path"
      "wad_KeyID (pa_Address p) = buildHDKeyID (reg_normalizeSignType (pi_SignType inp)) (reg_normalizeChain (pi_Chain inp)) i 0 j"
      "wad_DerivationPath (pa_Address p) = path"
proof -
  let ?c = "reg_normalizeChain (pi_Chain inp)" and ?n = "normalizeNetwork (pi_Network inp)"
  let ?q = "\<lambda>r. keyed_at (pi_TenantID inp) (pi_AccountID inp) ?c ?n r \<and> to_upper (wad_Status r) = ''ACTIVE''"
  show ?thesis
  proof (cases "select_first address_order ?q (wallet_addresses db)")
    case (Some r)
    note r = select_first_SomeD [OF Some]
    have "p = \<lparr>pa_Address = wallet_address.truncate r, pa_Existing = True\<rparr>"
      using assms Some by (simp add: PrepareAddress_def Let_def split: if_splits)
    then show ?thesis using r(1,2) existing by simp
  next
    case None
    then show ?thesis using assms
      by (auto simp: PrepareAddress_def Let_def split: if_splits option.splits intro: fresh)
  qed
qed

lemma prepared_key_owned:
  assumes "registry_inv db" "PrepareAddress inp db = Inr p"
  shows "owned_key db (pi_TenantID inp) (pi_AccountID inp) (wad_KeyID (pa_Address p))"
  using assms(2)
proof (cases rule: PrepareAddress_cases)
  case (existing r)
  then show ?thesis using assms(1) by (auto simp: registry_inv_def keyed_at_def wallet_address.defs)
next
  case (fresh a i j path)
  have a: "a \<in> set (wallet_accounts db)" "account_at (pi_TenantID inp, pi_AccountID inp) a"
    using select_row_SomeD [OF fresh(1)] by auto
  then have "i = ac_id a" using fresh(2) assms(1) by (auto simp: registry_inv_def accounts_ok_def)
  moreover obtain t where "hdCoinTypeForChain (reg_normalizeChain (pi_Chain inp)) = Inr t"
    using fresh(5) by (auto simp: buildHDDerivationPath_def)
  ultimately show ?thesis using a fresh(6) unfolding owned_key_def by blast
qed

text \<open>Storing an address under a key of its account touches no row of another account.\<close>

lemma filter_update_where:
  "(\<And>r. r \<in> set t \<Longrightarrow> p r \<Longrightarrow> \<not> q r \<and> \<not> q (f r)) \<Longrightarrow> filter q (update_where p f t) = filter q t"
  by (induction t) auto

lemma UpsertWatchAddress_other_accounts:
  assumes inv: "registry_inv db" and own: "owned_key db (wi_TenantID inp) (wi_AccountID inp) (wi_KeyID inp)"
    and run: "UpsertWatchAddress now inp db = Inr db'"
    and q: "q = (\<lambda>r. (wad_TenantID r, wad_AccountID r) \<noteq> (wi_TenantID inp, wi_AccountID inp))"
  shows "filter q (wallet_addresses db') = filter q (wallet_addresses db)"
proof -
  obtain inp' db2 where i: "wi_TenantID inp' = wi_TenantID inp" "wi_AccountID inp' = wi_AccountID inp" "wi_KeyID inp' = wi_KeyID inp"
    "upsertWalletAddressTx now inp' (upsertAccountTx now (wi_TenantID inp) (wi_AccountID inp) ''ACTIVE'' [] db) = Inr db2"
    "wallet_addresses db' = wallet_addresses db2"
    using UpsertWatchAddress_Inr [OF run] by metis
  have rows: "wallet_addresses (upsertAccountTx now (wi_TenantID inp) (wi_AccountID inp) ''ACTIVE'' [] db) = wallet_addresses db"
    by (simp add: upsertAccountTx_def Let_def)
  show ?thesis
    using i(4)
  proof (cases rule: upsertWalletAddressTx_cases)
    case by_key
    have "wad_AccountID r = wi_AccountID inp" if "r \<in> set (wallet_addresses db)" "has_key_id inp' r" for r
      using that inv own owned_key_account [OF inv, of "wi_TenantID inp" _ "wi_KeyID inp"] i
      by (auto simp: registry_inv_def has_key_id_def)
    then show ?thesis unfolding i(5) by_key(2) rows
      by (intro filter_update_where) (auto simp: q has_key_id_def update_by_key_def set_address_def i)
  next
    case by_address
    show ?thesis unfolding i(5) by_address(2) rows
      by (intro filter_update_where) (auto simp: q has_address_def update_by_address_def set_address_def i)
  next
    case added
    show ?thesis unfolding i(5) added(2) rows by (simp add: q new_address_row_def i)
  qed
qed

end
