(* ===== verification/Registry_Theorems.thy ===== *)
theory Registry_Theorems
  imports Registry_Machine
begin

text \<open>
  Properties of the address registry: its key ids and paths are those of the sign service,
  and an address stays with its account.
\<close>

section \<open>Key ids and paths\<close>

text \<open>
  C37: The registry and the sign service agree on keys. Whenever the registry builds a
  derivation path for indexes below \<open>2^31\<close>, the sign service parses the key id the registry
  builds beside it, and derives that key on a path it prints the same way: the two copies of
  the coin types, of the chain names and of the path format agree on every chain the
  registry accepts.
\<close>

theorem registry_paths_match_signer:
  assumes "buildHDDerivationPath st chain a c i = Inr path"
    and "0 \<le> a" "a < 2 ^ 31" "0 \<le> c" "c < 2 ^ 31" "0 \<le> i" "i < 2 ^ 31"
  shows "\<exists>ref. ParseKeyID (buildHDKeyID st chain a c i) = Inr ref \<and> DerivationPath ref = Inr path"
proof -
  obtain t where t: "hdCoinTypeForChain chain = Inr t" using assms(1) by (auto simp: buildHDDerivationPath_def)
  note k = known_chain [OF t]
  have st: "normalizeSignType st = ''ecdsa'' \<or> normalizeSignType st = ''eddsa''"
    using assms(1) by (auto simp: buildHDDerivationPath_def reg_normalizeSignType_eq split: if_splits)
  let ?ref = "\<lparr>kr_SignType = normalizeSignType st, kr_Chain = normalizeChain (reg_normalizeChain chain),
     kr_Account = word_of_int a, kr_Change = word_of_int c, kr_Index = word_of_int i\<rparr>"
  have "ParseKeyID (buildHDKeyID st chain a c i) = Inr ?ref"
    using assms(2-) st k by (subst buildHDKeyID_key_id_of, simp_all) (subst ParseKeyID_key_id_of, auto)
  moreover have "DerivationPath ?ref = Inr path"
  proof -
    have "nat_to_string 44 = ''44''" by code_simp
    then have "hardened_str 44 = ''44'' @ [CHR 0x27]" by (simp add: hardened_str_def uint_str_def)
    moreover have "uint_str (word_of_int j) = int_to_string j" if "0 \<le> j" "j < 2 ^ 31" for j
      using that by (subst int_to_string_word) simp_all
    ultimately show ?thesis
      using assms t k(3-5) st by (auto simp: DerivationPath_def buildHDDerivationPath_def hardened_str_def reg_normalizeSignType_eq)
  qed
  ultimately show ?thesis by blast
qed

theorem registry_paths_match_signer_witness:
  "\<exists>ref. ParseKeyID (buildHDKeyID ''ed25519'' ''sol'' 7 0 3) = Inr ref \<and>
     DerivationPath ref = Inr (path_str [''44'' @ [CHR 0x27], ''501'' @ [CHR 0x27], ''7'' @ [CHR 0x27], ''0'' @ [CHR 0x27], ''3'' @ [CHR 0x27]])"
proof -
  have "buildHDDerivationPath ''ed25519'' ''sol'' 7 0 3 =
      Inr (path_str [''44'' @ [CHR 0x27], ''501'' @ [CHR 0x27], ''7'' @ [CHR 0x27], ''0'' @ [CHR 0x27], ''3'' @ [CHR 0x27]])" by code_simp
  from registry_paths_match_signer [OF this] show ?thesis by simp
qed


section \<open>Addresses stay with their account\<close>

text \<open>
  C38: Keys are never shared between accounts. In every reachable registry two addresses of a
  tenant with the same key id belong to the same account; and an address that is prepared in
  one state and stored in a later one changes no address of any other account, although the
  update finds rows by tenant and key id only and moves them to the requesting account.
\<close>

theorem address_stays_with_account:
  assumes reach: "registry_reachable db" and prep: "PrepareAddress pinp db = Inr p"
    and later: "registry_step\<^sup>*\<^sup>* db db1" and store: "UpsertWatchAddress now inp db1 = Inr db2"
    and same: "wi_TenantID inp = pi_TenantID pinp" "wi_AccountID inp = pi_AccountID pinp" "wi_KeyID inp = wad_KeyID (pa_Address p)"
  shows "(\<forall>r\<in>set (wallet_addresses db2). \<forall>s\<in>set (wallet_addresses db2).
            wad_TenantID r = wad_TenantID s \<and> wad_KeyID r = wad_KeyID s \<longrightarrow> wad_AccountID r = wad_AccountID s) \<and>
         filter (\<lambda>r. (wad_TenantID r, wad_AccountID r) \<noteq> (wi_TenantID inp, wi_AccountID inp)) (wallet_addresses db2) =
         filter (\<lambda>r. (wad_TenantID r, wad_AccountID r) \<noteq> (wi_TenantID inp, wi_AccountID inp)) (wallet_addresses db1)"
proof -
  have inv: "registry_inv db" using reach by (rule registry_reachable_inv)
  have inv1: "registry_inv db1" using registry_steps_inv [OF later inv] by simp
  have own: "owned_key db1 (wi_TenantID inp) (wi_AccountID inp) (wi_KeyID inp)"
    using owned_key_steps [OF later inv] prepared_key_owned [OF inv prep] same by simp
  have inv2: "registry_inv db2" using registry_step_inv(1) [OF registry_step.address [OF own store] inv1] .
  have "wad_AccountID r = wad_AccountID s"
    if "r \<in> set (wallet_addresses db2)" "s \<in> set (wallet_addresses db2)" "wad_TenantID r = wad_TenantID s" "wad_KeyID r = wad_KeyID s" for r s
    using owned_key_account [OF inv2] inv2 that unfolding registry_inv_def by metis
  then show ?thesis using UpsertWatchAddress_other_accounts [OF inv1 own store refl] by blast
qed

text \<open>A registry with two accounts, the first with an address on a test network.\<close>

definition sample_chains :: registry_db where
  "sample_chains = empty_registry
     [\<lparr>cm_Chain = ''ethereum'', cm_Network = ''*'', cm_Model = ''account'', cm_NativeAsset = ''ETH'', cm_MinConfirmations = 12, cm_Enabled = True\<rparr>] []"

definition sample_account :: "string \<Rightarrow> wallet_account" where
  "sample_account a = \<lparr>wac_TenantID = ''t1'', wac_AccountID = a, wac_AccountTag = [], wac_Status = [], wac_Remark = [],
     wac_CreatedAt = 0, wac_UpdatedAt = 0\<rparr>"

definition sample_prepare :: "string \<Rightarrow> string \<Rightarrow> prepare_address_input" where
  "sample_prepare a network = \<lparr>pi_TenantID = ''t1'', pi_AccountID = a, pi_Model = ''account'', pi_Chain = ''eth'',
     pi_Network = network, pi_SignType = ''ecdsa'', pi_AddressType = []\<rparr>"

definition sample_watch :: "string \<Rightarrow> string \<Rightarrow> string \<Rightarrow> string \<Rightarrow> watch_address_input" where
  "sample_watch a network key address = \<lparr>wi_TenantID = ''t1'', wi_AccountID = a, wi_Model = ''account'', wi_Chain = ''ethereum'',
     wi_Coin = ''ETH'', wi_Network = network, wi_Address = address, wi_KeyID = key, wi_PublicKey = ''02aa'', wi_SignType = ''ecdsa'',
     wi_AddressType = [], wi_DerivationPath = [], wi_ChangeIndex = 0, wi_AddressIndex = 0, wi_MinConfirmations = 0,
     wi_UnlockConfirmations = 0, wi_TreasuryAccountID = [], wi_ColdAccountID = [], wi_AutoSweep = False, wi_SweepThreshold = ''0'',
     wi_HotBalanceCap = ''0''\<rparr>"

definition sample_accounts :: registry_db where
  "sample_accounts =
     (case UpsertAccount 1 (sample_account ''a1'') sample_chains of
        Inl _ \<Rightarrow> sample_chains
      | Inr (_, db) \<Rightarrow> (case UpsertAccount 2 (sample_account ''a2'') db of Inl _ \<Rightarrow> sample_chains | Inr (_, db') \<Rightarrow> db'))"

lemma sample_accounts_step:
  "\<exists>db acc acc'. UpsertAccount 1 (sample_account ''a1'') sample_chains = Inr (acc, db) \<and>
     UpsertAccount 2 (sample_account ''a2'') db = Inr (acc', sample_accounts)"
proof -
  have "is_ok (UpsertAccount 1 (sample_account ''a1'') sample_chains)" by code_simp
  then obtain acc db where a: "UpsertAccount 1 (sample_account ''a1'') sample_chains = Inr (acc, db)" by (auto simp: is_ok_iff)
  have "(case UpsertAccount 1 (sample_account ''a1'') sample_chains of Inl _ \<Rightarrow> False
     | Inr (_, db) \<Rightarrow> is_ok (UpsertAccount 2 (sample_account ''a2'') db))" by code_simp
  then obtain acc' db' where b: "UpsertAccount 2 (sample_account ''a2'') db = Inr (acc', db')" by (auto simp: a is_ok_iff)
  then show ?thesis using a by (auto simp: sample_accounts_def)
qed

lemma sample_accounts_reachable: "registry_reachable sample_accounts"
proof -
  obtain db acc acc' where "UpsertAccount 1 (sample_account ''a1'') sample_chains = Inr (acc, db)"
    "UpsertAccount 2 (sample_account ''a2'') db = Inr (acc', sample_accounts)" using sample_accounts_step by blast
  then have "registry_step\<^sup>*\<^sup>* sample_chains sample_accounts"
    by (meson registry_step.account rtranclp.rtrancl_into_rtrancl rtranclp.rtrancl_refl)
  then show ?thesis unfolding registry_reachable_def sample_chains_def by blast
qed

theorem address_stays_with_account_witness:
  "\<exists>db2. UpsertWatchAddress 3 (sample_watch ''a1'' ''sepolia'' ''hd:ecdsa:ethereum:1:0:0'' ''0xaa'') sample_accounts = Inr db2 \<and>
     length (wallet_addresses db2) = 1 \<and>
     filter (\<lambda>r. (wad_TenantID r, wad_AccountID r) \<noteq> (''t1'', ''a1'')) (wallet_addresses db2) = []"
proof -
  let ?w = "sample_watch ''a1'' ''sepolia'' ''hd:ecdsa:ethereum:1:0:0'' ''0xaa''"
  have "is_ok (PrepareAddress (sample_prepare ''a1'' ''sepolia'') sample_accounts)" by code_simp
  then obtain p where p: "PrepareAddress (sample_prepare ''a1'' ''sepolia'') sample_accounts = Inr p" by (auto simp: is_ok_iff)
  have "(case PrepareAddress (sample_prepare ''a1'' ''sepolia'') sample_accounts of Inl _ \<Rightarrow> False
      | Inr p \<Rightarrow> wad_KeyID (pa_Address p) = ''hd:ecdsa:ethereum:1:0:0'')" by code_simp
  then have key: "wi_KeyID ?w = wad_KeyID (pa_Address p)" by (simp add: p sample_watch_def)
  have l: "(case UpsertWatchAddress 3 ?w sample_accounts of Inl _ \<Rightarrow> False | Inr db \<Rightarrow> length (wallet_addresses db) = 1)" by code_simp
  then obtain db2 where d: "UpsertWatchAddress 3 ?w sample_accounts = Inr db2" by (auto split: sum.splits)
  have "wallet_addresses sample_accounts = []" by code_simp
  then show ?thesis
    using address_stays_with_account [OF sample_accounts_reachable p rtranclp.rtrancl_refl d] key d l
    by (simp add: sample_watch_def sample_prepare_def)
qed

end
