(* ===== verification/Core_Theorems.thy ===== *)
theory Core_Theorems
  imports Core_Http Registry_Theorems
begin

text \<open>
  Properties of the handlers of wallet-core: which withdrawals are queued, what a treasury
  transfer and a sweep send and book, and what happens to the address of an account that is
  used on a second network.
\<close>

section \<open>Shared lemmas\<close>

lemma BroadcastOnly_effect:
  assumes "BroadcastOnly P req w = (r, w')"
  shows "w_db w' = w_db w" "r = Inl e \<Longrightarrow> w_sent w' = w_sent w"
    "r = Inr b \<Longrightarrow> \<exists>bc. w_sent w' = w_sent w @ [(bc, bres_TxHash b)]"
proof -
  have q: "quiet (ensureChainFunds P req)" by (intro quiet_intro)
  obtain w1 where "(\<exists>e. ensureChainFunds P req w = (Inl e, w') \<and> r = Inl e) \<or>
     (ensureChainFunds P req w = (Inr (), w1) \<and> buildSignAndBroadcast P req w1 = (r, w'))"
    using assms by (auto simp: BroadcastOnly_def bindP_eq)
  then have "w_db w' = w_db w \<and> (\<forall>e. r = Inl e \<longrightarrow> w_sent w' = w_sent w) \<and>
      (\<forall>b. r = Inr b \<longrightarrow> (\<exists>bc. w_sent w' = w_sent w @ [(bc, bres_TxHash b)]))"
  proof
    assume "\<exists>e. ensureChainFunds P req w = (Inl e, w') \<and> r = Inl e"
    then show ?thesis using quietD [OF q] by auto
  next
    assume a: "ensureChainFunds P req w = (Inr (), w1) \<and> buildSignAndBroadcast P req w1 = (r, w')"
    then have "w_db w1 = w_db w" "w_sent w1 = w_sent w" using quietD [OF q] by auto
    then show ?thesis using buildSignAndBroadcast_effect [of P req w1 r w'] a by metis
  qed
  then show "w_db w' = w_db w" "r = Inl e \<Longrightarrow> w_sent w' = w_sent w"
    "r = Inr b \<Longrightarrow> \<exists>bc. w_sent w' = w_sent w @ [(bc, bres_TxHash b)]" by auto
qed

lemma ledgerP_cases:
  assumes "ledgerP P op w = (r, w')"
  obtains (failed) e where "r = Inl e" "w' = w" "op (pt_Now P (w_ext w)) (w_db w) = Inl e"
  | (committed) db where "r = Inr ()" "w' = w\<lparr>w_db := db\<rparr>" "op (pt_Now P (w_ext w)) (w_db w) = Inr db"
  using assms by (auto simp: ledgerP_def split: sum.splits)

lemma retry_first: "fn w = (Inr x, w') \<Longrightarrow> retryLedgerMutation n fn w = (Inr x, w')"
  by (cases "nat ((if n \<le> 0 then 1 else n) - 1)") (simp_all add: retryLedgerMutation_def Let_def)

lemma ledgerP_done: "op (pt_Now P (w_ext w)) (w_db w) = Inr db \<Longrightarrow> ledgerP P op w = (Inr (), w\<lparr>w_db := db\<rparr>)"
  by (simp add: ledgerP_def)



text \<open>The checks of a handler fail with a plain text and a code, never with a result.\<close>

definition plain :: "(response + 'a) \<Rightarrow> bool" where
  "plain m \<longleftrightarrow> (\<forall>r. m = Inl r \<longrightarrow> (\<exists>c x. r = (c, Plain x)))"

named_theorems plain_intro "rules for checks that fail with a plain text"

lemma plain_basic [plain_intro]:
  "plain (Inr x)" "plain (Inl (fail_with t c))" "plain (Inl (fail_err e c))" "plain (answer400 m)" "plain (answer500 m)"
  by (auto simp: plain_def fail_with_def fail_err_def answer400_def answer500_def split: sum.splits)

lemma plain_bind [plain_intro]: "plain m \<Longrightarrow> (\<And>x. plain (f x)) \<Longrightarrow> plain (bindE m f)"
  by (auto simp: plain_def bindE_eq_Inl)

lemma plain_if [plain_intro]: "(b \<Longrightarrow> plain m) \<Longrightarrow> (\<not> b \<Longrightarrow> plain m') \<Longrightarrow> plain (if b then m else m')"
  by simp

lemma plain_case [plain_intro]:
  "plain m \<Longrightarrow> (\<And>x. plain (f x)) \<Longrightarrow> plain (case o' of None \<Rightarrow> m | Some x \<Rightarrow> f x)"
  "(\<And>x y. plain (g x y)) \<Longrightarrow> plain (case p of (x, y) \<Rightarrow> g x y)"
  "(\<And>e. plain (h e)) \<Longrightarrow> (\<And>x. plain (k x)) \<Longrightarrow> plain (case m' of Inl e \<Rightarrow> h e | Inr x \<Rightarrow> k x)"
  by (auto split: option.splits prod.splits sum.splits)

lemma plain_account [plain_intro]: "plain (ensureAccountActive reg t a act)" "plain (required_confirmations reg c n)"
  by (auto simp: plain_def ensureAccountActive_def required_confirmations_def fail_with_def fail_err_def
        split: sum.splits go_error.splits if_splits)

lemma plainD: "plain m \<Longrightarrow> m = Inl r \<Longrightarrow> \<exists>c x. r = (c, Plain x)"
  by (simp add: plain_def)


section \<open>Treasury transfers\<close>









text \<open>Two accounts with an address on one network, a vault of 50 and a chain that accepts every broadcast.\<close>

definition core_port :: "nat port" where
  "core_port =
     \<lparr>pt_Now = (\<lambda>x. 10), pt_BuildUnsignedTx = (\<lambda>p x. (Inr \<lparr>br_UnsignedTx = ''utx'', br_SignHashes = [''h'']\<rparr>, x + 1)),
      pt_Broadcast = (\<lambda>bc x. (Inr ''0xabc'', x + 1)), pt_GetBalance = (\<lambda>ch c n a k x. (Inl (Errorf ''down''), x)),
      pt_SignMessage = (\<lambda>t st k m x. (Inr (k @ m), x)), pt_PublicKeyFromBase58 = (\<lambda>s. Inr s),
      pt_FindAssociatedTokenAddress = (\<lambda>a b. Inr (a @ b)), pt_Base58Encode = (\<lambda>s. s)\<rparr>"

definition sample_curve :: "(unit, unit) primitives" where
  "sample_curve = \<lparr>pr_HMAC = (\<lambda>k m. m), pr_N = 1, pr_ToECDSA = (\<lambda>k. Inr ()), pr_FromECDSA = (\<lambda>_. []), pr_PublicKey = (\<lambda>_. ()),
     pr_ScalarBaseMult = (\<lambda>_. ()), pr_Add = (\<lambda>_ _. None), pr_CompressPubkey = (\<lambda>_. []), pr_FromECDSAPub = (\<lambda>_. []),
     pr_DecompressPubkey = (\<lambda>_. Inr ()), pr_UnmarshalPubkey = (\<lambda>_. Inr ()), pr_SignECDSA = (\<lambda>_ _. Inr []), pr_HexToHash = (\<lambda>h. h),
     pr_EdKeyFromSeed = (\<lambda>s. s), pr_EdPublic = (\<lambda>k. k), pr_EdSign = (\<lambda>k m. m)\<rparr>"

text \<open>The sign service answers with a key named after its id, and without public derivation.\<close>

definition sample_handler :: "(nat, unit, unit) handler" where
  "sample_handler =
     \<lparr>h_Orchestrator = core_port,
      h_DeriveKey = (\<lambda>tenant st key x. (Inr \<lparr>pk_KeyID = key, pk_PublicKey = ''pub-'' @ key, pk_AlternatePublicKey = [],
        pk_DerivationPath = [], pk_PublicDerivationSupported = False, pk_AccountPublicKey = [], pk_AccountAlternatePublicKey = [],
        pk_AccountChainCode = [], pk_AccountDerivationPath = [], pk_CustodyScheme = ''local''\<rparr>, x)),
      h_ConvertAddress = (\<lambda>chain network ty pub x. (Inr (''addr-'' @ pub), x)),
      h_Curve = sample_curve\<rparr>"

definition sample_address :: "string \<Rightarrow> string \<Rightarrow> create_address_request" where
  "sample_address a network =
     \<lparr>ca_TenantID = ''t1'', ca_AccountID = a, ca_Chain = ''eth'', ca_Coin = ''ETH'', ca_Network = network, ca_AddressType = [],
      ca_SignType = [], ca_MinConfirmations = 0, ca_TreasuryAccountID = [], ca_ColdAccountID = [], ca_AutoSweep = None,
      ca_SweepThreshold = ''0'', ca_HotBalanceCap = ''0'', ca_Model = []\<rparr>"

definition sample_core0 :: "nat core" where
  "sample_core0 =
     \<lparr>co_world = \<lparr>w_db = empty_db\<lparr>vault_balances := [\<lparr>vb_tenant = ''t1'', vb_account = ''a1'', vb_asset = ''ETH'', vb_available = ''50'',
        vb_updated_at = 0\<rparr>]\<rparr>, w_ext = 0, w_sent = []\<rparr>,
      co_registry = sample_accounts,
      co_security = \<lparr>api_tokens = [], tenant_keys = [], audit_logs = [], tenant_chain_policies = [], idem_requests = []\<rparr>\<rparr>"

definition sample_core :: "nat core" where
  "sample_core =
     snd (CreateAddress sample_handler ''POST'' (Some (sample_address ''a2'' ''mainnet''))
       (snd (CreateAddress sample_handler ''POST'' (Some (sample_address ''a1'' ''mainnet'')) sample_core0)))"




section \<open>Withdrawals\<close>

lemma ensureAccountActive_ok:
  assumes "ensureAccountActive reg t a act = Inr ()"
  obtains acc where "GetAccount t a reg = Inr acc" "to_upper (trim_space (wac_Status acc)) = ''ACTIVE''"
  using assms by (auto simp: ensureAccountActive_def split: sum.splits go_error.splits if_splits)

lemma ListAccountAddresses_in:
  assumes "r \<in> set (wallet_addresses reg)" "wad_TenantID r = t" "wad_AccountID r = a"
  shows "wallet_address.truncate r \<in> set (ListAccountAddresses t a reg)"
  using assms by (simp add: ListAccountAddresses_def)

lemma findAccountAddressByKeyID_ok:
  assumes "findAccountAddressByKeyID reg t a k = Inr addr"
  shows "addr \<in> set (ListAccountAddresses t a reg)" "trim_space (wad_KeyID addr) = trim_space k"
proof -
  consider r where "select_first (\<lambda>r. - ad_id r) (\<lambda>r. wad_TenantID r = t \<and> wad_AccountID r = a \<and> wad_KeyID r = trim_space k)
      (wallet_addresses reg) = Some r" "addr = wallet_address.truncate r"
    | "List.find (\<lambda>it. trim_space (wad_KeyID it) = trim_space k \<and> to_upper (trim_space (wad_Status it)) = ''ACTIVE'')
         (ListAccountAddresses t a reg) = Some addr"
    using assms
    by (auto simp: findAccountAddressByKeyID_def GetAccountAddressByKeyID_def Let_def split: if_splits option.splits sum.splits)
  then have "addr \<in> set (ListAccountAddresses t a reg) \<and> trim_space (wad_KeyID addr) = trim_space k"
  proof cases
    case (1 r)
    note r = select_first_SomeD(1,2) [OF 1(1)]
    then have "wad_KeyID addr = trim_space k" using 1(2) by (simp add: wallet_address.defs)
    then show ?thesis using r 1(2) ListAccountAddresses_in by auto
  next
    case 2 then show ?thesis by (auto simp: find_Some_iff in_set_conv_nth)
  qed
  then show "addr \<in> set (ListAccountAddresses t a reg)" "trim_space (wad_KeyID addr) = trim_space k" by simp_all
qed

lemma mapE_mem: "mapE f xs = Inr ys \<Longrightarrow> y \<in> set ys \<Longrightarrow> \<exists>x\<in>set xs. f x = Inr y"
  by (induction xs arbitrary: ys) auto

lemma resolveWithdrawSigners_ok:
  assumes "resolveWithdrawSigners reg req = Inr signers"
  shows "signers \<noteq> []" "s \<in> set signers \<Longrightarrow> \<exists>addr\<in>set (ListAccountAddresses (cw_TenantID req) (cw_AccountID req) reg).
     trim_space (wad_KeyID addr) = sr_KeyID s \<and> wad_PublicKey addr = sr_PublicKey s"
proof -
  let ?f = "\<lambda>keyID. bindE (findAccountAddressByKeyID reg (cw_TenantID req) (cw_AccountID req) keyID) (\<lambda>addr.
             if trim_space (wad_PublicKey addr) = [] then Inl (Errorf (''public key not found for key_id='' @ keyID))
             else Inr \<lparr>sr_KeyID = keyID, sr_PublicKey = wad_PublicKey addr\<rparr>)"
  have m: "withdraw_key_ids req \<noteq> []" "mapE ?f (withdraw_key_ids req) = Inr signers"
    using assms by (simp_all add: resolveWithdrawSigners_def split: if_splits)
  then show "signers \<noteq> []" using mapE_length by fastforce
  assume "s \<in> set signers"
  from mapE_mem [OF m(2) this] obtain k where k: "k \<in> set (withdraw_key_ids req)" "?f k = Inr s" by blast
  then obtain addr where a: "findAccountAddressByKeyID reg (cw_TenantID req) (cw_AccountID req) k = Inr addr"
    "s = \<lparr>sr_KeyID = k, sr_PublicKey = wad_PublicKey addr\<rparr>" by (auto split: if_splits)
  have "trim_space k = k" using k(1) by (auto simp: withdraw_key_ids_def split: if_splits)
  then show "\<exists>addr\<in>set (ListAccountAddresses (cw_TenantID req) (cw_AccountID req) reg).
     trim_space (wad_KeyID addr) = sr_KeyID s \<and> wad_PublicKey addr = sr_PublicKey s"
    using findAccountAddressByKeyID_ok [OF a(1)] a(2) by auto
qed

lemma create_checks_Inr:
  assumes "create_checks method (Some req) reg db = Inr inp"
  shows "is_ok (ensureAccountActive reg (cw_TenantID req) (cw_AccountID req) ''withdraw'')"
    "GetWithdrawStatus (cw_TenantID req) (cw_OrderID req) db = Inl ErrNoRows"
    "resolveWithdrawSigners reg req = Inr (wq_Signers inp)"
    "wq_TenantID inp = cw_TenantID req" "wq_AccountID inp = cw_AccountID req" "wq_OrderID inp = cw_OrderID req"
    "wq_Tx inp = withdraw_tx req" "1 \<le> wq_RequiredConfs inp"
  using assms
  by (auto simp: create_checks_def required_confirmations_def is_ok_iff split: if_splits sum.splits go_error.splits)

text \<open>
  C40: Which withdrawals are queued. When \<open>Create\<close> changes anything, it answered \<open>QUEUED\<close>: the order was
  unknown to the ledger before, so a repeated request never reaches \<open>QueueWithdraw\<close>; the
  account is active; the transaction queued is the one of the request, for the account and
  order of the request; and it is to be signed only with keys, at least one, of addresses of
  that account.
\<close>

theorem create_queues_new_orders:
  assumes run: "Create h method (Some req) co = (resp, co')" and changed: "co' \<noteq> co"
  shows "resp = ok_with (WithdrawCreated \<lparr>cwr_TxHash = [], cwr_Status = ''QUEUED''\<rparr>) \<and>
     GetWithdrawStatus (cw_TenantID req) (cw_OrderID req) (co_ledger co) = Inl ErrNoRows \<and>
     (\<exists>acc. GetAccount (cw_TenantID req) (cw_AccountID req) (co_registry co) = Inr acc \<and>
        to_upper (trim_space (wac_Status acc)) = ''ACTIVE'') \<and>
     (\<exists>inp. QueueWithdraw (pt_Now (h_Orchestrator h) (w_ext (co_world co))) inp (co_ledger co) = Inr (co_ledger co') \<and>
        wq_TenantID inp = cw_TenantID req \<and> wq_AccountID inp = cw_AccountID req \<and> wq_OrderID inp = cw_OrderID req \<and>
        wq_Tx inp = withdraw_tx req \<and> 1 \<le> wq_RequiredConfs inp \<and> wq_Signers inp \<noteq> [] \<and>
        (\<forall>s\<in>set (wq_Signers inp). \<exists>addr\<in>set (ListAccountAddresses (cw_TenantID req) (cw_AccountID req) (co_registry co)).
           trim_space (wad_KeyID addr) = sr_KeyID s \<and> wad_PublicKey addr = sr_PublicKey s))"
proof -
  obtain inp where c: "create_checks method (Some req) (co_registry co) (co_ledger co) = Inr inp"
    using run changed by (auto simp: Create_def split: sum.splits)
  note f = create_checks_Inr [OF c]
  obtain r w where l: "ledgerP (h_Orchestrator h) (\<lambda>now. QueueWithdraw now inp) (co_world co) = (r, w)" by force
  obtain db where q: "r = Inr ()" "w = (co_world co)\<lparr>w_db := db\<rparr>"
    "QueueWithdraw (pt_Now (h_Orchestrator h) (w_ext (co_world co))) inp (co_ledger co) = Inr db"
    using l
  proof (cases rule: ledgerP_cases)
    case (failed e)
    then show ?thesis using run c changed l by (simp add: Create_def)
  qed (use that in blast)
  have out: "resp = ok_with (WithdrawCreated \<lparr>cwr_TxHash = [], cwr_Status = ''QUEUED''\<rparr>)" "co' = co\<lparr>co_world := w\<rparr>"
    using run c l q(1) by (simp_all add: Create_def)
  obtain acc where "GetAccount (cw_TenantID req) (cw_AccountID req) (co_registry co) = Inr acc"
    "to_upper (trim_space (wac_Status acc)) = ''ACTIVE''"
    using f(1) unfolding is_ok_iff by (auto elim: ensureAccountActive_ok)
  moreover have "co_ledger co' = db" using out(2) q(2) by simp
  ultimately show ?thesis using out(1) f(2,4-8) q(3) resolveWithdrawSigners_ok [OF f(3)] by blast
qed

definition sample_withdraw :: create_withdraw_request where
  "sample_withdraw = \<lparr>cw_TenantID = ''t1'', cw_AccountID = ''a1'', cw_OrderID = ''w1'', cw_KeyID = '' hd:ecdsa:ethereum:1:0:0'',
     cw_KeyIDs = [], cw_SignType = [], cw_Chain = ''ethereum'', cw_Network = ''mainnet'', cw_Coin = ''ETH'', cw_From = ''addr'',
     cw_To = ''dest'', cw_Amount = ''5'', cw_ContractAddress = [], cw_AmountUnit = [], cw_TokenDecimals = 0, cw_Base64Tx = [],
     cw_Fee = [], cw_Vin = [], cw_Vout = []\<rparr>"

text \<open>The sample state with a customer balance of 9.\<close>

definition funded_core :: "nat core" where
  "funded_core = sample_core\<lparr>co_world := (co_world sample_core)\<lparr>w_db := (co_ledger sample_core)\<lparr>ledger_balances :=
     [\<lparr>lb_tenant = ''t1'', lb_account = ''a1'', lb_asset = ''ETH'', lb_available = ''9'', lb_frozen = ''0'', lb_locked = ''0'',
       lb_updated_at = 0\<rparr>]\<rparr>\<rparr>\<rparr>"

theorem create_queues_new_orders_witness:
  "\<exists>s\<in>set (concat (map wj_signers (withdraw_jobs (co_ledger (snd (Create sample_handler ''POST'' (Some sample_withdraw) funded_core)))))).
     sr_PublicKey s = ''pub-hd:ecdsa:ethereum:1:0:0'' \<and>
     GetWithdrawStatus ''t1'' ''w1'' (co_ledger funded_core) = Inl ErrNoRows"
proof -
  let ?co' = "snd (Create sample_handler ''POST'' (Some sample_withdraw) funded_core)"
  have "let co = funded_core in withdraw_jobs (co_ledger co) = [] \<and> map (map sr_PublicKey \<circ> wj_signers)
      (withdraw_jobs (co_ledger (snd (Create sample_handler ''POST'' (Some sample_withdraw) co)))) = [[''pub-hd:ecdsa:ethereum:1:0:0'']]"
    by code_simp
  then have j: "map (map sr_PublicKey \<circ> wj_signers) (withdraw_jobs (co_ledger ?co')) = [[''pub-hd:ecdsa:ethereum:1:0:0'']]"
    and j0: "withdraw_jobs (co_ledger funded_core) = []" by (simp_all add: Let_def)
  have ne: "?co' \<noteq> funded_core" using j j0 by auto
  have t: "cw_TenantID sample_withdraw = ''t1''" "cw_OrderID sample_withdraw = ''w1''" by (simp_all add: sample_withdraw_def)
  have "GetWithdrawStatus ''t1'' ''w1'' (co_ledger funded_core) = Inl ErrNoRows"
    using create_queues_new_orders [OF surjective_pairing ne] unfolding t by blast
  moreover have "''pub-hd:ecdsa:ethereum:1:0:0'' \<in> set (concat (map (map sr_PublicKey \<circ> wj_signers) (withdraw_jobs (co_ledger ?co'))))"
    unfolding j by simp
  ultimately show ?thesis by fastforce
qed


section \<open>Addresses on two networks\<close>

lemma PrepareAddress_first:
  assumes "PrepareAddress inp db = Inr p"
    and none: "\<forall>r\<in>set (wallet_addresses db). wad_TenantID r = pi_TenantID inp \<and> wad_AccountID r = pi_AccountID inp \<longrightarrow>
       to_lower (wad_Network r) \<noteq> to_lower (normalizeNetwork (pi_Network inp))"
    and acct: "select_row (account_at (pi_TenantID inp, pi_AccountID inp)) (wallet_accounts db) = Some a" "ac_hd_account_index a = Some i"
  shows "wad_KeyID (pa_Address p) =
     buildHDKeyID (reg_normalizeSignType (pi_SignType inp)) (reg_normalizeChain (pi_Chain inp)) i 0 0"
proof -
  let ?k = "keyed_at (pi_TenantID inp) (pi_AccountID inp) (reg_normalizeChain (pi_Chain inp)) (normalizeNetwork (pi_Network inp))"
  have k: "\<not> ?k r" if "r \<in> set (wallet_addresses db)" for r using none that by (auto simp: keyed_at_def)
  then have "select_first address_order (\<lambda>r. ?k r \<and> to_upper (wad_Status r) = ''ACTIVE'') (wallet_addresses db) = None"
    by (simp add: select_first_None_iff)
  moreover have "filter ?k (wallet_addresses db) = []" using k by (simp add: filter_empty_conv)
  ultimately show ?thesis
    using assms(1) acct by (auto simp: PrepareAddress_def Let_def next_index_def split: if_splits)
qed

lemma reg_normalizeChain_idem [simp]: "reg_normalizeChain (reg_normalizeChain v) = reg_normalizeChain v"
proof -
  have f: "reg_normalizeChain c = c" if "c \<in> {''ethereum'', ''binance'', ''polygon'', ''arbitrum'', ''tron'', ''solana'', ''bitcoin'',
      ''bitcoincash'', ''litecoin'', ''dogecoin''}" for c
    using that by (elim insertE emptyE; hypsubst) code_simp+
  have l: "to_lower (trim_space (to_lower (trim_space v))) = to_lower (trim_space v)" by (simp add: trim_space_to_lower)
  show ?thesis
  proof (cases "reg_normalizeChain v = to_lower (trim_space v)")
    case True then show ?thesis using l by (simp add: reg_normalizeChain_def)
  next
    case False
    then have "reg_normalizeChain v \<in> {''ethereum'', ''binance'', ''polygon'', ''arbitrum'', ''tron'', ''solana'', ''bitcoin'',
      ''bitcoincash'', ''litecoin'', ''dogecoin''}" by (auto simp: reg_normalizeChain_def Let_def split: if_splits)
    then show ?thesis by (rule f)
  qed
qed

lemma buildHDKeyID_normal: "buildHDKeyID (reg_normalizeSignType st) (reg_normalizeChain c) a x i = buildHDKeyID st c a x i"
  by (simp add: buildHDKeyID_def reg_normalizeSignType_eq)

lemma findAccountAddress_none:
  assumes "\<forall>r\<in>set (wallet_addresses db). wad_TenantID r = t \<and> wad_AccountID r = a \<longrightarrow> to_lower (trim_space (wad_Network r)) \<noteq> to_lower (trim_space n)"
  shows "\<exists>e. findAccountAddress db t a c n coin = Inl e"
proof -
  have "\<forall>it\<in>set (ListAccountAddresses t a db). to_lower (trim_space (wad_Network it)) \<noteq> to_lower (trim_space n)"
    using assms by (auto simp: ListAccountAddresses_def wallet_address.defs)
  then have "List.find (\<lambda>it. to_upper (trim_space (wad_Status it)) = ''ACTIVE'' \<and>
       to_lower (trim_space (wad_Chain it)) = to_lower (trim_space c) \<and> to_lower (trim_space (wad_Network it)) = to_lower (trim_space n) \<and>
       trim_space (wad_Address it) \<noteq> [] \<and> trim_space (wad_PublicKey it) \<noteq> []) (ListAccountAddresses t a db) = None"
    by (auto simp: find_None_iff)
  then show ?thesis by (simp add: findAccountAddress_def Let_def)
qed

lemma address_checks_Inr:
  assumes "address_checks method (Some req) reg = Inr p"
  shows "ca_TenantID (ap_Request p) = ca_TenantID req" "ca_AccountID (ap_Request p) = ca_AccountID req"
    "ca_Network (ap_Request p) = to_lower (trim_space (ca_Network req))"
    "PrepareAddress \<lparr>pi_TenantID = ca_TenantID req, pi_AccountID = ca_AccountID req, pi_Model = ca_Model (ap_Request p),
       pi_Chain = ca_Chain (ap_Request p), pi_Network = ca_Network (ap_Request p), pi_SignType = ca_SignType (ap_Request p),
       pi_AddressType = ca_AddressType (ap_Request p)\<rparr> reg = Inr (ap_Prepared p)"
  using assms
  by (auto simp: address_checks_def Let_def answer500_def answer400_def split: if_splits sum.splits)

lemma address_checks_Inl: "address_checks method body reg = Inl r \<Longrightarrow> \<exists>c x. r = (c, Plain x)"
proof -
  have "plain (address_checks method body reg)" unfolding address_checks_def Let_def by (intro plain_intro)
  then show "address_checks method body reg = Inl r \<Longrightarrow> \<exists>c x. r = (c, Plain x)" by (rule plainD)
qed

lemma address_material_Inl: "address_material h p x = (Inl r, x') \<Longrightarrow> \<exists>c t. r = (c, Plain t)"
  by (auto simp: address_material_def Let_def fail_with_def fail_err_def split: if_splits prod.splits sum.splits)

lemma CreateAddress_created:
  assumes run: "CreateAddress h method (Some req) co = (ok_with (AddressCreated out), co')"
  obtains p pubKey address now where "address_checks method (Some req) (co_registry co) = Inr p"
    "UpsertWatchAddress now (watch_of p pubKey address) (co_registry co) = Inr (co_registry co')"
    "car_KeyID out = wad_KeyID (pa_Address (ap_Prepared p))" "car_Chain out = ca_Chain (ap_Request p)"
    "car_Network out = ca_Network (ap_Request p)" "car_SignType out = ca_SignType (ap_Request p)"
    "car_PublicKey out = pubKey" "car_Address out = address"
proof -
  obtain p where p: "address_checks method (Some req) (co_registry co) = Inr p"
    using run address_checks_Inl by (cases "address_checks method (Some req) (co_registry co)") (fastforce simp: CreateAddress_def ok_with_def)+
  obtain m x where m: "address_material h p (w_ext (co_world co)) = (m, x)" by force
  obtain pubKey address cs where [simp]: "m = Inr (pubKey, address, cs)"
    using run p m address_material_Inl [of h p "w_ext (co_world co)" _ x]
    by (cases m) (fastforce simp: CreateAddress_def ok_with_def)+
  show ?thesis
    by (rule that [OF p, of "pt_Now (h_Orchestrator h) x" pubKey address])
       (use run p m in \<open>auto simp: CreateAddress_def Let_def ok_with_def fail_err_def fail_with_def split: sum.splits\<close>)
qed

lemma watch_of_fields:
  "wi_TenantID (watch_of p k a) = ca_TenantID (ap_Request p)" "wi_AccountID (watch_of p k a) = ca_AccountID (ap_Request p)"
  "wi_KeyID (watch_of p k a) = wad_KeyID (pa_Address (ap_Prepared p))" "wi_Network (watch_of p k a) = ca_Network (ap_Request p)"
  by (simp_all add: watch_of_def Let_def)

lemma upsert_by_key:
  assumes up: "UpsertWatchAddress now inp db = Inr db'"
    and r: "r \<in> set (wallet_addresses db)" "wad_TenantID r = wi_TenantID inp" "wad_KeyID r = wi_KeyID inp"
    and keys: "\<forall>r\<in>set (wallet_addresses db). wad_TenantID r = wi_TenantID inp \<and> wad_AccountID r = wi_AccountID inp \<longrightarrow>
       wad_KeyID r = wi_KeyID inp"
  shows "length (wallet_addresses db') = length (wallet_addresses db)"
    "\<forall>r\<in>set (wallet_addresses db'). wad_TenantID r = wi_TenantID inp \<and> wad_AccountID r = wi_AccountID inp \<longrightarrow>
       wad_Network r = normalizeNetwork (wi_Network inp)"
proof -
  obtain inp' db2 where i: "wi_TenantID inp' = wi_TenantID inp" "wi_AccountID inp' = wi_AccountID inp" "wi_KeyID inp' = wi_KeyID inp"
      "wi_Network inp' = normalizeNetwork (wi_Network inp)"
    and u: "upsertWalletAddressTx now inp' (upsertAccountTx now (wi_TenantID inp) (wi_AccountID inp) ''ACTIVE'' [] db) = Inr db2"
    and w: "wallet_addresses db' = wallet_addresses db2"
    using UpsertWatchAddress_Inr [OF up] by metis
  have same: "wallet_addresses (upsertAccountTx now (wi_TenantID inp) (wi_AccountID inp) ''ACTIVE'' [] db) = wallet_addresses db"
    by (simp add: upsertAccountTx_def Let_def)
  have ne: "select_row (has_key_id inp') (wallet_addresses db) \<noteq> None"
    using r i by (auto simp: select_row_None_iff has_key_id_def)
  have rows: "wallet_addresses db' = update_where (has_key_id inp') (update_by_key now inp') (wallet_addresses db)"
    by (rule upsertWalletAddressTx_cases [OF u]) (use ne in \<open>simp_all add: same w\<close>)
  then show "length (wallet_addresses db') = length (wallet_addresses db)" by simp
  show "\<forall>r\<in>set (wallet_addresses db'). wad_TenantID r = wi_TenantID inp \<and> wad_AccountID r = wi_AccountID inp \<longrightarrow>
       wad_Network r = normalizeNetwork (wi_Network inp)"
    using keys i by (auto simp: rows in_update_where has_key_id_def update_by_key_def set_address_def)
qed

text \<open>
  A key id names the sign type, the chain and the account, but not the network. An account that has its first address
  on one network of a chain and then asks for an address on another network gets the same key id, and the registry updates the
  row of that key instead of adding one: the number of address rows stays the same, and the account has no address on any
  network but the last one, so that withdrawals, sweeps and transfers there end with ``active address not found''.
\<close>

theorem second_network_takes_address:
  fixes h :: "('x, 'k, 'p) handler"
  defines "rows \<equiv> \<lambda>co :: 'x core. wallet_addresses (co_registry co)"
  assumes run: "CreateAddress h ''POST'' (Some req) co = (ok_with (AddressCreated out), co')"
    and acct: "select_row (account_at (ca_TenantID req, ca_AccountID req)) (wallet_accounts (co_registry co)) = Some a"
      "ac_hd_account_index a = Some i"
    and first: "r \<in> set (rows co)" "wad_TenantID r = ca_TenantID req" "wad_AccountID r = ca_AccountID req"
    and keys: "\<forall>r\<in>set (rows co). wad_TenantID r = ca_TenantID req \<and> wad_AccountID r = ca_AccountID req \<longrightarrow>
       wad_KeyID r = buildHDKeyID (car_SignType out) (car_Chain out) i 0 0 \<and> to_lower (wad_Network r) \<noteq> car_Network out"
  shows "car_KeyID out = wad_KeyID r \<and> length (rows co') = length (rows co) \<and>
    (\<forall>c n coin. to_lower (trim_space n) \<noteq> car_Network out \<longrightarrow>
       (\<exists>e. findAccountAddress (co_registry co') (ca_TenantID req) (ca_AccountID req) c n coin = Inl e))"
proof -
  obtain p pubKey address now where p: "address_checks ''POST'' (Some req) (co_registry co) = Inr p"
    and up: "UpsertWatchAddress now (watch_of p pubKey address) (co_registry co) = Inr (co_registry co')"
    and out: "car_KeyID out = wad_KeyID (pa_Address (ap_Prepared p))" "car_Chain out = ca_Chain (ap_Request p)"
      "car_Network out = ca_Network (ap_Request p)" "car_SignType out = ca_SignType (ap_Request p)"
    by (rule CreateAddress_created [OF run]) blast
  note req = address_checks_Inr [OF p]
  have norm: "normalizeNetwork (car_Network out) = car_Network out" "to_lower (car_Network out) = car_Network out"
    by (simp_all add: out(3) req(3) normalizeNetwork_def trim_space_to_lower)
  have key: "car_KeyID out = buildHDKeyID (car_SignType out) (car_Chain out) i 0 0"
    using PrepareAddress_first [OF req(4), simplified, OF _ acct] keys norm
    by (simp add: out rows_def buildHDKeyID_normal)
  note w = watch_of_fields [of p pubKey address]
  have in_db: "r \<in> set (wallet_addresses (co_registry co))" using first(1) by (simp add: rows_def)
  have k: "\<forall>r\<in>set (wallet_addresses (co_registry co)). wad_TenantID r = wi_TenantID (watch_of p pubKey address) \<and>
      wad_AccountID r = wi_AccountID (watch_of p pubKey address) \<longrightarrow> wad_KeyID r = wi_KeyID (watch_of p pubKey address)"
    using keys key by (simp add: w req(1,2) rows_def out(1))
  have rk: "wad_KeyID r = car_KeyID out" using keys first key by simp
  note u = upsert_by_key [OF up in_db _ _ k]
  have len: "length (rows co') = length (rows co)" using u(1) first(2) rk by (simp add: rows_def w req out)
  have none: "\<exists>e. findAccountAddress (co_registry co') (ca_TenantID req) (ca_AccountID req) c n coin = Inl e"
    if "to_lower (trim_space n) \<noteq> car_Network out" for c n coin
    by (rule findAccountAddress_none)
       (use u(2) first(2) rk norm that in \<open>auto simp: w req(1,2) out(1) out(3) [symmetric] normalizeNetwork_def\<close>)
  show ?thesis using rk len none by auto
qed

section \<open>Sweeps\<close>

lemma StartSweep_row:
  assumes u: "sweeps.uniq (sweep_orders db)"
    and row: "select_row (so_at (sc_TenantID inp, sc_SweepOrderID inp)) (sweep_orders db) = Some row"
  obtains db' row' where "StartSweep now inp db = Inr db'"
    "select_row (so_at (sc_TenantID inp, sc_SweepOrderID inp)) (sweep_orders db') = Some row'"
    "so_status row' = ''BROADCASTED''" "so_tx_hash row' = sc_TxHash inp" "so_amount row' = so_amount row"
proof -
  let ?k = "(sc_TenantID inp, sc_SweepOrderID inp)"
  let ?live = "\<lambda>r. so_status r \<in> {''RESERVED'', ''BROADCASTED''}"
  define F :: "sweep_row \<Rightarrow> sweep_row" where "F = (\<lambda>r. r\<lparr>so_tx_hash := sc_TxHash inp, so_chain := sc_Chain inp,
     so_network := sc_Network inp, so_required := (if sc_RequiredConfs inp \<le> 0 then 1 else sc_RequiredConfs inp),
     so_status := ''BROADCASTED'', so_updated_at := now\<rparr>)"
  define G where "G = (\<lambda>r. if ?live r then F r else r)"
  have at: "so_at k (F r) = so_at k r" "so_at k (G r) = so_at k r" for k r by (simp_all add: F_def G_def so_at_def)
  show ?thesis
  proof (cases "select_row (\<lambda>r. so_at ?k r \<and> ?live r) (sweep_orders db) = None")
    case True
    then have "StartSweep now inp db = Inr (db\<lparr>sweep_orders := update_where (so_at ?k) F (sweep_orders db)\<rparr>)"
      using row by (simp add: StartSweep_def Let_def insert_or_update_cases update_where_none F_def)
    then show ?thesis by (rule that [of _ "F row"]) (simp_all add: select_update_same at row, simp_all add: F_def)
  next
    case False
    then obtain r where r: "r \<in> set (sweep_orders db)" "so_at ?k r" "?live r" by (auto simp: select_row_None_iff)
    then have "r = row" using sweeps.select_unique [OF u r(1)] row by (simp add: sweeps.at_key)
    have "StartSweep now inp db = Inr (db\<lparr>sweep_orders := update_where (so_at ?k) G (sweep_orders db)\<rparr>)"
      using False unfolding StartSweep_def Let_def F_def [symmetric] rows_affected_0 G_def update_where_conj [symmetric]
      by (simp only: if_False)
    then show ?thesis
      by (rule that [of _ "G row"]) (use r(3) \<open>r = row\<close> in \<open>simp_all add: select_update_same at row, simp_all add: F_def G_def\<close>)
  qed
qed

lemma sweep_effects_again:
  assumes u: "sweeps.uniq (sweep_orders (w_db w))"
    and row: "select_row (so_at (sq_TenantID (sp_Request p), sq_SweepOrderID (sp_Request p))) (sweep_orders (w_db w)) = Some row"
    and run: "sweep_effects P p w = (ok_with out, w')"
  obtains res bc row' where "out = SweepStarted res" "w_sent w' = w_sent w @ [(bc, srr_TxHash res)]"
    "select_row (so_at (sq_TenantID (sp_Request p), sq_SweepOrderID (sp_Request p))) (sweep_orders (w_db w')) = Some row'"
    "so_status row' = ''BROADCASTED''" "so_tx_hash row' = srr_TxHash res" "so_amount row' = so_amount row"
proof -
  let ?r = "sp_Request p"
  have res: "ReserveSweep now inp db = Inr db \<or> (\<exists>e. ReserveSweep now inp db = Inl e)"
    if "select_row (so_at (si_TenantID inp, si_SweepOrderID inp)) (sweep_orders db) = Some row" for now inp db
    using that by (simp add: ReserveSweep_def Let_def)
  let ?b = "BroadcastOnly P (transfer_request (sq_TenantID ?r) (sq_FromAccountID ?r) (sq_SweepOrderID ?r) (sp_RequiredConfs p)
                  (sp_From p) (sp_To p) (sq_Chain ?r) (sq_Network ?r) (sq_Asset ?r) (sq_Amount ?r)) w"
  obtain br w2 where b: "?b = (br, w2)" by force
  have w_same: "w\<lparr>w_db := w_db w\<rparr> = w" by simp
  note be = BroadcastOnly_effect [OF b]
  define sc where "sc h = \<lparr>sc_TenantID = sq_TenantID ?r, sc_FromAccountID = sq_FromAccountID ?r,
    sc_TreasuryAccountID = sp_Destination p, sc_SweepOrderID = sq_SweepOrderID ?r, sc_Chain = sq_Chain ?r,
    sc_Network = sq_Network ?r, sc_Asset = sq_Asset ?r, sc_Amount = sq_Amount ?r,
    sc_TxHash = h, sc_RequiredConfs = sp_RequiredConfs p\<rparr>" for h
  have sc: "sc_TenantID (sc h) = sq_TenantID ?r" "sc_SweepOrderID (sc h) = sq_SweepOrderID ?r" "sc_TxHash (sc h) = h" for h
    by (simp_all add: sc_def)
  have l: "ledgerP P (\<lambda>now. ReserveSweep now
             \<lparr>si_TenantID = sq_TenantID ?r, si_FromAccountID = sq_FromAccountID ?r, si_TreasuryAccountID = sp_Destination p,
              si_SweepOrderID = sq_SweepOrderID ?r, si_Chain = sq_Chain ?r, si_Network = sq_Network ?r, si_Asset = sq_Asset ?r,
              si_Amount = sq_Amount ?r, si_RequiredConfs = sp_RequiredConfs p\<rparr>) w = (Inr (), w)"
    using run res [of "\<lparr>si_TenantID = sq_TenantID ?r, si_FromAccountID = sq_FromAccountID ?r, si_TreasuryAccountID = sp_Destination p,
              si_SweepOrderID = sq_SweepOrderID ?r, si_Chain = sq_Chain ?r, si_Network = sq_Network ?r, si_Asset = sq_Asset ?r,
              si_Amount = sq_Amount ?r, si_RequiredConfs = sp_RequiredConfs p\<rparr>" "w_db w" "pt_Now P (w_ext w)"] row
    by (auto simp: sweep_effects_def Let_def ledgerP_def ok_with_def fail_err_def fail_with_def)
  obtain bres where [simp]: "br = Inr bres"
    using run l b by (cases br) (simp_all add: sweep_effects_def Let_def ok_with_def fail_err_def fail_with_def)
  obtain db' row' where s: "StartSweep (pt_Now P (w_ext w2)) (sc (bres_TxHash bres)) (w_db w2) = Inr db'"
    "select_row (so_at (sq_TenantID ?r, sq_SweepOrderID ?r)) (sweep_orders db') = Some row'"
    "so_status row' = ''BROADCASTED''" "so_tx_hash row' = bres_TxHash bres" "so_amount row' = so_amount row"
    using StartSweep_row [of "w_db w2" "sc (bres_TxHash bres)", unfolded sc] u row be(1) by metis
  have "retryLedgerMutation 3 (ledgerP P (\<lambda>now. StartSweep now (sc (bres_TxHash bres)))) w2 = (Inr (), w2\<lparr>w_db := db'\<rparr>)"
    by (intro retry_first ledgerP_done s(1))
  then have o: "out = SweepStarted \<lparr>srr_Status = ''BROADCASTED'', srr_TxHash = bres_TxHash bres,
                       srr_DestinationAccountID = sp_Destination p, srr_DestinationTier = sp_Tier p\<rparr>" "w' = w2\<lparr>w_db := db'\<rparr>"
    using run l b by (simp_all add: sweep_effects_def Let_def ok_with_def flip: sc_def)
  obtain bc where "w_sent w2 = w_sent w @ [(bc, bres_TxHash bres)]" using be(3) by auto
  then show ?thesis by (intro that [OF o(1), of bc row']) (use s o(2) in simp_all)
qed

lemma sweep_checks_Inr:
  assumes "sweep_checks requestID method (Some req) reg db = Inr p"
  shows "sq_TenantID (sp_Request p) = sq_TenantID req"
    "sq_SweepOrderID req \<noteq> [] \<Longrightarrow> sq_SweepOrderID (sp_Request p) = sq_SweepOrderID req"
  using assms by (auto simp: sweep_checks_def Let_def answer400_def split: if_splits sum.splits prod.splits)

lemma sweep_checks_Inl: "sweep_checks requestID method body reg db = Inl r \<Longrightarrow> \<exists>c x. r = (c, Plain x)"
proof -
  have "plain (sweep_checks requestID method body reg db)" unfolding sweep_checks_def Let_def by (intro plain_intro)
  then show "sweep_checks requestID method body reg db = Inl r \<Longrightarrow> \<exists>c x. r = (c, Plain x)" by (rule plainD)
qed

text \<open>
  Running a sweep whose order id is known broadcasts again: the reservation accepts an order that is reserved, broadcast or
  settled, so that the handler signs and sends a further transaction for the amount of this request and moves the order back to
  broadcast under the new transaction hash, with the amount of the first run.
\<close>

theorem sweep_rerun_broadcasts_again:
  assumes uniq: "sweeps.uniq (sweep_orders (co_ledger co))"
    and known: "sq_SweepOrderID req \<noteq> []"
      "select_row (so_at (sq_TenantID req, sq_SweepOrderID req)) (sweep_orders (co_ledger co)) = Some row"
    and run: "SweepRun h requestID method (Some req) co = (ok_with (SweepStarted res), co')"
  shows "\<exists>bc row'. w_sent (co_world co') = w_sent (co_world co) @ [(bc, srr_TxHash res)] \<and>
     select_row (so_at (sq_TenantID req, sq_SweepOrderID req)) (sweep_orders (co_ledger co')) = Some row' \<and>
     so_status row' = ''BROADCASTED'' \<and> so_tx_hash row' = srr_TxHash res \<and> so_amount row' = so_amount row"
proof -
  obtain p where p: "sweep_checks requestID method (Some req) (co_registry co) (co_ledger co) = Inr p"
    using run sweep_checks_Inl
    by (cases "sweep_checks requestID method (Some req) (co_registry co) (co_ledger co)") (fastforce simp: SweepRun_def ok_with_def)+
  note c = sweep_checks_Inr [OF p]
  obtain w' where e: "sweep_effects (h_Orchestrator h) p (co_world co) = (ok_with (SweepStarted res), w')" "co' = co\<lparr>co_world := w'\<rparr>"
    using run p by (auto simp: SweepRun_def split: prod.splits)
  show ?thesis
    using sweep_effects_again [OF _ _ e(1), of row] uniq known c e(2) by auto
qed

end
