(* ===== verification/Scan_Store.thy ===== *)
theory Scan_Store
  imports Registry Ledger_State
begin

text \<open>
  The tables of the scanner of account chains
  (\<open>src/services/scan-account-service/internal/store/postgres.go\<close>) and its statements: watched
  addresses, checkpoints of the scans, events seen on the chains, the outbox of events to be
  delivered to wallet-core, block hashes and transactions that were not found. The scanner
  reads the address table of the registry and the order tables of the ledger, which are in the
  same database. Times are in milliseconds. Rows are in the order of their ids.
\<close>


section \<open>Rows\<close>

record watch_address =
  sa_TenantID :: string
  sa_AccountID :: string
  sa_Model :: string
  sa_Chain :: string
  sa_Coin :: string
  sa_Network :: string
  sa_Address :: string
  sa_ContractAddress :: string
  sa_MinConfirmations :: int
  sa_UnlockConfirmations :: int
  sa_TreasuryAccountID :: string
  sa_ColdAccountID :: string
  sa_AutoSweep :: bool
  sa_SweepThreshold :: string
  sa_HotBalanceCap :: string

text \<open>The scanner adds a column to the table the registry writes.\<close>

record scan_watch_row = watch_row +
  sw_contract_address :: string

record checkpoint_row =
  ck_tenant :: string
  ck_account :: string
  ck_model :: string
  ck_chain :: string
  ck_coin :: string
  ck_network :: string
  ck_address :: string
  ck_cursor :: string
  ck_last_tx_hash :: string
  ck_updated_at :: int

record chain_checkpoint_row =
  cc_model :: string
  cc_chain :: string
  cc_coin :: string
  cc_network :: string
  cc_cursor :: string
  cc_last_tx_hash :: string
  cc_updated_at :: int

record seen_row =
  se_tenant :: string
  se_account :: string
  se_model :: string
  se_chain :: string
  se_coin :: string
  se_network :: string
  se_address :: string
  se_tx_hash :: string
  se_event_index :: int
  se_status :: string
  se_confirmations :: int
  se_amount :: string
  se_from :: string
  se_to :: string
  se_not_found :: int
  se_created_at :: int
  se_updated_at :: int

text \<open>
  The payloads of the outbox (\<open>scanner_outbox.go\<close>). The column holds the JSON text of one of the
  two structs; the model holds the struct. Reading the text of one struct into the other sets
  the fields with the same JSON names and leaves the rest empty.
\<close>

record deposit_payload =
  dp_TenantID :: string
  dp_AccountID :: string
  dp_OrderID :: string
  dp_EventIndex :: int
  dp_Chain :: string
  dp_Network :: string
  dp_Coin :: string
  dp_Amount :: string
  dp_TxHash :: string
  dp_FromAddress :: string
  dp_ToAddress :: string
  dp_WatchAddress :: string
  dp_TreasuryID :: string
  dp_ColdAccountID :: string
  dp_AutoSweep :: bool
  dp_SweepThreshold :: string
  dp_HotBalanceCap :: string
  dp_Confirmations :: int
  dp_RequiredConfs :: int
  dp_UnlockConfs :: int
  dp_ScanStatus :: string
  dp_Status :: string
  dp_ProjectNotify :: bool
  dp_SweepTrigger :: bool

record sweep_payload =
  swp_TenantID :: string
  swp_SweepOrderID :: string
  swp_FromAccountID :: string
  swp_TreasuryAccountID :: string
  swp_ColdAccountID :: string
  swp_HotBalanceCap :: string
  swp_Chain :: string
  swp_Network :: string
  swp_Asset :: string
  swp_Amount :: string

datatype payload = DepositPayload deposit_payload | SweepPayload sweep_payload

definition read_deposit :: "payload \<Rightarrow> deposit_payload" where
  "read_deposit p =
     (case p of
        DepositPayload d \<Rightarrow> d
      | SweepPayload s \<Rightarrow>
          \<lparr>dp_TenantID = swp_TenantID s, dp_AccountID = [], dp_OrderID = [], dp_EventIndex = 0, dp_Chain = swp_Chain s,
           dp_Network = swp_Network s, dp_Coin = [], dp_Amount = swp_Amount s, dp_TxHash = [], dp_FromAddress = [], dp_ToAddress = [],
           dp_WatchAddress = [], dp_TreasuryID = swp_TreasuryAccountID s, dp_ColdAccountID = swp_ColdAccountID s, dp_AutoSweep = False,
           dp_SweepThreshold = [], dp_HotBalanceCap = swp_HotBalanceCap s, dp_Confirmations = 0, dp_RequiredConfs = 0,
           dp_UnlockConfs = 0, dp_ScanStatus = [], dp_Status = [], dp_ProjectNotify = False, dp_SweepTrigger = False\<rparr>)"

definition read_sweep :: "payload \<Rightarrow> sweep_payload" where
  "read_sweep p =
     (case p of
        SweepPayload s \<Rightarrow> s
      | DepositPayload d \<Rightarrow>
          \<lparr>swp_TenantID = dp_TenantID d, swp_SweepOrderID = [], swp_FromAccountID = [], swp_TreasuryAccountID = dp_TreasuryID d,
           swp_ColdAccountID = dp_ColdAccountID d, swp_HotBalanceCap = dp_HotBalanceCap d, swp_Chain = dp_Chain d,
           swp_Network = dp_Network d, swp_Asset = [], swp_Amount = dp_Amount d\<rparr>)"

record outbox_row =
  ob_id :: int
  ob_key :: string
  ob_tenant :: string
  ob_chain :: string
  ob_network :: string
  ob_type :: string
  ob_payload :: payload
  ob_status :: string
  ob_attempt :: int
  ob_max_attempts :: int
  ob_next_retry_at :: int
  ob_last_error :: string
  ob_created_at :: int
  ob_updated_at :: int

record block_hash =
  bh_BlockNumber :: int
  bh_BlockHash :: string
  bh_ParentHash :: string

record block_row = block_hash +
  bh_chain :: string
  bh_network :: string

record outgoing_row =
  og_kind :: string
  og_tenant :: string
  og_order :: string
  og_chain :: string
  og_network :: string
  og_tx_hash :: string
  og_not_found :: int
  og_first_not_found_at :: int
  og_last_not_found_at :: int

record scan_db =
  scan_watches :: "scan_watch_row table"
  scan_checkpoints :: "checkpoint_row table"
  scan_chain_checkpoints :: "chain_checkpoint_row table"
  scan_seen_events :: "seen_row table"
  scan_event_outbox :: "outbox_row table"
  outbox_seq :: int
  scan_block_hashes :: "block_row table"
  scan_outgoing_watch :: "outgoing_row table"

definition empty_scan_db :: scan_db where
  "empty_scan_db = \<lparr>scan_watches = [], scan_checkpoints = [], scan_chain_checkpoints = [], scan_seen_events = [],
     scan_event_outbox = [], outbox_seq = 0, scan_block_hashes = [], scan_outgoing_watch = []\<rparr>"


section \<open>Watched addresses\<close>

definition watch_of_row :: "scan_watch_row \<Rightarrow> watch_address" where
  "watch_of_row r =
     \<lparr>sa_TenantID = sw_tenant r, sa_AccountID = sw_account r, sa_Model = sw_model r, sa_Chain = sw_chain r, sa_Coin = sw_coin r,
      sa_Network = sw_network r, sa_Address = sw_address r, sa_ContractAddress = sw_contract_address r,
      sa_MinConfirmations = sw_min_confirmations r, sa_UnlockConfirmations = sw_unlock_confirmations r,
      sa_TreasuryAccountID = sw_treasury r, sa_ColdAccountID = sw_cold r, sa_AutoSweep = sw_auto_sweep r,
      sa_SweepThreshold = sw_sweep_threshold r, sa_HotBalanceCap = sw_hot_balance_cap r\<rparr>"

text \<open>\<open>AND LOWER(chain) = ANY(allowedChains)\<close>, which is left out of the query when no chain is named.\<close>

definition chain_allowed :: "string list \<Rightarrow> string \<Rightarrow> bool" where
  "chain_allowed allowedChains chain \<longleftrightarrow> allowedChains = [] \<or> to_lower chain \<in> set allowedChains"

definition registered :: "address_row table \<Rightarrow> scan_watch_row \<Rightarrow> bool" where
  "registered addresses r \<longleftrightarrow>
     (\<exists>a\<in>set addresses. wad_TenantID a = sw_tenant r \<and> wad_AccountID a = sw_account r \<and>
        to_lower (wad_Chain a) = to_lower (sw_chain r) \<and> to_lower (wad_Network a) = to_lower (sw_network r) \<and>
        to_lower (wad_Address a) = to_lower (sw_address r) \<and> to_upper (wad_Status a) = ''ACTIVE'')"

definition ListWatchAddresses ::
  "string \<Rightarrow> int \<Rightarrow> string list \<Rightarrow> address_row table \<Rightarrow> scan_db \<Rightarrow> watch_address list" where
  "ListWatchAddresses model limit allowedChains addresses db =
     map watch_of_row (take (nat limit) (filter (\<lambda>r. sw_active r \<and> sw_model r = to_lower (trim_space model) \<and>
       (sw_model r \<noteq> ''account'' \<or> registered addresses r) \<and> chain_allowed allowedChains (sw_chain r)) (scan_watches db)))"

definition ListManagedAddresses :: "string \<Rightarrow> string \<Rightarrow> string \<Rightarrow> scan_db \<Rightarrow> string list" where
  "ListManagedAddresses model chain network db =
     filter (\<lambda>a. a \<noteq> []) (map (\<lambda>r. to_lower (trim_space (to_lower (sw_address r))))
       (filter (\<lambda>r. sw_active r \<and> sw_model r = to_lower (trim_space model) \<and>
          to_lower (sw_chain r) = to_lower (trim_space chain) \<and> to_lower (sw_network r) = to_lower (trim_space network))
        (scan_watches db)))"


section \<open>Checkpoints\<close>

definition checkpoint_at :: "watch_address \<Rightarrow> checkpoint_row \<Rightarrow> bool" where
  "checkpoint_at w r \<longleftrightarrow> ck_tenant r = sa_TenantID w \<and> ck_account r = sa_AccountID w \<and> ck_model r = sa_Model w \<and>
     ck_chain r = sa_Chain w \<and> ck_coin r = sa_Coin w \<and> ck_network r = sa_Network w \<and> ck_address r = sa_Address w"

definition GetCheckpoint :: "watch_address \<Rightarrow> scan_db \<Rightarrow> string" where
  "GetCheckpoint w db = (case select_row (checkpoint_at w) (scan_checkpoints db) of None \<Rightarrow> [] | Some r \<Rightarrow> ck_cursor r)"

text \<open>
  The guard of both upserts: a cursor that is a number replaces a number only when it is not
  smaller (\<open>EXCLUDED.cursor::NUMERIC >= cursor::NUMERIC\<close>); any other cursor is stored as it is.
\<close>

definition cursor_accepts :: "string \<Rightarrow> string \<Rightarrow> bool" where
  "cursor_accepts old new =
     (case (scan_nat new, scan_nat old) of (Some n, Some m) \<Rightarrow> n \<ge> m | _ \<Rightarrow> True)"

definition UpsertCheckpoint :: "int \<Rightarrow> watch_address \<Rightarrow> string \<Rightarrow> string \<Rightarrow> scan_db \<Rightarrow> scan_db" where
  "UpsertCheckpoint now w cursor lastTxHash db =
     db\<lparr>scan_checkpoints :=
       insert_or_update (checkpoint_at w)
         \<lparr>ck_tenant = sa_TenantID w, ck_account = sa_AccountID w, ck_model = sa_Model w, ck_chain = sa_Chain w, ck_coin = sa_Coin w,
          ck_network = sa_Network w, ck_address = sa_Address w, ck_cursor = cursor, ck_last_tx_hash = lastTxHash, ck_updated_at = now\<rparr>
         (\<lambda>r. if cursor_accepts (ck_cursor r) cursor
              then r\<lparr>ck_cursor := cursor, ck_last_tx_hash := lastTxHash, ck_updated_at := now\<rparr> else r)
         (scan_checkpoints db)\<rparr>"

definition chain_checkpoint_at :: "string \<times> string \<times> string \<times> string \<Rightarrow> chain_checkpoint_row \<Rightarrow> bool" where
  "chain_checkpoint_at k r \<longleftrightarrow> (cc_model r, cc_chain r, cc_coin r, cc_network r) = k"

definition GetChainCheckpoint :: "string \<Rightarrow> string \<Rightarrow> string \<Rightarrow> string \<Rightarrow> scan_db \<Rightarrow> string \<times> string" where
  "GetChainCheckpoint model chain coin network db =
     (case select_row (chain_checkpoint_at (model, chain, coin, network)) (scan_chain_checkpoints db) of
        Some r \<Rightarrow> (cc_cursor r, cc_last_tx_hash r)
      | None \<Rightarrow>
          (case select_first (\<lambda>r. - ck_updated_at r)
                  (\<lambda>r. ck_model r = model \<and> ck_chain r = chain \<and> ck_coin r = coin \<and> ck_network r = network) (scan_checkpoints db) of
             Some r \<Rightarrow> (ck_cursor r, ck_last_tx_hash r)
           | None \<Rightarrow> ([], [])))"

definition UpsertChainCheckpoint ::
  "int \<Rightarrow> string \<Rightarrow> string \<Rightarrow> string \<Rightarrow> string \<Rightarrow> string \<Rightarrow> string \<Rightarrow> scan_db \<Rightarrow> scan_db" where
  "UpsertChainCheckpoint now model chain coin network cursor lastTxHash db =
     db\<lparr>scan_chain_checkpoints :=
       insert_or_update (chain_checkpoint_at (model, chain, coin, network))
         \<lparr>cc_model = model, cc_chain = chain, cc_coin = coin, cc_network = network, cc_cursor = cursor, cc_last_tx_hash = lastTxHash,
          cc_updated_at = now\<rparr>
         (\<lambda>r. if cursor_accepts (cc_cursor r) cursor
              then r\<lparr>cc_cursor := cursor, cc_last_tx_hash := lastTxHash, cc_updated_at := now\<rparr> else r)
         (scan_chain_checkpoints db)\<rparr>"

definition RewindChainCheckpoint :: "int \<Rightarrow> string \<Rightarrow> string \<Rightarrow> string \<Rightarrow> string \<Rightarrow> string \<Rightarrow> scan_db \<Rightarrow> scan_db" where
  "RewindChainCheckpoint now model chain coin network newCursor db =
     db\<lparr>scan_chain_checkpoints :=
       update_where (chain_checkpoint_at (to_lower (trim_space model), to_lower (trim_space chain), to_upper (trim_space coin),
                       to_lower (trim_space network)))
         (\<lambda>r. r\<lparr>cc_cursor := newCursor, cc_updated_at := now\<rparr>) (scan_chain_checkpoints db)\<rparr>"


section \<open>Events seen on the chains\<close>

record seen_event_change =
  ch_Notify :: bool
  ch_Inserted :: bool
  ch_OldStatus :: string
  ch_NewStatus :: string
  ch_OldConfirms :: int
  ch_NewConfirms :: int

definition seen_at :: "watch_address \<Rightarrow> string \<Rightarrow> int \<Rightarrow> seen_row \<Rightarrow> bool" where
  "seen_at w txHash eventIndex r \<longleftrightarrow> se_tenant r = sa_TenantID w \<and> se_account r = sa_AccountID w \<and> se_model r = sa_Model w \<and>
     se_chain r = sa_Chain w \<and> se_coin r = sa_Coin w \<and> se_network r = sa_Network w \<and> se_address r = sa_Address w \<and>
     se_tx_hash r = txHash \<and> se_event_index r = eventIndex"

definition UpsertSeenEvent ::
  "int \<Rightarrow> watch_address \<Rightarrow> string \<Rightarrow> int \<Rightarrow> string \<Rightarrow> int \<Rightarrow> string \<Rightarrow> string \<Rightarrow> string \<Rightarrow> scan_db \<Rightarrow> seen_event_change \<times> scan_db"
where
  "UpsertSeenEvent now w txHash eventIndex status confirmations amount fromAddress toAddress db =
     (case select_row (seen_at w txHash eventIndex) (scan_seen_events db) of
        None \<Rightarrow>
          (\<lparr>ch_Notify = True, ch_Inserted = True, ch_OldStatus = [], ch_NewStatus = status, ch_OldConfirms = 0,
            ch_NewConfirms = confirmations\<rparr>,
           db\<lparr>scan_seen_events := scan_seen_events db @
             [\<lparr>se_tenant = sa_TenantID w, se_account = sa_AccountID w, se_model = sa_Model w, se_chain = sa_Chain w, se_coin = sa_Coin w,
               se_network = sa_Network w, se_address = sa_Address w, se_tx_hash = txHash, se_event_index = eventIndex,
               se_status = status, se_confirmations = confirmations, se_amount = amount, se_from = fromAddress, se_to = toAddress,
               se_not_found = 0, se_created_at = now, se_updated_at = now\<rparr>]\<rparr>)
      | Some old \<Rightarrow>
          if to_upper status \<noteq> to_upper (se_status old) \<or> confirmations > se_confirmations old then
            (\<lparr>ch_Notify = True, ch_Inserted = False, ch_OldStatus = se_status old, ch_NewStatus = status,
              ch_OldConfirms = se_confirmations old, ch_NewConfirms = confirmations\<rparr>,
             db\<lparr>scan_seen_events := update_where (seen_at w txHash eventIndex)
               (\<lambda>r. r\<lparr>se_status := status, se_confirmations := confirmations, se_amount := amount, se_from := fromAddress,
                      se_to := toAddress, se_not_found := 0, se_updated_at := now\<rparr>) (scan_seen_events db)\<rparr>)
          else
            (\<lparr>ch_Notify = False, ch_Inserted = False, ch_OldStatus = se_status old, ch_NewStatus = se_status old,
              ch_OldConfirms = se_confirmations old, ch_NewConfirms = se_confirmations old\<rparr>, db))"

record reorg_candidate = watch_address +
  rg_TxHash :: string
  rg_EventIndex :: int
  rg_Status :: string
  rg_Confirmations :: int
  rg_Amount :: string
  rg_FromAddress :: string
  rg_ToAddress :: string
  rg_NotFoundCount :: int

text \<open>
  \<open>LEFT JOIN scan_watch_addresses\<close> on the seven columns of its unique key: at most one row. The
  two \<open>COALESCE\<close> of the confirmations differ: the selected column does not add the window.
\<close>

definition joined_watch :: "scan_db \<Rightarrow> seen_row \<Rightarrow> scan_watch_row option" where
  "joined_watch db r =
     select_row (\<lambda>w. sw_tenant w = se_tenant r \<and> sw_account w = se_account r \<and> sw_model w = se_model r \<and> sw_chain w = se_chain r \<and>
       sw_coin w = se_coin r \<and> sw_network w = se_network r \<and> sw_address w = se_address r) (scan_watches db)"

definition candidate_of :: "scan_db \<Rightarrow> seen_row \<Rightarrow> reorg_candidate" where
  "candidate_of db r =
     (let j = joined_watch db r; col = (\<lambda>f d. case j of None \<Rightarrow> d | Some w \<Rightarrow> f w); minConf = (case j of None \<Rightarrow> 1 | Some w \<Rightarrow> sw_min_confirmations w) in
      \<lparr>sa_TenantID = se_tenant r, sa_AccountID = se_account r, sa_Model = se_model r, sa_Chain = se_chain r, sa_Coin = se_coin r,
       sa_Network = se_network r, sa_Address = se_address r, sa_ContractAddress = col sw_contract_address [],
       sa_MinConfirmations = minConf,
       sa_UnlockConfirmations = (case j of None \<Rightarrow> max minConf 1 | Some w \<Rightarrow> sw_unlock_confirmations w),
       sa_TreasuryAccountID = col sw_treasury ''treasury-main'', sa_ColdAccountID = col sw_cold [],
       sa_AutoSweep = (case j of None \<Rightarrow> False | Some w \<Rightarrow> sw_auto_sweep w),
       sa_SweepThreshold = col sw_sweep_threshold ''0'', sa_HotBalanceCap = col sw_hot_balance_cap ''0'',
       rg_TxHash = se_tx_hash r, rg_EventIndex = se_event_index r, rg_Status = se_status r, rg_Confirmations = se_confirmations r,
       rg_Amount = se_amount r, rg_FromAddress = se_from r, rg_ToAddress = se_to r, rg_NotFoundCount = se_not_found r\<rparr>)"

definition reorg_open :: "int \<Rightarrow> scan_db \<Rightarrow> seen_row \<Rightarrow> bool" where
  "reorg_open reorgWindow db r \<longleftrightarrow>
     to_upper (se_status r) \<notin> {''REORGED'', ''REVERTED''} \<and>
     (se_not_found r > 0 \<or>
      se_confirmations r <
        (case joined_watch db r of
           None \<Rightarrow> max (1 + reorgWindow) 1
         | Some w \<Rightarrow> max (sw_unlock_confirmations w) (max (sw_min_confirmations w) 1)))"

definition ListReorgCandidates :: "int \<Rightarrow> int \<Rightarrow> string list \<Rightarrow> scan_db \<Rightarrow> reorg_candidate list" where
  "ListReorgCandidates reorgWindow0 limit0 allowedChains db =
     (let reorgWindow = (if reorgWindow0 \<le> 0 then 6 else reorgWindow0); limit = (if limit0 \<le> 0 then 500 else limit0) in
      map (candidate_of db) (take (nat limit) (sort_key (\<lambda>r. (- se_updated_at r, - se_created_at r))
        (filter (\<lambda>r. reorg_open reorgWindow db r \<and> chain_allowed allowedChains (se_chain r)) (scan_seen_events db)))))"

definition candidate_at :: "reorg_candidate \<Rightarrow> seen_row \<Rightarrow> bool" where
  "candidate_at c = seen_at (watch_address.truncate c) (rg_TxHash c) (rg_EventIndex c)"

text \<open>\<open>UPDATE ... RETURNING not_found_count\<close>, which is \<open>sql.ErrNoRows\<close> when no row is left.\<close>

definition IncrementSeenEventNotFound :: "int \<Rightarrow> reorg_candidate \<Rightarrow> scan_db \<Rightarrow> (int \<times> scan_db) result" where
  "IncrementSeenEventNotFound now c db =
     (case select_row (candidate_at c) (scan_seen_events db) of
        None \<Rightarrow> Inl ErrNoRows
      | Some r \<Rightarrow>
          Inr (se_not_found r + 1,
            db\<lparr>scan_seen_events := update_where (candidate_at c)
              (\<lambda>r. r\<lparr>se_not_found := se_not_found r + 1, se_updated_at := now\<rparr>) (scan_seen_events db)\<rparr>))"

definition ResetSeenEventNotFound :: "int \<Rightarrow> reorg_candidate \<Rightarrow> scan_db \<Rightarrow> scan_db" where
  "ResetSeenEventNotFound now c db =
     db\<lparr>scan_seen_events := update_where (candidate_at c) (\<lambda>r. r\<lparr>se_not_found := 0, se_updated_at := now\<rparr>) (scan_seen_events db)\<rparr>"


section \<open>The outbox\<close>

record outbox_event =
  oe_ID :: int
  oe_EventKey :: string
  oe_TenantID :: string
  oe_Chain :: string
  oe_Network :: string
  oe_EventType :: string
  oe_Payload :: payload
  oe_Attempt :: int
  oe_MaxAttempts :: int

definition outbox_at :: "string \<Rightarrow> outbox_row \<Rightarrow> bool" where
  "outbox_at key r \<longleftrightarrow> ob_key r = key"

definition new_outbox_row :: "int \<Rightarrow> int \<Rightarrow> int \<Rightarrow> outbox_event \<Rightarrow> outbox_row" where
  "new_outbox_row now i maxAttempts ev =
     \<lparr>ob_id = i, ob_key = oe_EventKey ev, ob_tenant = oe_TenantID ev, ob_chain = oe_Chain ev, ob_network = oe_Network ev,
      ob_type = oe_EventType ev, ob_payload = oe_Payload ev, ob_status = ''PENDING'', ob_attempt = 0, ob_max_attempts = maxAttempts,
      ob_next_retry_at = now, ob_last_error = [], ob_created_at = now, ob_updated_at = now\<rparr>"

definition refresh_outbox :: "int \<Rightarrow> int \<Rightarrow> outbox_event \<Rightarrow> outbox_row \<Rightarrow> outbox_row" where
  "refresh_outbox now maxAttempts ev r =
     r\<lparr>ob_tenant := oe_TenantID ev, ob_chain := oe_Chain ev, ob_network := oe_Network ev, ob_type := oe_EventType ev,
       ob_payload := oe_Payload ev, ob_status := ''PENDING'', ob_attempt := 0, ob_max_attempts := maxAttempts,
       ob_next_retry_at := now, ob_last_error := [], ob_updated_at := now\<rparr>"

text \<open>
  The two upserts differ in the rows they refresh on a conflict. The check of an empty payload
  can not fail: the text of a struct is not empty.
\<close>

definition put_outbox :: "(outbox_row \<Rightarrow> bool) \<Rightarrow> int \<Rightarrow> outbox_event \<Rightarrow> scan_db \<Rightarrow> scan_db result" where
  "put_outbox refreshes now ev db =
     (if trim_space (oe_EventKey ev) = [] \<or> trim_space (oe_EventType ev) = [] then Inl (Errorf ''event_key/event_type are required'')
      else if trim_space (oe_TenantID ev) = [] \<or> trim_space (oe_Chain ev) = [] \<or> trim_space (oe_Network ev) = [] then
        Inl (Errorf ''tenant_id/chain/network are required'')
      else
        let maxAttempts = (if oe_MaxAttempts ev \<le> 0 then 12 else oe_MaxAttempts ev) in
        Inr (db\<lparr>scan_event_outbox :=
               insert_or_update (outbox_at (oe_EventKey ev)) (new_outbox_row now (outbox_seq db + 1) maxAttempts ev)
                 (\<lambda>r. if refreshes r then refresh_outbox now maxAttempts ev r else r) (scan_event_outbox db),
               outbox_seq := outbox_seq db + 1\<rparr>))"

definition UpsertOutboxEvent :: "int \<Rightarrow> outbox_event \<Rightarrow> scan_db \<Rightarrow> scan_db result" where
  "UpsertOutboxEvent = put_outbox (\<lambda>r. ob_status r \<notin> {''DONE'', ''FAILED''})"

definition InsertOutboxEventIfAbsent :: "int \<Rightarrow> outbox_event \<Rightarrow> scan_db \<Rightarrow> scan_db result" where
  "InsertOutboxEventIfAbsent = put_outbox (\<lambda>r. ob_status r = ''FAILED'')"

definition event_of_row :: "outbox_row \<Rightarrow> outbox_event" where
  "event_of_row r =
     \<lparr>oe_ID = ob_id r, oe_EventKey = ob_key r, oe_TenantID = ob_tenant r, oe_Chain = ob_chain r, oe_Network = ob_network r,
      oe_EventType = ob_type r, oe_Payload = ob_payload r, oe_Attempt = ob_attempt r, oe_MaxAttempts = ob_max_attempts r\<rparr>"

text \<open>
  The query locks its rows with \<open>FOR UPDATE SKIP LOCKED\<close>, but it is its own transaction: the locks
  are gone when it returns.
\<close>

definition ListPendingOutboxEvents :: "int \<Rightarrow> int \<Rightarrow> string list \<Rightarrow> scan_db \<Rightarrow> outbox_event list" where
  "ListPendingOutboxEvents now limit0 allowedChains db =
     (let limit = (if limit0 \<le> 0 then 200 else limit0) in
      map event_of_row (take (nat limit) (sort_key ob_id
        (filter (\<lambda>r. ob_status r = ''PENDING'' \<and> ob_next_retry_at r \<le> now \<and> chain_allowed allowedChains (ob_chain r))
          (scan_event_outbox db)))))"

definition MarkOutboxEventDone :: "int \<Rightarrow> int \<Rightarrow> scan_db \<Rightarrow> scan_db" where
  "MarkOutboxEventDone now i db =
     db\<lparr>scan_event_outbox := update_where (\<lambda>r. ob_id r = i) (\<lambda>r. r\<lparr>ob_status := ''DONE'', ob_updated_at := now\<rparr>) (scan_event_outbox db)\<rparr>"

text \<open>Milliseconds. The shift is bounded by 6, so that it does not overflow.\<close>

definition outboxRetryBackoff :: "string \<Rightarrow> int \<Rightarrow> int" where
  "outboxRetryBackoff eventType attempt0 =
     (let ty = to_upper (trim_space eventType);
          (base, maxBackoff) =
            (if ty = ''DEPOSIT_NOTIFY'' then (2000, 60000)
             else if ty = ''PROJECT_DEPOSIT_NOTIFY'' then (5000, 300000)
             else if ty = ''SWEEP_TRIGGER'' then (15000, 600000)
             else if ty = ''SWEEP_RUN'' then (30000, 1800000)
             else (2000, 300000));
          attempt = (if attempt0 < 1 then 1 else attempt0);
          backoff = base * 2 ^ nat (min (attempt - 1) 6)
      in if backoff > maxBackoff then maxBackoff else backoff)"

definition MarkOutboxEventRetry :: "int \<Rightarrow> outbox_event \<Rightarrow> string \<Rightarrow> scan_db \<Rightarrow> scan_db" where
  "MarkOutboxEventRetry now ev reason db =
     (let nextAttempt = oe_Attempt ev + 1;
          maxAttempts = (if oe_MaxAttempts ev \<le> 0 then 12 else oe_MaxAttempts ev);
          status = (if nextAttempt \<ge> maxAttempts then ''FAILED'' else ''PENDING'');
          backoff = outboxRetryBackoff (trim_space (oe_EventType ev)) nextAttempt
      in db\<lparr>scan_event_outbox := update_where (\<lambda>r. ob_id r = oe_ID ev)
           (\<lambda>r. r\<lparr>ob_status := status, ob_attempt := nextAttempt, ob_last_error := trim_space reason,
                  ob_next_retry_at := now + (backoff div 1000) * 1000, ob_updated_at := now\<rparr>) (scan_event_outbox db)\<rparr>)"


section \<open>Outgoing transactions\<close>

text \<open>\<open>PendingSweep\<close> and \<open>PendingTreasuryTransfer\<close> have the same fields.\<close>

record pending_order =
  po_TenantID :: string
  po_OrderID :: string
  po_Chain :: string
  po_Network :: string
  po_TxHash :: string
  po_Confirmations :: int
  po_RequiredConfs :: int
  po_BroadcastedAt :: int

record pending_withdraw = pending_order +
  pw_AttemptStatus :: string

definition ListPendingWithdraws :: "int \<Rightarrow> ledger_db \<Rightarrow> pending_withdraw list" where
  "ListPendingWithdraws limit db =
     take (nat limit) (concat (map
       (\<lambda>a. map (\<lambda>f. \<lparr>po_TenantID = wa_tenant a, po_OrderID = wa_order a, po_Chain = lf_chain f, po_Network = lf_network f,
                     po_TxHash = wa_tx_hash a, po_Confirmations = lf_confirmations f, po_RequiredConfs = lf_required f,
                     po_BroadcastedAt = wa_updated_at a, pw_AttemptStatus = wa_status a\<rparr>)
              (filter (\<lambda>f. lf_tenant f = wa_tenant a \<and> lf_order f = wa_order a \<and> lf_status f = ''BROADCASTED'') (ledger_freezes db)))
       (sort_key wa_updated_at
         (filter (\<lambda>a. wa_tx_hash a \<noteq> [] \<and> wa_status a \<in> {''BROADCASTED'', ''REPLACED''}) (withdraw_tx_attempts db)))))"

definition ListPendingSweeps :: "int \<Rightarrow> ledger_db \<Rightarrow> pending_order list" where
  "ListPendingSweeps limit db =
     take (nat limit) (map
       (\<lambda>r. \<lparr>po_TenantID = so_tenant r, po_OrderID = so_order r, po_Chain = so_chain r, po_Network = so_network r,
             po_TxHash = so_tx_hash r, po_Confirmations = so_confirmations r, po_RequiredConfs = so_required r,
             po_BroadcastedAt = so_updated_at r\<rparr>)
       (sort_key so_updated_at (filter (\<lambda>r. so_status r = ''BROADCASTED'' \<and> so_tx_hash r \<noteq> []) (sweep_orders db))))"

definition ListPendingTreasuryTransfers :: "int \<Rightarrow> ledger_db \<Rightarrow> pending_order list" where
  "ListPendingTreasuryTransfers limit db =
     take (nat limit) (map
       (\<lambda>r. \<lparr>po_TenantID = tt_tenant r, po_OrderID = tt_order r, po_Chain = tt_chain r, po_Network = tt_network r,
             po_TxHash = tt_tx_hash r, po_Confirmations = tt_confirmations r, po_RequiredConfs = tt_required r,
             po_BroadcastedAt = tt_updated_at r\<rparr>)
       (sort_key tt_updated_at (filter (\<lambda>r. tt_status r = ''BROADCASTED'' \<and> tt_tx_hash r \<noteq> []) (treasury_transfer_orders db))))"

definition outgoing_at :: "string \<Rightarrow> string \<Rightarrow> string \<Rightarrow> string \<Rightarrow> outgoing_row \<Rightarrow> bool" where
  "outgoing_at kind tenantID orderID txHash r \<longleftrightarrow> og_kind r = to_lower (trim_space kind) \<and> og_tenant r = tenantID \<and>
     og_order r = orderID \<and> og_tx_hash r = trim_space txHash"

definition IncrementOutgoingNotFound ::
  "int \<Rightarrow> string \<Rightarrow> string \<Rightarrow> string \<Rightarrow> string \<Rightarrow> string \<Rightarrow> string \<Rightarrow> scan_db \<Rightarrow> int \<times> scan_db" where
  "IncrementOutgoingNotFound now kind tenantID orderID chain network txHash db =
     (let at = outgoing_at kind tenantID orderID txHash in
      (case select_row at (scan_outgoing_watch db) of None \<Rightarrow> 1 | Some r \<Rightarrow> og_not_found r + 1,
       db\<lparr>scan_outgoing_watch :=
         insert_or_update at
           \<lparr>og_kind = to_lower (trim_space kind), og_tenant = tenantID, og_order = orderID, og_chain = to_lower (trim_space chain),
            og_network = to_lower (trim_space network), og_tx_hash = trim_space txHash, og_not_found = 1,
            og_first_not_found_at = now, og_last_not_found_at = now\<rparr>
           (\<lambda>r. r\<lparr>og_chain := to_lower (trim_space chain), og_network := to_lower (trim_space network),
                  og_not_found := og_not_found r + 1, og_last_not_found_at := now\<rparr>)
           (scan_outgoing_watch db)\<rparr>))"

definition ClearOutgoingNotFound :: "string \<Rightarrow> string \<Rightarrow> string \<Rightarrow> string \<Rightarrow> scan_db \<Rightarrow> scan_db" where
  "ClearOutgoingNotFound kind tenantID orderID txHash db =
     db\<lparr>scan_outgoing_watch := filter (\<lambda>r. \<not> outgoing_at kind tenantID orderID txHash r) (scan_outgoing_watch db)\<rparr>"


section \<open>Block hashes\<close>

definition block_at :: "string \<Rightarrow> string \<Rightarrow> int \<Rightarrow> block_row \<Rightarrow> bool" where
  "block_at chain network blockNumber r \<longleftrightarrow> bh_chain r = to_lower (trim_space chain) \<and> bh_network r = to_lower (trim_space network) \<and>
     bh_BlockNumber r = blockNumber"

definition UpsertBlockHash :: "string \<Rightarrow> string \<Rightarrow> int \<Rightarrow> string \<Rightarrow> string \<Rightarrow> scan_db \<Rightarrow> scan_db" where
  "UpsertBlockHash chain network blockNumber blockHash parentHash db =
     db\<lparr>scan_block_hashes :=
       insert_or_update (block_at chain network blockNumber)
         \<lparr>bh_BlockNumber = blockNumber, bh_BlockHash = to_lower (trim_space blockHash), bh_ParentHash = to_lower (trim_space parentHash),
          bh_chain = to_lower (trim_space chain), bh_network = to_lower (trim_space network)\<rparr>
         (\<lambda>r. r\<lparr>bh_BlockHash := to_lower (trim_space blockHash), bh_ParentHash := to_lower (trim_space parentHash)\<rparr>)
         (scan_block_hashes db)\<rparr>"

definition GetBlockHash :: "string \<Rightarrow> string \<Rightarrow> int \<Rightarrow> scan_db \<Rightarrow> block_hash option" where
  "GetBlockHash chain network blockNumber db =
     map_option block_hash.truncate (select_row (block_at chain network blockNumber) (scan_block_hashes db))"

definition PruneBlockHashes :: "string \<Rightarrow> string \<Rightarrow> int \<Rightarrow> scan_db \<Rightarrow> scan_db" where
  "PruneBlockHashes chain network keepAfter db =
     db\<lparr>scan_block_hashes := filter (\<lambda>r. \<not> (bh_chain r = to_lower (trim_space chain) \<and> bh_network r = to_lower (trim_space network) \<and>
       bh_BlockNumber r < keepAfter)) (scan_block_hashes db)\<rparr>"

end
