(* ===== verification/Scan_Utils.thy ===== *)
theory Scan_Utils
  imports Scan_Store
begin

text \<open>
  The pure parts of the scanner of account chains
  (\<open>src/services/scan-account-service/internal/worker/scanner_utils.go\<close> and parts of
  \<open>scanner_deposit.go\<close>, \<open>scanner_project_notify.go\<close>): names of orders and events, statuses of
  deposits, thresholds, the guard of the page loop and the rule for lost transactions.
\<close>


section \<open>Names\<close>

definition fallback :: "string \<Rightarrow> string \<Rightarrow> string" where
  "fallback v d = (if trim_space v = [] then d else v)"

definition normalizePart :: "string \<Rightarrow> string" where
  "normalizePart v =
     (let x = to_lower (trim_space v) in
      if x = [] then ''unknown'' else replace_char (CHR '' '') (CHR ''_'') x)"

definition depositOrderID :: "string \<Rightarrow> int \<Rightarrow> string \<Rightarrow> string \<Rightarrow> string" where
  "depositOrderID txHash eventIndex accountID network =
     ''dep_'' @ txHash @ ''_'' @ int_to_string eventIndex @ ''_'' @ accountID @ ''_'' @ normalizePart network"

definition sweepOrderID :: "string \<Rightarrow> int \<Rightarrow> string \<Rightarrow> string \<Rightarrow> string" where
  "sweepOrderID txHash eventIndex accountID network =
     ''sweep_'' @ txHash @ ''_'' @ int_to_string eventIndex @ ''_'' @ accountID @ ''_'' @ normalizePart network"

definition event_key :: "string \<Rightarrow> string \<Rightarrow> string \<Rightarrow> string \<Rightarrow> string \<Rightarrow> int \<Rightarrow> string" where
  "event_key kind tenantID chain network txHash eventIndex =
     kind @ '':'' @ normalizePart tenantID @ '':'' @ normalizePart chain @ '':'' @ normalizePart network @ '':'' @
     to_lower (trim_space txHash) @ '':'' @ int_to_string eventIndex"

definition depositEventKey :: "string \<Rightarrow> string \<Rightarrow> string \<Rightarrow> string \<Rightarrow> int \<Rightarrow> string" where
  "depositEventKey = event_key ''dep''"

definition sweepEventKey :: "string \<Rightarrow> string \<Rightarrow> string \<Rightarrow> string \<Rightarrow> int \<Rightarrow> string" where
  "sweepEventKey = event_key ''sweep''"

definition projectDepositEventKey :: "string \<Rightarrow> string \<Rightarrow> string \<Rightarrow> string \<Rightarrow> int \<Rightarrow> string" where
  "projectDepositEventKey = event_key ''project-dep''"

definition sweepTriggerEventKey :: "string \<Rightarrow> string \<Rightarrow> string \<Rightarrow> string \<Rightarrow> int \<Rightarrow> string" where
  "sweepTriggerEventKey = event_key ''sweep-trigger''"


section \<open>Statuses and thresholds\<close>

definition meetsThreshold :: "string \<Rightarrow> string \<Rightarrow> bool" where
  "meetsThreshold amount threshold =
     (if trim_space threshold = [] then True
      else case big_SetString (trim_space amount) of
        None \<Rightarrow> False
      | Some a \<Rightarrow> (case big_SetString (trim_space threshold) of None \<Rightarrow> False | Some t \<Rightarrow> a > t))"

definition resolveDepositScanStatus :: "string \<Rightarrow> int \<Rightarrow> int \<Rightarrow> int \<Rightarrow> int \<Rightarrow> string" where
  "resolveDepositScanStatus rawStatus confirmations minConf0 unlockConf0 reorgWindow0 =
     (let status = to_upper (trim_space rawStatus) in
      if status = ''REORGED'' \<or> status = ''REVERTED'' \<or> status = ''FAILED'' then ''REORGED''
      else if status = ''FINALIZED'' then ''FINALIZED''
      else
        let minConf = (if minConf0 \<le> 0 then 1 else minConf0);
            unlockConf = (if unlockConf0 > 0 \<and> unlockConf0 < minConf then minConf else unlockConf0);
            reorgWindow = (if reorgWindow0 < 0 then 0 else reorgWindow0)
        in
        if confirmations < 0 then ''SEEN''
        else if confirmations = 0 then ''SEEN''
        else if confirmations < minConf then ''PENDING''
        else if unlockConf > 0 \<and> confirmations \<ge> unlockConf then ''FINALIZED''
        else if unlockConf \<le> 0 \<and> reorgWindow > 0 \<and> confirmations \<ge> minConf + reorgWindow then ''FINALIZED''
        else ''CONFIRMED'')"

definition mapDepositLedgerStatus :: "string \<Rightarrow> string" where
  "mapDepositLedgerStatus scanStatus =
     (let s = to_upper (trim_space scanStatus) in
      if s = ''CONFIRMED'' \<or> s = ''FINALIZED'' then ''CONFIRMED''
      else if s = ''REORGED'' \<or> s = ''REVERTED'' \<or> s = ''FAILED'' then ''REVERTED''
      else ''PENDING'')"

definition shouldProjectNotify :: "string \<Rightarrow> string \<Rightarrow> bool" where
  "shouldProjectNotify oldScanStatus newScanStatus \<longleftrightarrow>
     mapDepositLedgerStatus oldScanStatus \<noteq> ''CONFIRMED'' \<and> mapDepositLedgerStatus newScanStatus = ''CONFIRMED''"

definition shouldTriggerSweep :: "bool \<Rightarrow> string \<Rightarrow> string \<Rightarrow> string \<Rightarrow> string \<Rightarrow> bool" where
  "shouldTriggerSweep autoSweep accountID treasuryID oldScanStatus newScanStatus =
     (if \<not> autoSweep then False
      else if trim_space accountID \<noteq> [] \<and> trim_space accountID = trim_space treasuryID then False
      else shouldProjectNotify oldScanStatus newScanStatus)"

definition shouldSkipInternalTransfer :: "string \<Rightarrow> string list \<Rightarrow> bool" where
  "shouldSkipInternalTransfer fromAddr managedAddrs \<longleftrightarrow>
     (let key = to_lower (trim_space fromAddr) in managedAddrs \<noteq> [] \<and> key \<noteq> [] \<and> key \<in> set managedAddrs)"

definition scan_isSolanaChain :: "string \<Rightarrow> bool" where
  "scan_isSolanaChain chain \<longleftrightarrow> to_lower (trim_space chain) \<in> {''sol'', ''solana''}"

definition shouldFailOutgoingNotFound :: "string \<Rightarrow> int \<Rightarrow> int \<Rightarrow> int \<Rightarrow> int \<Rightarrow> bool" where
  "shouldFailOutgoingNotFound chain age missCount threshold0 grace0 =
     (if \<not> scan_isSolanaChain chain then False
      else
        let threshold = (if threshold0 \<le> 0 then 1 else threshold0); grace = (if grace0 < 0 then 0 else grace0) in
        if missCount < threshold then False else age \<ge> grace)"

definition evm_chains :: "string list" where
  "evm_chains = [''ethereum'', ''binance'', ''polygon'', ''arbitrum'', ''optimism'', ''linea'', ''scroll'', ''mantle'', ''zksync'',
     ''base'', ''avalanche'']"

definition isEVMChain :: "string \<Rightarrow> bool" where
  "isEVMChain chain \<longleftrightarrow> to_lower (trim_space chain) \<in> set evm_chains"

definition isNativeEVMAsset :: "string \<Rightarrow> string \<Rightarrow> bool" where
  "isNativeEVMAsset chain coin \<longleftrightarrow>
     (let c = to_upper (trim_space coin); ch = to_lower (trim_space chain) in
      if ch = ''binance'' then c = ''BNB''
      else if ch = ''polygon'' then c = ''MATIC'' \<or> c = ''POL''
      else if ch = ''avalanche'' then c = ''AVAX''
      else if ch = ''mantle'' then c = ''MNT''
      else c = ''ETH'')"

definition supportsChainWideAccountScan :: "string \<Rightarrow> string \<Rightarrow> bool" where
  "supportsChainWideAccountScan chain coin =
     (if to_lower (trim_space chain) \<in> set evm_chains then isNativeEVMAsset chain coin else False)"

definition resolveProjectChainID :: "(string \<times> int) list \<Rightarrow> int \<Rightarrow> string \<Rightarrow> string \<Rightarrow> int option" where
  "resolveProjectChainID chainIDs defaultID chain network =
     (let key = to_lower (trim_space chain) @ '':'' @ to_lower (trim_space network);
          other = (if defaultID > 0 then Some defaultID else None)
      in case map_of chainIDs key of Some i \<Rightarrow> if i > 0 then Some i else other | None \<Rightarrow> other)"


section \<open>The guard of the page loop\<close>

record paginationGuard =
  pg_maxEmptyPages :: int
  pg_cursorStallGuard :: int
  pg_emptyPages :: int
  pg_seenCursors :: "string \<Rightarrow> int"

definition newPaginationGuard :: "int \<Rightarrow> int \<Rightarrow> paginationGuard" where
  "newPaginationGuard maxEmptyPages cursorStallGuard =
     \<lparr>pg_maxEmptyPages = (if maxEmptyPages < 0 then 0 else maxEmptyPages),
      pg_cursorStallGuard = (if cursorStallGuard < 0 then 0 else cursorStallGuard),
      pg_emptyPages = 0, pg_seenCursors = (\<lambda>_. 0)\<rparr>"

text \<open>The three results are advance, stop and the reason.\<close>

definition Observe :: "string \<Rightarrow> string \<Rightarrow> nat \<Rightarrow> paginationGuard \<Rightarrow> (bool \<times> bool \<times> string) \<times> paginationGuard" where
  "Observe currentCursor nextCursor itemCount g0 =
     (let g = g0\<lparr>pg_emptyPages := (if itemCount = 0 then pg_emptyPages g0 + 1 else 0)\<rparr> in
      if trim_space nextCursor = [] then ((False, True, ''cursor_exhausted''), g)
      else if nextCursor = currentCursor then ((False, True, ''cursor_not_advanced''), g)
      else if pg_maxEmptyPages g > 0 \<and> itemCount = 0 \<and> pg_emptyPages g \<ge> pg_maxEmptyPages g then
        ((False, True, ''max_empty_pages''), g)
      else if pg_cursorStallGuard g > 0 then
        let n = pg_seenCursors g nextCursor + 1; g' = g\<lparr>pg_seenCursors := (pg_seenCursors g)(nextCursor := n)\<rparr> in
        if n > pg_cursorStallGuard g then ((False, True, ''cursor_stall_guard''), g') else ((True, False, []), g')
      else ((True, False, []), g))"

end
