(* ===== verification/Scan_Worker.thy ===== *)
theory Scan_Worker
  imports Scan_Utils Core_Http
begin

text \<open>
  The scanner of account chains (\<open>src/services/scan-account-service/internal/worker\<close>) and its client
  of wallet-core (\<open>internal/client/wallet_core.go\<close>), joined with the wallet-core it calls: a
  request it posts is lost, or is served by the handler of \<open>Core_Http\<close>, and then its answer comes
  back or is lost.

  The chain gateway, the customer's project, the clock and the network are arguments, in the
  record \<open>scan_env\<close>. The goroutines over groups and addresses run in an arbitrary order, one
  after the other. The log is left out.
\<close>


section \<open>What the scanner calls\<close>

record incoming_transfer =
  it_TxHash :: string
  it_FromAddress :: string
  it_ToAddress :: string
  it_Amount :: string
  it_Confirmations :: int
  it_Index :: int
  it_Status :: string
  it_ContractAddress :: string

record block_meta =
  bm_Number :: int
  bm_Hash :: string
  bm_ParentHash :: string

record incoming_transfer_result =
  ir_Items :: "incoming_transfer list"
  ir_NextCursor :: string
  ir_Blocks :: "block_meta list"

record tx_finality =
  tf_Confirmations :: int
  tf_Status :: string
  tf_Found :: bool

record project_deposit_notify =
  pd_BizID :: string
  pd_ChainID :: int
  pd_TxHash :: string
  pd_TxIndex :: int
  pd_Address :: string
  pd_Asset :: string
  pd_Amount :: string

datatype post_fate = Lost string | Served | Unanswered string

record watch_group =
  wg_Model :: string
  wg_Chain :: string
  wg_Coin :: string
  wg_Network :: string
  wg_Watches :: "watch_address list"

record ('x, 'k, 'p) scan_env =
  sv_Core :: "('x, 'k, 'p) handler"
  sv_Now :: "'x \<Rightarrow> int"
  sv_Post :: "'x \<Rightarrow> post_fate \<times> 'x"
  sv_ListIncomingTransfers ::
    "string \<Rightarrow> string \<Rightarrow> string \<Rightarrow> string \<Rightarrow> string \<Rightarrow> string \<Rightarrow> int \<Rightarrow> string \<Rightarrow> 'x \<Rightarrow> incoming_transfer_result result \<times> 'x"
  sv_TxFinality :: "string \<Rightarrow> string \<Rightarrow> string \<Rightarrow> string \<Rightarrow> 'x \<Rightarrow> tx_finality result \<times> 'x"
  sv_GetBalance :: "string \<Rightarrow> string \<Rightarrow> string \<Rightarrow> string \<Rightarrow> 'x \<Rightarrow> string result \<times> 'x"
  sv_ProjectNotify :: "(project_deposit_notify \<Rightarrow> 'x \<Rightarrow> unit result \<times> 'x) option"
  sv_GroupOrder :: "watch_group list \<Rightarrow> watch_group list"
  sv_WatchOrder :: "watch_address list \<Rightarrow> watch_address list"

record scanner =
  sn_AccountPageSize :: int
  sn_AccountMaxPages :: int
  sn_AccountMaxEmptyPages :: int
  sn_AccountCursorStallGuard :: int
  sn_WatchLimit :: int
  sn_ReorgWindow :: int
  sn_ReorgCandidateLimit :: int
  sn_ReorgNotFoundThreshold :: int
  sn_OutgoingNotFoundThreshold :: int
  sn_OutgoingNotFoundGrace :: int
  sn_EnableAccountScan :: bool
  sn_EnableUTXOScan :: bool
  sn_EnableReorgReconcile :: bool
  sn_EnableOutboxDispatch :: bool
  sn_EnableOutgoingScan :: bool
  sn_SweepMinBalance :: string
  sn_ProjectChainIDMap :: "(string \<times> int) list"
  sn_ProjectDefaultChainID :: int
  sn_AllowedChains :: "string list"

record 'x system =
  sy_core :: "'x core"
  sy_scan :: scan_db

abbreviation sy_ext :: "'x system \<Rightarrow> 'x" where
  "sy_ext s \<equiv> w_ext (co_world (sy_core s))"

abbreviation sy_ledger :: "'x system \<Rightarrow> ledger_db" where
  "sy_ledger s \<equiv> co_ledger (sy_core s)"

definition set_ext :: "'x \<Rightarrow> 'x system \<Rightarrow> 'x system" where
  "set_ext x s = s\<lparr>sy_core := (sy_core s)\<lparr>co_world := (co_world (sy_core s))\<lparr>w_ext := x\<rparr>\<rparr>\<rparr>"

text \<open>A call with a result: it returns an error or a value, and the system after it.\<close>

type_synonym ('x, 'a) act = "'x system \<Rightarrow> 'a result \<times> 'x system"

definition returnA :: "'a \<Rightarrow> ('x, 'a) act" where
  "returnA x s = (Inr x, s)"

definition failA :: "string \<Rightarrow> ('x, 'a) act" where
  "failA e s = (Inl (Errorf e), s)"

definition bindA :: "('x, 'a) act \<Rightarrow> ('a \<Rightarrow> ('x, 'b) act) \<Rightarrow> ('x, 'b) act" where
  "bindA m f s = (case m s of (Inl e, s') \<Rightarrow> (Inl e, s') | (Inr x, s') \<Rightarrow> f x s')"

text \<open>A loop that returns at the first error, and one that logs errors and goes on.\<close>

fun forA :: "('v \<Rightarrow> ('x, unit) act) \<Rightarrow> 'v list \<Rightarrow> ('x, unit) act" where
  "forA f [] s = (Inr (), s)"
| "forA f (v # vs) s = (case f v s of (Inl e, s') \<Rightarrow> (Inl e, s') | (Inr _, s') \<Rightarrow> forA f vs s')"

definition eachA :: "('v \<Rightarrow> ('x, 'a) act) \<Rightarrow> 'v list \<Rightarrow> 'x system \<Rightarrow> 'x system" where
  "eachA f vs s = fold (\<lambda>v s. snd (f v s)) vs s"

definition externA :: "('x \<Rightarrow> 'a result \<times> 'x) \<Rightarrow> ('x, 'a) act" where
  "externA f s = (case f (sy_ext s) of (r, x) \<Rightarrow> (r, set_ext x s))"

text \<open>Statements on the scanner's tables; the second kind can fail, and then changes nothing.\<close>

definition storeA :: "('x, 'k, 'p) scan_env \<Rightarrow> (int \<Rightarrow> scan_db \<Rightarrow> 'a \<times> scan_db) \<Rightarrow> ('x, 'a) act" where
  "storeA E f s = (case f (sv_Now E (sy_ext s)) (sy_scan s) of (a, db) \<Rightarrow> (Inr a, s\<lparr>sy_scan := db\<rparr>))"

definition execA :: "('x, 'k, 'p) scan_env \<Rightarrow> (int \<Rightarrow> scan_db \<Rightarrow> scan_db) \<Rightarrow> ('x, unit) act" where
  "execA E f = storeA E (\<lambda>now db. ((), f now db))"

definition tryA :: "('x, 'k, 'p) scan_env \<Rightarrow> (int \<Rightarrow> scan_db \<Rightarrow> ('a \<times> scan_db) result) \<Rightarrow> ('x, 'a) act" where
  "tryA E f s = (case f (sv_Now E (sy_ext s)) (sy_scan s) of Inl e \<Rightarrow> (Inl e, s) | Inr (a, db) \<Rightarrow> (Inr a, s\<lparr>sy_scan := db\<rparr>))"


section \<open>The client of wallet-core\<close>

text \<open>\<open>resp.Status\<close> of the answers the handlers give.\<close>

definition http_status :: "int \<Rightarrow> string" where
  "http_status code =
     int_to_string code @ '' '' @
     (if code = 400 then ''Bad Request'' else if code = 403 then ''Forbidden'' else if code = 404 then ''Not Found''
      else if code = 405 then ''Method Not Allowed'' else if code = 409 then ''Conflict''
      else if code = 500 then ''Internal Server Error'' else if code = 501 then ''Not Implemented''
      else if code = 502 then ''Bad Gateway'' else [])"

definition postJSON :: "('x, 'k, 'p) scan_env \<Rightarrow> string \<Rightarrow> ('x core \<Rightarrow> response \<times> 'x core) \<Rightarrow> ('x, unit) act" where
  "postJSON E path serve s =
     (case sv_Post E (sy_ext s) of
        (Lost e, x) \<Rightarrow> (Inl (Errorf e), set_ext x s)
      | (Unanswered e, x) \<Rightarrow> (Inl (Errorf e), (set_ext x s)\<lparr>sy_core := snd (serve (sy_core (set_ext x s)))\<rparr>)
      | (Served, x) \<Rightarrow>
          (case serve (sy_core (set_ext x s)) of
             (resp, co) \<Rightarrow>
               (if fst resp \<ge> 300 then Inl (Errorf (''wallet-core '' @ path @ '' failed: '' @ http_status (fst resp))) else Inr (),
                (set_ext x s)\<lparr>sy_core := co\<rparr>)))"

definition wc_DepositNotify :: "('x, 'k, 'p) scan_env \<Rightarrow> deposit_notify_request \<Rightarrow> ('x, unit) act" where
  "wc_DepositNotify E req = postJSON E ''/v1/deposit/notify'' (DepositNotify (sv_Core E) ''POST'' (Some req))"

definition wc_SweepRun :: "('x, 'k, 'p) scan_env \<Rightarrow> string \<Rightarrow> sweep_run_request \<Rightarrow> ('x, unit) act" where
  "wc_SweepRun E requestID req = postJSON E ''/v1/sweep/run'' (SweepRun (sv_Core E) requestID ''POST'' (Some req))"

definition wc_WithdrawOnchainNotify :: "('x, 'k, 'p) scan_env \<Rightarrow> onchain_notify_request \<Rightarrow> ('x, unit) act" where
  "wc_WithdrawOnchainNotify E req =
     postJSON E ''/v1/withdraw/onchain/notify'' (WithdrawOnchainNotify (sv_Core E) ''POST'' (Some req))"

definition wc_SweepOnchainNotify :: "('x, 'k, 'p) scan_env \<Rightarrow> onchain_notify_request \<Rightarrow> ('x, unit) act" where
  "wc_SweepOnchainNotify E req = postJSON E ''/v1/sweep/onchain/notify'' (SweepOnchainNotify (sv_Core E) ''POST'' (Some req))"

definition wc_TreasuryTransferOnchainNotify :: "('x, 'k, 'p) scan_env \<Rightarrow> onchain_notify_request \<Rightarrow> ('x, unit) act" where
  "wc_TreasuryTransferOnchainNotify E req =
     postJSON E ''/v1/treasury/onchain/notify'' (TreasuryTransferOnchainNotify (sv_Core E) ''POST'' (Some req))"


section \<open>Deposits\<close>

definition deposit_payload_of ::
  "watch_address \<Rightarrow> string \<Rightarrow> int \<Rightarrow> string \<Rightarrow> string \<Rightarrow> string \<Rightarrow> int \<Rightarrow> int \<Rightarrow> int \<Rightarrow> string \<Rightarrow> deposit_payload" where
  "deposit_payload_of w txHash eventIndex amount fromAddr toAddr confirmations requiredConfs unlockConfs scanStatus =
     (let treasury = fallback (sa_TreasuryAccountID w) ''treasury-main'';
          notify = trim_space (sa_AccountID w) \<noteq> trim_space treasury
      in \<lparr>dp_TenantID = sa_TenantID w, dp_AccountID = sa_AccountID w,
          dp_OrderID = depositOrderID txHash eventIndex (sa_AccountID w) (sa_Network w), dp_EventIndex = eventIndex,
          dp_Chain = sa_Chain w, dp_Network = sa_Network w, dp_Coin = sa_Coin w, dp_Amount = amount, dp_TxHash = txHash,
          dp_FromAddress = fromAddr, dp_ToAddress = toAddr, dp_WatchAddress = sa_Address w, dp_TreasuryID = treasury,
          dp_ColdAccountID = trim_space (sa_ColdAccountID w), dp_AutoSweep = sa_AutoSweep w,
          dp_SweepThreshold = trim_space (sa_SweepThreshold w), dp_HotBalanceCap = trim_space (sa_HotBalanceCap w),
          dp_Confirmations = confirmations, dp_RequiredConfs = requiredConfs, dp_UnlockConfs = unlockConfs,
          dp_ScanStatus = scanStatus, dp_Status = mapDepositLedgerStatus scanStatus, dp_ProjectNotify = notify,
          dp_SweepTrigger = (sa_AutoSweep w \<and> notify)\<rparr>)"

text \<open>An event of the outbox, as the scanner fills it in at each of its four places.\<close>

definition outbox_entry :: "string \<Rightarrow> string \<Rightarrow> string \<Rightarrow> string \<Rightarrow> string \<Rightarrow> payload \<Rightarrow> outbox_event" where
  "outbox_entry key tenantID chain network eventType p =
     \<lparr>oe_ID = 0, oe_EventKey = key, oe_TenantID = tenantID, oe_Chain = to_lower (trim_space chain),
      oe_Network = to_lower (trim_space network), oe_EventType = eventType, oe_Payload = p, oe_Attempt = 0, oe_MaxAttempts = 24\<rparr>"

definition putA ::
  "('x, 'k, 'p) scan_env \<Rightarrow> (int \<Rightarrow> outbox_event \<Rightarrow> scan_db \<Rightarrow> scan_db result) \<Rightarrow> outbox_event \<Rightarrow> ('x, unit) act" where
  "putA E put ev = tryA E (\<lambda>now db. bindE (put now ev db) (\<lambda>db'. Inr ((), db')))"

definition enqueueDepositEvent ::
  "('x, 'k, 'p) scan_env \<Rightarrow> watch_address \<Rightarrow> string \<Rightarrow> int \<Rightarrow> string \<Rightarrow> string \<Rightarrow> string \<Rightarrow> int \<Rightarrow> int \<Rightarrow> int \<Rightarrow> string \<Rightarrow> ('x, unit) act"
where
  "enqueueDepositEvent E w txHash eventIndex amount fromAddr toAddr confirmations requiredConfs unlockConfs scanStatus =
     putA E UpsertOutboxEvent
       (outbox_entry (depositEventKey (sa_TenantID w) (sa_Chain w) (sa_Network w) txHash eventIndex) (sa_TenantID w) (sa_Chain w)
          (sa_Network w) ''DEPOSIT_NOTIFY''
          (DepositPayload (deposit_payload_of w txHash eventIndex amount fromAddr toAddr confirmations requiredConfs unlockConfs
             scanStatus)))"

definition min_conf :: "watch_address \<Rightarrow> int" where
  "min_conf w = (if sa_MinConfirmations w \<le> 0 then 1 else sa_MinConfirmations w)"

definition unlock_conf :: "watch_address \<Rightarrow> int" where
  "unlock_conf w =
     (if sa_UnlockConfirmations w > 0 \<and> sa_UnlockConfirmations w < min_conf w then min_conf w else sa_UnlockConfirmations w)"

text \<open>
  One transfer to a watched address: the event is stored, and enqueued when its status changed
  or its confirmations grew. The result tells whether it was enqueued.
\<close>

definition see_transfer ::
  "('x, 'k, 'p) scan_env \<Rightarrow> scanner \<Rightarrow> incoming_transfer \<Rightarrow> int \<Rightarrow> watch_address \<Rightarrow> ('x, bool) act" where
  "see_transfer E S tx eventIdx w =
     (let status = resolveDepositScanStatus (it_Status tx) (it_Confirmations tx) (min_conf w) (unlock_conf w) (sn_ReorgWindow S);
          toAddr = fallback (it_ToAddress tx) (sa_Address w)
      in bindA (storeA E (\<lambda>now. UpsertSeenEvent now w (it_TxHash tx) eventIdx status (it_Confirmations tx) (it_Amount tx)
                 (it_FromAddress tx) toAddr)) (\<lambda>change.
         if \<not> ch_Notify change then returnA False
         else bindA (enqueueDepositEvent E w (it_TxHash tx) eventIdx (it_Amount tx) (it_FromAddress tx) toAddr
                       (it_Confirmations tx) (min_conf w) (unlock_conf w) status) (\<lambda>_. returnA True)))"

definition event_index :: "nat \<Rightarrow> incoming_transfer \<Rightarrow> int" where
  "event_index idx tx = (if it_Index tx \<le> 0 then int idx else it_Index tx)"

definition watches_at :: "watch_address list \<Rightarrow> string \<Rightarrow> watch_address list" where
  "watches_at watches addr = filter (\<lambda>w. to_lower (trim_space (sa_Address w)) = addr) watches"

definition group_transfer ::
  "('x, 'k, 'p) scan_env \<Rightarrow> scanner \<Rightarrow> watch_group \<Rightarrow> string list \<Rightarrow> nat \<times> incoming_transfer \<Rightarrow> ('x, unit) act" where
  "group_transfer E S g managed p =
     (case p of (idx, tx) \<Rightarrow>
        if shouldSkipInternalTransfer (it_FromAddress tx) managed then returnA ()
        else
          let toAddr = to_lower (trim_space (it_ToAddress tx)) in
          if toAddr = [] then returnA ()
          else forA (\<lambda>w. bindA (see_transfer E S tx (event_index idx tx) w) (\<lambda>_. returnA ())) (watches_at (wg_Watches g) toAddr))"

text \<open>The parent hash is compared for the log only.\<close>

definition store_blocks :: "watch_group \<Rightarrow> block_meta list \<Rightarrow> scan_db \<Rightarrow> scan_db" where
  "store_blocks g blocks db =
     fold (\<lambda>b db. if bm_Hash b \<noteq> [] then UpsertBlockHash (wg_Chain g) (wg_Network g) (bm_Number b) (bm_Hash b) (bm_ParentHash b) db
                  else db) blocks db"

text \<open>The page loop; the number is the number of pages left. The result is the checkpoint and the last transaction.\<close>

fun group_pages ::
  "nat \<Rightarrow> ('x, 'k, 'p) scan_env \<Rightarrow> scanner \<Rightarrow> watch_group \<Rightarrow> string list \<Rightarrow> paginationGuard \<Rightarrow> string \<Rightarrow> string \<Rightarrow> string \<Rightarrow>
     ('x, string \<times> string) act" where
  "group_pages 0 E S g managed guard currentCursor nextCheckpoint lastTx = returnA (nextCheckpoint, lastTx)"
| "group_pages (Suc n) E S g managed guard currentCursor nextCheckpoint lastTx =
     bindA (externA (sv_ListIncomingTransfers E (wg_Model g) (wg_Chain g) (wg_Coin g) (wg_Network g) [] currentCursor
              (sn_AccountPageSize S) [])) (\<lambda>result.
     let txs = ir_Items result; nextCursor = ir_NextCursor result;
         lastTx' = (if txs \<noteq> [] then trim_space (it_TxHash (last txs)) else lastTx)
     in
     bindA (execA E (\<lambda>_. store_blocks g (ir_Blocks result))) (\<lambda>_.
     bindA (forA (group_transfer E S g managed) (enumerate 0 txs)) (\<lambda>_.
     case Observe currentCursor nextCursor (length txs) guard of
       ((advanceCursor, stop, reason), guard') \<Rightarrow>
         let nextCheckpoint' = (if advanceCursor \<or> reason = ''max_empty_pages'' then nextCursor else nextCheckpoint) in
         if stop \<or> \<not> advanceCursor then returnA (nextCheckpoint', lastTx')
         else group_pages n E S g managed guard' nextCursor nextCheckpoint' lastTx')))"

definition parse_int64 :: "string \<Rightarrow> int option" where
  "parse_int64 s = (case big_SetString s of None \<Rightarrow> None | Some i \<Rightarrow> if - (2 ^ 63) \<le> i \<and> i < 2 ^ 63 then Some i else None)"

definition scanOneAccountGroup :: "('x, 'k, 'p) scan_env \<Rightarrow> scanner \<Rightarrow> watch_group \<Rightarrow> ('x, unit) act" where
  "scanOneAccountGroup E S g =
     (if wg_Watches g = [] then returnA ()
      else if trim_space (wg_Network g) = [] then
        failA (''group network is required model='' @ wg_Model g @ '' chain='' @ wg_Chain g @ '' coin='' @ wg_Coin g)
      else
        bindA (storeA E (\<lambda>_ db. (GetChainCheckpoint (wg_Model g) (wg_Chain g) (wg_Coin g) (wg_Network g) db, db))) (\<lambda>(chainCursor, _).
        if \<forall>w\<in>set (wg_Watches g). trim_space (sa_Address w) = [] then returnA ()
        else
          bindA (storeA E (\<lambda>_ db. (ListManagedAddresses (wg_Model g) (wg_Chain g) (wg_Network g) db, db))) (\<lambda>managed.
          bindA (group_pages (nat (if sn_AccountMaxPages S \<le> 0 then 1 else sn_AccountMaxPages S)) E S g managed
                   (newPaginationGuard (sn_AccountMaxEmptyPages S) (sn_AccountCursorStallGuard S)) chainCursor chainCursor [])
            (\<lambda>(nextCheckpoint, lastTx).
          bindA (execA E (\<lambda>now. UpsertChainCheckpoint now (wg_Model g) (wg_Chain g) (wg_Coin g) (wg_Network g) nextCheckpoint lastTx)) (\<lambda>_.
          bindA (execA E (\<lambda>now. fold (\<lambda>w. UpsertCheckpoint now w nextCheckpoint lastTx) (wg_Watches g))) (\<lambda>_.
          (case parse_int64 nextCheckpoint of
             None \<Rightarrow> returnA ()
           | Some cursorNum \<Rightarrow>
               if cursorNum > 512 then execA E (\<lambda>_. PruneBlockHashes (wg_Chain g) (wg_Network g) (cursorNum - 512))
               else returnA ())))))))"


definition watch_transfer ::
  "('x, 'k, 'p) scan_env \<Rightarrow> scanner \<Rightarrow> watch_address \<Rightarrow> string list \<Rightarrow> nat \<times> incoming_transfer \<Rightarrow> string \<Rightarrow> ('x, string) act" where
  "watch_transfer E S w managed p lastTx =
     (case p of (idx, tx) \<Rightarrow>
        if shouldSkipInternalTransfer (it_FromAddress tx) managed then returnA lastTx
        else bindA (see_transfer E S tx (event_index idx tx) w) (\<lambda>notified. returnA (if notified then it_TxHash tx else lastTx)))"

fun watch_transfers ::
  "('x, 'k, 'p) scan_env \<Rightarrow> scanner \<Rightarrow> watch_address \<Rightarrow> string list \<Rightarrow> (nat \<times> incoming_transfer) list \<Rightarrow> string \<Rightarrow> ('x, string) act" where
  "watch_transfers E S w managed [] lastTx = returnA lastTx"
| "watch_transfers E S w managed (p # ps) lastTx =
     bindA (watch_transfer E S w managed p lastTx) (\<lambda>lastTx'. watch_transfers E S w managed ps lastTx')"

text \<open>The result of the page loop is the cursor to store and the last transaction.\<close>

fun watch_pages ::
  "nat \<Rightarrow> ('x, 'k, 'p) scan_env \<Rightarrow> scanner \<Rightarrow> watch_address \<Rightarrow> string list \<Rightarrow> paginationGuard \<Rightarrow> string \<Rightarrow> string \<Rightarrow>
     ('x, string \<times> string) act" where
  "watch_pages 0 E S w managed guard cursor lastTx = returnA (cursor, lastTx)"
| "watch_pages (Suc n) E S w managed guard cursor lastTx =
     bindA (externA (sv_ListIncomingTransfers E (sa_Model w) (sa_Chain w) (sa_Coin w) (sa_Network w) (sa_Address w) cursor
              (sn_AccountPageSize S) (trim_space (sa_ContractAddress w)))) (\<lambda>result.
     let txs = ir_Items result; nextCursor = ir_NextCursor result in
     bindA (watch_transfers E S w managed (enumerate 0 txs) lastTx) (\<lambda>lastTx'.
     case Observe cursor nextCursor (length txs) guard of
       ((advanceCursor, stop, reason), guard') \<Rightarrow>
         let cursor' = (if reason = ''max_empty_pages'' then nextCursor else cursor) in
         if stop \<or> \<not> advanceCursor then returnA (cursor', lastTx')
         else watch_pages n E S w managed guard' nextCursor lastTx'))"

definition scanOneWatch :: "('x, 'k, 'p) scan_env \<Rightarrow> scanner \<Rightarrow> string list option \<Rightarrow> watch_address \<Rightarrow> ('x, unit) act" where
  "scanOneWatch E S managed0 w =
     (if trim_space (sa_Network w) = [] then
        failA (''watch network is required tenant='' @ sa_TenantID w @ '' account='' @ sa_AccountID w @ '' chain='' @ sa_Chain w @
          '' address='' @ sa_Address w)
      else if isEVMChain (sa_Chain w) \<and> \<not> isNativeEVMAsset (sa_Chain w) (sa_Coin w) \<and> trim_space (sa_ContractAddress w) = [] then
        returnA ()
      else
        bindA (storeA E (\<lambda>_ db. (GetCheckpoint w db, db))) (\<lambda>cursor.
        bindA (case managed0 of
                 Some m \<Rightarrow> returnA m
               | None \<Rightarrow> storeA E (\<lambda>_ db. (ListManagedAddresses (sa_Model w) (sa_Chain w) (sa_Network w) db, db))) (\<lambda>managed.
        let maxPages = (if equal_fold (trim_space (sa_Model w)) ''utxo'' then 1 else sn_AccountMaxPages S) in
        bindA (watch_pages (nat maxPages) E S w managed
                 (newPaginationGuard (sn_AccountMaxEmptyPages S) (sn_AccountCursorStallGuard S)) cursor []) (\<lambda>(cursor', lastTx).
        execA E (\<lambda>now. UpsertCheckpoint now w cursor' lastTx)))))"

definition scanWatchesIndividuallyWithManaged ::
  "('x, 'k, 'p) scan_env \<Rightarrow> scanner \<Rightarrow> watch_address list \<Rightarrow> string list option \<Rightarrow> 'x system \<Rightarrow> 'x system" where
  "scanWatchesIndividuallyWithManaged E S watches managed = eachA (scanOneWatch E S managed) (sv_WatchOrder E watches)"

definition scanWatchesIndividually ::
  "('x, 'k, 'p) scan_env \<Rightarrow> scanner \<Rightarrow> watch_address list \<Rightarrow> 'x system \<Rightarrow> 'x system" where
  "scanWatchesIndividually E S watches = scanWatchesIndividuallyWithManaged E S watches None"

text \<open>
  The map of groups, as the list of its values in the order of their first watch; Go visits a map
  in any order, and the groups run as goroutines.
\<close>

definition group_of :: "watch_address \<Rightarrow> watch_group" where
  "group_of w =
     \<lparr>wg_Model = to_lower (trim_space (sa_Model w)), wg_Chain = to_lower (trim_space (sa_Chain w)),
      wg_Coin = to_upper (trim_space (sa_Coin w)), wg_Network = to_lower (trim_space (sa_Network w)), wg_Watches = []\<rparr>"

definition watch_groups :: "watch_address list \<Rightarrow> watch_group list" where
  "watch_groups watches =
     map (\<lambda>g. g\<lparr>wg_Watches := filter (\<lambda>w. group_of w = g) watches\<rparr>) (remdups (map group_of watches))"

definition scan_group :: "('x, 'k, 'p) scan_env \<Rightarrow> scanner \<Rightarrow> watch_group \<Rightarrow> ('x, unit) act" where
  "scan_group E S g s =
     (if supportsChainWideAccountScan (wg_Chain g) (wg_Coin g) then scanOneAccountGroup E S g s
      else
        let managed = ListManagedAddresses (wg_Model g) (wg_Chain g) (wg_Network g) (sy_scan s)
        in (Inr (), scanWatchesIndividuallyWithManaged E S (wg_Watches g) (Some managed) s))"

definition scanAccountModel :: "('x, 'k, 'p) scan_env \<Rightarrow> scanner \<Rightarrow> watch_address list \<Rightarrow> 'x system \<Rightarrow> 'x system" where
  "scanAccountModel E S watches = eachA (scan_group E S) (sv_GroupOrder E (watch_groups watches))"

definition scanModel :: "('x, 'k, 'p) scan_env \<Rightarrow> scanner \<Rightarrow> string \<Rightarrow> 'x system \<Rightarrow> 'x system" where
  "scanModel E S model s =
     (let watches = ListWatchAddresses model (sn_WatchLimit S) (sn_AllowedChains S) (wallet_addresses (co_registry (sy_core s))) (sy_scan s) in
      if watches = [] then s
      else if equal_fold (trim_space model) ''account'' then scanAccountModel E S watches s
      else scanWatchesIndividually E S watches s)"


section \<open>Reorganisations\<close>

definition buildWatchFromCandidate :: "reorg_candidate \<Rightarrow> int \<Rightarrow> int \<Rightarrow> watch_address" where
  "buildWatchFromCandidate c minConf unlockConf =
     \<lparr>sa_TenantID = sa_TenantID c, sa_AccountID = sa_AccountID c, sa_Model = sa_Model c, sa_Chain = sa_Chain c, sa_Coin = sa_Coin c,
      sa_Network = sa_Network c, sa_Address = sa_Address c, sa_ContractAddress = sa_ContractAddress c,
      sa_MinConfirmations = minConf, sa_UnlockConfirmations = unlockConf,
      sa_TreasuryAccountID = fallback (sa_TreasuryAccountID c) ''treasury-main'', sa_ColdAccountID = trim_space (sa_ColdAccountID c),
      sa_AutoSweep = sa_AutoSweep c, sa_SweepThreshold = sa_SweepThreshold c, sa_HotBalanceCap = sa_HotBalanceCap c\<rparr>"

text \<open>The status and the confirmations a candidate gets, or \<open>None\<close> when the loop goes on to the next one.\<close>

definition candidate_status ::
  "('x, 'k, 'p) scan_env \<Rightarrow> scanner \<Rightarrow> reorg_candidate \<Rightarrow> tx_finality \<Rightarrow> int \<Rightarrow> int \<Rightarrow> ('x, (string \<times> int) option) act" where
  "candidate_status E S c finality minConf unlockConf =
     (if \<not> tf_Found finality then
        bindA (tryA E (\<lambda>now. IncrementSeenEventNotFound now c)) (\<lambda>miss.
        returnA (if miss < sn_ReorgNotFoundThreshold S then None else Some (''REORGED'', 0)))
      else
        bindA (if rg_NotFoundCount c > 0 then execA E (\<lambda>now. ResetSeenEventNotFound now c) else returnA ()) (\<lambda>_.
        returnA (Some (resolveDepositScanStatus (tf_Status finality) (tf_Confirmations finality) minConf unlockConf (sn_ReorgWindow S),
          tf_Confirmations finality))))"

definition reconcile_candidate :: "('x, 'k, 'p) scan_env \<Rightarrow> scanner \<Rightarrow> reorg_candidate \<Rightarrow> ('x, unit) act" where
  "reconcile_candidate E S c =
     (if trim_space (sa_Network c) = [] then returnA ()
      else
        let minConf = (if sa_MinConfirmations c \<le> 0 then 1 else sa_MinConfirmations c);
            unlockConf = (if sa_UnlockConfirmations c > 0 \<and> sa_UnlockConfirmations c < minConf then minConf else sa_UnlockConfirmations c)
        in
        bindA (externA (sv_TxFinality E (sa_Chain c) (sa_Coin c) (sa_Network c) (rg_TxHash c))) (\<lambda>finality.
        bindA (candidate_status E S c finality minConf unlockConf) (\<lambda>next.
        case next of
          None \<Rightarrow> returnA ()
        | Some (nextStatus, nextConf) \<Rightarrow>
            let w = buildWatchFromCandidate c minConf unlockConf; toAddr = fallback (rg_ToAddress c) (sa_Address c) in
            bindA (storeA E (\<lambda>now. UpsertSeenEvent now w (rg_TxHash c) (rg_EventIndex c) nextStatus nextConf (rg_Amount c)
                     (rg_FromAddress c) toAddr)) (\<lambda>change.
            if \<not> ch_Notify change then returnA ()
            else enqueueDepositEvent E w (rg_TxHash c) (rg_EventIndex c) (rg_Amount c) (rg_FromAddress c) toAddr nextConf minConf
                   unlockConf nextStatus))))"

definition reconcileReorgCandidates :: "('x, 'k, 'p) scan_env \<Rightarrow> scanner \<Rightarrow> 'x system \<Rightarrow> 'x system" where
  "reconcileReorgCandidates E S s =
     (let limit = (if sn_ReorgCandidateLimit S \<le> 0 then sn_WatchLimit S else sn_ReorgCandidateLimit S) in
      eachA (reconcile_candidate E S) (ListReorgCandidates (sn_ReorgWindow S) limit (sn_AllowedChains S) (sy_scan s)) s)"


section \<open>The outbox\<close>

definition notifyProjectDeposit :: "('x, 'k, 'p) scan_env \<Rightarrow> scanner \<Rightarrow> deposit_payload \<Rightarrow> ('x, unit) act" where
  "notifyProjectDeposit E S p =
     (case sv_ProjectNotify E of
        None \<Rightarrow> returnA ()
      | Some notify \<Rightarrow>
          if to_upper (trim_space (dp_Status p)) \<noteq> ''CONFIRMED'' then returnA ()
          else case resolveProjectChainID (sn_ProjectChainIDMap S) (sn_ProjectDefaultChainID S) (dp_Chain p) (dp_Network p) of
            None \<Rightarrow> failA (''project notify chain id not configured chain='' @ dp_Chain p @ '' network='' @ dp_Network p)
          | Some chainID \<Rightarrow>
              let address = (if trim_space (dp_WatchAddress p) = [] then trim_space (dp_ToAddress p) else trim_space (dp_WatchAddress p)) in
              if address = [] then
                failA (''project notify address empty tenant='' @ dp_TenantID p @ '' order='' @ dp_OrderID p @ '' tx='' @ dp_TxHash p)
              else
                externA (notify \<lparr>pd_BizID = ''walletsaas:'' @ to_lower (trim_space (dp_Chain p)) @ '':'' @
                                   to_lower (trim_space (dp_Network p)) @ '':'' @ trim_space (dp_TxHash p) @ '':'' @
                                   int_to_string (dp_EventIndex p),
                                 pd_ChainID = chainID, pd_TxHash = trim_space (dp_TxHash p), pd_TxIndex = dp_EventIndex p,
                                 pd_Address = address, pd_Asset = to_upper (trim_space (dp_Coin p)),
                                 pd_Amount = trim_space (dp_Amount p)\<rparr>))"

definition deposit_request :: "deposit_payload \<Rightarrow> deposit_notify_request" where
  "deposit_request p =
     \<lparr>di_TenantID = dp_TenantID p, di_AccountID = dp_AccountID p, di_OrderID = dp_OrderID p, di_Chain = dp_Chain p,
      di_Network = dp_Network p, di_Coin = dp_Coin p, di_Amount = dp_Amount p, di_TxHash = dp_TxHash p,
      di_FromAddress = dp_FromAddress p, di_ToAddress = dp_ToAddress p, di_Confirmations = dp_Confirmations p,
      di_RequiredConfs = dp_RequiredConfs p, di_UnlockConfs = dp_UnlockConfs p, di_ScanStatus = dp_ScanStatus p, di_Status = dp_Status p\<rparr>"

definition enqueueProjectDepositOutboxEvent :: "('x, 'k, 'p) scan_env \<Rightarrow> deposit_payload \<Rightarrow> ('x, unit) act" where
  "enqueueProjectDepositOutboxEvent E p =
     putA E InsertOutboxEventIfAbsent
       (outbox_entry (projectDepositEventKey (dp_TenantID p) (dp_Chain p) (dp_Network p) (dp_TxHash p) (dp_EventIndex p))
          (dp_TenantID p) (dp_Chain p) (dp_Network p) ''PROJECT_DEPOSIT_NOTIFY'' (DepositPayload p))"

definition enqueueSweepTriggerOutboxEvent :: "('x, 'k, 'p) scan_env \<Rightarrow> deposit_payload \<Rightarrow> ('x, unit) act" where
  "enqueueSweepTriggerOutboxEvent E p =
     putA E InsertOutboxEventIfAbsent
       (outbox_entry (sweepTriggerEventKey (dp_TenantID p) (dp_Chain p) (dp_Network p) (dp_TxHash p) (dp_EventIndex p))
          (dp_TenantID p) (dp_Chain p) (dp_Network p) ''SWEEP_TRIGGER'' (DepositPayload p))"

text \<open>The result of the two enqueue calls is logged and dropped.\<close>

definition lax :: "('x, unit) act \<Rightarrow> ('x, unit) act" where
  "lax m s = (Inr (), snd (m s))"

definition handleDepositOutboxEvent :: "('x, 'k, 'p) scan_env \<Rightarrow> outbox_event \<Rightarrow> ('x, unit) act" where
  "handleDepositOutboxEvent E ev =
     (let p = read_deposit (oe_Payload ev) in
      if dp_TenantID p = [] \<or> dp_AccountID p = [] \<or> dp_OrderID p = [] \<or> dp_Chain p = [] \<or> dp_Network p = [] then
        failA ''invalid deposit outbox payload''
      else
        bindA (wc_DepositNotify E (deposit_request p)) (\<lambda>_.
        if to_upper (trim_space (dp_Status p)) \<noteq> ''CONFIRMED'' then returnA ()
        else
          bindA (if dp_ProjectNotify p then lax (enqueueProjectDepositOutboxEvent E p) else returnA ()) (\<lambda>_.
          if dp_SweepTrigger p then lax (enqueueSweepTriggerOutboxEvent E p) else returnA ())))"

definition handleProjectDepositOutboxEvent :: "('x, 'k, 'p) scan_env \<Rightarrow> scanner \<Rightarrow> outbox_event \<Rightarrow> ('x, unit) act" where
  "handleProjectDepositOutboxEvent E S ev =
     (let p = read_deposit (oe_Payload ev) in if \<not> dp_ProjectNotify p then returnA () else notifyProjectDeposit E S p)"

definition sweep_payload_of :: "deposit_payload \<Rightarrow> sweep_payload" where
  "sweep_payload_of p =
     \<lparr>swp_TenantID = dp_TenantID p, swp_SweepOrderID = sweepOrderID (dp_TxHash p) (dp_EventIndex p) (dp_AccountID p) (dp_Network p),
      swp_FromAccountID = dp_AccountID p, swp_TreasuryAccountID = fallback (dp_TreasuryID p) ''treasury-main'',
      swp_ColdAccountID = trim_space (dp_ColdAccountID p), swp_HotBalanceCap = trim_space (dp_HotBalanceCap p),
      swp_Chain = dp_Chain p, swp_Network = dp_Network p, swp_Asset = to_upper (dp_Coin p), swp_Amount = dp_Amount p\<rparr>"

definition handleSweepTriggerOutboxEvent :: "('x, 'k, 'p) scan_env \<Rightarrow> scanner \<Rightarrow> outbox_event \<Rightarrow> ('x, unit) act" where
  "handleSweepTriggerOutboxEvent E S ev =
     (let p = read_deposit (oe_Payload ev) in
      if \<not> dp_SweepTrigger p \<or> \<not> dp_AutoSweep p then returnA ()
      else
        let t = trim_space (dp_SweepThreshold p); threshold = (if t = [] \<or> t = ''0'' then trim_space (sn_SweepMinBalance S) else t);
            watchAddr = (if trim_space (dp_WatchAddress p) = [] then trim_space (dp_ToAddress p) else trim_space (dp_WatchAddress p))
        in
        if watchAddr = [] then returnA ()
        else
          bindA (externA (sv_GetBalance E (dp_Chain p) (dp_Coin p) (dp_Network p) watchAddr)) (\<lambda>currentBalance.
          if \<not> meetsThreshold currentBalance threshold then returnA ()
          else
            putA E InsertOutboxEventIfAbsent
              (outbox_entry (sweepEventKey (dp_TenantID p) (dp_Chain p) (dp_Network p) (dp_TxHash p) (dp_EventIndex p))
                 (dp_TenantID p) (dp_Chain p) (dp_Network p) ''SWEEP_RUN'' (SweepPayload (sweep_payload_of p)))))"

definition handleSweepOutboxEvent :: "('x, 'k, 'p) scan_env \<Rightarrow> outbox_event \<Rightarrow> ('x, unit) act" where
  "handleSweepOutboxEvent E ev =
     (let p = read_sweep (oe_Payload ev) in
      if swp_TenantID p = [] \<or> swp_SweepOrderID p = [] \<or> swp_FromAccountID p = [] \<or> swp_Chain p = [] \<or> swp_Network p = [] then
        failA ''invalid sweep outbox payload''
      else
        wc_SweepRun E (''scan-outbox-sweep-'' @ int_to_string (oe_ID ev) @ ''-'' @ int_to_string (oe_Attempt ev + 1))
          \<lparr>sq_TenantID = swp_TenantID p, sq_SweepOrderID = swp_SweepOrderID p, sq_FromAccountID = swp_FromAccountID p,
           sq_TreasuryAccountID = swp_TreasuryAccountID p, sq_ColdAccountID = swp_ColdAccountID p, sq_HotBalanceCap = swp_HotBalanceCap p,
           sq_Chain = swp_Chain p, sq_Network = swp_Network p, sq_Asset = swp_Asset p, sq_Amount = swp_Amount p\<rparr>)"

definition handle_event :: "('x, 'k, 'p) scan_env \<Rightarrow> scanner \<Rightarrow> outbox_event \<Rightarrow> ('x, unit) act" where
  "handle_event E S ev =
     (let ty = to_upper (trim_space (oe_EventType ev)) in
      if ty = ''DEPOSIT_NOTIFY'' then handleDepositOutboxEvent E ev
      else if ty = ''PROJECT_DEPOSIT_NOTIFY'' then handleProjectDepositOutboxEvent E S ev
      else if ty = ''SWEEP_TRIGGER'' then handleSweepTriggerOutboxEvent E S ev
      else if ty = ''SWEEP_RUN'' then handleSweepOutboxEvent E ev
      else failA (''unsupported outbox event type='' @ oe_EventType ev))"

definition dispatch_event :: "('x, 'k, 'p) scan_env \<Rightarrow> scanner \<Rightarrow> outbox_event \<Rightarrow> ('x, unit) act" where
  "dispatch_event E S ev s =
     (case handle_event E S ev s of
        (Inl e, s') \<Rightarrow> execA E (\<lambda>now. MarkOutboxEventRetry now ev (error_text e)) s'
      | (Inr _, s') \<Rightarrow> execA E (\<lambda>now. MarkOutboxEventDone now (oe_ID ev)) s')"

definition dispatchOutbox :: "('x, 'k, 'p) scan_env \<Rightarrow> scanner \<Rightarrow> 'x system \<Rightarrow> 'x system" where
  "dispatchOutbox E S s =
     eachA (dispatch_event E S)
       (ListPendingOutboxEvents (sv_Now E (sy_ext s)) (sn_WatchLimit S) (sn_AllowedChains S) (sy_scan s)) s"


section \<open>Outgoing transactions\<close>

text \<open>The three kinds of orders, and the notification each is reported with.\<close>

datatype outgoing_kind = OutWithdraw | OutSweep | OutTransfer

definition kind_name :: "outgoing_kind \<Rightarrow> string" where
  "kind_name k = (case k of OutWithdraw \<Rightarrow> ''withdraw'' | OutSweep \<Rightarrow> ''sweep'' | OutTransfer \<Rightarrow> ''treasury_transfer'')"

definition notify_outgoing :: "('x, 'k, 'p) scan_env \<Rightarrow> outgoing_kind \<Rightarrow> onchain_notify_request \<Rightarrow> ('x, unit) act" where
  "notify_outgoing E k =
     (case k of OutWithdraw \<Rightarrow> wc_WithdrawOnchainNotify E | OutSweep \<Rightarrow> wc_SweepOnchainNotify E
      | OutTransfer \<Rightarrow> wc_TreasuryTransferOnchainNotify E)"

definition onchain_request :: "'a pending_order_scheme \<Rightarrow> string \<Rightarrow> string \<Rightarrow> int \<Rightarrow> onchain_notify_request" where
  "onchain_request it status reason confirmations =
     \<lparr>on_TenantID = po_TenantID it, on_OrderID = po_OrderID it, on_TxHash = po_TxHash it, on_Status = status, on_Reason = reason,
      on_Confirmations = confirmations, on_RequiredConfs = max (po_RequiredConfs it) 1\<rparr>"

text \<open>\<open>age.Round(time.Second)\<close> printed as seconds; it only enters the text of the reason.\<close>

definition not_found_reason :: "int \<Rightarrow> int \<Rightarrow> string" where
  "not_found_reason count age =
     ''onchain tx not found after '' @ int_to_string count @ '' checks and '' @ int_to_string ((age + 500) div 1000) @ ''s since broadcast''"

definition handleMissingOutgoingTx ::
  "('x, 'k, 'p) scan_env \<Rightarrow> scanner \<Rightarrow> outgoing_kind \<Rightarrow> 'a pending_order_scheme \<Rightarrow> ('x, unit) act" where
  "handleMissingOutgoingTx E S k it =
     bindA (storeA E (\<lambda>now. IncrementOutgoingNotFound now (kind_name k) (po_TenantID it) (po_OrderID it) (po_Chain it) (po_Network it)
              (po_TxHash it))) (\<lambda>count.
     bindA (storeA E (\<lambda>now db. (now - po_BroadcastedAt it, db))) (\<lambda>age.
     if \<not> shouldFailOutgoingNotFound (po_Chain it) age count (sn_OutgoingNotFoundThreshold S) (sn_OutgoingNotFoundGrace S) then returnA ()
     else
       bindA (notify_outgoing E k (onchain_request it ''FAILED'' (not_found_reason count age) 0)) (\<lambda>_.
       execA E (\<lambda>_. ClearOutgoingNotFound (kind_name k) (po_TenantID it) (po_OrderID it) (po_TxHash it)))))"

text \<open>One order of a list; \<open>replaced\<close> is true for an attempt of a withdrawal that another one replaced.\<close>

definition check_outgoing ::
  "('x, 'k, 'p) scan_env \<Rightarrow> scanner \<Rightarrow> outgoing_kind \<Rightarrow> bool \<Rightarrow> 'a pending_order_scheme \<Rightarrow> ('x, unit) act" where
  "check_outgoing E S k replaced it =
     (if trim_space (po_Network it) = [] then returnA ()
      else
        bindA (externA (sv_TxFinality E (po_Chain it) [] (po_Network it) (po_TxHash it))) (\<lambda>finality.
        if \<not> tf_Found finality then (if replaced then returnA () else handleMissingOutgoingTx E S k it)
        else
          bindA (execA E (\<lambda>_. ClearOutgoingNotFound (kind_name k) (po_TenantID it) (po_OrderID it) (po_TxHash it))) (\<lambda>_.
          let status = to_upper (trim_space (tf_Status finality)) in
          if status = ''REVERTED'' \<or> status = ''FAILED'' then
            (if replaced then returnA ()
             else notify_outgoing E k (onchain_request it ''FAILED'' ''onchain tx reverted'' (tf_Confirmations finality)))
          else if status = ''PENDING'' then returnA ()
          else notify_outgoing E k (onchain_request it ''CONFIRMED'' [] (tf_Confirmations finality)))))"

definition scanOutgoingConfirmations :: "('x, 'k, 'p) scan_env \<Rightarrow> scanner \<Rightarrow> 'x system \<Rightarrow> 'x system" where
  "scanOutgoingConfirmations E S s =
     (let s1 = eachA (\<lambda>it. check_outgoing E S OutWithdraw (equal_fold (trim_space (pw_AttemptStatus it)) ''REPLACED'') it)
                 (ListPendingWithdraws (sn_WatchLimit S) (sy_ledger s)) s;
          s2 = eachA (check_outgoing E S OutSweep False) (ListPendingSweeps (sn_WatchLimit S) (sy_ledger s1)) s1
      in eachA (check_outgoing E S OutTransfer False) (ListPendingTreasuryTransfers (sn_WatchLimit S) (sy_ledger s2)) s2)"


section \<open>The scanner\<close>

text \<open>The defaults \<open>Run\<close> sets before its first tick.\<close>

definition scanner_defaults :: "scanner \<Rightarrow> scanner" where
  "scanner_defaults S =
     (let or = (\<lambda>v d. if v \<le> 0 then d else v :: int); limit = or (sn_WatchLimit S) 500 in
      S\<lparr>sn_AccountPageSize := or (sn_AccountPageSize S) 50, sn_AccountMaxPages := or (sn_AccountMaxPages S) 2,
        sn_AccountMaxEmptyPages := or (sn_AccountMaxEmptyPages S) 2, sn_AccountCursorStallGuard := or (sn_AccountCursorStallGuard S) 1,
        sn_WatchLimit := limit, sn_ReorgWindow := or (sn_ReorgWindow S) 6, sn_ReorgCandidateLimit := or (sn_ReorgCandidateLimit S) limit,
        sn_ReorgNotFoundThreshold := or (sn_ReorgNotFoundThreshold S) 3,
        sn_OutgoingNotFoundThreshold := or (sn_OutgoingNotFoundThreshold S) 3,
        sn_OutgoingNotFoundGrace := or (sn_OutgoingNotFoundGrace S) 45000\<rparr>)"

definition tick :: "('x, 'k, 'p) scan_env \<Rightarrow> scanner \<Rightarrow> 'x system \<Rightarrow> 'x system" where
  "tick E S s =
     (let s1 = (if sn_EnableAccountScan S then scanModel E S ''account'' s else s);
          s2 = (if sn_EnableUTXOScan S then scanModel E S ''utxo'' s1 else s1);
          s3 = (if sn_EnableReorgReconcile S then reconcileReorgCandidates E S s2 else s2);
          s4 = (if sn_EnableOutboxDispatch S then dispatchOutbox E S s3 else s3)
      in if sn_EnableOutgoingScan S then scanOutgoingConfirmations E S s4 else s4)"

end
