(* ===== verification/Scan_Invariants.thy ===== *)
theory Scan_Invariants
  imports Scan_Worker
begin

text \<open>
  What every tick of the scanner of account chains keeps, as the locale \<open>scan_invariant\<close>: a predicate
  on the scanner's tables that each of its statements keeps is kept by every tick, whatever the
  chain gateway and the network do. It is interpreted for the well-formedness of the tables and
  for an event of the outbox that is closed.
\<close>


section \<open>What every tick keeps\<close>

text \<open>
  The contract of a predicate on the scanner's tables that every statement of the scanner keeps.
  \<open>may_mark\<close> describes the events of the outbox that a dispatch may mark: those that were pending
  when it listed them.
\<close>

locale scan_invariant =
  fixes I :: "scan_db \<Rightarrow> bool" and may_mark :: "outbox_event \<Rightarrow> bool"
  assumes seen: "I db \<Longrightarrow> I (snd (UpsertSeenEvent now w h i st c a f t db))"
    and missed: "I db \<Longrightarrow> IncrementSeenEventNotFound now cand db = Inr (n, db') \<Longrightarrow> I db'"
    and found: "I db \<Longrightarrow> I (ResetSeenEventNotFound now cand db)"
    and block: "I db \<Longrightarrow> I (UpsertBlockHash ch nw number bhash parent db)"
    and prune: "I db \<Longrightarrow> I (PruneBlockHashes ch nw number db)"
    and chain_checkpoint: "I db \<Longrightarrow> I (UpsertChainCheckpoint now m ch coin nw cur h db)"
    and checkpoint: "I db \<Longrightarrow> I (UpsertCheckpoint now w cur h db)"
    and out_missed: "I db \<Longrightarrow> I (snd (IncrementOutgoingNotFound now kind te ord ch nw h db))"
    and out_found: "I db \<Longrightarrow> I (ClearOutgoingNotFound kind te ord h db)"
    and upsert: "I db \<Longrightarrow> UpsertOutboxEvent now (outbox_entry (depositEventKey te ch nw h i) te' ch' nw' ty p) db = Inr db' \<Longrightarrow> I db'"
    and insert: "I db \<Longrightarrow> kind \<in> {''project-dep'', ''sweep-trigger'', ''sweep''} \<Longrightarrow>
      InsertOutboxEventIfAbsent now (outbox_entry (event_key kind te ch nw h i) te' ch' nw' ty p) db = Inr db' \<Longrightarrow> I db'"
    and pending: "I db \<Longrightarrow> ev \<in> set (ListPendingOutboxEvents now limit allowed db) \<Longrightarrow> may_mark ev"
    and mark_ok: "I db \<Longrightarrow> may_mark ev \<Longrightarrow> I (MarkOutboxEventDone now (oe_ID ev) db)"
    and mark_retry: "I db \<Longrightarrow> may_mark ev \<Longrightarrow> I (MarkOutboxEventRetry now ev reason db)"
begin

definition keeps :: "('x, 'a) act \<Rightarrow> bool" where
  "keeps m \<longleftrightarrow> (\<forall>s. I (sy_scan s) \<longrightarrow> I (sy_scan (snd (m s))))"

named_theorems keeps_intro "rules for actions that keep the predicate"

lemma keepsD: "keeps m \<Longrightarrow> I (sy_scan s) \<Longrightarrow> I (sy_scan (snd (m s)))"
  by (simp add: keeps_def)

lemma keeps_pure [keeps_intro]: "keeps (returnA x)" "keeps (failA e)" "keeps (externA f)"
  by (auto simp: keeps_def returnA_def failA_def externA_def set_ext_def split: prod.splits)

lemma keeps_bind [keeps_intro]: "keeps m \<Longrightarrow> (\<And>x. keeps (f x)) \<Longrightarrow> keeps (bindA m f)"
  unfolding keeps_def bindA_def by (fastforce split: prod.splits sum.splits dest: spec)

lemma keeps_for [keeps_intro]: "(\<And>v. keeps (f v)) \<Longrightarrow> keeps (forA f vs)"
proof (induction vs)
  case (Cons v vs)
  have "forA f (v # vs) = bindA (f v) (\<lambda>_. forA f vs)" by (rule ext) (simp add: bindA_def)
  then show ?case using Cons by (simp add: keeps_bind)
qed (simp add: keeps_def)

lemma keeps_each: "(\<And>v. v \<in> set vs \<Longrightarrow> keeps (f v)) \<Longrightarrow> I (sy_scan s) \<Longrightarrow> I (sy_scan (eachA f vs s))"
  by (induction vs arbitrary: s) (simp_all add: eachA_def keeps_def)

lemma keeps_store [keeps_intro]: "(\<And>now db. I db \<Longrightarrow> I (snd (f now db))) \<Longrightarrow> keeps (storeA E f)"
  by (auto simp: keeps_def storeA_def split: prod.splits) (metis snd_conv)

lemma keeps_exec [keeps_intro]: "(\<And>now db. I db \<Longrightarrow> I (f now db)) \<Longrightarrow> keeps (execA E f)"
  unfolding execA_def by (rule keeps_store) simp

lemma keeps_try [keeps_intro]: "(\<And>now db a db'. I db \<Longrightarrow> f now db = Inr (a, db') \<Longrightarrow> I db') \<Longrightarrow> keeps (tryA E f)"
  by (auto simp: keeps_def tryA_def split: sum.splits)

lemma keeps_post [keeps_intro]: "keeps (postJSON E path serve)"
  by (auto simp: keeps_def postJSON_def set_ext_def split: prod.splits post_fate.splits)

lemma keeps_lax [keeps_intro]: "keeps m \<Longrightarrow> keeps (lax m)"
  by (simp add: keeps_def lax_def)

lemma keeps_if [keeps_intro]: "keeps m \<Longrightarrow> keeps m' \<Longrightarrow> keeps (if b then m else m')"
  by simp

lemma keeps_case [keeps_intro]:
  "keeps m \<Longrightarrow> (\<And>x. keeps (f x)) \<Longrightarrow> keeps (case o' of None \<Rightarrow> m | Some x \<Rightarrow> f x)"
  "(\<And>x y. keeps (g x y)) \<Longrightarrow> keeps (case p of (x, y) \<Rightarrow> g x y)"
  by (auto split: option.splits prod.splits)

lemma keeps_enqueue [keeps_intro]: "keeps (enqueueDepositEvent E w h i a f t c rc uc st)"
  unfolding enqueueDepositEvent_def putA_def by (rule keeps_try) (auto simp: bindE_eq_Inr dest: upsert)

lemma keeps_insert [keeps_intro]: "kind \<in> {''project-dep'', ''sweep-trigger'', ''sweep''} \<Longrightarrow>
    keeps (putA E InsertOutboxEventIfAbsent (outbox_entry (event_key kind te ch nw h i) te' ch' nw' ty p))"
  unfolding putA_def by (rule keeps_try) (auto simp: bindE_eq_Inr dest: insert)

lemma keeps_see [keeps_intro]: "keeps (see_transfer E S tx i w)"
  unfolding see_transfer_def Let_def by (intro keeps_intro seen)

lemma fold_keeps: "(\<And>x db. I db \<Longrightarrow> I (f x db)) \<Longrightarrow> I db \<Longrightarrow> I (fold f xs db)"
  by (induction xs arbitrary: db) simp_all

lemma keeps_group_transfer [keeps_intro]: "keeps (group_transfer E S g managed p)"
  unfolding group_transfer_def Let_def by (intro keeps_intro)

lemma keeps_blocks: "I db \<Longrightarrow> I (store_blocks g blocks db)"
  unfolding store_blocks_def by (rule fold_keeps) (auto intro: block)

lemma keeps_group_pages [keeps_intro]: "keeps (group_pages n E S g managed guard cur next lastTx)"
proof (induction n arbitrary: guard cur "next" lastTx)
  case (Suc n)
  show ?case unfolding group_pages.simps Let_def by (intro keeps_intro Suc keeps_blocks)
qed (simp add: keeps_intro)

lemma keeps_group [keeps_intro]: "keeps (scanOneAccountGroup E S g)"
  unfolding scanOneAccountGroup_def
  by (intro keeps_intro chain_checkpoint prune) (auto intro: fold_keeps checkpoint)

lemma keeps_watch_transfers [keeps_intro]: "keeps (watch_transfers E S w managed ps lastTx)"
  by (induction ps arbitrary: lastTx) (simp_all add: watch_transfer_def keeps_intro)

lemma keeps_watch_pages [keeps_intro]: "keeps (watch_pages n E S w managed guard cur lastTx)"
proof (induction n arbitrary: guard cur lastTx)
  case (Suc n)
  show ?case unfolding watch_pages.simps Let_def by (intro keeps_intro Suc)
qed (simp add: keeps_intro)

lemma keeps_watch [keeps_intro]: "keeps (scanOneWatch E S managed w)"
  unfolding scanOneWatch_def Let_def by (intro keeps_intro checkpoint) simp_all

lemma scan_group_keeps [keeps_intro]: "keeps (scan_group E S g)"
  using keepsD [OF keeps_group [of E S g]] keeps_each [OF keeps_watch]
  by (auto simp: keeps_def scan_group_def Let_def scanWatchesIndividuallyWithManaged_def)

lemma scanModel_keeps: "I (sy_scan s) \<Longrightarrow> I (sy_scan (scanModel E S model s))"
  by (auto simp: scanModel_def Let_def scanAccountModel_def scanWatchesIndividually_def scanWatchesIndividuallyWithManaged_def
      intro!: keeps_each keeps_intro)

lemma keeps_candidate [keeps_intro]: "keeps (reconcile_candidate E S c)"
  unfolding reconcile_candidate_def candidate_status_def Let_def by (intro keeps_intro seen found) (auto dest: missed)

lemma keeps_project [keeps_intro]: "keeps (notifyProjectDeposit E S p)"
  unfolding notifyProjectDeposit_def Let_def by (intro keeps_intro)

lemma keeps_follow_up [keeps_intro]:
  "keeps (enqueueProjectDepositOutboxEvent E p)" "keeps (enqueueSweepTriggerOutboxEvent E p)"
  unfolding enqueueProjectDepositOutboxEvent_def enqueueSweepTriggerOutboxEvent_def projectDepositEventKey_def sweepTriggerEventKey_def
  by (rule keeps_insert, simp)+

lemma keeps_handlers [keeps_intro]:
  "keeps (handleDepositOutboxEvent E ev)" "keeps (handleProjectDepositOutboxEvent E S ev)"
  "keeps (handleSweepTriggerOutboxEvent E S ev)" "keeps (handleSweepOutboxEvent E ev)"
  unfolding handleDepositOutboxEvent_def handleProjectDepositOutboxEvent_def handleSweepTriggerOutboxEvent_def
    handleSweepOutboxEvent_def sweepEventKey_def wc_DepositNotify_def wc_SweepRun_def Let_def
  by (intro keeps_intro; simp)+

lemma keeps_handle [keeps_intro]: "keeps (handle_event E S ev)"
  unfolding handle_event_def Let_def by (intro keeps_intro)

lemma keeps_dispatch: "may_mark ev \<Longrightarrow> keeps (dispatch_event E S ev)"
  using keepsD [OF keeps_handle [of E S ev]]
  by (auto simp: keeps_def dispatch_event_def execA_def storeA_def split: prod.splits sum.splits)
     (metis mark_ok mark_retry snd_conv)+

lemma dispatchOutbox_keeps: "I (sy_scan s) \<Longrightarrow> I (sy_scan (dispatchOutbox E S s))"
  unfolding dispatchOutbox_def by (rule keeps_each) (auto intro: keeps_dispatch dest: pending)

lemma keeps_notify [keeps_intro]: "keeps (notify_outgoing E k req)"
  by (cases k) (simp_all add: notify_outgoing_def wc_WithdrawOnchainNotify_def wc_SweepOnchainNotify_def
      wc_TreasuryTransferOnchainNotify_def keeps_intro)

lemma keeps_outgoing [keeps_intro]: "keeps (check_outgoing E S k replaced it)"
  unfolding check_outgoing_def handleMissingOutgoingTx_def Let_def by (intro keeps_intro out_found out_missed) simp_all

theorem tick_keeps: "I (sy_scan s) \<Longrightarrow> I (sy_scan (tick E S s))"
  unfolding tick_def Let_def reconcileReorgCandidates_def scanOutgoingConfirmations_def
  by (auto intro!: scanModel_keeps dispatchOutbox_keeps keeps_each keeps_intro)

lemma ticks_keep: "I (sy_scan s) \<Longrightarrow> I (sy_scan (fold (\<lambda>(E, S). tick E S) es s))"
  by (induction es arbitrary: s) (auto intro: tick_keeps)

end


section \<open>Well-formed tables\<close>

definition watch_key :: "'a watch_address_scheme \<Rightarrow> string \<times> string \<times> string \<times> string \<times> string \<times> string \<times> string" where
  "watch_key w = (sa_TenantID w, sa_AccountID w, sa_Model w, sa_Chain w, sa_Coin w, sa_Network w, sa_Address w)"

definition ck_key :: "checkpoint_row \<Rightarrow> string \<times> string \<times> string \<times> string \<times> string \<times> string \<times> string" where
  "ck_key r = (ck_tenant r, ck_account r, ck_model r, ck_chain r, ck_coin r, ck_network r, ck_address r)"

definition cc_key :: "chain_checkpoint_row \<Rightarrow> string \<times> string \<times> string \<times> string" where
  "cc_key r = (cc_model r, cc_chain r, cc_coin r, cc_network r)"

definition se_key :: "seen_row \<Rightarrow> (string \<times> string \<times> string \<times> string \<times> string \<times> string \<times> string) \<times> string \<times> int" where
  "se_key r =
     ((se_tenant r, se_account r, se_model r, se_chain r, se_coin r, se_network r, se_address r), se_tx_hash r, se_event_index r)"

definition bh_key :: "block_row \<Rightarrow> string \<times> string \<times> int" where
  "bh_key r = (bh_chain r, bh_network r, bh_BlockNumber r)"

definition og_key :: "outgoing_row \<Rightarrow> string \<times> string \<times> string \<times> string" where
  "og_key r = (og_kind r, og_tenant r, og_order r, og_tx_hash r)"

lemma scan_at:
  "checkpoint_at w = (\<lambda>r. ck_key r = watch_key w)" "seen_at w h i = (\<lambda>r. se_key r = (watch_key w, h, i))"
  "block_at ch nw n = (\<lambda>r. bh_key r = (to_lower (trim_space ch), to_lower (trim_space nw), n))"
  "outgoing_at kind te ord h = (\<lambda>r. og_key r = (to_lower (trim_space kind), te, ord, trim_space h))"
  "candidate_at c = (\<lambda>r. se_key r = (watch_key c, rg_TxHash c, rg_EventIndex c))"
  by (auto simp: checkpoint_at_def ck_key_def watch_key_def seen_at_def se_key_def block_at_def bh_key_def outgoing_at_def og_key_def
      candidate_at_def watch_address.defs)

interpretation outbox: unique_table ob_key outbox_at
  by unfold_locales (simp add: outbox_at_def)

interpretation chain_checkpoints: unique_table cc_key chain_checkpoint_at
  by unfold_locales (simp add: chain_checkpoint_at_def cc_key_def)

interpretation checkpoints: unique_table ck_key "\<lambda>k r. ck_key r = k"
  by unfold_locales simp

interpretation seen_events: unique_table se_key "\<lambda>k r. se_key r = k"
  by unfold_locales simp

interpretation blocks: unique_table bh_key "\<lambda>k r. bh_key r = k"
  by unfold_locales simp

interpretation missing: unique_table og_key "\<lambda>k r. og_key r = k"
  by unfold_locales simp

text \<open>The states of an event: one that is failed has used its attempts up, one that is pending has not.\<close>

definition outbox_row_ok :: "outbox_row \<Rightarrow> bool" where
  "outbox_row_ok r \<longleftrightarrow> ob_max_attempts r = 24 \<and> 0 \<le> ob_attempt r \<and>
     (ob_status r = ''PENDING'' \<and> ob_attempt r < 24 \<or> ob_status r = ''DONE'' \<and> ob_attempt r \<le> 24 \<or>
      ob_status r = ''FAILED'' \<and> ob_attempt r = 24)"

definition outbox_ok :: "scan_db \<Rightarrow> bool" where
  "outbox_ok db \<longleftrightarrow> distinct (map ob_id (scan_event_outbox db)) \<and> outbox.uniq (scan_event_outbox db) \<and>
     (\<forall>r\<in>set (scan_event_outbox db). ob_id r \<le> outbox_seq db \<and> outbox_row_ok r)"

definition scan_tables_ok :: "scan_db \<Rightarrow> bool" where
  "scan_tables_ok db \<longleftrightarrow> outbox_ok db \<and> seen_events.uniq (scan_seen_events db) \<and> checkpoints.uniq (scan_checkpoints db) \<and>
     chain_checkpoints.uniq (scan_chain_checkpoints db) \<and> blocks.uniq (scan_block_hashes db) \<and> missing.uniq (scan_outgoing_watch db)"

lemma outbox_ok_cong:
  "scan_event_outbox db' = scan_event_outbox db \<Longrightarrow> outbox_seq db' = outbox_seq db \<Longrightarrow> outbox_ok db' = outbox_ok db"
  by (simp add: outbox_ok_def)

text \<open>The statements that do not touch the outbox.\<close>

lemma outbox_frame [simp]:
  "scan_event_outbox (snd (UpsertSeenEvent now w h i st c a f t db)) = scan_event_outbox db"
  "outbox_seq (snd (UpsertSeenEvent now w h i st c a f t db)) = outbox_seq db"
  "scan_event_outbox (ResetSeenEventNotFound now cand db) = scan_event_outbox db"
  "outbox_seq (ResetSeenEventNotFound now cand db) = outbox_seq db"
  "scan_event_outbox (UpsertBlockHash ch nw number bhash parent db) = scan_event_outbox db"
  "outbox_seq (UpsertBlockHash ch nw number bhash parent db) = outbox_seq db"
  "scan_event_outbox (PruneBlockHashes ch nw number db) = scan_event_outbox db"
  "outbox_seq (PruneBlockHashes ch nw number db) = outbox_seq db"
  "scan_event_outbox (UpsertChainCheckpoint now m ch coin nw cur h db) = scan_event_outbox db"
  "outbox_seq (UpsertChainCheckpoint now m ch coin nw cur h db) = outbox_seq db"
  "scan_event_outbox (UpsertCheckpoint now w cur h db) = scan_event_outbox db"
  "outbox_seq (UpsertCheckpoint now w cur h db) = outbox_seq db"
  "scan_event_outbox (snd (IncrementOutgoingNotFound now kind te ord ch nw h db)) = scan_event_outbox db"
  "outbox_seq (snd (IncrementOutgoingNotFound now kind te ord ch nw h db)) = outbox_seq db"
  "scan_event_outbox (ClearOutgoingNotFound kind te ord h db) = scan_event_outbox db"
  "outbox_seq (ClearOutgoingNotFound kind te ord h db) = outbox_seq db"
  by (simp_all add: UpsertSeenEvent_def ResetSeenEventNotFound_def UpsertBlockHash_def PruneBlockHashes_def UpsertChainCheckpoint_def
      UpsertCheckpoint_def IncrementOutgoingNotFound_def ClearOutgoingNotFound_def Let_def split: option.splits)

lemma outbox_frame_missed:
  "IncrementSeenEventNotFound now cand db = Inr (n, db') \<Longrightarrow>
     scan_event_outbox db' = scan_event_outbox db \<and> outbox_seq db' = outbox_seq db"
  by (auto simp: IncrementSeenEventNotFound_def split: option.splits)

text \<open>The two upserts of the outbox, for the events the scanner writes.\<close>

lemma outbox_entry_simps [simp]:
  "oe_EventKey (outbox_entry key te ch nw ty p) = key" "oe_MaxAttempts (outbox_entry key te ch nw ty p) = 24"
  by (simp_all add: outbox_entry_def)

lemma put_outbox_cases:
  assumes "put_outbox refreshes now (outbox_entry key te ch nw ty p) db = Inr db'"
  obtains (new) "select_row (outbox_at key) (scan_event_outbox db) = None"
    "db' = db\<lparr>scan_event_outbox := scan_event_outbox db @ [new_outbox_row now (outbox_seq db + 1) 24 (outbox_entry key te ch nw ty p)],
       outbox_seq := outbox_seq db + 1\<rparr>"
  | (known) old where "select_row (outbox_at key) (scan_event_outbox db) = Some old"
    "db' = db\<lparr>scan_event_outbox := update_where (outbox_at key)
        (\<lambda>r. if refreshes r then refresh_outbox now 24 (outbox_entry key te ch nw ty p) r else r) (scan_event_outbox db),
       outbox_seq := outbox_seq db + 1\<rparr>"
  using assms by (auto simp: put_outbox_def Let_def insert_or_update_def split: if_splits option.splits)

lemma update_outbox_ok:
  assumes ok: "outbox_ok db" and f: "\<And>r. ob_id (f r) = ob_id r" "\<And>r. ob_key (f r) = ob_key r" "\<And>r. outbox_row_ok r \<Longrightarrow> outbox_row_ok (f r)"
    and db': "scan_event_outbox db' = update_where p f (scan_event_outbox db)" "outbox_seq db \<le> outbox_seq db'"
  shows "outbox_ok db'"
proof -
  have "map ob_id (update_where p f t) = map ob_id t" for t by (simp add: update_where_def f)
  moreover have "outbox.uniq (update_where p f (scan_event_outbox db))"
    by (rule outbox.uniq_update) (use ok in \<open>simp_all add: f outbox_ok_def\<close>)
  moreover have "ob_id r \<le> outbox_seq db' \<and> outbox_row_ok r" if "r \<in> set (update_where p f (scan_event_outbox db))" for r
    using that ok f(1,3) db'(2) by (fastforce simp: outbox_ok_def in_update_where)
  ultimately show ?thesis using ok db'(1) by (simp add: outbox_ok_def)
qed

lemma put_outbox_ok:
  assumes ok: "outbox_ok db" and put: "put_outbox refreshes now (outbox_entry key te ch nw ty p) db = Inr db'"
  shows "outbox_ok db'"
  using put
proof (cases rule: put_outbox_cases)
  case new
  moreover have "outbox_seq db + 1 \<notin> ob_id ` set (scan_event_outbox db)" using ok by (force simp: outbox_ok_def)
  ultimately show ?thesis using ok
    by (auto simp: outbox_ok_def new_outbox_row_def outbox_row_ok_def intro!: outbox.uniq_append)
next
  case (known old)
  show ?thesis
    by (rule update_outbox_ok [OF ok _ _ _ arg_cong [OF known(2), of scan_event_outbox, simplified]])
       (auto simp: known(2) refresh_outbox_def outbox_row_ok_def)
qed

definition attempt_left :: "outbox_event \<Rightarrow> bool" where
  "attempt_left ev \<longleftrightarrow> oe_MaxAttempts ev = 24 \<and> 0 \<le> oe_Attempt ev \<and> oe_Attempt ev < 24"

lemma mark_outbox_ok:
  "outbox_ok db \<Longrightarrow> (\<And>r. ob_id (f r) = ob_id r) \<Longrightarrow> (\<And>r. ob_key (f r) = ob_key r) \<Longrightarrow> (\<And>r. outbox_row_ok r \<Longrightarrow> outbox_row_ok (f r)) \<Longrightarrow>
     outbox_ok (db\<lparr>scan_event_outbox := update_where p f (scan_event_outbox db)\<rparr>)"
  by (erule update_outbox_ok) simp_all

lemma pending_row:
  assumes "ev \<in> set (ListPendingOutboxEvents now limit allowed db)"
  obtains r where "r \<in> set (scan_event_outbox db)" "ob_status r = ''PENDING''" "ev = event_of_row r"
  using assms by (auto simp: ListPendingOutboxEvents_def Let_def dest!: in_set_takeD)

interpretation tables: scan_invariant scan_tables_ok attempt_left
proof (unfold_locales, goal_cases)
  case (1 db now w h i st c a f t)
  then show ?case
    by (auto simp: scan_tables_ok_def outbox_ok_def UpsertSeenEvent_def scan_at split: option.splits
        intro!: seen_events.uniq_update seen_events.uniq_append) (simp_all add: se_key_def watch_key_def)
next
  case (2 db now cand n db')
  then show ?case
    by (auto simp: scan_tables_ok_def outbox_ok_def IncrementSeenEventNotFound_def se_key_def split: option.splits intro!: seen_events.uniq_update)
next
  case (3 db now cand)
  then show ?case
    by (auto simp: scan_tables_ok_def outbox_ok_def ResetSeenEventNotFound_def se_key_def intro!: seen_events.uniq_update)
next
  case (4 db ch nw number bhash parent)
  then show ?case
    by (auto simp: scan_tables_ok_def outbox_ok_def UpsertBlockHash_def scan_at intro!: blocks.uniq_insert_or_update)
       (simp_all add: bh_key_def)
next
  case (5 db ch nw number)
  then show ?case
    by (auto simp: scan_tables_ok_def outbox_ok_def PruneBlockHashes_def blocks.uniq_def distinct_map_filter)
next
  case (6 db now m ch coin nw cur h)
  then show ?case
    by (auto simp: scan_tables_ok_def outbox_ok_def UpsertChainCheckpoint_def cc_key_def intro!: chain_checkpoints.uniq_insert_or_update)
next
  case (7 db now w cur h)
  then show ?case
    by (auto simp: scan_tables_ok_def outbox_ok_def UpsertCheckpoint_def scan_at intro!: checkpoints.uniq_insert_or_update)
       (simp_all add: ck_key_def watch_key_def)
next
  case (8 db now kind te ord ch nw h)
  then show ?case
    by (auto simp: scan_tables_ok_def outbox_ok_def IncrementOutgoingNotFound_def scan_at Let_def intro!: missing.uniq_insert_or_update)
       (simp_all add: og_key_def)
next
  case (9 db kind te ord h)
  then show ?case
    by (auto simp: scan_tables_ok_def outbox_ok_def ClearOutgoingNotFound_def missing.uniq_def distinct_map_filter)
next
  case (10 db now te ch nw h i te' ch' nw' ty p db')
  then have "outbox_ok db'" unfolding UpsertOutboxEvent_def by (auto simp: scan_tables_ok_def intro: put_outbox_ok)
  then show ?case using 10 by (auto simp: scan_tables_ok_def UpsertOutboxEvent_def elim: put_outbox_cases)
next
  case (11 db kind now te ch nw h i te' ch' nw' ty p db')
  then have "outbox_ok db'" unfolding InsertOutboxEventIfAbsent_def by (auto simp: scan_tables_ok_def intro: put_outbox_ok)
  then show ?case using 11 by (auto simp: scan_tables_ok_def InsertOutboxEventIfAbsent_def elim: put_outbox_cases)
next
  case (12 db ev now limit allowed)
  then show ?case
    by (auto elim!: pending_row simp: scan_tables_ok_def outbox_ok_def outbox_row_ok_def attempt_left_def event_of_row_def)
next
  case (13 db ev now)
  have "outbox_ok (MarkOutboxEventDone now (oe_ID ev) db)"
    unfolding MarkOutboxEventDone_def
    by (rule mark_outbox_ok) (use 13 in \<open>auto simp: scan_tables_ok_def outbox_row_ok_def\<close>)
  then show ?case using 13 by (simp add: scan_tables_ok_def MarkOutboxEventDone_def)
next
  case (14 db ev now reason)
  have "outbox_ok (MarkOutboxEventRetry now ev reason db)"
    unfolding MarkOutboxEventRetry_def Let_def
    by (rule mark_outbox_ok) (use 14 in \<open>auto simp: scan_tables_ok_def outbox_row_ok_def attempt_left_def\<close>)
  then show ?case using 14 by (simp add: scan_tables_ok_def MarkOutboxEventRetry_def Let_def)
qed


section \<open>Closed events of the outbox\<close>

definition closed_row :: "outbox_row \<Rightarrow> bool" where
  "closed_row r \<longleftrightarrow> ob_status r = ''DONE'' \<or> ob_status r = ''FAILED'' \<and> take 4 (ob_key r) = ''dep:''"

lemma event_key_not_deposit: "kind \<in> {''project-dep'', ''sweep-trigger'', ''sweep''} \<Longrightarrow> take 4 (event_key kind te ch nw h i) \<noteq> ''dep:''"
  by (auto simp: event_key_def)

lemma put_outbox_keeps_row:
  assumes "put_outbox refreshes now (outbox_entry key te ch nw ty p) db = Inr db'" "r \<in> set (scan_event_outbox db)"
    "ob_key r = key \<Longrightarrow> \<not> refreshes r"
  shows "r \<in> set (scan_event_outbox db')"
  using assms(1)
proof (cases rule: put_outbox_cases)
  case (known old)
  show ?thesis using known(2) assms(2,3) by (auto simp: in_update_where outbox_at_def intro!: bexI [of _ r])
qed (use assms(2) in simp)

lemma mark_keeps_row: "r \<in> set t \<Longrightarrow> \<not> p r \<Longrightarrow> r \<in> set (update_where p f t)"
  by (force simp: in_update_where)

interpretation closed_event: scan_invariant
  "\<lambda>db. outbox_ok db \<and> closed_row r \<and> r \<in> set (scan_event_outbox db)"
  "\<lambda>ev. attempt_left ev \<and> oe_ID ev \<noteq> ob_id r" for r
proof (unfold_locales, goal_cases)
  case (2 db now cand n db')
  then show ?case using outbox_frame_missed [OF 2(2)] by (simp add: outbox_ok_def)
next
  case (10 db now te ch nw h i te' ch' nw' ty p db')
  then show ?case unfolding UpsertOutboxEvent_def
    by (auto intro: put_outbox_ok elim!: put_outbox_keeps_row simp: closed_row_def)
next
  case (11 db kind now te ch nw h i te' ch' nw' ty p db')
  then show ?case unfolding InsertOutboxEventIfAbsent_def using event_key_not_deposit
    by (auto intro: put_outbox_ok elim!: put_outbox_keeps_row simp: closed_row_def)
next
  case (12 db ev now limit allowed)
  obtain q where q: "q \<in> set (scan_event_outbox db)" "ob_status q = ''PENDING''" "ev = event_of_row q" by (rule pending_row [OF 12(2)])
  have "q \<noteq> r" using q(2) 12(1) by (auto simp: closed_row_def)
  then have "ob_id q \<noteq> ob_id r" using q(1) 12(1) by (auto simp: outbox_ok_def distinct_map inj_on_def)
  then show ?case using q 12(1) by (auto simp: outbox_ok_def outbox_row_ok_def attempt_left_def event_of_row_def)
next
  case (13 db ev now)
  have "outbox_ok (MarkOutboxEventDone now (oe_ID ev) db)"
    unfolding MarkOutboxEventDone_def by (rule mark_outbox_ok) (use 13 in \<open>auto simp: outbox_row_ok_def\<close>)
  then show ?case using 13 by (auto simp: MarkOutboxEventDone_def intro: mark_keeps_row)
next
  case (14 db ev now reason)
  have "outbox_ok (MarkOutboxEventRetry now ev reason db)"
    unfolding MarkOutboxEventRetry_def Let_def
    by (rule mark_outbox_ok) (use 14 in \<open>auto simp: outbox_row_ok_def attempt_left_def\<close>)
  then show ?case using 14 by (auto simp: MarkOutboxEventRetry_def Let_def intro: mark_keeps_row)
qed (simp_all add: outbox_ok_def)

end
