(* ===== verification/Scan_Theorems.thy ===== *)
theory Scan_Theorems
  imports Scan_Invariants Core_Theorems Ledger_Theorems
begin

text \<open>
  Properties of the scanner of account chains: its tables stay well formed and an event of the
  outbox that is closed stays closed; the statuses it reports mean to the ledger what they mean
  to the scanner; what it reports about outgoing transactions; and how the page loop and the
  retries end.
\<close>


section \<open>Samples\<close>

text \<open>An account on ethereum that watches one address, a chain gateway that lists the given transfers, and a network that works.\<close>

definition scan_sample_watch :: scan_watch_row where
  "scan_sample_watch =
     \<lparr>sw_tenant = ''t1'', sw_account = ''a1'', sw_model = ''account'', sw_chain = ''ethereum'', sw_coin = ''ETH'', sw_network = ''mainnet'',
      sw_address = ''0xin'', sw_min_confirmations = 3, sw_unlock_confirmations = 6, sw_treasury = ''a2'',
      sw_cold = [], sw_auto_sweep = False, sw_sweep_threshold = ''0'', sw_hot_balance_cap = ''0'', sw_active = True, sw_created_at = 0, sw_updated_at = 0,
      sw_contract_address = []\<rparr>"

definition sample_registered :: address_row where
  "sample_registered =
     \<lparr>wad_TenantID = ''t1'', wad_AccountID = ''a1'', wad_Model = ''account'', wad_Chain = ''ethereum'', wad_Coin = ''ETH'',
      wad_Network = ''mainnet'', wad_Address = ''0xin'', wad_KeyID = ''hd:ecdsa:ethereum:1:0:0'', wad_PublicKey = ''pub'',
      wad_SignType = ''ecdsa'', wad_AddressType = [], wad_DerivationPath = [], wad_ChangeIndex = 0, wad_AddressIndex = 0,
      wad_Status = ''ACTIVE'', wad_CreatedAt = 0, wad_UpdatedAt = 0, ad_id = 1\<rparr>"

definition sample_registry :: registry_db where
  "sample_registry = (empty_registry [] [])
     \<lparr>wallet_accounts := [\<lparr>wac_TenantID = ''t1'', wac_AccountID = ''a1'', wac_AccountTag = [], wac_Status = ''ACTIVE'', wac_Remark = [],
        wac_CreatedAt = 0, wac_UpdatedAt = 0, ac_id = 1, ac_hd_account_index = Some 1\<rparr>],
      wallet_addresses := [sample_registered]\<rparr>"

definition core_with :: "ledger_db \<Rightarrow> nat core" where
  "core_with db =
     \<lparr>co_world = \<lparr>w_db = db, w_ext = 0, w_sent = []\<rparr>, co_registry = sample_registry,
      co_security = \<lparr>api_tokens = [], tenant_keys = [], audit_logs = [], tenant_chain_policies = [], idem_requests = []\<rparr>\<rparr>"

definition sample_system :: "nat system" where
  "sample_system = \<lparr>sy_core = core_with empty_db, sy_scan = empty_scan_db\<lparr>scan_watches := [scan_sample_watch]\<rparr>\<rparr>"

definition sample_incoming :: "string \<Rightarrow> int \<Rightarrow> incoming_transfer" where
  "sample_incoming h c =
     \<lparr>it_TxHash = h, it_FromAddress = ''0xout'', it_ToAddress = ''0xin'', it_Amount = ''7'', it_Confirmations = c,
      it_Index = 0, it_Status = [], it_ContractAddress = []\<rparr>"

definition scan_sample_env :: "incoming_transfer list \<Rightarrow> (nat, unit, unit) scan_env" where
  "scan_sample_env txs =
     \<lparr>sv_Core = sample_handler, sv_Now = (\<lambda>x. 10), sv_Post = (\<lambda>x. (Served, x)),
      sv_ListIncomingTransfers = (\<lambda>m ch coin nw a cur size contract x. (Inr \<lparr>ir_Items = txs, ir_NextCursor = [], ir_Blocks = []\<rparr>, x)),
      sv_TxFinality = (\<lambda>ch coin nw h x. (Inl (Errorf ''down''), x)), sv_GetBalance = (\<lambda>ch coin nw a x. (Inr ''0'', x)),
      sv_ProjectNotify = None, sv_GroupOrder = (\<lambda>gs. gs), sv_WatchOrder = (\<lambda>ws. ws)\<rparr>"

definition sample_scanner :: scanner where
  "sample_scanner =
     \<lparr>sn_AccountPageSize = 5, sn_AccountMaxPages = 2, sn_AccountMaxEmptyPages = 2, sn_AccountCursorStallGuard = 1, sn_WatchLimit = 5,
      sn_ReorgWindow = 6, sn_ReorgCandidateLimit = 5, sn_ReorgNotFoundThreshold = 3, sn_OutgoingNotFoundThreshold = 3,
      sn_OutgoingNotFoundGrace = 45000, sn_EnableAccountScan = True, sn_EnableUTXOScan = False, sn_EnableReorgReconcile = True,
      sn_EnableOutboxDispatch = True, sn_EnableOutgoingScan = True, sn_SweepMinBalance = [], sn_ProjectChainIDMap = [],
      sn_ProjectDefaultChainID = 0, sn_AllowedChains = []\<rparr>"



lemma sample_tables_ok: "scan_tables_ok (sy_scan sample_system)"
  by (simp add: scan_tables_ok_def outbox_ok_def sample_system_def empty_scan_db_def)



section \<open>Properties of the tables and of the outbox\<close>

text \<open>
  C12: The scanner's tables stay well formed under any sequence of ticks, whatever the chain gateway, the network and the
  configuration do: the keys of checkpoints, seen events, blocks, missing transactions and events of the outbox are unique,
  ids of the outbox are unique and taken from its sequence, and an event is \<open>PENDING\<close> with attempts left, \<open>DONE\<close>, or \<open>FAILED\<close>
  after exactly 24 attempts.
\<close>

theorem scan_tables_stay_ok:
  assumes "scan_tables_ok (sy_scan s)"
  shows "scan_tables_ok (sy_scan (fold (\<lambda>(E, S). tick E S) es s))"
  using assms by (rule tables.ticks_keep)

theorem scan_tables_stay_ok_witness:
  "scan_tables_ok (sy_scan sample_system) \<and>
   scan_tables_ok (sy_scan (fold (\<lambda>(E, S). tick E S) [(scan_sample_env [sample_incoming ''0x1'' 0], sample_scanner)] sample_system))"
  using sample_tables_ok scan_tables_stay_ok [OF sample_tables_ok] by blast



text \<open>
  The position of a transfer in a page identifies it when the chain gateway gives no index: a transfer that is listed
  again at another position gets another order id and is credited a second time. Here one transfer of 7 is listed alone, then
  after another transfer of 7, and the account is credited with 21.
\<close>

theorem page_position_credits_twice:
  "(let s = fold (\<lambda>(E, S). tick E S)
        [(scan_sample_env [sample_incoming ''0x1'' 10], sample_scanner),
         (scan_sample_env [sample_incoming ''0x2'' 10, sample_incoming ''0x1'' 10], sample_scanner)] sample_system
    in (map (\<lambda>d. (de_tx_hash d, de_amount d, de_credited d)) (deposit_events (sy_ledger s)),
        av_available (view (sy_ledger s) (''t1'', ''a1'', ''ETH'')))) =
   ([(''0x1'', ''7'', True), (''0x2'', ''7'', True), (''0x1'', ''7'', True)], 21)"
  by code_simp

lemma status_words:
  "to_upper (trim_space ''SEEN'') = ''SEEN''" "to_upper (trim_space ''PENDING'') = ''PENDING''"
  "to_upper (trim_space ''CONFIRMED'') = ''CONFIRMED''" "to_upper (trim_space ''FINALIZED'') = ''FINALIZED''"
  "to_upper (trim_space ''REORGED'') = ''REORGED''" "to_upper (trim_space ''REVERTED'') = ''REVERTED''"
  "to_upper (trim_space ''FAILED'') = ''FAILED''"
  by code_simp+

lemma deposit_payload_target:
  assumes "0 < mc" "uc > 0 \<longrightarrow> mc \<le> uc"
  shows "target_stage (deposit_request (deposit_payload_of w h i a f t c mc uc st)) =
     stage_of (normalizeDepositLifecycleStatus st (mapDepositLedgerStatus st) c mc uc)"
  using assms by (auto simp: target_stage_def deposit_target_def deposit_request_def deposit_payload_of_def Let_def)

lemma lifecycle_of_status:
  assumes "0 < mc" "uc > 0 \<longrightarrow> mc \<le> uc"
  shows "c < mc \<Longrightarrow> normalizeDepositLifecycleStatus ''SEEN'' (mapDepositLedgerStatus ''SEEN'') c mc uc = ''PENDING''"
    "c < mc \<Longrightarrow> normalizeDepositLifecycleStatus ''PENDING'' (mapDepositLedgerStatus ''PENDING'') c mc uc = ''PENDING''"
    "\<not> (uc > 0 \<and> c \<ge> uc) \<Longrightarrow> normalizeDepositLifecycleStatus ''CONFIRMED'' (mapDepositLedgerStatus ''CONFIRMED'') c mc uc = ''CONFIRMED''"
    "normalizeDepositLifecycleStatus ''FINALIZED'' (mapDepositLedgerStatus ''FINALIZED'') c mc uc = ''FINALIZED''"
    "normalizeDepositLifecycleStatus ''REORGED'' (mapDepositLedgerStatus ''REORGED'') c mc uc = ''REVERTED''"
  using assms by (simp_all add: normalizeDepositLifecycleStatus_def mapDepositLedgerStatus_def status_words)

lemma stage_of_status:
  "stage_of ''SEEN'' = stage_of ''PENDING''" "stage_of ''REORGED'' = stage_of ''REVERTED''"
  by (simp_all add: stage_of_def normalizeStoredDepositStatus_def status_words)

text \<open>
  C14: The scanner and the ledger agree on what a transfer means: the stage the ledger derives from the notification the scanner
  sends is the stage of the status the scanner gave the transfer, for every status and number of confirmations the chain gateway
  reports and every configuration of the address.
\<close>

theorem scan_status_is_ledger_stage:
  "target_stage (deposit_request (deposit_payload_of w h i a f t c (min_conf w) (unlock_conf w)
      (resolveDepositScanStatus raw c (min_conf w) (unlock_conf w) win))) =
   stage_of (resolveDepositScanStatus raw c (min_conf w) (unlock_conf w) win)"
proof -
  have st: "resolveDepositScanStatus raw c (min_conf w) (unlock_conf w) win \<in> {''SEEN'', ''PENDING'', ''CONFIRMED'', ''FINALIZED'', ''REORGED''}"
    by (simp add: resolveDepositScanStatus_def Let_def)
  have early: "c < min_conf w" if "resolveDepositScanStatus raw c (min_conf w) (unlock_conf w) win \<in> {''SEEN'', ''PENDING''}"
    using that by (auto simp: resolveDepositScanStatus_def Let_def min_conf_def split: if_splits)
  have confirmed: "\<not> (unlock_conf w > 0 \<and> c \<ge> unlock_conf w)"
    if "resolveDepositScanStatus raw c (min_conf w) (unlock_conf w) win = ''CONFIRMED''"
    using that by (auto simp: resolveDepositScanStatus_def Let_def min_conf_def unlock_conf_def split: if_splits)
  have mc: "0 < min_conf w" "unlock_conf w > 0 \<longrightarrow> min_conf w \<le> unlock_conf w"
    by (auto simp: min_conf_def unlock_conf_def split: if_splits)
  show ?thesis
    unfolding deposit_payload_target [OF mc] using st
    by (elim insertE emptyE) (use early confirmed lifecycle_of_status [OF mc] in \<open>simp_all add: stage_of_status\<close>)
qed


section \<open>Outgoing transactions\<close>

text \<open>What a report about an order does to the ledger.\<close>

definition confirm_outgoing :: "outgoing_kind \<Rightarrow> 'a pending_order_scheme \<Rightarrow> int \<Rightarrow> int \<Rightarrow> ledger_db \<Rightarrow> ledger_db result" where
  "confirm_outgoing k it confs now =
     (case k of
        OutWithdraw \<Rightarrow> ConfirmWithdrawOnChain now (po_TenantID it) (po_OrderID it) (po_TxHash it) confs (max (po_RequiredConfs it) 1)
      | OutSweep \<Rightarrow> ConfirmSweepOnChain now \<lparr>sf_TenantID = po_TenantID it, sf_SweepOrderID = po_OrderID it, sf_TxHash = po_TxHash it,
          sf_Confirmations = confs, sf_RequiredConfs = max (po_RequiredConfs it) 1\<rparr>
      | OutTransfer \<Rightarrow> ConfirmTreasuryTransferOnChain now \<lparr>tc_TenantID = po_TenantID it, tc_TransferOrderID = po_OrderID it,
          tc_TxHash = po_TxHash it, tc_Confirmations = confs, tc_RequiredConfs = max (po_RequiredConfs it) 1\<rparr>)"

definition fail_outgoing :: "outgoing_kind \<Rightarrow> 'a pending_order_scheme \<Rightarrow> string \<Rightarrow> int \<Rightarrow> int \<Rightarrow> ledger_db \<Rightarrow> ledger_db result" where
  "fail_outgoing k it reason confs now =
     (case k of
        OutWithdraw \<Rightarrow> FailWithdrawOnChain now (po_TenantID it) (po_OrderID it) (po_TxHash it) reason confs
      | OutSweep \<Rightarrow> FailSweepOnChain now (po_TenantID it) (po_OrderID it) reason confs
      | OutTransfer \<Rightarrow> FailTreasuryTransferOnChain now (po_TenantID it) (po_OrderID it) reason confs)"

lemma notify_words: "notify_status (onchain_request it ''CONFIRMED'' rs c) = ''CONFIRMED''"
  "notify_status (onchain_request it ''FAILED'' rs c) = ''FAILED''"
proof -
  have "to_upper (trim_space ''CONFIRMED'') = ''CONFIRMED''" "to_upper (trim_space ''FAILED'') = ''FAILED''" by code_simp+
  then show "notify_status (onchain_request it ''CONFIRMED'' rs c) = ''CONFIRMED''"
    "notify_status (onchain_request it ''FAILED'' rs c) = ''FAILED''"
    by (simp_all add: notify_status_def onchain_request_def Let_def)
qed

lemma onchain_notify_ledger:
  assumes "onchain_notify h missing confirm failed method body co = (resp, co')" "co_ledger co' \<noteq> co_ledger co"
  obtains req now where "body = Some req"
    "(if notify_status req = ''CONFIRMED'' then confirm req else failed req) now (co_ledger co) = Inr (co_ledger co')"
  using assms by (auto simp: onchain_notify_def ledgerP_def split: if_splits option.splits sum.splits)

lemma set_ext_simps [simp]:
  "sy_ext (set_ext x s) = x" "sy_ledger (set_ext x s) = sy_ledger s" "sy_scan (set_ext x s) = sy_scan s"
  "co_registry (sy_core (set_ext x s)) = co_registry (sy_core s)"
  by (simp_all add: set_ext_def)

lemma postJSON_ledger:
  assumes "sy_ledger (snd (postJSON E path serve s)) \<noteq> sy_ledger s"
  obtains co resp co' where "serve co = (resp, co')" "co_ledger co = sy_ledger s" "co_ledger co' = sy_ledger (snd (postJSON E path serve s))"
proof -
  obtain fate x where f: "sv_Post E (sy_ext s) = (fate, x)" by force
  obtain resp co' where r: "serve (sy_core (set_ext x s)) = (resp, co')" by (cases "serve (sy_core (set_ext x s))")
  have "sy_ledger (snd (postJSON E path serve s)) = co_ledger co'"
    using assms f r by (cases fate) (auto simp: postJSON_def split: prod.splits)
  then show ?thesis using that [OF r] by simp
qed

text \<open>The three notifications are one request to the shared handler.\<close>

lemma notify_outgoing_request:
  obtains path missing confirm failed where
    "notify_outgoing E k (onchain_request it status rs c) =
       postJSON E path (onchain_notify (sv_Core E) missing confirm failed ''POST'' (Some (onchain_request it status rs c)))"
    "confirm (onchain_request it status rs c) = confirm_outgoing k it c"
    "failed (onchain_request it status rs c) = fail_outgoing k it (notify_reason (onchain_request it status rs c)) c"
proof (cases k)
  case OutWithdraw
  show ?thesis
    by (rule that [of "''/v1/withdraw/onchain/notify''"],
        unfold OutWithdraw notify_outgoing_def wc_WithdrawOnchainNotify_def WithdrawOnchainNotify_def outgoing_kind.case, rule refl)
       (simp_all add: fun_eq_iff OutWithdraw confirm_outgoing_def fail_outgoing_def onchain_request_def)
next
  case OutSweep
  show ?thesis
    by (rule that [of "''/v1/sweep/onchain/notify''"], unfold OutSweep notify_outgoing_def wc_SweepOnchainNotify_def SweepOnchainNotify_def outgoing_kind.case, rule refl)
       (simp_all add: fun_eq_iff OutSweep confirm_outgoing_def fail_outgoing_def onchain_request_def)
next
  case OutTransfer
  show ?thesis
    by (rule that [of "''/v1/treasury/onchain/notify''"], unfold OutTransfer notify_outgoing_def wc_TreasuryTransferOnchainNotify_def TreasuryTransferOnchainNotify_def outgoing_kind.case, rule refl)
       (simp_all add: fun_eq_iff OutTransfer confirm_outgoing_def fail_outgoing_def onchain_request_def)
qed

lemma notify_outgoing_ledger:
  assumes "sy_ledger (snd (notify_outgoing E k (onchain_request it status rs c) s)) \<noteq> sy_ledger s" "status \<in> {''CONFIRMED'', ''FAILED''}"
  shows "\<exists>now. (if status = ''CONFIRMED'' then confirm_outgoing k it c now
       else fail_outgoing k it (notify_reason (onchain_request it status rs c)) c now)
      (sy_ledger s) = Inr (sy_ledger (snd (notify_outgoing E k (onchain_request it status rs c) s)))"
proof -
  let ?q = "onchain_request it status rs c"
  obtain path missing confirm failed where
    n: "notify_outgoing E k ?q = postJSON E path (onchain_notify (sv_Core E) missing confirm failed ''POST'' (Some ?q))"
    and ops: "confirm ?q = confirm_outgoing k it c" "failed ?q = fail_outgoing k it (notify_reason ?q) c"
    by (rule notify_outgoing_request)
  obtain co resp co' where serve: "onchain_notify (sv_Core E) missing confirm failed ''POST'' (Some ?q) co = (resp, co')"
    and l: "co_ledger co = sy_ledger s" "co_ledger co' = sy_ledger (snd (notify_outgoing E k ?q s))"
    by (rule postJSON_ledger [of E path "onchain_notify (sv_Core E) missing confirm failed ''POST'' (Some ?q)" s]) (use assms n in auto)
  have ne: "co_ledger co' \<noteq> co_ledger co" using l assms(1) by simp
  obtain req now where "Some ?q = Some req"
    "(if notify_status req = ''CONFIRMED'' then confirm req else failed req) now (co_ledger co) = Inr (co_ledger co')"
    using onchain_notify_ledger [OF serve ne] by blast
  then show ?thesis using assms(2) l ops by (auto simp: notify_words)
qed

lemma scan_frame [simp]:
  "sy_ledger (snd (storeA E f s)) = sy_ledger s" "sy_ledger (snd (execA E g s)) = sy_ledger s" "sy_ledger (snd (externA h s)) = sy_ledger s"
  "sy_ext (snd (storeA E f s)) = sy_ext s" "sy_ext (snd (execA E g s)) = sy_ext s"
  by (simp_all add: storeA_def execA_def externA_def split: prod.splits)

lemma bind_store: "bindA (storeA E f) g s = g (fst (f (sv_Now E (sy_ext s)) (sy_scan s))) (snd (storeA E f s))"
  by (simp add: bindA_def storeA_def split: prod.splits)

lemma bind_exec: "bindA (execA E f) g s = g () (snd (execA E f s))"
  by (simp add: execA_def bind_store)

lemma bind_extern:
  "bindA (externA h) g s = (case h (sy_ext s) of (Inl e, x) \<Rightarrow> (Inl e, set_ext x s) | (Inr a, x) \<Rightarrow> g a (set_ext x s))"
  by (simp add: bindA_def externA_def split: prod.splits sum.splits)

lemma bind_unit_ledger: "sy_ledger (snd (bindA m (\<lambda>_. execA E f) s)) = sy_ledger (snd (m s))"
  by (auto simp: bindA_def split: prod.splits sum.splits)

definition missed_checks :: "('x, 'k, 'p) scan_env \<Rightarrow> outgoing_kind \<Rightarrow> 'a pending_order_scheme \<Rightarrow> 'x \<Rightarrow> scan_db \<Rightarrow> int" where
  "missed_checks E k it x db = fst (IncrementOutgoingNotFound (sv_Now E x) (kind_name k) (po_TenantID it) (po_OrderID it) (po_Chain it)
     (po_Network it) (po_TxHash it) db)"

lemma missing_ledger:
  assumes "sy_ledger (snd (handleMissingOutgoingTx E S k it s)) \<noteq> sy_ledger s"
  shows "shouldFailOutgoingNotFound (po_Chain it) (sv_Now E (sy_ext s) - po_BroadcastedAt it) (missed_checks E k it (sy_ext s) (sy_scan s))
      (sn_OutgoingNotFoundThreshold S) (sn_OutgoingNotFoundGrace S) \<and>
    (\<exists>reason now. fail_outgoing k it reason 0 now (sy_ledger s) = Inr (sy_ledger (snd (handleMissingOutgoingTx E S k it s))))"
proof -
  let ?inc = "\<lambda>now. IncrementOutgoingNotFound now (kind_name k) (po_TenantID it) (po_OrderID it) (po_Chain it) (po_Network it) (po_TxHash it)"
  define s1 where "s1 = snd (storeA E (\<lambda>now db. (now - po_BroadcastedAt it, db)) (snd (storeA E ?inc s)))"
  let ?age = "sv_Now E (sy_ext s) - po_BroadcastedAt it" and ?n = "missed_checks E k it (sy_ext s) (sy_scan s)"
  have run: "handleMissingOutgoingTx E S k it s =
      (if \<not> shouldFailOutgoingNotFound (po_Chain it) ?age ?n (sn_OutgoingNotFoundThreshold S) (sn_OutgoingNotFoundGrace S) then returnA ()
       else bindA (notify_outgoing E k (onchain_request it ''FAILED'' (not_found_reason ?n ?age) 0)) (\<lambda>_.
         execA E (\<lambda>_. ClearOutgoingNotFound (kind_name k) (po_TenantID it) (po_OrderID it) (po_TxHash it)))) s1"
    by (simp add: handleMissingOutgoingTx_def bind_store s1_def missed_checks_def)
  have l: "sy_ledger s1 = sy_ledger s" by (simp add: s1_def)
  show ?thesis using assms notify_outgoing_ledger [of E k it "''FAILED''" "not_found_reason ?n ?age" 0 s1]
    unfolding run by (auto simp: returnA_def bind_unit_ledger l split: if_splits)
qed


text \<open>An open withdrawal of 30, and a chain gateway that answers every question about a transaction in the same way.\<close>

definition paying_system :: "nat system" where
  "paying_system = \<lparr>sy_core = core_with sample_db2, sy_scan = empty_scan_db\<rparr>"

definition finality_env :: "tx_finality \<Rightarrow> (nat, unit, unit) scan_env" where
  "finality_env f = (scan_sample_env [])\<lparr>sv_TxFinality := (\<lambda>ch coin nw h x. (Inr f, x))\<rparr>"

definition paid :: tx_finality where
  "paid = \<lparr>tf_Confirmations = 2, tf_Status = ''CONFIRMED'', tf_Found = True\<rparr>"

definition paying_order :: pending_order where
  "paying_order = \<lparr>po_TenantID = ''t'', po_OrderID = ''w1'', po_Chain = ''ethereum'', po_Network = ''mainnet'', po_TxHash = ''0x3'',
     po_Confirmations = 0, po_RequiredConfs = 2, po_BroadcastedAt = 0\<rparr>"

lemma finality_env_simps:
  "sv_TxFinality (finality_env f) ch coin nw h x = (Inr f, x)" "sv_Post (finality_env f) x = (Served, x)"
  by (simp_all add: finality_env_def scan_sample_env_def)



lemma paid_status: "to_upper (trim_space (tf_Status paid)) \<notin> {''REVERTED'', ''FAILED'', ''PENDING''}"
  by code_simp

text \<open>
  C15: A report about an outgoing transaction changes the ledger only for a final answer of the chain gateway: an order is
  confirmed when its transaction was found with another status than reverted, failed or pending, with the confirmations
  the chain gateway gave; it fails when its transaction was found reverted or failed, or, on Solana, was missing in enough
  checks for long enough. An attempt that was replaced never fails the order.
\<close>

theorem outgoing_settled_only_if_final:
  assumes "sy_ledger (snd (check_outgoing E S k replaced it s)) \<noteq> sy_ledger s"
  shows "\<exists>f x now. sv_TxFinality E (po_Chain it) [] (po_Network it) (po_TxHash it) (sy_ext s) = (Inr f, x) \<and>
     (tf_Found f \<and> to_upper (trim_space (tf_Status f)) \<notin> {''REVERTED'', ''FAILED'', ''PENDING''} \<and>
        confirm_outgoing k it (tf_Confirmations f) now (sy_ledger s) = Inr (sy_ledger (snd (check_outgoing E S k replaced it s))) \<or>
      \<not> replaced \<and>
        (\<exists>reason confs. fail_outgoing k it reason confs now (sy_ledger s) = Inr (sy_ledger (snd (check_outgoing E S k replaced it s)))) \<and>
        (tf_Found f \<and> to_upper (trim_space (tf_Status f)) \<in> {''REVERTED'', ''FAILED''} \<or>
         \<not> tf_Found f \<and> scan_isSolanaChain (po_Chain it) \<and>
           max 1 (sn_OutgoingNotFoundThreshold S) \<le> missed_checks E k it x (sy_scan s) \<and>
           max 0 (sn_OutgoingNotFoundGrace S) \<le> sv_Now E x - po_BroadcastedAt it))"
proof -
  have net: "trim_space (po_Network it) \<noteq> []" using assms by (auto simp: check_outgoing_def returnA_def split: if_splits)
  obtain r x where fin: "sv_TxFinality E (po_Chain it) [] (po_Network it) (po_TxHash it) (sy_ext s) = (r, x)" by force
  obtain f where r: "r = Inr f" using assms net fin by (cases r) (auto simp: check_outgoing_def bind_extern)
  define s1 where "s1 = set_ext x s"
  have s1: "sy_ledger s1 = sy_ledger s" "sy_ext s1 = x" "sy_scan s1 = sy_scan s" by (simp_all add: s1_def)
  let ?clear = "execA E (\<lambda>_. ClearOutgoingNotFound (kind_name k) (po_TenantID it) (po_OrderID it) (po_TxHash it))"
  let ?status = "to_upper (trim_space (tf_Status f))"
  have run: "check_outgoing E S k replaced it s =
     (if \<not> tf_Found f then (if replaced then returnA () else handleMissingOutgoingTx E S k it) s1
      else if ?status = ''REVERTED'' \<or> ?status = ''FAILED'' then
        (if replaced then returnA () else notify_outgoing E k (onchain_request it ''FAILED'' ''onchain tx reverted'' (tf_Confirmations f)))
          (snd (?clear s1))
      else if ?status = ''PENDING'' then returnA () (snd (?clear s1))
      else notify_outgoing E k (onchain_request it ''CONFIRMED'' [] (tf_Confirmations f)) (snd (?clear s1)))"
    using net by (simp add: check_outgoing_def bind_extern fin r bind_exec Let_def s1_def)
  show ?thesis
  proof (cases "tf_Found f")
    case False
    then have "\<not> replaced" and miss: "sy_ledger (snd (handleMissingOutgoingTx E S k it s1)) \<noteq> sy_ledger s1"
      using assms run s1 by (auto simp: returnA_def split: if_splits)
    then show ?thesis using missing_ledger [OF miss] False fin r run s1
      by (auto simp: shouldFailOutgoingNotFound_def Let_def max_def split: if_splits)
  next
    case True
    show ?thesis
      using assms True fin r run s1
        notify_outgoing_ledger [of E k it "''FAILED''" "''onchain tx reverted''" "tf_Confirmations f" "snd (?clear s1)"]
        notify_outgoing_ledger [of E k it "''CONFIRMED''" "[]" "tf_Confirmations f" "snd (?clear s1)"]
      by (auto simp: returnA_def split: if_splits)
  qed
qed


theorem outgoing_settled_only_if_final_witness:
  "sy_ledger (snd (check_outgoing (finality_env paid) sample_scanner OutWithdraw False paying_order paying_system)) \<noteq> sy_ledger paying_system \<and>
   (\<exists>now. confirm_outgoing OutWithdraw paying_order 2 now (sy_ledger paying_system) =
      Inr (sy_ledger (snd (check_outgoing (finality_env paid) sample_scanner OutWithdraw False paying_order paying_system))))"
proof -
  let ?s' = "snd (check_outgoing (finality_env paid) sample_scanner OutWithdraw False paying_order paying_system)"
  have "map lf_status (ledger_freezes (sy_ledger ?s')) \<noteq> map lf_status (ledger_freezes (sy_ledger paying_system))" by code_simp
  then have ne: "sy_ledger ?s' \<noteq> sy_ledger paying_system" by auto
  show ?thesis using outgoing_settled_only_if_final [OF ne] ne paid_status
    by (auto simp: finality_env_simps paid_def)
qed





section \<open>Retries and pages\<close>

lemma backoff_cases:
  obtains base cap where "(base, cap) \<in> {(2000, 60000), (5000, 300000), (15000, 600000), (30000, 1800000), (2000, 300000::int)}"
    "\<And>n. outboxRetryBackoff ty n = min cap (base * 2 ^ nat (min (max n 1 - 1) 6))"
proof -
  define p :: "int \<times> int" where "p = (let ty = to_upper (trim_space ty) in
    if ty = ''DEPOSIT_NOTIFY'' then (2000, 60000) else if ty = ''PROJECT_DEPOSIT_NOTIFY'' then (5000, 300000)
    else if ty = ''SWEEP_TRIGGER'' then (15000, 600000) else if ty = ''SWEEP_RUN'' then (30000, 1800000) else (2000, 300000))"
  have "p \<in> {(2000, 60000), (5000, 300000), (15000, 600000), (30000, 1800000), (2000, 300000)}" by (simp add: p_def Let_def)
  moreover have "outboxRetryBackoff ty n = min (snd p) (fst p * 2 ^ nat (min (max n 1 - 1) 6))" for n
  proof -
    have "(if n < 1 then 1 else n) = max n 1" by (simp add: max_def)
    then have "outboxRetryBackoff ty n = (let b = fst p * 2 ^ nat (min (max n 1 - 1) 6) in if b > snd p then snd p else b)"
      by (simp add: outboxRetryBackoff_def p_def Let_def split_beta)
    then show ?thesis by (simp add: Let_def min_def not_less)
  qed
  ultimately show ?thesis using that [of "fst p" "snd p"] by auto
qed

lemma backoff_bounds: "2000 \<le> outboxRetryBackoff ty n" "outboxRetryBackoff ty n \<le> 1800000" "outboxRetryBackoff ty n mod 1000 = 0"
proof -
  obtain base cap where p: "(base, cap) \<in> {(2000, 60000), (5000, 300000), (15000, 600000), (30000, 1800000), (2000, 300000::int)}"
    and b: "outboxRetryBackoff ty n = min cap (base * 2 ^ nat (min (max n 1 - 1) 6))" using backoff_cases [of ty] by metis
  have "base * 1 \<le> base * 2 ^ nat (min (max n 1 - 1) 6)" using p by (intro mult_left_mono) auto
  moreover have c: "2000 \<le> base" "2000 \<le> cap" "cap \<le> 1800000" using p by auto
  ultimately have "2000 \<le> base * 2 ^ nat (min (max n 1 - 1) 6)" by linarith
  then show "2000 \<le> outboxRetryBackoff ty n" "outboxRetryBackoff ty n \<le> 1800000" using c by (simp_all add: b min_le_iff_disj)
  have "1000 dvd base" "1000 dvd cap" using p by auto
  then show "outboxRetryBackoff ty n mod 1000 = 0" unfolding b by (auto simp: min_def)
qed

lemma backoff_mono: "n \<le> m \<Longrightarrow> outboxRetryBackoff ty n \<le> outboxRetryBackoff ty m"
proof -
  assume le: "n \<le> m"
  obtain base cap where p: "(base, cap) \<in> {(2000, 60000), (5000, 300000), (15000, 600000), (30000, 1800000), (2000, 300000::int)}"
    and b: "\<And>n. outboxRetryBackoff ty n = min cap (base * 2 ^ nat (min (max n 1 - 1) 6))" using backoff_cases [of ty] by metis
  have "nat (min (max n 1 - 1) 6) \<le> nat (min (max m 1 - 1) 6)" using le by (intro nat_mono) auto
  then have "base * 2 ^ nat (min (max n 1 - 1) 6) \<le> base * 2 ^ nat (min (max m 1 - 1) 6)"
    using p by (intro mult_left_mono power_increasing) auto
  then show ?thesis unfolding b by (simp add: min.coboundedI1 min.coboundedI2)
qed

text \<open>
  A failed delivery is retried with bounded delays that do not shrink, and a bounded number of times: marking a pending event
  for a retry counts the attempt and sets the next one between 2 seconds and 30 minutes ahead, later attempts wait at least
  as long, and exactly the attempt number 24 gives the event up.
\<close>

theorem outbox_retry_bounded:
  assumes ok: "outbox_ok db" and r: "r \<in> set (scan_event_outbox db)" "ob_status r = ''PENDING''"
  shows "\<exists>r'. r' \<in> set (scan_event_outbox (MarkOutboxEventRetry now (event_of_row r) reason db)) \<and> ob_id r' = ob_id r \<and>
     ob_attempt r' = ob_attempt r + 1 \<and> (ob_status r' = ''FAILED'' \<longleftrightarrow> ob_attempt r' = 24) \<and> (ob_status r' = ''PENDING'' \<longleftrightarrow> ob_attempt r' < 24) \<and>
     now + 2000 \<le> ob_next_retry_at r' \<and> ob_next_retry_at r' \<le> now + 1800000 \<and>
     (\<forall>n \<ge> ob_attempt r'. ob_next_retry_at r' - now \<le> outboxRetryBackoff (trim_space (ob_type r)) n)"
proof -
  have a: "ob_max_attempts r = 24" "ob_attempt r < 24" using ok r by (auto simp: outbox_ok_def outbox_row_ok_def)
  let ?b = "outboxRetryBackoff (trim_space (ob_type r)) (ob_attempt r + 1)"
  have b: "?b div 1000 * 1000 = ?b" using backoff_bounds(3) [of "trim_space (ob_type r)" "ob_attempt r + 1"] by auto
  define r' where "r' = r\<lparr>ob_status := (if ob_attempt r + 1 \<ge> 24 then ''FAILED'' else ''PENDING''), ob_attempt := ob_attempt r + 1,
     ob_last_error := trim_space reason, ob_next_retry_at := now + ?b div 1000 * 1000, ob_updated_at := now\<rparr>"
  have "r' \<in> set (scan_event_outbox (MarkOutboxEventRetry now (event_of_row r) reason db))"
    using r(1) a by (force simp: MarkOutboxEventRetry_def Let_def event_of_row_def in_update_where r'_def)
  moreover have "ob_next_retry_at r' = now + ?b" by (simp add: r'_def b)
  moreover have "?b \<le> outboxRetryBackoff (trim_space (ob_type r)) n" if "n \<ge> ob_attempt r + 1" for n using backoff_mono that .
  ultimately show ?thesis using a backoff_bounds(1,2) [of "trim_space (ob_type r)" "ob_attempt r + 1"]
    by (intro exI [of _ r']) (auto simp: r'_def)
qed







definition retry_row :: outbox_row where
  "retry_row = new_outbox_row 10 1 24 (outbox_entry ''dep:k'' ''t1'' ''ethereum'' ''mainnet'' ''DEPOSIT_NOTIFY''
     (SweepPayload \<lparr>swp_TenantID = [], swp_SweepOrderID = [], swp_FromAccountID = [], swp_TreasuryAccountID = [], swp_ColdAccountID = [],
        swp_HotBalanceCap = [], swp_Chain = [], swp_Network = [], swp_Asset = [], swp_Amount = []\<rparr>))"

theorem outbox_retry_bounded_witness:
  "\<exists>r'. r' \<in> set (scan_event_outbox (MarkOutboxEventRetry 10 (event_of_row retry_row) ''down''
       (empty_scan_db\<lparr>scan_event_outbox := [retry_row], outbox_seq := 1\<rparr>))) \<and>
     ob_attempt r' = 1 \<and> ob_status r' = ''PENDING'' \<and> 2010 \<le> ob_next_retry_at r' \<and> ob_next_retry_at r' \<le> 1800010"
proof -
  let ?db = "empty_scan_db\<lparr>scan_event_outbox := [retry_row], outbox_seq := 1\<rparr>"
  have ok: "outbox_ok ?db"
    by (simp add: outbox_ok_def outbox_row_ok_def retry_row_def new_outbox_row_def outbox.uniq_def)
  have r: "retry_row \<in> set (scan_event_outbox ?db)" "ob_status retry_row = ''PENDING''" "ob_attempt retry_row = 0"
    by (simp_all add: retry_row_def new_outbox_row_def)
  show ?thesis using outbox_retry_bounded [OF ok r(1,2), of 10 "''down''"] r(3) by auto
qed

end
