(* ===== verification/Utxo_Scan.thy ===== *)
theory Utxo_Scan
  imports Scan_Worker
begin

text \<open>
  The scanner of UTXO chains (\<open>src/services/scan-utxo-service/internal\<close>: \<open>store/postgres.go\<close> and
  \<open>worker\<close>). It has its own copy of the code of the account scanner and works on the same tables,
  requests and chain gateway, so that it uses their records. Fields its structs do not have are
  empty: that is also what the other reader of a payload finds in the JSON text.

  Statements and helpers whose text is the same in both services are the same function here.
\<close>


section \<open>Statements\<close>

definition utxo_watch_of_row :: "scan_watch_row \<Rightarrow> watch_address" where
  "utxo_watch_of_row r =
     \<lparr>sa_TenantID = sw_tenant r, sa_AccountID = sw_account r, sa_Model = sw_model r, sa_Chain = sw_chain r, sa_Coin = sw_coin r,
      sa_Network = sw_network r, sa_Address = sw_address r, sa_ContractAddress = [], sa_MinConfirmations = sw_min_confirmations r,
      sa_UnlockConfirmations = 0, sa_TreasuryAccountID = sw_treasury r, sa_ColdAccountID = [], sa_AutoSweep = sw_auto_sweep r,
      sa_SweepThreshold = sw_sweep_threshold r, sa_HotBalanceCap = []\<rparr>"

definition utxo_ListWatchAddresses :: "string \<Rightarrow> int \<Rightarrow> address_row table \<Rightarrow> scan_db \<Rightarrow> watch_address list" where
  "utxo_ListWatchAddresses model limit addresses db =
     map utxo_watch_of_row (take (nat limit) (filter (\<lambda>r. sw_active r \<and> sw_model r = to_lower (trim_space model) \<and>
       (sw_model r \<noteq> ''account'' \<or> registered addresses r)) (scan_watches db)))"

definition utxo_GetCheckpoint :: "watch_address \<Rightarrow> scan_db \<Rightarrow> string" where
  "utxo_GetCheckpoint = GetCheckpoint"

definition utxo_UpsertCheckpoint :: "int \<Rightarrow> watch_address \<Rightarrow> string \<Rightarrow> string \<Rightarrow> scan_db \<Rightarrow> scan_db" where
  "utxo_UpsertCheckpoint = UpsertCheckpoint"

definition utxo_GetChainCheckpoint :: "string \<Rightarrow> string \<Rightarrow> string \<Rightarrow> string \<Rightarrow> scan_db \<Rightarrow> string \<times> string" where
  "utxo_GetChainCheckpoint = GetChainCheckpoint"

definition utxo_UpsertChainCheckpoint ::
  "int \<Rightarrow> string \<Rightarrow> string \<Rightarrow> string \<Rightarrow> string \<Rightarrow> string \<Rightarrow> string \<Rightarrow> scan_db \<Rightarrow> scan_db" where
  "utxo_UpsertChainCheckpoint = UpsertChainCheckpoint"

definition utxo_UpsertSeenEvent ::
  "int \<Rightarrow> watch_address \<Rightarrow> string \<Rightarrow> int \<Rightarrow> string \<Rightarrow> int \<Rightarrow> string \<Rightarrow> string \<Rightarrow> string \<Rightarrow> scan_db \<Rightarrow> seen_event_change \<times> scan_db"
where
  "utxo_UpsertSeenEvent = UpsertSeenEvent"

definition utxo_candidate_of :: "scan_db \<Rightarrow> seen_row \<Rightarrow> reorg_candidate" where
  "utxo_candidate_of db r =
     (let j = joined_watch db r; col = (\<lambda>f d. case j of None \<Rightarrow> d | Some w \<Rightarrow> f w) in
      \<lparr>sa_TenantID = se_tenant r, sa_AccountID = se_account r, sa_Model = se_model r, sa_Chain = se_chain r, sa_Coin = se_coin r,
       sa_Network = se_network r, sa_Address = se_address r, sa_ContractAddress = [],
       sa_MinConfirmations = (case j of None \<Rightarrow> 1 | Some w \<Rightarrow> sw_min_confirmations w), sa_UnlockConfirmations = 0,
       sa_TreasuryAccountID = col sw_treasury ''treasury-main'', sa_ColdAccountID = [], sa_AutoSweep = False,
       sa_SweepThreshold = col sw_sweep_threshold ''0'', sa_HotBalanceCap = [],
       rg_TxHash = se_tx_hash r, rg_EventIndex = se_event_index r, rg_Status = se_status r, rg_Confirmations = se_confirmations r,
       rg_Amount = se_amount r, rg_FromAddress = se_from r, rg_ToAddress = se_to r, rg_NotFoundCount = se_not_found r\<rparr>)"

definition utxo_reorg_open :: "int \<Rightarrow> scan_db \<Rightarrow> seen_row \<Rightarrow> bool" where
  "utxo_reorg_open reorgWindow db r \<longleftrightarrow>
     to_upper (se_status r) \<noteq> ''REVERTED'' \<and>
     (to_upper (se_status r) = ''PENDING'' \<or> se_not_found r > 0 \<or>
      se_confirmations r < max (case joined_watch db r of None \<Rightarrow> 1 | Some w \<Rightarrow> sw_min_confirmations w) 1 + reorgWindow)"

definition utxo_ListReorgCandidates :: "int \<Rightarrow> int \<Rightarrow> scan_db \<Rightarrow> reorg_candidate list" where
  "utxo_ListReorgCandidates reorgWindow0 limit0 db =
     (let reorgWindow = (if reorgWindow0 \<le> 0 then 6 else reorgWindow0); limit = (if limit0 \<le> 0 then 500 else limit0) in
      map (utxo_candidate_of db) (take (nat limit) (sort_key (\<lambda>r. (- se_updated_at r, - se_created_at r))
        (filter (utxo_reorg_open reorgWindow db) (scan_seen_events db)))))"

definition utxo_IncrementSeenEventNotFound :: "int \<Rightarrow> reorg_candidate \<Rightarrow> scan_db \<Rightarrow> (int \<times> scan_db) result" where
  "utxo_IncrementSeenEventNotFound = IncrementSeenEventNotFound"

definition utxo_ResetSeenEventNotFound :: "int \<Rightarrow> reorg_candidate \<Rightarrow> scan_db \<Rightarrow> scan_db" where
  "utxo_ResetSeenEventNotFound = ResetSeenEventNotFound"

text \<open>This upsert has no \<open>WHERE\<close> clause: it opens an event again whatever its status is.\<close>

definition utxo_UpsertOutboxEvent :: "int \<Rightarrow> outbox_event \<Rightarrow> scan_db \<Rightarrow> scan_db result" where
  "utxo_UpsertOutboxEvent = put_outbox (\<lambda>r. True)"

definition utxo_ListPendingOutboxEvents :: "int \<Rightarrow> int \<Rightarrow> scan_db \<Rightarrow> outbox_event list" where
  "utxo_ListPendingOutboxEvents now limit0 db =
     (let limit = (if limit0 \<le> 0 then 200 else limit0) in
      map event_of_row (take (nat limit) (sort_key ob_id
        (filter (\<lambda>r. ob_status r = ''PENDING'' \<and> ob_next_retry_at r \<le> now) (scan_event_outbox db)))))"

definition utxo_MarkOutboxEventDone :: "int \<Rightarrow> int \<Rightarrow> scan_db \<Rightarrow> scan_db" where
  "utxo_MarkOutboxEventDone = MarkOutboxEventDone"

text \<open>Milliseconds; the shift is the number of attempts, at most 6, and the delay at most 5 minutes.\<close>

definition utxo_MarkOutboxEventRetry :: "int \<Rightarrow> int \<Rightarrow> int \<Rightarrow> int \<Rightarrow> string \<Rightarrow> scan_db \<Rightarrow> scan_db" where
  "utxo_MarkOutboxEventRetry now i currentAttempt maxAttempts0 reason db =
     (let nextAttempt = currentAttempt + 1;
          maxAttempts = (if maxAttempts0 \<le> 0 then 12 else maxAttempts0);
          status = (if nextAttempt \<ge> maxAttempts then ''FAILED'' else ''PENDING'');
          backoff = min (1000 * 2 ^ nat (min nextAttempt 6)) 300000
      in db\<lparr>scan_event_outbox := update_where (\<lambda>r. ob_id r = i)
           (\<lambda>r. r\<lparr>ob_status := status, ob_attempt := nextAttempt, ob_last_error := trim_space reason,
                  ob_next_retry_at := now + (backoff div 1000) * 1000, ob_updated_at := now\<rparr>) (scan_event_outbox db)\<rparr>)"

text \<open>The two lists do not read the time of the broadcast, nor the attempts of a withdrawal.\<close>

definition utxo_ListPendingWithdraws :: "int \<Rightarrow> ledger_db \<Rightarrow> pending_order list" where
  "utxo_ListPendingWithdraws limit db =
     take (nat limit) (map
       (\<lambda>f. \<lparr>po_TenantID = lf_tenant f, po_OrderID = lf_order f, po_Chain = lf_chain f, po_Network = lf_network f,
             po_TxHash = lf_tx_hash f, po_Confirmations = lf_confirmations f, po_RequiredConfs = lf_required f, po_BroadcastedAt = 0\<rparr>)
       (sort_key lf_updated_at (filter (\<lambda>f. lf_status f = ''BROADCASTED'' \<and> lf_tx_hash f \<noteq> []) (ledger_freezes db))))"

definition utxo_ListPendingSweeps :: "int \<Rightarrow> ledger_db \<Rightarrow> pending_order list" where
  "utxo_ListPendingSweeps limit db =
     take (nat limit) (map
       (\<lambda>r. \<lparr>po_TenantID = so_tenant r, po_OrderID = so_order r, po_Chain = so_chain r, po_Network = so_network r,
             po_TxHash = so_tx_hash r, po_Confirmations = so_confirmations r, po_RequiredConfs = so_required r, po_BroadcastedAt = 0\<rparr>)
       (sort_key so_updated_at (filter (\<lambda>r. so_status r = ''BROADCASTED'' \<and> so_tx_hash r \<noteq> []) (sweep_orders db))))"


section \<open>Deposits\<close>

definition utxo_resolveDepositStatus :: "string \<Rightarrow> int \<Rightarrow> int \<Rightarrow> string" where
  "utxo_resolveDepositStatus rawStatus confirmations minConf0 =
     (let status = to_upper (trim_space rawStatus) in
      if status = ''REVERTED'' \<or> status = ''FAILED'' then ''REVERTED''
      else if status = ''PENDING'' then ''PENDING''
      else if confirmations < 0 then (if status = ''CONFIRMED'' then ''CONFIRMED'' else ''PENDING'')
      else
        let minConf = (if minConf0 \<le> 0 then 1 else minConf0) in
        if confirmations \<ge> 0 \<and> confirmations < minConf then ''PENDING'' else ''CONFIRMED'')"

definition utxo_supportsChainWideAccountScan :: "string \<Rightarrow> bool" where
  "utxo_supportsChainWideAccountScan chain \<longleftrightarrow> to_lower (trim_space chain) \<in> set evm_chains"

definition utxo_deposit_payload_of ::
  "watch_address \<Rightarrow> string \<Rightarrow> int \<Rightarrow> string \<Rightarrow> string \<Rightarrow> string \<Rightarrow> int \<Rightarrow> int \<Rightarrow> string \<Rightarrow> deposit_payload" where
  "utxo_deposit_payload_of w txHash eventIndex amount fromAddr toAddr confirmations requiredConfs status =
     \<lparr>dp_TenantID = sa_TenantID w, dp_AccountID = sa_AccountID w,
      dp_OrderID = depositOrderID txHash eventIndex (sa_AccountID w) (sa_Network w), dp_EventIndex = eventIndex,
      dp_Chain = sa_Chain w, dp_Network = sa_Network w, dp_Coin = sa_Coin w, dp_Amount = amount, dp_TxHash = txHash,
      dp_FromAddress = fromAddr, dp_ToAddress = toAddr, dp_WatchAddress = sa_Address w,
      dp_TreasuryID = fallback (sa_TreasuryAccountID w) ''treasury-main'', dp_ColdAccountID = [], dp_AutoSweep = False,
      dp_SweepThreshold = trim_space (sa_SweepThreshold w), dp_HotBalanceCap = [], dp_Confirmations = confirmations,
      dp_RequiredConfs = requiredConfs, dp_UnlockConfs = 0, dp_ScanStatus = [], dp_Status = status, dp_ProjectNotify = False,
      dp_SweepTrigger = False\<rparr>"

definition utxo_enqueueDepositEvent ::
  "('x, 'k, 'p) scan_env \<Rightarrow> watch_address \<Rightarrow> string \<Rightarrow> int \<Rightarrow> string \<Rightarrow> string \<Rightarrow> string \<Rightarrow> int \<Rightarrow> int \<Rightarrow> string \<Rightarrow> ('x, unit) act" where
  "utxo_enqueueDepositEvent E w txHash eventIndex amount fromAddr toAddr confirmations requiredConfs status =
     putA E utxo_UpsertOutboxEvent
       (outbox_entry (depositEventKey (sa_TenantID w) (sa_Chain w) (sa_Network w) txHash eventIndex) (sa_TenantID w) (sa_Chain w)
          (sa_Network w) ''DEPOSIT_NOTIFY''
          (DepositPayload (utxo_deposit_payload_of w txHash eventIndex amount fromAddr toAddr confirmations requiredConfs status)))"

definition utxo_see_transfer ::
  "('x, 'k, 'p) scan_env \<Rightarrow> incoming_transfer \<Rightarrow> int \<Rightarrow> watch_address \<Rightarrow> ('x, bool) act" where
  "utxo_see_transfer E tx eventIdx w =
     (let status = utxo_resolveDepositStatus (it_Status tx) (it_Confirmations tx) (min_conf w);
          toAddr = fallback (it_ToAddress tx) (sa_Address w)
      in bindA (storeA E (\<lambda>now. utxo_UpsertSeenEvent now w (it_TxHash tx) eventIdx status (it_Confirmations tx) (it_Amount tx)
                 (it_FromAddress tx) toAddr)) (\<lambda>change.
         if \<not> ch_Notify change then returnA False
         else bindA (utxo_enqueueDepositEvent E w (it_TxHash tx) eventIdx (it_Amount tx) (it_FromAddress tx) toAddr
                       (it_Confirmations tx) (min_conf w) status) (\<lambda>_. returnA True)))"

definition utxo_group_transfer ::
  "('x, 'k, 'p) scan_env \<Rightarrow> watch_group \<Rightarrow> nat \<times> incoming_transfer \<Rightarrow> ('x, unit) act" where
  "utxo_group_transfer E g p =
     (case p of (idx, tx) \<Rightarrow>
        let toAddr = to_lower (trim_space (it_ToAddress tx)) in
        if toAddr = [] then returnA ()
        else forA (\<lambda>w. bindA (utxo_see_transfer E tx (event_index idx tx) w) (\<lambda>_. returnA ())) (watches_at (wg_Watches g) toAddr))"

fun utxo_group_pages ::
  "nat \<Rightarrow> ('x, 'k, 'p) scan_env \<Rightarrow> scanner \<Rightarrow> watch_group \<Rightarrow> string \<Rightarrow> string \<Rightarrow> string \<Rightarrow> ('x, string \<times> string) act" where
  "utxo_group_pages 0 E S g currentCursor nextCheckpoint lastTx = returnA (nextCheckpoint, lastTx)"
| "utxo_group_pages (Suc n) E S g currentCursor nextCheckpoint lastTx =
     bindA (externA (sv_ListIncomingTransfers E (wg_Model g) (wg_Chain g) (wg_Coin g) (wg_Network g) [] currentCursor
              (sn_AccountPageSize S) [])) (\<lambda>result.
     let txs = ir_Items result; nextCursor = ir_NextCursor result;
         nextCheckpoint' = (if nextCursor \<noteq> [] then nextCursor else nextCheckpoint);
         lastTx' = (if txs \<noteq> [] then trim_space (it_TxHash (last txs)) else lastTx)
     in
     bindA (forA (utxo_group_transfer E g) (enumerate 0 txs)) (\<lambda>_.
     if nextCursor = [] \<or> nextCursor = currentCursor \<or> txs = [] then returnA (nextCheckpoint', lastTx')
     else utxo_group_pages n E S g nextCursor nextCheckpoint' lastTx'))"

definition utxo_scanOneAccountGroup :: "('x, 'k, 'p) scan_env \<Rightarrow> scanner \<Rightarrow> watch_group \<Rightarrow> ('x, unit) act" where
  "utxo_scanOneAccountGroup E S g =
     (if wg_Watches g = [] then returnA ()
      else if trim_space (wg_Network g) = [] then
        failA (''group network is required model='' @ wg_Model g @ '' chain='' @ wg_Chain g @ '' coin='' @ wg_Coin g)
      else
        bindA (storeA E (\<lambda>_ db. (utxo_GetChainCheckpoint (wg_Model g) (wg_Chain g) (wg_Coin g) (wg_Network g) db, db))) (\<lambda>(chainCursor, _).
        if \<forall>w\<in>set (wg_Watches g). trim_space (sa_Address w) = [] then returnA ()
        else
          bindA (utxo_group_pages (nat (if sn_AccountMaxPages S \<le> 0 then 1 else sn_AccountMaxPages S)) E S g chainCursor chainCursor [])
            (\<lambda>(nextCheckpoint, lastTx).
          bindA (execA E (\<lambda>now. utxo_UpsertChainCheckpoint now (wg_Model g) (wg_Chain g) (wg_Coin g) (wg_Network g) nextCheckpoint lastTx)) (\<lambda>_.
          execA E (\<lambda>now. fold (\<lambda>w. utxo_UpsertCheckpoint now w nextCheckpoint lastTx) (wg_Watches g))))))"

fun utxo_watch_transfers ::
  "('x, 'k, 'p) scan_env \<Rightarrow> watch_address \<Rightarrow> (nat \<times> incoming_transfer) list \<Rightarrow> string \<Rightarrow> ('x, string) act" where
  "utxo_watch_transfers E w [] lastTx = returnA lastTx"
| "utxo_watch_transfers E w ((idx, tx) # ps) lastTx =
     bindA (utxo_see_transfer E tx (event_index idx tx) w)
       (\<lambda>notified. utxo_watch_transfers E w ps (if notified then it_TxHash tx else lastTx))"

fun utxo_watch_pages ::
  "nat \<Rightarrow> ('x, 'k, 'p) scan_env \<Rightarrow> scanner \<Rightarrow> watch_address \<Rightarrow> bool \<Rightarrow> string \<Rightarrow> string \<Rightarrow> ('x, string \<times> string) act" where
  "utxo_watch_pages 0 E S w onePage cursor lastTx = returnA (cursor, lastTx)"
| "utxo_watch_pages (Suc n) E S w onePage cursor lastTx =
     bindA (externA (sv_ListIncomingTransfers E (sa_Model w) (sa_Chain w) (sa_Coin w) (sa_Network w) (sa_Address w) cursor
              (sn_AccountPageSize S) [])) (\<lambda>result.
     let txs = ir_Items result; nextCursor = ir_NextCursor result in
     bindA (utxo_watch_transfers E w (enumerate 0 txs) lastTx) (\<lambda>lastTx'.
     if nextCursor = [] \<or> nextCursor = cursor \<or> txs = [] \<or> onePage then returnA (cursor, lastTx')
     else utxo_watch_pages n E S w onePage nextCursor lastTx'))"

definition utxo_scanOneWatch :: "('x, 'k, 'p) scan_env \<Rightarrow> scanner \<Rightarrow> watch_address \<Rightarrow> ('x, unit) act" where
  "utxo_scanOneWatch E S w =
     (if trim_space (sa_Network w) = [] then
        failA (''watch network is required tenant='' @ sa_TenantID w @ '' account='' @ sa_AccountID w @ '' chain='' @ sa_Chain w @
          '' address='' @ sa_Address w)
      else
        bindA (storeA E (\<lambda>_ db. (utxo_GetCheckpoint w db, db))) (\<lambda>cursor0.
        let maxPages = (if equal_fold (trim_space (sa_Model w)) ''utxo'' then 1 else sn_AccountMaxPages S) in
        bindA (utxo_watch_pages (nat maxPages) E S w (maxPages = 1) cursor0 []) (\<lambda>(cursor, lastTx).
        execA E (\<lambda>now. utxo_UpsertCheckpoint now w (if maxPages = 1 then [] else cursor) lastTx))))"

definition utxo_scanWatchesIndividually :: "('x, 'k, 'p) scan_env \<Rightarrow> scanner \<Rightarrow> watch_address list \<Rightarrow> 'x system \<Rightarrow> 'x system" where
  "utxo_scanWatchesIndividually E S watches = eachA (utxo_scanOneWatch E S) (sv_WatchOrder E watches)"

definition utxo_scan_group :: "('x, 'k, 'p) scan_env \<Rightarrow> scanner \<Rightarrow> watch_group \<Rightarrow> ('x, unit) act" where
  "utxo_scan_group E S g s =
     (if utxo_supportsChainWideAccountScan (wg_Chain g) then utxo_scanOneAccountGroup E S g s
      else (Inr (), utxo_scanWatchesIndividually E S (wg_Watches g) s))"

definition utxo_scanAccountModel :: "('x, 'k, 'p) scan_env \<Rightarrow> scanner \<Rightarrow> watch_address list \<Rightarrow> 'x system \<Rightarrow> 'x system" where
  "utxo_scanAccountModel E S watches = eachA (utxo_scan_group E S) (sv_GroupOrder E (watch_groups watches))"

definition utxo_scanModel :: "('x, 'k, 'p) scan_env \<Rightarrow> scanner \<Rightarrow> string \<Rightarrow> 'x system \<Rightarrow> 'x system" where
  "utxo_scanModel E S model s =
     (let watches = utxo_ListWatchAddresses model (sn_WatchLimit S) (wallet_addresses (co_registry (sy_core s))) (sy_scan s) in
      if watches = [] then s
      else if equal_fold (trim_space model) ''account'' then utxo_scanAccountModel E S watches s
      else utxo_scanWatchesIndividually E S watches s)"


section \<open>Reorganisations\<close>

definition utxo_buildWatchFromCandidate :: "reorg_candidate \<Rightarrow> int \<Rightarrow> watch_address" where
  "utxo_buildWatchFromCandidate c minConf =
     \<lparr>sa_TenantID = sa_TenantID c, sa_AccountID = sa_AccountID c, sa_Model = sa_Model c, sa_Chain = sa_Chain c, sa_Coin = sa_Coin c,
      sa_Network = sa_Network c, sa_Address = sa_Address c, sa_ContractAddress = [], sa_MinConfirmations = minConf,
      sa_UnlockConfirmations = 0, sa_TreasuryAccountID = fallback (sa_TreasuryAccountID c) ''treasury-main'', sa_ColdAccountID = [],
      sa_AutoSweep = False, sa_SweepThreshold = sa_SweepThreshold c, sa_HotBalanceCap = []\<rparr>"

definition utxo_candidate_status ::
  "('x, 'k, 'p) scan_env \<Rightarrow> scanner \<Rightarrow> reorg_candidate \<Rightarrow> tx_finality \<Rightarrow> int \<Rightarrow> ('x, (string \<times> int) option) act" where
  "utxo_candidate_status E S c finality minConf =
     (if \<not> tf_Found finality then
        bindA (tryA E (\<lambda>now. utxo_IncrementSeenEventNotFound now c)) (\<lambda>miss.
        returnA (if miss < sn_ReorgNotFoundThreshold S then None else Some (''REVERTED'', 0)))
      else
        bindA (if rg_NotFoundCount c > 0 then execA E (\<lambda>now. utxo_ResetSeenEventNotFound now c) else returnA ()) (\<lambda>_.
        returnA (Some (utxo_resolveDepositStatus (tf_Status finality) (tf_Confirmations finality) minConf, tf_Confirmations finality))))"

definition utxo_reconcile_candidate :: "('x, 'k, 'p) scan_env \<Rightarrow> scanner \<Rightarrow> reorg_candidate \<Rightarrow> ('x, unit) act" where
  "utxo_reconcile_candidate E S c =
     (if trim_space (sa_Network c) = [] then returnA ()
      else
        let minConf = (if sa_MinConfirmations c \<le> 0 then 1 else sa_MinConfirmations c) in
        bindA (externA (sv_TxFinality E (sa_Chain c) (sa_Coin c) (sa_Network c) (rg_TxHash c))) (\<lambda>finality.
        bindA (utxo_candidate_status E S c finality minConf) (\<lambda>next.
        case next of
          None \<Rightarrow> returnA ()
        | Some (nextStatus, nextConf) \<Rightarrow>
            let w = utxo_buildWatchFromCandidate c minConf; toAddr = fallback (rg_ToAddress c) (sa_Address c) in
            bindA (storeA E (\<lambda>now. utxo_UpsertSeenEvent now w (rg_TxHash c) (rg_EventIndex c) nextStatus nextConf (rg_Amount c)
                     (rg_FromAddress c) toAddr)) (\<lambda>change.
            if \<not> ch_Notify change then returnA ()
            else utxo_enqueueDepositEvent E w (rg_TxHash c) (rg_EventIndex c) (rg_Amount c) (rg_FromAddress c) toAddr nextConf minConf
                   nextStatus))))"

definition utxo_reconcileReorgCandidates :: "('x, 'k, 'p) scan_env \<Rightarrow> scanner \<Rightarrow> 'x system \<Rightarrow> 'x system" where
  "utxo_reconcileReorgCandidates E S s =
     (let limit = (if sn_ReorgCandidateLimit S \<le> 0 then sn_WatchLimit S else sn_ReorgCandidateLimit S) in
      eachA (utxo_reconcile_candidate E S) (utxo_ListReorgCandidates (sn_ReorgWindow S) limit (sy_scan s)) s)"


section \<open>The outbox\<close>

definition utxo_notifyProjectDeposit :: "('x, 'k, 'p) scan_env \<Rightarrow> scanner \<Rightarrow> deposit_payload \<Rightarrow> ('x, unit) act" where
  "utxo_notifyProjectDeposit = notifyProjectDeposit"

definition utxo_sweep_payload_of :: "deposit_payload \<Rightarrow> sweep_payload" where
  "utxo_sweep_payload_of p =
     \<lparr>swp_TenantID = dp_TenantID p, swp_SweepOrderID = sweepOrderID (dp_TxHash p) (dp_EventIndex p) (dp_AccountID p) (dp_Network p),
      swp_FromAccountID = dp_AccountID p, swp_TreasuryAccountID = fallback (dp_TreasuryID p) ''treasury-main'', swp_ColdAccountID = [],
      swp_HotBalanceCap = [], swp_Chain = dp_Chain p, swp_Network = dp_Network p, swp_Asset = to_upper (dp_Coin p), swp_Amount = dp_Amount p\<rparr>"

text \<open>The request has neither a scan status nor unlock confirmations.\<close>

definition utxo_deposit_request :: "deposit_payload \<Rightarrow> deposit_notify_request" where
  "utxo_deposit_request p =
     \<lparr>di_TenantID = dp_TenantID p, di_AccountID = dp_AccountID p, di_OrderID = dp_OrderID p, di_Chain = dp_Chain p,
      di_Network = dp_Network p, di_Coin = dp_Coin p, di_Amount = dp_Amount p, di_TxHash = dp_TxHash p,
      di_FromAddress = dp_FromAddress p, di_ToAddress = dp_ToAddress p, di_Confirmations = dp_Confirmations p,
      di_RequiredConfs = dp_RequiredConfs p, di_UnlockConfs = 0, di_ScanStatus = [], di_Status = dp_Status p\<rparr>"

definition utxo_enqueue_sweep :: "('x, 'k, 'p) scan_env \<Rightarrow> deposit_payload \<Rightarrow> ('x, unit) act" where
  "utxo_enqueue_sweep E p =
     putA E utxo_UpsertOutboxEvent
       (outbox_entry (sweepEventKey (dp_TenantID p) (dp_Chain p) (dp_Network p) (dp_TxHash p) (dp_EventIndex p))
          (dp_TenantID p) (dp_Chain p) (dp_Network p) ''SWEEP_RUN'' (SweepPayload (utxo_sweep_payload_of p)))"

definition utxo_handleDepositOutboxEvent :: "('x, 'k, 'p) scan_env \<Rightarrow> scanner \<Rightarrow> outbox_event \<Rightarrow> ('x, unit) act" where
  "utxo_handleDepositOutboxEvent E S ev =
     (let p = read_deposit (oe_Payload ev) in
      if dp_TenantID p = [] \<or> dp_AccountID p = [] \<or> dp_OrderID p = [] \<or> dp_Chain p = [] \<or> dp_Network p = [] then
        failA ''invalid deposit outbox payload''
      else
        bindA (wc_DepositNotify E (utxo_deposit_request p)) (\<lambda>_.
        if to_upper (trim_space (dp_Status p)) \<noteq> ''CONFIRMED'' then returnA ()
        else if trim_space (dp_AccountID p) = trim_space (dp_TreasuryID p) then returnA ()
        else
          bindA (utxo_notifyProjectDeposit E S p) (\<lambda>_.
          let t = trim_space (dp_SweepThreshold p); threshold = (if t = [] \<or> t = ''0'' then trim_space (sn_SweepMinBalance S) else t);
              watchAddr = (if trim_space (dp_WatchAddress p) = [] then trim_space (dp_ToAddress p) else trim_space (dp_WatchAddress p))
          in
          if watchAddr = [] then returnA ()
          else
            bindA (externA (sv_GetBalance E (dp_Chain p) (dp_Coin p) (dp_Network p) watchAddr)) (\<lambda>currentBalance.
            if \<not> meetsThreshold currentBalance threshold then returnA () else utxo_enqueue_sweep E p))))"

definition utxo_handleSweepOutboxEvent :: "('x, 'k, 'p) scan_env \<Rightarrow> outbox_event \<Rightarrow> ('x, unit) act" where
  "utxo_handleSweepOutboxEvent E ev =
     (let p = read_sweep (oe_Payload ev) in
      if swp_TenantID p = [] \<or> swp_SweepOrderID p = [] \<or> swp_FromAccountID p = [] \<or> swp_Chain p = [] \<or> swp_Network p = [] then
        failA ''invalid sweep outbox payload''
      else
        wc_SweepRun E (''scan-outbox-sweep-'' @ int_to_string (oe_ID ev) @ ''-'' @ int_to_string (oe_Attempt ev + 1))
          \<lparr>sq_TenantID = swp_TenantID p, sq_SweepOrderID = swp_SweepOrderID p, sq_FromAccountID = swp_FromAccountID p,
           sq_TreasuryAccountID = swp_TreasuryAccountID p, sq_ColdAccountID = [], sq_HotBalanceCap = [],
           sq_Chain = swp_Chain p, sq_Network = swp_Network p, sq_Asset = swp_Asset p, sq_Amount = swp_Amount p\<rparr>)"

definition utxo_handle_event :: "('x, 'k, 'p) scan_env \<Rightarrow> scanner \<Rightarrow> outbox_event \<Rightarrow> ('x, unit) act" where
  "utxo_handle_event E S ev =
     (let ty = to_upper (trim_space (oe_EventType ev)) in
      if ty = ''DEPOSIT_NOTIFY'' then utxo_handleDepositOutboxEvent E S ev
      else if ty = ''SWEEP_RUN'' then utxo_handleSweepOutboxEvent E ev
      else failA (''unsupported outbox event type='' @ oe_EventType ev))"

definition utxo_dispatch_event :: "('x, 'k, 'p) scan_env \<Rightarrow> scanner \<Rightarrow> outbox_event \<Rightarrow> ('x, unit) act" where
  "utxo_dispatch_event E S ev s =
     (case utxo_handle_event E S ev s of
        (Inl e, s') \<Rightarrow> execA E (\<lambda>now. utxo_MarkOutboxEventRetry now (oe_ID ev) (oe_Attempt ev) (oe_MaxAttempts ev) (error_text e)) s'
      | (Inr _, s') \<Rightarrow> execA E (\<lambda>now. utxo_MarkOutboxEventDone now (oe_ID ev)) s')"

definition utxo_dispatchOutbox :: "('x, 'k, 'p) scan_env \<Rightarrow> scanner \<Rightarrow> 'x system \<Rightarrow> 'x system" where
  "utxo_dispatchOutbox E S s =
     eachA (utxo_dispatch_event E S) (utxo_ListPendingOutboxEvents (sv_Now E (sy_ext s)) (sn_WatchLimit S) (sy_scan s)) s"


section \<open>Outgoing transactions and the tick\<close>

definition utxo_check_outgoing :: "('x, 'k, 'p) scan_env \<Rightarrow> outgoing_kind \<Rightarrow> pending_order \<Rightarrow> ('x, unit) act" where
  "utxo_check_outgoing E k it =
     (if trim_space (po_Network it) = [] then returnA ()
      else
        bindA (externA (sv_TxFinality E (po_Chain it) [] (po_Network it) (po_TxHash it))) (\<lambda>finality.
        let status = to_upper (trim_space (tf_Status finality)) in
        if \<not> tf_Found finality then returnA ()
        else if status = ''REVERTED'' \<or> status = ''FAILED'' then
          notify_outgoing E k (onchain_request it ''FAILED'' ''onchain tx reverted'' (tf_Confirmations finality))
        else if status = ''PENDING'' then returnA ()
        else notify_outgoing E k (onchain_request it ''CONFIRMED'' [] (tf_Confirmations finality))))"

definition utxo_scanOutgoingConfirmations :: "('x, 'k, 'p) scan_env \<Rightarrow> scanner \<Rightarrow> 'x system \<Rightarrow> 'x system" where
  "utxo_scanOutgoingConfirmations E S s =
     (let s1 = eachA (utxo_check_outgoing E OutWithdraw) (utxo_ListPendingWithdraws (sn_WatchLimit S) (sy_ledger s)) s
      in eachA (utxo_check_outgoing E OutSweep) (utxo_ListPendingSweeps (sn_WatchLimit S) (sy_ledger s1)) s1)"

definition utxo_scanner_defaults :: "scanner \<Rightarrow> scanner" where
  "utxo_scanner_defaults S =
     (let or = (\<lambda>v d. if v \<le> 0 then d else v :: int); limit = or (sn_WatchLimit S) 500 in
      S\<lparr>sn_AccountPageSize := or (sn_AccountPageSize S) 50, sn_AccountMaxPages := or (sn_AccountMaxPages S) 2,
        sn_WatchLimit := limit, sn_ReorgWindow := or (sn_ReorgWindow S) 6, sn_ReorgCandidateLimit := or (sn_ReorgCandidateLimit S) limit,
        sn_ReorgNotFoundThreshold := or (sn_ReorgNotFoundThreshold S) 3\<rparr>)"

definition utxo_tick :: "('x, 'k, 'p) scan_env \<Rightarrow> scanner \<Rightarrow> 'x system \<Rightarrow> 'x system" where
  "utxo_tick E S s =
     (let s1 = (if sn_EnableAccountScan S then utxo_scanModel E S ''account'' s else s);
          s2 = (if sn_EnableUTXOScan S then utxo_scanModel E S ''utxo'' s1 else s1);
          s3 = (if sn_EnableReorgReconcile S then utxo_reconcileReorgCandidates E S s2 else s2);
          s4 = (if sn_EnableOutboxDispatch S then utxo_dispatchOutbox E S s3 else s3)
      in if sn_EnableOutgoingScan S then utxo_scanOutgoingConfirmations E S s4 else s4)"

end
