(* ===== verification/Chain_Normalize.thy ===== *)
theory Chain_Normalize
  imports Scan_Worker "HOL-Library.List_Lexorder" "HOL-Library.Char_ord"
begin

text \<open>
  How the chain gateway turns the answers of its chain adapters into transfers and finality
  (\<open>src/services/chain-gateway/internal/normalize/transfer.go\<close>), and its names of chains
  (\<open>internal/clients/classifier.go\<close>). The adapters answer with JSON text; the model has the
  parsed value. The fields of an object are listed in the order in which Go visits the map,
  which is any order. Numbers are integers that a \<open>float64\<close> holds exactly.
\<close>


section \<open>JSON\<close>

datatype json = JNull | JBool bool | JNum int | JStr string | JArr "json list" | JObj "(string \<times> json) list"

type_synonym json_object = "(string \<times> json) list"

text \<open>The value of \<open>n, _ := strconv.ParseInt(s, 10, 64)\<close>: 0 for a malformed text, the nearest bound out of range.\<close>

definition parsed_int64 :: "string \<Rightarrow> int" where
  "parsed_int64 s = (case big_SetString s of None \<Rightarrow> 0 | Some n \<Rightarrow> max (- (2 ^ 63)) (min (2 ^ 63 - 1) n))"

fun pickString :: "json_object \<Rightarrow> string list \<Rightarrow> string" where
  "pickString m [] = []"
| "pickString m (k # ks) =
     (case map_of m k of
        Some (JStr v) \<Rightarrow> if trim_space v \<noteq> [] then trim_space v else pickString m ks
      | Some (JNum n) \<Rightarrow> int_to_string n
      | _ \<Rightarrow> pickString m ks)"

fun pickInt64 :: "json_object \<Rightarrow> string list \<Rightarrow> int" where
  "pickInt64 m [] = 0"
| "pickInt64 m (k # ks) =
     (case map_of m k of
        Some (JNum n) \<Rightarrow> n
      | Some (JStr v) \<Rightarrow> parsed_int64 (trim_space v)
      | _ \<Rightarrow> pickInt64 m ks)"

fun collectObjectCandidates :: "json \<Rightarrow> json_object list"
  and collect_items :: "json list \<Rightarrow> json_object list"
  and collect_fields :: "json_object \<Rightarrow> json_object list" where
  "collectObjectCandidates (JObj fs) =
     (if pickString fs [''tx_hash'', ''hash'', ''txid'', ''txId''] \<noteq> [] then [fs] else []) @ collect_fields fs"
| "collectObjectCandidates (JArr xs) = collect_items xs"
| "collectObjectCandidates _ = []"
| "collect_items [] = []"
| "collect_items (x # xs) = collectObjectCandidates x @ collect_items xs"
| "collect_fields [] = []"
| "collect_fields ((k, v) # fs) = collectObjectCandidates v @ collect_fields fs"

fun direct_string :: "json_object \<Rightarrow> string list \<Rightarrow> string" where
  "direct_string m [] = []"
| "direct_string m (k # ks) =
     (case map_of m k of Some (JStr s) \<Rightarrow> if trim_space s \<noteq> [] then trim_space s else direct_string m ks | _ \<Rightarrow> direct_string m ks)"

text \<open>The object itself first, then what is inside it; the three functions are the function and its two loops.\<close>

fun findFirstString :: "string list \<Rightarrow> json \<Rightarrow> string"
  and string_in_fields :: "string list \<Rightarrow> json_object \<Rightarrow> string"
  and string_in_items :: "string list \<Rightarrow> json list \<Rightarrow> string" where
  "findFirstString keys (JObj m) = (let s = direct_string m keys in if s \<noteq> [] then s else string_in_fields keys m)"
| "findFirstString keys (JArr xs) = string_in_items keys xs"
| "findFirstString keys _ = []"
| "string_in_fields keys [] = []"
| "string_in_fields keys ((k, v) # fs) = (let s = findFirstString keys v in if s \<noteq> [] then s else string_in_fields keys fs)"
| "string_in_items keys [] = []"
| "string_in_items keys (JObj m # xs) = (let s = findFirstString keys (JObj m) in if s \<noteq> [] then s else string_in_items keys xs)"
| "string_in_items keys (_ # xs) = string_in_items keys xs"

fun direct_int64 :: "json_object \<Rightarrow> string list \<Rightarrow> int option" where
  "direct_int64 m [] = None"
| "direct_int64 m (k # ks) =
     (case map_of m k of
        Some (JNum n) \<Rightarrow> Some n
      | Some (JStr s) \<Rightarrow> (case parse_int64 (trim_space s) of Some n \<Rightarrow> Some n | None \<Rightarrow> direct_int64 m ks)
      | _ \<Rightarrow> direct_int64 m ks)"

fun findFirstInt64 :: "string list \<Rightarrow> json \<Rightarrow> int"
  and int64_in_fields :: "string list \<Rightarrow> json_object \<Rightarrow> int"
  and int64_in_items :: "string list \<Rightarrow> json list \<Rightarrow> int" where
  "findFirstInt64 keys (JObj m) = (case direct_int64 m keys of Some n \<Rightarrow> n | None \<Rightarrow> int64_in_fields keys m)"
| "findFirstInt64 keys (JArr xs) = int64_in_items keys xs"
| "findFirstInt64 keys _ = 0"
| "int64_in_fields keys [] = 0"
| "int64_in_fields keys ((k, v) # fs) = (let n = findFirstInt64 keys v in if n \<noteq> 0 then n else int64_in_fields keys fs)"
| "int64_in_items keys [] = 0"
| "int64_in_items keys (JObj m # xs) = (let n = findFirstInt64 keys (JObj m) in if n \<noteq> 0 then n else int64_in_items keys xs)"
| "int64_in_items keys (_ # xs) = int64_in_items keys xs"


section \<open>Names and statuses\<close>

definition chainAlias :: "(string \<times> string) list" where
  "chainAlias = [(''eth'', ''ethereum''), (''bsc'', ''binance''), (''bnb'', ''binance''), (''matic'', ''polygon''), (''arb'', ''arbitrum''),
     (''trx'', ''tron''), (''sol'', ''solana''), (''btc'', ''bitcoin''), (''bch'', ''bitcoincash''), (''ltc'', ''litecoin''),
     (''doge'', ''dogecoin'')]"

definition NormalizeChain :: "string \<Rightarrow> string" where
  "NormalizeChain chain =
     (let v = to_lower (trim_space chain) in
      if v = [] then [] else case map_of chainAlias v of Some canonical \<Rightarrow> canonical | None \<Rightarrow> v)"

definition IsUTXOChain :: "string \<Rightarrow> bool" where
  "IsUTXOChain chain \<longleftrightarrow> NormalizeChain chain \<in>
     {''bitcoin'', ''btc'', ''bitcoincash'', ''bch'', ''dash'', ''dogecoin'', ''doge'', ''litecoin'', ''ltc'', ''zen''}"

definition IsEVMChain :: "string \<Rightarrow> bool" where
  "IsEVMChain chain \<longleftrightarrow> NormalizeChain chain \<in>
     {''ethereum'', ''binance'', ''polygon'', ''arbitrum'', ''optimism'', ''linea'', ''scroll'', ''mantle'', ''zksync''}"

definition norm_normalizeChain :: "string \<Rightarrow> string" where
  "norm_normalizeChain chain =
     (let x = to_lower (trim_space chain) in
      if x = ''eth'' then ''ethereum'' else if x = ''trx'' then ''tron'' else if x = ''sol'' then ''solana''
      else if x = ''bsc'' then ''binance'' else x)"

definition normalizeTxStatus :: "string \<Rightarrow> string" where
  "normalizeTxStatus v =
     (let x = to_lower (trim_space v) in
      if x = ''finalized'' then ''FINALIZED''
      else if x \<in> {''success'', ''succeeded'', ''ok'', ''confirmed''} then ''CONFIRMED''
      else if x = ''reorged'' then ''REORGED''
      else if x \<in> {''failed'', ''fail'', ''reverted'', ''dropped''} then ''REVERTED''
      else if x = ''pending'' then ''PENDING''
      else [])"

definition normalizeConfirmations :: "int \<Rightarrow> int" where
  "normalizeConfirmations v = (if v < 0 then - 1 else if v = 0 then - 1 else v)"


section \<open>Finality\<close>

record chain_finality = tx_finality +
  tf_TxHash :: string

definition Finality :: "string \<Rightarrow> json_object \<Rightarrow> chain_finality" where
  "Finality txHash0 raw =
     (let foundHash = findFirstString [''tx_hash'', ''txid'', ''txId'', ''hash''] (JObj raw);
          txHash = (if trim_space txHash0 = [] then foundHash else txHash0);
          confirmations = findFirstInt64 [''confirmations'', ''confirmation'', ''confirm''] (JObj raw);
          status = normalizeTxStatus (findFirstString [''status'', ''tx_status'', ''state'', ''receipt_status''] (JObj raw));
          found = (txHash \<noteq> [] \<or> foundHash \<noteq> [] \<or> length raw > 0 \<or> equal_fold status ''REVERTED'')
      in \<lparr>tf_Confirmations = normalizeConfirmations confirmations,
          tf_Status = (if status = [] then if confirmations > 0 then ''CONFIRMED'' else if found then ''PENDING'' else status else status),
          tf_Found = found, tf_TxHash = txHash\<rparr>)"


section \<open>Incoming transfers\<close>

definition extractBlockMetas :: "json_object \<Rightarrow> block_meta list" where
  "extractBlockMetas raw =
     (case map_of raw ''blocks'' of
        Some (JArr items) \<Rightarrow>
          concat (map (\<lambda>item. case item of
              JObj m \<Rightarrow>
                let bm = \<lparr>bm_Number = (case map_of m ''number'' of Some (JNum n) \<Rightarrow> n | _ \<Rightarrow> 0),
                          bm_Hash = (case map_of m ''hash'' of Some (JStr s) \<Rightarrow> s | _ \<Rightarrow> []),
                          bm_ParentHash = (case map_of m ''parent_hash'' of Some (JStr s) \<Rightarrow> s | _ \<Rightarrow> [])\<rparr>
                in if bm_Hash bm \<noteq> [] then [bm] else []
            | _ \<Rightarrow> []) items)
      | _ \<Rightarrow> [])"

text \<open>
  \<open>json.Unmarshal\<close> into a struct: the names of fields match without regard to case, the keys come
  in sorted order and the last one wins, \<open>null\<close> changes nothing, and a value of another type is an
  error (\<open>None\<close>). A missing field is the zero value.
\<close>

definition json_entries :: "string \<Rightarrow> json_object \<Rightarrow> json list" where
  "json_entries f m = filter (\<lambda>v. v \<noteq> JNull) (map snd (sort_key fst (filter (\<lambda>(k, _). equal_fold k f) m)))"

fun decode_last :: "(json \<Rightarrow> 'v option) \<Rightarrow> 'v \<Rightarrow> json list \<Rightarrow> 'v option" where
  "decode_last d acc [] = Some acc"
| "decode_last d acc (v # vs) = (case d v of None \<Rightarrow> None | Some x \<Rightarrow> decode_last d x vs)"

definition json_string :: "json \<Rightarrow> string option" where
  "json_string v = (case v of JStr s \<Rightarrow> Some s | _ \<Rightarrow> None)"

definition json_int64 :: "json \<Rightarrow> int option" where
  "json_int64 v = (case v of JNum n \<Rightarrow> if - (2 ^ 63) \<le> n \<and> n < 2 ^ 63 then Some n else None | _ \<Rightarrow> None)"

definition json_fields :: "(json_object \<Rightarrow> 'v option) \<Rightarrow> json \<Rightarrow> 'v option" where
  "json_fields d v = (case v of JObj m \<Rightarrow> d m | JNull \<Rightarrow> d [] | _ \<Rightarrow> None)"

definition json_list :: "(json \<Rightarrow> 'v option) \<Rightarrow> json \<Rightarrow> 'v list option" where
  "json_list d v =
     (case v of JArr xs \<Rightarrow> (if None \<in> set (map d xs) then None else Some (map (the \<circ> d) xs)) | _ \<Rightarrow> None)"

definition string_field :: "string \<Rightarrow> json_object \<Rightarrow> string option" where
  "string_field f m = decode_last json_string [] (json_entries f m)"

definition int64_field :: "string \<Rightarrow> json_object \<Rightarrow> int option" where
  "int64_field f m = decode_last json_int64 0 (json_entries f m)"

definition list_field :: "string \<Rightarrow> (json \<Rightarrow> 'v option) \<Rightarrow> json_object \<Rightarrow> 'v list option" where
  "list_field f d m = decode_last (json_list d) [] (json_entries f m)"

text \<open>The \<open>txNode\<close> of the EVM chains; an address node and a value node have one field.\<close>

record evm_tx =
  ev_Hash :: string
  ev_Index :: int
  ev_Froms :: "string list"
  ev_Tos :: "string list"
  ev_Values :: "string list"
  ev_Confirmations :: int
  ev_Status :: string
  ev_ContractAddress :: string

definition decode_evm_tx :: "json_object \<Rightarrow> evm_tx option" where
  "decode_evm_tx m =
     (case (string_field ''hash'' m, int64_field ''index'' m, list_field ''froms'' (json_fields (string_field ''address'')) m,
            list_field ''tos'' (json_fields (string_field ''address'')) m, list_field ''values'' (json_fields (string_field ''value'')) m,
            int64_field ''confirmations'' m, string_field ''status'' m, string_field ''contract_address'' m) of
        (Some h, Some i, Some fs, Some ts, Some vs, Some c, Some st, Some ca) \<Rightarrow>
          Some \<lparr>ev_Hash = h, ev_Index = i, ev_Froms = fs, ev_Tos = ts, ev_Values = vs, ev_Confirmations = c, ev_Status = st,
                ev_ContractAddress = ca\<rparr>
      | _ \<Rightarrow> None)"

definition next_cursor :: "json_object \<Rightarrow> string" where
  "next_cursor raw = findFirstString [''next_cursor'', ''nextCursor'', ''cursor'', ''next''] (JObj raw)"

definition gw_fallback :: "string \<Rightarrow> string \<Rightarrow> string" where
  "gw_fallback v d = (if trim_space v = [] then d else v)"

definition evm_item :: "string \<Rightarrow> nat \<times> evm_tx \<Rightarrow> incoming_transfer list" where
  "evm_item watchAddress p =
     (case p of (i, tx) \<Rightarrow>
        let watch = to_lower (trim_space watchAddress);
            to = (case ev_Tos tx of [] \<Rightarrow> [] | a # _ \<Rightarrow> trim_space a);
            frm = (case ev_Froms tx of [] \<Rightarrow> [] | a # _ \<Rightarrow> trim_space a);
            amount = (case ev_Values tx of v # _ \<Rightarrow> if trim_space v \<noteq> [] then trim_space v else ''0'' | [] \<Rightarrow> ''0'')
        in
        if trim_space (ev_Hash tx) = [] then []
        else if watch \<noteq> [] \<and> to_lower to \<noteq> watch then []
        else [\<lparr>it_TxHash = trim_space (ev_Hash tx), it_FromAddress = frm, it_ToAddress = gw_fallback to watchAddress, it_Amount = amount,
               it_Confirmations = normalizeConfirmations (ev_Confirmations tx), it_Index = (if ev_Index tx \<le> 0 then int i else ev_Index tx),
               it_Status = normalizeTxStatus (ev_Status tx), it_ContractAddress = to_lower (trim_space (ev_ContractAddress tx))\<rparr>])"

definition extractAccountTransfersEVM :: "json_object \<Rightarrow> string \<Rightarrow> (incoming_transfer list \<times> string) option" where
  "extractAccountTransfersEVM raw watchAddress =
     (case list_field ''tx'' (json_fields decode_evm_tx) raw of
        None \<Rightarrow> None
      | Some [] \<Rightarrow> None
      | Some txs \<Rightarrow> Some (concat (map (evm_item watchAddress) (enumerate 0 txs)), next_cursor raw))"

definition extractAccountTransfersTRON :: "json_object \<Rightarrow> string \<Rightarrow> (incoming_transfer list \<times> string) option" where
  "extractAccountTransfersTRON = extractAccountTransfersEVM"

record sol_tx =
  sl_Hash :: string
  sl_To :: string
  sl_From :: string
  sl_Value :: string
  sl_Status :: string
  sl_Index :: int
  sl_Confirmations :: int

definition decode_sol_tx :: "json_object \<Rightarrow> sol_tx option" where
  "decode_sol_tx m =
     (case (string_field ''hash'' m, string_field ''to'' m, string_field ''from'' m, string_field ''value'' m, string_field ''status'' m,
            int64_field ''index'' m, int64_field ''confirmations'' m) of
        (Some h, Some t, Some f, Some v, Some st, Some i, Some c) \<Rightarrow>
          Some \<lparr>sl_Hash = h, sl_To = t, sl_From = f, sl_Value = v, sl_Status = st, sl_Index = i, sl_Confirmations = c\<rparr>
      | _ \<Rightarrow> None)"

definition sol_item :: "string \<Rightarrow> nat \<times> sol_tx \<Rightarrow> incoming_transfer list" where
  "sol_item watchAddress p =
     (case p of (i, tx) \<Rightarrow>
        let watch = to_lower (trim_space watchAddress); to = trim_space (sl_To tx) in
        if trim_space (sl_Hash tx) = [] then []
        else if watch \<noteq> [] \<and> to \<noteq> [] \<and> to_lower to \<noteq> watch then []
        else [\<lparr>it_TxHash = sl_Hash tx, it_FromAddress = sl_From tx, it_ToAddress = gw_fallback to watchAddress,
               it_Amount = (if trim_space (sl_Value tx) = [] then ''0'' else trim_space (sl_Value tx)),
               it_Confirmations = normalizeConfirmations (sl_Confirmations tx), it_Index = (if sl_Index tx \<le> 0 then int i else sl_Index tx),
               it_Status = normalizeTxStatus (sl_Status tx), it_ContractAddress = []\<rparr>])"

definition extractAccountTransfersSOL :: "json_object \<Rightarrow> string \<Rightarrow> (incoming_transfer list \<times> string) option" where
  "extractAccountTransfersSOL raw watchAddress =
     (case list_field ''tx'' (json_fields decode_sol_tx) raw of
        None \<Rightarrow> None
      | Some [] \<Rightarrow> None
      | Some txs \<Rightarrow> Some (concat (map (sol_item watchAddress) (enumerate 0 txs)), next_cursor raw))"

definition generic_item :: "string \<Rightarrow> nat \<times> json_object \<Rightarrow> incoming_transfer list" where
  "generic_item watchAddress0 p =
     (case p of (idx, obj) \<Rightarrow>
        let watchAddress = to_lower (trim_space watchAddress0);
            txHash = pickString obj [''tx_hash'', ''hash'', ''txid'', ''txId''];
            to = pickString obj [''to'', ''to_address'', ''toAddress'', ''recipient'', ''receiver''];
            frm = pickString obj [''from'', ''from_address'', ''fromAddress'', ''sender''];
            amount = pickString obj [''amount'', ''value'', ''amount_str'', ''amountStr''];
            eventIdx = pickInt64 obj [''index'', ''vout'', ''n'']
        in
        if txHash = [] then []
        else if watchAddress \<noteq> [] \<and> to_lower (trim_space to) \<noteq> [] \<and> to_lower (trim_space to) \<noteq> watchAddress then []
        else [\<lparr>it_TxHash = txHash, it_FromAddress = frm, it_ToAddress = gw_fallback to watchAddress,
               it_Amount = (if amount = [] then ''0'' else amount),
               it_Confirmations = normalizeConfirmations (pickInt64 obj [''confirmations'', ''confirm'', ''confirmation'']),
               it_Index = (if eventIdx \<le> 0 then int idx else eventIdx),
               it_Status = normalizeTxStatus (pickString obj [''status'', ''tx_status'', ''state'']), it_ContractAddress = []\<rparr>])"

definition extractAccountTransfersGeneric :: "json_object \<Rightarrow> string \<Rightarrow> incoming_transfer list \<times> string" where
  "extractAccountTransfersGeneric raw watchAddress =
     (concat (map (generic_item watchAddress) (enumerate 0 (collectObjectCandidates (JObj raw)))), next_cursor raw)"

definition extractUTXOTransfers :: "json_object \<Rightarrow> string \<Rightarrow> incoming_transfer list" where
  "extractUTXOTransfers raw watchAddress =
     concat (map (\<lambda>obj.
       let txHash = pickString obj [''tx_hash'', ''hash'', ''txid'', ''txId''];
           amount = pickString obj [''amount'', ''unspent_amount'', ''value'', ''unspentAmount''];
           address = pickString obj [''address'', ''to'', ''to_address'']
       in
       if txHash = [] then []
       else [\<lparr>it_TxHash = txHash, it_FromAddress = [], it_ToAddress = (if address = [] then watchAddress else address),
              it_Amount = (if amount = [] then ''0'' else amount),
              it_Confirmations = pickInt64 obj [''confirmations'', ''confirm'', ''confirmation''],
              it_Index = pickInt64 obj [''index'', ''vout'', ''tx_out_n'', ''txOutN''], it_Status = [], it_ContractAddress = []\<rparr>])
       (collectObjectCandidates (JObj raw)))"

definition extractAccountTransfers :: "string \<Rightarrow> json_object \<Rightarrow> string \<Rightarrow> incoming_transfer list \<times> string" where
  "extractAccountTransfers chain raw watchAddress =
     (let c = norm_normalizeChain chain;
          special =
            (if c \<in> {''ethereum'', ''binance'', ''polygon'', ''arbitrum'', ''optimism'', ''linea'', ''scroll'', ''mantle'', ''zksync''}
             then extractAccountTransfersEVM raw watchAddress
             else if c = ''tron'' then extractAccountTransfersTRON raw watchAddress
             else if c = ''solana'' then extractAccountTransfersSOL raw watchAddress
             else None)
      in case special of Some r \<Rightarrow> r | None \<Rightarrow> extractAccountTransfersGeneric raw watchAddress)"

definition IncomingTransfers :: "string \<Rightarrow> string \<Rightarrow> json_object \<Rightarrow> string \<Rightarrow> incoming_transfer_result" where
  "IncomingTransfers model chain raw watchAddress =
     (if model = ''utxo'' then \<lparr>ir_Items = extractUTXOTransfers raw watchAddress, ir_NextCursor = [], ir_Blocks = []\<rparr>
      else case extractAccountTransfers chain raw watchAddress of (items, next) \<Rightarrow>
        \<lparr>ir_Items = items, ir_NextCursor = next, ir_Blocks = extractBlockMetas raw\<rparr>)"

end
