(* ===== verification/Chain_Endpoints.thy ===== *)
theory Chain_Endpoints
  imports Chain_Normalize
begin

text \<open>
  The endpoints of the chain gateway: the table of the control plane
  (\<open>src/services/chain-gateway/internal/controlplane\<close>) and the manager that picks an endpoint for a
  call and keeps a circuit breaker for each (\<open>internal/endpoint/manager.go\<close>).

  The manager shares the state of an endpoint between its pools and its table of states, as
  pointers; the model has a store of states and their addresses. Times are in milliseconds,
  \<open>None\<close> is the zero time. The random number of \<open>Select\<close> and the result of a probe are arguments.
\<close>


section \<open>The control plane\<close>

record rpc_endpoint =
  ep_ID :: int
  ep_Chain :: string
  ep_Network :: string
  ep_Model :: string
  ep_URL :: string
  ep_Weight :: int
  ep_TimeoutMS :: int
  ep_Priority :: int
  ep_Status :: string

definition clean_endpoint :: "rpc_endpoint \<Rightarrow> rpc_endpoint" where
  "clean_endpoint e =
     e\<lparr>ep_Chain := to_lower (trim_space (ep_Chain e)), ep_Network := to_lower (trim_space (ep_Network e)),
       ep_Model := to_lower (trim_space (ep_Model e)), ep_URL := trim_space (ep_URL e), ep_Status := to_upper (trim_space (ep_Status e)),
       ep_Weight := (if ep_Weight e \<le> 0 then 1 else ep_Weight e), ep_TimeoutMS := (if ep_TimeoutMS e \<le> 0 then 10000 else ep_TimeoutMS e)\<rparr>"

definition ListActiveRPCEndpoints :: "rpc_endpoint table \<Rightarrow> rpc_endpoint list" where
  "ListActiveRPCEndpoints t =
     filter (\<lambda>e. ep_Chain e \<noteq> [] \<and> ep_Network e \<noteq> [] \<and> ep_Model e \<noteq> [] \<and> ep_URL e \<noteq> []) (map clean_endpoint
       (sort_key (\<lambda>e. (ep_Chain e, ep_Network e, ep_Model e, - ep_Priority e, - ep_Weight e, ep_ID e))
         (filter (\<lambda>e. ep_Status e = ''ACTIVE'') t)))"


section \<open>The manager\<close>

record endpoint_state =
  es_endpoint :: rpc_endpoint
  es_failStreak :: int
  es_penalty :: int
  es_openUntil :: "int option"
  es_lastError :: string
  es_lastSuccessAt :: "int option"
  es_lastFailureAt :: "int option"
  es_successCount :: int
  es_failureCount :: int

record selected_endpoint =
  sel_ID :: int
  sel_Key :: string
  sel_Chain :: string
  sel_Network :: string
  sel_Model :: string
  sel_URL :: string
  sel_TimeoutMS :: int

record manager =
  mg_openDuration :: int
  mg_failThreshold :: int
  mg_heap :: "endpoint_state list"
  mg_pools :: "(string \<times> nat list) list"
  mg_states :: "(string \<times> nat) list"

definition NewManager :: "int \<Rightarrow> int \<Rightarrow> manager" where
  "NewManager openDuration failThreshold =
     \<lparr>mg_openDuration = (if openDuration \<le> 0 then 30000 else openDuration), mg_failThreshold = (if failThreshold \<le> 0 then 3 else failThreshold),
      mg_heap = [], mg_pools = [], mg_states = []\<rparr>"

definition endpointKey :: "rpc_endpoint \<Rightarrow> string" where
  "endpointKey ep = ep_Chain ep @ ''|'' @ ep_Network ep @ ''|'' @ ep_Model ep @ ''|'' @ ep_URL ep"

definition poolKey :: "string \<Rightarrow> string \<Rightarrow> string \<Rightarrow> string" where
  "poolKey chain network model = chain @ ''|'' @ network @ ''|'' @ model"

definition new_state :: "rpc_endpoint \<Rightarrow> endpoint_state" where
  "new_state ep = \<lparr>es_endpoint = ep, es_failStreak = 0, es_penalty = 0, es_openUntil = None, es_lastError = [], es_lastSuccessAt = None,
     es_lastFailureAt = None, es_successCount = 0, es_failureCount = 0\<rparr>"

text \<open>A map of Go as an association list without repeated keys: an assignment replaces or adds.\<close>

definition put_key :: "string \<Rightarrow> 'v \<Rightarrow> (string \<times> 'v) list \<Rightarrow> (string \<times> 'v) list" where
  "put_key k v m = (k, v) # filter (\<lambda>p. fst p \<noteq> k) m"

text \<open>One round of the loop of \<open>Refresh\<close>; \<open>old\<close> is the table of states before the loop.\<close>

definition refresh_item ::
  "(string \<times> nat) list \<Rightarrow> rpc_endpoint \<Rightarrow> endpoint_state list \<times> (string \<times> nat list) list \<times> (string \<times> nat) list \<Rightarrow>
     endpoint_state list \<times> (string \<times> nat list) list \<times> (string \<times> nat) list" where
  "refresh_item old item acc =
     (case acc of (heap, pools, states) \<Rightarrow>
        let k = endpointKey item; pk = poolKey (ep_Chain item) (ep_Network item) (ep_Model item);
            (a, heap') =
              (case map_of old k of
                 Some a \<Rightarrow> (a, heap[a := (heap ! a)\<lparr>es_endpoint := item\<rparr>])
               | None \<Rightarrow> (length heap, heap @ [new_state item]))
        in (heap', put_key pk ((case map_of pools pk of None \<Rightarrow> [] | Some as \<Rightarrow> as) @ [a]) pools, put_key k a states))"

definition Refresh :: "rpc_endpoint list result \<Rightarrow> manager \<Rightarrow> unit result \<times> manager" where
  "Refresh listed m =
     (case listed of
        Inl e \<Rightarrow> (Inl e, m)
      | Inr items \<Rightarrow>
          (case fold (refresh_item (mg_states m)) items (mg_heap m, [], []) of (heap, pools, states) \<Rightarrow>
             (Inr (), m\<lparr>mg_heap := heap, mg_pools := pools, mg_states := states\<rparr>)))"

definition toSelected :: "endpoint_state \<Rightarrow> selected_endpoint" where
  "toSelected st = (let e = es_endpoint st in
     \<lparr>sel_ID = ep_ID e, sel_Key = endpointKey e, sel_Chain = ep_Chain e, sel_Network = ep_Network e, sel_Model = ep_Model e,
      sel_URL = ep_URL e, sel_TimeoutMS = ep_TimeoutMS e\<rparr>)"

definition effectiveWeight :: "endpoint_state \<Rightarrow> int" where
  "effectiveWeight st = (let w = ep_Weight (es_endpoint st) - es_penalty st in if w \<le> 0 then 1 else w)"

definition circuit_closed :: "int \<Rightarrow> endpoint_state \<Rightarrow> bool" where
  "circuit_closed now st = (case es_openUntil st of None \<Rightarrow> True | Some t \<Rightarrow> \<not> now < t)"

text \<open>The zero time is before every other time.\<close>

definition opens_before :: "endpoint_state \<Rightarrow> endpoint_state \<Rightarrow> bool" where
  "opens_before a b =
     (case (es_openUntil a, es_openUntil b) of (Some x, Some y) \<Rightarrow> x < y | (None, Some _) \<Rightarrow> True | _ \<Rightarrow> False)"

fun soonest :: "endpoint_state \<Rightarrow> endpoint_state list \<Rightarrow> endpoint_state" where
  "soonest pick [] = pick"
| "soonest pick (st # sts) = soonest (if opens_before st pick then st else pick) sts"

fun pick_weighted :: "endpoint_state \<Rightarrow> int \<Rightarrow> int \<Rightarrow> endpoint_state list \<Rightarrow> endpoint_state" where
  "pick_weighted first r acc [] = first"
| "pick_weighted first r acc (st # sts) =
     (let acc' = acc + effectiveWeight st in if r < acc' then st else pick_weighted first r acc' sts)"

definition pool_states :: "manager \<Rightarrow> string \<Rightarrow> endpoint_state list" where
  "pool_states m pk = (case map_of (mg_pools m) pk of None \<Rightarrow> [] | Some as \<Rightarrow> map (\<lambda>a. mg_heap m ! a) as)"

text \<open>\<open>intn n\<close> is the number \<open>rr.Intn(n)\<close> returns.\<close>

definition Select :: "int \<Rightarrow> (int \<Rightarrow> int) \<Rightarrow> string \<Rightarrow> string \<Rightarrow> string \<Rightarrow> manager \<Rightarrow> selected_endpoint result" where
  "Select now intn chain0 network0 model0 m =
     (let chain = to_lower (trim_space chain0); network = to_lower (trim_space network0); model = to_lower (trim_space model0) in
      if chain = [] \<or> network = [] \<or> model = [] then Inl (Errorf ''chain/network/model are required'')
      else
        case pool_states m (poolKey chain network model) of
          [] \<Rightarrow> Inl (Errorf (''no rpc endpoint configured for chain='' @ chain @ '' network='' @ network @ '' model='' @ model))
        | c # cs \<Rightarrow>
            let available = filter (circuit_closed now) (c # cs) in
            case available of
              [] \<Rightarrow> Inr (toSelected (soonest c cs))
            | a # _ \<Rightarrow>
                let totalWeight = sum_list (map effectiveWeight available) in
                if totalWeight \<le> 0 then Inr (toSelected a)
                else Inr (toSelected (pick_weighted a (intn totalWeight) 0 available)))"

definition update_state :: "string \<Rightarrow> (endpoint_state \<Rightarrow> endpoint_state) \<Rightarrow> manager \<Rightarrow> manager" where
  "update_state k f m = (case map_of (mg_states m) k of None \<Rightarrow> m | Some a \<Rightarrow> m\<lparr>mg_heap := (mg_heap m)[a := f (mg_heap m ! a)]\<rparr>)"

definition ReportSuccess :: "int \<Rightarrow> string \<Rightarrow> manager \<Rightarrow> manager" where
  "ReportSuccess now key =
     update_state key (\<lambda>st. st\<lparr>es_failStreak := 0, es_lastError := [], es_lastSuccessAt := Some now, es_successCount := es_successCount st + 1,
       es_penalty := (if es_penalty st > 0 then es_penalty st - 1 else es_penalty st), es_openUntil := None\<rparr>)"

definition fail_state :: "int \<Rightarrow> int \<Rightarrow> int \<Rightarrow> go_error option \<Rightarrow> endpoint_state \<Rightarrow> endpoint_state" where
  "fail_state openDuration failThreshold now err st =
     (let maxPenalty = max (ep_Weight (es_endpoint st) - 1) 0;
          streak = es_failStreak st + 1;
          st' = st\<lparr>es_failureCount := es_failureCount st + 1, es_lastFailureAt := Some now,
                   es_lastError := (case err of None \<Rightarrow> es_lastError st | Some e \<Rightarrow> error_text e),
                   es_penalty := (if es_penalty st < maxPenalty then es_penalty st + 1 else es_penalty st)\<rparr>
      in if streak \<ge> failThreshold then st'\<lparr>es_openUntil := Some (now + openDuration), es_failStreak := 0\<rparr>
         else st'\<lparr>es_failStreak := streak\<rparr>)"

definition ReportFailure :: "int \<Rightarrow> string \<Rightarrow> go_error option \<Rightarrow> manager \<Rightarrow> manager" where
  "ReportFailure now key err m = update_state key (fail_state (mg_openDuration m) (mg_failThreshold m) now err) m"

definition snapshot :: "manager \<Rightarrow> selected_endpoint list" where
  "snapshot m = map (\<lambda>(k, a). (toSelected (mg_heap m ! a))\<lparr>sel_Key := k\<rparr>) (mg_states m)"

text \<open>\<open>ask\<close> is the request \<open>web3_clientVersion\<close> to an endpoint: its error, if it has one.\<close>

definition probe_one :: "int \<Rightarrow> (selected_endpoint \<Rightarrow> go_error option) \<Rightarrow> selected_endpoint \<Rightarrow> manager \<Rightarrow> manager" where
  "probe_one now ask item m =
     (if sel_Model item \<noteq> ''account'' \<or> \<not> IsEVMChain (sel_Chain item) then m
      else case ask item of Some e \<Rightarrow> ReportFailure now (sel_Key item) (Some e) m | None \<Rightarrow> ReportSuccess now (sel_Key item) m)"

definition probe :: "int \<Rightarrow> (selected_endpoint \<Rightarrow> go_error option) \<Rightarrow> manager \<Rightarrow> manager" where
  "probe now ask m = fold (probe_one now ask) (snapshot m) m"

record endpoint_status =
  st_Chain :: string
  st_Network :: string
  st_Model :: string
  st_URL :: string
  st_CircuitOpen :: bool
  st_OpenUntil :: "int option"
  st_FailStreak :: int
  st_SuccessCount :: int
  st_FailureCount :: int
  st_LastError :: string

definition Snapshot :: "int \<Rightarrow> manager \<Rightarrow> endpoint_status list" where
  "Snapshot now m =
     map (\<lambda>(k, a). let st = mg_heap m ! a in
       \<lparr>st_Chain = ep_Chain (es_endpoint st), st_Network = ep_Network (es_endpoint st), st_Model = ep_Model (es_endpoint st),
        st_URL = ep_URL (es_endpoint st), st_CircuitOpen = \<not> circuit_closed now st, st_OpenUntil = es_openUntil st,
        st_FailStreak = es_failStreak st, st_SuccessCount = es_successCount st, st_FailureCount = es_failureCount st,
        st_LastError = es_lastError st\<rparr>) (mg_states m)"


section \<open>The manager as a state machine\<close>

inductive manager_step :: "manager \<Rightarrow> manager \<Rightarrow> bool" where
  refresh: "Refresh (Inr (ListActiveRPCEndpoints t)) m = (Inr (), m') \<Longrightarrow> manager_step m m'"
| success: "manager_step m (ReportSuccess now key m)"
| failure: "manager_step m (ReportFailure now key err m)"

inductive manager_reachable :: "manager \<Rightarrow> bool" where
  start: "manager_reachable (NewManager openDuration failThreshold)"
| step: "manager_reachable m \<Longrightarrow> manager_step m m' \<Longrightarrow> manager_reachable m'"

inductive_cases manager_stepE: "manager_step m m'"

text \<open>
  Every address is in the store, the streak of an endpoint is below the threshold, and its
  weight is positive.
\<close>

definition state_ok :: "manager \<Rightarrow> endpoint_state \<Rightarrow> bool" where
  "state_ok m st \<longleftrightarrow> 0 \<le> es_failStreak st \<and> es_failStreak st < mg_failThreshold m \<and> 0 \<le> es_penalty st \<and> 1 \<le> ep_Weight (es_endpoint st)"

definition manager_ok :: "manager \<Rightarrow> bool" where
  "manager_ok m \<longleftrightarrow> 0 < mg_failThreshold m \<and> 0 < mg_openDuration m \<and> (\<forall>st\<in>set (mg_heap m). state_ok m st) \<and>
     (\<forall>(k, a)\<in>set (mg_states m). a < length (mg_heap m)) \<and>
     (\<forall>(k, as)\<in>set (mg_pools m). \<forall>a\<in>set as. a < length (mg_heap m))"

lemma map_of_put_key: "map_of (put_key k v m) j = (if j = k then Some v else map_of m j)"
proof -
  have "map_of (filter (\<lambda>p. fst p \<noteq> k) m) j = map_of m j" if "j \<noteq> k"
    using that by (induction m) auto
  then show ?thesis by (simp add: put_key_def)
qed

end
