(* ===== verification/Chain_Service.thy ===== *)
theory Chain_Service
  imports Chain_Endpoints
begin

text \<open>
  The service of the chain gateway: its router (\<open>src/services/chain-gateway/internal/dispatcher\<close>),
  the operations with their retries (\<open>internal/service\<close>), and the clients of the scanner that call
  it (\<open>src/services/scan-account-service/internal/client/chain_gateway.go\<close>). The gRPC server in
  between (\<open>internal/transport/grpc/server.go\<close>) copies requests and answers field by field.

  The chain adapters are arguments: what they ask the chains is not modelled. The state \<open>'x\<close> is
  theirs. The pauses between retries and a cancelled context are left out.
\<close>


section \<open>Ports\<close>

record tx_query =
  tq_in_Chain :: string
  tq_in_Coin :: string
  tq_in_Network :: string
  tq_in_Address :: string
  tq_in_ContractAddress :: string
  tq_in_Hash :: string
  tq_in_Page :: int
  tq_in_PageSize :: int
  tq_in_Cursor :: string

record account_result =
  ar_Network :: string
  ar_AccountNumber :: string
  ar_Sequence :: string
  ar_Balance :: string

text \<open>The two read operations return JSON text: nothing, a text that is no object, or an object.\<close>

datatype raw_message = RawEmpty | RawInvalid string | RawNull | RawObject json_object

record 'x chain_adapter =
  ca_ConvertAddress :: "string \<Rightarrow> string \<Rightarrow> string \<Rightarrow> string \<Rightarrow> 'x \<Rightarrow> string result \<times> 'x"
  ca_SendTx :: "string \<Rightarrow> string \<Rightarrow> string \<Rightarrow> string \<Rightarrow> 'x \<Rightarrow> string result \<times> 'x"
  ca_BuildUnsignedAccount :: "string \<Rightarrow> string \<Rightarrow> string \<Rightarrow> 'x \<Rightarrow> build_unsigned_result result \<times> 'x"
  ca_BuildSignedAccount :: "string \<Rightarrow> string \<Rightarrow> string \<Rightarrow> string \<Rightarrow> string \<Rightarrow> 'x \<Rightarrow> string result \<times> 'x"
  ca_BuildUnsignedUTXO :: "string \<Rightarrow> string \<Rightarrow> string \<Rightarrow> tx_vin list \<Rightarrow> tx_vout list \<Rightarrow> 'x \<Rightarrow> build_unsigned_result result \<times> 'x"
  ca_BuildSignedUTXO :: "string \<Rightarrow> string \<Rightarrow> string \<Rightarrow> string list \<Rightarrow> string list \<Rightarrow> 'x \<Rightarrow> string result \<times> 'x"
  ca_GetAccount :: "string \<Rightarrow> string \<Rightarrow> string \<Rightarrow> string \<Rightarrow> string \<Rightarrow> 'x \<Rightarrow> account_result result \<times> 'x"
  ca_GetTxByHash :: "tx_query \<Rightarrow> 'x \<Rightarrow> raw_message result \<times> 'x"
  ca_GetTxByAddress :: "tx_query \<Rightarrow> 'x \<Rightarrow> raw_message result \<times> 'x"
  ca_GetUnspentOutputs :: "string \<Rightarrow> string \<Rightarrow> string \<Rightarrow> 'x \<Rightarrow> raw_message result \<times> 'x"

record 'x plugin_binding =
  pb_Chain :: string
  pb_Network :: string
  pb_Model :: string
  pb_Adapter :: "'x chain_adapter option"

text \<open>
  What the service asks of an error besides its text: whether it is a gRPC status \<open>Unavailable\<close> or
  \<open>DeadlineExceeded\<close> or a network error that is temporary, and whether it wraps \<open>ErrUnsupported\<close>.
  Both are functions of the error.
\<close>

record error_class =
  ec_Transient :: "go_error \<Rightarrow> bool"
  ec_Unsupported :: "go_error \<Rightarrow> bool"


section \<open>The router\<close>

type_synonym 'x router = "(string \<times> 'x plugin_binding) list"

definition gw_normalizeNetwork :: "string \<Rightarrow> string" where
  "gw_normalizeNetwork v = to_lower (trim_space v)"

definition bindingKey :: "string \<Rightarrow> string \<Rightarrow> string" where
  "bindingKey chain network = chain @ ''|'' @ network"

definition Register :: "'x plugin_binding \<Rightarrow> 'x router \<Rightarrow> 'x router result" where
  "Register b r =
     (let chain = NormalizeChain (pb_Chain b); network = gw_normalizeNetwork (pb_Network b) in
      if chain = [] then Inl (Errorf ''chain is required'')
      else if Option.is_none (pb_Adapter b) then Inl (Errorf ''adapter is required'')
      else if network = [] then Inl (Errorf ''network is required'')
      else Inr (put_key (bindingKey chain network) (b\<lparr>pb_Chain := chain, pb_Network := network\<rparr>) r))"

definition Resolve :: "string \<Rightarrow> string \<Rightarrow> 'x router \<Rightarrow> 'x plugin_binding result" where
  "Resolve chain network r =
     (let c = NormalizeChain chain; n = gw_normalizeNetwork network in
      if c = [] then Inl (Errorf ''chain is required'')
      else if n = [] then Inl (Errorf ''network is required'')
      else case map_of r (bindingKey c n) of
        Some hit \<Rightarrow> Inr hit
      | None \<Rightarrow>
          (case map_of r (bindingKey c ''*'') of
             Some hit \<Rightarrow> Inr hit
           | None \<Rightarrow> Inl (Errorf (''chain plugin not configured chain='' @ c @ '' network='' @ n))))"

text \<open>\<open>registerDefaultBindings\<close> of \<open>internal/bootstrap\<close>: all chains on every network.\<close>

definition default_account_chains :: "string list" where
  "default_account_chains =
     [''ethereum'', ''binance'', ''polygon'', ''arbitrum'', ''optimism'', ''linea'', ''scroll'', ''mantle'', ''zksync'', ''solana'',
      ''cosmos'', ''tron'', ''aptos'', ''sui'', ''ton'', ''xlm'', ''btt'']"

definition default_utxo_chains :: "string list" where
  "default_utxo_chains = [''bitcoin'', ''bitcoincash'', ''dash'', ''litecoin'', ''zen'']"

fun register_all :: "string \<Rightarrow> 'x chain_adapter \<Rightarrow> string list \<Rightarrow> 'x router \<Rightarrow> 'x router result" where
  "register_all model adapter [] r = Inr r"
| "register_all model adapter (c # cs) r =
     bindE (Register \<lparr>pb_Chain = NormalizeChain c, pb_Network = ''*'', pb_Model = model, pb_Adapter = Some adapter\<rparr> r)
       (register_all model adapter cs)"

definition registerDefaultBindings :: "'x chain_adapter \<Rightarrow> 'x chain_adapter \<Rightarrow> 'x router \<Rightarrow> 'x router result" where
  "registerDefaultBindings accountAdapter utxoAdapter r =
     bindE (register_all ''account'' accountAdapter default_account_chains r) (register_all ''utxo'' utxoAdapter default_utxo_chains)"


section \<open>Retries\<close>

definition validateChainNetwork :: "string \<Rightarrow> string \<Rightarrow> unit result" where
  "validateChainNetwork chain network =
     (if trim_space chain = [] \<or> trim_space network = [] then Inl (Errorf ''chain and network are required'') else Inr ())"

definition isRetryable :: "error_class \<Rightarrow> go_error \<Rightarrow> bool" where
  "isRetryable C err \<longleftrightarrow> ec_Transient C err \<or>
     (\<exists>hint\<in>set [''timeout'', ''temporarily unavailable'', ''connection reset'', ''connection refused'', ''broken pipe'',
        ''transport is closing'', ''eof'']. contains (to_lower (error_text err)) hint)"

text \<open>The loop, with the number of attempts left after this one. A wrapped error keeps its class.\<close>

definition wrap_op :: "string \<Rightarrow> go_error \<Rightarrow> go_error" where
  "wrap_op op e = Errorf (op @ '': '' @ error_text e)"

fun retry_loop :: "error_class \<Rightarrow> string \<Rightarrow> nat \<Rightarrow> ('x \<Rightarrow> 'a result \<times> 'x) \<Rightarrow> 'x \<Rightarrow> 'a result \<times> 'x" where
  "retry_loop C op 0 fn x = (case fn x of (Inr a, x') \<Rightarrow> (Inr a, x') | (Inl e, x') \<Rightarrow> (Inl (wrap_op op e), x'))"
| "retry_loop C op (Suc n) fn x =
     (case fn x of
        (Inr a, x') \<Rightarrow> (Inr a, x')
      | (Inl e, x') \<Rightarrow> if \<not> isRetryable C e then (Inl (wrap_op op e), x') else retry_loop C op n fn x')"

definition withRetry :: "error_class \<Rightarrow> string \<Rightarrow> ('x \<Rightarrow> 'a result \<times> 'x) \<Rightarrow> 'x \<Rightarrow> 'a result \<times> 'x" where
  "withRetry C op = retry_loop C op 2"


section \<open>Operations\<close>

text \<open>The checks before a call of the adapter; \<open>k\<close> is the call.\<close>

definition with_binding ::
  "'x router \<Rightarrow> string \<Rightarrow> string \<Rightarrow> ('x plugin_binding \<Rightarrow> 'x chain_adapter \<Rightarrow> 'x \<Rightarrow> 'a result \<times> 'x) \<Rightarrow> 'x \<Rightarrow> 'a result \<times> 'x" where
  "with_binding R chain network k x =
     (case bindE (validateChainNetwork chain network) (\<lambda>_. Resolve chain network R) of
        Inl e \<Rightarrow> (Inl e, x)
      | Inr b \<Rightarrow> (case pb_Adapter b of None \<Rightarrow> (Inl (Errorf ''adapter is required''), x) | Some a \<Rightarrow> k b a x))"

definition svc_ConvertAddress ::
  "error_class \<Rightarrow> 'x router \<Rightarrow> string \<Rightarrow> string \<Rightarrow> string \<Rightarrow> string \<Rightarrow> 'x \<Rightarrow> string result \<times> 'x" where
  "svc_ConvertAddress C R chain network addrType publicKey =
     with_binding R chain network (\<lambda>b a. withRetry C ''convert-address'' (ca_ConvertAddress a (pb_Chain b) network addrType publicKey))"

record build_unsigned_input =
  bu_Chain :: string
  bu_Network :: string
  bu_Base64Tx :: string
  bu_Fee :: string
  bu_Vin :: "tx_vin list"
  bu_Vout :: "tx_vout list"

definition svc_BuildUnsigned ::
  "error_class \<Rightarrow> 'x router \<Rightarrow> build_unsigned_input \<Rightarrow> 'x \<Rightarrow> build_unsigned_result result \<times> 'x" where
  "svc_BuildUnsigned C R inp =
     with_binding R (bu_Chain inp) (bu_Network inp) (\<lambda>b a x.
       let utxo = ca_BuildUnsignedUTXO a (pb_Chain b) (bu_Network inp) (bu_Fee inp) (bu_Vin inp) (bu_Vout inp) in
       if length (bu_Vin inp) > 0 \<or> length (bu_Vout inp) > 0 \<or> bu_Fee inp \<noteq> [] then withRetry C ''build-unsigned-utxo'' utxo x
       else
         case withRetry C ''build-unsigned-account'' (ca_BuildUnsignedAccount a (pb_Chain b) (bu_Network inp) (bu_Base64Tx inp)) x of
           (Inr r, x') \<Rightarrow> (Inr r, x')
         | (Inl e, x') \<Rightarrow>
             if \<not> ec_Unsupported C e then (Inl e, x') else withRetry C ''build-unsigned-utxo-fallback'' utxo x')"

record send_tx_input =
  stx_Chain :: string
  stx_Network :: string
  stx_Coin :: string
  stx_RawTx :: string
  stx_UnsignedTx :: string
  stx_Signatures :: "string list"
  stx_PublicKeys :: "string list"

text \<open>\<open>base64.StdEncoding.DecodeString\<close> is an argument; a text that is not hexadecimal is read as base64.\<close>

definition decodeHexOrBase64 :: "(string \<Rightarrow> string option) \<Rightarrow> string \<Rightarrow> string option" where
  "decodeHexOrBase64 b64 s = (if s = [] then None else case hex_decode s of Some b \<Rightarrow> Some b | None \<Rightarrow> b64 s)"

definition decode_all :: "(string \<Rightarrow> string option) \<Rightarrow> string \<Rightarrow> string list \<Rightarrow> string list result" where
  "decode_all b64 message xs =
     mapE (\<lambda>s. case decodeHexOrBase64 b64 s of Some b \<Rightarrow> Inr b | None \<Rightarrow> Inl (Errorf message)) xs"

text \<open>The raw transaction: as given, or built from the unsigned one and its signatures, or empty.\<close>

definition signed_tx ::
  "error_class \<Rightarrow> (string \<Rightarrow> string option) \<Rightarrow> 'x plugin_binding \<Rightarrow> 'x chain_adapter \<Rightarrow> send_tx_input \<Rightarrow> 'x \<Rightarrow> string result \<times> 'x" where
  "signed_tx C b64 b a inp x =
     (if \<not> (stx_RawTx inp = [] \<and> stx_UnsignedTx inp \<noteq> [] \<and> length (stx_Signatures inp) > 0 \<and> length (stx_PublicKeys inp) > 0) then
        (Inr (stx_RawTx inp), x)
      else if length (stx_Signatures inp) \<noteq> length (stx_PublicKeys inp) then
        (Inl (Errorf ''signature count mismatch public_keys count''), x)
      else if pb_Model b = ''account'' then
        (if length (stx_Signatures inp) \<noteq> 1 \<or> length (stx_PublicKeys inp) \<noteq> 1 then
           (Inl (Errorf (''account model supports single signature, got signatures='' @ nat_to_string (length (stx_Signatures inp)) @
              '' public_keys='' @ nat_to_string (length (stx_PublicKeys inp)))), x)
         else withRetry C ''build-signed-account''
           (ca_BuildSignedAccount a (pb_Chain b) (stx_Network inp) (stx_UnsignedTx inp) (hd (stx_Signatures inp)) (hd (stx_PublicKeys inp))) x)
      else
        case b64 (stx_UnsignedTx inp) of
          None \<Rightarrow> (Inl (Errorf ''invalid unsigned_tx, require base64''), x)
        | Some txData \<Rightarrow>
            (case decode_all b64 ''invalid signature format'' (stx_Signatures inp) of
               Inl e \<Rightarrow> (Inl e, x)
             | Inr sigs \<Rightarrow>
                 (case decode_all b64 ''invalid public key format'' (stx_PublicKeys inp) of
                    Inl e \<Rightarrow> (Inl e, x)
                  | Inr pubs \<Rightarrow>
                      withRetry C ''build-signed-utxo'' (ca_BuildSignedUTXO a (pb_Chain b) (stx_Network inp) txData sigs pubs) x)))"

definition svc_SendTx ::
  "error_class \<Rightarrow> (string \<Rightarrow> string option) \<Rightarrow> 'x router \<Rightarrow> send_tx_input \<Rightarrow> 'x \<Rightarrow> string result \<times> 'x" where
  "svc_SendTx C b64 R inp =
     with_binding R (stx_Chain inp) (stx_Network inp) (\<lambda>b a x.
       case signed_tx C b64 b a inp x of
         (Inl e, x') \<Rightarrow> (Inl e, x')
       | (Inr rawTx, x') \<Rightarrow>
           if rawTx = [] then (Inl (Errorf ''raw_tx is required''), x')
           else withRetry C ''send-tx'' (ca_SendTx a (pb_Chain b) (stx_Network inp) (stx_Coin inp) rawTx) x')"

definition decodeRawObject :: "raw_message \<Rightarrow> json_object result" where
  "decodeRawObject raw =
     (case raw of RawEmpty \<Rightarrow> Inr [] | RawNull \<Rightarrow> Inr [] | RawInvalid e \<Rightarrow> Inl (Errorf e) | RawObject m \<Rightarrow> Inr m)"

definition allowEmptyAddressScan :: "string \<Rightarrow> string \<Rightarrow> bool" where
  "allowEmptyAddressScan model chain \<longleftrightarrow> model = ''account'' \<and> to_lower (trim_space chain) \<in> set evm_chains"

record incoming_transfer_input =
  ii_Model :: string
  ii_Chain :: string
  ii_Coin :: string
  ii_Network :: string
  ii_Address :: string
  ii_Cursor :: string
  ii_Page :: int
  ii_PageSize :: int
  ii_ContractAddress :: string

definition fetchIncomingRaw ::
  "error_class \<Rightarrow> 'x plugin_binding \<Rightarrow> 'x chain_adapter \<Rightarrow> incoming_transfer_input \<Rightarrow> 'x \<Rightarrow> json_object result \<times> 'x" where
  "fetchIncomingRaw C b a inp x =
     (case (if pb_Model b = ''utxo'' then withRetry C ''get-unspent-outputs'' (ca_GetUnspentOutputs a (pb_Chain b) (ii_Network inp) (ii_Address inp)) x
            else withRetry C ''get-tx-by-address'' (ca_GetTxByAddress a
              \<lparr>tq_in_Chain = pb_Chain b, tq_in_Coin = ii_Coin inp, tq_in_Network = ii_Network inp, tq_in_Address = ii_Address inp,
               tq_in_ContractAddress = ii_ContractAddress inp, tq_in_Hash = [], tq_in_Page = (if ii_Page inp = 0 then 1 else ii_Page inp),
               tq_in_PageSize = (if ii_PageSize inp = 0 then 50 else ii_PageSize inp), tq_in_Cursor = ii_Cursor inp\<rparr>) x) of
        (Inl e, x') \<Rightarrow> (Inl e, x')
      | (Inr raw, x') \<Rightarrow> (decodeRawObject raw, x'))"

definition svc_ListIncomingTransfers ::
  "error_class \<Rightarrow> 'x router \<Rightarrow> incoming_transfer_input \<Rightarrow> 'x \<Rightarrow> incoming_transfer_result result \<times> 'x" where
  "svc_ListIncomingTransfers C R inp =
     with_binding R (ii_Chain inp) (ii_Network inp) (\<lambda>b a x.
       if ii_Model inp \<noteq> [] \<and> ii_Model inp \<noteq> pb_Model b then
         (Inl (Errorf (''model mismatch chain='' @ ii_Chain inp @ '' network='' @ ii_Network inp @ '' require='' @ ii_Model inp @
            '' actual='' @ pb_Model b)), x)
       else if trim_space (ii_Address inp) = [] \<and> \<not> allowEmptyAddressScan (pb_Model b) (pb_Chain b) then
         (Inl (Errorf ''address is required''), x)
       else
         case fetchIncomingRaw C b a inp x of
           (Inl e, x') \<Rightarrow> (Inl e, x')
         | (Inr raw, x') \<Rightarrow> (Inr (IncomingTransfers (pb_Model b) (pb_Chain b) raw (ii_Address inp)), x'))"

definition svc_GetTxFinality ::
  "error_class \<Rightarrow> 'x router \<Rightarrow> string \<Rightarrow> string \<Rightarrow> string \<Rightarrow> string \<Rightarrow> 'x \<Rightarrow> chain_finality result \<times> 'x" where
  "svc_GetTxFinality C R chain coin network txHash x =
     (case validateChainNetwork chain network of
        Inl e \<Rightarrow> (Inl e, x)
      | Inr _ \<Rightarrow>
          if trim_space txHash = [] then (Inl (Errorf ''tx_hash is required''), x)
          else
            with_binding R chain network (\<lambda>b a x.
              case withRetry C ''get-tx-by-hash'' (ca_GetTxByHash a
                     \<lparr>tq_in_Chain = pb_Chain b, tq_in_Coin = coin, tq_in_Network = network, tq_in_Address = [], tq_in_ContractAddress = [],
                      tq_in_Hash = txHash, tq_in_Page = 0, tq_in_PageSize = 0, tq_in_Cursor = []\<rparr>) x of
                (Inl e, x') \<Rightarrow> (Inl e, x')
              | (Inr rawMsg, x') \<Rightarrow>
                  (case decodeRawObject rawMsg of
                     Inl e \<Rightarrow> (Inl e, x')
                   | Inr raw \<Rightarrow>
                       let out = Finality txHash raw in
                       (Inr (if trim_space (tf_TxHash out) = [] then out\<lparr>tf_TxHash := txHash\<rparr> else out), x'))) x)"

definition svc_GetBalance ::
  "error_class \<Rightarrow> 'x router \<Rightarrow> string \<Rightarrow> string \<Rightarrow> string \<Rightarrow> string \<Rightarrow> string \<Rightarrow> 'x \<Rightarrow> string result \<times> 'x" where
  "svc_GetBalance C R chain coin network address contractAddress x =
     (case validateChainNetwork chain network of
        Inl e \<Rightarrow> (Inl e, x)
      | Inr _ \<Rightarrow>
          if trim_space address = [] then (Inl (Errorf ''address is required''), x)
          else
            with_binding R chain network (\<lambda>b a x.
              case withRetry C ''get-account'' (ca_GetAccount a (pb_Chain b) coin network address contractAddress) x of
                (Inl e, x') \<Rightarrow> (Inl e, x')
              | (Inr acc, x') \<Rightarrow> (Inr (ar_Balance acc), x')) x)"


section \<open>The clients of the scanner\<close>

text \<open>\<open>rpc\<close> turns the error of a call into the error that arrives over gRPC.\<close>

record gateway_link =
  gl_Attempts :: int
  gl_StatusCode :: "go_error \<Rightarrow> bool"
  gl_Error :: "go_error \<Rightarrow> go_error"

definition isRetriableChainGatewayError :: "gateway_link \<Rightarrow> go_error \<Rightarrow> bool" where
  "isRetriableChainGatewayError L err \<longleftrightarrow> gl_StatusCode L err \<or>
     (\<exists>hint\<in>set [''429'', ''resource exhausted'', ''unavailable'', ''temporarily unavailable'', ''timeout'', ''timed out'',
        ''connection reset'', ''eof'']. contains (to_lower (trim_space (error_text err))) hint)"

fun control_loop :: "gateway_link \<Rightarrow> nat \<Rightarrow> ('x \<Rightarrow> 'a result \<times> 'x) \<Rightarrow> 'x \<Rightarrow> 'a result \<times> 'x" where
  "control_loop L 0 fn x = fn x"
| "control_loop L (Suc n) fn x =
     (case fn x of (Inr a, x') \<Rightarrow> (Inr a, x')
      | (Inl e, x') \<Rightarrow> if \<not> isRetriableChainGatewayError L e then (Inl e, x') else control_loop L n fn x')"

definition withChainControl :: "gateway_link \<Rightarrow> ('x \<Rightarrow> 'a result \<times> 'x) \<Rightarrow> 'x \<Rightarrow> 'a result \<times> 'x" where
  "withChainControl L fn = control_loop L (nat ((if gl_Attempts L \<le> 0 then 1 else gl_Attempts L) - 1)) fn"

definition over_grpc :: "gateway_link \<Rightarrow> ('x \<Rightarrow> 'a result \<times> 'x) \<Rightarrow> 'x \<Rightarrow> 'a result \<times> 'x" where
  "over_grpc L fn x = (case fn x of (Inl e, x') \<Rightarrow> (Inl (gl_Error L e), x') | (Inr a, x') \<Rightarrow> (Inr a, x'))"

definition cg_ListIncomingTransfers ::
  "gateway_link \<Rightarrow> error_class \<Rightarrow> 'x router \<Rightarrow> string \<Rightarrow> string \<Rightarrow> string \<Rightarrow> string \<Rightarrow> string \<Rightarrow> string \<Rightarrow> int \<Rightarrow> string \<Rightarrow> 'x \<Rightarrow>
     incoming_transfer_result result \<times> 'x" where
  "cg_ListIncomingTransfers L C R model chain coin network address cursor pageSize contractAddress =
     withChainControl L (\<lambda>x.
       if trim_space network = [] then (Inl (Errorf ''network is required''), x)
       else over_grpc L (svc_ListIncomingTransfers C R
         \<lparr>ii_Model = model, ii_Chain = chain, ii_Coin = coin, ii_Network = trim_space network, ii_Address = address, ii_Cursor = cursor,
          ii_Page = 1, ii_PageSize = pageSize mod 2 ^ 32, ii_ContractAddress = trim_space contractAddress\<rparr>) x)"

definition cg_TxFinality ::
  "gateway_link \<Rightarrow> error_class \<Rightarrow> 'x router \<Rightarrow> string \<Rightarrow> string \<Rightarrow> string \<Rightarrow> string \<Rightarrow> 'x \<Rightarrow> tx_finality result \<times> 'x" where
  "cg_TxFinality L C R chain coin network txHash =
     withChainControl L (\<lambda>x.
       if trim_space network = [] then (Inl (Errorf ''network is required''), x)
       else case over_grpc L (svc_GetTxFinality C R chain coin (trim_space network) txHash) x of
         (Inl e, x') \<Rightarrow> (Inl e, x')
       | (Inr out, x') \<Rightarrow>
           (Inr \<lparr>tf_Confirmations = tf_Confirmations out, tf_Status = to_upper (trim_space (tf_Status out)), tf_Found = tf_Found out\<rparr>, x'))"

definition cg_GetBalance ::
  "gateway_link \<Rightarrow> error_class \<Rightarrow> 'x router \<Rightarrow> string \<Rightarrow> string \<Rightarrow> string \<Rightarrow> string \<Rightarrow> 'x \<Rightarrow> string result \<times> 'x" where
  "cg_GetBalance L C R chain coin network address =
     withChainControl L (\<lambda>x.
       if trim_space network = [] then (Inl (Errorf ''network is required''), x)
       else case over_grpc L (svc_GetBalance C R chain coin (trim_space network) address []) x of
         (Inl e, x') \<Rightarrow> (Inl e, x')
       | (Inr balance, x') \<Rightarrow> (Inr (trim_space balance), x'))"

text \<open>A scanner whose chain gateway is this service.\<close>

definition behind_gateway :: "gateway_link \<Rightarrow> error_class \<Rightarrow> 'x router \<Rightarrow> ('x, 'k, 'p) scan_env \<Rightarrow> ('x, 'k, 'p) scan_env" where
  "behind_gateway L C R E =
     E\<lparr>sv_ListIncomingTransfers := cg_ListIncomingTransfers L C R, sv_TxFinality := cg_TxFinality L C R, sv_GetBalance := cg_GetBalance L C R\<rparr>"

text \<open>A call with retries returns the answer of one of its attempts.\<close>

lemma withRetry_answer:
  assumes "retry_loop C op n fn x = (Inr a, x')" obtains y where "fn y = (Inr a, x')"
  using assms
proof (induction n arbitrary: x)
  case (Suc n)
  then show ?case by (auto split: prod.splits sum.splits if_splits)
qed (auto split: prod.splits sum.splits)

end
