(* ===== verification/Chain_Theorems.thy ===== *)
theory Chain_Theorems
  imports Chain_Service Scan_Theorems
begin

text \<open>
  Properties of the chain gateway: which endpoint a call gets and when an endpoint is taken out,
  which transfers are attributed to an address, and what the scanner learns about a
  transaction the chain does not have.
\<close>


section \<open>Samples\<close>

definition sample_endpoint :: "string \<Rightarrow> rpc_endpoint" where
  "sample_endpoint url = \<lparr>ep_ID = 1, ep_Chain = ''ethereum'', ep_Network = ''mainnet'', ep_Model = ''account'', ep_URL = url, ep_Weight = 2,
     ep_TimeoutMS = 0, ep_Priority = 0, ep_Status = ''ACTIVE''\<rparr>"

definition two_endpoints :: manager where
  "two_endpoints = snd (Refresh (Inr (ListActiveRPCEndpoints [sample_endpoint ''http://a'', sample_endpoint ''http://b''])) (NewManager 0 0))"

definition key_a :: string where
  "key_a = ''ethereum|mainnet|account|http://a''"

definition three_failures :: "(int \<times> go_error option) list" where
  "three_failures = [(10, None), (20, Some (Errorf ''timeout'')), (30, None)]"

definition broken_endpoint :: manager where
  "broken_endpoint = fold (\<lambda>(now, err). ReportFailure now key_a err) three_failures two_endpoints"

lemma two_endpoints_reachable: "manager_reachable two_endpoints"
  unfolding two_endpoints_def
  by (rule manager_reachable.step [OF manager_reachable.start [of 0 0]],
      rule manager_step.refresh [where t = "[sample_endpoint ''http://a'', sample_endpoint ''http://b'']"])
     (simp add: Refresh_def split: prod.split)


section \<open>The choice of an endpoint\<close>

lemma effectiveWeight_pos: "1 \<le> effectiveWeight st"
  by (simp add: effectiveWeight_def Let_def)

lemma pick_weighted_member:
  "r < acc + sum_list (map effectiveWeight sts) \<Longrightarrow> acc \<le> r \<Longrightarrow> pick_weighted first r acc sts \<in> set sts"
  by (induction sts arbitrary: acc) (auto simp: Let_def add.assoc)

text \<open>The number that picks the first endpoint after \<open>sts\<close>.\<close>

lemma pick_weighted_hit:
  "acc + sum_list (map effectiveWeight sts) = r \<Longrightarrow> pick_weighted first r acc (sts @ st # rest) = st"
proof (induction sts arbitrary: acc)
  case Nil
  then show ?case using effectiveWeight_pos [of st] by (simp add: Let_def)
next
  case (Cons s sts)
  have "0 \<le> sum_list (map effectiveWeight sts)"
    by (intro sum_list_nonneg) (use effectiveWeight_pos order_trans [OF zero_le_one] in \<open>auto simp: image_iff\<close>)
  then show ?case using Cons.IH [of "acc + effectiveWeight s"] Cons.prems by (simp add: Let_def add.assoc)
qed

lemma weights_nonneg: "0 \<le> sum_list (map effectiveWeight sts)"
  by (intro sum_list_nonneg) (use effectiveWeight_pos order_trans [OF zero_le_one] in auto)

lemma opens_before_trans: "\<not> opens_before a b \<Longrightarrow> \<not> opens_before b c \<Longrightarrow> \<not> opens_before a c"
  by (auto simp: opens_before_def split: option.splits)

lemma soonest_least: "soonest c cs \<in> set (c # cs) \<and> (\<forall>x\<in>set (c # cs). \<not> opens_before x (soonest c cs))"
proof (induction cs arbitrary: c)
  case Nil
  then show ?case by (simp add: opens_before_def split: option.splits)
next
  case (Cons d cs)
  let ?p = "if opens_before d c then d else c"
  have ih: "soonest ?p cs \<in> set (?p # cs)" "\<forall>x\<in>set (?p # cs). \<not> opens_before x (soonest ?p cs)" using Cons.IH [of ?p] by simp_all
  have "\<not> opens_before x (soonest ?p cs)" if "x = c \<or> x = d" for x
  proof -
    have "\<not> opens_before x ?p" using that by (auto simp: opens_before_def split: option.splits)
    moreover have "\<not> opens_before ?p (soonest ?p cs)" using ih(2) by simp
    ultimately show ?thesis by (rule opens_before_trans)
  qed
  then show ?case using ih by (auto split: if_splits)
qed

lemma Select_cases:
  assumes names: "to_lower (trim_space ch) \<noteq> []" "to_lower (trim_space nw) \<noteq> []" "to_lower (trim_space md) \<noteq> []"
    and pool: "pool_states m (poolKey (to_lower (trim_space ch)) (to_lower (trim_space nw)) (to_lower (trim_space md))) = c # cs"
  shows "Select now intn ch nw md m =
     (case filter (circuit_closed now) (c # cs) of
        [] \<Rightarrow> Inr (toSelected (soonest c cs))
      | a # as \<Rightarrow> Inr (toSelected (pick_weighted a (intn (sum_list (map effectiveWeight (a # as)))) 0 (a # as))))"
proof (cases "filter (circuit_closed now) (c # cs)")
  case (Cons a as)
  have "0 < sum_list (map effectiveWeight (a # as))"
    using weights_nonneg [of as] effectiveWeight_pos [of a] by simp
  then show ?thesis using names pool Cons by (simp add: Select_def Let_def)
qed (use names pool in \<open>simp add: Select_def Let_def\<close>)

text \<open>
  C21: An endpoint is chosen whenever one is configured, and one in service if there is one: with a random number in range, a
  call for a chain, network and model that has endpoints gets one of them; it gets one whose circuit is closed
  if any is, and otherwise the one whose circuit closes first. Every endpoint whose circuit is closed is chosen for
  some random number.
\<close>

theorem select_prefers_closed_circuits:
  assumes names: "to_lower (trim_space ch) \<noteq> []" "to_lower (trim_space nw) \<noteq> []" "to_lower (trim_space md) \<noteq> []"
    and pool: "sts = pool_states m (poolKey (to_lower (trim_space ch)) (to_lower (trim_space nw)) (to_lower (trim_space md)))" "sts \<noteq> []"
    and intn: "\<forall>n>0. 0 \<le> intn n \<and> intn n < n"
  shows "(\<exists>st\<in>set sts. Select now intn ch nw md m = Inr (toSelected st) \<and>
       (circuit_closed now st \<or> (\<forall>x\<in>set sts. \<not> circuit_closed now x) \<and> (\<forall>x\<in>set sts. \<not> opens_before x st))) \<and>
     (\<forall>st\<in>set sts. circuit_closed now st \<longrightarrow>
       (\<exists>r. 0 \<le> r \<and> r < sum_list (map effectiveWeight (filter (circuit_closed now) sts)) \<and>
          Select now (\<lambda>_. r) ch nw md m = Inr (toSelected st)))"
proof -
  obtain c cs where cs: "sts = c # cs" using pool(2) by (cases sts) auto
  note sel = Select_cases [OF names pool(1) [symmetric, unfolded cs]]
  let ?av = "filter (circuit_closed now) (c # cs)"
  have one: "\<exists>st\<in>set sts. Select now intn ch nw md m = Inr (toSelected st) \<and>
       (circuit_closed now st \<or> (\<forall>x\<in>set sts. \<not> circuit_closed now x) \<and> (\<forall>x\<in>set sts. \<not> opens_before x st))"
  proof (cases ?av)
    case Nil
    then have "Select now intn ch nw md m = Inr (toSelected (soonest c cs))" using sel by simp
    moreover have "\<forall>x\<in>set (c # cs). \<not> circuit_closed now x" using Nil by (simp only: filter_empty_conv)
    ultimately show ?thesis using soonest_least [of c cs] unfolding cs by blast
  next
    case (Cons a as)
    let ?t = "sum_list (map effectiveWeight (a # as))"
    have "0 < ?t" using weights_nonneg [of as] effectiveWeight_pos [of a] by simp
    then have "pick_weighted a (intn ?t) 0 (a # as) \<in> set (a # as)" using intn by (intro pick_weighted_member) auto
    then have "pick_weighted a (intn ?t) 0 (a # as) \<in> set ?av" by (simp only: Cons)
    then have "pick_weighted a (intn ?t) 0 (a # as) \<in> set (c # cs)" "circuit_closed now (pick_weighted a (intn ?t) 0 (a # as))"
      by (simp_all only: set_filter mem_Collect_eq)
    moreover have "Select now intn ch nw md m = Inr (toSelected (pick_weighted a (intn ?t) 0 (a # as)))"
      using sel [of now intn] by (simp only: Cons list.case)
    ultimately show ?thesis unfolding cs by blast
  qed
  moreover have "\<exists>r. 0 \<le> r \<and> r < sum_list (map effectiveWeight ?av) \<and> Select now (\<lambda>_. r) ch nw md m = Inr (toSelected st)"
    if st: "st \<in> set sts" "circuit_closed now st" for st
  proof -
    have "st \<in> set ?av" using st cs by auto
    then obtain xs ys where av: "?av = xs @ st # ys" by (meson split_list)
    then obtain a as where as: "?av = a # as" by (cases ?av) auto
    let ?r = "sum_list (map effectiveWeight xs)"
    have "pick_weighted a ?r 0 ?av = st" unfolding av by (rule pick_weighted_hit) simp
    then have "Select now (\<lambda>_. ?r) ch nw md m = Inr (toSelected st)" using sel [of now "\<lambda>_. ?r"] as by simp
    moreover have "?r < sum_list (map effectiveWeight ?av)"
      unfolding av using weights_nonneg [of ys] effectiveWeight_pos [of st] by simp
    ultimately show ?thesis using weights_nonneg [of xs] by blast
  qed
  ultimately show ?thesis unfolding cs by blast
qed

theorem select_prefers_closed_circuits_witness:
  "(\<exists>st\<in>set (pool_states broken_endpoint ''ethereum|mainnet|account'').
       Select 1000 (\<lambda>_. 0) '' Ethereum'' ''mainnet'' ''account'' broken_endpoint = Inr (toSelected st) \<and> circuit_closed 1000 st) \<and>
   map (\<lambda>st. (ep_URL (es_endpoint st), circuit_closed 1000 st)) (pool_states broken_endpoint ''ethereum|mainnet|account'') =
     [(''http://a'', False), (''http://b'', True)]"
proof -
  let ?sts = "pool_states broken_endpoint ''ethereum|mainnet|account''"
  have ev: "map (\<lambda>st. (ep_URL (es_endpoint st), circuit_closed 1000 st)) ?sts = [(''http://a'', False), (''http://b'', True)]" by code_simp
  have names: "to_lower (trim_space '' Ethereum'') = ''ethereum''" "to_lower (trim_space ''mainnet'') = ''mainnet''"
    "to_lower (trim_space ''account'') = ''account''" "poolKey ''ethereum'' ''mainnet'' ''account'' = ''ethereum|mainnet|account''" by code_simp+
  have "?sts \<noteq> []" using ev by force
  have some: "\<exists>st\<in>set ?sts. circuit_closed 1000 st"
  proof -
    have "(''http://b'', True) \<in> (\<lambda>st. (ep_URL (es_endpoint st), circuit_closed 1000 st)) ` set ?sts"
      unfolding set_map [symmetric] ev by simp
    then show ?thesis by auto
  qed
  have "\<exists>st\<in>set ?sts. Select 1000 (\<lambda>_. 0) '' Ethereum'' ''mainnet'' ''account'' broken_endpoint = Inr (toSelected st) \<and>
       (circuit_closed 1000 st \<or> (\<forall>x\<in>set ?sts. \<not> circuit_closed 1000 x) \<and> (\<forall>x\<in>set ?sts. \<not> opens_before x st))"
    by (rule select_prefers_closed_circuits [of "'' Ethereum''" "''mainnet''" "''account''" ?sts broken_endpoint "\<lambda>_. 0" 1000, THEN conjunct1])
       (use names \<open>?sts \<noteq> []\<close> in simp_all)
  then show ?thesis using some ev by blast
qed


section \<open>The circuit breaker\<close>

lemma update_state_ok:
  assumes ok: "manager_ok m" and f: "\<And>st. state_ok m st \<Longrightarrow> state_ok m (f st)"
  shows "manager_ok (update_state key f m)"
proof (cases "map_of (mg_states m) key")
  case (Some a)
  have so: "state_ok (m\<lparr>mg_heap := h\<rparr>) = state_ok m" for h by (simp add: state_ok_def fun_eq_iff)
  have "a < length (mg_heap m)" using ok map_of_SomeD [OF Some] by (auto simp: manager_ok_def)
  then have "\<forall>st\<in>set ((mg_heap m)[a := f (mg_heap m ! a)]). state_ok m st"
    using ok f by (auto simp: manager_ok_def dest!: subsetD [OF set_update_subset_insert])
  then show ?thesis using ok Some by (auto simp: manager_ok_def update_state_def so)
qed (use ok in \<open>simp add: update_state_def\<close>)

lemma fail_state_ok: "manager_ok m \<Longrightarrow> state_ok m st \<Longrightarrow> state_ok m (fail_state (mg_openDuration m) (mg_failThreshold m) now err st)"
  by (auto simp: state_ok_def fail_state_def manager_ok_def Let_def)

lemma put_key_all: "\<forall>(k, v)\<in>set m. P v \<Longrightarrow> P v \<Longrightarrow> \<forall>(k, v)\<in>set (put_key k v m). P v"
  by (auto simp: put_key_def)

definition refresh_ok :: "int \<Rightarrow> nat \<Rightarrow> endpoint_state list \<times> (string \<times> nat list) list \<times> (string \<times> nat) list \<Rightarrow> bool" where
  "refresh_ok threshold n acc \<longleftrightarrow> (case acc of (heap, pools, states) \<Rightarrow>
     n \<le> length heap \<and>
     (\<forall>st\<in>set heap. 0 \<le> es_failStreak st \<and> es_failStreak st < threshold \<and> 0 \<le> es_penalty st \<and> 1 \<le> ep_Weight (es_endpoint st)) \<and>
     (\<forall>(k, a)\<in>set states. a < length heap) \<and> (\<forall>(k, as)\<in>set pools. \<forall>a\<in>set as. a < length heap))"

lemma refresh_item_ok:
  assumes acc: "refresh_ok t n acc" and t: "0 < t" and w: "1 \<le> ep_Weight item" and old: "\<forall>(k, a)\<in>set old. a < n"
  shows "refresh_ok t n (refresh_item old item acc)"
proof -
  obtain heap pools states where [simp]: "acc = (heap, pools, states)" by (cases acc)
  let ?k = "endpointKey item" and ?pk = "poolKey (ep_Chain item) (ep_Network item) (ep_Model item)"
  define as where "as = (case map_of pools ?pk of None \<Rightarrow> [] | Some as \<Rightarrow> as)"
  have "\<forall>(k, bs)\<in>set pools. \<forall>b\<in>set bs. b < length heap" using acc by (simp add: refresh_ok_def)
  then have as: "\<forall>a\<in>set as. a < length heap"
    using map_of_SomeD [of pools ?pk] by (cases "map_of pools ?pk") (auto simp: as_def)
  have step: "refresh_ok t n (heap', put_key ?pk (as @ [a]) pools, put_key ?k a states)"
    if h: "length heap \<le> length heap'" "a < length heap'" "\<forall>st\<in>set heap'. 0 \<le> es_failStreak st \<and> es_failStreak st < t \<and>
      0 \<le> es_penalty st \<and> 1 \<le> ep_Weight (es_endpoint st)" for heap' a
  proof -
    have "\<forall>(k, b)\<in>set (put_key ?k a states). b < length heap'"
      by (rule put_key_all) (use acc h in \<open>auto simp: refresh_ok_def\<close>)
    moreover have "\<forall>(k, bs)\<in>set (put_key ?pk (as @ [a]) pools). \<forall>b\<in>set bs. b < length heap'"
      by (rule put_key_all) (use acc as h in \<open>fastforce simp: refresh_ok_def\<close>)+
    ultimately show ?thesis using acc h by (simp add: refresh_ok_def)
  qed
  show ?thesis
  proof (cases "map_of old ?k")
    case None
    then have r: "refresh_item old item acc = (heap @ [new_state item], put_key ?pk (as @ [length heap]) pools, put_key ?k (length heap) states)"
      by (simp add: refresh_item_def Let_def as_def)
    show ?thesis unfolding r by (rule step) (use acc t w in \<open>auto simp: refresh_ok_def new_state_def\<close>)
  next
    case (Some a)
    then have a: "a < length heap" using old acc map_of_SomeD [OF Some] by (auto simp: refresh_ok_def)
    have r: "refresh_item old item acc =
        (heap[a := (heap ! a)\<lparr>es_endpoint := item\<rparr>], put_key ?pk (as @ [a]) pools, put_key ?k a states)"
      using Some by (simp add: refresh_item_def Let_def as_def)
    have "heap ! a \<in> set heap" using a by simp
    then show ?thesis unfolding r
      by (intro step) (use acc a w in \<open>auto simp: refresh_ok_def dest!: subsetD [OF set_update_subset_insert]\<close>)
  qed
qed

lemma refresh_items_ok:
  "refresh_ok t n acc \<Longrightarrow> 0 < t \<Longrightarrow> \<forall>item\<in>set items. 1 \<le> ep_Weight item \<Longrightarrow> \<forall>(k, a)\<in>set old. a < n \<Longrightarrow>
     refresh_ok t n (fold (refresh_item old) items acc)"
  by (induction items arbitrary: acc) (simp_all add: refresh_item_ok)

lemma listed_weight: "item \<in> set (ListActiveRPCEndpoints t) \<Longrightarrow> 1 \<le> ep_Weight item"
  by (auto simp: ListActiveRPCEndpoints_def clean_endpoint_def)

lemma Refresh_ok:
  assumes ok: "manager_ok m" and run: "Refresh (Inr (ListActiveRPCEndpoints t)) m = (Inr (), m')"
  shows "manager_ok m'"
proof -
  obtain heap pools states where f: "fold (refresh_item (mg_states m)) (ListActiveRPCEndpoints t) (mg_heap m, [], []) = (heap, pools, states)"
    by (metis prod_cases3)
  have "refresh_ok (mg_failThreshold m) (length (mg_heap m)) (heap, pools, states)"
    unfolding f [symmetric]
    by (rule refresh_items_ok) (use ok listed_weight in \<open>auto simp: refresh_ok_def manager_ok_def state_ok_def\<close>)
  moreover have "m' = m\<lparr>mg_heap := heap, mg_pools := pools, mg_states := states\<rparr>" using run f by (simp add: Refresh_def)
  ultimately show ?thesis using ok by (simp add: refresh_ok_def manager_ok_def state_ok_def)
qed

lemma manager_reachable_ok: "manager_reachable m \<Longrightarrow> manager_ok m"
proof (induction rule: manager_reachable.induct)
  case (start openDuration failThreshold)
  then show ?case by (simp add: manager_ok_def NewManager_def)
next
  case (step m m')
  from step(2) step(3) show ?case
  proof (cases rule: manager_step.cases)
    case (refresh t)
    then show ?thesis using Refresh_ok step(3) by blast
  next
    case (success now key)
    then show ?thesis unfolding ReportSuccess_def
      by (simp, intro update_state_ok step(3)) (auto simp: state_ok_def manager_ok_def)
  next
    case (failure now key err)
    then show ?thesis unfolding ReportFailure_def
      by (simp, intro update_state_ok step(3) fail_state_ok step(3))
  qed
qed


definition state_at :: "manager \<Rightarrow> string \<Rightarrow> endpoint_state option" where
  "state_at m key = map_option (\<lambda>a. mg_heap m ! a) (map_of (mg_states m) key)"

definition report_failures :: "string \<Rightarrow> (int \<times> go_error option) list \<Rightarrow> manager \<Rightarrow> manager" where
  "report_failures key = fold (\<lambda>(now, err). ReportFailure now key err)"

lemma state_at_ok: "manager_ok m \<Longrightarrow> state_at m key = Some st \<Longrightarrow> state_ok m st"
  by (auto simp: state_at_def manager_ok_def dest!: map_of_SomeD)

lemma state_at_update:
  assumes "manager_ok m" "state_at m key = Some st"
  shows "state_at (update_state key f m) key = Some (f st)"
proof -
  obtain a where a: "map_of (mg_states m) key = Some a" "st = mg_heap m ! a" using assms(2) by (auto simp: state_at_def)
  then have "a < length (mg_heap m)" using assms(1) map_of_SomeD [OF a(1)] by (auto simp: manager_ok_def)
  then show ?thesis using a by (simp add: state_at_def update_state_def)
qed

lemma update_state_settings [simp]:
  "mg_failThreshold (update_state key f m) = mg_failThreshold m" "mg_openDuration (update_state key f m) = mg_openDuration m"
  by (simp_all add: update_state_def split: option.split)

lemma ReportFailure_ok: "manager_ok m \<Longrightarrow> manager_ok (ReportFailure now key err m)"
  unfolding ReportFailure_def by (rule update_state_ok) (simp_all add: fail_state_ok)

lemma failures_counted:
  assumes "manager_ok m" "state_at m key = Some st" "es_failStreak st + int (length fs) < mg_failThreshold m"
  shows "manager_ok (report_failures key fs m) \<and> mg_failThreshold (report_failures key fs m) = mg_failThreshold m \<and>
     mg_openDuration (report_failures key fs m) = mg_openDuration m \<and>
     (\<exists>st'. state_at (report_failures key fs m) key = Some st' \<and> es_failStreak st' = es_failStreak st + int (length fs) \<and>
       es_openUntil st' = es_openUntil st)"
  using assms
proof (induction fs arbitrary: m st)
  case Nil
  then show ?case by (simp add: report_failures_def)
next
  case (Cons f fs)
  obtain now err where f: "f = (now, err)" by (cases f)
  let ?m = "ReportFailure now key err m" and ?st = "fail_state (mg_openDuration m) (mg_failThreshold m) now err st"
  have st: "state_at ?m key = Some ?st" unfolding ReportFailure_def by (rule state_at_update [OF Cons.prems(1,2)])
  have streak: "es_failStreak ?st = es_failStreak st + 1" "es_openUntil ?st = es_openUntil st"
    using Cons.prems(3) by (auto simp: fail_state_def Let_def)
  have "es_failStreak ?st + int (length fs) < mg_failThreshold ?m"
    using Cons.prems(3) streak by (simp add: ReportFailure_def)
  from Cons.IH [OF ReportFailure_ok [OF Cons.prems(1)] st this] streak
  have "manager_ok (report_failures key fs ?m)" "mg_failThreshold (report_failures key fs ?m) = mg_failThreshold m"
    "mg_openDuration (report_failures key fs ?m) = mg_openDuration m"
    "\<exists>st'. state_at (report_failures key fs ?m) key = Some st' \<and> es_failStreak st' = es_failStreak st + int (length (f # fs)) \<and>
       es_openUntil st' = es_openUntil st"
    by (simp_all add: ReportFailure_def add.assoc)
  moreover have "report_failures key (f # fs) m = report_failures key fs ?m" by (simp add: report_failures_def f)
  ultimately show ?case by presburger
qed

text \<open>
  C22: The circuit of an endpoint opens at the threshold and not before: for an endpoint of a manager that any
  sequence of refreshes and reports has reached, fewer failures in a row than are left to the threshold are counted and leave its circuit
  as it is; as many as are left, of which there is always at least one, open the circuit for the open duration after the last failure, so
  that no call before that time finds it closed, and start the count anew; a success closes it and forgets the streak.
\<close>

theorem circuit_opens_at_threshold:
  assumes "manager_reachable m" "state_at m key = Some st"
    and left: "left = mg_failThreshold m - es_failStreak st"
  shows "0 < left \<and>
     (int (length fs) < left \<longrightarrow>
        (\<exists>st'. state_at (report_failures key fs m) key = Some st' \<and> es_failStreak st' = es_failStreak st + int (length fs) \<and>
           es_openUntil st' = es_openUntil st)) \<and>
     (int (length fs) = left \<longrightarrow>
        (\<exists>st'. state_at (report_failures key fs m) key = Some st' \<and> es_failStreak st' = 0 \<and>
           (\<forall>now. circuit_closed now st' \<longleftrightarrow> fst (last fs) + mg_openDuration m \<le> now))) \<and>
     (\<exists>st'. state_at (ReportSuccess now key m) key = Some st' \<and> es_failStreak st' = 0 \<and> (\<forall>t. circuit_closed t st'))"
proof -
  have ok: "manager_ok m" using assms(1) by (rule manager_reachable_ok)
  have "0 < left" using state_at_ok [OF ok assms(2)] left by (simp add: state_ok_def)
  moreover have "\<exists>st'. state_at (report_failures key fs m) key = Some st' \<and> es_failStreak st' = 0 \<and>
      (\<forall>now. circuit_closed now st' \<longleftrightarrow> fst (last fs) + mg_openDuration m \<le> now)" if n: "int (length fs) = left"
  proof -
    have "fs \<noteq> []" using n \<open>0 < left\<close> by auto
    then obtain gs t err where fs: "fs = gs @ [(t, err)]" by (metis append_butlast_last_id surj_pair)
    have "es_failStreak st + int (length gs) < mg_failThreshold m" using n left fs by simp
    from failures_counted [OF ok assms(2) this] obtain st' where
      m': "manager_ok (report_failures key gs m)" "mg_failThreshold (report_failures key gs m) = mg_failThreshold m"
        "mg_openDuration (report_failures key gs m) = mg_openDuration m" and
      st': "state_at (report_failures key gs m) key = Some st'" "es_failStreak st' = es_failStreak st + int (length gs)" by blast
    have "report_failures key fs m = ReportFailure t key err (report_failures key gs m)" by (simp add: report_failures_def fs)
    then have "state_at (report_failures key fs m) key = Some (fail_state (mg_openDuration m) (mg_failThreshold m) t err st')"
      using state_at_update [OF m'(1) st'(1)] m' by (simp add: ReportFailure_def)
    moreover have "mg_failThreshold m \<le> es_failStreak st' + 1" using st'(2) n left fs by simp
    ultimately show ?thesis using fs by (auto simp: fail_state_def Let_def circuit_closed_def)
  qed
  moreover have "\<exists>st'. state_at (ReportSuccess now key m) key = Some st' \<and> es_failStreak st' = 0 \<and> (\<forall>t. circuit_closed t st')"
    unfolding ReportSuccess_def using state_at_update [OF ok assms(2)] by (simp add: circuit_closed_def)
  moreover have "\<exists>st'. state_at (report_failures key fs m) key = Some st' \<and> es_failStreak st' = es_failStreak st + int (length fs) \<and>
      es_openUntil st' = es_openUntil st" if "int (length fs) < left"
    using failures_counted [OF ok assms(2), of fs] that left by simp
  ultimately show ?thesis by blast
qed


theorem circuit_opens_at_threshold_witness:
  "(\<exists>st'. state_at (report_failures key_a three_failures two_endpoints) key_a = Some st' \<and> es_failStreak st' = 0 \<and>
      (\<forall>now. circuit_closed now st' \<longleftrightarrow> 30030 \<le> now)) \<and>
   (\<exists>st'. state_at (report_failures key_a [(10, None)] two_endpoints) key_a = Some st' \<and> es_failStreak st' = 1 \<and> es_openUntil st' = None)"
proof -
  have ev: "map_option (\<lambda>st. (es_failStreak st, es_openUntil st)) (state_at two_endpoints key_a) = Some (0, None)"
    "mg_failThreshold two_endpoints = 3" "mg_openDuration two_endpoints = 30000" by code_simp+
  then obtain st where st: "state_at two_endpoints key_a = Some st" "es_failStreak st = 0" "es_openUntil st = None" by auto
  have left: "3 = mg_failThreshold two_endpoints - es_failStreak st" using ev st by simp
  note circuit = circuit_opens_at_threshold [OF two_endpoints_reachable st(1) left]
  show ?thesis using circuit [of three_failures] circuit [of "[(10, None)]"] st ev by (simp add: three_failures_def)
qed


section \<open>Transactions the chain does not have\<close>

text \<open>A call with retries returns the answer of one of its attempts.\<close>

lemma control_loop_answer:
  assumes "control_loop L n fn x = (Inr a, x')" obtains y where "fn y = (Inr a, x')"
  using assms
proof (induction n arbitrary: x)
  case (Suc n)
  then show ?case by (auto split: prod.splits sum.splits if_splits)
qed simp

lemma Finality_found: "trim_space txHash \<noteq> [] \<Longrightarrow> tf_Found (Finality txHash raw)"
proof -
  assume "trim_space txHash \<noteq> []"
  moreover from this have "txHash \<noteq> []" by (auto simp: trim_space_def trim_left_def)
  ultimately show ?thesis by (simp add: Finality_def Let_def)
qed

lemma svc_GetTxFinality_found: "svc_GetTxFinality C R chain coin network txHash x = (Inr f, x') \<Longrightarrow> tf_Found f"
  by (auto simp: svc_GetTxFinality_def with_binding_def Let_def Finality_found
      split: sum.splits if_splits option.splits prod.splits)

lemma cg_TxFinality_found:
  assumes "cg_TxFinality L C R chain coin network txHash x = (Inr f, x')"
  shows "tf_Found f"
proof -
  obtain y where "(if trim_space network = [] then (Inl (Errorf ''network is required''), y)
     else case over_grpc L (svc_GetTxFinality C R chain coin (trim_space network) txHash) y of
       (Inl e, x') \<Rightarrow> (Inl e, x')
     | (Inr out, x') \<Rightarrow>
         (Inr \<lparr>tf_Confirmations = tf_Confirmations out, tf_Status = to_upper (trim_space (tf_Status out)), tf_Found = tf_Found out\<rparr>, x')) =
     (Inr f, x')"
    using assms unfolding cg_TxFinality_def withChainControl_def by (rule control_loop_answer)
  then show ?thesis by (auto simp: over_grpc_def split: if_splits prod.splits sum.splits dest: svc_GetTxFinality_found)
qed

lemma set_ext_scan [simp]: "sy_scan (set_ext x s) = sy_scan s"
  by (simp add: set_ext_def)

lemma postJSON_scan [simp]: "sy_scan (snd (postJSON E path serve s)) = sy_scan s"
  by (simp add: postJSON_def split: prod.splits post_fate.splits)

lemma notify_outgoing_scan [simp]: "sy_scan (snd (notify_outgoing E k req s)) = sy_scan s"
  by (cases k) (simp_all add: notify_outgoing_def wc_WithdrawOnchainNotify_def wc_SweepOnchainNotify_def wc_TreasuryTransferOnchainNotify_def)

abbreviation missing_rows :: "'x system \<Rightarrow> outgoing_row set" where
  "missing_rows s \<equiv> set (scan_outgoing_watch (sy_scan s))"

lemma check_outgoing_found:
  assumes found: "\<And>ch coin nw h x f x'. sv_TxFinality E ch coin nw h x = (Inr f, x') \<Longrightarrow> tf_Found f"
  shows "missing_rows (snd (check_outgoing E S k replaced it s)) \<subseteq> missing_rows s"
proof (cases "sv_TxFinality E (po_Chain it) [] (po_Network it) (po_TxHash it) (sy_ext s)")
  case (Pair r x)
  let ?clear = "\<lambda>t. t\<lparr>sy_scan := ClearOutgoingNotFound (kind_name k) (po_TenantID it) (po_OrderID it) (po_TxHash it) (sy_scan t)\<rparr>"
  have clear: "missing_rows (?clear (set_ext x s)) \<subseteq> missing_rows s" by (auto simp: ClearOutgoingNotFound_def)
  show ?thesis
  proof (cases r)
    case (Inl e)
    then show ?thesis using Pair by (simp add: check_outgoing_def bindA_def externA_def returnA_def)
  next
    case (Inr f)
    then have "tf_Found f" using found Pair by blast
    then show ?thesis using Pair Inr clear
      by (simp add: check_outgoing_def bindA_def externA_def returnA_def execA_def storeA_def Let_def)
  qed
qed

lemma behind_gateway_found: "missing_rows (snd (check_outgoing (behind_gateway L C R E) S k replaced it s)) \<subseteq> missing_rows s"
  by (rule check_outgoing_found) (auto simp: behind_gateway_def dest: cg_TxFinality_found)

lemma eachA_subset:
  assumes "\<And>v s. m (snd (f v s)) \<subseteq> m s"
  shows "m s \<subseteq> X \<Longrightarrow> m (eachA f vs s) \<subseteq> X"
  using assms by (induction vs arbitrary: s) (simp_all add: eachA_def, meson subset_trans)

text \<open>
  C20: The gateway never reports a missing transaction: whatever the adapters answer, an answer about the
  finality of a transaction that reaches a scanner says it was found, so a scanner behind the gateway never
  counts an outgoing transaction as missing, and an order whose transaction the chain has dropped is never failed.
\<close>

theorem gateway_never_reports_missing:
  "(\<forall>f x'. cg_TxFinality L C R chain coin network txHash x = (Inr f, x') \<longrightarrow> tf_Found f) \<and>
   set (scan_outgoing_watch (sy_scan (scanOutgoingConfirmations (behind_gateway L C R E) S s))) \<subseteq> set (scan_outgoing_watch (sy_scan s))"
proof
  show "missing_rows (scanOutgoingConfirmations (behind_gateway L C R E) S s) \<subseteq> missing_rows s"
    unfolding scanOutgoingConfirmations_def Let_def
    by (intro eachA_subset [where m = missing_rows] behind_gateway_found order_refl)
qed (auto dest: cg_TxFinality_found)

definition silent_adapter :: "nat chain_adapter" where
  "silent_adapter =
     (let no = Inl (Errorf ''unsupported'') in
      \<lparr>ca_ConvertAddress = (\<lambda>_ _ _ _ x. (no, x)), ca_SendTx = (\<lambda>_ _ _ _ x. (no, x)),
       ca_BuildUnsignedAccount = (\<lambda>_ _ _ x. (Inl (Errorf ''unsupported''), x)), ca_BuildSignedAccount = (\<lambda>_ _ _ _ _ x. (no, x)),
       ca_BuildUnsignedUTXO = (\<lambda>_ _ _ _ _ x. (Inl (Errorf ''unsupported''), x)), ca_BuildSignedUTXO = (\<lambda>_ _ _ _ _ x. (no, x)),
       ca_GetAccount = (\<lambda>_ _ _ _ _ x. (Inl (Errorf ''unsupported''), x)),
       ca_GetTxByHash = (\<lambda>q x. (Inr (RawObject [(''tx_hash'', JStr (tq_in_Hash q)), (''confirmations'', JNum 0), (''status'', JStr []),
         (''found'', JBool False)]), x)),
       ca_GetTxByAddress = (\<lambda>_ x. (Inr RawEmpty, x)), ca_GetUnspentOutputs = (\<lambda>_ _ _ x. (Inr RawEmpty, x))\<rparr>)"

definition silent_router :: "nat router" where
  "silent_router = (case registerDefaultBindings silent_adapter silent_adapter [] of Inl _ \<Rightarrow> [] | Inr r \<Rightarrow> r)"

definition plain_link :: gateway_link where
  "plain_link = \<lparr>gl_Attempts = 3, gl_StatusCode = (\<lambda>_. False), gl_Error = (\<lambda>e. e)\<rparr>"

definition plain_class :: error_class where
  "plain_class = \<lparr>ec_Transient = (\<lambda>_. False), ec_Unsupported = (\<lambda>_. False)\<rparr>"

text \<open>The adapter says the transaction was not found; the scanner reads that it is pending.\<close>

theorem gateway_never_reports_missing_witness:
  "(\<exists>f x'. cg_TxFinality plain_link plain_class silent_router ''ethereum'' [] ''mainnet'' ''0x3'' 0 = (Inr f, x') \<and> tf_Found f \<and>
      tf_Status f = ''PENDING'') \<and>
   scan_outgoing_watch (sy_scan (scanOutgoingConfirmations (behind_gateway plain_link plain_class silent_router (scan_sample_env []))
     sample_scanner paying_system)) = []"
proof -
  note never = gateway_never_reports_missing [of plain_link plain_class silent_router "''ethereum''" "[]" "''mainnet''" "''0x3''" 0
      "scan_sample_env []" sample_scanner paying_system]
  have "(case cg_TxFinality plain_link plain_class silent_router ''ethereum'' [] ''mainnet'' ''0x3'' 0 of
     (Inl _, _) \<Rightarrow> False | (Inr f, _) \<Rightarrow> tf_Status f = ''PENDING'')" by code_simp
  then obtain f x' where f: "cg_TxFinality plain_link plain_class silent_router ''ethereum'' [] ''mainnet'' ''0x3'' 0 = (Inr f, x')"
    "tf_Status f = ''PENDING''" by (auto split: prod.splits sum.splits)
  moreover have "scan_outgoing_watch (sy_scan paying_system) = []" by (simp add: paying_system_def empty_scan_db_def)
  ultimately show ?thesis using never by auto
qed

end
