(* ===== verification/Evm_Reader.thy ===== *)
theory Evm_Reader
  imports Chain_Service
begin

text \<open>
  The reader of the EVM chains, \<open>src/services/chain-gateway/internal/adapters/account/chains/evm/rpc_reader.go\<close>.

  The HTTP request to a node is an argument: it has no answer, an answer with a status that is no success, or an
  answer whose body is decoded. A \<open>uint64\<close> is a natural number below \<open>2 ^ 64\<close>; the reader's state is the manager of the
  endpoints and the outside world. The pauses between retries and a cancelled context are left out. The loop over block
  numbers does not end in the code when the last block is \<open>2 ^ 64 - 1\<close>, and a page whose last block wraps around panics when its list is made;
  here the range is a list.
\<close>


section \<open>Nodes\<close>

datatype rpc_reply =
    RpcLost go_error
  | RpcStatus int
  | RpcBroken go_error
  | RpcError int string
  | RpcResult "json option"

record 'x node =
  nd_manager :: manager
  nd_ext :: 'x

record 'x node_env =
  ne_Rpc :: "selected_endpoint \<Rightarrow> string \<Rightarrow> json list \<Rightarrow> 'x \<Rightarrow> rpc_reply \<times> 'x"
  ne_Now :: "'x \<Rightarrow> int"
  ne_Intn :: "'x \<Rightarrow> int \<Rightarrow> int"
  ne_CursorLookback :: nat

type_synonym ('x, 'a) node_call = "'x node \<Rightarrow> 'a result \<times> 'x node"

definition bindN :: "('x, 'a) node_call \<Rightarrow> ('a \<Rightarrow> ('x, 'b) node_call) \<Rightarrow> ('x, 'b) node_call" where
  "bindN m f n = (case m n of (Inl e, n') \<Rightarrow> (Inl e, n') | (Inr a, n') \<Rightarrow> f a n')"

definition rd_ReportFailure :: "'x node_env \<Rightarrow> string \<Rightarrow> go_error \<Rightarrow> 'x node \<Rightarrow> 'x node" where
  "rd_ReportFailure N key e n = n\<lparr>nd_manager := ReportFailure (ne_Now N (nd_ext n)) key (Some e) (nd_manager n)\<rparr>"

definition rd_ReportSuccess :: "'x node_env \<Rightarrow> string \<Rightarrow> 'x node \<Rightarrow> 'x node" where
  "rd_ReportSuccess N key n = n\<lparr>nd_manager := ReportSuccess (ne_Now N (nd_ext n)) key (nd_manager n)\<rparr>"

text \<open>A step whose error is reported to the manager, and the end of an operation that succeeds.\<close>

definition reported :: "'x node_env \<Rightarrow> selected_endpoint \<Rightarrow> ('x, 'a) node_call \<Rightarrow> ('x, 'a) node_call" where
  "reported N ep m n = (case m n of (Inl e, n') \<Rightarrow> (Inl e, rd_ReportFailure N (sel_Key ep) e n') | (Inr a, n') \<Rightarrow> (Inr a, n'))"

definition succeed :: "'x node_env \<Rightarrow> selected_endpoint \<Rightarrow> 'a \<Rightarrow> ('x, 'a) node_call" where
  "succeed N ep a n = (Inr a, rd_ReportSuccess N (sel_Key ep) n)"

definition selectEndpoint :: "'x node_env \<Rightarrow> string \<Rightarrow> string \<Rightarrow> ('x, selected_endpoint) node_call" where
  "selectEndpoint N chain network n =
     (case Select (ne_Now N (nd_ext n)) (ne_Intn N (nd_ext n)) chain network ''account'' (nd_manager n) of
        Inl e \<Rightarrow> (Inl (Errorf (''no rpc endpoint configured: '' @ error_text e)), n)
      | Inr ep \<Rightarrow> (Inr ep, n))"


section \<open>Calls\<close>

definition isRetriableRPCError :: "go_error \<Rightarrow> bool" where
  "isRetriableRPCError err \<longleftrightarrow>
     (\<exists>hint\<in>set [''rpc status=429'', ''rpc status=502'', ''rpc status=503'', ''rpc status=504'', ''timeout'', ''connection reset'', ''eof'',
        ''connection refused'']. contains (to_lower (error_text err)) hint)"

text \<open>The value of an answer without a result, and of the result \<open>null\<close>, is the zero value of the target.\<close>

definition callOnce ::
  "'x node_env \<Rightarrow> selected_endpoint \<Rightarrow> string \<Rightarrow> json list \<Rightarrow> (json \<Rightarrow> 'a option) \<Rightarrow> 'a \<Rightarrow> ('x, 'a) node_call" where
  "callOnce N ep meth params decode zero n =
     (case ne_Rpc N ep meth params (nd_ext n) of
        (reply, x) \<Rightarrow>
          (case reply of
             RpcLost e \<Rightarrow> Inl e
           | RpcStatus s \<Rightarrow> Inl (Errorf (''rpc status='' @ int_to_string s @ '' method='' @ meth))
           | RpcBroken e \<Rightarrow> Inl e
           | RpcError code msg \<Rightarrow> Inl (Errorf (''rpc method='' @ meth @ '' code='' @ int_to_string code @ '' msg='' @ msg))
           | RpcResult None \<Rightarrow> Inr zero
           | RpcResult (Some v) \<Rightarrow> (case decode v of None \<Rightarrow> Inl (Errorf ''json: cannot unmarshal'') | Some a \<Rightarrow> Inr a),
           n\<lparr>nd_ext := x\<rparr>))"

fun call_loop ::
  "nat \<Rightarrow> 'x node_env \<Rightarrow> selected_endpoint \<Rightarrow> string \<Rightarrow> json list \<Rightarrow> (json \<Rightarrow> 'a option) \<Rightarrow> 'a \<Rightarrow> ('x, 'a) node_call" where
  "call_loop 0 N ep meth params decode zero n = callOnce N ep meth params decode zero n"
| "call_loop (Suc k) N ep meth params decode zero n =
     (case callOnce N ep meth params decode zero n of
        (Inr a, n') \<Rightarrow> (Inr a, n')
      | (Inl e, n') \<Rightarrow> if \<not> isRetriableRPCError e then (Inl e, n') else call_loop k N ep meth params decode zero n')"

definition rd_call ::
  "'x node_env \<Rightarrow> selected_endpoint \<Rightarrow> string \<Rightarrow> json list \<Rightarrow> (json \<Rightarrow> 'a option) \<Rightarrow> 'a \<Rightarrow> ('x, 'a) node_call" where
  "rd_call = call_loop 2"


section \<open>Numbers\<close>

fun scan_base :: "nat \<Rightarrow> nat \<Rightarrow> string \<Rightarrow> nat option" where
  "scan_base b acc [] = Some acc"
| "scan_base b acc (c # s) =
     (case hex_val c of None \<Rightarrow> None | Some d \<Rightarrow> if d < b then scan_base b (b * acc + d) s else None)"

text \<open>\<open>strconv.ParseUint(s, base, 64)\<close>: the value it returns, and its error.\<close>

definition parse_uint64 :: "nat \<Rightarrow> string \<Rightarrow> nat \<times> go_error option" where
  "parse_uint64 b s =
     (let err = (\<lambda>what. Some (Errorf (''strconv.ParseUint: parsing '' @ s @ '': '' @ what))) in
      case (if s = [] then None else scan_base b 0 s) of
        None \<Rightarrow> (0, err ''invalid syntax'')
      | Some v \<Rightarrow> if int v < 2 ^ 64 then (v, None) else (nat (2 ^ 64 - 1), err ''value out of range''))"

definition has_0x :: "string \<Rightarrow> bool" where
  "has_0x v \<longleftrightarrow> has_prefix v ''0x'' \<or> has_prefix v ''0X''"

definition hexToUint64 :: "string \<Rightarrow> nat \<times> go_error option" where
  "hexToUint64 v0 =
     (let v = trim_space v0 in
      if v = [] then (0, None) else if has_0x v then parse_uint64 16 (drop 2 v) else parse_uint64 10 v)"

definition uint64_result :: "nat \<times> go_error option \<Rightarrow> nat result" where
  "uint64_result p = (case p of (v, None) \<Rightarrow> Inr v | (_, Some e) \<Rightarrow> Inl e)"

text \<open>\<open>big.Int.SetString\<close> in a base: a sign, digits, nothing else; and the value it leaves behind when it fails.\<close>

definition signed_scan :: "(string \<Rightarrow> nat option) \<Rightarrow> string \<Rightarrow> int option" where
  "signed_scan scan s =
     (case s of
        [] \<Rightarrow> None
      | c # r \<Rightarrow>
          if c = CHR ''-'' then map_option (\<lambda>n. - int n) (scan r)
          else if c = CHR ''+'' then map_option int (scan r)
          else map_option int (scan s))"

definition big_set_hex :: "string \<Rightarrow> int option" where
  "big_set_hex = signed_scan (\<lambda>s. if s = [] then None else scan_base 16 0 s)"

definition big_left_hex :: "string \<Rightarrow> int" where
  "big_left_hex s = (case signed_scan (\<lambda>s. scan_base 16 0 (takeWhile (\<lambda>c. hex_val c \<noteq> None) s)) s of None \<Rightarrow> 0 | Some i \<Rightarrow> i)"

definition hexToBig :: "string \<Rightarrow> int result" where
  "hexToBig v =
     (let x = trim_space v in
      if x = [] then Inr 0
      else case (if has_0x x then big_set_hex (drop 2 x) else big_SetString x) of
        None \<Rightarrow> Inl (Errorf (''invalid number: '' @ v))
      | Some i \<Rightarrow> Inr i)"

text \<open>\<open>int64(v)\<close> of a \<open>uint64\<close>.\<close>

definition as_int64 :: "nat \<Rightarrow> int" where
  "as_int64 v = (if int v < 2 ^ 63 then int v else int v - 2 ^ 64)"

text \<open>\<open>int64(latest-bn) + 1\<close>, which wraps at \<open>2 ^ 63\<close>.\<close>

definition confirmations_at :: "nat \<Rightarrow> nat \<Rightarrow> int" where
  "confirmations_at latest bn = (if bn \<le> latest then as_int64 (nat (int (latest - bn + 1) mod 2 ^ 64)) else 0)"

fun to_hex :: "nat \<Rightarrow> string" where
  "to_hex n = (if n < 16 then [hex_digit n] else to_hex (n div 16) @ [hex_digit (n mod 16)])"

declare to_hex.simps [simp del]

definition hex_quantity :: "nat \<Rightarrow> json" where
  "hex_quantity n = JStr (''0x'' @ to_hex n)"

definition fallbackHash :: "string \<Rightarrow> string \<Rightarrow> string" where
  "fallbackHash v d = (if trim_space v \<noteq> [] then trim_space v else trim_space d)"


section \<open>Answers of a node\<close>

record rpc_tx =
  rt_Hash :: string
  rt_From :: string
  rt_To :: string
  rt_Value :: string
  rt_TransactionIndex :: string
  rt_BlockNumber :: string

record rpc_block =
  rb_Number :: string
  rb_Hash :: string
  rb_ParentHash :: string
  rb_Transactions :: "rpc_tx list"

record rpc_log =
  lg_Address :: string
  lg_Topics :: "string list"
  lg_Data :: string
  lg_BlockNumber :: string
  lg_TransactionHash :: string
  lg_LogIndex :: string
  lg_Removed :: bool

record rpc_receipt =
  rr_Status :: string
  rr_BlockNumber :: string

text \<open>A field of an answer: \<open>null\<close> leaves it as it was, and the last of several counts.\<close>

definition node_field :: "(json \<Rightarrow> 'v option) \<Rightarrow> 'v \<Rightarrow> string \<Rightarrow> json_object \<Rightarrow> 'v option" where
  "node_field d zero f m = decode_last d zero (filter (\<lambda>v. v \<noteq> JNull) (map snd (filter (\<lambda>(k, _). equal_fold k f) m)))"

abbreviation node_string :: "string \<Rightarrow> json_object \<Rightarrow> string option" where
  "node_string \<equiv> node_field json_string []"

definition json_bool :: "json \<Rightarrow> bool option" where
  "json_bool v = (case v of JBool b \<Rightarrow> Some b | _ \<Rightarrow> None)"

definition decode_rpc_tx :: "json_object \<Rightarrow> rpc_tx option" where
  "decode_rpc_tx m =
     (case (node_string ''hash'' m, node_string ''from'' m, node_string ''to'' m, node_string ''value'' m, node_string ''transactionIndex'' m,
            node_string ''blockNumber'' m) of
        (Some h, Some f, Some t, Some v, Some i, Some b) \<Rightarrow>
          Some \<lparr>rt_Hash = h, rt_From = f, rt_To = t, rt_Value = v, rt_TransactionIndex = i, rt_BlockNumber = b\<rparr>
      | _ \<Rightarrow> None)"

definition decode_rpc_block :: "json_object \<Rightarrow> rpc_block option" where
  "decode_rpc_block m =
     (case (node_string ''number'' m, node_string ''hash'' m, node_string ''parentHash'' m,
            node_field (json_list (json_fields decode_rpc_tx)) [] ''transactions'' m) of
        (Some n, Some h, Some p, Some txs) \<Rightarrow> Some \<lparr>rb_Number = n, rb_Hash = h, rb_ParentHash = p, rb_Transactions = txs\<rparr>
      | _ \<Rightarrow> None)"

definition string_or_null :: "json \<Rightarrow> string option" where
  "string_or_null v = (case v of JNull \<Rightarrow> Some [] | _ \<Rightarrow> json_string v)"

definition decode_rpc_log :: "json_object \<Rightarrow> rpc_log option" where
  "decode_rpc_log m =
     (case (node_string ''address'' m, node_field (json_list string_or_null) [] ''topics'' m, node_string ''data'' m,
            node_string ''blockNumber'' m, node_string ''transactionHash'' m, node_string ''transactionIndex'' m, node_string ''logIndex'' m,
            node_field json_bool False ''removed'' m) of
        (Some a, Some ts, Some d, Some b, Some h, Some _, Some i, Some r) \<Rightarrow>
          Some \<lparr>lg_Address = a, lg_Topics = ts, lg_Data = d, lg_BlockNumber = b, lg_TransactionHash = h, lg_LogIndex = i, lg_Removed = r\<rparr>
      | _ \<Rightarrow> None)"

definition decode_rpc_receipt :: "json_object \<Rightarrow> rpc_receipt option" where
  "decode_rpc_receipt m =
     (case (node_string ''status'' m, node_string ''blockNumber'' m) of
        (Some s, Some b) \<Rightarrow> Some \<lparr>rr_Status = s, rr_BlockNumber = b\<rparr>
      | _ \<Rightarrow> None)"

text \<open>An array, or \<open>null\<close>, which is the empty one.\<close>

definition list_or_null :: "(json \<Rightarrow> 'v option) \<Rightarrow> json \<Rightarrow> 'v list option" where
  "list_or_null d v = (case v of JNull \<Rightarrow> Some [] | _ \<Rightarrow> json_list d v)"

definition blockNumber :: "'x node_env \<Rightarrow> selected_endpoint \<Rightarrow> ('x, nat) node_call" where
  "blockNumber N ep = bindN (rd_call N ep ''eth_blockNumber'' [] string_or_null []) (\<lambda>result n. (uint64_result (hexToUint64 result), n))"

definition getBlockByNumber :: "'x node_env \<Rightarrow> selected_endpoint \<Rightarrow> nat \<Rightarrow> ('x, rpc_block) node_call" where
  "getBlockByNumber N ep blockNum =
     rd_call N ep ''eth_getBlockByNumber'' [hex_quantity blockNum, JBool True] (json_fields decode_rpc_block)
       \<lparr>rb_Number = [], rb_Hash = [], rb_ParentHash = [], rb_Transactions = []\<rparr>"

text \<open>The raw answer is kept first: \<open>null\<close> and no answer mean that the node does not have the transaction.\<close>

definition getTransactionByHash :: "'x node_env \<Rightarrow> selected_endpoint \<Rightarrow> string \<Rightarrow> ('x, rpc_tx option) node_call" where
  "getTransactionByHash N ep txHash =
     bindN (rd_call N ep ''eth_getTransactionByHash'' [JStr txHash] Some JNull) (\<lambda>raw n.
       (if raw = JNull then Inr None
        else case json_fields decode_rpc_tx raw of None \<Rightarrow> Inl (Errorf ''json: cannot unmarshal'') | Some tx \<Rightarrow> Inr (Some tx), n))"

definition getTransactionReceipt :: "'x node_env \<Rightarrow> selected_endpoint \<Rightarrow> string \<Rightarrow> ('x, rpc_receipt) node_call" where
  "getTransactionReceipt N ep txHash =
     bindN (rd_call N ep ''eth_getTransactionReceipt'' [JStr txHash] Some JNull) (\<lambda>raw n.
       (if raw = JNull then Inr \<lparr>rr_Status = [], rr_BlockNumber = []\<rparr>
        else case json_fields decode_rpc_receipt raw of None \<Rightarrow> Inl (Errorf ''json: cannot unmarshal'') | Some r \<Rightarrow> Inr r, n))"


section \<open>Incoming transfers\<close>

definition resolveFromBlock :: "'x node_env \<Rightarrow> string \<Rightarrow> nat \<Rightarrow> nat result" where
  "resolveFromBlock N cursor latest =
     (let cur = trim_space cursor in
      if cur = [] then
        let lookback = (if ne_CursorLookback N = 0 then 256 else ne_CursorLookback N) in
        Inr (if latest > lookback then latest - lookback + 1 else 0)
      else case parse_uint64 10 cur of
        (_, Some _) \<Rightarrow> Inl (Errorf ''invalid cursor'')
      | (v, None) \<Rightarrow> Inr (if int v = 2 ^ 64 - 1 then v else v + 1))"

definition receipt_state :: "rpc_receipt \<Rightarrow> string" where
  "receipt_state r =
     (let s = to_lower (trim_space (rr_Status r)) in
      if s = ''0x1'' then ''CONFIRMED'' else if s = ''0x0'' then ''REVERTED'' else ''PENDING'')"

definition receipt_confirmations :: "nat \<Rightarrow> rpc_receipt \<Rightarrow> int" where
  "receipt_confirmations latest r =
     (if rr_BlockNumber r = [] then 0
      else case hexToUint64 (rr_BlockNumber r) of (bn, None) \<Rightarrow> confirmations_at latest bn | (_, Some _) \<Rightarrow> 0)"

text \<open>The transactions of a block that are looked at: those that pay something, to \<open>addr\<close> if it is given.\<close>

definition pays :: "string \<Rightarrow> rpc_tx \<Rightarrow> int option" where
  "pays addr tx =
     (let toAddr = to_lower (trim_space (rt_To tx)) in
      if trim_space (rt_Hash tx) = [] \<or> toAddr = [] \<or> addr \<noteq> [] \<and> toAddr \<noteq> addr then None
      else case hexToBig (rt_Value tx) of Inl _ \<Rightarrow> None | Inr v \<Rightarrow> if v \<le> 0 then None else Some v)"

definition native_transfer :: "nat \<Rightarrow> rpc_tx \<Rightarrow> int \<Rightarrow> rpc_receipt \<Rightarrow> incoming_transfer" where
  "native_transfer latest tx paid_amount receipt =
     \<lparr>it_TxHash = rt_Hash tx, it_FromAddress = rt_From tx, it_ToAddress = rt_To tx, it_Amount = int_to_string paid_amount,
      it_Confirmations = receipt_confirmations latest receipt, it_Index = as_int64 (fst (hexToUint64 (rt_TransactionIndex tx))),
      it_Status = receipt_state receipt, it_ContractAddress = []\<rparr>"

fun scan_txs ::
  "'x node_env \<Rightarrow> selected_endpoint \<Rightarrow> nat \<Rightarrow> string \<Rightarrow> rpc_tx list \<Rightarrow> ('x, incoming_transfer list) node_call" where
  "scan_txs N ep latest addr [] n = (Inr [], n)"
| "scan_txs N ep latest addr (tx # txs) n =
     (case pays addr tx of
        None \<Rightarrow> scan_txs N ep latest addr txs n
      | Some paid_amount \<Rightarrow>
          bindN (getTransactionReceipt N ep (rt_Hash tx)) (\<lambda>receipt.
          bindN (scan_txs N ep latest addr txs) (\<lambda>rest n. (Inr (native_transfer latest tx paid_amount receipt # rest), n))) n)"

definition meta_of :: "rpc_block \<Rightarrow> block_meta" where
  "meta_of b = \<lparr>bm_Number = as_int64 (fst (hexToUint64 (rb_Number b))), bm_Hash = to_lower (trim_space (rb_Hash b)),
     bm_ParentHash = to_lower (trim_space (rb_ParentHash b))\<rparr>"

fun scan_blocks ::
  "'x node_env \<Rightarrow> selected_endpoint \<Rightarrow> nat \<Rightarrow> string \<Rightarrow> nat list \<Rightarrow> ('x, incoming_transfer list \<times> block_meta list) node_call" where
  "scan_blocks N ep latest addr [] n = (Inr ([], []), n)"
| "scan_blocks N ep latest addr (b # bs) n =
     bindN (getBlockByNumber N ep b) (\<lambda>block.
     bindN (scan_txs N ep latest addr (rb_Transactions block)) (\<lambda>items.
     bindN (scan_blocks N ep latest addr bs) (\<lambda>(rest, metas) n. (Inr (items @ rest, meta_of block # metas), n)))) n"

text \<open>The last block of a page; the sum is a \<open>uint64\<close>.\<close>

definition page_end :: "nat \<Rightarrow> nat \<Rightarrow> nat \<Rightarrow> nat" where
  "page_end from pageSize latest = (let to = nat ((int from + int pageSize - 1) mod 2 ^ 64) in if to > latest then latest else to)"

definition page_limit :: "nat \<Rightarrow> nat \<Rightarrow> nat" where
  "page_limit m pageSize = (let p = (if pageSize = 0 then 50 else pageSize) in if p > m then m else p)"

definition rd_ListIncomingTransfers ::
  "'x node_env \<Rightarrow> string \<Rightarrow> string \<Rightarrow> string \<Rightarrow> string \<Rightarrow> nat \<Rightarrow> ('x, incoming_transfer_result) node_call" where
  "rd_ListIncomingTransfers N chain network address cursor pageSize0 =
     bindN (selectEndpoint N chain network) (\<lambda>ep.
     let pageSize = page_limit 500 pageSize0; addr = to_lower (trim_space address) in
     bindN (reported N ep (blockNumber N ep)) (\<lambda>latest.
     bindN (reported N ep (\<lambda>n. (resolveFromBlock N cursor latest, n))) (\<lambda>from.
     if from > latest then succeed N ep \<lparr>ir_Items = [], ir_NextCursor = nat_to_string latest, ir_Blocks = []\<rparr>
     else
       let to = page_end from pageSize latest in
       bindN (reported N ep (scan_blocks N ep latest addr [from..<Suc to])) (\<lambda>(items, blocks).
       succeed N ep \<lparr>ir_Items = items, ir_NextCursor = nat_to_string to, ir_Blocks = blocks\<rparr>))))"

definition erc20TransferTopic :: string where
  "erc20TransferTopic = ''0xddf252ad1be2c89b69c2b068fc378daa952ba7f163c4a11628f55a4df523b3ef''"

definition topicToAddress :: "string \<Rightarrow> string" where
  "topicToAddress topic =
     (let t = trim_prefix (to_lower (trim_space topic)) ''0x'' in if length t < 40 then [] else ''0x'' @ drop (length t - 40) t)"

definition log_filter :: "string \<Rightarrow> string \<Rightarrow> nat \<Rightarrow> nat \<Rightarrow> json" where
  "log_filter contractAddress toAddress from to =
     JObj ([(''fromBlock'', hex_quantity from), (''toBlock'', hex_quantity to),
            (''topics'', JArr ([JStr erc20TransferTopic, JNull] @
               (if trim_space toAddress = [] then []
                else [JStr (''0x000000000000000000000000'' @ trim_prefix (to_lower (trim_space toAddress)) ''0x'')])))] @
           (if trim_space contractAddress = [] then [] else [(''address'', JStr (trim_space contractAddress))]))"

definition log_transfer :: "nat \<Rightarrow> rpc_log \<Rightarrow> incoming_transfer list" where
  "log_transfer latest lg =
     (let data = trim_prefix (trim_space (lg_Data lg)) ''0x'';
          amount = (if data = [] then 0 else case big_set_hex data of Some i \<Rightarrow> i | None \<Rightarrow> big_left_hex data)
      in
      if lg_Removed lg \<or> length (lg_Topics lg) < 3 \<or> amount \<le> 0 then []
      else [\<lparr>it_TxHash = lg_TransactionHash lg, it_FromAddress = topicToAddress (lg_Topics lg ! 1),
             it_ToAddress = topicToAddress (lg_Topics lg ! 2), it_Amount = int_to_string amount,
             it_Confirmations = (case hexToUint64 (lg_BlockNumber lg) of (bn, None) \<Rightarrow> confirmations_at latest bn | (_, Some _) \<Rightarrow> 0),
             it_Index = as_int64 (fst (hexToUint64 (lg_LogIndex lg))), it_Status = ''CONFIRMED'',
             it_ContractAddress = to_lower (trim_space (lg_Address lg))\<rparr>])"

definition rd_ListIncomingERC20Transfers ::
  "'x node_env \<Rightarrow> string \<Rightarrow> string \<Rightarrow> string \<Rightarrow> string \<Rightarrow> string \<Rightarrow> nat \<Rightarrow> ('x, incoming_transfer_result) node_call" where
  "rd_ListIncomingERC20Transfers N chain network contractAddress toAddress cursor pageSize0 =
     bindN (selectEndpoint N chain network) (\<lambda>ep.
     let pageSize = page_limit 200 pageSize0 in
     bindN (reported N ep (blockNumber N ep)) (\<lambda>latest.
     bindN (reported N ep (\<lambda>n. (resolveFromBlock N cursor latest, n))) (\<lambda>from.
     if from > latest then succeed N ep \<lparr>ir_Items = [], ir_NextCursor = nat_to_string latest, ir_Blocks = []\<rparr>
     else
       let to = page_end from pageSize latest in
       bindN (reported N ep (rd_call N ep ''eth_getLogs'' [log_filter contractAddress toAddress from to]
                (list_or_null (json_fields decode_rpc_log)) [])) (\<lambda>logs.
       succeed N ep \<lparr>ir_Items = concat (map (log_transfer latest) logs), ir_NextCursor = nat_to_string to, ir_Blocks = []\<rparr>))))"


section \<open>Finality and balances\<close>

definition rd_GetTxFinality :: "'x node_env \<Rightarrow> string \<Rightarrow> string \<Rightarrow> string \<Rightarrow> ('x, chain_finality) node_call" where
  "rd_GetTxFinality N chain network txHash =
     bindN (selectEndpoint N chain network) (\<lambda>ep.
     bindN (reported N ep (getTransactionByHash N ep txHash)) (\<lambda>found.
     case found of
       None \<Rightarrow> succeed N ep \<lparr>tf_Confirmations = 0, tf_Status = ''PENDING'', tf_Found = False, tf_TxHash = trim_space txHash\<rparr>
     | Some tx \<Rightarrow>
         if trim_space (rt_BlockNumber tx) = [] then
           succeed N ep \<lparr>tf_Confirmations = 0, tf_Status = ''PENDING'', tf_Found = True, tf_TxHash = fallbackHash (rt_Hash tx) txHash\<rparr>
         else
           bindN (reported N ep (\<lambda>n. (uint64_result (hexToUint64 (rt_BlockNumber tx)), n))) (\<lambda>blockNum.
           bindN (reported N ep (blockNumber N ep)) (\<lambda>latest.
           bindN (reported N ep (getTransactionReceipt N ep txHash)) (\<lambda>receipt.
           succeed N ep \<lparr>tf_Confirmations = confirmations_at latest blockNum, tf_Status = receipt_state receipt, tf_Found = True,
             tf_TxHash = fallbackHash (rt_Hash tx) txHash\<rparr>)))))"

text \<open>The balance and the network of the answer; the sequence of the result stays empty.\<close>

definition rd_GetBalance :: "'x node_env \<Rightarrow> string \<Rightarrow> string \<Rightarrow> string \<Rightarrow> ('x, string \<times> string) node_call" where
  "rd_GetBalance N chain network address =
     bindN (selectEndpoint N chain network) (\<lambda>ep.
     bindN (reported N ep (rd_call N ep ''eth_getBalance'' [JStr address, JStr ''latest''] string_or_null [])) (\<lambda>result.
     bindN (reported N ep (\<lambda>n. (hexToBig result, n))) (\<lambda>bal.
     succeed N ep (int_to_string bal, to_lower (trim_space network)))))"

end
