(* ===== verification/Evm_Plugin.thy ===== *)
theory Evm_Plugin
  imports Evm_Reader
begin

text \<open>
  The plugin of the EVM chains, \<open>src/services/chain-gateway/internal/adapters/account/chains/evm/plugin.go\<close>, and the adapter that
  chooses the plugin of an account chain, \<open>internal/adapters/account/adapter.go\<close>.

  go-ethereum is the argument \<open>geth\<close> and the texts of JSON and base64 the argument \<open>codec\<close>. A \<open>[]byte\<close> is a string.
\<close>


section \<open>Libraries\<close>

record evm_request =
  er_ChainID :: string
  er_NonceMode :: string
  er_FromAddress :: string
  er_Nonce :: nat
  er_MaxPriorityFeePerGas :: string
  er_MaxFeePerGas :: string
  er_GasLimit :: nat
  er_ToAddress :: string
  er_Amount :: string
  er_ContractAddress :: string

record dynamic_fee_tx =
  df_ChainID :: int
  df_Nonce :: nat
  df_GasTipCap :: int
  df_GasFeeCap :: int
  df_Gas :: nat
  df_To :: string
  df_Value :: int
  df_Data :: string

record ('p, 't) geth =
  ge_DecompressPubkey :: "string \<Rightarrow> 'p result"
  ge_UnmarshalPubkey :: "string \<Rightarrow> 'p result"
  ge_PubkeyToAddress :: "'p \<Rightarrow> string"
  ge_AddressHex :: "string \<Rightarrow> string"
  ge_HexToAddress :: "string \<Rightarrow> string"
  ge_IsHexAddress :: "string \<Rightarrow> bool"
  ge_Keccak256 :: "string \<Rightarrow> string"
  ge_SigHash :: "dynamic_fee_tx \<Rightarrow> string"
  ge_WithSignature :: "dynamic_fee_tx \<Rightarrow> string \<Rightarrow> 't result"
  ge_Sender :: "'t \<Rightarrow> string result"
  ge_MarshalBinary :: "'t \<Rightarrow> string result"

record codec =
  cd_Base64Decode :: "string \<Rightarrow> string result"
  cd_Base64Encode :: "string \<Rightarrow> string"
  cd_Parse :: "string \<Rightarrow> json result"
  cd_Print :: "json \<Rightarrow> string"


section \<open>Transactions\<close>

definition json_uint64 :: "json \<Rightarrow> nat option" where
  "json_uint64 v = (case v of JNum i \<Rightarrow> if 0 \<le> i \<and> i < 2 ^ 64 then Some (nat i) else None | _ \<Rightarrow> None)"

definition decode_request :: "json_object \<Rightarrow> evm_request option" where
  "decode_request m =
     (case (node_string ''chainId'' m, node_string ''nonceMode'' m, node_string ''fromAddress'' m, node_field json_uint64 0 ''nonce'' m,
            node_string ''maxPriorityFeePerGas'' m, node_string ''maxFeePerGas'' m, node_field json_uint64 0 ''gasLimit'' m,
            node_string ''toAddress'' m, node_string ''amount'' m, node_string ''contractAddress'' m) of
        (Some c, Some md, Some f, Some n, Some tip, Some cap, Some g, Some t, Some a, Some ca) \<Rightarrow>
          Some \<lparr>er_ChainID = c, er_NonceMode = md, er_FromAddress = f, er_Nonce = n, er_MaxPriorityFeePerGas = tip, er_MaxFeePerGas = cap,
                er_GasLimit = g, er_ToAddress = t, er_Amount = a, er_ContractAddress = ca\<rparr>
      | _ \<Rightarrow> None)"

text \<open>\<open>big.Int.Bytes\<close>: the absolute value in base 256, and \<open>common.LeftPadBytes\<close>.\<close>

fun be_bytes :: "nat \<Rightarrow> string" where
  "be_bytes n = (if n = 0 then [] else be_bytes (n div 256) @ [char_of (n mod 256)])"

definition left_pad :: "string \<Rightarrow> nat \<Rightarrow> string" where
  "left_pad bs l = (if l \<le> length bs then bs else replicate (l - length bs) (char_of (0 :: nat)) @ bs)"

definition buildERC20TransferData :: "('p, 't) geth \<Rightarrow> string \<Rightarrow> int \<Rightarrow> string" where
  "buildERC20TransferData G toAddress amount =
     take 4 (ge_Keccak256 G ''transfer(address,uint256)'') @ left_pad toAddress 32 @ left_pad (be_bytes (nat \<bar>amount\<bar>)) 32"

definition big_field :: "string \<Rightarrow> string \<Rightarrow> int result" where
  "big_field what s = (case big_SetString (trim_space s) of None \<Rightarrow> Inl (Errorf (''invalid '' @ what)) | Some i \<Rightarrow> Inr i)"

definition tx_of_request :: "('p, 't) geth \<Rightarrow> evm_request \<Rightarrow> dynamic_fee_tx result" where
  "tx_of_request G req =
     bindE (big_field ''chainId'' (er_ChainID req)) (\<lambda>chainID.
     bindE (big_field ''maxPriorityFeePerGas'' (er_MaxPriorityFeePerGas req)) (\<lambda>maxPriorityFee.
     bindE (big_field ''maxFeePerGas'' (er_MaxFeePerGas req)) (\<lambda>maxFee.
     bindE (big_field ''amount'' (er_Amount req)) (\<lambda>amount.
     let toAddress = ge_HexToAddress G (trim_space (er_ToAddress req)); contractAddress = to_lower (trim_space (er_ContractAddress req));
         native = contractAddress \<in> {'''', ''0x00'', ''0x0000000000000000000000000000000000000000''}
     in Inr \<lparr>df_ChainID = chainID, df_Nonce = er_Nonce req, df_GasTipCap = maxPriorityFee, df_GasFeeCap = maxFee, df_Gas = er_GasLimit req,
             df_To = (if native then toAddress else ge_HexToAddress G (er_ContractAddress req)), df_Value = (if native then amount else 0),
             df_Data = (if native then [] else buildERC20TransferData G toAddress amount)\<rparr>))))"

definition decodeDynamicFeeTx :: "('p, 't) geth \<Rightarrow> codec \<Rightarrow> string \<Rightarrow> (dynamic_fee_tx \<times> evm_request) result" where
  "decodeDynamicFeeTx G J raw =
     (let bad = (\<lambda>t. Inl (Errorf (''invalid dynamic fee tx json: '' @ t))) in
      case cd_Parse J raw of
        Inl e \<Rightarrow> bad (error_text e)
      | Inr v \<Rightarrow>
          (case json_fields decode_request v of
             None \<Rightarrow> bad ''json: cannot unmarshal''
           | Some req \<Rightarrow> bindE (tx_of_request G req) (\<lambda>tx. Inr (tx, req))))"

text \<open>The object \<open>json.Marshal\<close> writes for a request; two fields are left out when they are empty.\<close>

definition request_object :: "evm_request \<Rightarrow> json_object" where
  "request_object req =
     [(''chainId'', JStr (er_ChainID req))] @
     (if er_NonceMode req = [] then [] else [(''nonceMode'', JStr (er_NonceMode req))]) @
     (if er_FromAddress req = [] then [] else [(''fromAddress'', JStr (er_FromAddress req))]) @
     [(''nonce'', JNum (int (er_Nonce req))), (''maxPriorityFeePerGas'', JStr (er_MaxPriorityFeePerGas req)),
      (''maxFeePerGas'', JStr (er_MaxFeePerGas req)), (''gasLimit'', JNum (int (er_GasLimit req))), (''toAddress'', JStr (er_ToAddress req)),
      (''amount'', JStr (er_Amount req)), (''contractAddress'', JStr (er_ContractAddress req))]"

definition encodeDynamicFeeTx :: "codec \<Rightarrow> evm_request \<Rightarrow> string" where
  "encodeDynamicFeeTx J req = cd_Base64Encode J (cd_Print J (JObj (request_object req)))"

definition usesFixedNonce :: "string \<Rightarrow> bool" where
  "usesFixedNonce mode \<longleftrightarrow> equal_fold (trim_space mode) ''fixed''"

definition fetchPendingNonce :: "'x node_env \<Rightarrow> string \<Rightarrow> string \<Rightarrow> string \<Rightarrow> ('x, nat) node_call" where
  "fetchPendingNonce N chain network fromAddress =
     bindN (selectEndpoint N chain network) (\<lambda>ep.
     bindN (reported N ep (callOnce N ep ''eth_getTransactionCount'' [JStr fromAddress, JStr ''pending''] string_or_null [])) (\<lambda>out.
     bindN (succeed N ep ()) (\<lambda>_ n. (uint64_result (hexToUint64 out), n))))"

definition unsupported_chain :: "string \<Rightarrow> 'a result" where
  "unsupported_chain chain = Inl (Errorf (''unsupported chain: '' @ chain))"

definition decode_payload :: "('p, 't) geth \<Rightarrow> codec \<Rightarrow> string \<Rightarrow> (dynamic_fee_tx \<times> evm_request) result" where
  "decode_payload G J payload =
     (case cd_Base64Decode J payload of
        Inl e \<Rightarrow> Inl (Errorf (''invalid base64_tx: '' @ error_text e))
      | Inr raw \<Rightarrow> decodeDynamicFeeTx G J raw)"

definition evm_BuildUnsignedAccount ::
  "'x node_env \<Rightarrow> ('p, 't) geth \<Rightarrow> codec \<Rightarrow> string \<Rightarrow> string \<Rightarrow> string \<Rightarrow> ('x, build_unsigned_result) node_call" where
  "evm_BuildUnsignedAccount N G J chain network base64Tx n =
     (if \<not> IsEVMChain chain then (unsupported_chain chain, n)
      else
        let payload = trim_space base64Tx; built = (\<lambda>p tx. \<lparr>br_UnsignedTx = p, br_SignHashes = [ge_SigHash G tx]\<rparr>) in
        case decode_payload G J payload of
          Inl e \<Rightarrow> (Inl e, n)
        | Inr (tx, req) \<Rightarrow>
            if trim_space (er_FromAddress req) \<noteq> [] \<and> \<not> usesFixedNonce (er_NonceMode req) then
              (case fetchPendingNonce N chain network (er_FromAddress req) n of
                 (Inl e, n') \<Rightarrow> (Inl (Errorf (''resolve nonce failed: '' @ error_text e)), n')
               | (Inr nonce, n') \<Rightarrow>
                   (Inr (built (encodeDynamicFeeTx J (req\<lparr>er_Nonce := nonce, er_NonceMode := ''fixed''\<rparr>)) (tx\<lparr>df_Nonce := nonce\<rparr>)), n'))
            else (Inr (built payload tx), n))"


section \<open>Signatures\<close>

definition parseECDSAPublicKey :: "('p, 't) geth \<Rightarrow> string \<Rightarrow> 'p result" where
  "parseECDSAPublicKey G raw =
     (let v = trim_prefix (trim_space raw) ''0x''; wrap = (\<lambda>what r. case r of Inl e \<Rightarrow> Inl (Errorf (what @ '': '' @ error_text e)) | Inr p \<Rightarrow> Inr p) in
      if v = [] then Inl (Errorf ''public key is required'')
      else case hex_decode v of
        None \<Rightarrow> Inl (Errorf ''invalid public key: encoding/hex'')
      | Some b \<Rightarrow>
          if length b = 33 then wrap ''invalid compressed public key'' (ge_DecompressPubkey G b)
          else if length b = 64 then wrap ''invalid public key'' (ge_UnmarshalPubkey G (char_of (4 :: nat) # b))
          else if length b = 65 then
            (if hd b \<noteq> char_of (4 :: nat) then Inl (Errorf ''invalid uncompressed public key prefix'')
             else wrap ''invalid public key'' (ge_UnmarshalPubkey G b))
          else Inl (Errorf (''invalid public key length='' @ nat_to_string (length b))))"

definition decodeHexOrBase64Sig :: "codec \<Rightarrow> string \<Rightarrow> string result" where
  "decodeHexOrBase64Sig J raw =
     (let v = trim_prefix (trim_space raw) ''0x'' in
      if v = [] then Inl (Errorf ''signature is required'')
      else case hex_decode v of Some b \<Rightarrow> Inr b | None \<Rightarrow> cd_Base64Decode J v)"

definition matchesSignerPublicKey :: "('p, 't) geth \<Rightarrow> dynamic_fee_tx \<Rightarrow> string \<Rightarrow> string \<Rightarrow> bool" where
  "matchesSignerPublicKey G tx sig publicKey =
     (case ge_WithSignature G tx sig of
        Inl _ \<Rightarrow> False
      | Inr signedTx \<Rightarrow>
          (case ge_Sender G signedTx of
             Inl _ \<Rightarrow> False
           | Inr signedBy \<Rightarrow>
               (case parseECDSAPublicKey G publicKey of
                  Inl _ \<Rightarrow> False
                | Inr pub \<Rightarrow> equal_fold (ge_AddressHex G signedBy) (ge_AddressHex G (ge_PubkeyToAddress G pub)))))"

definition recovery_byte :: "nat \<Rightarrow> string \<Rightarrow> string" where
  "recovery_byte v sig = take 64 sig @ [char_of v]"

definition normalizeEVMSignature :: "('p, 't) geth \<Rightarrow> dynamic_fee_tx \<Rightarrow> string \<Rightarrow> string \<Rightarrow> string result" where
  "normalizeEVMSignature G tx sig publicKey =
     (let matches = (\<lambda>v. matchesSignerPublicKey G tx (recovery_byte v sig) publicKey) in
      if length sig = 64 then
        (if trim_space publicKey = [] \<or> matches 0 then Inr (recovery_byte 0 sig)
         else if matches 1 then Inr (recovery_byte 1 sig)
         else Inl (Errorf ''unable to determine recovery id from signature/public_key''))
      else if length sig = 65 then
        let b = of_char (sig ! 64) :: nat; v = (if b \<ge> 27 then b - 27 else b) in
        if v > 1 then Inl (Errorf (''invalid signature recovery id='' @ nat_to_string v))
        else if trim_space publicKey = [] \<or> matches v then Inr (recovery_byte v sig)
        else if matches (1 - v) then Inr (recovery_byte (1 - v) sig)
        else Inl (Errorf ''signature does not match public_key'')
      else Inl (Errorf (''invalid signature length='' @ nat_to_string (length sig))))"

definition evm_BuildSignedAccount ::
  "('p, 't) geth \<Rightarrow> codec \<Rightarrow> string \<Rightarrow> string \<Rightarrow> string \<Rightarrow> string \<Rightarrow> string result" where
  "evm_BuildSignedAccount G J chain base64Tx signature publicKey =
     (let wrap = (\<lambda>what r. case r of Inl e \<Rightarrow> Inl (Errorf (what @ '': '' @ error_text e)) | Inr v \<Rightarrow> Inr v) in
      if \<not> IsEVMChain chain then unsupported_chain chain
      else
        bindE (decode_payload G J (trim_space base64Tx)) (\<lambda>(tx, _).
        bindE (wrap ''invalid signature'' (decodeHexOrBase64Sig J signature)) (\<lambda>sigBytes.
        bindE (normalizeEVMSignature G tx sigBytes publicKey) (\<lambda>sig65.
        case ge_WithSignature G tx sig65 of
          Inl e \<Rightarrow> Inl (Errorf (''attach signature failed: '' @ error_text e))
        | Inr signedTx \<Rightarrow>
            (case ge_MarshalBinary G signedTx of
               Inl e \<Rightarrow> Inl (Errorf (''marshal signed tx failed: '' @ error_text e))
             | Inr encoded \<Rightarrow> Inr (''0x'' @ hex_encode encoded))))))"


section \<open>Other operations\<close>

definition evm_Chain :: "string \<Rightarrow> string" where
  "evm_Chain chainName = (if trim_space chainName = [] then ''ethereum'' else chainName)"

definition evm_ConvertAddress :: "('p, 't) geth \<Rightarrow> string \<Rightarrow> string \<Rightarrow> string result" where
  "evm_ConvertAddress G chain publicKey =
     (if \<not> IsEVMChain chain then unsupported_chain chain
      else bindE (parseECDSAPublicKey G publicKey) (\<lambda>pub. Inr (ge_AddressHex G (ge_PubkeyToAddress G pub))))"

definition evm_ValidAddress :: "('p, 't) geth \<Rightarrow> string \<Rightarrow> string \<Rightarrow> bool" where
  "evm_ValidAddress G chain address \<longleftrightarrow> IsEVMChain chain \<and> ge_IsHexAddress G (trim_space address)"

definition evm_SendTx :: "'x node_env \<Rightarrow> string \<Rightarrow> string \<Rightarrow> string \<Rightarrow> ('x, string) node_call" where
  "evm_SendTx N chain network rawTx n =
     (if \<not> IsEVMChain chain then (unsupported_chain chain, n)
      else
        bindN (selectEndpoint N chain network) (\<lambda>ep.
        bindN (reported N ep (callOnce N ep ''eth_sendRawTransaction'' [JStr (trim_space rawTx)] string_or_null [])) (\<lambda>out.
        succeed N ep (trim_space out))) n)"

definition evm_GetAccount :: "'x node_env \<Rightarrow> string \<Rightarrow> string \<Rightarrow> string \<Rightarrow> ('x, account_result) node_call" where
  "evm_GetAccount N chain network address =
     bindN (rd_GetBalance N chain network address) (\<lambda>(bal, net) n.
       (Inr \<lparr>ar_Network = net, ar_AccountNumber = ''0'', ar_Sequence = [], ar_Balance = bal\<rparr>, n))"

text \<open>The keys of an object are written in alphabetical order.\<close>

definition evm_GetTxByHash :: "'x node_env \<Rightarrow> tx_query \<Rightarrow> ('x, raw_message) node_call" where
  "evm_GetTxByHash N q =
     bindN (rd_GetTxFinality N (tq_in_Chain q) (tq_in_Network q) (tq_in_Hash q)) (\<lambda>out n.
       (Inr (RawObject [(''confirmations'', JNum (tf_Confirmations out)), (''found'', JBool (tf_Found out)), (''status'', JStr (tf_Status out)),
          (''tx_hash'', JStr (tf_TxHash out))]), n))"

definition fallbackIndex :: "int \<Rightarrow> nat \<Rightarrow> int" where
  "fallbackIndex v idx = (if v > 0 then v else int idx)"

definition transfer_entry :: "nat \<times> incoming_transfer \<Rightarrow> json_object" where
  "transfer_entry p =
     (case p of (idx, it) \<Rightarrow>
        [(''confirmations'', JNum (it_Confirmations it))] @
        (if it_ContractAddress it = [] then [] else [(''contract_address'', JStr (it_ContractAddress it))]) @
        [(''froms'', JArr [JObj [(''address'', JStr (it_FromAddress it))]]), (''hash'', JStr (it_TxHash it)),
         (''index'', JNum (fallbackIndex (it_Index it) idx)), (''status'', JStr (it_Status it)),
         (''tos'', JArr [JObj [(''address'', JStr (it_ToAddress it))]]), (''values'', JArr [JObj [(''value'', JStr (it_Amount it))]])])"

definition block_entry :: "block_meta \<Rightarrow> json_object" where
  "block_entry b = [(''hash'', JStr (bm_Hash b)), (''number'', JNum (bm_Number b)), (''parent_hash'', JStr (bm_ParentHash b))]"

definition transfers_payload :: "incoming_transfer_result \<Rightarrow> json_object" where
  "transfers_payload out =
     (if ir_Blocks out = [] then [] else [(''blocks'', JArr (map (JObj \<circ> block_entry) (ir_Blocks out)))]) @
     [(''next_cursor'', JStr (ir_NextCursor out)), (''tx'', JArr (map (JObj \<circ> transfer_entry) (enumerate 0 (ir_Items out))))]"

definition evm_GetTxByAddress :: "'x node_env \<Rightarrow> tx_query \<Rightarrow> ('x, raw_message) node_call" where
  "evm_GetTxByAddress N q =
     (let ca = trim_space (tq_in_ContractAddress q) in
      bindN
        (if ca \<noteq> [] then
           rd_ListIncomingERC20Transfers N (tq_in_Chain q) (tq_in_Network q) ca (tq_in_Address q) (tq_in_Cursor q) (nat (tq_in_PageSize q))
         else rd_ListIncomingTransfers N (tq_in_Chain q) (tq_in_Network q) (tq_in_Address q) (tq_in_Cursor q) (nat (tq_in_PageSize q)))
        (\<lambda>out n. (Inr (RawObject (transfers_payload out)), n)))"


section \<open>The adapter of the account chains\<close>

text \<open>
  A plugin as the operations the service calls. \<open>ErrUnsupported\<close> is the error of the operations an adapter does not have.
\<close>

definition errUnsupported :: go_error where
  "errUnsupported = Errorf ''unsupported operation''"

definition evm_plugin :: "'x node_env \<Rightarrow> ('p, 't) geth \<Rightarrow> codec \<Rightarrow> 'x node chain_adapter" where
  "evm_plugin N G J =
     \<lparr>ca_ConvertAddress = (\<lambda>chain _ _ pub n. (evm_ConvertAddress G chain pub, n)),
      ca_SendTx = (\<lambda>chain network _ rawTx. evm_SendTx N chain network rawTx),
      ca_BuildUnsignedAccount = evm_BuildUnsignedAccount N G J,
      ca_BuildSignedAccount = (\<lambda>chain _ tx sig pub n. (evm_BuildSignedAccount G J chain tx sig pub, n)),
      ca_BuildUnsignedUTXO = (\<lambda>_ _ _ _ _ n. (Inl errUnsupported, n)), ca_BuildSignedUTXO = (\<lambda>_ _ _ _ _ n. (Inl errUnsupported, n)),
      ca_GetAccount = (\<lambda>chain _ network address _. evm_GetAccount N chain network address),
      ca_GetTxByHash = evm_GetTxByHash N, ca_GetTxByAddress = evm_GetTxByAddress N,
      ca_GetUnspentOutputs = (\<lambda>_ _ _ n. (Inl errUnsupported, n))\<rparr>"

type_synonym 'x plugins = "(string \<times> 'x chain_adapter) list"

text \<open>A plugin is given with the name its method \<open>Chain\<close> returns.\<close>

definition acc_Register :: "string \<times> 'x chain_adapter \<Rightarrow> 'x plugins \<Rightarrow> 'x plugins result" where
  "acc_Register plugin a =
     (let chain = NormalizeChain (fst plugin) in
      if chain = [] then Inl (Errorf ''plugin chain is required'') else Inr (put_key chain (snd plugin) a))"

fun register_plugins :: "(string \<times> 'x chain_adapter) list \<Rightarrow> 'x plugins \<Rightarrow> 'x plugins result" where
  "register_plugins [] a = Inr a"
| "register_plugins (p # ps) a = bindE (acc_Register p a) (register_plugins ps)"

definition acc_NewAdapter :: "(string \<times> 'x chain_adapter) list \<Rightarrow> 'x plugins result" where
  "acc_NewAdapter ps = register_plugins ps []"

definition acc_SupportedChains :: "'x plugins \<Rightarrow> string list" where
  "acc_SupportedChains a = sort (map fst a)"

definition acc_resolve :: "'x plugins \<Rightarrow> string \<Rightarrow> 'x chain_adapter result" where
  "acc_resolve a chain =
     (let c = NormalizeChain chain in
      if c = [] then Inl (Errorf ''chain is required'')
      else case map_of a c of None \<Rightarrow> Inl (Errorf (''account plugin not configured chain='' @ c)) | Some p \<Rightarrow> Inr p)"

definition with_plugin :: "'x plugins \<Rightarrow> string \<Rightarrow> ('x chain_adapter \<Rightarrow> 'x \<Rightarrow> 'a result \<times> 'x) \<Rightarrow> 'x \<Rightarrow> 'a result \<times> 'x" where
  "with_plugin a chain f x = (case acc_resolve a chain of Inl e \<Rightarrow> (Inl e, x) | Inr p \<Rightarrow> f p x)"

definition clean_network :: "string \<Rightarrow> string" where
  "clean_network network = to_lower (trim_space network)"

definition clean_query :: "tx_query \<Rightarrow> tx_query" where
  "clean_query q = q\<lparr>tq_in_Chain := NormalizeChain (tq_in_Chain q), tq_in_Network := clean_network (tq_in_Network q)\<rparr>"

definition acc_BuildSignedAccount ::
  "'x plugins \<Rightarrow> string \<Rightarrow> string \<Rightarrow> string \<Rightarrow> string \<Rightarrow> string \<Rightarrow> 'x \<Rightarrow> string result \<times> 'x" where
  "acc_BuildSignedAccount a chain network base64Tx signature publicKey =
     with_plugin a chain (\<lambda>p. ca_BuildSignedAccount p (NormalizeChain chain) (clean_network network) base64Tx signature publicKey)"

definition acc_GetAccount ::
  "'x plugins \<Rightarrow> string \<Rightarrow> string \<Rightarrow> string \<Rightarrow> string \<Rightarrow> string \<Rightarrow> 'x \<Rightarrow> account_result result \<times> 'x" where
  "acc_GetAccount a chain coin network address contractAddress =
     with_plugin a chain (\<lambda>p. ca_GetAccount p (NormalizeChain chain) coin (clean_network network) address contractAddress)"

definition acc_GetTxByHash :: "'x plugins \<Rightarrow> tx_query \<Rightarrow> 'x \<Rightarrow> raw_message result \<times> 'x" where
  "acc_GetTxByHash a q = with_plugin a (tq_in_Chain q) (\<lambda>p. ca_GetTxByHash p (clean_query q))"

definition acc_GetTxByAddress :: "'x plugins \<Rightarrow> tx_query \<Rightarrow> 'x \<Rightarrow> raw_message result \<times> 'x" where
  "acc_GetTxByAddress a q = with_plugin a (tq_in_Chain q) (\<lambda>p. ca_GetTxByAddress p (clean_query q))"

definition account_adapter :: "'x plugins \<Rightarrow> 'x chain_adapter" where
  "account_adapter a =
     \<lparr>ca_ConvertAddress = (\<lambda>c nw ty pub. with_plugin a c (\<lambda>p. ca_ConvertAddress p (NormalizeChain c) (clean_network nw) ty pub)),
      ca_SendTx = (\<lambda>c nw coin raw. with_plugin a c (\<lambda>p. ca_SendTx p (NormalizeChain c) (clean_network nw) coin raw)),
      ca_BuildUnsignedAccount = (\<lambda>c nw tx. with_plugin a c (\<lambda>p. ca_BuildUnsignedAccount p (NormalizeChain c) (clean_network nw) tx)),
      ca_BuildSignedAccount = acc_BuildSignedAccount a,
      ca_BuildUnsignedUTXO = (\<lambda>_ _ _ _ _ x. (Inl errUnsupported, x)), ca_BuildSignedUTXO = (\<lambda>_ _ _ _ _ x. (Inl errUnsupported, x)),
      ca_GetAccount = acc_GetAccount a, ca_GetTxByHash = acc_GetTxByHash a, ca_GetTxByAddress = acc_GetTxByAddress a,
      ca_GetUnspentOutputs = (\<lambda>_ _ _ x. (Inl errUnsupported, x))\<rparr>"

end
