(* ===== verification/Evm_Theorems.thy ===== *)
theory Evm_Theorems
  imports Evm_Plugin
begin

text \<open>
  Properties of the EVM chains: which transfers a page of blocks gives, and what the gateway makes of a page.
\<close>


section \<open>A sample node\<close>

text \<open>
  A node with blocks up to 3, of which block 1 has one payment of 5 to \<open>0xA\<close> and block 2 none; it answers every question the same way each time.
\<close>

definition sample_block :: "string \<Rightarrow> json" where
  "sample_block s = JObj [(''number'', JStr s), (''hash'', JStr (''0xB'' @ s)), (''parentHash'', JStr ''0xF''),
     (''transactions'', JArr (if s = ''0x1'' then
        [JObj [(''hash'', JStr ''0x9''), (''from'', JStr ''0xC''), (''to'', JStr ''0xA''), (''value'', JStr ''0x5''), (''transactionIndex'', JStr ''0x1'')],
         JObj [(''hash'', JStr ''0x8''), (''from'', JStr ''0xC''), (''to'', JNull), (''value'', JStr ''0x0'')]] else []))]"

definition sample_rpc :: "selected_endpoint \<Rightarrow> string \<Rightarrow> json list \<Rightarrow> nat \<Rightarrow> rpc_reply \<times> nat" where
  "sample_rpc ep meth params x =
     (if meth = ''eth_blockNumber'' then RpcResult (Some (JStr ''0x3''))
      else if meth = ''eth_getBlockByNumber'' then (case params of JStr s # _ \<Rightarrow> RpcResult (Some (sample_block s)) | _ \<Rightarrow> RpcError 1 [])
      else if meth = ''eth_getTransactionReceipt'' then RpcResult (Some (JObj [(''status'', JStr ''0x1''), (''blockNumber'', JStr ''0x1'')]))
      else if meth = ''eth_getTransactionCount'' then RpcResult (Some (JStr ''0x7''))
      else RpcStatus 404, Suc x)"

definition sample_node_env :: "nat node_env" where
  "sample_node_env = \<lparr>ne_Rpc = sample_rpc, ne_Now = int, ne_Intn = (\<lambda>_ _. 0), ne_CursorLookback = 256\<rparr>"

definition sample_node :: "nat node" where
  "sample_node = \<lparr>nd_manager = snd (Refresh (Inr (ListActiveRPCEndpoints [\<lparr>ep_ID = 1, ep_Chain = ''ethereum'', ep_Network = ''mainnet'',
     ep_Model = ''account'', ep_URL = ''http://a'', ep_Weight = 1, ep_TimeoutMS = 0, ep_Priority = 0, ep_Status = ''ACTIVE''\<rparr>])) (NewManager 0 0)),
     nd_ext = 0\<rparr>"

definition sample_page :: "string \<Rightarrow> string \<Rightarrow> incoming_transfer_result" where
  "sample_page address cursor =
     (case rd_ListIncomingTransfers sample_node_env ''ethereum'' ''mainnet'' address cursor 2 sample_node of
        (Inl _, _) \<Rightarrow> \<lparr>ir_Items = [], ir_NextCursor = [], ir_Blocks = []\<rparr> | (Inr out, _) \<Rightarrow> out)"

lemma sample_page_read:
  assumes "case fst (rd_ListIncomingTransfers sample_node_env ''ethereum'' ''mainnet'' address cursor 2 sample_node) of
     Inl _ \<Rightarrow> False | Inr out \<Rightarrow> P out"
  shows "rd_ListIncomingTransfers sample_node_env ''ethereum'' ''mainnet'' address cursor 2 sample_node =
    (Inr (sample_page address cursor), snd (rd_ListIncomingTransfers sample_node_env ''ethereum'' ''mainnet'' address cursor 2 sample_node))"
    "P (sample_page address cursor)"
proof -
  obtain out n' where "rd_ListIncomingTransfers sample_node_env ''ethereum'' ''mainnet'' address cursor 2 sample_node = (Inr out, n')" "P out"
    using assms
    by (cases "rd_ListIncomingTransfers sample_node_env ''ethereum'' ''mainnet'' address cursor 2 sample_node") (auto split: sum.splits)
  then show "rd_ListIncomingTransfers sample_node_env ''ethereum'' ''mainnet'' address cursor 2 sample_node =
    (Inr (sample_page address cursor), snd (rd_ListIncomingTransfers sample_node_env ''ethereum'' ''mainnet'' address cursor 2 sample_node))"
    "P (sample_page address cursor)" by (simp_all add: sample_page_def)
qed


section \<open>Fields of objects\<close>

definition plain_keys :: "string list" where
  "plain_keys = [''confirmations'', ''contract_address'', ''froms'', ''hash'', ''index'', ''status'', ''tos'', ''values'', ''address'', ''value'',
     ''blocks'', ''next_cursor'', ''tx'', ''chainId'', ''nonceMode'', ''fromAddress'', ''nonce'', ''maxPriorityFeePerGas'', ''maxFeePerGas'',
     ''gasLimit'', ''toAddress'', ''amount'', ''contractAddress'', ''number'', ''parentHash'', ''transactions'']"

lemma plain_keys_fold:
  assumes "k \<in> set plain_keys" "f \<in> set plain_keys"
  shows "equal_fold k f \<longleftrightarrow> k = f"
proof -
  have "map to_lower plain_keys = [''confirmations'', ''contract_address'', ''froms'', ''hash'', ''index'', ''status'', ''tos'', ''values'',
     ''address'', ''value'', ''blocks'', ''next_cursor'', ''tx'', ''chainid'', ''noncemode'', ''fromaddress'', ''nonce'', ''maxpriorityfeepergas'',
     ''maxfeepergas'', ''gaslimit'', ''toaddress'', ''amount'', ''contractaddress'', ''number'', ''parenthash'',
     ''transactions'']" by code_simp
  then have "distinct (map to_lower plain_keys)" by simp
  then show ?thesis using assms by (auto simp: equal_fold_def distinct_map dest: inj_onD)
qed

lemma filter_key:
  "distinct (map fst m) \<Longrightarrow> filter (\<lambda>(k, _). k = f) m = (case map_of m f of None \<Rightarrow> [] | Some v \<Rightarrow> [(f, v)])"
proof (induction m)
  case (Cons p m)
  obtain k v where p: "p = (k, v)" by (cases p)
  have "k = f \<Longrightarrow> map_of m f = None" using Cons.prems p by (simp add: map_of_eq_None_iff image_iff)
  then show ?case using Cons p by auto
qed simp

lemma plain_filter:
  assumes "distinct (map fst m)" "fst ` set m \<subseteq> set plain_keys" "f \<in> set plain_keys"
  shows "filter (\<lambda>(k, _). equal_fold k f) m = (case map_of m f of None \<Rightarrow> [] | Some v \<Rightarrow> [(f, v)])"
proof -
  have "filter (\<lambda>(k, _). equal_fold k f) m = filter (\<lambda>(k, _). k = f) m"
  proof (rule filter_cong [OF refl])
    fix p assume "p \<in> set m"
    then have "fst p \<in> set plain_keys" using assms(2) by blast
    then show "(case p of (k, _) \<Rightarrow> equal_fold k f) = (case p of (k, _) \<Rightarrow> k = f)"
      using plain_keys_fold [OF _ assms(3)] by (cases p) simp
  qed
  then show ?thesis using filter_key [OF assms(1)] by simp
qed

lemma json_entries_plain:
  assumes "distinct (map fst m)" "fst ` set m \<subseteq> set plain_keys" "f \<in> set plain_keys"
  shows "json_entries f m = (case map_of m f of None \<Rightarrow> [] | Some v \<Rightarrow> if v = JNull then [] else [v])"
  unfolding json_entries_def plain_filter [OF assms] by (simp split: option.split)

lemma node_field_plain:
  assumes "distinct (map fst m)" "fst ` set m \<subseteq> set plain_keys" "f \<in> set plain_keys"
  shows "node_field d zero f m = (case map_of m f of None \<Rightarrow> Some zero | Some v \<Rightarrow> if v = JNull then Some zero else d v)"
  unfolding node_field_def plain_filter [OF assms] by (simp split: option.split)


section \<open>A page and what the gateway makes of it\<close>

lemma plain_key_mem [simp]:
  "''confirmations'' \<in> set plain_keys" "''contract_address'' \<in> set plain_keys" "''froms'' \<in> set plain_keys" "''hash'' \<in> set plain_keys"
  "''index'' \<in> set plain_keys" "''status'' \<in> set plain_keys" "''tos'' \<in> set plain_keys" "''values'' \<in> set plain_keys"
  "''address'' \<in> set plain_keys" "''value'' \<in> set plain_keys" "''blocks'' \<in> set plain_keys" "''next_cursor'' \<in> set plain_keys"
  "''tx'' \<in> set plain_keys" "''chainId'' \<in> set plain_keys" "''nonceMode'' \<in> set plain_keys" "''fromAddress'' \<in> set plain_keys"
  "''nonce'' \<in> set plain_keys" "''maxPriorityFeePerGas'' \<in> set plain_keys" "''maxFeePerGas'' \<in> set plain_keys"
  "''gasLimit'' \<in> set plain_keys" "''toAddress'' \<in> set plain_keys" "''amount'' \<in> set plain_keys" "''contractAddress'' \<in> set plain_keys"
  "''number'' \<in> set plain_keys" "''parentHash'' \<in> set plain_keys" "''transactions'' \<in> set plain_keys"
  by (simp_all add: plain_keys_def)

lemma transfer_entry_plain: "distinct (map fst (transfer_entry p))" "fst ` set (transfer_entry p) \<subseteq> set plain_keys"
  by (auto simp: transfer_entry_def split: prod.split)

definition int64_range :: "int \<Rightarrow> bool" where
  "int64_range i \<longleftrightarrow> - (2 ^ 63) \<le> i \<and> i < 2 ^ 63"

definition entry_tx :: "nat \<times> incoming_transfer \<Rightarrow> evm_tx" where
  "entry_tx p = (case p of (i, it) \<Rightarrow>
     \<lparr>ev_Hash = it_TxHash it, ev_Index = fallbackIndex (it_Index it) i, ev_Froms = [it_FromAddress it], ev_Tos = [it_ToAddress it],
      ev_Values = [it_Amount it], ev_Confirmations = it_Confirmations it, ev_Status = it_Status it, ev_ContractAddress = it_ContractAddress it\<rparr>)"

lemma single_field: "string_field f [(f, JStr s)] = Some s" if "f \<in> set plain_keys"
  using that by (simp add: string_field_def json_entries_plain json_string_def)

lemma decode_entry:
  assumes "int64_range (it_Confirmations it)" "int64_range (it_Index it)" "int i < 2 ^ 63"
  shows "decode_evm_tx (transfer_entry (i, it)) = Some (entry_tx (i, it))"
proof -
  note e = json_entries_plain [OF transfer_entry_plain [of "(i, it)"]]
  have "string_field ''hash'' (transfer_entry (i, it)) = Some (it_TxHash it)"
    "string_field ''status'' (transfer_entry (i, it)) = Some (it_Status it)"
    "string_field ''contract_address'' (transfer_entry (i, it)) = Some (it_ContractAddress it)"
    by (simp_all add: string_field_def e) (simp_all add: transfer_entry_def json_string_def)
  moreover have "int64_field ''index'' (transfer_entry (i, it)) = Some (fallbackIndex (it_Index it) i)"
    "int64_field ''confirmations'' (transfer_entry (i, it)) = Some (it_Confirmations it)"
    using assms by (simp_all add: int64_field_def e) (simp_all add: transfer_entry_def json_int64_def int64_range_def fallbackIndex_def)
  moreover have "list_field ''froms'' (json_fields (string_field ''address'')) (transfer_entry (i, it)) = Some [it_FromAddress it]"
    "list_field ''tos'' (json_fields (string_field ''address'')) (transfer_entry (i, it)) = Some [it_ToAddress it]"
    "list_field ''values'' (json_fields (string_field ''value'')) (transfer_entry (i, it)) = Some [it_Amount it]"
    by (simp_all add: list_field_def e) (simp_all add: transfer_entry_def json_list_def json_fields_def single_field)
  ultimately show ?thesis by (simp add: decode_evm_tx_def entry_tx_def)
qed

lemma payload_plain: "distinct (map fst (transfers_payload out))" "fst ` set (transfers_payload out) \<subseteq> set plain_keys"
  by (auto simp: transfers_payload_def)

lemma payload_map_of:
  "map_of (transfers_payload out) ''tx'' = Some (JArr (map (JObj \<circ> transfer_entry) (enumerate 0 (ir_Items out))))"
  "map_of (transfers_payload out) ''next_cursor'' = Some (JStr (ir_NextCursor out))"
  "map_of (transfers_payload out) ''blocks'' =
     (if ir_Blocks out = [] then None else Some (JArr (map (JObj \<circ> block_entry) (ir_Blocks out))))"
  by (simp_all add: transfers_payload_def)

lemma payload_txs:
  assumes "\<forall>it\<in>set (ir_Items out). int64_range (it_Confirmations it) \<and> int64_range (it_Index it)" "length (ir_Items out) < 2 ^ 63"
  shows "list_field ''tx'' (json_fields decode_evm_tx) (transfers_payload out) = Some (map entry_tx (enumerate 0 (ir_Items out)))"
proof -
  have d: "decode_evm_tx (transfer_entry p) = Some (entry_tx p)" if "p \<in> set (enumerate 0 (ir_Items out))" for p
  proof -
    obtain i it where p: "p = (i, it)" by (cases p)
    then have "it \<in> set (ir_Items out)" "i < length (ir_Items out)" using that by (auto simp: in_set_enumerate_eq)
    then show ?thesis unfolding p using assms by (intro decode_entry) auto
  qed
  have "list_field ''tx'' (json_fields decode_evm_tx) (transfers_payload out) =
      json_list (json_fields decode_evm_tx) (JArr (map (JObj \<circ> transfer_entry) (enumerate 0 (ir_Items out))))"
    by (simp add: list_field_def json_entries_plain [OF payload_plain] payload_map_of)
       (simp split: option.split)
  also have "\<dots> = Some (map entry_tx (enumerate 0 (ir_Items out)))"
    using d by (force simp: json_list_def json_fields_def)
  finally show ?thesis .
qed

lemma payload_cursor: "trim_space (ir_NextCursor out) = ir_NextCursor out \<Longrightarrow> ir_NextCursor out \<noteq> [] \<Longrightarrow> next_cursor (transfers_payload out) = ir_NextCursor out"
  by (simp add: next_cursor_def payload_map_of)

lemma payload_blocks: "extractBlockMetas (transfers_payload out) = filter (\<lambda>b. bm_Hash b \<noteq> []) (ir_Blocks out)"
proof -
  have "concat (map ((\<lambda>item. case item of
       JObj m \<Rightarrow> let bm = \<lparr>bm_Number = (case map_of m ''number'' of Some (JNum n) \<Rightarrow> n | _ \<Rightarrow> 0),
            bm_Hash = (case map_of m ''hash'' of Some (JStr s) \<Rightarrow> s | _ \<Rightarrow> []),
            bm_ParentHash = (case map_of m ''parent_hash'' of Some (JStr s) \<Rightarrow> s | _ \<Rightarrow> [])\<rparr>
          in if bm_Hash bm \<noteq> [] then [bm] else []
     | _ \<Rightarrow> []) \<circ> (JObj \<circ> block_entry)) bs) = filter (\<lambda>b. bm_Hash b \<noteq> []) bs" for bs
    by (induction bs) (simp_all add: block_entry_def)
  then show ?thesis unfolding extractBlockMetas_def payload_map_of
    by (cases "ir_Blocks out = []") (simp_all only: if_True if_False option.case json.case map_map filter.simps simp_thms)
qed

text \<open>The transfers of a page.\<close>

definition page_item :: "string \<Rightarrow> incoming_transfer \<Rightarrow> bool" where
  "page_item addr it \<longleftrightarrow> trim_space (it_TxHash it) \<noteq> [] \<and> trim_space (it_ToAddress it) \<noteq> [] \<and>
     (addr = [] \<or> to_lower (trim_space (it_ToAddress it)) = addr) \<and> (\<exists>v>0. it_Amount it = int_to_string v) \<and>
     int64_range (it_Confirmations it) \<and> int64_range (it_Index it) \<and> it_Status it \<in> {''CONFIRMED'', ''REVERTED'', ''PENDING''} \<and>
     it_ContractAddress it = []"

lemma as_int64_range: "v < 2 ^ 64 \<Longrightarrow> int64_range (as_int64 v)"
  by (simp add: as_int64_def int64_range_def)

lemma confirmations_range: "int64_range (confirmations_at latest bn)"
proof -
  have "nat (int (latest - bn + 1) mod 2 ^ 64) < 2 ^ 64" by (simp add: nat_less_iff)
  then show ?thesis using as_int64_range by (simp add: confirmations_at_def int64_range_def)
qed

lemma parse_uint64_bound: "fst (parse_uint64 b s) < 2 ^ 64"
  by (simp add: parse_uint64_def Let_def split: option.split)

lemma hexToUint64_bound: "fst (hexToUint64 v) < 2 ^ 64"
  using parse_uint64_bound by (simp add: hexToUint64_def Let_def)

lemma native_transfer_item:
  assumes "pays addr tx = Some v"
  shows "page_item addr (native_transfer latest tx v receipt)"
proof -
  have "to_lower (trim_space (rt_To tx)) \<noteq> []" "trim_space (rt_Hash tx) \<noteq> []" "addr = [] \<or> to_lower (trim_space (rt_To tx)) = addr" "v > 0"
    using assms by (auto simp: pays_def Let_def split: if_splits sum.splits)
  moreover have "int64_range (receipt_confirmations latest receipt)"
    using confirmations_range by (simp add: receipt_confirmations_def int64_range_def split: prod.split option.split)
  moreover have "receipt_state receipt \<in> {''CONFIRMED'', ''REVERTED'', ''PENDING''}" by (simp add: receipt_state_def Let_def)
  ultimately show ?thesis
    using as_int64_range [OF hexToUint64_bound] by (auto simp: page_item_def native_transfer_def to_lower_def)
qed

lemma scan_txs_items: "scan_txs N ep latest addr txs n = (Inr items, n') \<Longrightarrow> \<forall>it\<in>set items. page_item addr it"
proof (induction txs arbitrary: items n n')
  case (Cons tx txs)
  then show ?case
    by (fastforce simp: bindN_def native_transfer_item split: option.splits prod.splits sum.splits)
qed simp

lemma scan_blocks_items:
  "scan_blocks N ep latest addr bs n = (Inr (items, metas), n') \<Longrightarrow>
     (\<forall>it\<in>set items. page_item addr it) \<and> (\<forall>m\<in>set metas. \<exists>b. m = meta_of b)"
proof (induction bs arbitrary: items metas n n')
  case (Cons b bs)
  obtain block n1 where 1: "getBlockByNumber N ep b n = (Inr block, n1)"
    using Cons.prems by (auto simp: bindN_def split: prod.splits sum.splits)
  obtain its n2 where 2: "scan_txs N ep latest addr (rb_Transactions block) n1 = (Inr its, n2)"
    using Cons.prems 1 by (auto simp: bindN_def split: prod.splits sum.splits)
  obtain rest ms where 3: "scan_blocks N ep latest addr bs n2 = (Inr (rest, ms), n')"
    "items = its @ rest" "metas = meta_of block # ms"
    using Cons.prems 1 2 by (auto simp: bindN_def split: prod.splits sum.splits)
  show ?case using Cons.IH [OF 3(1)] scan_txs_items [OF 2] 3(2,3) by auto
qed simp

lemma page_items:
  assumes "rd_ListIncomingTransfers N chain network address cursor pageSize n = (Inr out, n')"
  shows "(\<forall>it\<in>set (ir_Items out). page_item (to_lower (trim_space address)) it) \<and> (\<forall>m\<in>set (ir_Blocks out). \<exists>b. m = meta_of b) \<and>
     (\<exists>k. ir_NextCursor out = nat_to_string k)"
  using assms
  by (auto simp: rd_ListIncomingTransfers_def bindN_def reported_def succeed_def Let_def
      split: prod.splits sum.splits if_splits dest!: scan_blocks_items)

text \<open>What the gateway makes of the transfer at a position of a page.\<close>

definition seen_item :: "nat \<times> incoming_transfer \<Rightarrow> incoming_transfer" where
  "seen_item p = (case p of (i, it) \<Rightarrow>
     it\<lparr>it_TxHash := trim_space (it_TxHash it), it_FromAddress := trim_space (it_FromAddress it), it_ToAddress := trim_space (it_ToAddress it),
        it_Confirmations := normalizeConfirmations (it_Confirmations it), it_Index := fallbackIndex (it_Index it) i\<rparr>)"

lemma status_normal: "st \<in> {''CONFIRMED'', ''REVERTED'', ''PENDING''} \<Longrightarrow> normalizeTxStatus st = st"
proof -
  have "normalizeTxStatus ''CONFIRMED'' = ''CONFIRMED''" "normalizeTxStatus ''REVERTED'' = ''REVERTED''" "normalizeTxStatus ''PENDING'' = ''PENDING''"
    by code_simp+
  then show "st \<in> {''CONFIRMED'', ''REVERTED'', ''PENDING''} \<Longrightarrow> normalizeTxStatus st = st" by auto
qed

lemma evm_item_entry:
  assumes "page_item (to_lower (trim_space address)) it"
  shows "evm_item address (i, entry_tx (i, it)) = [seen_item (i, it)]"
proof -
  obtain v where v: "v > 0" "it_Amount it = int_to_string v" using assms by (auto simp: page_item_def)
  then have amount: "trim_space (it_Amount it) = it_Amount it" "it_Amount it \<noteq> []" by (simp_all add: int_to_string_def)
  have index: "(if fallbackIndex (it_Index it) i \<le> 0 then int i else fallbackIndex (it_Index it) i) = fallbackIndex (it_Index it) i"
    by (simp add: fallbackIndex_def)
  show ?thesis
    using assms amount index status_normal [of "it_Status it"]
    by (auto simp: page_item_def evm_item_def entry_tx_def seen_item_def gw_fallback_def Let_def to_lower_def)
qed

lemma enumerate_mem: "(i, x) \<in> set (enumerate k xs) \<Longrightarrow> x \<in> set xs"
  by (auto simp: in_set_enumerate_eq)

lemma concat_singletons: "(\<And>x. x \<in> set xs \<Longrightarrow> f x = [g x]) \<Longrightarrow> concat (map f xs) = map g xs"
  by (induction xs) auto

definition evm_names :: "string set" where
  "evm_names = {''ethereum'', ''binance'', ''polygon'', ''arbitrum'', ''optimism'', ''linea'', ''scroll'', ''mantle'', ''zksync''}"

text \<open>
  C23: The gateway hands a page of transfers on as the reader built it: if a page of blocks of an EVM chain has transfers, what the gateway
  extracts from the plugin's answer are those transfers in order, with hashes and addresses trimmed, a confirmation count that is not
  positive marked as unknown and an index that is not positive replaced by the position on the page; the cursor and the blocks are unchanged.
\<close>

theorem evm_page_roundtrip:
  assumes page: "rd_ListIncomingTransfers N chain network address cursor pageSize n = (Inr out, n')" "ir_Items out \<noteq> []"
    and evm: "norm_normalizeChain chain \<in> evm_names" and len: "length (ir_Items out) < 2 ^ 63"
  shows "IncomingTransfers ''account'' chain (transfers_payload out) address =
     \<lparr>ir_Items = map seen_item (enumerate 0 (ir_Items out)), ir_NextCursor = ir_NextCursor out,
      ir_Blocks = filter (\<lambda>b. bm_Hash b \<noteq> []) (ir_Blocks out)\<rparr>"
proof -
  have items: "\<forall>it\<in>set (ir_Items out). page_item (to_lower (trim_space address)) it" using page_items [OF page(1)] by blast
  obtain k where "ir_NextCursor out = nat_to_string k" using page_items [OF page(1)] by blast
  then have cur: "next_cursor (transfers_payload out) = ir_NextCursor out" by (intro payload_cursor) simp_all
  have txs: "list_field ''tx'' (json_fields decode_evm_tx) (transfers_payload out) = Some (map entry_tx (enumerate 0 (ir_Items out)))"
    using items len by (intro payload_txs) (auto simp: page_item_def)
  have en: "enumerate 0 (map entry_tx (enumerate 0 xs)) = map (\<lambda>p. (fst p, entry_tx p)) (enumerate 0 xs)" for xs
    by (rule nth_equalityI) (simp_all add: nth_enumerate_eq)
  have "concat (map (evm_item address) (enumerate 0 (map entry_tx (enumerate 0 (ir_Items out))))) = map seen_item (enumerate 0 (ir_Items out))"
    unfolding en map_map
    by (rule concat_singletons) (use items in \<open>auto intro!: evm_item_entry dest: enumerate_mem\<close>)
  moreover obtain t ts where "map entry_tx (enumerate 0 (ir_Items out)) = t # ts"
    using page(2) by (cases "ir_Items out") auto
  ultimately have "extractAccountTransfersEVM (transfers_payload out) address =
      Some (map seen_item (enumerate 0 (ir_Items out)), ir_NextCursor out)"
    using txs cur by (simp add: extractAccountTransfersEVM_def)
  then show ?thesis using evm
    by (auto simp: IncomingTransfers_def extractAccountTransfers_def Let_def evm_names_def payload_blocks)
qed

theorem evm_page_roundtrip_witness:
  "IncomingTransfers ''account'' ''ethereum'' (transfers_payload (sample_page [] ''0'')) [] =
     \<lparr>ir_Items = map seen_item (enumerate 0 (ir_Items (sample_page [] ''0''))), ir_NextCursor = ir_NextCursor (sample_page [] ''0''),
      ir_Blocks = filter (\<lambda>b. bm_Hash b \<noteq> []) (ir_Blocks (sample_page [] ''0''))\<rparr>"
proof (rule evm_page_roundtrip)
  have "case fst (rd_ListIncomingTransfers sample_node_env ''ethereum'' ''mainnet'' [] ''0'' 2 sample_node) of
     Inl _ \<Rightarrow> False | Inr out \<Rightarrow> length (ir_Items out) = 1" by code_simp
  note page = sample_page_read [OF this]
  show "rd_ListIncomingTransfers sample_node_env ''ethereum'' ''mainnet'' [] ''0'' 2 sample_node =
    (Inr (sample_page [] ''0''), snd (rd_ListIncomingTransfers sample_node_env ''ethereum'' ''mainnet'' [] ''0'' 2 sample_node))"
    by (rule page(1))
  show "ir_Items (sample_page [] ''0'') \<noteq> []" "length (ir_Items (sample_page [] ''0'')) < 2 ^ 63" using page(2) by auto
  have "norm_normalizeChain ''ethereum'' = ''ethereum''" by code_simp
  then show "norm_normalizeChain ''ethereum'' \<in> evm_names" by (simp add: evm_names_def)
qed

text \<open>The transfer the gateway makes of a block.\<close>

definition block_transfer :: "string \<Rightarrow> nat \<times> block_meta \<Rightarrow> incoming_transfer" where
  "block_transfer addr p = (case p of (i, b) \<Rightarrow>
     \<lparr>it_TxHash = bm_Hash b, it_FromAddress = [], it_ToAddress = addr, it_Amount = ''0'', it_Confirmations = - 1, it_Index = int i,
      it_Status = [], it_ContractAddress = []\<rparr>)"

lemma block_entry_hash: "pickString (block_entry b) [''tx_hash'', ''hash'', ''txid'', ''txId''] = trim_space (bm_Hash b)"
  by (simp add: block_entry_def)

lemma collect_blocks:
  "collect_items (map (JObj \<circ> block_entry) bs) = map block_entry (filter (\<lambda>b. trim_space (bm_Hash b) \<noteq> []) bs)"
proof (induction bs)
  case (Cons b bs)
  have "collect_fields (block_entry b) = []" by (simp add: block_entry_def)
  then show ?case using Cons by (simp add: block_entry_hash del: pickString.simps)
qed simp

lemma generic_block:
  assumes "trim_space (bm_Hash b) = bm_Hash b" "bm_Hash b \<noteq> []"
  shows "generic_item address (i, block_entry b) = [block_transfer (to_lower (trim_space address)) (i, b)]"
proof -
  have "normalizeTxStatus [] = []" by code_simp
  moreover have "pickString (block_entry b) [''to'', ''to_address'', ''toAddress'', ''recipient'', ''receiver''] = []"
    "pickString (block_entry b) [''from'', ''from_address'', ''fromAddress'', ''sender''] = []"
    "pickString (block_entry b) [''amount'', ''value'', ''amount_str'', ''amountStr''] = []"
    "pickInt64 (block_entry b) [''index'', ''vout'', ''n''] = 0"
    "pickInt64 (block_entry b) [''confirmations'', ''confirm'', ''confirmation''] = 0"
    "pickString (block_entry b) [''status'', ''tx_status'', ''state''] = []"
    by (simp_all add: block_entry_def)
  ultimately show ?thesis using assms block_entry_hash [of b]
    by (simp add: generic_item_def Let_def block_transfer_def gw_fallback_def normalizeConfirmations_def to_lower_def
        del: pickString.simps pickInt64.simps)
qed

text \<open>
  C24: A page without transfers becomes a list of its blocks: if no transaction of a page pays the address that is asked for, the gateway
  reports one transfer per block, whose hash is the hash of the block, of the amount 0, from nobody to that address. A page is therefore
  never empty for the scanner.
\<close>

theorem evm_empty_page_lists_blocks:
  assumes page: "rd_ListIncomingTransfers N chain network address cursor pageSize n = (Inr out, n')" "ir_Items out = []"
    and evm: "norm_normalizeChain chain \<in> evm_names"
  shows "ir_Items (IncomingTransfers ''account'' chain (transfers_payload out) address) =
     map (block_transfer (to_lower (trim_space address))) (enumerate 0 (filter (\<lambda>b. bm_Hash b \<noteq> []) (ir_Blocks out)))"
proof -
  let ?bs = "filter (\<lambda>b. bm_Hash b \<noteq> []) (ir_Blocks out)"
  have trim: "\<forall>b\<in>set (ir_Blocks out). trim_space (bm_Hash b) = bm_Hash b"
    using page_items [OF page(1)] by (auto simp: meta_of_def trim_space_to_lower)
  have "extractAccountTransfersEVM (transfers_payload out) address = None"
    using payload_txs [of out] page(2) by (simp add: extractAccountTransfersEVM_def)
  then have g: "ir_Items (IncomingTransfers ''account'' chain (transfers_payload out) address) =
      concat (map (generic_item address) (enumerate 0 (collectObjectCandidates (JObj (transfers_payload out)))))"
    using evm by (auto simp: IncomingTransfers_def extractAccountTransfers_def Let_def evm_names_def extractAccountTransfersGeneric_def)
  have "filter (\<lambda>b. trim_space (bm_Hash b) \<noteq> []) (ir_Blocks out) = ?bs" using trim by (intro filter_cong) auto
  then have "collectObjectCandidates (JObj (transfers_payload out)) = map block_entry ?bs"
    using page(2) by (simp add: transfers_payload_def collect_blocks)
  moreover have "enumerate 0 (map block_entry xs) = map (\<lambda>(i, b). (i, block_entry b)) (enumerate 0 xs)" for xs
    by (rule nth_equalityI) (simp_all add: nth_enumerate_eq)
  ultimately have "ir_Items (IncomingTransfers ''account'' chain (transfers_payload out) address) =
      concat (map (\<lambda>(i, b). generic_item address (i, block_entry b)) (enumerate 0 ?bs))"
    using g by (simp add: comp_def case_prod_unfold)
  also have "\<dots> = map (block_transfer (to_lower (trim_space address))) (enumerate 0 ?bs)"
    by (rule concat_singletons) (use trim in \<open>auto intro!: generic_block dest!: enumerate_mem\<close>)
  finally show ?thesis .
qed


theorem evm_empty_page_lists_blocks_witness:
  "ir_Items (IncomingTransfers ''account'' ''ethereum'' (transfers_payload (sample_page ''0xA'' ''1'')) ''0xA'') =
     map (block_transfer (to_lower (trim_space ''0xA''))) (enumerate 0 (filter (\<lambda>b. bm_Hash b \<noteq> []) (ir_Blocks (sample_page ''0xA'' ''1''))))
   \<and> length (ir_Blocks (sample_page ''0xA'' ''1'')) = 2"
proof (rule conjI, rule evm_empty_page_lists_blocks)
  have "case fst (rd_ListIncomingTransfers sample_node_env ''ethereum'' ''mainnet'' ''0xA'' ''1'' 2 sample_node) of
     Inl _ \<Rightarrow> False | Inr out \<Rightarrow> ir_Items out = [] \<and> length (ir_Blocks out) = 2" by code_simp
  note page = sample_page_read [OF this]
  show "rd_ListIncomingTransfers sample_node_env ''ethereum'' ''mainnet'' ''0xA'' ''1'' 2 sample_node =
    (Inr (sample_page ''0xA'' ''1''), snd (rd_ListIncomingTransfers sample_node_env ''ethereum'' ''mainnet'' ''0xA'' ''1'' 2 sample_node))"
    by (rule page(1))
  show "ir_Items (sample_page ''0xA'' ''1'') = []" using page(2) by blast
  have "norm_normalizeChain ''ethereum'' = ''ethereum''" by code_simp
  then show "norm_normalizeChain ''ethereum'' \<in> evm_names" by (simp add: evm_names_def)
  show "length (ir_Blocks (sample_page ''0xA'' ''1'')) = 2" using page(2) by blast
qed


section \<open>Pages and blocks\<close>

text \<open>The transfers of a block of a chain whose blocks and receipts are given.\<close>

definition block_items :: "(nat \<Rightarrow> rpc_block) \<Rightarrow> (string \<Rightarrow> rpc_receipt) \<Rightarrow> nat \<Rightarrow> string \<Rightarrow> nat \<Rightarrow> incoming_transfer list" where
  "block_items blocks receipts latest addr b =
     concat (map (\<lambda>tx. case pays addr tx of None \<Rightarrow> [] | Some v \<Rightarrow> [native_transfer latest tx v (receipts (rt_Hash tx))])
       (rb_Transactions (blocks b)))"

text \<open>A node that answers from such a chain, whatever has been asked before.\<close>

definition serves :: "'x node_env \<Rightarrow> (nat \<Rightarrow> rpc_block) \<Rightarrow> (string \<Rightarrow> rpc_receipt) \<Rightarrow> nat \<Rightarrow> bool" where
  "serves N blocks receipts latest \<longleftrightarrow>
     (\<forall>ep n. \<exists>x. blockNumber N ep n = (Inr latest, n\<lparr>nd_ext := x\<rparr>)) \<and>
     (\<forall>ep b n. \<exists>x. getBlockByNumber N ep b n = (Inr (blocks b), n\<lparr>nd_ext := x\<rparr>)) \<and>
     (\<forall>ep h n. \<exists>x. getTransactionReceipt N ep h n = (Inr (receipts h), n\<lparr>nd_ext := x\<rparr>))"

text \<open>Reading \<open>k\<close> pages, each from the cursor of the one before: the transfers, and the last cursor.\<close>

fun read_pages ::
  "nat \<Rightarrow> 'x node_env \<Rightarrow> string \<Rightarrow> string \<Rightarrow> string \<Rightarrow> nat \<Rightarrow> string \<Rightarrow> ('x, incoming_transfer list \<times> string) node_call" where
  "read_pages 0 N chain network address pageSize cursor n = (Inr ([], cursor), n)"
| "read_pages (Suc k) N chain network address pageSize cursor n =
     bindN (rd_ListIncomingTransfers N chain network address cursor pageSize) (\<lambda>page.
     bindN (read_pages k N chain network address pageSize (ir_NextCursor page)) (\<lambda>(items, last) n. (Inr (ir_Items page @ items, last), n))) n"

lemma scan_txs_serves:
  assumes "serves N blocks receipts latest"
  shows "\<exists>x. scan_txs N ep latest addr txs n =
     (Inr (concat (map (\<lambda>tx. case pays addr tx of None \<Rightarrow> [] | Some v \<Rightarrow> [native_transfer latest tx v (receipts (rt_Hash tx))]) txs)), n\<lparr>nd_ext := x\<rparr>)"
proof (induction txs arbitrary: n)
  case Nil
  show ?case by (rule exI [of _ "nd_ext n"]) simp
next
  case (Cons tx txs)
  show ?case
  proof (cases "pays addr tx")
    case None
    then show ?thesis using Cons [of n] by simp
  next
    case (Some v)
    obtain x where "getTransactionReceipt N ep (rt_Hash tx) n = (Inr (receipts (rt_Hash tx)), n\<lparr>nd_ext := x\<rparr>)"
      using assms unfolding serves_def by blast
    then show ?thesis using Some Cons [of "n\<lparr>nd_ext := x\<rparr>"] by (auto simp: bindN_def)
  qed
qed

lemma scan_blocks_serves:
  assumes s: "serves N blocks receipts latest"
  shows "\<exists>x. scan_blocks N ep latest addr bs n =
     (Inr (concat (map (block_items blocks receipts latest addr) bs), map (\<lambda>b. meta_of (blocks b)) bs), n\<lparr>nd_ext := x\<rparr>)"
proof (induction bs arbitrary: n)
  case Nil
  show ?case by (rule exI [of _ "nd_ext n"]) simp
next
  case (Cons b bs)
  obtain x where 1: "getBlockByNumber N ep b n = (Inr (blocks b), n\<lparr>nd_ext := x\<rparr>)" using s unfolding serves_def by blast
  obtain y where 2: "scan_txs N ep latest addr (rb_Transactions (blocks b)) (n\<lparr>nd_ext := x\<rparr>) = (Inr (block_items blocks receipts latest addr b), n\<lparr>nd_ext := y\<rparr>)"
    using scan_txs_serves [OF s, of ep addr "rb_Transactions (blocks b)" "n\<lparr>nd_ext := x\<rparr>"] by (auto simp: block_items_def)
  show ?case using 1 2 Cons [of "n\<lparr>nd_ext := y\<rparr>"] by (auto simp: bindN_def)
qed

text \<open>A node whose pool of endpoints for the chain is not empty.\<close>

definition has_endpoint :: "string \<Rightarrow> string \<Rightarrow> 'x node \<Rightarrow> bool" where
  "has_endpoint chain network n \<longleftrightarrow> to_lower (trim_space chain) \<noteq> [] \<and> to_lower (trim_space network) \<noteq> [] \<and>
     pool_states (nd_manager n) (poolKey (to_lower (trim_space chain)) (to_lower (trim_space network)) ''account'') \<noteq> []"

lemma has_endpoint_ext [simp]: "has_endpoint chain network (n\<lparr>nd_ext := x\<rparr>) = has_endpoint chain network n"
  by (simp add: has_endpoint_def)

lemma has_endpoint_success [simp]: "has_endpoint chain network (rd_ReportSuccess N key n) = has_endpoint chain network n"
  by (simp add: has_endpoint_def rd_ReportSuccess_def ReportSuccess_def update_state_def pool_states_def split: option.split)

lemma selectEndpoint_finds:
  assumes "has_endpoint chain network n"
  obtains ep where "selectEndpoint N chain network n = (Inr ep, n)"
proof -
  have "to_lower (trim_space ''account'') = ''account''" by code_simp
  moreover obtain c cs where
    "pool_states (nd_manager n) (poolKey (to_lower (trim_space chain)) (to_lower (trim_space network)) ''account'') = c # cs"
    using assms unfolding has_endpoint_def by (meson neq_Nil_conv)
  ultimately have "\<exists>ep. Select (ne_Now N (nd_ext n)) (ne_Intn N (nd_ext n)) chain network ''account'' (nd_manager n) = Inr ep"
    using assms by (auto simp: has_endpoint_def Select_def Let_def split: list.split)
  then obtain ep where "Select (ne_Now N (nd_ext n)) (ne_Intn N (nd_ext n)) chain network ''account'' (nd_manager n) = Inr ep" by blast
  then show ?thesis using that by (simp add: selectEndpoint_def)
qed

lemma parse_uint64_decimal: "v < 2 ^ 64 \<Longrightarrow> parse_uint64 10 (nat_to_string v) = (v, None)"
proof -
  have dv: "(case hex_val c of None \<Rightarrow> None | Some d \<Rightarrow> if d < 10 then f d else None) = (case digit_val c of None \<Rightarrow> None | Some d \<Rightarrow> f d)" for c f
    by (auto simp: hex_val_def digit_val_def Let_def)
  have "scan_base 10 acc s = scan_digits acc s" for acc s
    by (induction s arbitrary: acc) (simp_all add: dv split: option.split)
  then show "v < 2 ^ 64 \<Longrightarrow> parse_uint64 10 (nat_to_string v) = (v, None)"
    by (simp add: parse_uint64_def scan_digits_nat_to_string)
qed

lemma next_page:
  assumes s: "serves N blocks receipts latest" and ep: "has_endpoint chain network n"
    and c: "c \<le> latest" "latest < 2 ^ 63" and p: "0 < p" "p \<le> 500"
  shows "\<exists>n'. rd_ListIncomingTransfers N chain network address (nat_to_string c) p n =
     (Inr \<lparr>ir_Items = concat (map (block_items blocks receipts latest (to_lower (trim_space address))) [Suc c..<Suc (min latest (c + p))]),
           ir_NextCursor = nat_to_string (min latest (c + p)), ir_Blocks = map (\<lambda>b. meta_of (blocks b)) [Suc c..<Suc (min latest (c + p))]\<rparr>, n') \<and>
     has_endpoint chain network n'"
proof -
  obtain e where e: "selectEndpoint N chain network n = (Inr e, n)" using selectEndpoint_finds [OF ep] .
  obtain x where x: "blockNumber N e n = (Inr latest, n\<lparr>nd_ext := x\<rparr>)" using s unfolding serves_def by blast
  have start: "resolveFromBlock N (nat_to_string c) latest = Inr (Suc c)"
    using c by (simp add: resolveFromBlock_def Let_def parse_uint64_decimal)
  have "int (Suc c) + int p - 1 = int (c + p)" "int (c + p) < 2 ^ 64" using c p by auto
  then have "nat ((int (Suc c) + int p - 1) mod 2 ^ 64) = c + p" by (metis mod_pos_pos_trivial nat_int of_nat_0_le_iff)
  then have to: "page_end (Suc c) p latest = min latest (c + p)" unfolding page_end_def Let_def by (simp only:) auto
  have size: "page_limit 500 p = p" using p by (simp add: page_limit_def)
  let ?bs = "[Suc c..<Suc (min latest (c + p))]" and ?a = "to_lower (trim_space address)"
  obtain y where y: "scan_blocks N e latest ?a ?bs (n\<lparr>nd_ext := x\<rparr>) =
     (Inr (concat (map (block_items blocks receipts latest ?a) ?bs), map (\<lambda>b. meta_of (blocks b)) ?bs), n\<lparr>nd_ext := y\<rparr>)"
    using scan_blocks_serves [OF s, of e ?a ?bs "n\<lparr>nd_ext := x\<rparr>"] by auto
  have "rd_ListIncomingTransfers N chain network address (nat_to_string c) p n =
     (Inr \<lparr>ir_Items = concat (map (block_items blocks receipts latest ?a) ?bs), ir_NextCursor = nat_to_string (min latest (c + p)),
       ir_Blocks = map (\<lambda>b. meta_of (blocks b)) ?bs\<rparr>, rd_ReportSuccess N (sel_Key e) (n\<lparr>nd_ext := if c < latest then y else x\<rparr>))"
  proof (cases "c < latest")
    case True
    then show ?thesis unfolding rd_ListIncomingTransfers_def Let_def size
      using y by (simp add: bindN_def e reported_def x start to succeed_def del: upt_Suc upt.simps)
  next
    case False
    then have "c = latest" using c by simp
    then show ?thesis unfolding rd_ListIncomingTransfers_def Let_def size
      by (simp add: bindN_def e reported_def x start [unfolded \<open>c = latest\<close>] succeed_def)
  qed
  then show ?thesis using ep by auto
qed

text \<open>
  C25: Following the cursor misses no block and reads none twice: on a node that answers from a fixed chain, reading \<open>k\<close> pages of
  size \<open>p\<close> from a cursor \<open>c\<close> gives exactly the transfers of the blocks after \<open>c\<close> up to \<open>c + k * p\<close>, or up to the last block if that is
  smaller, in order, and ends with the number of the last block read as the cursor.
\<close>

theorem cursor_pages_cover_blocks:
  assumes s: "serves N blocks receipts latest" and ep: "has_endpoint chain network n"
    and c: "c \<le> latest" "latest < 2 ^ 63" and p: "0 < p" "p \<le> 500"
  shows "\<exists>n'. read_pages k N chain network address p (nat_to_string c) n =
     (Inr (concat (map (block_items blocks receipts latest (to_lower (trim_space address))) [Suc c..<Suc (min latest (c + k * p))]),
           nat_to_string (min latest (c + k * p))), n')"
  using ep c(1)
proof (induction k arbitrary: c n)
  case 0
  then show ?case by (simp add: min_absorb2)
next
  case (Suc k)
  let ?items = "block_items blocks receipts latest (to_lower (trim_space address))" and ?d = "min latest (c + p)"
  obtain n1 where 1: "rd_ListIncomingTransfers N chain network address (nat_to_string c) p n =
     (Inr \<lparr>ir_Items = concat (map ?items [Suc c..<Suc ?d]), ir_NextCursor = nat_to_string ?d,
       ir_Blocks = map (\<lambda>b. meta_of (blocks b)) [Suc c..<Suc ?d]\<rparr>, n1)" "has_endpoint chain network n1"
    using next_page [OF s Suc.prems c(2) p] by blast
  obtain n2 where 2: "read_pages k N chain network address p (nat_to_string ?d) n1 =
     (Inr (concat (map ?items [Suc ?d..<Suc (min latest (?d + k * p))]), nat_to_string (min latest (?d + k * p))), n2)"
    using Suc.IH [OF 1(2) min.cobounded1] by blast
  have m: "min latest (?d + k * p) = min latest (c + Suc k * p)" by auto
  then have "c \<le> ?d" "?d \<le> min latest (c + Suc k * p)" using Suc.prems(2) by auto
  then have "[Suc c..<Suc (min latest (c + Suc k * p))] = [Suc c..<Suc ?d] @ [Suc ?d..<Suc (min latest (c + Suc k * p))]"
    using upt_add_eq_append [of "Suc c" "Suc ?d" "min latest (c + Suc k * p) - ?d"] by (simp del: upt_Suc upt.simps)
  then show ?case using 1(1) 2 m by (simp add: bindN_def del: upt_Suc upt.simps)
qed


text \<open>The sample node answers from a chain.\<close>

definition sample_blocks :: "nat \<Rightarrow> rpc_block" where
  "sample_blocks b = (case json_fields decode_rpc_block (sample_block (''0x'' @ to_hex b)) of Some block \<Rightarrow> block
     | None \<Rightarrow> \<lparr>rb_Number = [], rb_Hash = [], rb_ParentHash = [], rb_Transactions = []\<rparr>)"

definition sample_receipts :: "string \<Rightarrow> rpc_receipt" where
  "sample_receipts h = \<lparr>rr_Status = ''0x1'', rr_BlockNumber = ''0x1''\<rparr>"

lemma sample_block_decodes: "json_fields decode_rpc_block (sample_block s) \<noteq> None"
proof -
  define txs where "txs = (if s = ''0x1'' then
        [JObj [(''hash'', JStr ''0x9''), (''from'', JStr ''0xC''), (''to'', JStr ''0xA''), (''value'', JStr ''0x5''), (''transactionIndex'', JStr ''0x1'')],
         JObj [(''hash'', JStr ''0x8''), (''from'', JStr ''0xC''), (''to'', JNull), (''value'', JStr ''0x0'')]] else [])"
  have "json_list (json_fields decode_rpc_tx) (JArr txs) \<noteq> None"
  proof (cases "s = ''0x1''")
    case True
    have "json_list (json_fields decode_rpc_tx) (JArr
        [JObj [(''hash'', JStr ''0x9''), (''from'', JStr ''0xC''), (''to'', JStr ''0xA''), (''value'', JStr ''0x5''), (''transactionIndex'', JStr ''0x1'')],
         JObj [(''hash'', JStr ''0x8''), (''from'', JStr ''0xC''), (''to'', JNull), (''value'', JStr ''0x0'')]]) \<noteq> None" by code_simp
    then show ?thesis using True by (simp only: txs_def if_True simp_thms)
  qed (simp add: txs_def json_list_def)
  then obtain ts where ts: "json_list (json_fields decode_rpc_tx) (JArr txs) = Some ts" by blast
  define m where "m = [(''number'', JStr s), (''hash'', JStr (''0xB'' @ s)), (''parentHash'', JStr ''0xF''), (''transactions'', JArr txs)]"
  have "distinct (map fst m)" "fst ` set m \<subseteq> set plain_keys" by (auto simp: m_def)
  note f = node_field_plain [OF this]
  have "decode_rpc_block m \<noteq> None"
    by (simp add: decode_rpc_block_def f) (simp add: m_def json_string_def ts)
  then show ?thesis by (simp add: sample_block_def json_fields_def m_def txs_def)
qed

lemma sample_serves: "serves sample_node_env sample_blocks sample_receipts 3"
proof -
  have "uint64_result (hexToUint64 ''0x3'') = Inr 3"
    "json_fields decode_rpc_receipt (JObj [(''status'', JStr ''0x1''), (''blockNumber'', JStr ''0x1'')]) =
      Some \<lparr>rr_Status = ''0x1'', rr_BlockNumber = ''0x1''\<rparr>" by code_simp+
  moreover note sample_block_decodes
  ultimately have "blockNumber sample_node_env ep n = (Inr 3, n\<lparr>nd_ext := Suc (nd_ext n)\<rparr>)"
    "getBlockByNumber sample_node_env ep b n = (Inr (sample_blocks b), n\<lparr>nd_ext := Suc (nd_ext n)\<rparr>)"
    "getTransactionReceipt sample_node_env ep h n = (Inr (sample_receipts h), n\<lparr>nd_ext := Suc (nd_ext n)\<rparr>)" for ep b h n
    by (auto simp: blockNumber_def getBlockByNumber_def getTransactionReceipt_def rd_call_def numeral_2_eq_2 callOnce_def bindN_def
        sample_node_env_def sample_rpc_def string_or_null_def json_string_def hex_quantity_def sample_blocks_def sample_receipts_def
        split: option.split simp del: to_hex.simps)
  then show ?thesis unfolding serves_def by blast
qed

theorem cursor_pages_cover_blocks_witness:
  "\<exists>n'. read_pages 2 sample_node_env ''ethereum'' ''mainnet'' ''0xA'' 2 (nat_to_string 0) sample_node =
     (Inr (concat (map (block_items sample_blocks sample_receipts 3 (to_lower (trim_space ''0xA''))) [Suc 0..<Suc (min 3 (0 + 2 * 2))]),
           nat_to_string (min 3 (0 + 2 * 2))), n')"
proof (rule cursor_pages_cover_blocks [OF sample_serves])
  show "has_endpoint ''ethereum'' ''mainnet'' sample_node" by code_simp
qed simp_all


end
