(* ===== verification/Evm_Signing.thy ===== *)
theory Evm_Signing
  imports Evm_Theorems
begin

text \<open>
  What is signed on an EVM chain is what is sent: the payload of an unsigned transaction decodes to the transaction whose hash is signed.
\<close>


section \<open>Requests\<close>

lemma request_plain: "distinct (map fst (request_object req))" "fst ` set (request_object req) \<subseteq> set plain_keys"
  by (auto simp: request_object_def)

lemma decode_request_object:
  assumes "er_Nonce req < 2 ^ 64" "er_GasLimit req < 2 ^ 64"
  shows "decode_request (request_object req) = Some req"
proof -
  note f = node_field_plain [OF request_plain [of req]]
  have "node_string ''chainId'' (request_object req) = Some (er_ChainID req)" "node_string ''nonceMode'' (request_object req) = Some (er_NonceMode req)"
    "node_string ''fromAddress'' (request_object req) = Some (er_FromAddress req)"
    "node_string ''maxPriorityFeePerGas'' (request_object req) = Some (er_MaxPriorityFeePerGas req)"
    "node_string ''maxFeePerGas'' (request_object req) = Some (er_MaxFeePerGas req)" "node_string ''toAddress'' (request_object req) = Some (er_ToAddress req)"
    "node_string ''amount'' (request_object req) = Some (er_Amount req)"
    "node_string ''contractAddress'' (request_object req) = Some (er_ContractAddress req)"
    by (simp_all add: f) (simp_all add: request_object_def json_string_def)
  moreover have "node_field json_uint64 0 ''nonce'' (request_object req) = Some (er_Nonce req)"
    "node_field json_uint64 0 ''gasLimit'' (request_object req) = Some (er_GasLimit req)"
    using assms by (simp_all add: f) (simp_all add: request_object_def json_uint64_def)
  ultimately show ?thesis by (simp add: decode_request_def)
qed

lemma decode_last_range: "(\<And>v x. d v = Some x \<Longrightarrow> P x) \<Longrightarrow> P acc \<Longrightarrow> decode_last d acc vs = Some x \<Longrightarrow> P x"
  by (induction vs arbitrary: acc) (auto split: option.splits)

lemma node_uint64_bound: "node_field json_uint64 0 f m = Some v \<Longrightarrow> v < 2 ^ 64"
  unfolding node_field_def
  by (rule decode_last_range [where P = "\<lambda>v. v < 2 ^ 64" and d = json_uint64]) (auto simp: json_uint64_def split: json.splits if_splits)

lemma decode_request_bounds: "decode_request m = Some req \<Longrightarrow> er_Nonce req < 2 ^ 64 \<and> er_GasLimit req < 2 ^ 64"
  by (auto simp: decode_request_def dest: node_uint64_bound split: option.splits)

lemma decode_payload_request:
  assumes "decode_payload G J payload = Inr (tx, req)"
  shows "tx_of_request G req = Inr tx \<and> er_GasLimit req < 2 ^ 64"
  using assms
  by (auto simp: decode_payload_def decodeDynamicFeeTx_def Let_def json_fields_def bindE_eq_Inr dest: decode_request_bounds
      split: sum.splits option.splits json.splits)

lemma tx_of_request_nonce:
  "tx_of_request G req = Inr tx \<Longrightarrow> tx_of_request G (req\<lparr>er_Nonce := nonce, er_NonceMode := mode\<rparr>) = Inr (tx\<lparr>df_Nonce := nonce\<rparr>)"
  by (auto simp: tx_of_request_def Let_def bindE_eq_Inr)

lemma fetchPendingNonce_bound: "fetchPendingNonce N chain network a n = (Inr nonce, n') \<Longrightarrow> nonce < 2 ^ 64"
  using hexToUint64_bound
  by (auto simp: fetchPendingNonce_def bindN_def reported_def succeed_def uint64_result_def split: prod.splits sum.splits option.splits)
     (metis fst_conv)

text \<open>
  The documented laws of JSON and base64, where \<open>V\<close> says that a string is valid UTF-8: a request whose strings are valid is read back
  as it was written, what is read has valid strings, and base64 is read back and has no white space.
\<close>

definition request_strings :: "evm_request \<Rightarrow> string list" where
  "request_strings req = [er_ChainID req, er_NonceMode req, er_FromAddress req, er_MaxPriorityFeePerGas req, er_MaxFeePerGas req,
     er_ToAddress req, er_Amount req, er_ContractAddress req]"

definition codec_ok :: "(string \<Rightarrow> bool) \<Rightarrow> codec \<Rightarrow> bool" where
  "codec_ok V J \<longleftrightarrow> V [] \<and> V ''fixed'' \<and>
     (\<forall>req. list_all V (request_strings req) \<longrightarrow> cd_Parse J (cd_Print J (JObj (request_object req))) = Inr (JObj (request_object req))) \<and>
     (\<forall>raw m k s. cd_Parse J raw = Inr (JObj m) \<longrightarrow> (k, JStr s) \<in> set m \<longrightarrow> V s) \<and>
     (\<forall>b. cd_Base64Decode J (cd_Base64Encode J b) = Inr b) \<and> (\<forall>b. trim_space (cd_Base64Encode J b) = cd_Base64Encode J b)"

lemma decode_last_member:
  "decode_last d acc vs = Some x \<Longrightarrow> x = acc \<or> (\<exists>v\<in>set vs. d v = Some x)"
  by (induction vs arbitrary: acc) (auto split: option.splits)

lemma node_string_valid: "node_string f m = Some s \<Longrightarrow> s = [] \<or> (\<exists>k. (k, JStr s) \<in> set m)"
  unfolding node_field_def
  by (drule decode_last_member) (force simp: json_string_def split: json.splits)

lemma decode_request_strings:
  assumes "decode_request m = Some req" "s \<in> set (request_strings req)"
  shows "s = [] \<or> (\<exists>k. (k, JStr s) \<in> set m)"
proof -
  have "\<exists>f. node_string f m = Some s"
    using assms by (auto simp: decode_request_def request_strings_def split: option.splits)
  then show ?thesis using node_string_valid by blast
qed

lemma decode_payload_strings:
  assumes "codec_ok V J" "decode_payload G J payload = Inr (tx, req)"
  shows "list_all V (request_strings req)"
proof -
  obtain raw v where raw: "cd_Parse J raw = Inr v" "json_fields decode_request v = Some req"
    using assms(2) by (auto simp: decode_payload_def decodeDynamicFeeTx_def Let_def bindE_eq_Inr split: sum.splits option.splits)
  then obtain m where "decode_request m = Some req" "m = [] \<or> v = JObj m"
    by (auto simp: json_fields_def split: json.splits)
  then show ?thesis using assms(1) raw(1) by (fastforce simp: list_all_iff codec_ok_def dest: decode_request_strings)
qed

lemma decode_encoded:
  assumes J: "codec_ok V J" "list_all V (request_strings req)" and "er_Nonce req < 2 ^ 64" "er_GasLimit req < 2 ^ 64"
    and tx: "tx_of_request G req = Inr tx"
  shows "decode_payload G J (trim_space (encodeDynamicFeeTx J req)) = Inr (tx, req)"
  using J tx decode_request_object [OF assms(3,4)]
  by (simp add: codec_ok_def decode_payload_def encodeDynamicFeeTx_def decodeDynamicFeeTx_def Let_def json_fields_def)

lemma built_payload:
  assumes J: "codec_ok V J" and built: "evm_BuildUnsignedAccount N G J chain network base64Tx n = (Inr r, n')"
  obtains tx req where "decode_payload G J (trim_space (br_UnsignedTx r)) = Inr (tx, req)" "br_SignHashes r = [ge_SigHash G tx]"
    "trim_space (er_FromAddress req) = [] \<or> usesFixedNonce (er_NonceMode req)"
proof -
  obtain tx req where d: "decode_payload G J (trim_space base64Tx) = Inr (tx, req)"
    using built by (auto simp: evm_BuildUnsignedAccount_def Let_def unsupported_chain_def split: if_splits sum.splits)
  show ?thesis
  proof (cases "trim_space (er_FromAddress req) \<noteq> [] \<and> \<not> usesFixedNonce (er_NonceMode req)")
    case False
    then show ?thesis using built d that [of tx req] by (auto simp: evm_BuildUnsignedAccount_def Let_def unsupported_chain_def split: if_splits)
  next
    case True
    let ?req = "\<lambda>k. req\<lparr>er_Nonce := k, er_NonceMode := ''fixed''\<rparr>"
    obtain k n1 where k: "fetchPendingNonce N chain network (er_FromAddress req) n = (Inr k, n1)"
      "br_UnsignedTx r = encodeDynamicFeeTx J (?req k)" "br_SignHashes r = [ge_SigHash G (tx\<lparr>df_Nonce := k\<rparr>)]"
      using built d True by (auto simp: evm_BuildUnsignedAccount_def Let_def unsupported_chain_def split: if_splits sum.splits prod.splits)
    have "decode_payload G J (trim_space (encodeDynamicFeeTx J (?req k))) = Inr (tx\<lparr>df_Nonce := k\<rparr>, ?req k)"
    proof (rule decode_encoded [OF J])
      show "list_all V (request_strings (?req k))"
        using decode_payload_strings [OF J d] J by (simp add: request_strings_def codec_ok_def)
    qed (use decode_payload_request [OF d] fetchPendingNonce_bound [OF k(1)] in \<open>simp_all add: tx_of_request_nonce\<close>)
    moreover have "usesFixedNonce ''fixed''" by code_simp
    ultimately show ?thesis using that k(2,3) by auto
  qed
qed

lemma normalized_signature:
  assumes "normalizeEVMSignature G tx sig publicKey = Inr sig65" "trim_space publicKey \<noteq> []"
  shows "matchesSignerPublicKey G tx sig65 publicKey"
  using assms by (auto simp: normalizeEVMSignature_def Let_def split: if_splits)

text \<open>
  C26: What is signed is what is sent: the transaction that is built from an unsigned payload the plugin returned, and from a signature and a
  public key, is the transaction whose hash was given out for signing, with the nonce that was chosen then, and it is sent
  only if the address recovered from the signature is the address of the public key.
\<close>

theorem signed_tx_is_built_tx:
  assumes J: "codec_ok V J" and built: "evm_BuildUnsignedAccount N G J chain network base64Tx n = (Inr r, n')"
    and signed: "evm_BuildSignedAccount G J chain (br_UnsignedTx r) signature publicKey = Inr rawTx" and key: "trim_space publicKey \<noteq> []"
  shows "\<exists>tx sig65 stx encoded who pub. br_SignHashes r = [ge_SigHash G tx] \<and> ge_WithSignature G tx sig65 = Inr stx \<and>
     ge_MarshalBinary G stx = Inr encoded \<and> rawTx = ''0x'' @ hex_encode encoded \<and>
     ge_Sender G stx = Inr who \<and> parseECDSAPublicKey G publicKey = Inr pub \<and>
     equal_fold (ge_AddressHex G who) (ge_AddressHex G (ge_PubkeyToAddress G pub))"
proof -
  obtain tx req where tx: "decode_payload G J (trim_space (br_UnsignedTx r)) = Inr (tx, req)" "br_SignHashes r = [ge_SigHash G tx]"
    using built_payload [OF J built] .
  obtain sig sig65 where sg: "normalizeEVMSignature G tx sig publicKey = Inr sig65"
    and sent: "(case ge_WithSignature G tx sig65 of Inl e \<Rightarrow> Inl (Errorf (''attach signature failed: '' @ error_text e))
      | Inr signedTx \<Rightarrow>
          (case ge_MarshalBinary G signedTx of
             Inl e \<Rightarrow> Inl (Errorf (''marshal signed tx failed: '' @ error_text e))
           | Inr encoded \<Rightarrow> Inr (''0x'' @ hex_encode encoded))) = Inr rawTx"
    using signed tx(1) by (auto simp: evm_BuildSignedAccount_def Let_def unsupported_chain_def bindE_eq_Inr split: if_splits)
  obtain stx encoded where "ge_WithSignature G tx sig65 = Inr stx" "ge_MarshalBinary G stx = Inr encoded" "rawTx = ''0x'' @ hex_encode encoded"
    using sent by (auto split: sum.splits)
  then show ?thesis using normalized_signature [OF sg key] tx(2)
    by (auto simp: matchesSignerPublicKey_def split: sum.splits)
qed

text \<open>A text format with marked characters for flat objects, hexadecimal for base64, and a signature scheme where a key signs by its own bytes.\<close>

fun marked_words :: "string \<Rightarrow> string \<Rightarrow> string list" where
  "marked_words acc (m # c # r) = (if m = CHR ''x'' then marked_words (acc @ [c]) r else acc # marked_words [] (c # r))"
| "marked_words acc [m] = [acc]"
| "marked_words acc [] = []"

definition marked :: "string \<Rightarrow> string" where
  "marked s = concat (map (\<lambda>c. [CHR ''x'', c]) s) @ ''.''"

fun flat_entries :: "string list \<Rightarrow> json_object" where
  "flat_entries (k # t # v # r) = (k, if t = ''n'' then JNum (the (big_SetString v)) else JStr v) # flat_entries r"
| "flat_entries _ = []"

definition flat_entry :: "string \<times> json \<Rightarrow> string" where
  "flat_entry p = (case p of (k, v) \<Rightarrow>
     marked k @ (case v of JNum i \<Rightarrow> marked ''n'' @ marked (int_to_string i) | JStr s \<Rightarrow> marked ''s'' @ marked s | _ \<Rightarrow> []))"

lemma words_marked: "marked_words acc (marked s @ r) = (acc @ s) # marked_words [] r"
  by (induction s arbitrary: acc) (simp_all add: marked_def, cases r, simp_all)

definition sample_codec :: codec where
  "sample_codec = \<lparr>cd_Base64Decode = (\<lambda>s. case hex_decode s of None \<Rightarrow> Inl (Errorf ''illegal base64 data'') | Some b \<Rightarrow> Inr b),
     cd_Base64Encode = hex_encode, cd_Parse = (\<lambda>s. Inr (JObj (flat_entries (marked_words [] s)))),
     cd_Print = (\<lambda>v. case v of JObj m \<Rightarrow> concat (map flat_entry m) | _ \<Rightarrow> [])\<rparr>"

lemma flat_roundtrip:
  "\<forall>(k, v)\<in>set m. (\<exists>i. v = JNum i) \<or> (\<exists>s. v = JStr s) \<Longrightarrow> flat_entries (marked_words [] (concat (map flat_entry m))) = m"
  by (induction m) (auto simp: flat_entry_def words_marked)

lemma trim_space_hex: "trim_space (hex_encode b) = hex_encode b"
proof -
  have "\<not> is_space (hex_digit n)" if "n < 16" for n using of_char_hex_digit [OF that] by (auto simp: is_space_def)
  then have "\<forall>c\<in>set (hex_encode b). \<not> is_space c"
    using of_char_bound by (auto simp: hex_encode_def Let_def less_mult_imp_div_less)
  then show ?thesis by (simp add: trim_space_no_space)
qed

lemma sample_codec_ok: "codec_ok (\<lambda>_. True) sample_codec"
proof -
  have "flat_entries (marked_words [] (concat (map flat_entry (request_object req)))) = request_object req" for req
    by (rule flat_roundtrip) (auto simp: request_object_def)
  then show ?thesis by (simp add: codec_ok_def sample_codec_def trim_space_hex)
qed

definition sample_geth :: "(string, dynamic_fee_tx \<times> string) geth" where
  "sample_geth = \<lparr>ge_DecompressPubkey = Inr, ge_UnmarshalPubkey = Inr, ge_PubkeyToAddress = take 3, ge_AddressHex = hex_encode,
     ge_HexToAddress = id, ge_IsHexAddress = (\<lambda>_. True), ge_Keccak256 = id, ge_SigHash = (\<lambda>tx. ''hash'' @ nat_to_string (df_Nonce tx)),
     ge_WithSignature = (\<lambda>tx sig. Inr (tx, sig)), ge_Sender = (\<lambda>(tx, sig). Inr (take 3 sig)), ge_MarshalBinary = (\<lambda>(tx, sig). Inr (df_To tx @ sig))\<rparr>"

definition sample_request :: evm_request where
  "sample_request = \<lparr>er_ChainID = ''1'', er_NonceMode = [], er_FromAddress = ''0xC'', er_Nonce = 0, er_MaxPriorityFeePerGas = ''1'',
     er_MaxFeePerGas = ''2'', er_GasLimit = 21, er_ToAddress = ''0xA'', er_Amount = ''5'', er_ContractAddress = []\<rparr>"

definition sample_tx :: "nat \<Rightarrow> dynamic_fee_tx" where
  "sample_tx nonce = \<lparr>df_ChainID = 1, df_Nonce = nonce, df_GasTipCap = 1, df_GasFeeCap = 2, df_Gas = 21, df_To = ''0xA'', df_Value = 5, df_Data = []\<rparr>"

definition sample_key :: string where
  "sample_key = hex_encode (replicate 33 CHR ''k'')"

definition sample_sig :: string where
  "sample_sig = hex_encode (replicate 64 CHR ''k'')"

lemma sample_unsigned_built:
  "evm_BuildUnsignedAccount sample_node_env sample_geth sample_codec ''ethereum'' ''mainnet'' (encodeDynamicFeeTx sample_codec sample_request) sample_node =
     (Inr \<lparr>br_UnsignedTx = encodeDynamicFeeTx sample_codec (sample_request\<lparr>er_Nonce := 7, er_NonceMode := ''fixed''\<rparr>), br_SignHashes = [''hash7'']\<rparr>,
      snd (fetchPendingNonce sample_node_env ''ethereum'' ''mainnet'' ''0xC'' sample_node))"
proof -
  have e: "IsEVMChain ''ethereum''" by code_simp
  have "tx_of_request sample_geth sample_request = Inr (sample_tx 0)" by code_simp
  then have d: "decode_payload sample_geth sample_codec (trim_space (encodeDynamicFeeTx sample_codec sample_request)) = Inr (sample_tx 0, sample_request)"
    by (rule decode_encoded [OF sample_codec_ok, rotated -1]) (simp_all add: sample_request_def list_all_iff)
  have f: "trim_space (er_FromAddress sample_request) \<noteq> [] \<and> \<not> usesFixedNonce (er_NonceMode sample_request)" by code_simp
  have "er_FromAddress sample_request = ''0xC''" by code_simp
  moreover have "fst (fetchPendingNonce sample_node_env ''ethereum'' ''mainnet'' ''0xC'' sample_node) = Inr 7" by code_simp
  then obtain n' where "fetchPendingNonce sample_node_env ''ethereum'' ''mainnet'' ''0xC'' sample_node = (Inr 7, n')"
    by (metis prod.collapse)
  moreover have "ge_SigHash sample_geth (sample_tx 0\<lparr>df_Nonce := 7\<rparr>) = ''hash7''" by code_simp
  ultimately show ?thesis using e d f by (simp add: evm_BuildUnsignedAccount_def Let_def)
qed

lemma trim_prefix_hex: "trim_prefix (hex_encode b) ''0x'' = hex_encode b"
proof (cases b)
  case (Cons c r)
  have "of_char (hex_digit (of_char c mod 16)) \<noteq> (120 :: nat)" using of_char_hex_digit [of "of_char c mod 16"] by auto
  then have "hex_digit (of_char c mod 16) \<noteq> CHR ''x''" by fastforce
  then show ?thesis using Cons by (simp add: trim_prefix_def has_prefix_def hex_encode_def Let_def)
qed (simp add: trim_prefix_def has_prefix_def hex_encode_def)

lemma sample_key_nonempty: "hex_encode (replicate (Suc k) c) \<noteq> []"
  by (simp add: hex_encode_def Let_def)

lemma sample_key_parsed: "parseECDSAPublicKey sample_geth sample_key = Inr (replicate 33 CHR ''k'')"
proof -
  have "sample_key \<noteq> []" unfolding sample_key_def using sample_key_nonempty [of 32] by simp
  then show ?thesis
    by (simp add: parseECDSAPublicKey_def Let_def sample_key_def trim_space_hex trim_prefix_hex) (simp add: sample_geth_def)
qed

lemma sample_signed_built:
  "evm_BuildSignedAccount sample_geth sample_codec ''ethereum'' (encodeDynamicFeeTx sample_codec (sample_request\<lparr>er_Nonce := 7, er_NonceMode := ''fixed''\<rparr>))
     sample_sig sample_key = Inr (''0x'' @ hex_encode (''0xA'' @ recovery_byte 0 (replicate 64 CHR ''k'')))"
proof -
  have e: "IsEVMChain ''ethereum''" by code_simp
  have "tx_of_request sample_geth (sample_request\<lparr>er_Nonce := 7, er_NonceMode := ''fixed''\<rparr>) = Inr (sample_tx 7)" by code_simp
  then have d: "decode_payload sample_geth sample_codec (trim_space (encodeDynamicFeeTx sample_codec (sample_request\<lparr>er_Nonce := 7, er_NonceMode := ''fixed''\<rparr>))) =
     Inr (sample_tx 7, sample_request\<lparr>er_Nonce := 7, er_NonceMode := ''fixed''\<rparr>)"
    by (rule decode_encoded [OF sample_codec_ok, rotated -1]) (simp_all add: sample_request_def list_all_iff)
  have "hex_encode (replicate 64 CHR ''k'') \<noteq> []" using sample_key_nonempty [of 63] by simp
  then have s: "decodeHexOrBase64Sig sample_codec sample_sig = Inr (replicate 64 CHR ''k'')"
    by (simp add: decodeHexOrBase64Sig_def sample_sig_def trim_space_hex trim_prefix_hex Let_def)
  have "matchesSignerPublicKey sample_geth (sample_tx 7) (recovery_byte 0 (replicate 64 CHR ''k'')) sample_key"
    using sample_key_parsed by (simp add: matchesSignerPublicKey_def) (simp add: sample_geth_def recovery_byte_def equal_fold_def)
  then have "normalizeEVMSignature sample_geth (sample_tx 7) (replicate 64 CHR ''k'') sample_key = Inr (recovery_byte 0 (replicate 64 CHR ''k''))"
    by (simp add: normalizeEVMSignature_def)
  then show ?thesis using e d s
    by (simp add: evm_BuildSignedAccount_def Let_def) (simp add: sample_geth_def sample_tx_def)
qed

theorem signed_tx_is_built_tx_witness:
  "\<exists>tx sig65 stx encoded who pub. [''hash7''] = [ge_SigHash sample_geth tx] \<and> ge_WithSignature sample_geth tx sig65 = Inr stx \<and>
     ge_MarshalBinary sample_geth stx = Inr encoded \<and>
     ''0x'' @ hex_encode (''0xA'' @ recovery_byte 0 (replicate 64 CHR ''k'')) = ''0x'' @ hex_encode encoded \<and>
     ge_Sender sample_geth stx = Inr who \<and> parseECDSAPublicKey sample_geth sample_key = Inr pub \<and>
     equal_fold (ge_AddressHex sample_geth who) (ge_AddressHex sample_geth (ge_PubkeyToAddress sample_geth pub))"
proof -
  have "trim_space sample_key \<noteq> []" using sample_key_nonempty [of 32] by (simp add: sample_key_def trim_space_hex)
  then show ?thesis
    using signed_tx_is_built_tx [OF sample_codec_ok sample_unsigned_built, unfolded build_unsigned_result.simps, OF sample_signed_built] by blast
qed

end
