(* ===== verification/Utxo_Bridge.thy ===== *)
theory Utxo_Bridge
  imports Evm_Plugin
begin

text \<open>
  The adapter of the UTXO chains of the chain gateway, \<open>src/services/chain-gateway/internal/adapters/utxo/adapter.go\<close>, and the plugin that
  wraps the source adaptor of a chain, \<open>bridge_plugin.go\<close>.

  A source adaptor is a record of the operations the bridge calls, each with the arguments of its request and a response with a code, a
  message and a body. The JSON text of a protobuf message is the argument \<open>proto_json\<close>.
\<close>


section \<open>Source adaptors\<close>

record 'a response =
  rp_Code :: int
  rp_Msg :: string
  rp_Body :: 'a

abbreviation ReturnCode_SUCCESS :: int where
  "ReturnCode_SUCCESS \<equiv> 0"

abbreviation ReturnCode_ERROR :: int where
  "ReturnCode_ERROR \<equiv> 1"

record tx_message =
  tm_Hash :: string
  tm_Index :: nat
  tm_Froms :: "string list"
  tm_Tos :: "string list"
  tm_Values :: "string list"
  tm_Fee :: string
  tm_Status :: int
  tm_Type :: int
  tm_Height :: string
  tm_Brc20Address :: string
  tm_Datetime :: string

record unspent_output =
  uo_TxId :: string
  uo_TxHashBigEndian :: string
  uo_TxOutputN :: nat
  uo_Script :: string
  uo_Height :: string
  uo_BlockTime :: string
  uo_Address :: string
  uo_UnspentAmount :: string
  uo_ValueHex :: string
  uo_Confirmations :: nat
  uo_Index :: nat

record fee_result =
  fr_BestFee :: string
  fr_BestFeeSat :: string
  fr_SlowFee :: string
  fr_NormalFee :: string
  fr_FastFee :: string

type_synonym ('x, 'a) source_call = "'x \<Rightarrow> 'a response result \<times> 'x"

record 'x source_adaptor =
  sr_ConvertAddress :: "string \<Rightarrow> string \<Rightarrow> string \<Rightarrow> string \<Rightarrow> ('x, string) source_call"
  sr_ValidAddress :: "string \<Rightarrow> string \<Rightarrow> string \<Rightarrow> string \<Rightarrow> ('x, bool) source_call"
  sr_GetFee :: "string \<Rightarrow> string \<Rightarrow> string \<Rightarrow> string \<Rightarrow> ('x, fee_result) source_call"
  sr_GetAccount :: "string \<Rightarrow> string \<Rightarrow> string \<Rightarrow> string \<Rightarrow> ('x, string \<times> string) source_call"
  sr_GetUnspentOutputs :: "string \<Rightarrow> string \<Rightarrow> string \<Rightarrow> ('x, unspent_output list) source_call"
  sr_SendTx :: "string \<Rightarrow> string \<Rightarrow> string \<Rightarrow> string \<Rightarrow> ('x, string) source_call"
  sr_GetTxByAddress :: "string \<Rightarrow> string \<Rightarrow> string \<Rightarrow> string \<Rightarrow> int \<Rightarrow> int \<Rightarrow> ('x, tx_message list) source_call"
  sr_GetTxByHash :: "string \<Rightarrow> string \<Rightarrow> string \<Rightarrow> string \<Rightarrow> ('x, tx_message option) source_call"
  sr_CreateUnSignTransaction ::
    "string \<Rightarrow> string \<Rightarrow> string \<Rightarrow> tx_vin list \<Rightarrow> tx_vout list \<Rightarrow> ('x, string \<times> string list) source_call"
  sr_BuildSignedTransaction ::
    "string \<Rightarrow> string \<Rightarrow> string \<Rightarrow> string list \<Rightarrow> string list \<Rightarrow> ('x, string \<times> string) source_call"

record proto_json =
  pj_Tx :: "tx_message option response \<Rightarrow> raw_message"
  pj_TxList :: "tx_message list response \<Rightarrow> raw_message"
  pj_Unspent :: "unspent_output list response \<Rightarrow> raw_message"


section \<open>The bridge\<close>

record 'x bridge_plugin =
  bg_chain :: string
  bg_sourceChainName :: string
  bg_adapter :: "'x source_adaptor option"
  bg_initErr :: "go_error option"

definition NewBridgePlugin :: "string \<Rightarrow> string \<Rightarrow> 'x source_adaptor option \<Rightarrow> go_error option \<Rightarrow> 'x bridge_plugin" where
  "NewBridgePlugin chainName sourceChainName adapter initErr =
     \<lparr>bg_chain = to_lower (trim_space chainName), bg_sourceChainName = trim_space sourceChainName, bg_adapter = adapter, bg_initErr = initErr\<rparr>"

definition ensureReady :: "'x bridge_plugin \<Rightarrow> 'x source_adaptor result" where
  "ensureReady p =
     (case bg_initErr p of
        Some e \<Rightarrow> Inl (Errorf (''utxo chain plugin init failed chain='' @ bg_chain p @ '': '' @ error_text e))
      | None \<Rightarrow>
          (case bg_adapter p of
             None \<Rightarrow> Inl (Errorf (''utxo chain plugin not initialized chain='' @ bg_chain p))
           | Some a \<Rightarrow> Inr a))"

definition expectBridgeCodeOK :: "int \<Rightarrow> string \<Rightarrow> unit result" where
  "expectBridgeCodeOK code msg =
     (if code = ReturnCode_SUCCESS then Inr ()
      else Inl (Errorf (trim_space (if trim_space msg = [] then ''chain source adapter request failed'' else msg))))"

text \<open>One call of the source adaptor: it is ready, it returns no error, and its code is success.\<close>

definition bridge_call :: "'x bridge_plugin \<Rightarrow> ('x source_adaptor \<Rightarrow> ('x, 'a) source_call) \<Rightarrow> ('a response \<Rightarrow> 'b) \<Rightarrow> 'x \<Rightarrow> 'b result \<times> 'x" where
  "bridge_call p f k x =
     (case ensureReady p of
        Inl e \<Rightarrow> (Inl e, x)
      | Inr a \<Rightarrow>
          (case f a x of
             (Inl e, x') \<Rightarrow> (Inl e, x')
           | (Inr resp, x') \<Rightarrow> (bindE (expectBridgeCodeOK (rp_Code resp) (rp_Msg resp)) (\<lambda>_. Inr (k resp)), x')))"

definition bg_ConvertAddress :: "'x bridge_plugin \<Rightarrow> string \<Rightarrow> string \<Rightarrow> string \<Rightarrow> 'x \<Rightarrow> string result \<times> 'x" where
  "bg_ConvertAddress p network addrType publicKey =
     bridge_call p (\<lambda>a. sr_ConvertAddress a (bg_sourceChainName p) (trim_space network) (trim_space addrType) (trim_prefix (trim_space publicKey) ''0x''))
       (\<lambda>r. trim_space (rp_Body r))"

definition bg_SendTx :: "'x bridge_plugin \<Rightarrow> string \<Rightarrow> string \<Rightarrow> string \<Rightarrow> 'x \<Rightarrow> string result \<times> 'x" where
  "bg_SendTx p network coin rawTx =
     bridge_call p (\<lambda>a. sr_SendTx a (bg_sourceChainName p) (trim_space coin) (trim_space network) (trim_space rawTx)) (\<lambda>r. trim_space (rp_Body r))"

definition bg_vin :: "tx_vin \<Rightarrow> tx_vin" where
  "bg_vin v = v\<lparr>vin_Hash := trim_space (vin_Hash v), vin_Address := trim_space (vin_Address v)\<rparr>"

definition bg_vout :: "tx_vout \<Rightarrow> tx_vout" where
  "bg_vout v = v\<lparr>vout_Address := trim_space (vout_Address v)\<rparr>"

definition bg_BuildUnsignedUTXO ::
  "'x bridge_plugin \<Rightarrow> string \<Rightarrow> string \<Rightarrow> tx_vin list \<Rightarrow> tx_vout list \<Rightarrow> 'x \<Rightarrow> build_unsigned_result result \<times> 'x" where
  "bg_BuildUnsignedUTXO p network fee vin vout =
     bridge_call p
       (\<lambda>a. sr_CreateUnSignTransaction a (bg_sourceChainName p) (trim_space network) (trim_space fee) (map bg_vin vin) (map bg_vout vout))
       (\<lambda>r. \<lparr>br_UnsignedTx = fst (rp_Body r), br_SignHashes = map hex_encode (snd (rp_Body r))\<rparr>)"

text \<open>The signed transaction; the hash that is returned with it is not used by the service.\<close>

definition bg_BuildSignedUTXO ::
  "'x bridge_plugin \<Rightarrow> string \<Rightarrow> string \<Rightarrow> string list \<Rightarrow> string list \<Rightarrow> 'x \<Rightarrow> string result \<times> 'x" where
  "bg_BuildSignedUTXO p network txData signatures publicKeys =
     bridge_call p (\<lambda>a. sr_BuildSignedTransaction a (bg_sourceChainName p) (trim_space network) txData signatures publicKeys) (\<lambda>r. fst (rp_Body r))"

definition bg_ValidAddress :: "'x bridge_plugin \<Rightarrow> string \<Rightarrow> string \<Rightarrow> string \<Rightarrow> 'x \<Rightarrow> bool result \<times> 'x" where
  "bg_ValidAddress p network format address =
     bridge_call p (\<lambda>a. sr_ValidAddress a (bg_sourceChainName p) (trim_space network) (trim_space format) (trim_space address)) rp_Body"

definition bg_GetFee :: "'x bridge_plugin \<Rightarrow> string \<Rightarrow> string \<Rightarrow> string \<Rightarrow> 'x \<Rightarrow> fee_result result \<times> 'x" where
  "bg_GetFee p coin network rawTx =
     bridge_call p (\<lambda>a. sr_GetFee a (bg_sourceChainName p) (trim_space coin) (trim_space network) (trim_space rawTx))
       (\<lambda>r. let f = rp_Body r in
          \<lparr>fr_BestFee = trim_space (fr_BestFee f), fr_BestFeeSat = trim_space (fr_BestFeeSat f), fr_SlowFee = trim_space (fr_SlowFee f),
           fr_NormalFee = trim_space (fr_NormalFee f), fr_FastFee = trim_space (fr_FastFee f)\<rparr>)"

definition bg_GetAccount :: "'x bridge_plugin \<Rightarrow> string \<Rightarrow> string \<Rightarrow> string \<Rightarrow> 'x \<Rightarrow> account_result result \<times> 'x" where
  "bg_GetAccount p network address contractAddress =
     bridge_call p (\<lambda>a. sr_GetAccount a (bg_sourceChainName p) (trim_space network) (trim_space address) (trim_space contractAddress))
       (\<lambda>r. \<lparr>ar_Network = trim_space (fst (rp_Body r)), ar_AccountNumber = [], ar_Sequence = [], ar_Balance = trim_space (snd (rp_Body r))\<rparr>)"

definition bg_GetTxByHash :: "proto_json \<Rightarrow> 'x bridge_plugin \<Rightarrow> tx_query \<Rightarrow> 'x \<Rightarrow> raw_message result \<times> 'x" where
  "bg_GetTxByHash P p q =
     bridge_call p (\<lambda>a. sr_GetTxByHash a (bg_sourceChainName p) (trim_space (tq_in_Coin q)) (trim_space (tq_in_Network q)) (trim_space (tq_in_Hash q)))
       (pj_Tx P)"

definition bg_GetTxByAddress :: "proto_json \<Rightarrow> 'x bridge_plugin \<Rightarrow> tx_query \<Rightarrow> 'x \<Rightarrow> raw_message result \<times> 'x" where
  "bg_GetTxByAddress P p q =
     (let page = (if tq_in_Page q = 0 then 1 else tq_in_Page q); pageSize = (if tq_in_PageSize q = 0 then 50 else tq_in_PageSize q) in
      bridge_call p (\<lambda>a. sr_GetTxByAddress a (bg_sourceChainName p) (trim_space (tq_in_Coin q)) (trim_space (tq_in_Network q))
        (trim_space (tq_in_Address q)) page pageSize) (pj_TxList P))"

definition bg_GetUnspentOutputs :: "proto_json \<Rightarrow> 'x bridge_plugin \<Rightarrow> string \<Rightarrow> string \<Rightarrow> 'x \<Rightarrow> raw_message result \<times> 'x" where
  "bg_GetUnspentOutputs P p network address =
     bridge_call p (\<lambda>a. sr_GetUnspentOutputs a (bg_sourceChainName p) (trim_space network) (trim_space address)) (pj_Unspent P)"

definition bg_SupportChains :: "'x bridge_plugin \<Rightarrow> string \<Rightarrow> bool" where
  "bg_SupportChains p chain \<longleftrightarrow> equal_fold (trim_space chain) (bg_chain p)"

definition bridge_adapter :: "proto_json \<Rightarrow> 'x bridge_plugin \<Rightarrow> 'x chain_adapter" where
  "bridge_adapter P p =
     \<lparr>ca_ConvertAddress = (\<lambda>_. bg_ConvertAddress p), ca_SendTx = (\<lambda>_. bg_SendTx p),
      ca_BuildUnsignedAccount = (\<lambda>_ _ _ x. (Inl errUnsupported, x)), ca_BuildSignedAccount = (\<lambda>_ _ _ _ _ x. (Inl errUnsupported, x)),
      ca_BuildUnsignedUTXO = (\<lambda>_. bg_BuildUnsignedUTXO p), ca_BuildSignedUTXO = (\<lambda>_. bg_BuildSignedUTXO p),
      ca_GetAccount = (\<lambda>_ _ network address contractAddress. bg_GetAccount p network address contractAddress),
      ca_GetTxByHash = bg_GetTxByHash P p, ca_GetTxByAddress = bg_GetTxByAddress P p, ca_GetUnspentOutputs = (\<lambda>_. bg_GetUnspentOutputs P p)\<rparr>"


section \<open>The adapter\<close>

text \<open>Plugins are registered as in the adapter of the account chains.\<close>

definition utx_Register :: "string \<times> 'x chain_adapter \<Rightarrow> 'x plugins \<Rightarrow> 'x plugins result" where
  "utx_Register = acc_Register"

definition utx_NewAdapter :: "(string \<times> 'x chain_adapter) list \<Rightarrow> 'x plugins result" where
  "utx_NewAdapter ps = register_plugins ps []"

definition utx_SupportedChains :: "'x plugins \<Rightarrow> string list" where
  "utx_SupportedChains = acc_SupportedChains"

definition utx_resolve :: "'x plugins \<Rightarrow> string \<Rightarrow> 'x chain_adapter result" where
  "utx_resolve a chain =
     (let c = NormalizeChain chain in
      if c = [] then Inl (Errorf ''chain is required'')
      else case map_of a c of None \<Rightarrow> Inl (Errorf (''utxo plugin not configured chain='' @ c)) | Some p \<Rightarrow> Inr p)"

definition utx_plugin :: "'x plugins \<Rightarrow> string \<Rightarrow> ('x chain_adapter \<Rightarrow> 'x \<Rightarrow> 'a result \<times> 'x) \<Rightarrow> 'x \<Rightarrow> 'a result \<times> 'x" where
  "utx_plugin a chain f x = (case utx_resolve a chain of Inl e \<Rightarrow> (Inl e, x) | Inr p \<Rightarrow> f p x)"

definition utx_BuildUnsignedUTXO ::
  "'x plugins \<Rightarrow> string \<Rightarrow> string \<Rightarrow> string \<Rightarrow> tx_vin list \<Rightarrow> tx_vout list \<Rightarrow> 'x \<Rightarrow> build_unsigned_result result \<times> 'x" where
  "utx_BuildUnsignedUTXO a chain network fee vin vout =
     utx_plugin a chain (\<lambda>p. ca_BuildUnsignedUTXO p (NormalizeChain chain) (clean_network network) fee vin vout)"

definition utx_BuildSignedUTXO ::
  "'x plugins \<Rightarrow> string \<Rightarrow> string \<Rightarrow> string \<Rightarrow> string list \<Rightarrow> string list \<Rightarrow> 'x \<Rightarrow> string result \<times> 'x" where
  "utx_BuildSignedUTXO a chain network txData signatures publicKeys =
     utx_plugin a chain (\<lambda>p. ca_BuildSignedUTXO p (NormalizeChain chain) (clean_network network) txData signatures publicKeys)"

definition utx_GetAccount ::
  "'x plugins \<Rightarrow> string \<Rightarrow> string \<Rightarrow> string \<Rightarrow> string \<Rightarrow> string \<Rightarrow> 'x \<Rightarrow> account_result result \<times> 'x" where
  "utx_GetAccount a chain coin network address contractAddress =
     utx_plugin a chain (\<lambda>p. ca_GetAccount p (NormalizeChain chain) coin (clean_network network) address contractAddress)"

definition utx_GetTxByHash :: "'x plugins \<Rightarrow> tx_query \<Rightarrow> 'x \<Rightarrow> raw_message result \<times> 'x" where
  "utx_GetTxByHash a q = utx_plugin a (tq_in_Chain q) (\<lambda>p. ca_GetTxByHash p (clean_query q))"

definition utx_GetTxByAddress :: "'x plugins \<Rightarrow> tx_query \<Rightarrow> 'x \<Rightarrow> raw_message result \<times> 'x" where
  "utx_GetTxByAddress a q = utx_plugin a (tq_in_Chain q) (\<lambda>p. ca_GetTxByAddress p (clean_query q))"

definition utx_GetUnspentOutputs :: "'x plugins \<Rightarrow> string \<Rightarrow> string \<Rightarrow> string \<Rightarrow> 'x \<Rightarrow> raw_message result \<times> 'x" where
  "utx_GetUnspentOutputs a chain network address =
     utx_plugin a chain (\<lambda>p. ca_GetUnspentOutputs p (NormalizeChain chain) (clean_network network) address)"

definition utxo_adapter :: "'x plugins \<Rightarrow> 'x chain_adapter" where
  "utxo_adapter a =
     \<lparr>ca_ConvertAddress = (\<lambda>c nw ty pub. utx_plugin a c (\<lambda>p. ca_ConvertAddress p (NormalizeChain c) (clean_network nw) ty pub)),
      ca_SendTx = (\<lambda>c nw coin raw. utx_plugin a c (\<lambda>p. ca_SendTx p (NormalizeChain c) (clean_network nw) coin raw)),
      ca_BuildUnsignedAccount = (\<lambda>_ _ _ x. (Inl errUnsupported, x)), ca_BuildSignedAccount = (\<lambda>_ _ _ _ _ x. (Inl errUnsupported, x)),
      ca_BuildUnsignedUTXO = utx_BuildUnsignedUTXO a, ca_BuildSignedUTXO = utx_BuildSignedUTXO a, ca_GetAccount = utx_GetAccount a,
      ca_GetTxByHash = utx_GetTxByHash a, ca_GetTxByAddress = utx_GetTxByAddress a, ca_GetUnspentOutputs = utx_GetUnspentOutputs a\<rparr>"

end
