(* ===== verification/Btc_Adaptor.thy ===== *)
theory Btc_Adaptor
  imports Utxo_Bridge
begin

text \<open>
  The source adaptor of Bitcoin, \<open>src/services/chain-gateway/internal/adapters/utxo/chains/bitcoin/bitcoin.go\<close>, \<open>blockchain.go\<close> and \<open>utils.go\<close>.

  The library btcd is the argument \<open>btcd\<close>, the node and the explorer are the argument \<open>btc_nodes\<close>. A \<open>wire.MsgTx\<close> is the record \<open>msg_tx\<close>: its
  inputs with the output they spend and their script, its outputs with value and script. A \<open>[]byte\<close> is a string. An index out of range and a nil
  pointer panic; the error of such a call starts with \<open>panic\<close>. The value of an output, a \<open>float64\<close>, is the text \<open>strconv.FormatFloat\<close> gives for it.
\<close>


section \<open>Libraries, nodes and explorer\<close>

record msg_in =
  mi_Hash :: string
  mi_Index :: "32 word"
  mi_SignatureScript :: string

record msg_out =
  mo_Value :: "64 word"
  mo_PkScript :: string

record msg_tx =
  mt_TxIn :: "msg_in list"
  mt_TxOut :: "msg_out list"

record ('a, 'p) btcd =
  bt_Hash160 :: "string \<Rightarrow> string"
  bt_AddressPubKeyHash :: "string \<Rightarrow> 'a result"
  bt_AddressWitnessPubKeyHash :: "string \<Rightarrow> 'a result"
  bt_AddressScriptHash :: "string \<Rightarrow> 'a result"
  bt_AddressTaproot :: "string \<Rightarrow> 'a result"
  bt_EncodeAddress :: "'a \<Rightarrow> string"
  bt_DecodeAddress :: "string \<Rightarrow> 'a result"
  bt_IsForNet :: "'a \<Rightarrow> bool"
  bt_PayToAddrScript :: "'a \<Rightarrow> string result"
  bt_ExtractPkScriptAddrs :: "string \<Rightarrow> 'a list result"
  bt_ParsePubKey :: "string \<Rightarrow> 'p result"
  bt_IsCompressedPubKey :: "string \<Rightarrow> bool"
  bt_SerializeCompressed :: "'p \<Rightarrow> string"
  bt_SerializeUncompressed :: "'p \<Rightarrow> string"
  bt_SerializeSchnorr :: "'p \<Rightarrow> string"
  bt_SerializeSignature :: "string \<Rightarrow> string \<Rightarrow> string"
  bt_TwoPushes :: "string \<Rightarrow> string \<Rightarrow> string result"
  bt_NewHashFromStr :: "string \<Rightarrow> string result"
  bt_HashString :: "string \<Rightarrow> string"
  bt_CalcSignatureHash :: "string \<Rightarrow> msg_tx \<Rightarrow> nat \<Rightarrow> string result"
  bt_Execute :: "string \<Rightarrow> msg_tx \<Rightarrow> nat \<Rightarrow> int \<Rightarrow> unit result"
  bt_Deserialize :: "string \<Rightarrow> msg_tx result"
  bt_Serialize :: "msg_tx \<Rightarrow> string result"
  bt_TxHash :: "msg_tx \<Rightarrow> string"
  bt_TimesPow8 :: "string \<Rightarrow> string"

record verbose_out =
  vo_Value :: string
  vo_Address :: string

record explorer_tx =
  xt_Hash :: string
  xt_Fee :: int
  xt_Time :: int
  xt_BlockHeight :: int
  xt_Inputs :: "string list"
  xt_Out :: "(string \<times> int) list"

record explorer_unspent =
  xu_TxHashBigEndian :: string
  xu_TxHash :: string
  xu_TxOutputN :: nat
  xu_Script :: string
  xu_Value :: nat
  xu_Confirmations :: nat
  xu_TxIndex :: nat

text \<open>The answer of the explorer: none, or a status and the decoded body.\<close>

datatype 'b http_reply = HttpLost go_error | HttpReply int 'b

record 'x btc_nodes =
  bn_SendRawTransaction :: "msg_tx \<Rightarrow> 'x \<Rightarrow> string result \<times> 'x"
  bn_GetRawTransactionVerbose :: "string \<Rightarrow> 'x \<Rightarrow> verbose_out list result \<times> 'x"
  bn_GetFee :: "'x \<Rightarrow> fee_result result \<times> 'x"
  bn_Balance :: "string \<Rightarrow> 'x \<Rightarrow> (string \<times> int) list http_reply \<times> 'x"
  bn_Unspent :: "string \<Rightarrow> 'x \<Rightarrow> explorer_unspent list http_reply \<times> 'x"
  bn_RawAddr :: "string \<Rightarrow> 'x \<Rightarrow> explorer_tx list http_reply \<times> 'x"
  bn_RawTx :: "string \<Rightarrow> 'x \<Rightarrow> explorer_tx http_reply \<times> 'x"

definition go_panic :: "string \<Rightarrow> 'v result" where
  "go_panic what = Inl (Errorf (''panic: '' @ what))"


section \<open>The explorer\<close>

text \<open>A status of 400 or more is an error of the client, another one that is not 200 an error of the caller.\<close>

definition explorer_result :: "string \<Rightarrow> string \<Rightarrow> string \<Rightarrow> 'b http_reply \<Rightarrow> 'b result" where
  "explorer_result url lost refused reply =
     (case reply of
        HttpLost e \<Rightarrow> Inl (Errorf (lost @ '': '' @ error_text e))
      | HttpReply status body \<Rightarrow>
          if status \<ge> 400 then Inl (Errorf (lost @ '': '' @ int_to_string status @ '' cannot GET '' @ url @ '': blockchain http error''))
          else if status \<noteq> 200 then Inl (Errorf refused)
          else Inr body)"

definition GetAccountBalance :: "'x btc_nodes \<Rightarrow> string \<Rightarrow> 'x \<Rightarrow> string result \<times> 'x" where
  "GetAccountBalance B address x =
     (let url = ''/balance?active='' @ address in
      case bn_Balance B url x of
        (reply, x') \<Rightarrow>
          (bindE (explorer_result url ''cannot get account balance'' ''get account balance fail'' reply) (\<lambda>balances.
             case map_of balances address of None \<Rightarrow> go_panic ''nil pointer'' | Some v \<Rightarrow> Inr (int_to_string v)), x'))"

definition GetAccountUtxo :: "'x btc_nodes \<Rightarrow> string \<Rightarrow> 'x \<Rightarrow> explorer_unspent list result \<times> 'x" where
  "GetAccountUtxo B address x =
     (let url = ''/unspent?active='' @ address in
      case bn_Unspent B url x of (reply, x') \<Rightarrow> (explorer_result url ''cannot utxo fail'' ''get account counter fail'' reply, x'))"

definition GetTransactionsByAddress :: "'x btc_nodes \<Rightarrow> string \<Rightarrow> string \<Rightarrow> string \<Rightarrow> 'x \<Rightarrow> explorer_tx list result \<times> 'x" where
  "GetTransactionsByAddress B address pageSize page x =
     (let url = ''/rawaddr/'' @ address @ ''?limit='' @ pageSize @ ''&offset='' @ page in
      case bn_RawAddr B url x of (reply, x') \<Rightarrow> (explorer_result url ''cannot utxo fail'' ''get account counter fail'' reply, x'))"

definition GetTransactionsByHash :: "'x btc_nodes \<Rightarrow> string \<Rightarrow> 'x \<Rightarrow> explorer_tx result \<times> 'x" where
  "GetTransactionsByHash B txHash x =
     (let url = ''/rawtx/'' @ txHash in
      case bn_RawTx B url x of (reply, x') \<Rightarrow> (explorer_result url ''cannot utxo fail'' ''get account counter fail'' reply, x'))"


section \<open>Addresses, fees and reading\<close>

definition btc_ok :: "string \<Rightarrow> 'b \<Rightarrow> 'b response" where
  "btc_ok msg body = \<lparr>rp_Code = ReturnCode_SUCCESS, rp_Msg = msg, rp_Body = body\<rparr>"

text \<open>What \<open>hex.DecodeString\<close> returns beside its error: the bytes before the first mistake.\<close>

fun hex_prefix :: "string \<Rightarrow> string" where
  "hex_prefix (a # b # s) = (case (hex_val a, hex_val b) of (Some x, Some y) \<Rightarrow> char_of (16 * x + y) # hex_prefix s | _ \<Rightarrow> [])"
| "hex_prefix _ = []"

definition btc_ConvertAddress :: "('a, 'p) btcd \<Rightarrow> string \<Rightarrow> string \<Rightarrow> string response result" where
  "btc_ConvertAddress T format publicKey =
     (let key = hex_prefix publicKey; keyHash = bt_Hash160 T key;
          made = (\<lambda>a. Inr (btc_ok ''create address success'' (bt_EncodeAddress T a)))
      in
      if format = ''p2pkh'' then bindE (bt_AddressPubKeyHash T keyHash) made
      else if format = ''p2wpkh'' then
        (case bt_AddressWitnessPubKeyHash T keyHash of Inl _ \<Rightarrow> go_panic ''nil pointer'' | Inr a \<Rightarrow> made a)
      else if format = ''p2sh'' then
        (case bt_AddressWitnessPubKeyHash T keyHash of
           Inl _ \<Rightarrow> Inl (Errorf ''unable to generate payment script for nil address'')
         | Inr w \<Rightarrow> bindE (bt_PayToAddrScript T w) (\<lambda>script. bindE (bt_AddressScriptHash T script) made))
      else if format = ''p2tr'' then
        bindE (bt_ParsePubKey T key) (\<lambda>pub. bindE (bt_AddressTaproot T (bt_SerializeSchnorr T pub)) made)
      else Inl (Errorf ''Do not support address type''))"

definition btc_ValidAddress :: "('a, 'p) btcd \<Rightarrow> string \<Rightarrow> bool response" where
  "btc_ValidAddress T address =
     (case bt_DecodeAddress T address of
        Inl e \<Rightarrow> \<lparr>rp_Code = ReturnCode_ERROR, rp_Msg = error_text e, rp_Body = False\<rparr>
      | Inr a \<Rightarrow>
          if \<not> bt_IsForNet T a then \<lparr>rp_Code = ReturnCode_ERROR, rp_Msg = ''address is not valid for this network'', rp_Body = False\<rparr>
          else btc_ok ''verify address success'' True)"

text \<open>A step that can fail, and one without an effect.\<close>

definition bindX :: "('x \<Rightarrow> 'u result \<times> 'x) \<Rightarrow> ('u \<Rightarrow> 'x \<Rightarrow> 'w result \<times> 'x) \<Rightarrow> 'x \<Rightarrow> 'w result \<times> 'x" where
  "bindX m f x = (case m x of (Inl e, x') \<Rightarrow> (Inl e, x') | (Inr a, x') \<Rightarrow> f a x')"

definition liftX :: "'u result \<Rightarrow> 'x \<Rightarrow> 'u result \<times> 'x" where
  "liftX r x = (r, x)"

definition btc_GetFee :: "'x btc_nodes \<Rightarrow> ('x, fee_result) source_call" where
  "btc_GetFee B = bindX (bn_GetFee B) (\<lambda>f. liftX (Inr (btc_ok ''get fee success'' f)))"

definition btc_GetAccount :: "'x btc_nodes \<Rightarrow> string \<Rightarrow> ('x, string \<times> string) source_call" where
  "btc_GetAccount B address = bindX (GetAccountBalance B address) (\<lambda>balance. liftX (Inr (btc_ok ''get btc balance success'' ([], balance))))"

definition btc_unspent :: "explorer_unspent \<Rightarrow> unspent_output" where
  "btc_unspent v =
     \<lparr>uo_TxId = xu_TxHash v, uo_TxHashBigEndian = xu_TxHashBigEndian v, uo_TxOutputN = xu_TxOutputN v, uo_Script = xu_Script v, uo_Height = [],
      uo_BlockTime = [], uo_Address = [], uo_UnspentAmount = nat_to_string (xu_Value v), uo_ValueHex = [], uo_Confirmations = 0, uo_Index = xu_TxIndex v\<rparr>"

definition btc_GetUnspentOutputs :: "'x btc_nodes \<Rightarrow> string \<Rightarrow> ('x, unspent_output list) source_call" where
  "btc_GetUnspentOutputs B address =
     bindX (GetAccountUtxo B address) (\<lambda>utxoList. liftX (Inr (btc_ok ''get unspent outputs success'' (map btc_unspent utxoList))))"

abbreviation TxStatus_Success :: int where
  "TxStatus_Success \<equiv> 3"

definition btc_message :: "int \<Rightarrow> explorer_tx \<Rightarrow> tx_message" where
  "btc_message direction t =
     \<lparr>tm_Hash = xt_Hash t, tm_Index = 0, tm_Froms = xt_Inputs t, tm_Tos = map fst (xt_Out t), tm_Values = map (int_to_string \<circ> snd) (xt_Out t),
      tm_Fee = int_to_string (xt_Fee t), tm_Status = TxStatus_Success, tm_Type = direction, tm_Height = int_to_string (xt_BlockHeight t),
      tm_Brc20Address = [], tm_Datetime = int_to_string (xt_Time t)\<rparr>"

definition btc_listed :: "string \<Rightarrow> explorer_tx \<Rightarrow> tx_message result" where
  "btc_listed address t =
     (case xt_Inputs t of
        [] \<Rightarrow> go_panic ''index out of range''
      | first # _ \<Rightarrow> Inr (btc_message (if equal_fold address first then 0 else 1) t))"

definition btc_GetTxByAddress :: "'x btc_nodes \<Rightarrow> string \<Rightarrow> int \<Rightarrow> int \<Rightarrow> ('x, tx_message list) source_call" where
  "btc_GetTxByAddress B address page pagesize =
     bindX (GetTransactionsByAddress B address (int_to_string page) (int_to_string pagesize)) (\<lambda>txs.
     bindX (liftX (mapE (btc_listed address) txs)) (\<lambda>tx_list. liftX (Inr (btc_ok ''get transaction list success'' tx_list))))"

definition btc_GetTxByHash :: "'x btc_nodes \<Rightarrow> string \<Rightarrow> ('x, tx_message option) source_call" where
  "btc_GetTxByHash B txHash =
     bindX (GetTransactionsByHash B txHash) (\<lambda>t. liftX (Inr (btc_ok ''get transaction success'' (Some (btc_message 0 t)))))"


section \<open>Building and sending\<close>

definition btc_SendTx :: "('a, 'p) btcd \<Rightarrow> 'x btc_nodes \<Rightarrow> string \<Rightarrow> ('x, string) source_call" where
  "btc_SendTx T B rawTx =
     bindX (liftX (bt_Deserialize T rawTx)) (\<lambda>msgTx.
     bindX (bn_SendRawTransaction B msgTx) (\<lambda>txHash. liftX (Inr (btc_ok ''send tx success'' (bt_HashString T txHash)))))"

definition address_script :: "('a, 'p) btcd \<Rightarrow> string \<Rightarrow> string result" where
  "address_script T address = bindE (bt_DecodeAddress T address) (bt_PayToAddrScript T)"

definition btc_input :: "('a, 'p) btcd \<Rightarrow> tx_vin \<Rightarrow> msg_in result" where
  "btc_input T v = bindE (bt_NewHashFromStr T (vin_Hash v)) (\<lambda>h. Inr \<lparr>mi_Hash = h, mi_Index = vin_Index v, mi_SignatureScript = []\<rparr>)"

definition btc_output :: "('a, 'p) btcd \<Rightarrow> tx_vout \<Rightarrow> msg_out result" where
  "btc_output T v = bindE (address_script T (vout_Address v)) (\<lambda>script. Inr \<lparr>mo_Value = vout_Amount v, mo_PkScript = script\<rparr>)"

text \<open>The transaction is not written to the buffer that is returned, which stays empty.\<close>

definition CalcSignHashes :: "('a, 'p) btcd \<Rightarrow> tx_vin list \<Rightarrow> tx_vout list \<Rightarrow> (string list \<times> string) result" where
  "CalcSignHashes T Vins Vouts =
     (if Vins = [] \<or> Vouts = [] then Inl (Errorf ''invalid len in or out'')
      else
        bindE (mapE (btc_input T) Vins) (\<lambda>ins.
        bindE (mapE (btc_output T) Vouts) (\<lambda>outs.
        bindE (mapE (\<lambda>(i, v). bindE (address_script T (vin_Address v)) (\<lambda>fromPkScript.
                 bt_CalcSignatureHash T fromPkScript \<lparr>mt_TxIn = ins, mt_TxOut = outs\<rparr> i)) (enumerate 0 Vins)) (\<lambda>signHashes.
        let buf = [] in Inr (signHashes, buf)))))"

definition btc_CreateUnSignTransaction :: "('a, 'p) btcd \<Rightarrow> tx_vin list \<Rightarrow> tx_vout list \<Rightarrow> (string \<times> string list) response result" where
  "btc_CreateUnSignTransaction T Vin Vout =
     bindE (CalcSignHashes T Vin Vout) (\<lambda>(txHash, buf). Inr (btc_ok ''create un sign transaction success'' (buf, txHash)))"

text \<open>\<open>big.Int.Int64\<close> keeps the low 64 bits.\<close>

definition btcToSatoshi :: "('a, 'p) btcd \<Rightarrow> string \<Rightarrow> int result" where
  "btcToSatoshi T btcCount =
     (case big_SetString (bt_TimesPow8 T btcCount) of None \<Rightarrow> go_panic ''nil pointer'' | Some v \<Rightarrow> Inr (sint (word_of_int v :: 64 word)))"

definition spent_output :: "'x btc_nodes \<Rightarrow> msg_in \<Rightarrow> 'x \<Rightarrow> verbose_out result \<times> 'x" where
  "spent_output B inp =
     bindX (bn_GetRawTransactionVerbose B (mi_Hash inp)) (\<lambda>outs.
       liftX (if unat (mi_Index inp) < length outs then Inr (outs ! unat (mi_Index inp)) else go_panic ''index out of range''))"

definition input_script :: "('a, 'p) btcd \<Rightarrow> 'p \<Rightarrow> string \<Rightarrow> string \<Rightarrow> string result" where
  "input_script T pub publicKey signature =
     (let pkData = (if bt_IsCompressedPubKey T publicKey then bt_SerializeCompressed T pub else bt_SerializeUncompressed T pub);
          sig = bt_SerializeSignature T (take 32 signature) (take 32 (drop 32 signature)) @ [char_of (1 :: nat)]
      in bt_TwoPushes T sig pkData)"

definition set_script :: "nat \<Rightarrow> string \<Rightarrow> msg_tx \<Rightarrow> msg_tx" where
  "set_script i script tx = tx\<lparr>mt_TxIn := (mt_TxIn tx)[i := (mt_TxIn tx ! i)\<lparr>mi_SignatureScript := script\<rparr>]\<rparr>"

definition sign_input ::
  "('a, 'p) btcd \<Rightarrow> 'x btc_nodes \<Rightarrow> string list \<Rightarrow> string list \<Rightarrow> nat \<Rightarrow> msg_tx \<Rightarrow> 'x \<Rightarrow> msg_tx result \<times> 'x" where
  "sign_input T B signatures publicKeys i tx =
     bindX (liftX (bt_ParsePubKey T (publicKeys ! i))) (\<lambda>pub.
     bindX (spent_output B (mt_TxIn tx ! i)) (\<lambda>spent.
     bindX (liftX (address_script T (vo_Address spent))) (\<lambda>fromPkScript.
     if length (signatures ! i) < 64 then liftX (Inl (Errorf ''Invalid signature length''))
     else
       bindX (liftX (input_script T pub (publicKeys ! i) (signatures ! i))) (\<lambda>sigScript.
       bindX (liftX (btcToSatoshi T (vo_Value spent))) (\<lambda>amount.
       bindX (liftX (bt_Execute T fromPkScript (set_script i sigScript tx) i amount)) (\<lambda>_.
       liftX (Inr (set_script i sigScript tx))))))))"

fun sign_inputs ::
  "('a, 'p) btcd \<Rightarrow> 'x btc_nodes \<Rightarrow> string list \<Rightarrow> string list \<Rightarrow> nat list \<Rightarrow> msg_tx \<Rightarrow> 'x \<Rightarrow> msg_tx result \<times> 'x" where
  "sign_inputs T B signatures publicKeys [] tx = liftX (Inr tx)"
| "sign_inputs T B signatures publicKeys (i # is) tx = bindX (sign_input T B signatures publicKeys i tx) (sign_inputs T B signatures publicKeys is)"

definition btc_BuildSignedTransaction ::
  "('a, 'p) btcd \<Rightarrow> 'x btc_nodes \<Rightarrow> string \<Rightarrow> string list \<Rightarrow> string list \<Rightarrow> ('x, string \<times> string) source_call" where
  "btc_BuildSignedTransaction T B txData signatures publicKeys =
     bindX (liftX (bt_Deserialize T txData)) (\<lambda>msgTx.
     if length signatures \<noteq> length (mt_TxIn msgTx) then liftX (Inl (Errorf ''Signature number != Txin number''))
     else if length publicKeys \<noteq> length (mt_TxIn msgTx) then liftX (Inl (Errorf ''Pubkey number != Txin number''))
     else
       bindX (sign_inputs T B signatures publicKeys [0..<length (mt_TxIn msgTx)] msgTx) (\<lambda>tx.
       bindX (liftX (bt_Serialize T tx)) (\<lambda>buf. liftX (Inr (btc_ok [] (buf, bt_TxHash T tx))))))"


section \<open>Decoding\<close>

record decode_tx_res =
  dt_Hash :: string
  dt_SignHashes :: "string list"
  dt_Vins :: "tx_vin list"
  dt_Vouts :: "tx_vout list"
  dt_CostFee :: int

definition GetVin :: "('a, 'p) btcd \<Rightarrow> 'x btc_nodes \<Rightarrow> bool \<Rightarrow> tx_vin list \<Rightarrow> nat \<Rightarrow> msg_in \<Rightarrow> 'x \<Rightarrow> tx_vin result \<times> 'x" where
  "GetVin T B offline vins index inp =
     bindX
       (if offline then liftX (Inr (vins ! index))
        else
          bindX (spent_output B inp) (\<lambda>out.
          bindX (liftX (btcToSatoshi T (vo_Value out))) (\<lambda>amount.
          liftX (Inr \<lparr>vin_Hash = [], vin_Index = 0, vin_Amount = word_of_int amount, vin_Address = vo_Address out\<rparr>))))
       (\<lambda>vin. liftX (Inr (vin\<lparr>vin_Hash := bt_HashString T (mi_Hash inp), vin_Index := mi_Index inp\<rparr>)))"

definition VerifySign :: "('a, 'p) btcd \<Rightarrow> tx_vin \<Rightarrow> msg_tx \<Rightarrow> nat \<Rightarrow> unit result" where
  "VerifySign T vin msgTx index =
     bindE (address_script T (vin_Address vin)) (\<lambda>fromPkScript. bt_Execute T fromPkScript msgTx index (sint (vin_Amount vin)))"

fun DecodeVins ::
  "('a, 'p) btcd \<Rightarrow> 'x btc_nodes \<Rightarrow> msg_tx \<Rightarrow> bool \<Rightarrow> tx_vin list \<Rightarrow> bool \<Rightarrow> (nat \<times> msg_in) list \<Rightarrow> 'x \<Rightarrow> (tx_vin list \<times> int) result \<times> 'x" where
  "DecodeVins T B msgTx offline vins sign [] = liftX (Inr ([], 0))"
| "DecodeVins T B msgTx offline vins sign ((index, inp) # rest) =
     bindX (GetVin T B offline vins index inp) (\<lambda>vin.
     bindX (liftX (if sign then VerifySign T vin msgTx index else Inr ())) (\<lambda>_.
     bindX (DecodeVins T B msgTx offline vins sign rest) (\<lambda>(ins, total). liftX (Inr (vin # ins, sint (vin_Amount vin) + total)))))"

definition decode_vout :: "('a, 'p) btcd \<Rightarrow> msg_out \<Rightarrow> tx_vout result" where
  "decode_vout T out =
     bindE (bt_ExtractPkScriptAddrs T (mo_PkScript out)) (\<lambda>addrs.
       case addrs of
         [] \<Rightarrow> go_panic ''index out of range''
       | a # _ \<Rightarrow> Inr \<lparr>vout_Address = bt_EncodeAddress T a, vout_Amount = mo_Value out, vout_Index = 0\<rparr>)"

definition DecodeVouts :: "('a, 'p) btcd \<Rightarrow> msg_tx \<Rightarrow> (tx_vout list \<times> int) result" where
  "DecodeVouts T msgTx =
     bindE (mapE (decode_vout T) (mt_TxOut msgTx)) (\<lambda>outs. Inr (outs, sum_list (map (\<lambda>v. sint (vout_Amount v)) outs)))"

definition DecodeTx ::
  "('a, 'p) btcd \<Rightarrow> 'x btc_nodes \<Rightarrow> string \<Rightarrow> tx_vin list \<Rightarrow> bool \<Rightarrow> 'x \<Rightarrow> decode_tx_res result \<times> 'x" where
  "DecodeTx T B txData vins sign =
     bindX (liftX (bt_Deserialize T txData)) (\<lambda>msgTx.
     let offline = (vins \<noteq> []) in
     if offline \<and> length vins \<noteq> length (mt_TxIn msgTx) then
       liftX (Inl (Errorf ''the length of deserialized tx's in differs from vin''))
     else
       bindX (DecodeVins T B msgTx offline vins sign (enumerate 0 (mt_TxIn msgTx))) (\<lambda>(ins, totalIn).
       bindX (liftX (DecodeVouts T msgTx)) (\<lambda>(outs, totalOut).
       bindX (liftX (CalcSignHashes T ins outs)) (\<lambda>(signHashes, _).
       liftX (Inr \<lparr>dt_Hash = (if sign then bt_HashString T (bt_TxHash T msgTx) else []), dt_SignHashes = signHashes, dt_Vins = ins,
         dt_Vouts = outs, dt_CostFee = totalIn - totalOut\<rparr>)))))"

definition btc_DecodeTransaction ::
  "('a, 'p) btcd \<Rightarrow> 'x btc_nodes \<Rightarrow> string \<Rightarrow> tx_vin list \<Rightarrow> ('x, decode_tx_res) source_call" where
  "btc_DecodeTransaction T B rawData vins =
     bindX (DecodeTx T B rawData vins False) (\<lambda>res. liftX (Inr (btc_ok ''decode transaction response'' res)))"

text \<open>The request is not looked at.\<close>

definition btc_VerifySignedTransaction :: "('a, 'p) btcd \<Rightarrow> 'x btc_nodes \<Rightarrow> ('x, bool) source_call" where
  "btc_VerifySignedTransaction T B =
     bindX (DecodeTx T B [] [] True) (\<lambda>_. liftX (Inr (btc_ok ''verify transaction success'' True)))"


section \<open>The plugin\<close>

definition btc_adaptor :: "('a, 'p) btcd \<Rightarrow> 'x btc_nodes \<Rightarrow> 'x source_adaptor" where
  "btc_adaptor T B =
     \<lparr>sr_ConvertAddress = (\<lambda>_ _ format publicKey. liftX (btc_ConvertAddress T format publicKey)),
      sr_ValidAddress = (\<lambda>_ _ _ address. liftX (Inr (btc_ValidAddress T address))),
      sr_GetFee = (\<lambda>_ _ _ _. btc_GetFee B), sr_GetAccount = (\<lambda>_ _ address _. btc_GetAccount B address),
      sr_GetUnspentOutputs = (\<lambda>_ _ address. btc_GetUnspentOutputs B address), sr_SendTx = (\<lambda>_ _ _ rawTx. btc_SendTx T B rawTx),
      sr_GetTxByAddress = (\<lambda>_ _ _ address page size. btc_GetTxByAddress B address page size),
      sr_GetTxByHash = (\<lambda>_ _ _ hash. btc_GetTxByHash B hash),
      sr_CreateUnSignTransaction = (\<lambda>_ _ _ vin vout. liftX (btc_CreateUnSignTransaction T vin vout)),
      sr_BuildSignedTransaction = (\<lambda>_ _ txData sigs pubs. btc_BuildSignedTransaction T B txData sigs pubs)\<rparr>"

definition btc_plugin :: "('a, 'p) btcd \<Rightarrow> 'x btc_nodes \<Rightarrow> 'x bridge_plugin" where
  "btc_plugin T B = NewBridgePlugin ''bitcoin'' ''Bitcoin'' (Some (btc_adaptor T B)) None"

end
