(* ===== verification/Btc_Theorems.thy ===== *)
theory Btc_Theorems
  imports Btc_Adaptor Utxo_Scan
begin

text \<open>
  Properties of Bitcoin behind the chain gateway: no withdrawal can be sent, what a signed transaction has passed, and the confirmations
  that are lost between the explorer and the scanner.
\<close>


section \<open>Bitcoin behind the gateway\<close>

text \<open>A gateway with its default bindings whose UTXO adapter has the plugin of Bitcoin.\<close>

definition bitcoin_gateway :: "proto_json \<Rightarrow> ('a, 'p) btcd \<Rightarrow> 'x btc_nodes \<Rightarrow> 'x router \<Rightarrow> bool" where
  "bitcoin_gateway P T B R \<longleftrightarrow>
     (\<exists>A ps. registerDefaultBindings A (utxo_adapter ps) [] = Inr R \<and> map_of ps ''bitcoin'' = Some (bridge_adapter P (btc_plugin T B)))"

definition default_keys :: "string list \<Rightarrow> string list" where
  "default_keys cs = map (\<lambda>c. bindingKey (NormalizeChain (NormalizeChain c)) ''*'') cs"

lemma star_network: "gw_normalizeNetwork ''*'' = ''*''" by code_simp

lemma register_all_other:
  "register_all model U cs r = Inr R \<Longrightarrow> k \<notin> set (default_keys cs) \<Longrightarrow> map_of R k = map_of r k"
proof (induction cs arbitrary: r)
  case (Cons c cs)
  then obtain r' where r': "Register \<lparr>pb_Chain = NormalizeChain c, pb_Network = ''*'', pb_Model = model, pb_Adapter = Some U\<rparr> r = Inr r'"
    "register_all model U cs r' = Inr R" by (auto simp: bindE_eq_Inr)
  have "map_of r' k = map_of r k" using r'(1) Cons.prems(2)
    by (auto simp: Register_def Let_def map_of_put_key default_keys_def star_network split: if_splits)
  then show ?case using Cons.IH [OF r'(2)] Cons.prems(2) by (auto simp: default_keys_def)
qed simp

lemma default_chains_normal:
  "map NormalizeChain default_account_chains = default_account_chains"
  "map NormalizeChain (tl default_utxo_chains) = tl default_utxo_chains"
  by code_simp+

lemma default_keys_normal:
  assumes "map NormalizeChain cs = cs"
  shows "default_keys cs = map (\<lambda>c. c @ ''|*'') cs"
proof -
  have "map NormalizeChain cs = map (\<lambda>c. c) cs" using assms by simp
  then have "\<forall>c\<in>set cs. NormalizeChain c = c" by (simp only: map_eq_conv)
  then show ?thesis by (auto simp: default_keys_def bindingKey_def)
qed

lemma default_key_values:
  "default_keys default_account_chains = map (\<lambda>c. c @ ''|*'') [''ethereum'', ''binance'', ''polygon'', ''arbitrum'', ''optimism'', ''linea'', ''scroll'',
     ''mantle'', ''zksync'', ''solana'', ''cosmos'', ''tron'', ''aptos'', ''sui'', ''ton'', ''xlm'', ''btt'']"
  "default_keys (tl default_utxo_chains) = map (\<lambda>c. c @ ''|*'') [''bitcoincash'', ''dash'', ''litecoin'', ''zen'']"
  unfolding default_keys_normal [OF default_chains_normal(1)] default_keys_normal [OF default_chains_normal(2)]
  by (simp_all add: default_account_chains_def default_utxo_chains_def)

lemma bitcoin_binding:
  assumes "registerDefaultBindings A U [] = Inr R" "NormalizeChain chain = ''bitcoin''" "trim_space network \<noteq> []"
  shows "Resolve chain network R = Inr \<lparr>pb_Chain = ''bitcoin'', pb_Network = ''*'', pb_Model = ''utxo'', pb_Adapter = Some U\<rparr>"
proof -
  have n: "NormalizeChain ''bitcoin'' = ''bitcoin''" by code_simp
  define b where "b = \<lparr>pb_Chain = ''bitcoin'', pb_Network = ''*'', pb_Model = ''utxo'', pb_Adapter = Some U\<rparr>"
  obtain R1 where 1: "register_all ''account'' A default_account_chains [] = Inr R1"
    "register_all ''utxo'' U default_utxo_chains R1 = Inr R"
    using assms(1) by (auto simp: registerDefaultBindings_def bindE_eq_Inr)
  have u: "default_utxo_chains = ''bitcoin'' # tl default_utxo_chains" by (simp add: default_utxo_chains_def)
  have 2: "register_all ''utxo'' U (tl default_utxo_chains) (put_key ''bitcoin|*'' b R1) = Inr R"
    using 1(2) by (subst (asm) u) (auto simp: Register_def Let_def n star_network bindingKey_def b_def)
  have hit: "map_of R ''bitcoin|*'' = Some b"
    using register_all_other [OF 2, of "''bitcoin|*''"] unfolding default_key_values by (simp add: map_of_put_key)
  have miss: "map_of R (''bitcoin|'' @ m) = None" if "m \<noteq> ''*''" for m
    using register_all_other [OF 2, of "''bitcoin|'' @ m"] register_all_other [OF 1(1), of "''bitcoin|'' @ m"] that
    unfolding default_key_values by (simp add: map_of_put_key)
  have "gw_normalizeNetwork network \<noteq> []" using assms(3) by (simp add: gw_normalizeNetwork_def to_lower_def)
  then show ?thesis using hit miss [of "gw_normalizeNetwork network"] assms(2)
    by (cases "gw_normalizeNetwork network = ''*''") (simp_all add: Resolve_def Let_def bindingKey_def b_def)
qed

definition btc_binding :: "'x plugins \<Rightarrow> 'x plugin_binding" where
  "btc_binding ps = \<lparr>pb_Chain = ''bitcoin'', pb_Network = ''*'', pb_Model = ''utxo'', pb_Adapter = Some (utxo_adapter ps)\<rparr>"

lemma btc_binding_sel [simp]:
  "pb_Chain (btc_binding ps) = ''bitcoin''" "pb_Model (btc_binding ps) = ''utxo''" "pb_Adapter (btc_binding ps) = Some (utxo_adapter ps)"
  by (simp_all add: btc_binding_def)

lemma with_binding_bitcoin:
  assumes "bitcoin_gateway P T B R" "NormalizeChain chain = ''bitcoin''" "with_binding R chain network k x = (Inr a, x')"
  obtains ps where "map_of ps ''bitcoin'' = Some (bridge_adapter P (btc_plugin T B))" "k (btc_binding ps) (utxo_adapter ps) x = (Inr a, x')"
proof -
  obtain A ps where ps: "registerDefaultBindings A (utxo_adapter ps) [] = Inr R" "map_of ps ''bitcoin'' = Some (bridge_adapter P (btc_plugin T B))"
    using assms(1) by (auto simp: bitcoin_gateway_def)
  have "trim_space network \<noteq> []" using assms(3) by (auto simp: with_binding_def validateChainNetwork_def)
  then have "k (btc_binding ps) (utxo_adapter ps) x = (Inr a, x')"
    using bitcoin_binding [OF ps(1) assms(2)] assms(3)
    by (auto simp: with_binding_def validateChainNetwork_def btc_binding_def split: if_splits)
  then show ?thesis using that ps(2) by blast
qed

text \<open>What the plugin of Bitcoin answers, seen from the adapter.\<close>

lemma btc_ready: "ensureReady (btc_plugin T B) = Inr (btc_adaptor T B)"
  by (simp add: ensureReady_def btc_plugin_def NewBridgePlugin_def)

lemma bridge_call_Inr:
  "bridge_call (btc_plugin T B) f k x = (Inr b, x') \<longleftrightarrow>
     (\<exists>resp. f (btc_adaptor T B) x = (Inr resp, x') \<and> rp_Code resp = 0 \<and> b = k resp)"
  by (auto simp: bridge_call_def btc_ready expectBridgeCodeOK_def split: prod.splits sum.splits if_splits)

lemma utx_plugin_bitcoin:
  assumes "map_of ps ''bitcoin'' = Some p"
  shows "utx_plugin ps ''bitcoin'' f x = f p x"
proof -
  have "NormalizeChain ''bitcoin'' = ''bitcoin''" by code_simp
  then show ?thesis using assms by (simp add: utx_plugin_def utx_resolve_def)
qed

lemma bindX_Inr: "bindX m f x = (Inr b, x') \<longleftrightarrow> (\<exists>a y. m x = (Inr a, y) \<and> f a y = (Inr b, x'))"
  by (auto simp: bindX_def split: prod.splits sum.splits)

lemma liftX_eq [simp]: "liftX r x = (s, x') \<longleftrightarrow> r = s \<and> x = x'"
  by (auto simp: liftX_def)


section \<open>Withdrawals\<close>

lemma CalcSignHashes_empty: "CalcSignHashes T vins vouts = Inr (hashes, buf) \<Longrightarrow> buf = []"
  by (auto simp: CalcSignHashes_def bindE_eq_Inr split: if_splits)

lemma btc_unsigned_empty:
  assumes "map_of ps ''bitcoin'' = Some (bridge_adapter P (btc_plugin T B))"
    "ca_BuildUnsignedUTXO (utxo_adapter ps) ''bitcoin'' network fee vin vout x = (Inr r, x')"
  shows "br_UnsignedTx r = []"
  using assms(2)
  by (auto simp: utxo_adapter_def utx_BuildUnsignedUTXO_def utx_plugin_bitcoin [OF assms(1)] bridge_adapter_def bg_BuildUnsignedUTXO_def
      bridge_call_Inr btc_adaptor_def btc_CreateUnSignTransaction_def bindE_eq_Inr btc_ok_def dest: CalcSignHashes_empty)

lemma withRetry_Inr: "withRetry C op fn x = (Inr a, x') \<Longrightarrow> \<exists>y. fn y = (Inr a, x')"
  unfolding withRetry_def by (elim withRetry_answer) blast

text \<open>
  C28: No withdrawal on Bitcoin can be sent: a transaction the gateway builds for Bitcoin always comes back empty, because the transaction is
  never written to the buffer that is returned, and a request to send an empty unsigned transaction is refused without an effect,
  whatever its signatures are.
\<close>

theorem btc_withdrawals_never_sent:
  fixes R :: "'x router"
  assumes gw: "bitcoin_gateway P T B R" and chain: "NormalizeChain (bu_Chain inp) = ''bitcoin''"
    and built: "svc_BuildUnsigned C R inp x = (Inr r, x')"
    and send: "stx_UnsignedTx s = br_UnsignedTx r" "stx_RawTx s = []"
  shows "br_UnsignedTx r = [] \<and> (\<exists>e. svc_SendTx C b64 R s y = (Inl e, y))"
proof
  define call where "call = (\<lambda>(b :: 'x plugin_binding) (a :: 'x chain_adapter) x.
       let utxo = ca_BuildUnsignedUTXO a (pb_Chain b) (bu_Network inp) (bu_Fee inp) (bu_Vin inp) (bu_Vout inp) in
       if length (bu_Vin inp) > 0 \<or> length (bu_Vout inp) > 0 \<or> bu_Fee inp \<noteq> [] then withRetry C ''build-unsigned-utxo'' utxo x
       else
         case withRetry C ''build-unsigned-account'' (ca_BuildUnsignedAccount a (pb_Chain b) (bu_Network inp) (bu_Base64Tx inp)) x of
           (Inr r, x') \<Rightarrow> (Inr r, x')
         | (Inl e, x') \<Rightarrow>
             if \<not> ec_Unsupported C e then (Inl e, x') else withRetry C ''build-unsigned-utxo-fallback'' utxo x')"
  obtain ps where ps: "map_of ps ''bitcoin'' = Some (bridge_adapter P (btc_plugin T B))" "call (btc_binding ps) (utxo_adapter ps) x = (Inr r, x')"
    using with_binding_bitcoin [OF gw chain built [unfolded svc_BuildUnsigned_def]] unfolding call_def by blast
  have account: "withRetry C op (ca_BuildUnsignedAccount (utxo_adapter ps) c n t) z \<noteq> (Inr a, z')" for op c n t z a z'
    using withRetry_Inr by (fastforce simp: utxo_adapter_def)
  obtain op z where "withRetry C op (ca_BuildUnsignedUTXO (utxo_adapter ps) ''bitcoin'' (bu_Network inp) (bu_Fee inp) (bu_Vin inp) (bu_Vout inp)) z = (Inr r, x')"
    using ps(2) account by (auto simp: call_def Let_def split: if_splits prod.splits sum.splits)
  then show empty: "br_UnsignedTx r = []" using withRetry_Inr btc_unsigned_empty [OF ps(1)] by metis
  show "\<exists>e. svc_SendTx C b64 R s y = (Inl e, y)"
    using send empty by (simp add: svc_SendTx_def with_binding_def signed_tx_def split: sum.split option.split)
qed


section \<open>Signed transactions\<close>

text \<open>Two transactions with the same outputs that spend the same outputs.\<close>

definition outpoints :: "msg_tx \<Rightarrow> (string \<times> 32 word) list" where
  "outpoints tx = map (\<lambda>i. (mi_Hash i, mi_Index i)) (mt_TxIn tx)"

definition same_payment :: "msg_tx \<Rightarrow> msg_tx \<Rightarrow> bool" where
  "same_payment tx tx' \<longleftrightarrow> outpoints tx = outpoints tx' \<and> mt_TxOut tx = mt_TxOut tx'"

lemma same_payment_length: "same_payment tx tx' \<Longrightarrow> length (mt_TxIn tx) = length (mt_TxIn tx')"
  unfolding same_payment_def outpoints_def by (auto dest: arg_cong [where f = length])

lemma same_payment_set [simp]: "i < length (mt_TxIn tx) \<Longrightarrow> same_payment (set_script i script tx) tx0 = same_payment tx tx0"
proof -
  assume "i < length (mt_TxIn tx)"
  then have "outpoints (set_script i script tx) = outpoints tx"
    by (intro nth_equalityI) (simp_all add: outpoints_def set_script_def nth_list_update)
  moreover have "mt_TxOut (set_script i script tx) = mt_TxOut tx" by (simp add: set_script_def)
  ultimately show ?thesis by (simp add: same_payment_def)
qed

lemma spent_same: "same_payment tx tx0 \<Longrightarrow> i < length (mt_TxIn tx0) \<Longrightarrow> spent_output B (mt_TxIn tx ! i) = spent_output B (mt_TxIn tx0 ! i)"
proof -
  assume a: "same_payment tx tx0" "i < length (mt_TxIn tx0)"
  then have "outpoints tx ! i = outpoints tx0 ! i" "i < length (mt_TxIn tx)"
    using same_payment_length [OF a(1)] by (simp_all add: same_payment_def)
  then have "mi_Hash (mt_TxIn tx ! i) = mi_Hash (mt_TxIn tx0 ! i)" "mi_Index (mt_TxIn tx ! i) = mi_Index (mt_TxIn tx0 ! i)"
    using a(2) by (simp_all add: outpoints_def)
  then show ?thesis unfolding spent_output_def by (simp only:)
qed

text \<open>Input \<open>i\<close> of a transaction has been run against the script of the output it spends.\<close>

definition input_verified :: "('a, 'p) btcd \<Rightarrow> 'x btc_nodes \<Rightarrow> msg_tx \<Rightarrow> string \<Rightarrow> nat \<Rightarrow> bool" where
  "input_verified T B tx0 script i \<longleftrightarrow>
     (\<exists>txi spent y y' fromPkScript amount. same_payment txi tx0 \<and> mi_SignatureScript (mt_TxIn txi ! i) = script \<and>
        spent_output B (mt_TxIn tx0 ! i) y = (Inr spent, y') \<and> address_script T (vo_Address spent) = Inr fromPkScript \<and>
        btcToSatoshi T (vo_Value spent) = Inr amount \<and> bt_Execute T fromPkScript txi i amount = Inr ())"

lemma sign_input_verified:
  assumes s: "sign_input T B sigs pubs i tx x = (Inr tx', x')" and p: "same_payment tx tx0" and i: "i < length (mt_TxIn tx0)"
  shows "same_payment tx' tx0 \<and> input_verified T B tx0 (mi_SignatureScript (mt_TxIn tx' ! i)) i \<and>
     (\<forall>j. j \<noteq> i \<longrightarrow> mt_TxIn tx' ! j = mt_TxIn tx ! j)"
proof -
  have l: "i < length (mt_TxIn tx)" using same_payment_length [OF p] i by simp
  obtain spent y y' fromPkScript amount script where "spent_output B (mt_TxIn tx0 ! i) y = (Inr spent, y')"
    "address_script T (vo_Address spent) = Inr fromPkScript" "btcToSatoshi T (vo_Value spent) = Inr amount"
    "bt_Execute T fromPkScript (set_script i script tx) i amount = Inr ()" and t: "tx' = set_script i script tx"
    using s by (auto simp: sign_input_def bindX_Inr spent_same [OF p i] split: if_splits)
  moreover have "same_payment tx' tx0" using t p l by simp
  moreover have "\<forall>j. j \<noteq> i \<longrightarrow> mt_TxIn tx' ! j = mt_TxIn tx ! j" using t by (simp add: set_script_def)
  ultimately show ?thesis unfolding input_verified_def by blast
qed

lemma sign_inputs_verified:
  assumes "sign_inputs T B sigs pubs is tx x = (Inr tx', x')" "same_payment tx tx0" "set is \<subseteq> {..<length (mt_TxIn tx0)}" "distinct is"
  shows "same_payment tx' tx0 \<and> (\<forall>i\<in>set is. input_verified T B tx0 (mi_SignatureScript (mt_TxIn tx' ! i)) i) \<and>
     (\<forall>j. j \<notin> set is \<longrightarrow> mt_TxIn tx' ! j = mt_TxIn tx ! j)"
  using assms
proof (induction "is" arbitrary: tx x)
  case (Cons i "is")
  obtain t y where t: "sign_input T B sigs pubs i tx x = (Inr t, y)" "sign_inputs T B sigs pubs is t y = (Inr tx', x')"
    using Cons.prems(1) by (auto simp: bindX_Inr)
  have 1: "same_payment t tx0" "input_verified T B tx0 (mi_SignatureScript (mt_TxIn t ! i)) i" "\<forall>j. j \<noteq> i \<longrightarrow> mt_TxIn t ! j = mt_TxIn tx ! j"
    using sign_input_verified [OF t(1) Cons.prems(2)] Cons.prems(3) by auto
  have 2: "same_payment tx' tx0 \<and> (\<forall>i\<in>set is. input_verified T B tx0 (mi_SignatureScript (mt_TxIn tx' ! i)) i) \<and>
     (\<forall>j. j \<notin> set is \<longrightarrow> mt_TxIn tx' ! j = mt_TxIn t ! j)"
    using Cons.IH [OF t(2) 1(1)] Cons.prems(3,4) by auto
  then show ?case using 1 Cons.prems(4) by auto
qed auto

text \<open>
  C27: A signed Bitcoin transaction that is returned spends the outputs and pays the outputs of the unsigned one, there is one signature and
  one key per input, and the script of every input was run against the output it spends and accepted.
\<close>

theorem btc_signed_inputs_verified:
  assumes "btc_BuildSignedTransaction T B txData sigs pubs x = (Inr resp, x')"
  shows "\<exists>tx0 tx. bt_Deserialize T txData = Inr tx0 \<and> bt_Serialize T tx = Inr (fst (rp_Body resp)) \<and> same_payment tx tx0 \<and>
     length sigs = length (mt_TxIn tx0) \<and> length pubs = length (mt_TxIn tx0) \<and>
     (\<forall>i<length (mt_TxIn tx0). input_verified T B tx0 (mi_SignatureScript (mt_TxIn tx ! i)) i)"
proof -
  obtain tx0 tx y where t: "bt_Deserialize T txData = Inr tx0" "length sigs = length (mt_TxIn tx0)" "length pubs = length (mt_TxIn tx0)"
    "sign_inputs T B sigs pubs [0..<length (mt_TxIn tx0)] tx0 x = (Inr tx, y)" "bt_Serialize T tx = Inr (fst (rp_Body resp))"
    using assms by (auto simp: btc_BuildSignedTransaction_def bindX_Inr btc_ok_def split: if_splits)
  have "same_payment tx0 tx0" by (simp add: same_payment_def)
  moreover have "set [0..<length (mt_TxIn tx0)] \<subseteq> {..<length (mt_TxIn tx0)}" by auto
  ultimately have "same_payment tx tx0" "\<forall>i<length (mt_TxIn tx0). input_verified T B tx0 (mi_SignatureScript (mt_TxIn tx ! i)) i"
    using sign_inputs_verified [OF t(4), of tx0] by auto
  then show ?thesis using t by blast
qed


section \<open>Confirmations\<close>

text \<open>
  The documented JSON form of a protobuf message: fields in the order of their numbers with names in camel case, fields with the zero value left
  out, 64-bit numbers as strings, enumeration values by name.
\<close>

definition text_field :: "string \<Rightarrow> string \<Rightarrow> json_object" where
  "text_field k v = (if v = [] then [] else [(k, JStr v)])"

definition number_field :: "string \<Rightarrow> int \<Rightarrow> json_object" where
  "number_field k n = (if n = 0 then [] else [(k, JNum n)])"

definition long_field :: "string \<Rightarrow> nat \<Rightarrow> json_object" where
  "long_field k n = (if n = 0 then [] else [(k, JStr (nat_to_string n))])"

definition array_field :: "string \<Rightarrow> json list \<Rightarrow> json_object" where
  "array_field k xs = (if xs = [] then [] else [(k, JArr xs)])"

definition response_head :: "'b response \<Rightarrow> json_object" where
  "response_head r = (if rp_Code r = 0 then [] else [(''code'', JStr ''ERROR'')]) @ text_field ''msg'' (rp_Msg r)"

definition status_name :: "int \<Rightarrow> string" where
  "status_name n = (if n = 1 then ''Pending'' else if n = 2 then ''Failed'' else if n = 3 then ''Success''
     else if n = 4 then ''ContractExecuteFailed'' else ''Other'')"

definition status_field :: "int \<Rightarrow> json_object" where
  "status_field n = (if n = 0 then [] else [(''status'', JStr (status_name n))])"

definition message_object :: "tx_message \<Rightarrow> json_object" where
  "message_object m =
     text_field ''hash'' (tm_Hash m) @ number_field ''index'' (int (tm_Index m)) @
     array_field ''froms'' (map (\<lambda>a. JObj (text_field ''address'' a)) (tm_Froms m)) @
     array_field ''tos'' (map (\<lambda>a. JObj (text_field ''address'' a)) (tm_Tos m)) @
     text_field ''fee'' (tm_Fee m) @ status_field (tm_Status m) @
     array_field ''values'' (map (\<lambda>v. JObj (text_field ''value'' v)) (tm_Values m)) @
     number_field ''type'' (tm_Type m) @ text_field ''height'' (tm_Height m) @ text_field ''brc20Address'' (tm_Brc20Address m) @
     text_field ''datetime'' (tm_Datetime m)"

definition tx_response :: "tx_message option response \<Rightarrow> json_object" where
  "tx_response r = response_head r @ (case rp_Body r of None \<Rightarrow> [] | Some m \<Rightarrow> [(''tx'', JObj (message_object m))])"

definition unspent_object :: "unspent_output \<Rightarrow> json_object" where
  "unspent_object u =
     text_field ''txId'' (uo_TxId u) @ text_field ''txHashBigEndian'' (uo_TxHashBigEndian u) @ long_field ''txOutputN'' (uo_TxOutputN u) @
     text_field ''script'' (uo_Script u) @ text_field ''height'' (uo_Height u) @ text_field ''blockTime'' (uo_BlockTime u) @
     text_field ''address'' (uo_Address u) @ text_field ''unspentAmount'' (uo_UnspentAmount u) @ text_field ''valueHex'' (uo_ValueHex u) @
     long_field ''confirmations'' (uo_Confirmations u) @ long_field ''index'' (uo_Index u)"

definition unspent_response :: "unspent_output list response \<Rightarrow> json_object" where
  "unspent_response r = response_head r @ array_field ''unspentOutputs'' (map (JObj \<circ> unspent_object) (rp_Body r))"


lemmas field_defs = text_field_def number_field_def long_field_def array_field_def status_field_def






lemma leaf_fields [simp]:
  "string_in_fields ks (text_field k v) = []" "string_in_fields ks (number_field k n) = []" "string_in_fields ks (status_field st) = []"
  "int64_in_fields ks (text_field k v) = 0" "int64_in_fields ks (number_field k n) = 0" "int64_in_fields ks (status_field st) = 0"
  by (simp_all add: field_defs)







lemma collect_leaf [simp]: "collect_fields (text_field k v) = []" "collect_fields (long_field k n) = []"
  by (simp_all add: field_defs)










section \<open>A sample gateway\<close>

definition sample_proto :: proto_json where
  "sample_proto = \<lparr>pj_Tx = RawObject \<circ> tx_response, pj_TxList = (\<lambda>_. RawEmpty), pj_Unspent = RawObject \<circ> unspent_response\<rparr>"

text \<open>Addresses are texts, a script is its address, and a signature is accepted if its script is not empty.\<close>

definition sample_btcd :: "(string, string) btcd" where
  "sample_btcd = \<lparr>bt_Hash160 = id, bt_AddressPubKeyHash = Inr, bt_AddressWitnessPubKeyHash = Inr, bt_AddressScriptHash = Inr, bt_AddressTaproot = Inr,
     bt_EncodeAddress = id, bt_DecodeAddress = Inr, bt_IsForNet = (\<lambda>_. True), bt_PayToAddrScript = Inr, bt_ExtractPkScriptAddrs = (\<lambda>s. Inr [s]),
     bt_ParsePubKey = Inr, bt_IsCompressedPubKey = (\<lambda>_. True), bt_SerializeCompressed = id, bt_SerializeUncompressed = id, bt_SerializeSchnorr = id,
     bt_SerializeSignature = (\<lambda>r s. r @ s), bt_TwoPushes = (\<lambda>a b. Inr (a @ b)), bt_NewHashFromStr = Inr, bt_HashString = id,
     bt_CalcSignatureHash = (\<lambda>s tx i. Inr s), bt_Execute = (\<lambda>s tx i v. if mi_SignatureScript (mt_TxIn tx ! i) = [] then Inl (Errorf ''script'') else Inr ()),
     bt_Deserialize = (\<lambda>s. if s = [] then Inl (Errorf ''EOF'')
        else Inr \<lparr>mt_TxIn = [\<lparr>mi_Hash = s, mi_Index = 0, mi_SignatureScript = []\<rparr>], mt_TxOut = [\<lparr>mo_Value = 5, mo_PkScript = ''to''\<rparr>]\<rparr>),
     bt_Serialize = (\<lambda>tx. Inr (mi_SignatureScript (mt_TxIn tx ! 0))), bt_TxHash = (\<lambda>tx. mi_Hash (mt_TxIn tx ! 0)), bt_TimesPow8 = (\<lambda>v. v)\<rparr>"

text \<open>One unspent output with 9 confirmations, and a transaction that is in no block.\<close>

definition sample_btc_nodes :: "nat btc_nodes" where
  "sample_btc_nodes = \<lparr>bn_SendRawTransaction = (\<lambda>tx x. (Inr ''h'', Suc x)), bn_GetRawTransactionVerbose = (\<lambda>h x. (Inr [\<lparr>vo_Value = ''7'', vo_Address = ''from''\<rparr>], x)),
     bn_GetFee = (\<lambda>x. (Inl (Errorf ''no fee''), x)), bn_Balance = (\<lambda>u x. (HttpReply 200 [(''from'', 7)], x)),
     bn_Unspent = (\<lambda>u x. (HttpReply 200 [\<lparr>xu_TxHashBigEndian = ''hb'', xu_TxHash = ''h'', xu_TxOutputN = 0, xu_Script = ''s'', xu_Value = 7,
        xu_Confirmations = 9, xu_TxIndex = 12\<rparr>], x)),
     bn_RawAddr = (\<lambda>u x. (HttpReply 200 [], x)),
     bn_RawTx = (\<lambda>u x. (HttpReply 200 \<lparr>xt_Hash = ''h'', xt_Fee = 1, xt_Time = 2, xt_BlockHeight = 0, xt_Inputs = [''from''], xt_Out = [(''to'', 5)]\<rparr>, x))\<rparr>"

definition sample_plugins :: "nat plugins" where
  "sample_plugins = [(''bitcoin'', bridge_adapter sample_proto (btc_plugin sample_btcd sample_btc_nodes))]"

definition sample_btc_router :: "nat router" where
  "sample_btc_router = (case registerDefaultBindings (utxo_adapter []) (utxo_adapter sample_plugins) [] of Inl _ \<Rightarrow> [] | Inr r \<Rightarrow> r)"

lemma sample_btc_registered: "registerDefaultBindings (utxo_adapter []) (utxo_adapter sample_plugins) [] = Inr sample_btc_router"
proof -
  have "isl (registerDefaultBindings (utxo_adapter [] :: nat chain_adapter) V []) = False" for V by code_simp
  then show ?thesis unfolding sample_btc_router_def by (metis isl_def sum.case_eq_if sum.collapse(2))
qed

lemma sample_btc_gateway: "bitcoin_gateway sample_proto sample_btcd sample_btc_nodes sample_btc_router"
  unfolding bitcoin_gateway_def using sample_btc_registered by (fastforce simp: sample_plugins_def)

lemma bitcoin_name: "NormalizeChain ''bitcoin'' = ''bitcoin''" by code_simp

lemma sample_with_binding:
  "with_binding sample_btc_router ''bitcoin'' ''mainnet'' k x = k (btc_binding sample_plugins) (utxo_adapter sample_plugins) x"
proof -
  have "trim_space ''mainnet'' \<noteq> []" "trim_space ''bitcoin'' \<noteq> []" by code_simp+
  then show ?thesis
    using bitcoin_binding [OF sample_btc_registered bitcoin_name, of "''mainnet''"]
    by (simp add: with_binding_def validateChainNetwork_def btc_binding_def)
qed


definition sample_class :: error_class where
  "sample_class = \<lparr>ec_Transient = (\<lambda>_. False), ec_Unsupported = (\<lambda>_. False)\<rparr>"


definition sample_btc_build :: build_unsigned_input where
  "sample_btc_build = \<lparr>bu_Chain = ''bitcoin'', bu_Network = ''mainnet'', bu_Base64Tx = [], bu_Fee = ''1'',
     bu_Vin = [\<lparr>vin_Hash = ''h'', vin_Index = 0, vin_Amount = 7, vin_Address = ''f''\<rparr>], bu_Vout = [\<lparr>vout_Address = ''t'', vout_Amount = 5, vout_Index = 0\<rparr>]\<rparr>"

definition sample_btc_send :: send_tx_input where
  "sample_btc_send = \<lparr>stx_Chain = ''bitcoin'', stx_Network = ''mainnet'', stx_Coin = ''BTC'', stx_RawTx = [], stx_UnsignedTx = [],
     stx_Signatures = [''aa''], stx_PublicKeys = [''bb'']\<rparr>"

lemma pair_fst: "fst p = a \<Longrightarrow> p = (a, snd p)" by (cases p) simp

lemma sample_btc_names: "bu_Chain sample_btc_build = ''bitcoin''" "bu_Network sample_btc_build = ''mainnet''" by (simp_all add: sample_btc_build_def)

theorem btc_withdrawals_never_sent_witness:
  "\<exists>r x'. svc_BuildUnsigned sample_class sample_btc_router sample_btc_build 0 = (Inr r, x') \<and> br_SignHashes r = [''66''] \<and> br_UnsignedTx r = [] \<and>
     (\<exists>e. svc_SendTx sample_class (\<lambda>_. None) sample_btc_router sample_btc_send 0 = (Inl e, 0))"
proof -
  have "case fst (svc_BuildUnsigned sample_class sample_btc_router sample_btc_build 0) of Inl _ \<Rightarrow> False | Inr r \<Rightarrow> br_SignHashes r = [''66'']"
    unfolding svc_BuildUnsigned_def sample_btc_names sample_with_binding by code_simp
  then obtain r where r: "fst (svc_BuildUnsigned sample_class sample_btc_router sample_btc_build 0) = Inr r" and hash: "br_SignHashes r = [''66'']"
    by (auto split: sum.splits)
  note built = pair_fst [OF r]
  have empty: "br_UnsignedTx r = []"
    using btc_withdrawals_never_sent [OF sample_btc_gateway _ built, of "sample_btc_send\<lparr>stx_UnsignedTx := br_UnsignedTx r\<rparr>"]
    by (simp add: sample_btc_send_def sample_btc_build_def bitcoin_name)
  have "\<exists>e. svc_SendTx sample_class (\<lambda>_. None) sample_btc_router sample_btc_send 0 = (Inl e, 0)"
    using btc_withdrawals_never_sent [OF sample_btc_gateway _ built, of sample_btc_send] empty
    by (simp add: sample_btc_send_def sample_btc_build_def bitcoin_name)
  then show ?thesis using built hash empty by blast
qed





definition sample_btc_signed :: "(string \<times> string) response result" where
  "sample_btc_signed = fst (btc_BuildSignedTransaction sample_btcd sample_btc_nodes ''h'' [replicate 64 CHR ''s''] [''k''] 0)"

theorem btc_signed_inputs_verified_witness:
  "\<exists>resp tx0 tx. sample_btc_signed = Inr resp \<and> bt_Deserialize sample_btcd ''h'' = Inr tx0 \<and> bt_Serialize sample_btcd tx = Inr (fst (rp_Body resp)) \<and>
     same_payment tx tx0 \<and> length [replicate 64 CHR ''s''] = length (mt_TxIn tx0) \<and> length [''k''] = length (mt_TxIn tx0) \<and>
     (\<forall>i<length (mt_TxIn tx0). input_verified sample_btcd sample_btc_nodes tx0 (mi_SignatureScript (mt_TxIn tx ! i)) i)"
proof -
  have "isl sample_btc_signed = False" by code_simp
  then obtain resp where r: "sample_btc_signed = Inr resp" by (metis isl_def sum.exhaust)
  show ?thesis
    using r btc_signed_inputs_verified [OF pair_fst [OF r [unfolded sample_btc_signed_def]]] by blast
qed

end
