(* ===== verification/Spec2Isabelle.thy ===== *)
theory Spec2Isabelle
  imports Queue_Theorems Withdraw_Theorems Sign_Theorems Gateway_Theorems Core_Theorems Scan_Theorems Utxo_Theorems Chain_Theorems Evm_Signing Btc_Theorems
begin

text \<open>
  Verification of the wallet SaaS back end: a multi-tenant custody service written in Go.

  \<^bold>\<open>The program and its parts.\<close> A client calls the API gateway, which checks its token, its key
  grants and the chain policy of the tenant, makes the call idempotent and forwards it to wallet-core.
  wallet-core keeps the money: a ledger of customer accounts, deposits, withdrawals, sweeps and
  treasury transfers in Postgres, a queue of withdraw jobs, a dispatcher that works the queue, an
  orchestrator that builds, signs and broadcasts transactions, and a registry of accounts and
  addresses. It signs through the sign service, which derives one key per address from a seed per
  tenant and checks each call against its own policy. The chain gateway chooses a node for each call and
  brings the answers of the chains into one form. Two scanners, one for account chains and one for UTXO
  chains, page through the transfers it reports, keep what they have seen in tables of their own, deliver deposits to
  wallet-core through an outbox, and watch the transactions wallet-core has sent until they are final.

  \<^bold>\<open>How the code is modelled.\<close> A Go struct is a record with the same fields, a Postgres table the list
  of its rows, a statement a function on that list (\<open>Sql_Tables\<close>), a transaction a function
  \<open>database \<Rightarrow> error + database\<close> which commits or leaves the database as it was, an error a value
  \<open>Inl\<close>. Amounts are the strings the code stores; \<open>math/big\<close> parses and prints them. Indexes of keys
  are 32-bit words. Time is an argument. Code that is not in the repository (the nodes, the
  cryptography, JSON, random numbers) is an argument too: the records \<open>port\<close> (Orchestrator),
  \<open>primitives\<close> (Sign_Derive), \<open>proxy_env\<close> (Gateway_Proxy), \<open>handler\<close> (Core_Types), \<open>scan_env\<close>
  (Scan_Worker), \<open>chain_adapter\<close> (Chain_Service), \<open>node_env\<close> (Evm_Reader), \<open>geth\<close> and \<open>codec\<close> (Evm_Plugin), \<open>btcd\<close> and
  \<open>btc_nodes\<close> (Btc_Adaptor). Laws about these
  arguments are hypotheses of the theorems that need them, and each such theorem is applied to concrete
  functions that have them in its witness. A call that reads or writes several of ledger, outside world and log of
  broadcasts is a procedure over the record \<open>world\<close>; a call of a scanner is an action over the record \<open>system\<close>, which holds
  the tables of the scanner beside the whole of wallet-core.

  \<^bold>\<open>Theories.\<close>

  \<^item> Prelude: results, Go's string functions and decimal numbers. Sql_Tables: tables, statements, and
    the locale \<open>unique_table\<close> of a table with a unique key, interpreted on the tables of every service.

  \<^item> Ports: \<open>internal/ports/ports.go\<close> of wallet-core.

  \<^item> The ledger, \<open>internal/adapters/ledger/postgres.go\<close>. Ledger_Amounts: decimal strings and deposit
    statuses. Ledger_State: the twelve tables and the statements operations share. Ledger_Accounts:
    the locale \<open>account_store\<close>, the contract of the balance tables, interpreted on customer and vault
    balances. Ledger_Withdraw, Ledger_Deposit, Ledger_Treasury, Ledger_Queue: one definition per
    operation. Ledger_Spec: abstract accounts and the accounting equations. Ledger_Withdraw_Effects:
    the refinement of the abstract account by the withdraw operations. Ledger_Machine: the step relation
    with one rule per operation, the reachable ledgers and their invariants. Ledger_Theorems and Queue_Theorems:
    the properties.

  \<^item> Orchestrator: \<open>internal/orchestrator\<close>; Dispatcher: \<open>internal/dispatcher\<close>; their properties are in
    Withdraw_Theorems.

  \<^item> The sign service. Sign_Keys: \<open>hd/keyref.go\<close>; Sign_Policy: \<open>policy/engine.go\<close>; Sign_Derive:
    \<open>hd/derive.go\<close> and \<open>crypto\<close>; Sign_Vault: \<open>keystore\<close>, \<open>hsm/slot.go\<close>, \<open>hsm/software.go\<close> and \<open>custody\<close>;
    Sign_Server: \<open>transport/grpc\<close>; properties in Sign_Theorems.

  \<^item> The API gateway. Idempotency: the idempotency stores of the gateway and of wallet-core, two
    interpretations of the locale \<open>idem_store\<close>. Gateway_Security: \<open>internal/security/postgres.go\<close>;
    Gateway_Proxy: \<open>internal/transport/http\<close>; properties in Gateway_Theorems.

  \<^item> The registry. Registry: \<open>internal/adapters/registry/postgres.go\<close> and \<open>hd.go\<close> of wallet-core;
    Registry_Machine: its step relation and invariant; properties in Registry_Theorems.

  \<^item> The HTTP interface of wallet-core. Core_Types: \<open>handler_types.go\<close>, \<open>handler_auth.go\<close>,
    \<open>handler_retry.go\<close>, \<open>hdpub/ecdsa.go\<close>; Core_Http: every handler; properties in Core_Theorems.

  \<^item> The scanner of account chains. Scan_Store: its tables and statements, \<open>store/postgres.go\<close>; Scan_Utils:
    \<open>worker/scanner_utils.go\<close>; Scan_Worker: the rest of \<open>worker\<close> and the client of wallet-core, which calls the
    handlers of Core_Http and can lose a request or its answer; Scan_Invariants: the locale \<open>scan_invariant\<close>, a predicate
    that every statement keeps and therefore every tick, interpreted on well-formedness and on closed events; properties in Scan_Theorems.

  \<^item> The scanner of UTXO chains. Utxo_Scan: what it does differently; properties in Utxo_Theorems.

  \<^item> The chain gateway. Chain_Normalize: \<open>normalize\<close> and \<open>clients/classifier.go\<close>; Chain_Endpoints: \<open>controlplane\<close> and \<open>endpoint\<close>,
    with the manager as a step relation; Chain_Service: \<open>dispatcher\<close>, \<open>service\<close> and the client of the scanner; properties in Chain_Theorems.

  \<^item> Its chains. Evm_Reader: \<open>account/chains/evm/rpc_reader.go\<close>, the calls of a node; Evm_Plugin: \<open>account/chains/evm/plugin.go\<close> and
    \<open>account/adapter.go\<close>; properties in Evm_Theorems (pages of transfers) and Evm_Signing (transactions). Utxo_Bridge: \<open>utxo/adapter.go\<close> and
    \<open>utxo/bridge_plugin.go\<close>; Btc_Adaptor: \<open>utxo/chains/bitcoin\<close>; properties in Btc_Theorems.

  \<^bold>\<open>What is shown.\<close>

  \<^item> Money. In every reachable ledger the balances of each account and vault are what its orders add up to, and
    none is negative. A freeze never overdraws, repeated calls change nothing, a
    release undoes a freeze, a confirmed withdrawal settles, statuses only move forward,
    deposits refine an abstract transition and do not depend on the order of notifications.

  \<^item> The queue and the dispatcher. One job per sender at a time, one broadcast or none per
    attempt, bounds on the retry delay, fees of replacements, signatures matched
    with their keys, exact display amounts.

  \<^item> The sign service. Round trip of key ids, derivation paths, the rate limit,
    authorisation of signatures, agreement of public and private derivation, seeds that
    never change, custody, tenants.

  \<^item> The gateway. What a forwarded request has passed, the withdraw limit, idempotency.

  \<^item> Components together. The registry and the sign service agree on every key; keys are
    never shared between accounts; a treasury transfer moves money once; the withdraw
    endpoint queues new orders only, signed with keys of the account.

  \<^item> The scanners. Every tick keeps the tables well formed, and the page loops end. A deposit has the same
    stage in the scanner and in the ledger. An outgoing order is settled or failed only on a final answer of the chain, and a
    withdrawal with enough confirmations is settled by the next check.

  \<^item> The chain gateway. A call gets an endpoint that is in service if there is one; the circuit of an endpoint
    opens at the threshold and not before, in every reachable state of the manager. On EVM chains a page of transfers passes through
    the plugin and the normalisation unchanged, following the cursor reads every block once, and the transaction that is sent is the one whose
    hash was signed. A signed Bitcoin transaction has passed the scripts of the outputs it spends.

  \<^item> Defects of the code, each proved to happen: an account whose locked amount exceeds
    its balance refuses every operation; a release trusts the account it is given; a settled sweep that is started again is
    credited again; overlapping claims of two instants can share a sender; a repeated queue request replaces the payment of
    a job; a job is sent whatever the state of its order; an address on a second network takes over the
    row of the first; a repeated sweep request broadcasts again; the account scanner drops every confirmation of a deposit after the
    first delivery, and credits a transfer without an index again when its place on the page changes; the UTXO scanner opens a finished sweep
    again at each confirmation and never finalises a deposit; the gateway never reports a transaction as missing; an EVM page without
    transfers is reported as one transfer per block; no Bitcoin withdrawal can be sent; and the confirmations of a Bitcoin transaction are lost
    between the explorer and the scanner.

  \<^bold>\<open>Bounds and fuel.\<close> No definition uses fuel beyond what the code has: loops over lists are structural recursion or folds, the retry loops
  count their attempts down, and the page loops of the scanners count the configured number of pages down. The goroutines of a scan run one
  after the other, in an order that is an argument. The goroutines of a dispatcher batch run in an arbitrary order, given as
  a permutation; overlapping claims of the queue are modelled as a first claim that has locked its rows
  and not committed yet.

  \<^bold>\<open>Not modelled.\<close> Schema migrations and seed rows; the ticker loops around the rounds of the dispatcher;
  configuration, bootstrap, mocks and generated gRPC code; the PKCS 11 and cloud backends of the sign
  service, which are library calls; the adapters of the chain gateway for the chains that are neither EVM chains nor Bitcoin, which are clients of
  remote nodes over third-party libraries; the calls of the Bitcoin adaptor that read blocks; the rate limiter of the scanner's client and its pauses.
\<close>

end
